(* ===== verification/Prelude.thy ===== *)
theory Prelude
  imports Complex_Main "HOL-Library.Sublist"
begin

text \<open>
  Shared vocabulary of the development: the rule collections the component theories fill,
  fallible computations as sums (\<open>Inl\<close> the thrown error, \<open>Inr\<close> the value) with their
  sequencing operators, and the list operations of the JavaScript standard library that the
  sources use (\<open>Array.prototype.slice\<close>, \<open>find\<close>, \<open>reduce\<close>).
\<close>

named_theorems js_simps \<open>evaluation of runtime values\<close>
named_theorems num_simps \<open>laws and bounds of numbers\<close>
named_theorems num_eval \<open>evaluation of closed numbers\<close>

subsection \<open>Throwing computations\<close>

text \<open>
  \<open>seqE m f\<close> is ``run \<open>m\<close>, then \<open>f\<close> on its value'': a thrown error skips the rest.
  \<open>catchE m h\<close> is \<open>try { m } catch (e) { h(e) }\<close>.
\<close>

fun seqE :: "'e + 'a \<Rightarrow> ('a \<Rightarrow> 'e + 'b) \<Rightarrow> 'e + 'b" where
  "seqE (Inl e) f = Inl e"
| "seqE (Inr x) f = f x"

fun catchE :: "'e + 'a \<Rightarrow> ('e \<Rightarrow> 'f + 'a) \<Rightarrow> 'f + 'a" where
  "catchE (Inl e) h = h e"
| "catchE (Inr x) h = Inr x"

fun mapE :: "('a \<Rightarrow> 'e + 'b) \<Rightarrow> 'a list \<Rightarrow> 'e + 'b list" where
  "mapE f [] = Inr []"
| "mapE f (x # xs) = seqE (f x) (\<lambda>y. seqE (mapE f xs) (\<lambda>ys. Inr (y # ys)))"

fun filterE :: "('a \<Rightarrow> 'e + bool) \<Rightarrow> 'a list \<Rightarrow> 'e + 'a list" where
  "filterE p [] = Inr []"
| "filterE p (x # xs) =
     seqE (p x) (\<lambda>b. seqE (filterE p xs) (\<lambda>ys. Inr (if b then x # ys else ys)))"

lemma seqE_Inr_iff [simp]: "seqE m f = Inr y \<longleftrightarrow> (\<exists>x. m = Inr x \<and> f x = Inr y)"
  by (cases m) auto

lemma seqE_Inl_iff: "seqE m f = Inl e \<longleftrightarrow> m = Inl e \<or> (\<exists>x. m = Inr x \<and> f x = Inl e)"
  by (cases m) auto

lemma seqE_assoc: "seqE (seqE m f) g = seqE m (\<lambda>x. seqE (f x) g)"
  by (cases m) auto

lemma mapE_total: "(\<And>x. x \<in> set xs \<Longrightarrow> f x = Inr (g x)) \<Longrightarrow> mapE f xs = Inr (map g xs)"
  by (induction xs) auto

lemma mapE_ex: "(\<And>x. x \<in> set xs \<Longrightarrow> \<exists>y. f x = Inr y) \<Longrightarrow> \<exists>ys. mapE f xs = Inr ys"
proof (induction xs)
  case (Cons x xs)
  then obtain y ys where "f x = Inr y" "mapE f xs = Inr ys" by fastforce
  then show ?case by simp
qed simp

lemma filterE_total: "(\<And>x. x \<in> set xs \<Longrightarrow> p x = Inr (q x)) \<Longrightarrow> filterE p xs = Inr (filter q xs)"
  by (induction xs) auto

lemma mapE_length: "mapE f xs = Inr ys \<Longrightarrow> length ys = length xs"
  by (induction xs arbitrary: ys) auto

lemma filterE_subset: "filterE p xs = Inr ys \<Longrightarrow> set ys \<subseteq> set xs"
  by (induction xs arbitrary: ys) (auto split: if_splits)

subsection \<open>Array operations\<close>

text \<open>
  \<open>slice_idx n i\<close> is how \<open>Array.prototype.slice\<close> and \<open>String.prototype.slice\<close> read a
  relative index over a length: from the end when negative, clamped to the bounds.
\<close>

definition slice_idx :: "nat \<Rightarrow> int \<Rightarrow> nat" where
  "slice_idx n i = (if i < 0 then nat (max 0 (int n + i)) else min n (nat i))"

definition slice :: "'a list \<Rightarrow> int \<Rightarrow> int \<Rightarrow> 'a list" where
  "slice xs i j = take (slice_idx (length xs) j - slice_idx (length xs) i)
     (drop (slice_idx (length xs) i) xs)"

lemma slice_nonneg:
  "slice xs (int a) (int b) = take (b - a) (drop a xs)"
  by (cases "a \<le> length xs"; cases "b \<le> length xs")
    (auto simp: slice_def slice_idx_def min_def)

lemma slice_prefix [simp]: "slice xs 0 (int b) = take b xs"
  using slice_nonneg [of xs 0 b] by simp

lemma length_slice_le: "length (slice xs i j) \<le> length xs"
  by (simp add: slice_def)

lemma set_slice_subset: "set (slice xs i j) \<subseteq> set xs"
  by (auto simp: slice_def dest: in_set_takeD in_set_dropD)

lemma sublist_slice: "sublist (slice xs i j) xs"
  unfolding slice_def by (meson sublist_drop sublist_take sublist_order.order.trans)

lemma find_Some_in: "find p xs = Some x \<Longrightarrow> x \<in> set xs \<and> p x"
  by (induction xs) (auto split: if_splits)

fun first_some :: "('a \<Rightarrow> 'b option) \<Rightarrow> 'a list \<Rightarrow> 'b option" where
  "first_some f [] = None"
| "first_some f (x # xs) = (case f x of Some y \<Rightarrow> Some y | None \<Rightarrow> first_some f xs)"

lemma first_some_SomeD: "first_some f xs = Some y \<Longrightarrow> \<exists>x\<in>set xs. f x = Some y"
  by (induction xs) (auto split: option.splits)

lemma first_some_ex: "x \<in> set xs \<Longrightarrow> f x = Some y \<Longrightarrow> \<exists>z. first_some f xs = Some z"
  by (induction xs) (auto split: option.splits)

fun index_from :: "nat \<Rightarrow> 'a list \<Rightarrow> (nat \<times> 'a) list" where
  "index_from n [] = []"
| "index_from n (x # xs) = (n, x) # index_from (Suc n) xs"

lemma length_index_from [simp]: "length (index_from n xs) = length xs"
  by (induction xs arbitrary: n) auto

lemma map_snd_index_from [simp]: "map snd (index_from n xs) = xs"
  by (induction xs arbitrary: n) auto

end
