(* ===== verification/JsNumber.thy ===== *)
theory JsNumber
  imports Prelude "HOL-Library.Log_Nat"
begin

text \<open>
  JavaScript numbers. A finite number is the rational value of an IEEE-754 binary64
  datum; every arithmetic operation is the exact rational operation followed by rounding
  to nearest, ties to even (\<open>rnd\<close>), and overflows to an infinity. Negative zero is
  identified with zero: no source file uses \<open>Object.is\<close>, and a zero the sources divide by is the size
  of a window or the sum of two opposite numbers, which is never the negative one.
\<close>

subsection \<open>Powers of two and the binary exponent\<close>

definition pow2 :: "int \<Rightarrow> rat" where
  "pow2 e = (if 0 \<le> e then 2 ^ nat e else 1 / 2 ^ nat (- e))"

lemma pow2_powi: "pow2 e = 2 powi e"
  by (simp add: pow2_def power_int_def inverse_eq_divide power_divide)

lemma pow2_pos [simp]: "0 < pow2 e"
  by (simp add: pow2_powi)

lemma pow2_nonneg [simp]: "0 \<le> pow2 e"
  by (simp add: pow2_powi)

lemma pow2_neq_0 [simp]: "pow2 e \<noteq> 0"
  by (simp add: pow2_powi)

lemma pow2_add: "pow2 (a + b) = pow2 a * pow2 b"
  by (simp add: pow2_powi power_int_add)

lemma pow2_diff: "pow2 (a - b) = pow2 a / pow2 b"
  by (simp add: pow2_powi power_int_diff)

lemma pow2_strict: "a < b \<Longrightarrow> pow2 a < pow2 b"
  by (simp add: pow2_powi power_int_strict_increasing)

lemma pow2_less_iff [simp]: "pow2 a < pow2 b \<longleftrightarrow> a < b"
  using pow2_strict by (metis linorder_neqE order_less_asym)

lemma pow2_le_iff [simp]: "pow2 a \<le> pow2 b \<longleftrightarrow> a \<le> b"
  using pow2_less_iff [of b a] by (simp add: not_less [symmetric] del: pow2_less_iff)

lemma pow2_int: "0 \<le> e \<Longrightarrow> pow2 e = of_int (2 ^ nat e)"
  by (simp add: pow2_def)

definition ilog2 :: "rat \<Rightarrow> int" where
  "ilog2 x = (if 1 \<le> x then bitlen \<lfloor>x\<rfloor> - 1 else - bitlen (\<lceil>1 / x\<rceil> - 1))"

lemma bitlen_upper: "0 \<le> n \<Longrightarrow> of_int n < pow2 (bitlen n)"
proof -
  assume "0 \<le> n"
  show ?thesis
  proof (cases "n = 0")
    case False
    with \<open>0 \<le> n\<close> have "n < 2 ^ nat (bitlen n)" using bitlen_bounds [of n] by simp
    then have "(of_int n :: rat) < of_int (2 ^ nat (bitlen n))" by (simp only: of_int_less_iff)
    then show ?thesis by (simp add: pow2_int bitlen_nonneg)
  qed (simp add: pow2_def bitlen_def)
qed

lemma bitlen_lower: "0 < n \<Longrightarrow> pow2 (bitlen n - 1) \<le> of_int n"
proof -
  assume n: "0 < n"
  then have "2 ^ nat (bitlen n - 1) \<le> n" using bitlen_bounds [of n] by simp
  then have "(of_int (2 ^ nat (bitlen n - 1)) :: rat) \<le> of_int n" by (simp only: of_int_le_iff)
  moreover have "0 \<le> bitlen n - 1" using n bitlen_bounds [of n] bitlen_nonneg [of n] by (cases "bitlen n = 0") auto
  ultimately show ?thesis by (simp add: pow2_int)
qed

lemma ilog2_bounds:
  assumes "0 < x"
  shows "pow2 (ilog2 x) \<le> x" and "x < pow2 (ilog2 x + 1)"
proof -
  have "pow2 (ilog2 x) \<le> x \<and> x < pow2 (ilog2 x + 1)"
  proof (cases "1 \<le> x")
    case True
    then have f: "1 \<le> \<lfloor>x\<rfloor>" by (simp add: le_floor_iff)
    have "pow2 (bitlen \<lfloor>x\<rfloor> - 1) \<le> of_int \<lfloor>x\<rfloor>" using f by (intro bitlen_lower) simp
    also have "\<dots> \<le> x" by simp
    finally have lo: "pow2 (bitlen \<lfloor>x\<rfloor> - 1) \<le> x" .
    have "\<lfloor>x\<rfloor> < 2 ^ nat (bitlen \<lfloor>x\<rfloor>)" using f bitlen_bounds [of "\<lfloor>x\<rfloor>"] by simp
    then have "\<lfloor>x\<rfloor> + 1 \<le> 2 ^ nat (bitlen \<lfloor>x\<rfloor>)" by simp
    then have "(of_int (\<lfloor>x\<rfloor> + 1) :: rat) \<le> of_int (2 ^ nat (bitlen \<lfloor>x\<rfloor>))" by (simp only: of_int_le_iff)
    moreover have "x < of_int (\<lfloor>x\<rfloor> + 1)" using floor_correct [of x] by simp
    ultimately have "x < pow2 (bitlen \<lfloor>x\<rfloor>)" by (simp add: pow2_int bitlen_nonneg)
    with lo True show ?thesis by (simp add: ilog2_def)
  next
    case False
    define c where "c = \<lceil>1 / x\<rceil> - 1"
    have "1 < 1 / x" using False assms by (simp add: field_simps)
    then have "1 < \<lceil>1 / x\<rceil>" by (simp add: less_ceiling_iff)
    then have c1: "1 \<le> c" by (simp add: c_def)
    have "(of_int c :: rat) < 1 / x" using ceiling_correct [of "1 / x"] by (simp add: c_def)
    then have "pow2 (bitlen c - 1) < 1 / x" using bitlen_lower [of c] c1 by simp
    then have "pow2 (bitlen c) * x < 2"
      using assms pow2_diff [of "bitlen c" 1] by (simp add: field_simps pow2_def [of 1])
    also have "2 = pow2 (bitlen c) * pow2 (- bitlen c + 1)"
      using pow2_add [of "bitlen c" "- bitlen c + 1"] by (simp add: pow2_def [of 1])
    finally have up: "x < pow2 (- bitlen c + 1)" by simp
    have "c < 2 ^ nat (bitlen c)" using c1 bitlen_bounds [of c] by simp
    then have "c + 1 \<le> 2 ^ nat (bitlen c)" by simp
    then have "(of_int (c + 1) :: rat) \<le> of_int (2 ^ nat (bitlen c))" by (simp only: of_int_le_iff)
    moreover have "1 / x \<le> of_int (c + 1)" by (simp add: c_def)
    ultimately have "1 / x \<le> pow2 (bitlen c)" by (simp add: pow2_int bitlen_nonneg)
    then have "pow2 (bitlen c) * pow2 (- bitlen c) \<le> pow2 (bitlen c) * x"
      using assms pow2_add [of "bitlen c" "- bitlen c"] by (simp add: field_simps pow2_def [of 0])
    then have "pow2 (- bitlen c) \<le> x" by simp
    with up show ?thesis using False by (simp add: ilog2_def c_def)
  qed
  then show "pow2 (ilog2 x) \<le> x" and "x < pow2 (ilog2 x + 1)" by auto
qed

lemma ilog2_unique: "pow2 k \<le> x \<Longrightarrow> x < pow2 (k + 1) \<Longrightarrow> ilog2 x = k"
proof -
  assume a: "pow2 k \<le> x" "x < pow2 (k + 1)"
  then have "0 < x" using pow2_pos [of k] by linarith
  from ilog2_bounds [OF this] a have "pow2 k < pow2 (ilog2 x + 1)" "pow2 (ilog2 x) < pow2 (k + 1)"
    by linarith+
  then show ?thesis by simp
qed

lemma ilog2_less: "0 < x \<Longrightarrow> x < pow2 k \<Longrightarrow> ilog2 x < k"
proof -
  assume "0 < x" "x < pow2 k"
  with ilog2_bounds(1) [of x] have "pow2 (ilog2 x) < pow2 k" by linarith
  then show ?thesis by simp
qed

lemma ilog2_mono: "0 < x \<Longrightarrow> x \<le> y \<Longrightarrow> ilog2 x \<le> ilog2 y"
proof -
  assume a: "0 < x" "x \<le> y"
  then have "pow2 (ilog2 x) < pow2 (ilog2 y + 1)"
    using ilog2_bounds(1) [of x] ilog2_bounds(2) [of y] by linarith
  then show ?thesis by simp
qed

subsection \<open>Rounding to nearest, ties to even\<close>

definition rhe :: "rat \<Rightarrow> int" where
  "rhe y = (let f = \<lfloor>y\<rfloor>; d = y - of_int f
            in if d < 1 / 2 then f else if 1 / 2 < d then f + 1 else if even f then f else f + 1)"

lemma rhe_of_int [simp]: "rhe (of_int n) = n"
  by (simp add: rhe_def)

lemma rhe_floor: "rhe y = \<lfloor>y\<rfloor> \<or> rhe y = \<lfloor>y\<rfloor> + 1"
  by (simp add: rhe_def Let_def)

lemma rhe_mono: assumes "x \<le> y" shows "rhe x \<le> rhe y"
proof (cases "\<lfloor>x\<rfloor> = \<lfloor>y\<rfloor>")
  case True
  with assms show ?thesis by (auto simp: rhe_def Let_def)
next
  case False
  with floor_mono [OF assms] have "\<lfloor>x\<rfloor> + 1 \<le> \<lfloor>y\<rfloor>" by simp
  with rhe_floor [of x] rhe_floor [of y] show ?thesis by auto
qed

lemma rhe_le_int: "x \<le> of_int n \<Longrightarrow> rhe x \<le> n"
  using rhe_mono [of x "of_int n"] by simp

lemma int_le_rhe: "of_int n \<le> x \<Longrightarrow> n \<le> rhe x"
  using rhe_mono [of "of_int n" x] by simp

lemma rhe_minus: "rhe (- y) = - rhe y"
proof -
  define f where "f = \<lfloor>y\<rfloor>"
  have f: "of_int f \<le> y" "y < of_int f + 1"
    using floor_correct [of y] by (auto simp: f_def)
  show ?thesis
  proof (cases "y = of_int f")
    case True
    have "rhe (- y) = rhe (of_int (- f))" using True by simp
    also have "\<dots> = - f" by (rule rhe_of_int)
    finally show ?thesis using True by simp
  next
    case False
    with f have "\<lfloor>- y\<rfloor> = - f - 1" by (intro floor_unique) auto
    with f show ?thesis by (auto simp: rhe_def Let_def f_def [symmetric])
  qed
qed

text \<open>
  \<open>uexp x\<close> is the exponent of the unit in the last place: 53 significant bits, and never
  below the least subnormal.
\<close>

definition uexp :: "rat \<Rightarrow> int" where
  "uexp x = max (ilog2 \<bar>x\<bar> - 52) (- 1074)"

definition rnd :: "rat \<Rightarrow> rat" where
  "rnd x = (if x = 0 then 0 else of_int (rhe (x / pow2 (uexp x))) * pow2 (uexp x))"

definition is_double :: "rat \<Rightarrow> bool" where
  "is_double r \<longleftrightarrow> (\<exists>m k. r = of_int m * pow2 k \<and> \<bar>m\<bar> \<le> 2 ^ 53 \<and> - 1074 \<le> k)"

lemma rnd_0 [simp]: "rnd 0 = 0"
  by (simp add: rnd_def)

lemma rnd_minus [simp]: "rnd (- x) = - rnd x"
  by (simp add: rnd_def uexp_def rhe_minus)

lemma rnd_below:
  assumes "0 < x" and "x \<le> of_int n * pow2 (uexp x)"
  shows "rnd x \<le> of_int n * pow2 (uexp x)"
proof -
  have "x / pow2 (uexp x) \<le> of_int n" using assms(2) by (simp add: divide_le_eq)
  then have "rhe (x / pow2 (uexp x)) \<le> n" by (rule rhe_le_int)
  then have "(of_int (rhe (x / pow2 (uexp x))) :: rat) \<le> of_int n" by simp
  then have "of_int (rhe (x / pow2 (uexp x))) * pow2 (uexp x) \<le> of_int n * pow2 (uexp x)"
    by (intro mult_right_mono) simp_all
  with assms(1) show ?thesis by (simp add: rnd_def)
qed

lemma rnd_above:
  assumes "0 < x" and "of_int n * pow2 (uexp x) \<le> x"
  shows "of_int n * pow2 (uexp x) \<le> rnd x"
proof -
  have "of_int n \<le> x / pow2 (uexp x)" using assms(2) by (simp add: le_divide_eq)
  then have "n \<le> rhe (x / pow2 (uexp x))" by (rule int_le_rhe)
  then have "(of_int n :: rat) \<le> of_int (rhe (x / pow2 (uexp x)))" by simp
  then have "of_int n * pow2 (uexp x) \<le> of_int (rhe (x / pow2 (uexp x))) * pow2 (uexp x)"
    by (intro mult_right_mono) simp_all
  with assms(1) show ?thesis by (simp add: rnd_def)
qed

lemma rnd_nonneg: "0 \<le> x \<Longrightarrow> 0 \<le> rnd x"
  using rnd_above [of x 0] by (cases "x = 0") auto

lemma pow2_multiple: "b \<le> a \<Longrightarrow> pow2 a = of_int (2 ^ nat (a - b)) * pow2 b"
  using pow2_add [of "a - b" b] by (simp add: pow2_int)

lemma rnd_mono_pos:
  assumes "0 < x" and "x \<le> y"
  shows "rnd x \<le> rnd y"
proof (cases "uexp x = uexp y")
  case True
  have "x / pow2 (uexp y) \<le> y / pow2 (uexp y)" using assms(2) by (simp add: divide_right_mono)
  then have "(of_int (rhe (x / pow2 (uexp y))) :: rat) \<le> of_int (rhe (y / pow2 (uexp y)))"
    using rhe_mono by simp
  then show ?thesis using assms True by (simp add: rnd_def mult_right_mono)
next
  case False
  have m: "ilog2 x \<le> ilog2 y" using assms by (rule ilog2_mono)
  with False assms have lt: "ilog2 x < ilog2 y" and ey: "uexp y = ilog2 y - 52" and le: "uexp x \<le> uexp y"
    by (auto simp: uexp_def max_def split: if_splits)
  define p where "p = pow2 (ilog2 y)"
  have "x < pow2 (ilog2 x + 1)" using assms(1) by (rule ilog2_bounds)
  also have "\<dots> \<le> p" using lt by (simp add: p_def)
  finally have xp: "x < p" .
  have py: "p \<le> y" using assms unfolding p_def by (intro ilog2_bounds) simp
  have px: "p = of_int (2 ^ nat (ilog2 y - uexp x)) * pow2 (uexp x)"
    unfolding p_def using le ey by (intro pow2_multiple) simp
  have py': "p = of_int (2 ^ nat (ilog2 y - uexp y)) * pow2 (uexp y)"
    unfolding p_def using ey by (intro pow2_multiple) simp
  have "rnd x \<le> p" using rnd_below [OF assms(1)] xp px by (metis less_imp_le)
  also have "p \<le> rnd y" using rnd_above [of y] assms py py' by (metis less_le_trans)
  finally show ?thesis .
qed

lemma rnd_mono: assumes "x \<le> y" shows "rnd x \<le> rnd y"
proof -
  consider "0 < x" | "x \<le> 0" "0 \<le> y" | "y < 0" by linarith
  then show ?thesis
  proof cases
    case 1
    then show ?thesis using assms by (rule rnd_mono_pos)
  next
    case 2
    then have "0 \<le> rnd (- x)" "0 \<le> rnd y" by (simp_all add: rnd_nonneg del: rnd_minus)
    then show ?thesis by simp
  next
    case 3
    then show ?thesis using rnd_mono_pos [of "- y" "- x"] assms by simp
  qed
qed

lemma rnd_multiple:
  assumes "x \<noteq> 0" and "x = of_int n * pow2 k" and "uexp x \<le> k"
  shows "rnd x = x"
proof -
  have "x = of_int (n * 2 ^ nat (k - uexp x)) * pow2 (uexp x)"
    using assms(2) pow2_multiple [OF assms(3)] by (simp add: mult.assoc)
  then have "x / pow2 (uexp x) = of_int (n * 2 ^ nat (k - uexp x))"
    by (metis nonzero_mult_div_cancel_right pow2_neq_0)
  then have "rnd x = of_int (n * 2 ^ nat (k - uexp x)) * pow2 (uexp x)"
    using assms(1) by (simp add: rnd_def del: of_int_mult)
  with \<open>x = of_int (n * 2 ^ nat (k - uexp x)) * pow2 (uexp x)\<close> show ?thesis by simp
qed

lemma rnd_small_mantissa:
  assumes "\<bar>m\<bar> < 2 ^ 53" and "- 1074 \<le> k"
  shows "rnd (of_int m * pow2 k) = of_int m * pow2 k"
proof (cases "m = 0")
  case False
  let ?x = "of_int m * pow2 k"
  have x0: "?x \<noteq> 0" using False by simp
  have "\<bar>of_int m :: rat\<bar> < of_int (2 ^ 53)" using assms(1) by linarith
  then have "\<bar>of_int m :: rat\<bar> < pow2 53" by (simp add: pow2_def)
  then have "\<bar>?x\<bar> < pow2 (53 + k)" by (simp add: abs_mult pow2_add)
  then have "ilog2 \<bar>?x\<bar> < 53 + k" using x0 by (intro ilog2_less) simp_all
  then have "uexp ?x \<le> k" using assms(2) by (simp add: uexp_def)
  then show ?thesis by (rule rnd_multiple [OF x0 refl])
qed simp

lemma rnd_double [simp]: "is_double r \<Longrightarrow> rnd r = r"
proof -
  assume "is_double r"
  then obtain m k where r: "r = of_int m * pow2 k" and m: "\<bar>m\<bar> \<le> 2 ^ 53" and k: "- 1074 \<le> k"
    by (auto simp: is_double_def)
  show ?thesis
  proof (cases "\<bar>m\<bar> < 2 ^ 53")
    case True
    then show ?thesis using r k rnd_small_mantissa by simp
  next
    case False
    define s :: int where "s = (if m < 0 then - 1 else 1)"
    have "m = s * 2 ^ 53" using False m by (auto simp: s_def)
    then have "r = of_int s * pow2 (53 + k)" using r by (simp add: pow2_add pow2_def [of 53])
    moreover have "rnd (of_int s * pow2 (53 + k)) = of_int s * pow2 (53 + k)"
      using k by (intro rnd_small_mantissa) (simp_all add: s_def)
    ultimately show ?thesis by simp
  qed
qed

lemma is_double_int [intro]: "\<bar>n\<bar> \<le> 2 ^ 53 \<Longrightarrow> is_double (of_int n)"
  unfolding is_double_def by (rule exI [of _ n], rule exI [of _ 0]) (simp add: pow2_def)

lemma is_double_scaled: "\<bar>m\<bar> \<le> 2 ^ 53 \<Longrightarrow> k \<le> 1074 \<Longrightarrow> is_double (of_int m / 2 ^ k)"
  unfolding is_double_def by (rule exI [of _ m], rule exI [of _ "- int k"]) (simp add: pow2_def)

lemma rnd_int [simp, num_simps]: "\<bar>n\<bar> \<le> 2 ^ 53 \<Longrightarrow> rnd (of_int n) = of_int n"
  by (simp add: is_double_int)

lemma rnd_le: "x \<le> r \<Longrightarrow> is_double r \<Longrightarrow> rnd x \<le> r"
  using rnd_mono [of x r] by simp

lemma le_rnd: "r \<le> x \<Longrightarrow> is_double r \<Longrightarrow> r \<le> rnd x"
  using rnd_mono [of r x] by simp

subsection \<open>The number type and its operations\<close>

datatype number = NaN | PosInf | NegInf | Fin rat

definition overflow :: rat where
  \<comment> \<open>the least magnitude that rounds to an infinity\<close>
  "overflow = 2 ^ 1024"

definition to_number :: "rat \<Rightarrow> number" where
  \<comment> \<open>an exact result as the number it is stored as\<close>
  "to_number x = (let r = rnd x in
     if overflow \<le> r then PosInf else if r \<le> - overflow then NegInf else Fin r)"

abbreviation nint :: "int \<Rightarrow> number" where
  "nint n \<equiv> Fin (of_int n)"

fun nneg :: "number \<Rightarrow> number" where
  "nneg (Fin x) = Fin (- x)"
| "nneg PosInf = NegInf"
| "nneg NegInf = PosInf"
| "nneg NaN = NaN"

fun nadd :: "number \<Rightarrow> number \<Rightarrow> number" where
  "nadd (Fin x) (Fin y) = to_number (x + y)"
| "nadd NaN _ = NaN"
| "nadd _ NaN = NaN"
| "nadd PosInf NegInf = NaN"
| "nadd NegInf PosInf = NaN"
| "nadd PosInf _ = PosInf"
| "nadd NegInf _ = NegInf"
| "nadd _ y = y"

definition nsub :: "number \<Rightarrow> number \<Rightarrow> number" where
  "nsub a b = nadd a (nneg b)"

definition inf_of_sign :: "rat \<Rightarrow> number" where
  "inf_of_sign x = (if x = 0 then NaN else if 0 < x then PosInf else NegInf)"

fun nmul :: "number \<Rightarrow> number \<Rightarrow> number" where
  "nmul (Fin x) (Fin y) = to_number (x * y)"
| "nmul NaN _ = NaN"
| "nmul _ NaN = NaN"
| "nmul (Fin x) PosInf = inf_of_sign x"
| "nmul (Fin x) NegInf = inf_of_sign (- x)"
| "nmul PosInf (Fin y) = inf_of_sign y"
| "nmul NegInf (Fin y) = inf_of_sign (- y)"
| "nmul PosInf PosInf = PosInf"
| "nmul PosInf NegInf = NegInf"
| "nmul NegInf PosInf = NegInf"
| "nmul NegInf NegInf = PosInf"

fun ndiv :: "number \<Rightarrow> number \<Rightarrow> number" where
  "ndiv (Fin x) (Fin y) = (if y = 0 then inf_of_sign x else to_number (x / y))"
| "ndiv NaN _ = NaN"
| "ndiv _ NaN = NaN"
| "ndiv (Fin x) _ = Fin 0"
| "ndiv PosInf (Fin y) = (if y = 0 then PosInf else inf_of_sign y)"
| "ndiv NegInf (Fin y) = (if y = 0 then NegInf else inf_of_sign (- y))"
| "ndiv _ _ = NaN"

fun nless :: "number \<Rightarrow> number \<Rightarrow> bool" where
  "nless NaN _ = False"
| "nless _ NaN = False"
| "nless (Fin x) (Fin y) = (x < y)"
| "nless NegInf y = (y \<noteq> NegInf)"
| "nless PosInf _ = False"
| "nless (Fin _) y = (y = PosInf)"

fun nleq :: "number \<Rightarrow> number \<Rightarrow> bool" where
  "nleq NaN _ = False"
| "nleq _ NaN = False"
| "nleq (Fin x) (Fin y) = (x \<le> y)"
| "nleq NegInf _ = True"
| "nleq PosInf y = (y = PosInf)"
| "nleq (Fin _) y = (y = PosInf)"

fun nfloor :: "number \<Rightarrow> number" where
  \<comment> \<open>\<open>Math.floor\<close>\<close>
  "nfloor (Fin x) = Fin (of_int \<lfloor>x\<rfloor>)"
| "nfloor y = y"

fun nmin :: "number \<Rightarrow> number \<Rightarrow> number" where
  \<comment> \<open>\<open>Math.min\<close> of two arguments\<close>
  "nmin NaN _ = NaN"
| "nmin _ NaN = NaN"
| "nmin x y = (if nless y x then y else x)"

fun nmax :: "number \<Rightarrow> number \<Rightarrow> number" where
  \<comment> \<open>\<open>Math.max\<close> of two arguments\<close>
  "nmax NaN _ = NaN"
| "nmax _ NaN = NaN"
| "nmax x y = (if nless x y then y else x)"

definition ntruthy :: "number \<Rightarrow> bool" where
  "ntruthy n = (n \<noteq> NaN \<and> n \<noteq> Fin 0)"

fun to_integer :: "number \<Rightarrow> int" where
  \<comment> \<open>\<open>ToIntegerOrInfinity\<close> of an array index argument; infinities saturate past any length\<close>
  "to_integer NaN = 0"
| "to_integer (Fin x) = (if x < 0 then \<lceil>x\<rceil> else \<lfloor>x\<rfloor>)"
| "to_integer PosInf = 2 ^ 53"
| "to_integer NegInf = - (2 ^ 53)"

lemma int_below_overflow: assumes "m \<le> 2 ^ 53" shows "of_int m < overflow"
proof -
  have "(of_int m :: rat) \<le> of_int (2 ^ 53)" using assms by (simp only: of_int_le_iff)
  also have "\<dots> < of_int (2 ^ 1024)"
    by (simp only: of_int_less_iff) (rule power_strict_increasing, simp_all)
  also have "\<dots> = overflow" by (simp only: overflow_def of_int_power of_int_numeral)
  finally show ?thesis .
qed

lemma to_number_int [simp, num_simps]:
  assumes "\<bar>n\<bar> \<le> 2 ^ 53" shows "to_number (of_int n) = nint n"
proof -
  have "of_int n < overflow" "of_int (- n) < overflow"
    using assms by (intro int_below_overflow; linarith)+
  with assms show ?thesis by (simp add: to_number_def Let_def)
qed

lemma nadd_int [simp, num_simps]:
  "\<bar>a + b\<bar> \<le> 2 ^ 53 \<Longrightarrow> nadd (nint a) (nint b) = nint (a + b)"
  using to_number_int [of "a + b"] by simp

lemma nmul_int [simp, num_simps]:
  "\<bar>a * b\<bar> \<le> 2 ^ 53 \<Longrightarrow> nmul (nint a) (nint b) = nint (a * b)"
  using to_number_int [of "a * b"] by simp

lemma to_number_bounded:
  assumes "\<bar>x\<bar> \<le> 2 ^ 53" shows "to_number x = Fin (rnd x)"
proof -
  have d: "is_double (of_int (2 ^ 53))" by (rule is_double_int) simp
  have "rnd x \<le> of_int (2 ^ 53)" "rnd (- x) \<le> of_int (2 ^ 53)"
    using assms by (intro rnd_le d; simp)+
  moreover have "of_int (2 ^ 53) < overflow" by (rule int_below_overflow) simp
  ultimately show ?thesis by (simp add: to_number_def Let_def)
qed

subsection \<open>Evaluation of closed numbers by the simplifier\<close>

text \<open>
  The collection \<open>num_eval\<close> computes a closed operation: floors and ceilings of quotients of
  numerals, bit lengths digit by digit, and the definitions of the rounding.
\<close>

lemma floor_quotient [num_eval]:
  "\<lfloor>numeral a / numeral b :: rat\<rfloor> = numeral a div numeral b"
  "\<lfloor>1 / numeral b :: rat\<rfloor> = 1 div numeral b"
  "\<lfloor>- (numeral a / numeral b) :: rat\<rfloor> = - numeral a div numeral b"
  "\<lfloor>- (1 / numeral b) :: rat\<rfloor> = - 1 div numeral b"
  using floor_divide_of_int_eq [where 'a = rat, of "numeral a" "numeral b"]
    floor_divide_of_int_eq [where 'a = rat, of "1" "numeral b"]
    floor_divide_of_int_eq [where 'a = rat, of "- numeral a" "numeral b"]
    floor_divide_of_int_eq [where 'a = rat, of "- 1" "numeral b"]
  by simp_all

lemma ceiling_quotient [num_eval]:
  "\<lceil>numeral a / numeral b :: rat\<rceil> = - (- numeral a div numeral b)"
  "\<lceil>1 / numeral b :: rat\<rceil> = - (- 1 div numeral b)"
  using floor_quotient(3) [of a b] floor_quotient(4) [of b] by (simp_all add: ceiling_def)

lemma bitlen_numeral [num_eval]:
  "bitlen 1 = 1"
  "bitlen (numeral num.One) = 1"
  "bitlen (numeral (num.Bit0 n)) = bitlen (numeral n) + 1"
  "bitlen (numeral (num.Bit1 n)) = bitlen (numeral n) + 1"
  by (subst compute_bitlen, simp)+

lemmas [num_eval] = ilog2_def pow2_def uexp_def rhe_def rnd_def to_number_def overflow_def Let_def

end
