(* ===== verification/JsText.thy ===== *)
theory JsText
  imports JsNumber
begin

text \<open>
  JavaScript strings and the conversions between strings and numbers. A string is a
  \<^typ>\<open>char list\<close>; a character outside ASCII stands as the bytes of its UTF-8 encoding, so
  that equality, concatenation and substring search agree with the source. Lengths and
  slices count the same on ASCII text, which is what the sources index into (identifiers,
  ISO dates, URLs). \<open>toLowerCase\<close> maps the ASCII letters.
\<close>

subsection \<open>Searching, cutting and trimming\<close>

definition is_ws :: "char \<Rightarrow> bool" where
  "is_ws c = (c \<in> {CHR '' '', CHR 0x09, CHR 0x0A, CHR 0x0B, CHR 0x0C, CHR 0x0D})"

definition trim_start :: "string \<Rightarrow> string" where
  "trim_start s = dropWhile is_ws s"

definition trim :: "string \<Rightarrow> string" where
  "trim s = rev (dropWhile is_ws (rev (dropWhile is_ws s)))"

definition lower_char :: "char \<Rightarrow> char" where
  "lower_char c = (let n = of_char c :: nat in if 65 \<le> n \<and> n \<le> 90 then char_of (n + 32) else c)"

definition to_lower :: "string \<Rightarrow> string" where
  "to_lower s = map lower_char s"

fun str_includes :: "string \<Rightarrow> string \<Rightarrow> bool" where
  \<comment> \<open>\<open>s.includes(t)\<close>\<close>
  "str_includes [] t = (t = [])"
| "str_includes (c # s) t = (prefix t (c # s) \<or> str_includes s t)"

lemma includes_sublist: "str_includes s t \<longleftrightarrow> sublist t s"
  by (induction s) (auto simp: sublist_Cons_right)

definition starts_with :: "string \<Rightarrow> string \<Rightarrow> bool" where
  "starts_with s t = prefix t s"

fun split_char :: "char \<Rightarrow> string \<Rightarrow> string list" where
  \<comment> \<open>\<open>s.split(c)\<close> for a one-character separator\<close>
  "split_char c [] = [[]]"
| "split_char c (x # s) =
     (if x = c then [] # split_char c s
      else case split_char c s of [] \<Rightarrow> [[x]] | p # ps \<Rightarrow> (x # p) # ps)"

fun join :: "string \<Rightarrow> string list \<Rightarrow> string" where
  \<comment> \<open>\<open>parts.join(sep)\<close>\<close>
  "join sep [] = []"
| "join sep [x] = x"
| "join sep (x # y # xs) = x @ sep @ join sep (y # xs)"

definition text_lines :: "string list \<Rightarrow> string" where
  "text_lines = join [CHR 0x0A]"

definition dq :: "string \<Rightarrow> string" where
  \<comment> \<open>a text in double quotes\<close>
  "dq s = [CHR 0x22] @ s @ [CHR 0x22]"

definition unlines :: "string list \<Rightarrow> string" where
  "unlines ls = concat (map (\<lambda>l. l @ [CHR 0x0A]) ls)"

definition strip_slash :: "string \<Rightarrow> string" where
  \<comment> \<open>\<open>s.replace(/\/$/, "")\<close>: one trailing slash\<close>
  "strip_slash s = (if s \<noteq> [] \<and> last s = CHR ''/'' then butlast s else s)"

definition strip_slashes :: "string \<Rightarrow> string" where
  \<comment> \<open>\<open>s.replace(/\/+$/, "")\<close>: every trailing slash\<close>
  "strip_slashes s = rev (dropWhile (\<lambda>c. c = CHR ''/'') (rev s))"

lemma split_char_nonempty [simp]: "split_char c s \<noteq> []"
  by (induction s) (auto split: list.split)

lemma join_split_char [simp]: "join [c] (split_char c s) = s"
proof (induction s)
  case (Cons x s)
  then show ?case
    by (cases "split_char c s"; cases "tl (split_char c s)") (auto split: list.splits)
qed simp

lemma split_char_no: "c \<notin> set s \<Longrightarrow> split_char c s = [s]"
  by (induction s) auto

lemma split_char_append: "c \<notin> set s \<Longrightarrow> split_char c (s @ c # t) = s # split_char c t"
  by (induction s) auto

lemma split_join:
  "xs \<noteq> [] \<Longrightarrow> \<forall>x\<in>set xs. c \<notin> set x \<Longrightarrow> split_char c (join [c] xs) = xs"
  by (induction "[c]" xs rule: join.induct) (auto simp: split_char_no split_char_append)

lemma strip_slashes_no_slash: "strip_slashes s \<noteq> [] \<Longrightarrow> last (strip_slashes s) \<noteq> CHR ''/''"
  using hd_dropWhile [of "\<lambda>c. c = CHR ''/''" "rev s"]
  by (simp add: strip_slashes_def last_rev)

lemma to_lower_append [simp]: "to_lower (s @ t) = to_lower s @ to_lower t"
  by (simp add: to_lower_def)

lemma to_lower_Nil [simp]: "to_lower [] = [] " and to_lower_eq_Nil [simp]: "to_lower s = [] \<longleftrightarrow> s = []"
  by (simp_all add: to_lower_def)

subsection \<open>Decimal digits\<close>

definition digit_char :: "nat \<Rightarrow> char" where
  "digit_char d = char_of (48 + d)"

definition is_digit :: "char \<Rightarrow> bool" where
  "is_digit c = (48 \<le> (of_char c :: nat) \<and> (of_char c :: nat) \<le> 57)"

definition digit_val :: "char \<Rightarrow> nat" where
  "digit_val c = of_char c - 48"

fun show_nat :: "nat \<Rightarrow> string" where
  "show_nat n = (if n < 10 then [digit_char n] else show_nat (n div 10) @ [digit_char (n mod 10)])"

declare show_nat.simps [simp del]

definition show_int :: "int \<Rightarrow> string" where
  "show_int i = (if i < 0 then CHR ''-'' # show_nat (nat (- i)) else show_nat (nat i))"

definition digits_val :: "string \<Rightarrow> nat" where
  "digits_val s = foldl (\<lambda>a c. 10 * a + digit_val c) 0 s"

lemma digit_char_props:
  assumes "d < 10"
  shows "is_digit (digit_char d)" and "digit_val (digit_char d) = d"
  using assms by (simp_all add: digit_char_def is_digit_def digit_val_def)

lemma foldl_digits:
  "foldl (\<lambda>a c. 10 * a + digit_val c) a t =
     a * 10 ^ length t + foldl (\<lambda>a c. 10 * a + digit_val c) 0 t"
proof (induction t arbitrary: a)
  case (Cons c t)
  show ?case
    using Cons.IH [of "10 * a + digit_val c"] Cons.IH [of "digit_val c"]
    by (simp add: algebra_simps)
qed simp

lemma digits_val_append: "digits_val (s @ t) = digits_val s * 10 ^ length t + digits_val t"
  unfolding digits_val_def foldl_append by (rule foldl_digits)

lemma show_nat_digits [simp]: "list_all is_digit (show_nat n)"
proof (induction n rule: show_nat.induct)
  case (1 n)
  then show ?case
    by (cases "n < 10") (simp_all add: show_nat.simps [of n] digit_char_props)
qed

lemma digits_val_show_nat [simp]: "digits_val (show_nat n) = n"
proof (induction n rule: show_nat.induct)
  case (1 n)
  show ?case
  proof (cases "n < 10")
    case True
    then show ?thesis by (simp add: show_nat.simps [of n] digits_val_def digit_char_props)
  next
    case False
    with 1 show ?thesis
      by (simp add: show_nat.simps [of n] digits_val_append) (simp add: digits_val_def digit_char_props)
  qed
qed

lemma show_nat_nonempty [simp]: "show_nat n \<noteq> []"
  by (simp add: show_nat.simps [of n])

lemma show_nat_inj [simp]: "show_nat m = show_nat n \<longleftrightarrow> m = n"
  by (metis digits_val_show_nat)

lemma hd_show_nat_pos: "0 < n \<Longrightarrow> hd (show_nat n) \<noteq> CHR ''0''"
proof (induction n rule: show_nat.induct)
  case (1 n)
  show ?case
  proof (cases "n < 10")
    case True
    with 1 have "(of_char (hd (show_nat n)) :: nat) = 48 + n"
      by (simp add: show_nat.simps [of n] digit_char_def)
    then show ?thesis using 1 by auto
  next
    case False
    with 1 show ?thesis by (simp add: show_nat.simps [of n])
  qed
qed

lemma length_show_nat: "n < 10 ^ k \<Longrightarrow> 0 < k \<Longrightarrow> length (show_nat n) \<le> k"
proof (induction k arbitrary: n)
  case (Suc k)
  show ?case
  proof (cases "n < 10")
    case True
    then show ?thesis by (simp add: show_nat.simps [of n])
  next
    case False
    with Suc.prems have "n div 10 < 10 ^ k" "0 < k" by (auto intro: gr0I)
    then have "length (show_nat (n div 10)) \<le> k" by (rule Suc.IH)
    with False show ?thesis by (simp add: show_nat.simps [of n])
  qed
qed simp

lemma length_show_nat_ge: "10 ^ k \<le> n \<Longrightarrow> k < length (show_nat n)"
proof (induction k arbitrary: n)
  case (Suc k)
  have "10 ^ k \<le> n div 10" using Suc.prems by (auto simp: less_eq_div_iff_mult_less_eq)
  moreover have "\<not> n < 10" using Suc.prems one_le_power [of "10::nat" k]
    by (simp only: power_Suc) linarith
  ultimately show ?case using Suc.IH [of "n div 10"] by (simp add: show_nat.simps [of n])
qed simp

subsection \<open>Numbers to strings\<close>

text \<open>
  \<open>Number::toString\<close>: the shortest decimal that reads back as the number, laid out by the
  position of its decimal point. \<open>dexp x\<close> is that position for the number itself,
  \<open>pick k x\<close> tries \<open>k\<close> significant digits, and seventeen are always tried last.
\<close>

definition pow10 :: "int \<Rightarrow> rat" where
  "pow10 e = (if 0 \<le> e then 10 ^ nat e else 1 / 10 ^ nat (- e))"

definition dexp :: "rat \<Rightarrow> int" where
  "dexp x = (if 1 \<le> x then int (length (show_nat (nat \<lfloor>x\<rfloor>)))
     else 1 - int (length (show_nat (nat (\<lceil>1 / x\<rceil> - 1)))))"

definition pick :: "rat \<Rightarrow> nat \<Rightarrow> (int \<times> int) option" where
  "pick x k = (let e = dexp x - int k; u = pow10 e; f = \<lfloor>x / u\<rfloor>; d = x / u - of_int f;
       lo = (0 < f \<and> rnd (of_int f * u) = x); hi = (rnd (of_int (f + 1) * u) = x)
     in if lo \<and> hi then Some (if d < 1 / 2 \<or> d = 1 / 2 \<and> even f then f else f + 1, e)
        else if lo then Some (f, e) else if hi then Some (f + 1, e) else None)"

definition shortest :: "rat \<Rightarrow> (int \<times> int) option" where
  "shortest x = first_some (pick x) [1..<18]"

definition strip_zeros :: "string \<Rightarrow> string" where
  "strip_zeros ds = rev (dropWhile (\<lambda>c. c = CHR ''0'') (rev ds))"

definition lay_out :: "int \<Rightarrow> int \<Rightarrow> string" where
  "lay_out s e =
    (let full = show_nat (nat s); ds = strip_zeros full;
         k = int (length ds); n = int (length full) + e
     in if k \<le> n \<and> n \<le> 21 then ds @ replicate (nat (n - k)) (CHR ''0'')
        else if 0 < n \<and> n \<le> 21 then take (nat n) ds @ ''.'' @ drop (nat n) ds
        else if - 6 < n \<and> n \<le> 0 then ''0.'' @ replicate (nat (- n)) (CHR ''0'') @ ds
        else (if k = 1 then ds else take 1 ds @ ''.'' @ drop 1 ds) @ ''e'' @
          (if n - 1 < 0 then ''-'' else ''+'') @ show_nat (nat \<bar>n - 1\<bar>))"

definition show_pos :: "rat \<Rightarrow> string" where
  "show_pos x = (case shortest x of Some (s, e) \<Rightarrow> lay_out s e
     | None \<Rightarrow> let e = dexp x - 17 in lay_out \<lfloor>x / pow10 e\<rfloor> e)"

fun num_to_string :: "number \<Rightarrow> string" where
  "num_to_string NaN = ''NaN''"
| "num_to_string PosInf = ''Infinity''"
| "num_to_string NegInf = ''-Infinity''"
| "num_to_string (Fin x) =
     (if x = 0 then ''0'' else if x < 0 then ''-'' @ show_pos (- x) else show_pos x)"

subsection \<open>Strings to numbers\<close>

definition read_exp :: "string \<Rightarrow> int \<times> string" where
  \<comment> \<open>an optional exponent part; without digits nothing is consumed\<close>
  "read_exp r = (case r of [] \<Rightarrow> (0, r) | c # t \<Rightarrow>
     if c \<in> {CHR ''e'', CHR ''E''} then
       let neg = (t \<noteq> [] \<and> hd t = CHR ''-'');
           t' = (if t \<noteq> [] \<and> hd t \<in> {CHR ''-'', CHR ''+''} then tl t else t);
           ds = takeWhile is_digit t'
       in if ds = [] then (0, r)
          else ((if neg then - int (digits_val ds) else int (digits_val ds)), dropWhile is_digit t')
     else (0, r))"

definition read_frac :: "string \<Rightarrow> string \<times> string" where
  \<comment> \<open>an optional fraction part: the digits after a point\<close>
  "read_frac r = (case r of [] \<Rightarrow> ([], r) | c # t \<Rightarrow>
     if c = CHR ''.'' then (takeWhile is_digit t, dropWhile is_digit t) else ([], r))"

definition dec_value :: "string \<Rightarrow> string \<Rightarrow> int \<Rightarrow> rat" where
  "dec_value ip fp e = of_nat (digits_val (ip @ fp)) * pow10 (e - int (length fp))"

definition read_decimal :: "string \<Rightarrow> (rat \<times> string) option" where
  "read_decimal s = (let ip = takeWhile is_digit s; r = dropWhile is_digit s; (fp, r2) = read_frac r
     in if ip = [] \<and> fp = [] then None
        else let (e, r3) = read_exp r2 in Some (dec_value ip fp e, r3))"

definition read_signed :: "string \<Rightarrow> (number \<times> string) option" where
  "read_signed s = (let neg = (s \<noteq> [] \<and> hd s = CHR ''-'');
       t = (if s \<noteq> [] \<and> hd s \<in> {CHR ''-'', CHR ''+''} then tl s else s);
       sg = (if neg then nneg else id)
     in if prefix ''Infinity'' t then Some (sg PosInf, drop 8 t)
        else case read_decimal t of None \<Rightarrow> None | Some (x, r) \<Rightarrow> Some (sg (to_number x), r))"

definition parse_float :: "string \<Rightarrow> number" where
  \<comment> \<open>\<open>parseFloat\<close>: the longest numeric prefix\<close>
  "parse_float s = (case read_signed (trim_start s) of None \<Rightarrow> NaN | Some (n, _) \<Rightarrow> n)"

definition string_to_number :: "string \<Rightarrow> number" where
  \<comment> \<open>\<open>Number(s)\<close> on a decimal literal: the whole trimmed text, empty text is zero\<close>
  "string_to_number s = (let t = trim s in if t = [] then Fin 0
     else case read_signed t of Some (n, []) \<Rightarrow> n | _ \<Rightarrow> NaN)"

definition parse_int10 :: "string \<Rightarrow> number" where
  \<comment> \<open>\<open>parseInt(s, 10)\<close>\<close>
  "parse_int10 s = (let t = trim_start s; neg = (t \<noteq> [] \<and> hd t = CHR ''-'');
       u = (if t \<noteq> [] \<and> hd t \<in> {CHR ''-'', CHR ''+''} then tl t else t); ds = takeWhile is_digit u
     in if ds = [] then NaN
        else to_number (if neg then - of_nat (digits_val ds) else of_nat (digits_val ds)))"

definition pad_left :: "nat \<Rightarrow> string \<Rightarrow> string" where
  "pad_left w s = replicate (w - length s) (CHR ''0'') @ s"

definition to_fixed_pos :: "nat \<Rightarrow> rat \<Rightarrow> string" where
  "to_fixed_pos d x = (let n = nat \<lfloor>x * 10 ^ d + 1 / 2\<rfloor>; ds = pad_left (d + 1) (show_nat n)
     in if d = 0 then show_nat n
        else take (length ds - d) ds @ ''.'' @ drop (length ds - d) ds)"

definition to_fixed :: "nat \<Rightarrow> number \<Rightarrow> string" where
  \<comment> \<open>\<open>n.toFixed(d)\<close>\<close>
  "to_fixed d n = (case n of Fin x \<Rightarrow>
      if 10 ^ 21 \<le> \<bar>x\<bar> then num_to_string n
      else if x < 0 then ''-'' @ to_fixed_pos d (- x) else to_fixed_pos d x
    | _ \<Rightarrow> num_to_string n)"

lemma show_nat_numeral [num_eval]:
  "show_nat 0 = ''0''" "show_nat 1 = ''1''"
  "show_nat (numeral n) = (if (numeral n :: nat) < 10 then [digit_char (numeral n)]
     else show_nat (numeral n div 10) @ [digit_char (numeral n mod 10)])"
  by (simp_all add: show_nat.simps [of "numeral n"] show_nat.simps [of 0] show_nat.simps [of "Suc 0"]
      digit_char_def char_of_eq_iff)

lemmas [num_eval] = char_of_eq_iff digit_char_def is_digit_def digit_val_def digits_val_def

end
