(* ===== verification/JsDecimal.thy ===== *)
theory JsDecimal
  imports JsText
begin

text \<open>
  Printing a number and reading it back: the text \<open>num_to_string\<close> lays out denotes exactly
  the decimal it was given, and the decimal was chosen so that it rounds to the number. The
  round trips of JSON texts and of form fields rest on these lemmas.
\<close>

subsection \<open>Powers of ten\<close>

lemma pow10_powi: "pow10 e = 10 powi e"
  by (simp add: pow10_def power_int_def inverse_eq_divide power_divide)

lemma pow10_pos [simp]: "0 < pow10 e"
  by (simp add: pow10_powi)

lemma pow10_0 [simp]: "pow10 0 = 1"
  by (simp add: pow10_def)

lemma pow10_add: "pow10 (a + b) = pow10 a * pow10 b"
  by (simp add: pow10_powi power_int_add)

lemma pow10_nat [simp]: "pow10 (int n) = 10 ^ n"
  by (simp add: pow10_def)

lemma power_mult_pow10: "10 ^ n * pow10 e = pow10 (int n + e)"
  by (simp add: pow10_add)

subsection \<open>Digits\<close>

definition stops :: "string \<Rightarrow> bool" where
  "stops r = (case r of [] \<Rightarrow> True
     | c # _ \<Rightarrow> \<not> is_digit c \<and> c \<noteq> CHR ''.'' \<and> c \<noteq> CHR ''e'' \<and> c \<noteq> CHR ''E'')"

definition no_digit :: "string \<Rightarrow> bool" where
  "no_digit r = (case r of [] \<Rightarrow> True | c # _ \<Rightarrow> \<not> is_digit c)"

lemma stops_no_digit [simp]: "stops r \<Longrightarrow> no_digit r"
  by (auto simp: stops_def no_digit_def split: list.splits)

lemma no_digit_Cons [simp]: "no_digit (c # r) = (\<not> is_digit c)"
  by (simp add: no_digit_def)

lemma not_digit_lits [simp]:
  "\<not> is_digit (CHR ''.'')" "\<not> is_digit (CHR ''e'')" "\<not> is_digit (CHR ''E'')"
  "\<not> is_digit (CHR ''-'')" "\<not> is_digit (CHR ''+'')" "is_digit (CHR ''0'')" "digit_val (CHR ''0'') = 0"
  by (simp_all add: is_digit_def digit_val_def)

lemma span_digits [simp]:
  assumes "list_all is_digit ds" and "no_digit r"
  shows "takeWhile is_digit (ds @ r) = ds" and "dropWhile is_digit (ds @ r) = r"
  using assms by (cases r; auto simp: takeWhile_append list_all_iff dropWhile_append takeWhile_tail)+

lemma digits_val_Nil [simp]: "digits_val [] = 0"
  by (simp add: digits_val_def)

lemma digits_val_zeros_left: "digits_val (replicate z (CHR ''0'') @ ds) = digits_val ds"
  by (induction z) (simp_all add: digits_val_def)

lemma digits_val_zeros_right: "digits_val (ds @ replicate z (CHR ''0'')) = digits_val ds * 10 ^ z"
  using digits_val_zeros_left [of z "[]"] by (simp add: digits_val_append)

lemma strip_zeros_split:
  "\<exists>z. ds = strip_zeros ds @ replicate z (CHR ''0'')"
proof -
  let ?P = "\<lambda>c. c = CHR ''0''"
  have "ds = strip_zeros ds @ rev (takeWhile ?P (rev ds))"
    by (metis rev_append rev_rev_ident strip_zeros_def takeWhile_dropWhile_id)
  moreover have "takeWhile ?P (rev ds) = replicate (length (takeWhile ?P (rev ds))) (CHR ''0'')"
    by (rule replicate_length_same [symmetric]) (auto dest: set_takeWhileD)
  ultimately show ?thesis by (metis rev_replicate)
qed

lemma strip_zeros_show:
  assumes "0 < n"
  obtains z where "show_nat n = strip_zeros (show_nat n) @ replicate z (CHR ''0'')"
    and "n = digits_val (strip_zeros (show_nat n)) * 10 ^ z"
    and "strip_zeros (show_nat n) \<noteq> []"
    and "list_all is_digit (strip_zeros (show_nat n))"
proof -
  obtain z where z: "show_nat n = strip_zeros (show_nat n) @ replicate z (CHR ''0'')"
    using strip_zeros_split by blast
  then have "n = digits_val (strip_zeros (show_nat n)) * 10 ^ z"
    by (metis digits_val_show_nat digits_val_zeros_right)
  moreover from this have "strip_zeros (show_nat n) \<noteq> []" using assms by force
  moreover have "list_all is_digit (strip_zeros (show_nat n))"
    using show_nat_digits [of n] by (subst (asm) z) (simp only: list_all_append)
  ultimately show thesis using that z by blast
qed

subsection \<open>Reading the layouts\<close>

lemma dec_value_0: "dec_value ip [] 0 = of_nat (digits_val ip)"
  by (simp add: dec_value_def)

lemma read_decimal_parts:
  assumes "list_all is_digit ip" "ip \<noteq> []" "no_digit r"
    and "read_frac r = (fp, r2)" "read_exp r2 = (e, r3)"
  shows "read_decimal (ip @ r) = Some (dec_value ip fp e, r3)"
  using assms by (simp add: read_decimal_def)

lemma read_frac_stop: "stops r \<Longrightarrow> read_frac r = ([], r)"
  by (auto simp: read_frac_def stops_def split: list.splits)

lemma read_exp_stop: "stops r \<Longrightarrow> read_exp r = (0, r)"
  by (auto simp: read_exp_def stops_def split: list.splits)

lemma read_frac_digits: "list_all is_digit fp \<Longrightarrow> no_digit r \<Longrightarrow> read_frac (CHR ''.'' # fp @ r) = (fp, r)"
  by (simp add: read_frac_def)

lemma read_exp_printed:
  assumes "no_digit r"
  shows "read_exp (CHR ''e'' # (if n < 0 then ''-'' else ''+'') @ show_nat (nat \<bar>n\<bar>) @ r) = (n, r)"
  using assms by (simp add: read_exp_def Let_def)

lemma read_frac_exp: "read_frac (CHR ''e'' # t) = ([], CHR ''e'' # t)"
  by (simp add: read_frac_def)

text \<open>Every layout of \<open>s * 10\<^sup>e\<close> denotes it.\<close>

lemma read_decimal_lay_out:
  assumes s: "0 < s" and r: "stops r"
  shows "read_decimal (lay_out s e @ r) = Some (of_int s * pow10 e, r)"
proof -
  let ?full = "show_nat (nat s)" and ?ds = "strip_zeros (show_nat (nat s))"
  obtain z where z: "?full = ?ds @ replicate z (CHR ''0'')" "nat s = digits_val ?ds * 10 ^ z"
      "?ds \<noteq> []" "list_all is_digit ?ds"
    using s strip_zeros_show [of "nat s"] by auto
  let ?k = "int (length ?ds)" and ?n = "int (length ?full) + e"
  have n: "?n = ?k + int z + e" using arg_cong [OF z(1), of length] by simp
  have "of_int s = (of_nat (nat s) :: rat)" using s by simp
  also have "\<dots> = of_nat (digits_val ?ds) * 10 ^ z" by (subst z(2)) simp
  finally have "of_int s * pow10 e = of_nat (digits_val ?ds) * pow10 (int z + e)"
    by (simp add: power_mult_pow10 mult.assoc)
  then have val: "of_int s * pow10 e = of_nat (digits_val ?ds) * pow10 (?n - ?k)" using n by simp
  have k: "0 < ?k" using z(3) by simp
  have nd: "no_digit r" using r by simp
  consider (a) "?k \<le> ?n \<and> ?n \<le> 21" | (b) "\<not> (?k \<le> ?n \<and> ?n \<le> 21)" "0 < ?n \<and> ?n \<le> 21"
    | (c) "\<not> (?k \<le> ?n \<and> ?n \<le> 21)" "\<not> (0 < ?n \<and> ?n \<le> 21)" "- 6 < ?n \<and> ?n \<le> 0"
    | (d) "\<not> (?k \<le> ?n \<and> ?n \<le> 21)" "\<not> (0 < ?n \<and> ?n \<le> 21)" "\<not> (- 6 < ?n \<and> ?n \<le> 0)"
    by blast
  then show ?thesis
  proof cases
    case a
    let ?zs = "replicate (nat (?n - ?k)) (CHR ''0'')"
    have "lay_out s e = ?ds @ ?zs" using a by (simp add: lay_out_def Let_def)
    moreover have "read_decimal ((?ds @ ?zs) @ r) = Some (dec_value (?ds @ ?zs) [] 0, r)"
      using z nd by (intro read_decimal_parts [OF _ _ _ read_frac_stop [OF r] read_exp_stop [OF r]]) (auto simp: list_all_iff)
    ultimately show ?thesis using a val
      by (simp add: dec_value_def digits_val_zeros_right pow10_def)
  next
    case b
    let ?m = "nat ?n"
    have "lay_out s e = take ?m ?ds @ ''.'' @ drop ?m ?ds" using b by (simp add: lay_out_def Let_def)
    moreover have "read_decimal (take ?m ?ds @ CHR ''.'' # drop ?m ?ds @ r) =
        Some (dec_value (take ?m ?ds) (drop ?m ?ds) 0, r)"
      using z b k nd by (intro read_decimal_parts [OF _ _ _ read_frac_digits read_exp_stop [OF r]])
        (auto simp: list_all_iff dest: in_set_takeD in_set_dropD)
    moreover have "int (length (drop ?m ?ds)) = ?k - ?n" using b by simp
    ultimately show ?thesis using val by (simp add: dec_value_def)
  next
    case c
    let ?zs = "replicate (nat (- ?n)) (CHR ''0'')"
    have "lay_out s e = ''0'' @ CHR ''.'' # (?zs @ ?ds)" using c by (simp add: lay_out_def Let_def)
    moreover have "read_decimal (''0'' @ CHR ''.'' # (?zs @ ?ds) @ r) = Some (dec_value ''0'' (?zs @ ?ds) 0, r)"
      using z nd by (intro read_decimal_parts [OF _ _ _ read_frac_digits read_exp_stop [OF r]]) (auto simp: list_all_iff)
    moreover have "digits_val (''0'' @ ?zs @ ?ds) = digits_val ?ds"
      using digits_val_zeros_left [of "Suc (nat (- ?n))" ?ds] by simp
    ultimately show ?thesis using val c by (simp add: dec_value_def algebra_simps)
  next
    case d
    let ?x = "CHR ''e'' # (if ?n - 1 < 0 then ''-'' else ''+'') @ show_nat (nat \<bar>?n - 1\<bar>)"
    have ex: "read_exp (?x @ r) = (?n - 1, r)" using read_exp_printed [OF nd, of "?n - 1"] by simp
    show ?thesis
    proof (cases "?k = 1")
      case True
      have "lay_out s e = ?ds @ ?x" by (simp only: lay_out_def Let_def if_not_P [OF d(1)] if_not_P [OF d(2)] if_not_P [OF d(3)]
            if_P [OF True] append_Cons append_Nil)
      moreover have "read_decimal (?ds @ ?x @ r) = Some (dec_value ?ds [] (?n - 1), r)"
        using z ex by (intro read_decimal_parts [OF _ _ _ _ ex]) (auto simp: read_frac_exp)
      ultimately show ?thesis using val True by (simp add: dec_value_def)
    next
      case False
      have "lay_out s e = take 1 ?ds @ CHR ''.'' # drop 1 ?ds @ ?x"
        by (simp only: lay_out_def Let_def if_not_P [OF d(1)] if_not_P [OF d(2)] if_not_P [OF d(3)]
            if_not_P [OF False] append_Cons append_Nil append_assoc)
      moreover have "read_decimal (take 1 ?ds @ CHR ''.'' # drop 1 ?ds @ ?x @ r) =
          Some (dec_value (take 1 ?ds) (drop 1 ?ds) (?n - 1), r)"
        using z ex by (intro read_decimal_parts [OF _ _ _ read_frac_digits ex])
          (auto simp: list_all_iff dest: in_set_takeD in_set_dropD)
      moreover have "int (length (drop 1 ?ds)) = ?k - 1" using k by (simp add: of_nat_diff Suc_leI)
      ultimately show ?thesis using val by (simp add: dec_value_def algebra_simps)
    qed
  qed
qed

subsection \<open>The chosen decimal rounds to the number\<close>

lemma pick_sound:
  assumes "0 < x" and "pick x k = Some (s, e)"
  shows "0 < s" and "rnd (of_int s * pow10 e) = x"
proof -
  have "0 \<le> x / pow10 (dexp x - int k)" using assms(1) by (simp add: less_imp_le)
  then have "0 \<le> \<lfloor>x / pow10 (dexp x - int k)\<rfloor>" by simp
  then show "0 < s" and "rnd (of_int s * pow10 e) = x"
    using assms(2) by (auto simp: pick_def Let_def split: if_splits)
qed

text \<open>
  \<open>prints x\<close>: the number is finite and one to seventeen digits identify it. Every binary64
  datum has this property; it is proved here for the integers up to \<open>2\<^sup>5\<^sup>3\<close> and evaluated
  where a concrete fraction is used.
\<close>

definition prints :: "rat \<Rightarrow> bool" where
  "prints x = (x = 0 \<or> shortest \<bar>x\<bar> \<noteq> None \<and> \<bar>x\<bar> < overflow)"

lemma read_show_pos:
  assumes "0 < x" "shortest x \<noteq> None" "x < overflow" "stops r"
  obtains q where "read_decimal (show_pos x @ r) = Some (q, r)" and "to_number q = Fin x"
proof -
  from assms(2) obtain s e where se: "shortest x = Some (s, e)" by auto
  then obtain k where "pick x k = Some (s, e)"
    unfolding shortest_def by (blast dest: first_some_SomeD)
  from pick_sound [OF assms(1) this]
  have s: "0 < s" and v: "rnd (of_int s * pow10 e) = x" by auto
  have "to_number (of_int s * pow10 e) = Fin x"
    using v assms(1,3) by (simp add: to_number_def Let_def)
  then show thesis
    using that read_decimal_lay_out [OF s assms(4), of e] by (simp add: show_pos_def se)
qed

lemma dexp_nat: "0 < n \<Longrightarrow> dexp (of_int n) = int (length (show_nat (nat n)))"
  by (simp add: dexp_def)

lemma abs_of_int_pos: "0 < m \<Longrightarrow> \<bar>of_int m :: rat\<bar> = of_int m"
  by simp

lemma prints_int [simp, num_simps]:
  assumes "\<bar>n\<bar> \<le> 2 ^ 53" shows "prints (of_int n)"
proof (cases "n = 0")
  case False
  define m where "m = \<bar>n\<bar>"
  let ?k = "length (show_nat (nat m))"
  have m: "0 < m" "m \<le> 2 ^ 53" using False assms by (simp_all add: m_def)
  then have "nat m < 10 ^ 17" by (simp add: nat_less_iff)
  then have k: "?k \<in> set [1..<18]"
    using length_show_nat [of "nat m" 17] by (simp add: Suc_le_eq less_Suc_eq_le)
  have "rnd (of_int m) = of_int m" using m by (intro rnd_int) simp
  then have "\<exists>p. pick (of_int m) ?k = Some p"
    using m by (simp add: pick_def dexp_nat Let_def)
  then obtain p where p: "pick (of_int m) ?k = Some p" ..
  have "shortest (of_int m) \<noteq> None"
    unfolding shortest_def using first_some_ex [where f = "pick (of_int m)", OF k p] by (metis option.distinct(1))
  moreover have "(of_int m :: rat) < overflow" using m(2) by (rule int_below_overflow)
  ultimately have "prints (of_int m)" using m(1) by (simp only: prints_def abs_of_int_pos) simp
  then show ?thesis by (simp add: prints_def m_def)
qed (simp add: prints_def)

text \<open>The shape of a layout: an integer part without superfluous zeros, a fraction, an exponent.\<close>

lemma lay_out_shape:
  assumes s: "0 < s"
  obtains ip fp ex where
    "lay_out s e = ip @ (if fp = [] then [] else CHR ''.'' # fp) @ ex"
    "list_all is_digit ip" "list_all is_digit fp" "ip \<noteq> []" "ip = ''0'' \<or> hd ip \<noteq> CHR ''0''"
    "ex = [] \<or> (\<exists>t. ex = CHR ''e'' # t)"
proof -
  let ?full = "show_nat (nat s)" and ?ds = "strip_zeros (show_nat (nat s))"
  obtain z where z: "?full = ?ds @ replicate z (CHR ''0'')" "?ds \<noteq> []" "list_all is_digit ?ds"
    using s strip_zeros_show [of "nat s"] by auto
  have "hd ?full \<noteq> CHR ''0''" using s by (intro hd_show_nat_pos) simp
  then have h: "hd ?ds \<noteq> CHR ''0''" using z(2) by (subst (asm) z(1)) simp
  let ?k = "int (length ?ds)" and ?n = "int (length ?full) + e"
  let ?e = "(if ?n - 1 < 0 then ''-'' else ''+'') @ show_nat (nat \<bar>?n - 1\<bar>)"
  have dig: "list_all is_digit (take m ?ds)" "list_all is_digit (drop m ?ds)" for m
    using z(3) by (auto simp: list_all_iff dest: in_set_takeD in_set_dropD)
  consider (a) "?k \<le> ?n \<and> ?n \<le> 21" | (b) "\<not> (?k \<le> ?n \<and> ?n \<le> 21)" "0 < ?n \<and> ?n \<le> 21"
    | (c) "\<not> (?k \<le> ?n \<and> ?n \<le> 21)" "\<not> (0 < ?n \<and> ?n \<le> 21)" "- 6 < ?n \<and> ?n \<le> 0"
    | (d) "\<not> (?k \<le> ?n \<and> ?n \<le> 21)" "\<not> (0 < ?n \<and> ?n \<le> 21)" "\<not> (- 6 < ?n \<and> ?n \<le> 0)"
    by blast
  then show thesis
  proof cases
    case a
    then have "lay_out s e = ?ds @ replicate (nat (?n - ?k)) (CHR ''0'')"
      by (simp add: lay_out_def Let_def)
    then show thesis
      using z h by (intro that [of "?ds @ replicate (nat (?n - ?k)) (CHR ''0'')" "[]" "[]"])
        (auto simp: list_all_iff)
  next
    case b
    then have "lay_out s e = take (nat ?n) ?ds @ ''.'' @ drop (nat ?n) ?ds"
      by (simp add: lay_out_def Let_def)
    then show thesis
      using b h dig z(2) by (intro that [of "take (nat ?n) ?ds" "drop (nat ?n) ?ds" "[]"]) auto
  next
    case c
    then have "lay_out s e = ''0.'' @ replicate (nat (- ?n)) (CHR ''0'') @ ?ds"
      by (simp add: lay_out_def Let_def)
    then show thesis
      using z by (intro that [of "''0''" "replicate (nat (- ?n)) (CHR ''0'') @ ?ds" "[]"])
        (auto simp: list_all_iff)
  next
    case d
    have l: "lay_out s e = (if ?k = 1 then ?ds else take 1 ?ds @ ''.'' @ drop 1 ?ds) @ ''e'' @ ?e"
      by (simp only: lay_out_def Let_def if_not_P [OF d(1)] if_not_P [OF d(2)] if_not_P [OF d(3)])
    have "drop 1 ?ds = [] \<longleftrightarrow> ?k = 1" using z(2) by (cases ?ds) auto
    moreover have "?k = 1 \<Longrightarrow> take 1 ?ds = ?ds" by simp
    ultimately show thesis
      using z(2) h dig [of 1] l
      by (intro that [of "take 1 ?ds" "drop 1 ?ds" "CHR ''e'' # ?e"]) (auto split: if_splits)
  qed
qed

end
