(* ===== verification/JsValue.thy ===== *)
theory JsValue
  imports JsDecimal
begin

text \<open>
  Runtime values, thrown errors, and the operators the sources apply to values of type
  \<open>any\<close>: property reads (which throw on \<open>undefined\<close> and \<open>null\<close>), optional chaining,
  \<open>||\<close>, \<open>??\<close>, template interpolation and the numeric coercions. An object is the list of its
  fields in insertion order. Property names that live on prototypes are never read by the
  sources from untyped data, except \<open>length\<close>.
\<close>

datatype js = Undef | Null | Bool bool | Num number | Str string
  | Arr "js list" | Obj "(string \<times> js) list"

abbreviation js_int :: "int \<Rightarrow> js" where
  "js_int n \<equiv> Num (nint n)"

subsection \<open>Thrown errors\<close>

text \<open>
  An \<open>Error\<close> object: its class (which \<open>instanceof\<close> inspects), \<open>name\<close> and \<open>message\<close>, and the
  fields the SDK's own subclasses add. Messages of engine-raised errors follow V8 where a
  source file shows them to a user and are abbreviated otherwise.
\<close>

datatype err_class = CError | CTypeError | CRangeError | CSyntaxError
  | CReviveOS | CAuth | CSignature | CValidation | CApi

record err =
  eclass :: err_class
  ename :: string
  emessage :: string
  ecode :: "string option"
  estatus :: "int option"
  ebody :: js

definition builtin_err :: "err_class \<Rightarrow> string \<Rightarrow> string \<Rightarrow> err" where
  "builtin_err c n m = \<lparr>eclass = c, ename = n, emessage = m, ecode = None, estatus = None, ebody = Undef\<rparr>"

definition plain_error :: "string \<Rightarrow> err" where
  "plain_error m = builtin_err CError ''Error'' m"

definition type_error :: "string \<Rightarrow> err" where
  "type_error m = builtin_err CTypeError ''TypeError'' m"

definition range_error :: "string \<Rightarrow> err" where
  "range_error m = builtin_err CRangeError ''RangeError'' m"

definition syntax_error :: "string \<Rightarrow> err" where
  "syntax_error m = builtin_err CSyntaxError ''SyntaxError'' m"

subsection \<open>Truth values and the short-circuit operators\<close>

fun truthy :: "js \<Rightarrow> bool" where
  "truthy Undef = False"
| "truthy Null = False"
| "truthy (Bool b) = b"
| "truthy (Num n) = ntruthy n"
| "truthy (Str s) = (s \<noteq> [])"
| "truthy (Arr _) = True"
| "truthy (Obj _) = True"

definition nullish :: "js \<Rightarrow> bool" where
  "nullish v = (v = Undef \<or> v = Null)"

definition orv :: "js \<Rightarrow> js \<Rightarrow> js" where
  \<comment> \<open>\<open>a || b\<close>\<close>
  "orv a b = (if truthy a then a else b)"

definition coalesce :: "js \<Rightarrow> js \<Rightarrow> js" where
  \<comment> \<open>\<open>a ?? b\<close>\<close>
  "coalesce a b = (if nullish a then b else a)"

lemma orv_simps [simp, js_simps]:
  "orv Undef b = b" "orv Null b = b" "orv (Bool True) b = Bool True" "orv (Bool False) b = b"
  "orv (Str []) b = b" "orv (Str (c # s)) b = Str (c # s)" "orv (Arr xs) b = Arr xs"
  "orv (Obj fs) b = Obj fs"
  by (simp_all add: orv_def)

lemma coalesce_simps [simp, js_simps]:
  "coalesce Undef b = b" "coalesce Null b = b" "coalesce (Bool c) b = Bool c" "coalesce (Num n) b = Num n"
  "coalesce (Str s) b = Str s" "coalesce (Arr xs) b = Arr xs" "coalesce (Obj fs) b = Obj fs"
  by (simp_all add: coalesce_def nullish_def)

lemma orv_truthy: "truthy a \<Longrightarrow> orv a b = a" and orv_falsy: "\<not> truthy a \<Longrightarrow> orv a b = b"
  by (simp_all add: orv_def)

lemma truthy_orv [simp]: "truthy (orv a b) = (truthy a \<or> truthy b)"
  by (simp add: orv_def)

lemma ntruthy_int [simp]: "ntruthy (Fin x) = (x \<noteq> 0)"
  by (simp add: ntruthy_def)

subsection \<open>Properties\<close>

definition fld :: "(string \<times> js) list \<Rightarrow> string \<Rightarrow> js" where
  "fld fs k = (case map_of fs k of None \<Rightarrow> Undef | Some v \<Rightarrow> v)"

fun member :: "js \<Rightarrow> string \<Rightarrow> js" where
  \<comment> \<open>\<open>v?.k\<close>\<close>
  "member (Obj fs) k = fld fs k"
| "member (Str s) k = (if k = ''length'' then js_int (int (length s)) else Undef)"
| "member (Arr xs) k = (if k = ''length'' then js_int (int (length xs)) else Undef)"
| "member _ k = Undef"

definition get :: "js \<Rightarrow> string \<Rightarrow> err + js" where
  \<comment> \<open>\<open>v.k\<close>\<close>
  "get v k = (if v = Undef then Inl (type_error (''Cannot read properties of undefined (reading '' @ k @ '')''))
     else if v = Null then Inl (type_error (''Cannot read properties of null (reading '' @ k @ '')''))
     else Inr (member v k))"

fun put_field :: "(string \<times> js) list \<Rightarrow> string \<Rightarrow> js \<Rightarrow> (string \<times> js) list" where
  \<comment> \<open>writing a field: in place when present, appended otherwise\<close>
  "put_field [] k v = [(k, v)]"
| "put_field ((k', v') # fs) k v = (if k' = k then (k, v) # fs else (k', v') # put_field fs k v)"

definition fields_of :: "js \<Rightarrow> (string \<times> js) list" where
  \<comment> \<open>the own fields a spread copies; a nullish or primitive operand contributes none\<close>
  "fields_of v = (case v of Obj fs \<Rightarrow> fs | _ \<Rightarrow> [])"

definition spread :: "(string \<times> js) list \<Rightarrow> (string \<times> js) list \<Rightarrow> (string \<times> js) list" where
  \<comment> \<open>\<open>{...a, ...b}\<close>: the fields of \<open>b\<close> overwrite those of \<open>a\<close>\<close>
  "spread a b = foldl (\<lambda>fs (k, v). put_field fs k v) a b"

lemma fld_simps [simp, js_simps]:
  "fld [] k = Undef" "fld ((k', v) # fs) k = (if k' = k then v else fld fs k)"
  by (simp_all add: fld_def)

lemma fld_put_field [simp]: "fld (put_field fs k v) k' = (if k' = k then v else fld fs k')"
  by (induction fs) auto

lemma get_Obj [simp, js_simps]: "get (Obj fs) k = Inr (fld fs k)"
  by (simp add: get_def)

lemma get_member: "\<not> nullish v \<Longrightarrow> get v k = Inr (member v k)"
  by (auto simp: get_def nullish_def)

lemma get_InrD: "get v k = Inr x \<Longrightarrow> x = member v k"
  by (auto simp: get_def split: if_splits)

lemma get_nullish [simp]: "get Undef k = Inl (type_error (''Cannot read properties of undefined (reading '' @ k @ '')''))"
  "get Null k = Inl (type_error (''Cannot read properties of null (reading '' @ k @ '')''))"
  by (simp_all add: get_def)

lemma member_nullish [simp]: "nullish v \<Longrightarrow> member v k = Undef"
  by (auto simp: nullish_def)

lemma dom_put_field [simp]: "fst ` set (put_field fs k v) = insert k (fst ` set fs)"
  by (induction fs k v rule: put_field.induct) (simp_all add: insert_commute)

lemma distinct_put_field: "distinct (map fst fs) \<Longrightarrow> distinct (map fst (put_field fs k v))"
  by (induction fs k v rule: put_field.induct) auto

lemma put_field_fresh: "k \<notin> set (map fst fs) \<Longrightarrow> put_field fs k v = fs @ [(k, v)]"
  by (induction fs) auto

subsection \<open>Coercions\<close>

fun to_str :: "js \<Rightarrow> string" and to_str_items :: "js list \<Rightarrow> string list" where
  \<comment> \<open>\<open>String(v)\<close> and the template literals\<close>
  "to_str Undef = ''undefined''"
| "to_str Null = ''null''"
| "to_str (Bool b) = (if b then ''true'' else ''false'')"
| "to_str (Num n) = num_to_string n"
| "to_str (Str s) = s"
| "to_str (Arr xs) = join '','' (to_str_items xs)"
| "to_str (Obj _) = ''[object Object]''"
| "to_str_items [] = []"
| "to_str_items (x # xs) = (if nullish x then [] else to_str x) # to_str_items xs"

fun to_num :: "js \<Rightarrow> number" where
  \<comment> \<open>\<open>Number(v)\<close>\<close>
  "to_num Undef = NaN"
| "to_num Null = Fin 0"
| "to_num (Bool b) = (if b then Fin 1 else Fin 0)"
| "to_num (Num n) = n"
| "to_num (Str s) = string_to_number s"
| "to_num v = string_to_number (to_str v)"

definition gt_num :: "js \<Rightarrow> number \<Rightarrow> bool" where
  \<comment> \<open>\<open>v > n\<close> against a number\<close>
  "gt_num v n = nless n (to_num v)"

definition ge_num :: "js \<Rightarrow> number \<Rightarrow> bool" where
  "ge_num v n = nleq n (to_num v)"

definition as_array :: "js \<Rightarrow> err + js list" where
  \<comment> \<open>the receiver of an array method\<close>
  "as_array v = (case v of Arr xs \<Rightarrow> Inr xs | _ \<Rightarrow> Inl (type_error ''not a function''))"

definition as_iterable :: "js \<Rightarrow> err + js list" where
  \<comment> \<open>the operand of \<open>for ... of\<close> and of an array spread\<close>
  "as_iterable v = (case v of Arr xs \<Rightarrow> Inr xs | Str s \<Rightarrow> Inr (map (\<lambda>c. Str [c]) s)
     | _ \<Rightarrow> Inl (type_error ''object is not iterable''))"

definition as_string :: "js \<Rightarrow> err + string" where
  \<comment> \<open>the receiver of a string method\<close>
  "as_string v = (case v of Str s \<Rightarrow> Inr s | _ \<Rightarrow> Inl (type_error ''not a function''))"

lemma as_simps [simp, js_simps]:
  "as_array (Arr xs) = Inr xs" "as_iterable (Arr xs) = Inr xs" "as_string (Str s) = Inr s"
  by (simp_all add: as_array_def as_iterable_def as_string_def)

lemma as_array_InrD: "as_array v = Inr xs \<Longrightarrow> v = Arr xs"
  by (auto simp: as_array_def split: js.splits)

lemma as_string_InrD: "as_string v = Inr s \<Longrightarrow> v = Str s"
  by (auto simp: as_string_def split: js.splits)

subsection \<open>The host environment\<close>

text \<open>
  What a source file reads from its host and does not compute: the wall clock, one reading per
  call of \<open>Date.now()\<close> or \<open>new Date()\<close> in call order, and \<open>Math.random\<close>, a number in
  \<open>[0, 1)\<close> per call.
\<close>

type_synonym clock = "nat \<Rightarrow> int"
type_synonym rng = "nat \<Rightarrow> rat"

definition unit_rng :: "rng \<Rightarrow> bool" where
  "unit_rng r \<longleftrightarrow> (\<forall>i. 0 \<le> r i \<and> r i < 1 \<and> is_double (r i))"

end
