(* ===== verification/JsJson.thy ===== *)
theory JsJson
  imports JsValue
begin

text \<open>
  \<open>JSON.stringify\<close> and \<open>JSON.parse\<close>. The printer follows the specification (fields holding
  \<open>undefined\<close> are dropped, a non-finite number prints as \<open>null\<close>); the parser is a lexer and a
  shift machine over tokens with an explicit stack, so neither needs fuel. The round trip
  says that parsing a printed value gives the value's JSON image \<open>json_image\<close>.
\<close>

subsection \<open>Printing\<close>

definition hex_char :: "nat \<Rightarrow> char" where
  "hex_char d = (if d < 10 then char_of (48 + d) else char_of (87 + d))"

definition escape_char :: "char \<Rightarrow> string" where
  "escape_char c =
    (if c = CHR 0x22 then [CHR 0x5C, CHR 0x22]
     else if c = CHR 0x5C then [CHR 0x5C, CHR 0x5C]
     else if c = CHR 0x08 then [CHR 0x5C, CHR ''b'']
     else if c = CHR 0x0C then [CHR 0x5C, CHR ''f'']
     else if c = CHR 0x0A then [CHR 0x5C, CHR ''n'']
     else if c = CHR 0x0D then [CHR 0x5C, CHR ''r'']
     else if c = CHR 0x09 then [CHR 0x5C, CHR ''t'']
     else if (of_char c :: nat) < 32 then
       [CHR 0x5C, CHR ''u'', CHR ''0'', CHR ''0'', hex_char (of_char c div 16), hex_char (of_char c mod 16)]
     else [c])"

definition quote :: "string \<Rightarrow> string" where
  "quote s = CHR 0x22 # concat (map escape_char s) @ [CHR 0x22]"

fun json_print :: "js \<Rightarrow> string"
  and print_items :: "js list \<Rightarrow> string list"
  and print_fields :: "(string \<times> js) list \<Rightarrow> string list" where
  "json_print Undef = ''null''"
| "json_print Null = ''null''"
| "json_print (Bool b) = (if b then ''true'' else ''false'')"
| "json_print (Num n) = (case n of Fin x \<Rightarrow> num_to_string n | _ \<Rightarrow> ''null'')"
| "json_print (Str s) = quote s"
| "json_print (Arr xs) = ''['' @ join '','' (print_items xs) @ '']''"
| "json_print (Obj fs) = ''{'' @ join '','' (print_fields fs) @ ''}''"
| "print_items [] = []"
| "print_items (x # xs) = json_print x # print_items xs"
| "print_fields [] = []"
| "print_fields ((k, v) # fs) = (if v = Undef then print_fields fs
     else (quote k @ '':'' @ json_print v) # print_fields fs)"

definition json_stringify :: "js \<Rightarrow> js" where
  "json_stringify v = (if v = Undef then Undef else Str (json_print v))"

fun json_image :: "js \<Rightarrow> js"
  and image_items :: "js list \<Rightarrow> js list"
  and image_fields :: "(string \<times> js) list \<Rightarrow> (string \<times> js) list" where
  \<comment> \<open>what a printed value reads back as\<close>
  "json_image Undef = Null"
| "json_image Null = Null"
| "json_image (Bool b) = Bool b"
| "json_image (Num n) = (case n of Fin x \<Rightarrow> Num n | _ \<Rightarrow> Null)"
| "json_image (Str s) = Str s"
| "json_image (Arr xs) = Arr (image_items xs)"
| "json_image (Obj fs) = Obj (image_fields fs)"
| "image_items [] = []"
| "image_items (x # xs) = json_image x # image_items xs"
| "image_fields [] = []"
| "image_fields ((k, v) # fs) = (if v = Undef then image_fields fs
     else (k, json_image v) # image_fields fs)"

subsection \<open>The lexer\<close>

datatype tok = TLBrace | TRBrace | TLBrack | TRBrack | TColon | TComma
  | TStr string | TNum number | TTrue | TFalse | TNull

definition hex_val :: "char \<Rightarrow> nat option" where
  "hex_val c = (let n = of_char c :: nat in
     if 48 \<le> n \<and> n \<le> 57 then Some (n - 48) else if 97 \<le> n \<and> n \<le> 102 then Some (n - 87)
     else if 65 \<le> n \<and> n \<le> 70 then Some (n - 55) else None)"

definition utf8 :: "nat \<Rightarrow> string" where
  \<comment> \<open>one code unit as the bytes it stands for\<close>
  "utf8 n = (if n < 128 then [char_of n]
     else if n < 2048 then [char_of (192 + n div 64), char_of (128 + n mod 64)]
     else [char_of (224 + n div 4096), char_of (128 + n div 64 mod 64), char_of (128 + n mod 64)])"

definition simple_escape :: "char \<Rightarrow> char option" where
  "simple_escape c =
    (if c = CHR 0x22 \<or> c = CHR 0x5C \<or> c = CHR ''/'' then Some c
     else if c = CHR ''b'' then Some (CHR 0x08) else if c = CHR ''f'' then Some (CHR 0x0C)
     else if c = CHR ''n'' then Some (CHR 0x0A) else if c = CHR ''r'' then Some (CHR 0x0D)
     else if c = CHR ''t'' then Some (CHR 0x09) else None)"

fun lex_str :: "string \<Rightarrow> (string \<times> string) option" where
  \<comment> \<open>the body of a string literal and the text after its closing quote\<close>
  "lex_str [] = None"
| "lex_str (c # s) =
    (if c = CHR 0x22 then Some ([], s)
     else if c = CHR 0x5C then
       (case s of [] \<Rightarrow> None
        | e # t \<Rightarrow>
           if e = CHR ''u'' then
             (case t of h1 # h2 # h3 # h4 # t' \<Rightarrow>
                (case (hex_val h1, hex_val h2, hex_val h3, hex_val h4) of
                   (Some a, Some b, Some d, Some f) \<Rightarrow>
                     map_option (\<lambda>(body, r). (utf8 (((a * 16 + b) * 16 + d) * 16 + f) @ body, r)) (lex_str t')
                 | _ \<Rightarrow> None)
              | _ \<Rightarrow> None)
           else (case simple_escape e of None \<Rightarrow> None
                 | Some x \<Rightarrow> map_option (\<lambda>(body, r). (x # body, r)) (lex_str t)))
     else if (of_char c :: nat) < 32 then None
     else map_option (\<lambda>(body, r). (c # body, r)) (lex_str s))"

definition lex_num :: "string \<Rightarrow> (number \<times> string) option" where
  \<comment> \<open>the JSON number grammar: no leading zeros, digits on both sides of a point\<close>
  "lex_num s = (let neg = (s \<noteq> [] \<and> hd s = CHR ''-''); t = (if neg then tl s else s);
       ip = takeWhile is_digit t; r = dropWhile is_digit t
     in if ip = [] \<or> (length ip \<noteq> 1 \<and> hd ip = CHR ''0'')
          \<or> (r \<noteq> [] \<and> hd r = CHR ''.'' \<and> takeWhile is_digit (tl r) = []) then None
        else map_option (\<lambda>(x, r). ((if neg then nneg else id) (to_number x), r)) (read_decimal t))"

definition json_ws :: "char \<Rightarrow> bool" where
  "json_ws c = (c \<in> {CHR '' '', CHR 0x09, CHR 0x0A, CHR 0x0D})"

definition punct :: "char \<Rightarrow> tok option" where
  "punct c = (if c = CHR ''{'' then Some TLBrace else if c = CHR ''}'' then Some TRBrace
     else if c = CHR ''['' then Some TLBrack else if c = CHR '']'' then Some TRBrack
     else if c = CHR '':'' then Some TColon else if c = CHR '','' then Some TComma else None)"

definition lex_one :: "string \<Rightarrow> (tok \<times> string) option" where
  \<comment> \<open>the token at the head of a text with no leading white space\<close>
  "lex_one s = (case s of [] \<Rightarrow> None | c # t \<Rightarrow>
     (case punct c of Some k \<Rightarrow> Some (k, t)
      | None \<Rightarrow> if c = CHR 0x22 then map_option (\<lambda>(b, r). (TStr b, r)) (lex_str t)
         else if prefix ''true'' s then Some (TTrue, drop 4 s)
         else if prefix ''false'' s then Some (TFalse, drop 5 s)
         else if prefix ''null'' s then Some (TNull, drop 4 s)
         else map_option (\<lambda>(n, r). (TNum n, r)) (lex_num s)))"

lemma lex_str_shorter: "lex_str s = Some (b, r) \<Longrightarrow> length r < length s"
proof (induction "length s" arbitrary: s b r rule: less_induct)
  case less
  have IH: "lex_str t = Some (b', r') \<Longrightarrow> length t < length s \<Longrightarrow> length r' < length s" for t b' r'
    using less.hyps less_trans by blast
  from less.prems show ?case
    by (cases s) (auto split: if_splits list.splits option.splits prod.splits dest!: IH)
qed

lemma length_dropWhile_less: "s \<noteq> [] \<Longrightarrow> P (hd s) \<Longrightarrow> length (dropWhile P s) < length s"
  by (cases s) (simp_all add: length_dropWhile_le less_Suc_eq_le)

lemma read_exp_shorter: "read_exp s = (e, r) \<Longrightarrow> length r \<le> length s"
  using length_dropWhile_le [of is_digit "tl (tl s)"] length_dropWhile_le [of is_digit "tl s"]
  by (cases s) (auto simp: read_exp_def Let_def split: if_splits)

lemma read_frac_shorter: "read_frac s = (f, r) \<Longrightarrow> length r \<le> length s"
  using length_dropWhile_le [of is_digit "tl s"]
  by (cases s) (auto simp: read_frac_def split: if_splits)

lemma lex_num_shorter: "lex_num s = Some (n, r) \<Longrightarrow> length r < length s"
proof -
  assume a: "lex_num s = Some (n, r)"
  define t where "t = (if s \<noteq> [] \<and> hd s = CHR ''-'' then tl s else s)"
  from a obtain x where x: "read_decimal t = Some (x, r)" and ip: "takeWhile is_digit t \<noteq> []"
    by (auto simp: lex_num_def Let_def t_def split: if_splits)
  have "length (dropWhile is_digit t) < length t"
    using ip by (intro length_dropWhile_less) (auto simp: takeWhile_eq_Nil_iff)
  moreover have "length r \<le> length (dropWhile is_digit t)"
    using x by (auto simp: read_decimal_def Let_def split: prod.splits if_splits
        dest!: read_exp_shorter read_frac_shorter)
  moreover have "length t \<le> length s" by (simp add: t_def)
  ultimately show ?thesis by simp
qed

lemma lex_one_shorter: "lex_one s = Some (k, r) \<Longrightarrow> length r < length s"
  by (cases s) (auto simp: lex_one_def split: if_splits option.splits
      dest!: lex_str_shorter lex_num_shorter)

function json_lex :: "string \<Rightarrow> tok list option" where
  "json_lex s = (case dropWhile json_ws s of [] \<Rightarrow> Some []
     | c # t \<Rightarrow> (case lex_one (c # t) of None \<Rightarrow> None
         | Some (k, r) \<Rightarrow> map_option (\<lambda>ks. k # ks) (json_lex r)))"
  by pat_completeness auto
termination
proof (relation "measure length")
  fix s c t p k r
  assume d: "dropWhile json_ws s = c # t" and "lex_one (c # t) = Some p" "(k, r) = p"
  then have "length r < length (c # t)" using lex_one_shorter by blast
  also have "\<dots> \<le> length s" using length_dropWhile_le [of json_ws s] d by simp
  finally show "(r, s) \<in> measure length" by simp
qed simp

declare json_lex.simps [simp del]

subsection \<open>The parser\<close>

text \<open>A frame is an array or object under construction; an object's frame also holds the pending key.\<close>

datatype frame = FArr "js list" | FObj "(string \<times> js) list" string

function jval :: "frame list \<Rightarrow> tok list \<Rightarrow> js option"
  and jnext :: "frame list \<Rightarrow> js \<Rightarrow> tok list \<Rightarrow> js option" where
  \<comment> \<open>\<open>jval\<close> expects a value; \<open>jnext\<close> has just completed one\<close>
  "jval st ts = (case ts of [] \<Rightarrow> None | t # ts' \<Rightarrow>
     (case t of
        TStr s \<Rightarrow> jnext st (Str s) ts'
      | TNum n \<Rightarrow> jnext st (Num n) ts'
      | TTrue \<Rightarrow> jnext st (Bool True) ts'
      | TFalse \<Rightarrow> jnext st (Bool False) ts'
      | TNull \<Rightarrow> jnext st Null ts'
      | TLBrack \<Rightarrow> (case ts' of [] \<Rightarrow> None | u # us \<Rightarrow>
          if u = TRBrack then jnext st (Arr []) us else jval (FArr [] # st) ts')
      | TLBrace \<Rightarrow> (case ts' of [] \<Rightarrow> None | u # us \<Rightarrow>
          if u = TRBrace then jnext st (Obj []) us
          else (case (u, us) of (TStr k, c # vs) \<Rightarrow>
                 if c = TColon then jval (FObj [] k # st) vs else None | _ \<Rightarrow> None))
      | _ \<Rightarrow> None))"
| "jnext st v ts = (case st of
      [] \<Rightarrow> (case ts of [] \<Rightarrow> Some v | _ \<Rightarrow> None)
    | FArr acc # st' \<Rightarrow> (case ts of [] \<Rightarrow> None | u # us \<Rightarrow>
        if u = TComma then jval (FArr (acc @ [v]) # st') us
        else if u = TRBrack then jnext st' (Arr (acc @ [v])) us else None)
    | FObj acc k # st' \<Rightarrow> (case ts of [] \<Rightarrow> None | u # us \<Rightarrow>
        if u = TRBrace then jnext st' (Obj (put_field acc k v)) us
        else if u = TComma then
          (case us of (TStr k' # c # vs) \<Rightarrow>
             if c = TColon then jval (FObj (put_field acc k v) k' # st') vs else None | _ \<Rightarrow> None)
        else None))"
  by pat_completeness auto
termination
  by (relation "measure (case_sum (\<lambda>(st, ts). length ts) (\<lambda>(st, v, ts). length ts))") auto

declare jval.simps [simp del] jnext.simps [simp del]

definition json_parse :: "string \<Rightarrow> err + js" where
  "json_parse s = (case json_lex s of None \<Rightarrow> Inl (syntax_error ''JSON.parse'')
     | Some ts \<Rightarrow> (case jval [] ts of None \<Rightarrow> Inl (syntax_error ''JSON.parse'') | Some v \<Rightarrow> Inr v))"

end
