(* ===== verification/JsJsonTrip.thy ===== *)
theory JsJsonTrip
  imports JsJson
begin

text \<open>
  The JSON round trip: for a value whose objects have distinct keys and whose numbers print,
  \<open>json_parse (json_print v) = Inr (json_image v)\<close>. First the lexer reads the printed text as
  the value's tokens, then the stack machine rebuilds the value from them.
\<close>

fun js_ok :: "js \<Rightarrow> bool" and items_ok :: "js list \<Rightarrow> bool" and fields_ok :: "(string \<times> js) list \<Rightarrow> bool" where
  "js_ok (Num n) = (case n of Fin x \<Rightarrow> prints x | _ \<Rightarrow> True)"
| "js_ok (Arr xs) = items_ok xs"
| "js_ok (Obj fs) = (distinct (map fst fs) \<and> fields_ok fs)"
| "js_ok v = True"
| "items_ok [] = True"
| "items_ok (x # xs) = (js_ok x \<and> items_ok xs)"
| "fields_ok [] = True"
| "fields_ok ((k, v) # fs) = (js_ok v \<and> fields_ok fs)"

fun commas :: "tok list list \<Rightarrow> tok list" where
  "commas [] = []"
| "commas [x] = x"
| "commas (x # y # zs) = x @ TComma # commas (y # zs)"

fun toks :: "js \<Rightarrow> tok list" and toks_items :: "js list \<Rightarrow> tok list list"
  and toks_fields :: "(string \<times> js) list \<Rightarrow> tok list list" where
  "toks Undef = [TNull]"
| "toks Null = [TNull]"
| "toks (Bool b) = [if b then TTrue else TFalse]"
| "toks (Num n) = [case n of Fin x \<Rightarrow> TNum n | _ \<Rightarrow> TNull]"
| "toks (Str s) = [TStr s]"
| "toks (Arr xs) = TLBrack # commas (toks_items xs) @ [TRBrack]"
| "toks (Obj fs) = TLBrace # commas (toks_fields fs) @ [TRBrace]"
| "toks_items [] = []"
| "toks_items (x # xs) = toks x # toks_items xs"
| "toks_fields [] = []"
| "toks_fields ((k, v) # fs) = (if v = Undef then toks_fields fs
     else (TStr k # TColon # toks v) # toks_fields fs)"

subsection \<open>Lexing what was printed\<close>

lemma hex_val_hex_char [simp]: "d < 16 \<Longrightarrow> hex_val (hex_char d) = Some d"
  by (auto simp: hex_val_def hex_char_def)

lemma lex_str_escape:
  "lex_str (escape_char c @ t) = map_option (\<lambda>(b, r). (c # b, r)) (lex_str t)"
proof -
  have lt: "(of_char c :: nat) div 16 < 16" "(of_char c :: nat) mod 16 < 16"
    using of_char_eq_iff [of c] by (simp_all add: less_mult_imp_div_less)
  have eq: "(of_char c :: nat) div 16 * 16 + of_char c mod 16 = of_char c" by simp
  have low: "utf8 (of_char c) = [c]" if "(of_char c :: nat) < 32"
    using that by (simp add: utf8_def)
  have "hex_val (CHR ''0'') = Some 0" by (simp add: hex_val_def)
  then show ?thesis
    using lt eq low by (simp add: escape_char_def simple_escape_def)
qed

lemma lex_str_body: "lex_str (concat (map escape_char s) @ CHR 0x22 # r) = Some (s, r)"
  by (induction s) (simp_all add: lex_str_escape)

definition lexes :: "string \<Rightarrow> tok list \<Rightarrow> bool" where
  "lexes p ts \<longleftrightarrow> (\<forall>r. stops r \<longrightarrow> json_lex (p @ r) = map_option (\<lambda>ks. ts @ ks) (json_lex r))"

lemma json_lex_one:
  assumes "\<not> json_ws c" and "lex_one (c # t) = Some (k, r)"
  shows "json_lex (c # t) = map_option (\<lambda>ks. k # ks) (json_lex r)"
  using assms by (subst json_lex.simps) simp

lemma json_lex_punct:
  assumes "punct c = Some k" "\<not> json_ws c"
  shows "json_lex (c # t) = map_option (\<lambda>ks. k # ks) (json_lex t)"
  using assms by (intro json_lex_one) (simp_all add: lex_one_def)

lemma punct_ws [simp]: "\<not> json_ws (CHR ''{'')" "\<not> json_ws (CHR ''}'')" "\<not> json_ws (CHR ''['')"
  "\<not> json_ws (CHR '']'')" "\<not> json_ws (CHR '','')" "\<not> json_ws (CHR '':'')" "\<not> json_ws (CHR 0x22)"
  by (simp_all add: json_ws_def)

lemma lex_puncts:
  "json_lex (CHR ''{'' # t) = map_option (\<lambda>ks. TLBrace # ks) (json_lex t)"
  "json_lex (CHR ''}'' # t) = map_option (\<lambda>ks. TRBrace # ks) (json_lex t)"
  "json_lex (CHR ''['' # t) = map_option (\<lambda>ks. TLBrack # ks) (json_lex t)"
  "json_lex (CHR '']'' # t) = map_option (\<lambda>ks. TRBrack # ks) (json_lex t)"
  "json_lex (CHR '':'' # t) = map_option (\<lambda>ks. TColon # ks) (json_lex t)"
  "json_lex (CHR '','' # t) = map_option (\<lambda>ks. TComma # ks) (json_lex t)"
  by (simp_all add: json_lex_punct punct_def)

lemma stops_puncts [simp]: "stops (CHR ''}'' # t)" "stops (CHR '']'' # t)" "stops (CHR '','' # t)"
  "stops (CHR '':'' # t)" "stops []"
  by (simp_all add: stops_def is_digit_def)

lemma lexes_Nil: "lexes [] []"
  by (simp add: lexes_def map_option.identity)

lemma lexes_quote: "lexes (quote s) [TStr s]"
proof (unfold lexes_def quote_def, intro allI impI)
  fix r
  have "json_lex (CHR 0x22 # concat (map escape_char s) @ CHR 0x22 # r) =
      map_option (\<lambda>ks. TStr s # ks) (json_lex r)"
    by (rule json_lex_one) (simp_all add: lex_one_def punct_def lex_str_body)
  then show "json_lex ((CHR 0x22 # concat (map escape_char s) @ [CHR 0x22]) @ r) =
      map_option (\<lambda>ks. [TStr s] @ ks) (json_lex r)"
    by simp
qed

lemma lexes_words: "lexes ''true'' [TTrue]" "lexes ''false'' [TFalse]" "lexes ''null'' [TNull]"
  by (auto simp: lexes_def lex_one_def punct_def json_ws_def intro!: json_lex_one)

lemma json_lex_Nil [simp]: "json_lex [] = Some []"
  by (simp add: json_lex.simps)

lemma lexes_join:
  "list_all2 lexes ps tss \<Longrightarrow> lexes (join '','' ps) (commas tss)"
proof (induction ps tss rule: list_all2_induct)
  case (Cons p ps ts tss)
  show ?case
  proof (cases ps)
    case Nil
    with Cons show ?thesis by (cases tss) auto
  next
    case (Cons q qs)
    with Cons.hyps obtain us uss where tss: "tss = us # uss" by (cases tss) auto
    have "json_lex (join '','' (p # q # qs) @ r) =
        map_option (\<lambda>ks. commas (ts # us # uss) @ ks) (json_lex r)" if "stops r" for r
      using Cons.IH Cons.hyps(1) that unfolding Cons tss lexes_def
      by (cases "json_lex r") (simp_all add: lex_puncts)
    then show ?thesis unfolding Cons tss lexes_def by blast
  qed
qed (simp add: lexes_Nil)

subsection \<open>Rebuilding the value\<close>

lemma jval_simps [simp]:
  "jval st (TStr s # ts) = jnext st (Str s) ts"
  "jval st (TNum n # ts) = jnext st (Num n) ts"
  "jval st (TTrue # ts) = jnext st (Bool True) ts"
  "jval st (TFalse # ts) = jnext st (Bool False) ts"
  "jval st (TNull # ts) = jnext st Null ts"
  "jval st (TLBrack # TRBrack # ts) = jnext st (Arr []) ts"
  "jval st (TLBrace # TRBrace # ts) = jnext st (Obj []) ts"
  "jval st (TLBrace # TStr k # TColon # ts) = jval (FObj [] k # st) ts"
  "u \<noteq> TRBrack \<Longrightarrow> jval st (TLBrack # u # ts) = jval (FArr [] # st) (u # ts)"
  by (subst jval.simps, simp)+

lemma jnext_simps [simp]:
  "jnext [] v [] = Some v"
  "jnext (FArr acc # st) v (TComma # ts) = jval (FArr (acc @ [v]) # st) ts"
  "jnext (FArr acc # st) v (TRBrack # ts) = jnext st (Arr (acc @ [v])) ts"
  "jnext (FObj flds k # st) v (TComma # TStr k' # TColon # ts) = jval (FObj (put_field flds k v) k' # st) ts"
  "jnext (FObj flds k # st) v (TRBrace # ts) = jnext st (Obj (put_field flds k v)) ts"
  by (subst jnext.simps, simp)+

subsection \<open>Numbers\<close>

lemma lex_num_parts:
  assumes "takeWhile is_digit t = ip" "dropWhile is_digit t = m" "ip \<noteq> []" "ip = ''0'' \<or> hd ip \<noteq> CHR ''0''"
    and "\<not> (m \<noteq> [] \<and> hd m = CHR ''.'' \<and> takeWhile is_digit (tl m) = [])"
    and "read_decimal t = Some (q, r)" "t \<noteq> []" "hd t \<noteq> CHR ''-''"
  shows "lex_num t = Some (to_number q, r) \<and> lex_num (CHR ''-'' # t) = Some (nneg (to_number q), r)"
  using assms(3-) by (auto simp: lex_num_def Let_def assms(1,2) simp del: dropWhile_eq_Nil_conv)

lemma lex_num_lay_out:
  assumes s: "0 < s" and r: "stops r" and q: "read_decimal (lay_out s e @ r) = Some (q, r')"
  shows "lex_num (lay_out s e @ r) = Some (to_number q, r')"
    and "lex_num (CHR ''-'' # lay_out s e @ r) = Some (nneg (to_number q), r')"
proof -
  obtain ip fp ex where l: "lay_out s e = ip @ (if fp = [] then [] else CHR ''.'' # fp) @ ex"
      and i: "list_all is_digit ip" "ip \<noteq> []" "ip = ''0'' \<or> hd ip \<noteq> CHR ''0''"
      and f: "list_all is_digit fp" and x: "ex = [] \<or> (\<exists>t. ex = CHR ''e'' # t)"
    using lay_out_shape [OF s, of e] by metis
  let ?t = "lay_out s e @ r" and ?m = "(if fp = [] then [] else CHR ''.'' # fp) @ ex @ r"
  have t: "?t = ip @ ?m" using l by simp
  have m: "no_digit ?m" using x r by (cases fp) auto
  have ne: "hd ?t \<noteq> CHR ''-''" "?t \<noteq> []" using t i by (cases ip; auto)+
  have dot: "\<not> (?m \<noteq> [] \<and> hd ?m = CHR ''.'' \<and> takeWhile is_digit (tl ?m) = [])"
    using x r f by (cases fp) (auto simp: stops_def split: list.splits)
  have "takeWhile is_digit ?t = ip" "dropWhile is_digit ?t = ?m" using t i(1) m by simp_all
  from lex_num_parts [OF this i(2,3) dot q ne(2,1)]
  show "lex_num ?t = Some (to_number q, r')" "lex_num (CHR ''-'' # ?t) = Some (nneg (to_number q), r')"
    by auto
qed

lemma lex_num_show:
  assumes "0 < x" "shortest x \<noteq> None" "x < overflow" "stops r"
  shows "lex_num (show_pos x @ r) = Some (Fin x, r)"
    and "lex_num (CHR ''-'' # show_pos x @ r) = Some (Fin (- x), r)"
proof -
  from assms(2) obtain s e where se: "shortest x = Some (s, e)" by auto
  then obtain k where "pick x k = Some (s, e)"
    unfolding shortest_def by (blast dest: first_some_SomeD)
  from pick_sound(1) [OF assms(1) this] have s: "0 < s" .
  obtain q where q: "read_decimal (show_pos x @ r) = Some (q, r)" and v: "to_number q = Fin x"
    using read_show_pos [OF assms] by blast
  have "show_pos x = lay_out s e" by (simp add: show_pos_def se)
  with lex_num_lay_out [OF s assms(4)] q v
  show "lex_num (show_pos x @ r) = Some (Fin x, r)"
    and "lex_num (CHR ''-'' # show_pos x @ r) = Some (Fin (- x), r)" by auto
qed

lemma show_pos_head:
  assumes "0 < x" "shortest x \<noteq> None"
  obtains c t where "show_pos x = c # t" and "is_digit c"
proof -
  from assms(2) obtain s e where se: "shortest x = Some (s, e)" by auto
  then obtain k where "pick x k = Some (s, e)"
    unfolding shortest_def by (blast dest: first_some_SomeD)
  from lay_out_shape [OF pick_sound(1) [OF assms(1) this], of e] obtain ip u where
    "lay_out s e = ip @ u" "ip \<noteq> []" "list_all is_digit ip" by metis
  then show thesis using that by (cases ip) (auto simp: show_pos_def se)
qed

lemma digit_not_special:
  assumes "is_digit c"
  shows "\<not> json_ws c" "punct c = None" "c \<noteq> CHR 0x22" "c \<noteq> CHR ''t''" "c \<noteq> CHR ''f''" "c \<noteq> CHR ''n''"
  using assms by (auto simp: json_ws_def punct_def is_digit_def)

lemma lex_one_num:
  assumes "punct c = None" "c \<noteq> CHR 0x22" "c \<noteq> CHR ''t''" "c \<noteq> CHR ''f''" "c \<noteq> CHR ''n''"
  shows "lex_one (c # t) = map_option (\<lambda>(n, r). (TNum n, r)) (lex_num (c # t))"
  using assms by (simp add: lex_one_def)

lemma lexes_num:
  assumes "prints x"
  shows "lexes (num_to_string (Fin x)) [TNum (Fin x)]"
proof (unfold lexes_def, intro allI impI)
  fix r assume r: "stops r"
  consider "x = 0" | "0 < x" | "x < 0" by linarith
  then obtain c t where c: "num_to_string (Fin x) @ r = c # t"
    and n: "lex_num (c # t) = Some (Fin x, r)" and ok: "\<not> json_ws c" "punct c = None" "c \<noteq> CHR 0x22"
    "c \<noteq> CHR ''t''" "c \<noteq> CHR ''f''" "c \<noteq> CHR ''n''"
  proof cases
    case 1
    have "read_decimal (''0'' @ r) = Some (dec_value ''0'' [] 0, r)"
      using r by (intro read_decimal_parts [OF _ _ _ read_frac_stop [OF r] read_exp_stop [OF r]]) auto
    then have "lex_num (CHR ''0'' # r) = Some (Fin x, r)"
      using r 1 span_digits [of "''0''" r] to_number_int [of 0]
      by (auto simp: lex_num_def Let_def dec_value_def digits_val_def stops_def split: list.splits)
    then show thesis using 1 that by (auto simp: json_ws_def punct_def)
  next
    case 2
    with assms have p: "shortest x \<noteq> None" "x < overflow" by (auto simp: prints_def)
    obtain c t where ct: "show_pos x = c # t" "is_digit c" using show_pos_head [OF 2 p(1)] .
    then show thesis
      using that [of c "t @ r"] digit_not_special [of c] lex_num_show(1) [OF 2 p r] 2 by auto
  next
    case 3
    with assms have p: "shortest (- x) \<noteq> None" "- x < overflow" by (auto simp: prints_def)
    have "lex_num (CHR ''-'' # show_pos (- x) @ r) = Some (Fin x, r)"
      using lex_num_show(2) [OF _ p r] 3 by simp
    with 3 show thesis using that by (auto simp: json_ws_def punct_def)
  qed
  have "json_lex (c # t) = map_option (\<lambda>ks. TNum (Fin x) # ks) (json_lex r)"
    using n ok by (intro json_lex_one) (simp_all add: lex_one_num)
  then show "json_lex (num_to_string (Fin x) @ r) = map_option (\<lambda>ks. [TNum (Fin x)] @ ks) (json_lex r)"
    using c by simp
qed

subsection \<open>The round trip\<close>

lemma lexesD: "lexes p ts \<Longrightarrow> stops r \<Longrightarrow> json_lex (p @ r) = map_option (\<lambda>ks. ts @ ks) (json_lex r)"
  by (simp add: lexes_def)

lemma lexes_bracket:
  assumes "lexes p ts"
  shows "lexes (''['' @ p @ '']'') (TLBrack # ts @ [TRBrack])"
    and "lexes (''{'' @ p @ ''}'') (TLBrace # ts @ [TRBrace])"
proof -
  have "json_lex ((''['' @ p @ '']'') @ r) = map_option (\<lambda>ks. (TLBrack # ts @ [TRBrack]) @ ks) (json_lex r)"
    "json_lex ((''{'' @ p @ ''}'') @ r) = map_option (\<lambda>ks. (TLBrace # ts @ [TRBrace]) @ ks) (json_lex r)" for r
    by (cases "json_lex r"; simp add: lex_puncts lexesD [OF assms])+
  then show "lexes (''['' @ p @ '']'') (TLBrack # ts @ [TRBrack])"
    and "lexes (''{'' @ p @ ''}'') (TLBrace # ts @ [TRBrace])"
    unfolding lexes_def by blast+
qed

lemma lexes_field:
  assumes "lexes p ts"
  shows "lexes (quote k @ '':'' @ p) (TStr k # TColon # ts)"
proof -
  have "json_lex ((quote k @ '':'' @ p) @ r) = map_option (\<lambda>ks. (TStr k # TColon # ts) @ ks) (json_lex r)"
    if "stops r" for r
    using that by (cases "json_lex r") (simp_all add: lex_puncts lexesD [OF assms] lexesD [OF lexes_quote])
  then show ?thesis unfolding lexes_def by blast
qed

lemma lexes_print:
  "js_ok v \<Longrightarrow> lexes (json_print v) (toks v)"
  "items_ok xs \<Longrightarrow> list_all2 lexes (print_items xs) (toks_items xs)"
  "fields_ok fs \<Longrightarrow> list_all2 lexes (print_fields fs) (toks_fields fs)"
proof (induction v and xs and fs rule: json_print_print_items_print_fields.induct)
  case (4 n)
  then show ?case
    by (cases n) (simp_all add: lexes_num lexes_words del: num_to_string.simps)
next
  case (6 xs)
  then show ?case using lexes_bracket(1) [OF lexes_join] by simp
next
  case (7 fs)
  then show ?case using lexes_bracket(2) [OF lexes_join] by simp
next
  case (11 k v fs)
  then show ?case using lexes_field by simp
qed (auto intro: lexes_words lexes_quote)

lemma toks_start: "\<exists>t ts. toks v = t # ts \<and> t \<notin> {TRBrack, TRBrace, TComma, TColon}"
  by (cases v) (auto split: number.splits)

lemma commas_start:
  assumes "xs \<noteq> []"
  shows "\<exists>t ts. commas (toks_items xs) = t # ts \<and> t \<noteq> TRBrack"
proof (cases xs)
  case (Cons x ys)
  then show ?thesis using toks_start [of x] by (cases ys) auto
qed (use assms in simp)

lemma commas_Cons: "commas (x # xs) = x @ (if xs = [] then [] else TComma # commas xs)"
  by (cases xs) auto

lemma toks_items_Nil [simp]: "toks_items xs = [] \<longleftrightarrow> xs = []"
  by (cases xs) auto

lemma fields_Nil: "toks_fields fs = [] \<longleftrightarrow> image_fields fs = []"
  by (induction fs) (auto split: if_splits)

text \<open>
  A value's tokens complete its image; the tokens of the remaining items or fields, from inside
  a frame, complete the frame.
\<close>

lemma rebuild:
  "js_ok v \<Longrightarrow> jval st (toks v @ ts) = jnext st (json_image v) ts"
  "items_ok xs \<Longrightarrow> xs \<noteq> [] \<Longrightarrow>
     jval (FArr acc # st) (commas (toks_items xs) @ TRBrack # ts) = jnext st (Arr (acc @ image_items xs)) ts"
  "fields_ok fs \<Longrightarrow> distinct (map fst (flds @ fs)) \<Longrightarrow> toks_fields fs \<noteq> [] \<Longrightarrow>
     \<exists>k us. commas (toks_fields fs) = TStr k # TColon # us \<and>
       jval (FObj flds k # st) (us @ TRBrace # ts) = jnext st (Obj (flds @ image_fields fs)) ts"
proof (induction v and xs and fs arbitrary: st ts and acc st ts and flds st ts
    rule: json_print_print_items_print_fields.induct)
  case (4 n)
  then show ?case by (cases n) auto
next
  case (6 xs)
  show ?case
  proof (cases "xs = []")
    case False
    obtain t us where c: "commas (toks_items xs) = t # us" "t \<noteq> TRBrack"
      using commas_start [OF False] by blast
    have "jval (FArr [] # st) (commas (toks_items xs) @ TRBrack # ts) = jnext st (Arr ([] @ image_items xs)) ts"
      using "6.IH" [of "[]"] "6.prems" False by simp
    with c show ?thesis by simp
  qed simp
next
  case (7 fs)
  show ?case
  proof (cases "toks_fields fs = []")
    case True
    then show ?thesis using fields_Nil [of fs] by simp
  next
    case False
    then obtain k us where "commas (toks_fields fs) = TStr k # TColon # us"
      "jval (FObj [] k # st) (us @ TRBrace # ts) = jnext st (Obj ([] @ image_fields fs)) ts"
      using "7.IH" [of "[]" st ts] "7.prems" by auto
    then show ?thesis by simp
  qed
next
  case (9 x xs)
  show ?case
  proof (cases "xs = []")
    case True
    with 9 show ?thesis by simp
  next
    case False
    with 9 show ?thesis by (simp add: commas_Cons)
  qed
next
  case (11 k v fs)
  show ?case
  proof (cases "v = Undef")
    case True
    with 11 show ?thesis by auto
  next
    case False
    have v: "jval st' (toks v @ ts') = jnext st' (json_image v) ts'" for st' ts'
      using "11.IH"(2) False "11.prems" by simp
    have fresh: "k \<notin> set (map fst flds)" and d: "distinct (map fst ((flds @ [(k, json_image v)]) @ fs))"
      using "11.prems" by auto
    show ?thesis
    proof (cases "toks_fields fs = []")
      case True
      then show ?thesis using v False fresh fields_Nil [of fs] by (simp add: put_field_fresh)
    next
      case rest: False
      have ok: "fields_ok fs" using "11.prems" by simp
      from "11.IH"(3) [OF False ok d rest]
      obtain k' us where k': "commas (toks_fields fs) = TStr k' # TColon # us"
        and j: "jval (FObj (flds @ [(k, json_image v)]) k' # st) (us @ TRBrace # ts) =
          jnext st (Obj ((flds @ [(k, json_image v)]) @ image_fields fs)) ts"
        by blast
      then show ?thesis using v False fresh rest by (simp add: commas_Cons put_field_fresh)
    qed
  qed
qed auto

theorem json_round_trip: "js_ok v \<Longrightarrow> json_parse (json_print v) = Inr (json_image v)"
proof -
  assume v: "js_ok v"
  have "json_lex (json_print v @ []) = Some (toks v @ [])"
    using lexesD [OF lexes_print(1) [OF v], of "[]"] by simp
  moreover have "jval [] (toks v @ []) = Some (json_image v)"
    using rebuild(1) [OF v, of "[]" "[]"] by simp
  ultimately show ?thesis by (simp add: json_parse_def)
qed

end
