(* ===== verification/JsDate.thy ===== *)
theory JsDate
  imports JsJsonTrip
begin

text \<open>
  Dates. A \<open>Date\<close> is its time value, a number of milliseconds since the epoch (\<open>NaN\<close> for an
  invalid date). The calendar is the proleptic Gregorian one in UTC. \<open>date_parse\<close> reads the
  ISO forms the sources produce and store (a date, or a date and a UTC time); any other text
  is an invalid date here, where an engine may try forms of its own.
\<close>

subsection \<open>The calendar\<close>

text \<open>Years start in March, so that the leap day is the last of its year.\<close>

definition march_split :: "int \<Rightarrow> int \<times> int" where
  \<comment> \<open>a day number counted from 1 March of year 0: the March-based year and the day in it\<close>
  "march_split z =
    (let a = z div 146097; r = z mod 146097; b = min (r div 36524) 3; r' = r - 36524 * b;
         c = r' div 1461; r'' = r' mod 1461; d = min (r'' div 365) 3
     in (400 * a + 100 * b + 4 * c + d, r'' - 365 * d))"

definition march_days :: "int \<Rightarrow> int \<Rightarrow> int" where
  "march_days y n = 365 * y + y div 4 - y div 100 + y div 400 + n"

lemma div_bounds: "0 < (k::int) \<Longrightarrow> k * (x div k) \<le> x" "0 < (k::int) \<Longrightarrow> x < k * (x div k) + k"
  using mult_div_mod_eq [of k x] pos_mod_sign [of k x] pos_mod_bound [of k x] by linarith+

lemma march_split_parts:
  obtains a b c d n where "march_split z = (400 * a + 100 * b + 4 * c + d, n)"
    and "z = 146097 * a + 36524 * b + 1461 * c + 365 * d + n"
    and "0 \<le> b" "b \<le> 3" "0 \<le> c" "c \<le> 24" "0 \<le> d" "d \<le> 3" "0 \<le> n" "n \<le> 365"
proof -
  define a r b r' c r'' d where "a = z div 146097" and "r = z mod 146097" and
    "b = min (r div 36524) 3" and "r' = r - 36524 * b" and "c = r' div 1461" and
    "r'' = r' mod 1461" and "d = min (r'' div 365) 3"
  note defs = this
  have z: "z = 146097 * a + r" and r: "0 \<le> r" "r < 146097"
    by (simp_all add: defs(1,2))
  have b: "0 \<le> b" "b \<le> 3" "0 \<le> r'" "r' \<le> 36524"
    using r div_bounds [of 36524 r] unfolding defs(3,4) min_def by (auto split: if_splits)
  have r': "r' = 1461 * c + r''" "0 \<le> r''" "r'' < 1461"
    by (simp_all add: defs(5,6))
  then have c: "0 \<le> c" "c \<le> 24" using b by linarith+
  have d: "0 \<le> d" "d \<le> 3" "0 \<le> r'' - 365 * d" "r'' - 365 * d \<le> 365"
    using r'(2,3) div_bounds [of 365 r''] unfolding defs(7) min_def by (auto split: if_splits)
  have "march_split z = (400 * a + 100 * b + 4 * c + d, r'' - 365 * d)"
    by (simp add: march_split_def Let_def defs)
  moreover have "z = 146097 * a + 36524 * b + 1461 * c + 365 * d + (r'' - 365 * d)"
    using z r'(1) defs(4) by linarith
  ultimately show thesis using that b(1,2) c d by blast
qed

lemma march_split_bounds: "march_split z = (y, n) \<Longrightarrow> 0 \<le> n \<and> n \<le> 365"
  by (rule march_split_parts [of z]) auto

lemma march_days_split: assumes "march_split z = (y, n)" shows "march_days y n = z"
proof (rule march_split_parts [of z])
  fix a b c d n'
  assume s: "march_split z = (400 * a + 100 * b + 4 * c + d, n')"
    and z: "z = 146097 * a + 36524 * b + 1461 * c + 365 * d + n'"
    and bs: "0 \<le> b" "b \<le> 3" "0 \<le> c" "c \<le> 24" "0 \<le> d" "d \<le> 3"
  let ?y = "400 * a + 100 * b + 4 * c + d"
  have "?y div 4 = 100 * a + 25 * b + c" using bs div_bounds [of 4 ?y] by linarith
  moreover have "?y div 100 = 4 * a + b" using bs div_bounds [of 100 ?y] by linarith
  moreover have "?y div 400 = a" using bs div_bounds [of 400 ?y] by linarith
  ultimately show ?thesis using s z assms by (simp add: march_days_def)
qed

definition civil :: "int \<Rightarrow> int \<times> int \<times> int" where
  \<comment> \<open>year, month and day of a day number counted from the epoch\<close>
  "civil z = (let (y, n) = march_split (z + 719468); mp = (5 * n + 2) div 153;
       d = n - (153 * mp + 2) div 5 + 1; m = (if mp < 10 then mp + 3 else mp - 9)
     in (if m \<le> 2 then y + 1 else y, m, d))"

definition days_from_civil :: "int \<Rightarrow> int \<Rightarrow> int \<Rightarrow> int" where
  "days_from_civil y m d = (let y' = (if m \<le> 2 then y - 1 else y); mp = (m + 9) mod 12
     in march_days y' ((153 * mp + 2) div 5 + d - 1) - 719468)"

lemma civil_parts:
  assumes "civil z = (y, m, d)"
  obtains y' n mp where "march_split (z + 719468) = (y', n)" "0 \<le> mp" "mp \<le> 11"
    "m = (if mp < 10 then mp + 3 else mp - 9)" "d = n - (153 * mp + 2) div 5 + 1"
    "y = (if m \<le> 2 then y' + 1 else y')" "1 \<le> d" "d \<le> 31"
proof -
  obtain y' n where s: "march_split (z + 719468) = (y', n)" by fastforce
  define mp where "mp = (5 * n + 2) div 153"
  have n: "0 \<le> n" "n \<le> 365" using march_split_bounds [OF s] by auto
  have m: "153 * mp \<le> 5 * n + 2" "5 * n + 2 < 153 * mp + 153"
    using div_bounds [of 153 "5 * n + 2"] by (simp_all add: mp_def)
  then have mp: "0 \<le> mp" "mp \<le> 11" using n by linarith+
  have "5 * ((153 * mp + 2) div 5) \<le> 153 * mp + 2" "153 * mp + 2 < 5 * ((153 * mp + 2) div 5) + 5"
    using div_bounds [of 5 "153 * mp + 2"] by simp_all
  then have d: "1 \<le> n - (153 * mp + 2) div 5 + 1" "n - (153 * mp + 2) div 5 + 1 \<le> 31"
    using m by linarith+
  have "civil z = (if (if mp < 10 then mp + 3 else mp - 9) \<le> 2 then y' + 1 else y',
      if mp < 10 then mp + 3 else mp - 9, n - (153 * mp + 2) div 5 + 1)"
    by (simp add: civil_def Let_def s mp_def)
  then have "(y, m, d) = (if (if mp < 10 then mp + 3 else mp - 9) \<le> 2 then y' + 1 else y',
      if mp < 10 then mp + 3 else mp - 9, n - (153 * mp + 2) div 5 + 1)"
    unfolding assms .
  then have e: "y = (if m \<le> 2 then y' + 1 else y')" "m = (if mp < 10 then mp + 3 else mp - 9)"
    "d = n - (153 * mp + 2) div 5 + 1"
    by (auto simp only: prod.inject)
  show thesis using that [OF s mp e(2,3,1)] d unfolding e(3) .
qed

lemma civil_bounds:
  assumes "civil z = (y, m, d)"
  shows "1 \<le> m" "m \<le> 12" "1 \<le> d" "d \<le> 31"
  by (rule civil_parts [OF assms]; auto split: if_splits)+

lemma days_from_civil_civil: assumes "civil z = (y, m, d)" shows "days_from_civil y m d = z"
proof (rule civil_parts [OF assms])
  fix y' n mp
  assume s: "march_split (z + 719468) = (y', n)" and mp: "0 \<le> mp" "mp \<le> 11"
    and m: "m = (if mp < 10 then mp + 3 else mp - 9)" and d: "d = n - (153 * mp + 2) div 5 + 1"
    and y: "y = (if m \<le> 2 then y' + 1 else y')"
  have "(m + 9) mod 12 = mp" using m mp by auto
  then show ?thesis
    using d y march_days_split [OF s] by (simp add: days_from_civil_def Let_def)
qed

subsection \<open>ISO strings\<close>

definition pad :: "nat \<Rightarrow> int \<Rightarrow> string" where
  "pad w n = pad_left w (show_nat (nat n))"

definition iso_year :: "int \<Rightarrow> string" where
  "iso_year y = (if 0 \<le> y \<and> y \<le> 9999 then pad 4 y
     else (if y < 0 then ''-'' else ''+'') @ pad 6 \<bar>y\<bar>)"

definition iso_string :: "int \<Rightarrow> string" where
  "iso_string t = (let (y, m, d) = civil (t div 86400000); s = t mod 86400000
     in iso_year y @ ''-'' @ pad 2 m @ ''-'' @ pad 2 d @ ''T'' @
        pad 2 (s div 3600000) @ '':'' @ pad 2 (s div 60000 mod 60) @ '':'' @
        pad 2 (s div 1000 mod 60) @ ''.'' @ pad 3 (s mod 1000) @ ''Z'')"

definition max_time :: int where
  "max_time = 8640000000000000"

definition time_clip :: "number \<Rightarrow> number" where
  \<comment> \<open>the time value \<open>new Date(n)\<close> stores\<close>
  "time_clip n = (case n of Fin x \<Rightarrow>
       if \<bar>x\<bar> \<le> of_int max_time then nint (to_integer n) else NaN | _ \<Rightarrow> NaN)"

definition to_iso :: "number \<Rightarrow> err + string" where
  \<comment> \<open>\<open>date.toISOString()\<close>\<close>
  "to_iso n = (case n of Fin x \<Rightarrow> Inr (iso_string \<lfloor>x\<rfloor>) | _ \<Rightarrow> Inl (range_error ''Invalid time value''))"

definition read_n :: "nat \<Rightarrow> string \<Rightarrow> (int \<times> string) option" where
  "read_n k s = (if k \<le> length s \<and> list_all is_digit (take k s)
     then Some (int (digits_val (take k s)), drop k s) else None)"

definition read_sep :: "char \<Rightarrow> string \<Rightarrow> string option" where
  "read_sep c s = (case s of x # t \<Rightarrow> if x = c then Some t else None | [] \<Rightarrow> None)"

definition read_ymd :: "string \<Rightarrow> (int \<times> string) option" where
  \<comment> \<open>a calendar date as its day number\<close>
  "read_ymd s =
     Option.bind (read_n 4 s) (\<lambda>(y, r1). Option.bind (read_sep (CHR ''-'') r1) (\<lambda>r2.
     Option.bind (read_n 2 r2) (\<lambda>(m, r3). Option.bind (read_sep (CHR ''-'') r3) (\<lambda>r4.
     Option.bind (read_n 2 r4) (\<lambda>(d, r5).
       if 1 \<le> m \<and> m \<le> 12 \<and> 1 \<le> d \<and> d \<le> 31 then Some (days_from_civil y m d, r5) else None)))))"

definition read_ms :: "string \<Rightarrow> (int \<times> string) option" where
  \<comment> \<open>an optional fraction of three digits\<close>
  "read_ms s = (case read_sep (CHR ''.'') s of None \<Rightarrow> Some (0, s) | Some r \<Rightarrow> read_n 3 r)"

definition read_hms :: "string \<Rightarrow> (int \<times> string) option" where
  \<comment> \<open>a time with the \<open>Z\<close> suffix, as milliseconds\<close>
  "read_hms s =
     Option.bind (read_sep (CHR ''T'') s) (\<lambda>r1. Option.bind (read_n 2 r1) (\<lambda>(h, r2).
     Option.bind (read_sep (CHR '':'') r2) (\<lambda>r3. Option.bind (read_n 2 r3) (\<lambda>(mi, r4).
     Option.bind (read_sep (CHR '':'') r4) (\<lambda>r5. Option.bind (read_n 2 r5) (\<lambda>(se, r6).
     Option.bind (read_ms r6) (\<lambda>(ms, r8).
     Option.bind (read_sep (CHR ''Z'') r8) (\<lambda>r9.
       if h \<le> 23 \<and> mi \<le> 59 \<and> se \<le> 59
       then Some (3600000 * h + 60000 * mi + 1000 * se + ms, r9) else None))))))))"

definition date_parse :: "string \<Rightarrow> number" where
  "date_parse s = (case read_ymd s of None \<Rightarrow> NaN
     | Some (z, r) \<Rightarrow> if r = [] then nint (86400000 * z)
         else (case read_hms r of Some (t, []) \<Rightarrow> nint (86400000 * z + t) | _ \<Rightarrow> NaN))"

lemma length_pad: "0 \<le> n \<Longrightarrow> n < 10 ^ k \<Longrightarrow> 0 < k \<Longrightarrow> length (pad k n) = k"
  using length_show_nat [of "nat n" k] by (simp add: pad_def pad_left_def nat_less_iff)

lemma read_n_pad [simp]:
  assumes "0 \<le> n" "n < 10 ^ k" "0 < k"
  shows "read_n k (pad k n @ r) = Some (n, r)"
proof -
  have "list_all is_digit (pad k n)" "digits_val (pad k n) = nat n"
    by (simp_all add: pad_def pad_left_def digits_val_zeros_left list_all_iff)
      (use show_nat_digits [of "nat n"] in \<open>auto simp: list_all_iff\<close>)
  with length_pad [OF assms] assms show ?thesis by (simp add: read_n_def)
qed

lemma read_sep_Cons [simp]: "read_sep c (c # t) = Some t"
  by (simp add: read_sep_def)

lemma read_ms_dot [simp]: "read_ms (CHR ''.'' # t) = read_n 3 t"
  by (simp add: read_ms_def)

text \<open>Printing a time value of a four-digit year and parsing it gives the time value back.\<close>

theorem date_round_trip:
  assumes "fst (civil (t div 86400000)) \<in> {0..9999}"
  shows "date_parse (iso_string t) = nint t"
proof -
  obtain y m d where c: "civil (t div 86400000) = (y, m, d)" by (metis prod_cases3)
  define s where "s = t mod 86400000"
  have s: "0 \<le> s" "s < 86400000" by (simp_all add: s_def)
  have b: "1 \<le> m" "m \<le> 12" "1 \<le> d" "d \<le> 31" by (rule civil_bounds [OF c])+
  have y: "0 \<le> y" "y \<le> 9999" using assms c by auto
  define h mi se ms where "h = s div 3600000" and "mi = s div 60000 mod 60" and
    "se = s div 1000 mod 60" and "ms = s mod 1000"
  note defs = this
  have h: "0 \<le> h" "h \<le> 23" using s div_bounds [of 3600000 s] unfolding defs(1) by linarith+
  have ot: "0 \<le> mi" "mi \<le> 59" "0 \<le> se" "se \<le> 59" "0 \<le> ms" "ms < 1000"
    unfolding defs using pos_mod_bound [of 60 "s div 60000"] pos_mod_bound [of 60 "s div 1000"]
    by simp_all
  have "s div 60000 = s div 1000 div 60" "s div 3600000 = s div 60000 div 60"
    by (simp_all add: zdiv_zmult2_eq [symmetric])
  then have sum: "3600000 * h + 60000 * mi + 1000 * se + ms = s"
    unfolding defs using mult_div_mod_eq [of 60 "s div 60000"] mult_div_mod_eq [of 60 "s div 1000"]
      mult_div_mod_eq [of 1000 s] by linarith
  let ?r = "''T'' @ pad 2 h @ '':'' @ pad 2 mi @ '':'' @ pad 2 se @ ''.'' @ pad 3 ms @ ''Z''"
  have i: "iso_string t = pad 4 y @ ''-'' @ pad 2 m @ ''-'' @ pad 2 d @ ?r"
    using y by (simp add: iso_string_def c Let_def iso_year_def s_def [symmetric] defs)
  have "read_ymd (iso_string t) = Some (t div 86400000, ?r)"
    unfolding i using y b days_from_civil_civil [OF c] by (simp add: read_ymd_def)
  moreover have "read_hms ?r = Some (s, [])"
    using h ot sum by (simp add: read_hms_def)
  moreover have "86400000 * (t div 86400000) + s = t" by (simp add: s_def)
  ultimately show ?thesis by (simp add: date_parse_def)
qed

end
