(* ===== verification/JsSchema.thy ===== *)
theory JsSchema
  imports JsDate
begin

text \<open>
  A structural reading of TypeScript's type declarations. A \<open>ty\<close> is a type expression and
  \<open>has_type\<close> decides whether a runtime value inhabits it: extra fields are allowed, a field
  marked \<open>?\<close> may be missing or \<open>undefined\<close>. The component theories give one \<open>ty\<close> per declared
  interface and prove that the operations return what their signatures say.
\<close>

datatype ty = TAny | TUndef | TNullT | TBool | TNum | TText | TLit string
  | TArr ty | TDict ty | TOneOf "ty list" | TRec "field list"
  and field = Req string ty | Opt string ty

fun has_type :: "ty \<Rightarrow> js \<Rightarrow> bool"
  and has_some :: "ty list \<Rightarrow> js \<Rightarrow> bool"
  and has_fields :: "field list \<Rightarrow> (string \<times> js) list \<Rightarrow> bool" where
  "has_type TAny v = True"
| "has_type TUndef v = (v = Undef)"
| "has_type TNullT v = (v = Null)"
| "has_type TBool v = (case v of Bool _ \<Rightarrow> True | _ \<Rightarrow> False)"
| "has_type TNum v = (case v of Num _ \<Rightarrow> True | _ \<Rightarrow> False)"
| "has_type TText v = (case v of Str _ \<Rightarrow> True | _ \<Rightarrow> False)"
| "has_type (TLit s) v = (v = Str s)"
| "has_type (TArr t) v = (case v of Arr xs \<Rightarrow> list_all (has_type t) xs | _ \<Rightarrow> False)"
| "has_type (TDict t) v = (case v of Obj fs \<Rightarrow> list_all (has_type t) (map snd fs) | _ \<Rightarrow> False)"
| "has_type (TOneOf ts) v = has_some ts v"
| "has_type (TRec ds) v = (case v of Obj fs \<Rightarrow> has_fields ds fs | _ \<Rightarrow> False)"
| "has_some [] v = False"
| "has_some (t # ts) v = (has_type t v \<or> has_some ts v)"
| "has_fields [] fs = True"
| "has_fields (Req k t # ds) fs = (has_type t (fld fs k) \<and> has_fields ds fs)"
| "has_fields (Opt k t # ds) fs = ((fld fs k = Undef \<or> has_type t (fld fs k)) \<and> has_fields ds fs)"

abbreviation TLits :: "string list \<Rightarrow> ty" where
  "TLits ss \<equiv> TOneOf (map TLit ss)"

lemma has_fieldsD:
  "has_fields ds fs \<Longrightarrow> Req k t \<in> set ds \<Longrightarrow> has_type t (fld fs k)"
  by (induction ds fs rule: has_type_has_some_has_fields.induct(3) [where P = "\<lambda>_ _. True" and Q = "\<lambda>_ _. True"]) auto

lemma has_fields_optD:
  "has_fields ds fs \<Longrightarrow> Opt k t \<in> set ds \<Longrightarrow> fld fs k = Undef \<or> has_type t (fld fs k)"
  by (induction ds fs rule: has_type_has_some_has_fields.induct(3) [where P = "\<lambda>_ _. True" and Q = "\<lambda>_ _. True"]) auto

lemma has_some_iff: "has_some ts v \<longleftrightarrow> (\<exists>t\<in>set ts. has_type t v)"
  by (induction ts) auto

text \<open>Membership in the basic types computes on values in constructor form only.\<close>

lemmas has_type_unfold = has_type.simps(4-6,8,9,11)
declare has_type_unfold [simp del]

lemma has_type_values [simp, js_simps]:
  "\<not> has_type TNum Undef" "\<not> has_type TNum Null" "\<not> has_type TNum (Bool b)" "has_type TNum (Num n)"
  "\<not> has_type TNum (Str s)" "\<not> has_type TNum (Arr xs)" "\<not> has_type TNum (Obj fs)"
  "\<not> has_type TText Undef" "\<not> has_type TText Null" "\<not> has_type TText (Bool b)" "\<not> has_type TText (Num n)"
  "has_type TText (Str s)" "\<not> has_type TText (Arr xs)" "\<not> has_type TText (Obj fs)"
  "\<not> has_type TBool Undef" "\<not> has_type TBool Null" "has_type TBool (Bool b)" "\<not> has_type TBool (Num n)"
  "\<not> has_type TBool (Str s)" "\<not> has_type TBool (Arr xs)" "\<not> has_type TBool (Obj fs)"
  "\<not> has_type (TArr t) Undef" "\<not> has_type (TArr t) Null" "\<not> has_type (TArr t) (Bool b)" "\<not> has_type (TArr t) (Num n)"
  "\<not> has_type (TArr t) (Str s)" "has_type (TArr t) (Arr xs) = list_all (has_type t) xs" "\<not> has_type (TArr t) (Obj fs)"
  "\<not> has_type (TDict t) Undef" "\<not> has_type (TDict t) Null" "\<not> has_type (TDict t) (Bool b)" "\<not> has_type (TDict t) (Num n)"
  "\<not> has_type (TDict t) (Str s)" "\<not> has_type (TDict t) (Arr xs)" "has_type (TDict t) (Obj fs) = list_all (has_type t) (map snd fs)"
  "\<not> has_type (TRec ds) Undef" "\<not> has_type (TRec ds) Null" "\<not> has_type (TRec ds) (Bool b)" "\<not> has_type (TRec ds) (Num n)"
  "\<not> has_type (TRec ds) (Str s)" "\<not> has_type (TRec ds) (Arr xs)" "has_type (TRec ds) (Obj fs) = has_fields ds fs"
  by (simp_all add: has_type_unfold)

lemma TRecD: "has_type (TRec ds) v \<Longrightarrow> \<exists>fs. v = Obj fs \<and> has_fields ds fs"
  by (cases v) (auto simp: has_type_unfold)

lemma TTextD: "has_type TText v \<Longrightarrow> \<exists>s. v = Str s"
  by (cases v) (auto simp: has_type_unfold)

lemma TNumD: "has_type TNum v \<Longrightarrow> \<exists>n. v = Num n"
  by (cases v) (auto simp: has_type_unfold)

lemma TBoolD: "has_type TBool v \<Longrightarrow> \<exists>b. v = Bool b"
  by (cases v) (auto simp: has_type_unfold)

lemma TArrD: "has_type (TArr t) v \<Longrightarrow> \<exists>xs. v = Arr xs \<and> list_all (has_type t) xs"
  by (cases v) (auto simp: has_type_unfold)

lemma TDictD: "has_type (TDict t) v \<Longrightarrow> \<exists>fs. v = Obj fs \<and> list_all (has_type t) (map snd fs)"
  by (cases v) (auto simp: has_type_unfold)

text \<open>\<open>a || undefined\<close> of an optional text is an optional text.\<close>

lemma has_type_orv: "(v = Undef \<or> has_type t v) \<Longrightarrow> has_type t w \<Longrightarrow> has_type t (orv v w)"
  by (auto simp: orv_def)

lemma opt_orv: "(v = Undef \<or> has_type t v) \<Longrightarrow> orv v Undef = Undef \<or> has_type t (orv v Undef)"
  by (auto simp: orv_def)

lemma text_orv: "v = Undef \<or> has_type TText v \<Longrightarrow> has_type TText (orv v (Str s))"
  by (rule has_type_orv) auto

lemma opt_member:
  assumes "v = Undef \<or> has_type (TRec ds) v" "Opt k t \<in> set ds"
  shows "member v k = Undef \<or> has_type t (member v k)"
  using assms has_fields_optD by (cases v) (auto simp: has_type_unfold)

lemma member_opt:
  assumes "has_type (TRec ds) v" "Opt k t \<in> set ds"
  shows "member v k = Undef \<or> has_type t (member v k)"
  using opt_member [OF disjI2 [OF assms(1)] assms(2)] .

lemma member_req:
  assumes "has_type (TRec ds) v" "Req k t \<in> set ds"
  shows "has_type t (member v k)"
  using assms has_fieldsD by (cases v) (auto simp: has_type_unfold)

lemma dict_fld: "list_all P (map snd fs) \<Longrightarrow> fld fs k = Undef \<or> P (fld fs k)"
  by (induction fs) auto

end
