(* ===== verification/WebTypes.thy ===== *)
theory WebTypes
  imports JsSchema
begin

text \<open>
  \<open>apps/web/src/lib/types.ts\<close>: the interfaces of the merchant console. Each is a type schema over
  runtime values; the workflow summary, which the console computes with, is a record as well,
  with its image \<open>wf_js\<close> as a runtime value.
\<close>

definition AnalyticsOverview :: ty where
  "AnalyticsOverview = TRec [Req ''total_payments'' TNum,
     Req ''failed_payments'' TNum,
     Req ''total_workflows'' TNum,
     Req ''recovered_workflows'' TNum,
     Req ''recovery_rate'' TNum,
     Req ''recovered_revenue'' TNum,
     Req ''total_at_risk_revenue'' TNum,
     Req ''active_recoveries'' TNum,
     Req ''pending_actions'' TNum,
     Opt ''category_breakdown'' (TDict TNum),
     Opt ''recent_outcomes'' (TArr (TRec [Req ''payment_id'' TText,
     Req ''amount'' TNum,
     Req ''currency'' TText,
     Req ''failure_code'' TText,
     Req ''action_type'' TText,
     Req ''status'' TText,
     Req ''recovered'' TBool,
     Req ''recovered_amount'' TNum,
     Req ''created_at'' TText]))]"

definition WorkflowSummaryT :: ty where
  "WorkflowSummaryT = TRec [Req ''id'' TText,
     Req ''payment_id'' TText,
     Req ''amount'' TNum,
     Req ''currency'' TText,
     Opt ''customer_id'' TText,
     Opt ''customer_email'' TText,
     Opt ''customer_phone'' TText,
     Opt ''customer_success_count'' TNum,
     Opt ''customer_failed_count'' TNum,
     Opt ''fraud_probability'' TNum,
     Opt ''return_probability'' TNum,
     Opt ''overall_risk'' TText,
     Opt ''expected_loss'' TNum,
     Opt ''risk_action'' TText,
     Req ''failure_code'' TText,
     Opt ''failure_reason'' TText,
     Req ''status'' TText,
     Req ''recovery_probability'' TNum,
     Req ''selected_action'' TText,
     Req ''attempt_count'' TNum,
     Req ''recovered'' TBool,
     Req ''created_at'' TText,
     Req ''updated_at'' TText]"

definition WorkflowsResponse :: ty where
  "WorkflowsResponse = TRec [Opt ''data'' (TArr WorkflowSummaryT),
     Opt ''workflows'' (TArr WorkflowSummaryT),
     Req ''total'' TNum,
     Req ''limit'' TNum,
     Req ''offset'' TNum]"

definition WorkflowDetail_workflow :: ty where
  "WorkflowDetail_workflow = TRec [Req ''id'' TText,
     Req ''payment_id'' TText,
     Req ''status'' TText,
     Opt ''current_state'' TText,
     Req ''recovery_probability'' TNum,
     Req ''selected_action'' TText,
     Opt ''attempt_count'' TNum,
     Opt ''attempts_count'' TNum,
     Req ''created_at'' TText,
     Req ''updated_at'' TText,
     Opt ''amount'' TNum,
     Opt ''currency'' TText,
     Opt ''payment_status'' TText,
     Opt ''payment_method'' TText,
     Opt ''failure_code'' TText,
     Opt ''failure_reason'' TText,
     Opt ''merchant_id'' TText,
     Opt ''razorpay_payment_id'' TText,
     Opt ''customer_id'' TText,
     Opt ''customer_email'' TText,
     Opt ''customer_phone'' TText,
     Opt ''customer_success_count'' TNum,
     Opt ''customer_failed_count'' TNum,
     Opt ''fraud_probability'' TNum,
     Opt ''return_probability'' TNum,
     Opt ''overall_risk'' TText,
     Opt ''expected_loss'' TNum,
     Opt ''risk_action'' TText,
     Opt ''communication_opt_out'' TBool,
     Opt ''scheduled_at'' TText]"

definition WorkflowDetail_payment :: ty where
  "WorkflowDetail_payment = TRec [Req ''id'' TText,
     Opt ''merchant_id'' TText,
     Opt ''customer_id'' TText,
     Req ''amount'' TNum,
     Req ''currency'' TText,
     Req ''status'' TText,
     Opt ''payment_method'' TText,
     Opt ''failure_code'' TText,
     Opt ''failure_reason'' TText,
     Opt ''razorpay_payment_id'' TText,
     Opt ''created_at'' TText]"

definition WorkflowDetail_customer :: ty where
  "WorkflowDetail_customer = TRec [Req ''id'' TText,
     Req ''email'' TText,
     Opt ''phone'' TText,
     Opt ''communication_opt_out'' TBool]"

definition WorkflowDetail_policy_decision :: ty where
  "WorkflowDetail_policy_decision = TRec [Req ''decision'' (TOneOf [TLit ''ALLOW'', TLit ''BLOCK'', TLit ''ESCALATE'', TLit ''MODIFY'', TText]),
     Req ''reason'' TText,
     Opt ''evaluated_at'' TText,
     Opt ''thresholds'' (TRec [Opt ''max_retries'' TNum,
     Opt ''confidence_threshold'' TNum,
     Opt ''amount_threshold'' TNum])]"

definition WorkflowDetail_ai_decisions :: ty where
  "WorkflowDetail_ai_decisions = TArr (TRec [Req ''id'' TText,
     Opt ''provider'' TText,
     Opt ''model'' TText,
     Opt ''recommended_action'' TText,
     Opt ''recommended_delay_hours'' TNum,
     Opt ''confidence'' TNum,
     Opt ''reasoning'' TText,
     Opt ''latency_ms'' TNum,
     Opt ''created_at'' TText,
     Opt ''raw_response'' TText])"

definition WorkflowDetail_model_predictions :: ty where
  "WorkflowDetail_model_predictions = TArr (TRec [Req ''id'' TText,
     Opt ''model_version'' TText,
     Opt ''probability'' TNum,
     Opt ''features'' (TDict TAny),
     Opt ''features_used'' (TDict TAny),
     Opt ''created_at'' TText])"

definition WorkflowDetail_recovery_actions :: ty where
  "WorkflowDetail_recovery_actions = TArr (TRec [Req ''id'' TText,
     Req ''action_type'' TText,
     Req ''status'' TText,
     Opt ''attempt'' TNum,
     Opt ''result'' TText,
     Opt ''created_at'' TText,
     Opt ''executed_at'' TText])"

definition WorkflowDetail_recovery_outcomes :: ty where
  "WorkflowDetail_recovery_outcomes = TArr (TRec [Req ''id'' TText,
     Opt ''action_id'' TText,
     Req ''payment_id'' TText,
     Req ''recovered'' TBool,
     Opt ''recovered_amount'' TNum,
     Opt ''time_to_recovery'' TText,
     Opt ''time_to_recovery_seconds'' TNum,
     Opt ''created_at'' TText])"

definition WorkflowDetail_risk_assessments :: ty where
  "WorkflowDetail_risk_assessments = TArr (TRec [Req ''id'' TText,
     Req ''payment_id'' TText,
     Opt ''workflow_id'' TText,
     Req ''event_type'' TText,
     Req ''fraud_probability'' TNum,
     Req ''fraud_risk_level'' TText,
     Opt ''return_probability'' TNum,
     Opt ''return_risk_level'' TText,
     Req ''overall_risk_level'' TText,
     Req ''expected_loss'' TNum,
     Req ''recommended_action'' TText,
     Opt ''reason'' TText,
     Req ''model_version'' TText,
     Req ''created_at'' TText])"

definition WorkflowDetail_audit_events :: ty where
  "WorkflowDetail_audit_events = TArr (TRec [Opt ''id'' TText,
     Opt ''event_id'' TText,
     Opt ''workflow_id'' TText,
     Req ''actor'' TText,
     Req ''action'' TText,
     Req ''payload_hash'' TText,
     Opt ''previous_event_hash'' TText,
     Req ''event_hash'' TText,
     Opt ''metadata'' (TDict TAny),
     Req ''timestamp'' TText])"

definition WorkflowDetail :: ty where
  "WorkflowDetail = TRec [Req ''workflow'' WorkflowDetail_workflow,
     Opt ''payment'' WorkflowDetail_payment,
     Opt ''customer'' WorkflowDetail_customer,
     Opt ''policy_decision'' WorkflowDetail_policy_decision,
     Opt ''ai_decisions'' WorkflowDetail_ai_decisions,
     Opt ''model_predictions'' WorkflowDetail_model_predictions,
     Opt ''recovery_actions'' WorkflowDetail_recovery_actions,
     Opt ''recovery_outcomes'' WorkflowDetail_recovery_outcomes,
     Opt ''risk_assessments'' WorkflowDetail_risk_assessments,
     Opt ''audit_events'' WorkflowDetail_audit_events]"

definition ComponentStatus :: ty where
  "ComponentStatus = TRec [Req ''name'' TText,
     Req ''status'' (TLits [''HEALTHY'', ''DEGRADED'', ''UNHEALTHY'', ''AVAILABLE'', ''UNAVAILABLE'']),
     Req ''latency_ms'' TNum,
     Opt ''message'' TText,
     Opt ''details'' (TDict TAny)]"

definition SystemHealthResponse :: ty where
  "SystemHealthResponse = TRec [Req ''overall_status'' (TLits [''HEALTHY'', ''DEGRADED'', ''UNHEALTHY'']),
     Req ''components'' (TArr ComponentStatus),
     Req ''timestamp'' TText]"

definition QueueStats :: ty where
  "QueueStats = TRec [Req ''queue'' TText,
     Req ''size'' TNum,
     Req ''memory_usage_bytes'' TNum,
     Req ''active'' TNum,
     Req ''pending'' TNum,
     Req ''scheduled'' TNum,
     Req ''retry'' TNum,
     Req ''archived'' TNum,
     Req ''completed'' TNum,
     Req ''paused'' TBool]"

definition ServerInfo :: ty where
  "ServerInfo = TRec [Req ''id'' TText,
     Req ''host'' TText,
     Req ''pid'' TNum,
     Req ''concurrency'' TNum,
     Req ''queues'' (TArr TText),
     Req ''started'' TText,
     Req ''status'' TText]"

definition SystemQueuesResponse :: ty where
  "SystemQueuesResponse = TRec [Req ''redis_status'' TText,
     Req ''queues'' (TArr QueueStats),
     Req ''servers'' (TArr ServerInfo),
     Req ''timestamp'' TText]"

definition InterventionItem :: ty where
  "InterventionItem = TRec [Req ''id'' TText,
     Req ''payment_id'' TText,
     Opt ''merchant_id'' TText,
     Req ''status'' TText,
     Req ''recovery_probability'' TNum,
     Req ''selected_action'' TText,
     Opt ''scheduled_at'' TText,
     Req ''created_at'' TText,
     Req ''updated_at'' TText,
     Req ''amount'' TNum,
     Req ''currency'' TText,
     Req ''payment_status'' TText,
     Req ''payment_method'' TText,
     Req ''failure_code'' TText,
     Opt ''razorpay_payment_id'' TText,
     Req ''customer_id'' TText,
     Req ''customer_email'' TText,
     Opt ''customer_phone'' TText,
     Req ''communication_opt_out'' TBool,
     Req ''attempts_count'' TNum,
     Req ''is_recovered'' TBool,
     Req ''customer_success_count'' TNum,
     Req ''customer_failed_count'' TNum,
     Opt ''fraud_probability'' TNum,
     Opt ''return_probability'' TNum,
     Opt ''overall_risk'' TText,
     Opt ''expected_loss'' TNum,
     Opt ''risk_action'' TText,
     Req ''latest_diagnosis'' TText,
     Req ''latest_confidence'' TNum,
     Req ''escalation_reason'' TText]"

definition InterventionsResponse :: ty where
  "InterventionsResponse = TRec [Req ''data'' (TArr InterventionItem),
     Req ''total'' TNum]"

record WorkflowSummary =
  wf_id :: string
  wf_payment_id :: string
  wf_amount :: number
  wf_currency :: string
  wf_customer_id :: "string option"
  wf_customer_email :: "string option"
  wf_customer_phone :: "string option"
  wf_customer_success_count :: "number option"
  wf_customer_failed_count :: "number option"
  wf_fraud_probability :: "number option"
  wf_return_probability :: "number option"
  wf_overall_risk :: "string option"
  wf_expected_loss :: "number option"
  wf_risk_action :: "string option"
  wf_failure_code :: string
  wf_failure_reason :: "string option"
  wf_status :: string
  wf_recovery_probability :: number
  wf_selected_action :: string
  wf_attempt_count :: number
  wf_recovered :: bool
  wf_created_at :: string
  wf_updated_at :: string

fun opt_str :: "string option \<Rightarrow> js" where
  "opt_str None = Undef"
| "opt_str (Some s) = Str s"

fun opt_num :: "number option \<Rightarrow> js" where
  "opt_num None = Undef"
| "opt_num (Some n) = Num n"

definition wf_js :: "WorkflowSummary \<Rightarrow> js" where
  \<comment> \<open>the object a summary is at run time\<close>
  "wf_js w = Obj [
     (''id'', Str (wf_id w)),
     (''payment_id'', Str (wf_payment_id w)),
     (''amount'', Num (wf_amount w)),
     (''currency'', Str (wf_currency w)),
     (''customer_id'', opt_str (wf_customer_id w)),
     (''customer_email'', opt_str (wf_customer_email w)),
     (''customer_phone'', opt_str (wf_customer_phone w)),
     (''customer_success_count'', opt_num (wf_customer_success_count w)),
     (''customer_failed_count'', opt_num (wf_customer_failed_count w)),
     (''fraud_probability'', opt_num (wf_fraud_probability w)),
     (''return_probability'', opt_num (wf_return_probability w)),
     (''overall_risk'', opt_str (wf_overall_risk w)),
     (''expected_loss'', opt_num (wf_expected_loss w)),
     (''risk_action'', opt_str (wf_risk_action w)),
     (''failure_code'', Str (wf_failure_code w)),
     (''failure_reason'', opt_str (wf_failure_reason w)),
     (''status'', Str (wf_status w)),
     (''recovery_probability'', Num (wf_recovery_probability w)),
     (''selected_action'', Str (wf_selected_action w)),
     (''attempt_count'', Num (wf_attempt_count w)),
     (''recovered'', Bool (wf_recovered w)),
     (''created_at'', Str (wf_created_at w)),
     (''updated_at'', Str (wf_updated_at w))]"

lemmas web_types = WorkflowDetail_workflow_def WorkflowDetail_payment_def WorkflowDetail_customer_def WorkflowDetail_policy_decision_def WorkflowDetail_ai_decisions_def WorkflowDetail_model_predictions_def WorkflowDetail_recovery_actions_def WorkflowDetail_recovery_outcomes_def WorkflowDetail_risk_assessments_def WorkflowDetail_audit_events_def AnalyticsOverview_def WorkflowSummaryT_def WorkflowsResponse_def WorkflowDetail_def ComponentStatus_def SystemHealthResponse_def QueueStats_def ServerInfo_def SystemQueuesResponse_def InterventionItem_def InterventionsResponse_def

lemma has_type_opt [simp]: "opt_str x = Undef \<or> has_type TText (opt_str x)" "opt_num y = Undef \<or> has_type TNum (opt_num y)"
  by (cases x; simp) (cases y; simp)

lemma wf_js_typed [simp]: "has_type WorkflowSummaryT (wf_js w)"
  by (simp add: WorkflowSummaryT_def wf_js_def)

end
