(* ===== verification/SyntheticDataset.thy ===== *)
theory SyntheticDataset
  imports WebTypes "HOL-Library.State_Monad"
begin

text \<open>
  \<open>apps/web/src/lib/syntheticDataset.ts\<close>: the demonstration data of the console. The
  pseudo-random generator is a state monad over its integer state, an item is a computation in it
  drawing in the order of the source, and the dataset is the loop over the items behind the fixed
  human interventions.
\<close>

subsection \<open>The generator\<close>

definition js_rem :: "int \<Rightarrow> int \<Rightarrow> int" where
  \<comment> \<open>\<open>a % b\<close> on integers: the sign of the dividend\<close>
  "js_rem a b = sgn a * (\<bar>a\<bar> mod \<bar>b\<bar>)"

definition createPRNG :: "int \<Rightarrow> int" where
  \<comment> \<open>the state a generator starts in\<close>
  "createPRNG seed = (let s = js_rem seed 2147483647 in if s \<le> 0 then s + 2147483646 else s)"

definition prng :: "(int, number) state" where
  "prng = State (\<lambda>s. let s' = js_rem (s * 16807) 2147483647
     in (to_number (of_int (s' - 1) / 2147483646), s'))"

definition lit :: "int \<Rightarrow> int \<Rightarrow> number" where
  \<comment> \<open>a decimal literal: \<open>lit 35 100\<close> is \<open>0.35\<close>\<close>
  "lit a b = to_number (of_int a / of_int b)"

definition index_of :: "number \<Rightarrow> int \<Rightarrow> nat" where
  \<comment> \<open>\<open>Math.floor(r * n)\<close> as an array index\<close>
  "index_of r n = nat (to_integer (nfloor (nmul r (nint n))))"

definition pick_one :: "'a list \<Rightarrow> (int, 'a) state" where
  \<comment> \<open>\<open>xs[Math.floor(prng() * xs.length)]\<close>\<close>
  "pick_one xs = do { r \<leftarrow> prng; State_Monad.return (xs ! index_of r (int (length xs))) }"

subsection \<open>The tables\<close>

definition FIRST_NAMES :: "string list" where
  "FIRST_NAMES = [''Aarav'', ''Aditi'', ''Rohan'', ''Priya'', ''Vikram'', ''Sneha'', ''Ananya'', ''Rahul'',
     ''Kavita'', ''Siddharth'', ''Meera'', ''Arjun'', ''Neha'', ''Rajesh'', ''Pooja'',
     ''Varun'', ''Tanvi'', ''Nikhil'', ''Ishita'', ''Gaurav'', ''Divya'', ''Karan'',
     ''Shreya'', ''Amit'', ''Ritu'', ''Manish'', ''Simran'', ''Akash'', ''Swati'', ''Harsh'']"

definition LAST_NAMES :: "string list" where
  "LAST_NAMES = [''Sharma'', ''Verma'', ''Patel'', ''Mehta'', ''Chopra'', ''Gupta'', ''Nair'', ''Iyer'',
     ''Rao'', ''Joshi'', ''Singhania'', ''Reddy'', ''Deshmukh'', ''Kapoor'', ''Bhatia'',
     ''Saxena'', ''Mishra'', ''Banerjee'', ''Kulkarni'', ''Aggarwal'']"

definition DOMAINS :: "string list" where
  "DOMAINS = [''revive-os.me'', ''revive-os.me'', ''gmail.com'', ''outlook.com'', ''enterprise.in'',
     ''techcorp.io'', ''startup.co'', ''fintech.ai'', ''acme.com'']"

definition PLAN_AMOUNTS :: "int list" where
  "PLAN_AMOUNTS = [499, 999, 1499, 2499, 4999, 9999, 14999, 24999, 49999, 85000]"

subsection \<open>One item\<close>

record profile =
  failureCode :: string
  failureReason :: string
  recoveryProb :: number
  selectedAction :: string
  fraudProb :: number
  returnProb :: number
  overallRisk :: string
  expectedLoss :: number
  riskAction :: string
  isRecovered :: bool

definition around :: "int \<Rightarrow> int \<Rightarrow> (int, number) state" where
  \<comment> \<open>\<open>a + prng() * b\<close>, in hundredths\<close>
  "around a b = do { r \<leftarrow> prng; State_Monad.return (nadd (lit a 100) (nmul r (lit b 100))) }"

definition below :: "int \<Rightarrow> (int, bool) state" where
  \<comment> \<open>\<open>prng() < a\<close>, in hundredths\<close>
  "below a = do { r \<leftarrow> prng; State_Monad.return (nless r (lit a 100)) }"

definition low_risk :: "string \<Rightarrow> string \<Rightarrow> string \<Rightarrow> number \<Rightarrow> number \<Rightarrow> number \<Rightarrow> bool \<Rightarrow> profile" where
  "low_risk code reason action rec fraud ret ok = \<lparr>failureCode = code, failureReason = reason,
     recoveryProb = rec, selectedAction = action, fraudProb = fraud, returnProb = ret, overallRisk = ''LOW'',
     expectedLoss = Fin 0, riskAction = ''ALLOW'', isRecovered = ok\<rparr>"

definition failure_profile :: "number \<Rightarrow> number \<Rightarrow> (int, profile) state" where
  "failure_profile amount caseRoll =
    (if nless caseRoll (lit 35 100) then do {
       rec \<leftarrow> around 74 12; fraud \<leftarrow> around 2 4; ret \<leftarrow> around 1 3; ok \<leftarrow> below 78;
       State_Monad.return (low_risk ''INSUFFICIENT_FUNDS''
         ''Customer balance low at billing cycle time; scheduled on payday window''
         ''DELAYED_RETRY'' rec fraud ret ok) }
     else if nless caseRoll (lit 60 100) then do {
       code \<leftarrow> pick_one [''BANK_UNAVAILABLE'', ''BANK_DOWNTIME'', ''GATEWAY_TIMEOUT''];
       rec \<leftarrow> around 91 7; fraud \<leftarrow> around 1 3; ret \<leftarrow> around 1 2; ok \<leftarrow> below 92;
       State_Monad.return (low_risk code
         ''Temporary issuing bank gateway downtime; exponential jitter retry executed''
         ''IMMEDIATE_RETRY'' rec fraud ret ok) }
     else if nless caseRoll (lit 78 100) then do {
       code \<leftarrow> pick_one [''AUTHENTICATION_FAILED'', ''3DS_TIMEOUT'', ''OTP_EXPIRED''];
       rec \<leftarrow> around 66 12; fraud \<leftarrow> around 6 8; ret \<leftarrow> around 3 5; ok \<leftarrow> below 72;
       State_Monad.return (low_risk code
         ''Customer dropped 3DS authentication; generated interactive smart recovery link''
         ''PAYMENT_LINK'' rec fraud ret ok) }
     else if nless caseRoll (lit 88 100) then do {
       code \<leftarrow> pick_one [''EXPIRED_CARD'', ''MANDATE_LAPSED''];
       rec \<leftarrow> around 58 12; fraud \<leftarrow> around 2 4; ret \<leftarrow> around 2 4; ok \<leftarrow> below 64;
       State_Monad.return (low_risk code
         ''Card expired or mandate lapsed; generated secure payment update link''
         ''UPDATE_PAYMENT_METHOD'' rec fraud ret ok) }
     else if nless caseRoll (lit 94 100) then do {
       code \<leftarrow> pick_one [''LIMIT_EXCEEDED'', ''VELOCITY_LIMIT_EXCEEDED''];
       rec \<leftarrow> around 72 12; fraud \<leftarrow> around 5 8; ret \<leftarrow> around 2 4; ok \<leftarrow> below 70;
       State_Monad.return (low_risk code
         ''Banking velocity cap reached; dispatched multi-rail payment fallback''
         ''PAYMENT_LINK'' rec fraud ret ok) }
     else do {
       code \<leftarrow> pick_one [''SUSPECTED_FRAUD'', ''STOLEN_CARD'', ''RISK_ANOMALY_BLOCKED''];
       rec \<leftarrow> around 8 7; fraud \<leftarrow> around 78 20; ret \<leftarrow> around 65 28;
       State_Monad.return \<lparr>failureCode = code,
         failureReason = ''High risk anomaly flagged by Random Forest model; retries permanently halted'',
         recoveryProb = rec, selectedAction = ''HALT'', fraudProb = fraud, returnProb = ret,
         overallRisk = ''HIGH'', expectedLoss = nmul amount fraud, riskAction = ''BLOCK'',
         isRecovered = False\<rparr> })"

definition choose_status :: "number \<Rightarrow> number \<Rightarrow> bool \<Rightarrow> (int, string \<times> bool) state" where
  \<comment> \<open>the status and the final \<open>isRecovered\<close>; the second draw happens only for recent items\<close>
  "choose_status caseRoll hoursAgo ok =
    (if nleq (lit 94 100) caseRoll then State_Monad.return (''HALTED'', ok)
     else do {
       active \<leftarrow> (if nless hoursAgo (lit 25 10) then below 35 else State_Monad.return False);
       if active then do {
         st \<leftarrow> pick_one [''ANALYZING'', ''SCHEDULED'', ''EXECUTING'', ''VERIFYING''];
         State_Monad.return (st, False) }
       else State_Monad.return (if ok then (''RECOVERED'', ok) else (''FAILED'', ok)) })"

definition choose_amount :: "(int, int) state" where
  "choose_amount = do {
     standard \<leftarrow> below 85;
     r \<leftarrow> prng;
     State_Monad.return (if standard then PLAN_AMOUNTS ! index_of r 6 else PLAN_AMOUNTS ! (6 + index_of r 4)) }"

definition payment_method :: "number \<Rightarrow> string" where
  "payment_method mRoll = (if nless mRoll (lit 45 100) then ''card''
     else if nless mRoll (lit 80 100) then ''upi''
     else if nless mRoll (lit 95 100) then ''netbanking'' else ''wallet'')"

definition rounded :: "nat \<Rightarrow> number \<Rightarrow> number" where
  \<comment> \<open>\<open>parseFloat(x.toFixed(d))\<close>\<close>
  "rounded d x = parse_float (to_fixed d x)"

definition base_time :: number where
  "base_time = date_parse ''2026-09-01T12:00:00Z''"

definition hours_ago :: "number \<Rightarrow> number" where
  "hours_ago rh = nmul rh (nint 720)"

definition make_item :: "nat \<Rightarrow> string \<Rightarrow> string \<Rightarrow> string \<Rightarrow> number \<Rightarrow> number \<Rightarrow> number \<Rightarrow> number \<Rightarrow> int
    \<Rightarrow> profile \<Rightarrow> string \<Rightarrow> bool \<Rightarrow> number \<Rightarrow> number \<Rightarrow> err + WorkflowSummary" where
  \<comment> \<open>the item of the loop's index from everything drawn for it\<close>
  "make_item i fname lname domain re rp rh mRoll amount pr status ok rs rf =
    (let custId = ''cust_'' @ to_lower fname @ ''_'' @ show_nat (i + 100);
         email = to_lower fname @ ''.'' @ to_lower lname @
           num_to_string (nadd (nfloor (nmul re (nint 900))) (nint 100)) @ ''@'' @ domain;
         phone = ''+91'' @ num_to_string (nfloor (nadd (nint 9800000000) (nmul rp (nint 199999999))));
         createdAt = time_clip (nsub base_time (nmul (nmul (hours_ago rh) (nint 3600)) (nint 1000)));
         updatedAt = time_clip (nadd createdAt (nint (15 * 60 * 1000)));
         number = show_nat (100000 + i)
     in seqE (to_iso createdAt) (\<lambda>created. seqE (to_iso updatedAt) (\<lambda>updated. Inr \<lparr>
         wf_id = ''wf_synth_'' @ number,
         wf_payment_id = ''pay_synth_'' @ number @ ''_'' @ take 2 (payment_method mRoll),
         wf_amount = nint amount,
         wf_currency = ''INR'',
         wf_customer_id = Some custId,
         wf_customer_email = Some email,
         wf_customer_phone = Some phone,
         wf_customer_success_count = Some (nadd (nfloor (nmul rs (nint 8))) (nint 2)),
         wf_customer_failed_count = Some (nfloor (nmul rf (nint 3))),
         wf_fraud_probability = Some (rounded 3 (fraudProb pr)),
         wf_return_probability = Some (rounded 3 (returnProb pr)),
         wf_overall_risk = Some (overallRisk pr),
         wf_expected_loss = Some (rounded 2 (expectedLoss pr)),
         wf_risk_action = Some (riskAction pr),
         wf_failure_code = failureCode pr,
         wf_failure_reason = Some (failureReason pr),
         wf_status = status,
         wf_recovery_probability = rounded 3 (recoveryProb pr),
         wf_selected_action = selectedAction pr,
         wf_attempt_count = nint (if ok then 1 else 2),
         wf_recovered = ok,
         wf_created_at = created,
         wf_updated_at = updated\<rparr>)))"

definition generate_item :: "nat \<Rightarrow> (int, err + WorkflowSummary) state" where
  "generate_item i = do {
     fname \<leftarrow> pick_one FIRST_NAMES;
     lname \<leftarrow> pick_one LAST_NAMES;
     domain \<leftarrow> pick_one DOMAINS;
     re \<leftarrow> prng;
     rp \<leftarrow> prng;
     rh \<leftarrow> prng;
     mRoll \<leftarrow> prng;
     amount \<leftarrow> choose_amount;
     caseRoll \<leftarrow> prng;
     pr \<leftarrow> failure_profile (nint amount) caseRoll;
     (status, ok) \<leftarrow> choose_status caseRoll (hours_ago rh) (isRecovered pr);
     rs \<leftarrow> prng;
     rf \<leftarrow> prng;
     State_Monad.return (make_item i fname lname domain re rp rh mRoll amount pr status ok rs rf) }"

subsection \<open>The human interventions\<close>

definition minutes_before :: "int \<Rightarrow> err + string" where
  \<comment> \<open>\<open>new Date(now.getTime() - m * 60 * 1000).toISOString()\<close> with the interventions' own \<open>now\<close>\<close>
  "minutes_before m = to_iso (time_clip (nsub (date_parse ''2026-09-01T14:30:00Z'') (nint (m * 60 * 1000))))"

definition intervention_rows :: "((string \<times> js) list \<times> int) list" where
  \<comment> \<open>the fields of each item but \<open>created_at\<close>, and the minutes it lies back\<close>
  "intervention_rows = [
     ([(''id'', Str ''wf_esc_revive_101''),
       (''payment_id'', Str ''pay_revive_85000_ent_01''),
       (''amount'', js_int 85000),
       (''currency'', Str ''INR''),
       (''customer_id'', Str ''cust_alex_revive''),
       (''customer_email'', Str ''alex.morgan@revive-os.me''),
       (''customer_phone'', Str ''+919876543210''),
       (''customer_success_count'', js_int 8),
       (''customer_failed_count'', js_int 1),
       (''fraud_probability'', Num (lit 12 100)),
       (''return_probability'', Num (lit 4 100)),
       (''overall_risk'', Str ''LOW''),
       (''expected_loss'', js_int 10200),
       (''risk_action'', Str ''ALLOW''),
       (''failure_code'', Str ''LIMIT_EXCEEDED''),
       (''escalation_reason'', Str (''High-value Enterprise Tier ('' @ [CHR 0xE2, CHR 0x82, CHR 0xB9] @ ''85,000) threshold exceeded '' @ [CHR 0xE2, CHR 0x80, CHR 0x94] @ '' requires operator authorization'')),
       (''selected_action'', Str ''PAYMENT_LINK''),
       (''latest_confidence'', Num (lit 92 100)),
       (''recovery_probability'', Num (lit 92 100)),
       (''communication_opt_out'', Bool False)], 18),
     ([(''id'', Str ''wf_esc_revive_102''),
       (''payment_id'', Str ''pay_revive_24999_pro_02''),
       (''amount'', js_int 24999),
       (''currency'', Str ''INR''),
       (''customer_id'', Str ''cust_sarah_revive''),
       (''customer_email'', Str ''sarah.chen@revive-os.me''),
       (''customer_phone'', Str ''+919812345678''),
       (''customer_success_count'', js_int 4),
       (''customer_failed_count'', js_int 2),
       (''fraud_probability'', Num (lit 78 100)),
       (''return_probability'', Num (lit 55 100)),
       (''overall_risk'', Str ''HIGH''),
       (''expected_loss'', Num (lit 1949922 100)),
       (''risk_action'', Str ''REVIEW''),
       (''failure_code'', Str ''AUTHENTICATION_FAILED''),
       (''escalation_reason'', Str ''ML Risk Guard flagged anomalous velocity spike (78% fraud risk score) from novel subnet''),
       (''selected_action'', Str ''PAYMENT_LINK''),
       (''latest_confidence'', Num (lit 65 100)),
       (''recovery_probability'', Num (lit 65 100)),
       (''communication_opt_out'', Bool False)], 42),
     ([(''id'', Str ''wf_esc_revive_103''),
       (''payment_id'', Str ''pay_revive_14999_ann_03''),
       (''amount'', js_int 14999),
       (''currency'', Str ''INR''),
       (''customer_id'', Str ''cust_vikram_revive''),
       (''customer_email'', Str ''vikram.mehta@revive-os.me''),
       (''customer_phone'', Str ''+919823456789''),
       (''customer_success_count'', js_int 6),
       (''customer_failed_count'', js_int 0),
       (''fraud_probability'', Num (lit 5 100)),
       (''return_probability'', Num (lit 2 100)),
       (''overall_risk'', Str ''LOW''),
       (''expected_loss'', Num (lit 74995 100)),
       (''risk_action'', Str ''ALLOW''),
       (''failure_code'', Str ''MANDATE_LAPSED''),
       (''escalation_reason'', Str (''Customer communication opt-out conflict '' @ [CHR 0xE2, CHR 0x80, CHR 0x94] @ '' automated SMS/WhatsApp halted, manual dispatch required'')),
       (''selected_action'', Str ''UPDATE_PAYMENT_METHOD''),
       (''latest_confidence'', Num (lit 88 100)),
       (''recovery_probability'', Num (lit 88 100)),
       (''communication_opt_out'', Bool True)], 75),
     ([(''id'', Str ''wf_esc_revive_104''),
       (''payment_id'', Str ''pay_revive_49999_cld_04''),
       (''amount'', js_int 49999),
       (''currency'', Str ''INR''),
       (''customer_id'', Str ''cust_billing_revive''),
       (''customer_email'', Str ''billing.ops@revive-os.me''),
       (''customer_phone'', Str ''+919834567890''),
       (''customer_success_count'', js_int 12),
       (''customer_failed_count'', js_int 3),
       (''fraud_probability'', Num (lit 8 100)),
       (''return_probability'', Num (lit 3 100)),
       (''overall_risk'', Str ''LOW''),
       (''expected_loss'', Num (lit 399992 100)),
       (''risk_action'', Str ''ALLOW''),
       (''failure_code'', Str ''INSUFFICIENT_FUNDS''),
       (''escalation_reason'', Str (''3 recurring billing cycle failures on mandate '' @ [CHR 0xE2, CHR 0x80, CHR 0x94] @ '' requires manual payment method re-auth'')),
       (''selected_action'', Str ''DELAYED_RETRY''),
       (''latest_confidence'', Num (lit 84 100)),
       (''recovery_probability'', Num (lit 84 100)),
       (''communication_opt_out'', Bool False)], 110),
     ([(''id'', Str ''wf_esc_revive_105''),
       (''payment_id'', Str ''pay_revive_85000_sec_05''),
       (''amount'', js_int 85000),
       (''currency'', Str ''INR''),
       (''customer_id'', Str ''cust_security_revive''),
       (''customer_email'', Str ''security.team@revive-os.me''),
       (''customer_phone'', Str ''+919845678901''),
       (''customer_success_count'', js_int 15),
       (''customer_failed_count'', js_int 1),
       (''fraud_probability'', Num (lit 42 100)),
       (''return_probability'', Num (lit 18 100)),
       (''overall_risk'', Str ''MEDIUM''),
       (''expected_loss'', js_int 35700),
       (''risk_action'', Str ''REVIEW''),
       (''failure_code'', Str ''SUSPECTED_FRAUD''),
       (''escalation_reason'', Str ''Card network high-risk decline code (05_DO_NOT_HONOUR) on corporate credit rail''),
       (''selected_action'', Str ''PAYMENT_LINK''),
       (''latest_confidence'', Num (lit 71 100)),
       (''recovery_probability'', Num (lit 71 100)),
       (''communication_opt_out'', Bool False)], 140)]"

definition getSyntheticInterventions :: "err + js list" where
  "getSyntheticInterventions = mapE (\<lambda>(fs, m). seqE (minutes_before m) (\<lambda>t.
     Inr (Obj (fs @ [(''created_at'', Str t)])))) intervention_rows"

definition str_of :: "js \<Rightarrow> string" where
  "str_of v = (case v of Str s \<Rightarrow> s | _ \<Rightarrow> to_str v)"

definition num_of :: "js \<Rightarrow> number" where
  "num_of v = (case v of Num n \<Rightarrow> n | _ \<Rightarrow> to_num v)"

definition intervention_summary :: "js \<Rightarrow> WorkflowSummary" where
  \<comment> \<open>an intervention as a summary; its fields are texts and numbers (see \<open>intervention_rows\<close>)\<close>
  "intervention_summary item = \<lparr>
     wf_id = str_of (member item ''id''),
     wf_payment_id = str_of (member item ''payment_id''),
     wf_amount = num_of (member item ''amount''),
     wf_currency = str_of (member item ''currency''),
     wf_customer_id = Some (str_of (member item ''customer_id'')),
     wf_customer_email = Some (str_of (member item ''customer_email'')),
     wf_customer_phone = Some (str_of (member item ''customer_phone'')),
     wf_customer_success_count = Some (num_of (member item ''customer_success_count'')),
     wf_customer_failed_count = Some (num_of (member item ''customer_failed_count'')),
     wf_fraud_probability = Some (num_of (member item ''fraud_probability'')),
     wf_return_probability = Some (num_of (member item ''return_probability'')),
     wf_overall_risk = Some (str_of (member item ''overall_risk'')),
     wf_expected_loss = Some (num_of (member item ''expected_loss'')),
     wf_risk_action = Some (str_of (member item ''risk_action'')),
     wf_failure_code = str_of (member item ''failure_code''),
     wf_failure_reason = Some (str_of (member item ''escalation_reason'')),
     wf_status = ''ESCALATED'',
     wf_recovery_probability = num_of (member item ''recovery_probability''),
     wf_selected_action = str_of (member item ''selected_action''),
     wf_attempt_count = nint 1,
     wf_recovered = False,
     wf_created_at = str_of (member item ''created_at''),
     wf_updated_at = str_of (member item ''created_at'')\<rparr>"

subsection \<open>The dataset\<close>

definition generate_items :: "nat \<Rightarrow> (err + WorkflowSummary) list" where
  "generate_items count = fst (run_state (traverse_list generate_item [0..<count]) (createPRNG 42))"

definition generateSyntheticWorkflows :: "nat \<Rightarrow> err + WorkflowSummary list" where
  \<comment> \<open>the first item whose dates cannot be printed would end the loop with its error\<close>
  "generateSyntheticWorkflows count =
    seqE (mapE (\<lambda>x. x) (generate_items count)) (\<lambda>items.
    seqE getSyntheticInterventions (\<lambda>testInterventions.
      Inr (map intervention_summary testInterventions @ items)))"

type_synonym cache = "WorkflowSummary list option"

definition getSyntheticWorkflows :: "cache \<Rightarrow> err + WorkflowSummary list \<times> cache" where
  \<comment> \<open>the module's cached singleton\<close>
  "getSyntheticWorkflows cachedWorkflows = (case cachedWorkflows of
     Some ws \<Rightarrow> Inr (ws, cachedWorkflows)
   | None \<Rightarrow> seqE (generateSyntheticWorkflows 2500) (\<lambda>ws. Inr (ws, Some ws)))"

subsection \<open>The generator stays in range\<close>

definition good :: "int \<Rightarrow> bool" where
  \<comment> \<open>the states of the generator\<close>
  "good s \<longleftrightarrow> 1 \<le> s \<and> s \<le> 2147483646"

definition unit :: "number \<Rightarrow> bool" where
  \<comment> \<open>the draws\<close>
  "unit r \<longleftrightarrow> (\<exists>x. r = Fin x \<and> 0 \<le> x \<and> x < 1 \<and> x \<le> 1 - 1 / 2 ^ 32)"

lemma nsub_int [num_simps]: "\<bar>a - b\<bar> \<le> 2 ^ 53 \<Longrightarrow> nsub (nint a) (nint b) = nint (a - b)"
  using nadd_int [of a "- b"] by (simp add: nsub_def)

lemma is_double_numeral [simp]: "(numeral n :: int) \<le> 2 ^ 53 \<Longrightarrow> is_double (numeral n)"
  using is_double_int [of "numeral n"] by simp

lemma good_seed [simp]: "good (createPRNG 42)"
  by (simp add: createPRNG_def js_rem_def good_def)

lemma coprime_multiplier: "coprime (2147483647::int) 16807"
  by (simp add: coprime_iff_gcd_eq_1 gcd_non_0_int)

lemma good_step: assumes "good s" shows "good (js_rem (s * 16807) 2147483647)"
proof -
  have s: "1 \<le> s" "s \<le> 2147483646" using assms by (simp_all add: good_def)
  have e: "js_rem (s * 16807) 2147483647 = s * 16807 mod 2147483647"
    using s by (simp add: js_rem_def abs_mult)
  have "s * 16807 mod 2147483647 \<noteq> 0"
  proof
    assume "s * 16807 mod 2147483647 = 0"
    then have "2147483647 dvd s * 16807" by (simp add: dvd_eq_mod_eq_0)
    then have "2147483647 dvd s" using coprime_dvd_mult_left_iff [OF coprime_multiplier, of s] by simp
    then show False using s zdvd_imp_le [of 2147483647 s] by simp
  qed
  then show ?thesis unfolding e good_def
    using pos_mod_sign [of 2147483647 "s * 16807"] pos_mod_bound [of 2147483647 "s * 16807"] by linarith
qed

lemma unit_draw: assumes "good s" shows "unit (to_number (of_int (s - 1) / 2147483646))"
proof -
  let ?x = "of_int (s - 1) / 2147483646 :: rat"
  have s: "1 \<le> s" "s \<le> 2147483646" using assms by (simp_all add: good_def)
  have "?x * 2 ^ 32 \<le> of_int (2 ^ 32 - 1)"
  proof -
    have "(of_int (s - 1) :: rat) \<le> of_int 2147483645" using s by (simp only: of_int_le_iff)
    then show ?thesis by (simp add: field_simps)
  qed
  then have hi: "?x \<le> of_int (2 ^ 32 - 1) / 2 ^ 32" by (simp add: field_simps)
  have lo: "0 \<le> ?x" using s by simp
  have "\<bar>?x\<bar> \<le> 2 ^ 53" using hi lo by simp
  then have "to_number ?x = Fin (rnd ?x)" by (rule to_number_bounded)
  moreover have "rnd ?x \<le> of_int (2 ^ 32 - 1) / 2 ^ 32"
    by (rule rnd_le [OF hi], rule is_double_scaled) simp_all
  moreover have "0 \<le> rnd ?x" using lo by (rule rnd_nonneg)
  ultimately show ?thesis by (simp add: unit_def)
qed

text \<open>
  The pseudo-random generator never leaves its range: from any state between 1 and 2147483646 a draw
  is a number in \<open>[0, 1)\<close> and the next state lies in the same range, so the multiplication is exact in
  floating point.
\<close>

lemma prng_in_range:
  assumes "good s"
  shows "unit (fst (run_state prng s)) \<and> good (snd (run_state prng s)) \<and> s * 16807 \<le> 2 ^ 53"
proof -
  have "s * 16807 \<le> 2147483646 * 16807" using assms by (simp add: good_def)
  then show ?thesis using unit_draw [OF good_step [OF assms]] good_step [OF assms]
    by (simp add: prng_def Let_def)
qed

text \<open>\<open>always P m\<close>: from a state in range, \<open>m\<close> yields a value with \<open>P\<close> and a state in range.\<close>

definition always :: "('a \<Rightarrow> bool) \<Rightarrow> (int, 'a) state \<Rightarrow> bool" where
  "always P m \<longleftrightarrow> (\<forall>s. good s \<longrightarrow> P (fst (run_state m s)) \<and> good (snd (run_state m s)))"

named_theorems draws \<open>what computations in the generator always yield\<close>

lemma always_return [draws]: "P x \<Longrightarrow> always P (State_Monad.return x)"
  by (simp add: always_def)

lemma always_bind: "always P m \<Longrightarrow> (\<And>x. P x \<Longrightarrow> always Q (f x)) \<Longrightarrow> always Q (m \<bind> f)"
  by (auto simp: always_def State_Monad.bind_def split_beta)

lemma always_mono: "always P m \<Longrightarrow> (\<And>x. P x \<Longrightarrow> Q x) \<Longrightarrow> always Q m"
  by (auto simp: always_def)

lemma always_prng [draws]: "always unit prng"
  using unit_draw good_step by (simp add: always_def prng_def Let_def)

lemma index_bound:
  assumes "unit r" "0 < n" "n \<le> 2 ^ 20" shows "index_of r n < nat n"
proof -
  obtain x where x: "r = Fin x" "0 \<le> x" "x \<le> 1 - 1 / 2 ^ 32" using assms(1) by (auto simp: unit_def)
  have "x * of_int n \<le> (1 - 1 / 2 ^ 32) * of_int n" using x(3) assms(2) by (intro mult_right_mono) simp_all
  also have "\<dots> = of_int n - of_int n / 2 ^ 32" by (simp add: field_simps)
  also have "\<dots> \<le> of_int n - 1 / 2 ^ 32" using assms(2) by (simp add: divide_right_mono)
  also have "\<dots> = of_int (n * 2 ^ 32 - 1) / 2 ^ 32" by (simp add: field_simps)
  finally have hi: "x * of_int n \<le> of_int (n * 2 ^ 32 - 1) / 2 ^ 32" .
  have lo: "0 \<le> x * of_int n" using x(2) assms(2) by simp
  have "of_int (n * 2 ^ 32 - 1) / 2 ^ 32 \<le> (of_int n :: rat)" by (simp add: field_simps)
  moreover have "(of_int n :: rat) \<le> of_int (2 ^ 20)" using assms(3) by (simp only: of_int_le_iff)
  ultimately have "\<bar>x * of_int n\<bar> \<le> 2 ^ 53" using hi lo by simp
  then have m: "nmul r (nint n) = Fin (rnd (x * of_int n))" by (simp add: x(1) to_number_bounded)
  have "rnd (x * of_int n) \<le> of_int (n * 2 ^ 32 - 1) / 2 ^ 32"
    by (rule rnd_le [OF hi], rule is_double_scaled) (use assms(2,3) in simp_all)
  also have "\<dots> < of_int n" by (simp add: field_simps)
  finally have "\<lfloor>rnd (x * of_int n)\<rfloor> < n" by (simp add: floor_less_iff)
  moreover have "0 \<le> rnd (x * of_int n)" using lo by (rule rnd_nonneg)
  ultimately show ?thesis using assms(2) by (simp add: index_of_def m)
qed

lemma always_pick [draws]:
  assumes "xs \<noteq> []" "length xs \<le> 2 ^ 20" shows "always (\<lambda>x. x \<in> set xs) (pick_one xs)"
proof -
  have "xs ! index_of r (int (length xs)) \<in> set xs" if "unit r" for r
    using index_bound [OF that, of "int (length xs)"] assms by simp
  then show ?thesis unfolding pick_one_def by (intro always_bind [OF always_prng] always_return)
qed

lemma lit_rnd: "\<bar>a\<bar> \<le> 2 ^ 53 \<Longrightarrow> 1 \<le> b \<Longrightarrow> lit a b = Fin (rnd (of_int a / of_int b))"
  unfolding lit_def
proof (rule to_number_bounded)
  assume a: "\<bar>a\<bar> \<le> 2 ^ 53" "1 \<le> b"
  have "\<bar>of_int a / of_int b\<bar> \<le> (\<bar>of_int a\<bar> :: rat)" using a(2) by (simp add: divide_le_eq mult_le_cancel_left1)
  also have "\<dots> \<le> of_int (2 ^ 53)" using a(1) by (simp only: of_int_abs [symmetric] of_int_le_iff)
  finally show "\<bar>of_int a / of_int b :: rat\<bar> \<le> 2 ^ 53" by simp
qed

lemma below_not_above:
  assumes "nless r (lit a 100)" "a \<le> b" "0 \<le> a" "b \<le> 100" shows "\<not> nleq (lit b 100) r"
proof -
  have "rnd (of_int a / 100) \<le> rnd (of_int b / 100)" using assms(2) by (intro rnd_mono divide_right_mono) simp_all
  then show ?thesis using assms lit_rnd [of a 100] lit_rnd [of b 100] by (cases r) auto
qed

subsection \<open>What an item always satisfies\<close>

definition profile_ok :: "number \<Rightarrow> profile \<Rightarrow> bool" where
  "profile_ok roll p \<longleftrightarrow> (riskAction p = ''BLOCK'') = nleq (lit 94 100) roll
     \<and> (riskAction p = ''BLOCK'') = (selectedAction p = ''HALT'')
     \<and> (riskAction p = ''BLOCK'') = (overallRisk p = ''HIGH'')
     \<and> \<not> (riskAction p = ''BLOCK'' \<and> isRecovered p) \<and> failureCode p \<noteq> []"

lemma always_around [draws]: "always (\<lambda>_. True) (around a b)"
  unfolding around_def by (intro always_bind [OF always_prng] always_return) simp

lemma always_below [draws]: "always (\<lambda>_. True) (below a)"
  unfolding below_def by (intro always_bind [OF always_prng] always_return) simp

lemma unit_cases: "unit r \<Longrightarrow> \<not> nless r (lit 94 100) \<Longrightarrow> nleq (lit 94 100) r"
  using lit_rnd [of 94 100] by (auto simp: unit_def)

lemma always_failure_profile [draws]:
  assumes "unit roll" shows "always (profile_ok roll) (failure_profile amount roll)"
proof -
  note low = below_not_above [of roll _ 94]
  show ?thesis
    unfolding failure_profile_def
    by (auto intro!: always_bind [OF always_around] always_bind [OF always_below] always_return
        always_bind [OF always_pick] simp: profile_ok_def low_risk_def unit_cases [OF assms] dest: low)
qed

definition statuses :: "string list" where
  "statuses = [''HALTED'', ''ANALYZING'', ''SCHEDULED'', ''EXECUTING'', ''VERIFYING'', ''RECOVERED'', ''FAILED'']"

lemma always_choose_status [draws]:
  "(nleq (lit 94 100) roll \<Longrightarrow> \<not> ok) \<Longrightarrow>
   always (\<lambda>(st, ok'). st \<in> set statuses \<and> (st = ''HALTED'') = nleq (lit 94 100) roll
     \<and> (ok' = (st = ''RECOVERED''))) (choose_status roll hours ok)"
proof (cases "nleq (lit 94 100) roll")
  case True
  assume "nleq (lit 94 100) roll \<Longrightarrow> \<not> ok"
  then show ?thesis using True by (simp add: choose_status_def statuses_def always_return)
next
  case False
  have st: "always (\<lambda>x. x \<in> set [''ANALYZING'', ''SCHEDULED'', ''EXECUTING'', ''VERIFYING''])
      (pick_one [''ANALYZING'', ''SCHEDULED'', ''EXECUTING'', ''VERIFYING''])"
    by (rule always_pick) simp_all
  have ac: "always (\<lambda>_. True) (if nless hours (lit 25 10) then below 35 else State_Monad.return False)"
    by (simp add: always_below always_return)
  have "always (\<lambda>(st, ok'). st \<in> set statuses \<and> (st = ''HALTED'') = nleq (lit 94 100) roll \<and> (ok' = (st = ''RECOVERED'')))
      (if active then pick_one [''ANALYZING'', ''SCHEDULED'', ''EXECUTING'', ''VERIFYING''] \<bind> (\<lambda>st. State_Monad.return (st, False))
       else State_Monad.return (if ok then (''RECOVERED'', ok) else (''FAILED'', ok)))" for active
    using False by (auto simp: statuses_def intro!: always_return always_bind [OF st])
  then show ?thesis using False unfolding choose_status_def by (simp add: always_bind [OF ac])
qed

lemma always_choose_amount [draws]: "always (\<lambda>a. a \<in> set PLAN_AMOUNTS) choose_amount"
proof -
  have "PLAN_AMOUNTS ! index_of r 6 \<in> set PLAN_AMOUNTS \<and> PLAN_AMOUNTS ! (6 + index_of r 4) \<in> set PLAN_AMOUNTS"
    if "unit r" for r
    using index_bound [OF that, of 6] index_bound [OF that, of 4]
    by (intro conjI nth_mem) (simp_all add: PLAN_AMOUNTS_def)
  then show ?thesis unfolding choose_amount_def
    by (intro always_bind [OF always_below] always_bind [OF always_prng] always_return) simp
qed


subsection \<open>Dates of an item\<close>

text \<open>The instants the dataset uses lie in August and September 2026.\<close>

definition recent :: "int \<Rightarrow> bool" where
  "recent t \<longleftrightarrow> 1785671999000 \<le> t \<and> t \<le> 1788300000000"

lemma base_times: "base_time = nint 1788264000000" "date_parse ''2026-09-01T14:30:00Z'' = nint 1788273000000"
  by (simp_all add: base_time_def date_parse_def read_ymd_def read_hms_def read_ms_def read_n_def read_sep_def
      is_digit_def digits_val_def digit_val_def days_from_civil_def march_days_def Let_def)

lemma recent_year: assumes "recent t" shows "fst (civil (t div 86400000)) \<in> {0..9999}"
proof -
  have "t div 86400000 \<in> {20667..20698}" using assms by (auto simp: recent_def)
  then have "t div 86400000 \<in> set [20667..20698]" by (simp only: set_upto)
  moreover have "list_all (\<lambda>z. fst (civil z) = 2026) [20667..20698]"
    by code_simp
  ultimately have "fst (civil (t div 86400000)) = 2026" by (simp only: list_all_iff)
  then show ?thesis by simp
qed

lemma recent_round_trip: "recent t \<Longrightarrow> date_parse (iso_string t) = nint t"
  by (rule date_round_trip [OF recent_year])

lemma clip_small: "\<bar>x\<bar> \<le> of_int max_time \<Longrightarrow> time_clip (Fin x) = nint (to_integer (Fin x))"
  by (simp add: time_clip_def)

lemma created_recent:
  assumes "unit rh"
  shows "\<exists>t. time_clip (nsub base_time (nmul (nmul (hours_ago rh) (nint 3600)) (nint 1000))) = nint t
    \<and> 1785671999000 \<le> t \<and> t \<le> 1788264000000"
proof -
  obtain x where x: "rh = Fin x" "0 \<le> x" "x \<le> 1" using assms by (auto simp: unit_def)
  have r1: "0 \<le> rnd (x * 720)" "rnd (x * 720) \<le> of_int 720" using x
    by (auto intro!: rnd_nonneg rnd_le is_double_int)
  have r2: "0 \<le> rnd (rnd (x * 720) * 3600)" "rnd (rnd (x * 720) * 3600) \<le> of_int 2592000" using r1
    by (auto intro!: rnd_nonneg rnd_le is_double_int)
  have r3: "0 \<le> rnd (rnd (rnd (x * 720) * 3600) * 1000)" "rnd (rnd (rnd (x * 720) * 3600) * 1000) \<le> of_int 2592000000" using r2
    by (auto intro!: rnd_nonneg rnd_le is_double_int)
  define d where "d = rnd (rnd (rnd (x * 720) * 3600) * 1000)"
  have m: "nmul (nmul (hours_ago rh) (nint 3600)) (nint 1000) = Fin d"
    using x r1 r2 by (simp add: hours_ago_def d_def to_number_bounded abs_mult)
  define y where "y = rnd (1788264000000 - d)"
  have y: "of_int 1785672000000 \<le> y" "y \<le> of_int 1788264000000" using r3 unfolding y_def d_def
    by (auto intro!: le_rnd rnd_le is_double_int)
  have "nsub base_time (Fin d) = Fin y"
    using r3 by (simp add: nsub_def base_times y_def d_def to_number_bounded)
  moreover have "time_clip (Fin y) = nint \<lfloor>y\<rfloor>" using y by (simp add: time_clip_def max_time_def)
  moreover have "1785672000000 \<le> \<lfloor>y\<rfloor>" using y(1) by (simp only: le_floor_iff)
  moreover have "\<lfloor>y\<rfloor> \<le> 1788264000000" using y(2) by (metis floor_mono floor_of_int)
  ultimately show ?thesis unfolding m by (intro exI [of _ "\<lfloor>y\<rfloor>"]) simp
qed

lemma later: assumes "1785671999000 \<le> t" "t \<le> 1788264000000" "0 \<le> k" "k \<le> 86400000"
  shows "time_clip (nadd (nint t) (nint k)) = nint (t + k)"
proof -
  have "nadd (nint t) (nint k) = nint (t + k)" using assms by (intro nadd_int) simp
  moreover have "\<bar>of_int (t + k) :: rat\<bar> \<le> of_int max_time"
    using assms by (simp only: of_int_abs [symmetric] of_int_le_iff max_time_def)
  ultimately show ?thesis by (simp add: time_clip_def del: of_int_add)
qed

definition item_ok :: "nat \<Rightarrow> WorkflowSummary \<Rightarrow> bool" where
  "item_ok i w \<longleftrightarrow> wf_id w = ''wf_synth_'' @ show_nat (100000 + i)
     \<and> (\<exists>m\<in>set [''ca'', ''up'', ''ne'', ''wa'']. wf_payment_id w = ''pay_synth_'' @ show_nat (100000 + i) @ ''_'' @ m)
     \<and> wf_amount w \<in> nint ` set PLAN_AMOUNTS \<and> wf_failure_code w \<noteq> []
     \<and> wf_status w \<in> set statuses \<and> (wf_recovered w = (wf_status w = ''RECOVERED''))
     \<and> (wf_status w = ''HALTED'') = (wf_risk_action w = Some ''BLOCK'')
     \<and> (wf_status w = ''HALTED'') = (wf_selected_action w = ''HALT'')
     \<and> (wf_status w = ''HALTED'') = (wf_overall_risk w = Some ''HIGH'')
     \<and> wf_attempt_count w = nint (if wf_recovered w then 1 else 2)
     \<and> (\<exists>t. wf_created_at w = iso_string t \<and> wf_updated_at w = iso_string (t + 900000)
          \<and> 1785671999000 \<le> t \<and> t \<le> 1788264000000)"

lemma tables: "FIRST_NAMES \<noteq> []" "length FIRST_NAMES \<le> 2 ^ 20" "LAST_NAMES \<noteq> []" "length LAST_NAMES \<le> 2 ^ 20"
  "DOMAINS \<noteq> []" "length DOMAINS \<le> 2 ^ 20"
  by (simp_all add: FIRST_NAMES_def LAST_NAMES_def DOMAINS_def)

lemma method_prefix: "take 2 (payment_method m) \<in> set [''ca'', ''up'', ''ne'', ''wa'']"
  by (simp add: payment_method_def)

lemma make_item_ok:
  assumes "unit rh" "amount \<in> set PLAN_AMOUNTS" "profile_ok roll pr" "st \<in> set statuses"
    "(st = ''HALTED'') = nleq (lit 94 100) roll" "ok = (st = ''RECOVERED'')"
  shows "\<exists>w. make_item i fname lname domain re rp rh mRoll amount pr st ok rs rf = Inr w \<and> item_ok i w"
proof -
  obtain t where t: "time_clip (nsub base_time (nmul (nmul (hours_ago rh) (nint 3600)) (nint 1000))) = nint t"
      "1785671999000 \<le> t" "t \<le> 1788264000000" using created_recent [OF assms(1)] by blast
  have u: "time_clip (nadd (nint t) (nint (15 * 60 * 1000))) = nint (t + 900000)" using later [OF t(2,3), of 900000] by simp
  have iso: "to_iso (nint t) = Inr (iso_string t)" "to_iso (nint (t + 900000)) = Inr (iso_string (t + 900000))"
    by (simp_all only: to_iso_def number.case floor_of_int)
  show ?thesis
    using assms(2-6) t(2,3) method_prefix [of mRoll]
    unfolding make_item_def Let_def t(1) u iso item_ok_def profile_ok_def by auto
qed

lemma always_item: "always (\<lambda>r. \<exists>w. r = Inr w \<and> item_ok i w) (generate_item i)"
  unfolding generate_item_def
proof (intro always_bind [OF always_pick [OF tables(1,2)]] always_bind [OF always_pick [OF tables(3,4)]]
    always_bind [OF always_pick [OF tables(5,6)]] always_bind [OF always_choose_amount])
  fix fname lname domain :: string
  show "always (\<lambda>r. \<exists>w. r = Inr w \<and> item_ok i w) (do {
     re \<leftarrow> prng; rp \<leftarrow> prng; rh \<leftarrow> prng; mRoll \<leftarrow> prng; amount \<leftarrow> choose_amount; caseRoll \<leftarrow> prng;
     pr \<leftarrow> failure_profile (nint amount) caseRoll;
     (status, ok) \<leftarrow> choose_status caseRoll (hours_ago rh) (isRecovered pr);
     rs \<leftarrow> prng; rf \<leftarrow> prng;
     State_Monad.return (make_item i fname lname domain re rp rh mRoll amount pr status ok rs rf) })"
  proof (intro always_bind [OF always_prng] always_bind [OF always_choose_amount])
    fix re rp rh mRoll roll amount
    assume h: "unit rh" "amount \<in> set PLAN_AMOUNTS" and roll: "unit roll"
    show "always (\<lambda>r. \<exists>w. r = Inr w \<and> item_ok i w) (do {
       pr \<leftarrow> failure_profile (nint amount) roll;
       (status, ok) \<leftarrow> choose_status roll (hours_ago rh) (isRecovered pr);
       rs \<leftarrow> prng; rf \<leftarrow> prng;
       State_Monad.return (make_item i fname lname domain re rp rh mRoll amount pr status ok rs rf) })"
    proof (rule always_bind [OF always_failure_profile [OF roll]])
      fix pr assume pr: "profile_ok roll pr"
      then have c: "nleq (lit 94 100) roll \<Longrightarrow> \<not> isRecovered pr" by (auto simp: profile_ok_def)
      show "always (\<lambda>r. \<exists>w. r = Inr w \<and> item_ok i w) (do {
         (status, ok) \<leftarrow> choose_status roll (hours_ago rh) (isRecovered pr);
         rs \<leftarrow> prng; rf \<leftarrow> prng;
         State_Monad.return (make_item i fname lname domain re rp rh mRoll amount pr status ok rs rf) })"
      proof (rule always_bind [OF always_choose_status [OF c]])
        fix x
        assume "case x of (st, ok') \<Rightarrow> st \<in> set statuses \<and> (st = ''HALTED'') = nleq (lit 94 100) roll
          \<and> (ok' = (st = ''RECOVERED''))"
        then obtain st ok where x: "x = (st, ok)" and ok: "st \<in> set statuses"
            "(st = ''HALTED'') = nleq (lit 94 100) roll" "ok = (st = ''RECOVERED'')" by (cases x) simp
        show "always (\<lambda>r. \<exists>w. r = Inr w \<and> item_ok i w) (case x of (status, ok) \<Rightarrow> do {
           rs \<leftarrow> prng; rf \<leftarrow> prng;
           State_Monad.return (make_item i fname lname domain re rp rh mRoll amount pr status ok rs rf) })"
          unfolding x prod.case
          by (intro always_bind [OF always_prng] always_return make_item_ok [OF h pr ok])
      qed
    qed
  qed
qed

subsection \<open>The dataset\<close>

lemma always_traverse:
  "(\<And>x. x \<in> set xs \<Longrightarrow> always (P x) (f x)) \<Longrightarrow> always (\<lambda>ys. list_all2 P xs ys) (traverse_list f xs)"
proof (induction xs)
  case (Cons x xs)
  have "always (P x) (f x)" "always (\<lambda>ys. list_all2 P xs ys) (traverse_list f xs)" using Cons by simp_all
  then show ?case by (auto intro!: always_bind [of "P x"] always_bind [of "list_all2 P xs"] always_return)
qed (simp add: always_return)

lemma mapE_id: "list_all2 (\<lambda>i r. \<exists>w. r = Inr w \<and> P i w) xs rs \<Longrightarrow> \<exists>ws. mapE (\<lambda>x. x) rs = Inr ws \<and> list_all2 P xs ws"
  by (induction xs rs rule: list_all2_induct) auto

lemma items_ok: "\<exists>ws. mapE (\<lambda>x. x) (generate_items n) = Inr ws \<and> list_all2 item_ok [0..<n] ws"
proof -
  have "always (\<lambda>ys. list_all2 (\<lambda>i r. \<exists>w. r = Inr w \<and> item_ok i w) [0..<n] ys) (traverse_list generate_item [0..<n])"
    by (rule always_traverse) (rule always_item)
  then have "list_all2 (\<lambda>i r. \<exists>w. r = Inr w \<and> item_ok i w) [0..<n] (generate_items n)"
    by (simp add: always_def generate_items_def)
  then show ?thesis by (rule mapE_id)
qed

end
