(* ===== verification/SyntheticReports.thy ===== *)
theory SyntheticReports
  imports SyntheticDataset
begin

text \<open>
  The reports \<open>syntheticDataset.ts\<close> derives from the dataset: the analytics overview and the detail of
  one workflow. Both take the list that \<open>getSyntheticWorkflows\<close> returns.
\<close>

subsection \<open>The dataset as a whole\<close>

lemma minutes_before_ok:
  assumes "0 \<le> m" "m \<le> 1000"
  shows "minutes_before m = Inr (iso_string (1788273000000 - m * 60000))"
proof -
  have e: "m * 60 * 1000 = m * 60000" by simp
  have "nsub (nint 1788273000000) (nint (m * 60 * 1000)) = nint (1788273000000 - m * 60000)"
    unfolding e by (rule nsub_int) (use assms in simp)
  moreover have "\<bar>of_int (1788273000000 - m * 60000) :: rat\<bar> \<le> of_int max_time"
    using assms by (simp only: of_int_abs [symmetric] of_int_le_iff max_time_def)
  then have "time_clip (nint (1788273000000 - m * 60000)) = nint (1788273000000 - m * 60000)"
    by (simp add: time_clip_def del: of_int_diff)
  ultimately show ?thesis unfolding minutes_before_def base_times(2) by (simp add: to_iso_def del: of_int_diff)
qed

definition intervention_items :: "js list" where
  "intervention_items = map (\<lambda>(fs, m). Obj (fs @ [(''created_at'', Str (iso_string (1788273000000 - m * 60000)))])) intervention_rows"

lemma interventions: "getSyntheticInterventions = Inr intervention_items"
  unfolding getSyntheticInterventions_def intervention_items_def
proof (rule mapE_total)
  fix x assume "x \<in> set intervention_rows"
  then have "snd x \<in> {18, 42, 75, 110, 140}" by (auto simp: intervention_rows_def)
  then have "minutes_before (snd x) = Inr (iso_string (1788273000000 - snd x * 60000))"
    by (intro minutes_before_ok) auto
  then show "(case x of (fs, m) \<Rightarrow> seqE (minutes_before m) (\<lambda>t. Inr (Obj (fs @ [(''created_at'', Str t)]))))
      = Inr (case x of (fs, m) \<Rightarrow> Obj (fs @ [(''created_at'', Str (iso_string (1788273000000 - m * 60000)))]))"
    by (cases x) simp
qed

definition escalated :: "WorkflowSummary list" where
  "escalated = map intervention_summary intervention_items"

lemma generate_eq:
  obtains ws where "generateSyntheticWorkflows n = Inr (escalated @ ws)" "list_all2 item_ok [0..<n] ws"
  using items_ok [of n] by (auto simp: generateSyntheticWorkflows_def interventions escalated_def)

lemma fld_append: "fld (a @ b) k = (if k \<in> fst ` set a then fld a k else fld b k)"
  by (induction a) (auto simp: rev_image_eqI)

lemma in_set_map_image: "y \<in> set (map f xs) \<Longrightarrow> \<exists>x. x \<in> set xs \<and> y = f x"
  by auto

lemma each_item: "list_all2 item_ok [0..<n] ws \<Longrightarrow> w \<in> set ws \<Longrightarrow> \<exists>i. item_ok i w"
  by (auto simp: list_all2_conv_all_nth in_set_conv_nth)

lemma summary_fields:
  "wf_id (intervention_summary v) = str_of (member v ''id'')"
  "wf_payment_id (intervention_summary v) = str_of (member v ''payment_id'')"
  "wf_amount (intervention_summary v) = num_of (member v ''amount'')"
  "wf_created_at (intervention_summary v) = str_of (member v ''created_at'')"
  "wf_updated_at (intervention_summary v) = str_of (member v ''created_at'')"
  "wf_status (intervention_summary v) = ''ESCALATED''"
  "wf_recovered (intervention_summary v) = False"
  "wf_failure_code (intervention_summary v) = str_of (member v ''failure_code'')"
  by (simp_all add: intervention_summary_def)

lemma escalated_facts:
  "map wf_id escalated = [''wf_esc_revive_101'', ''wf_esc_revive_102'', ''wf_esc_revive_103'',
     ''wf_esc_revive_104'', ''wf_esc_revive_105'']"
  "map wf_payment_id escalated = [''pay_revive_85000_ent_01'', ''pay_revive_24999_pro_02'',
     ''pay_revive_14999_ann_03'', ''pay_revive_49999_cld_04'', ''pay_revive_85000_sec_05'']"
  "map wf_amount escalated = [nint 85000, nint 24999, nint 14999, nint 49999, nint 85000]"
  "map wf_created_at escalated = map (\<lambda>m. iso_string (1788273000000 - m * 60000)) [18, 42, 75, 110, 140]"
  "list_all (\<lambda>w. wf_status w = ''ESCALATED'' \<and> \<not> wf_recovered w \<and> wf_updated_at w = wf_created_at w
     \<and> wf_failure_code w \<noteq> []) escalated"
  unfolding escalated_def intervention_items_def intervention_rows_def
  by (simp_all add: summary_fields str_of_def num_of_def)

lemma length_escalated [simp]: "length escalated = 5"
  using arg_cong [OF escalated_facts(1), of length] by simp

lemma item_payment: "item_ok i w \<Longrightarrow> \<exists>m. wf_payment_id w = ''pay_synth_'' @ show_nat (100000 + i) @ ''_'' @ m"
  unfolding item_ok_def by blast

lemma item_amount: "item_ok i w \<Longrightarrow> wf_amount w \<in> nint ` set PLAN_AMOUNTS"
  unfolding item_ok_def by blast

lemma item_ids: "item_ok i w \<Longrightarrow> wf_id w = ''wf_synth_'' @ show_nat (100000 + i)"
  by (simp add: item_ok_def)

lemma underscore_free: "CHR ''_'' \<notin> set (show_nat n)"
  using show_nat_digits [of n] by (auto simp: list_all_iff is_digit_def)

lemma item_payment_inj: assumes "item_ok i v" "item_ok j w" "wf_payment_id v = wf_payment_id w" shows "i = j"
proof -
  obtain a where a: "wf_payment_id v = ''pay_synth_'' @ show_nat (100000 + i) @ ''_'' @ a"
    using item_payment [OF assms(1)] by blast
  obtain b where b: "wf_payment_id w = ''pay_synth_'' @ show_nat (100000 + j) @ ''_'' @ b"
    using item_payment [OF assms(2)] by blast
  have e: "show_nat (100000 + i) @ CHR ''_'' # a = show_nat (100000 + j) @ CHR ''_'' # b"
    using assms(3) a b by simp
  have "takeWhile (\<lambda>c. c \<noteq> CHR ''_'') (show_nat n @ CHR ''_'' # t) = show_nat n" for n t
    using underscore_free [of n] by (subst takeWhile_append2) auto
  then have "show_nat (100000 + i) = show_nat (100000 + j)" using arg_cong [OF e, of "takeWhile (\<lambda>c. c \<noteq> CHR ''_'')"] by simp
  then show ?thesis by simp
qed

lemma distinct_by_index:
  assumes "list_all2 P [0..<n] ws" "\<And>i j v w. P i v \<Longrightarrow> P j w \<Longrightarrow> f v = f w \<Longrightarrow> i = j"
  shows "distinct (map f ws)"
proof (rule distinct_conv_nth [THEN iffD2], intro allI impI)
  fix i j assume h: "i < length (map f ws)" "j < length (map f ws)" "i \<noteq> j"
  then have l: "i < n" "j < n" using list_all2_lengthD [OF assms(1)] by simp_all
  have "P ([0..<n] ! i) (ws ! i)" "P ([0..<n] ! j) (ws ! j)" using list_all2_nthD [OF assms(1)] l by simp_all
  then show "map f ws ! i \<noteq> map f ws ! j" using assms(2) [of i "ws ! i" j "ws ! j"] h l by auto
qed

lemma prefix_not_escalated:
  "item_ok i w \<Longrightarrow> wf_id w \<notin> set (map wf_id escalated) \<and> wf_payment_id w \<notin> set (map wf_payment_id escalated)"
  unfolding escalated_facts by (frule item_ids, drule item_payment) auto


text \<open>
  C4: The generated items are consistent in themselves: item number \<open>i\<close> carries the number in its ids, an
  amount of the price table and a failure code; it is halted exactly when the risk engine blocks it,
  exactly when its action is to halt, and exactly when its risk is high; it took one attempt if it
  recovered and two otherwise; and it was last updated 15 minutes after its creation.
\<close>

theorem dataset_items_consistent:
  "\<exists>ws. generateSyntheticWorkflows n = Inr ws \<and> list_all2 item_ok [0..<n] (drop 5 ws)
     \<and> list_all (\<lambda>w. wf_status w = ''ESCALATED'') (take 5 ws)"
proof (rule generate_eq [of n])
  fix ws assume "generateSyntheticWorkflows n = Inr (escalated @ ws)" "list_all2 item_ok [0..<n] ws"
  moreover have "list_all (\<lambda>w. wf_status w = ''ESCALATED'') escalated"
    using escalated_facts(5) by (auto simp: list_all_iff)
  ultimately show ?thesis by simp
qed

subsection \<open>The analytics overview\<close>

record totals =
  recoveredRevenue :: number
  totalAtRiskRevenue :: number
  activeRecoveries :: number
  pendingActions :: number
  categoryBreakdown :: "(string \<times> js) list"

definition start_totals :: totals where
  "start_totals = \<lparr>recoveredRevenue = nint 0, totalAtRiskRevenue = nint 0, activeRecoveries = nint 0,
     pendingActions = nint 0, categoryBreakdown = []\<rparr>"

definition in_flight :: "WorkflowSummary \<Rightarrow> bool" where
  "in_flight w \<longleftrightarrow> wf_status w \<in> set [''ANALYZING'', ''SCHEDULED'', ''EXECUTING'', ''VERIFYING'']"

definition add_workflow :: "totals \<Rightarrow> WorkflowSummary \<Rightarrow> totals" where
  "add_workflow t w =
    (let active = in_flight w; cat = (if wf_failure_code w = [] then ''UNKNOWN'' else wf_failure_code w)
     in \<lparr>recoveredRevenue = (if wf_recovered w then nadd (recoveredRevenue t) (wf_amount w) else recoveredRevenue t),
         totalAtRiskRevenue = nadd (totalAtRiskRevenue t) (wf_amount w),
         activeRecoveries = (if active then nadd (activeRecoveries t) (nint 1) else activeRecoveries t),
         pendingActions = (if active then nadd (pendingActions t) (nint 1) else pendingActions t),
         categoryBreakdown = put_field (categoryBreakdown t) cat
           (Num (nadd (to_num (orv (fld (categoryBreakdown t) cat) (js_int 0))) (nint 1)))\<rparr>)"

definition recent_outcome :: "WorkflowSummary \<Rightarrow> js" where
  "recent_outcome w = Obj [
     (''payment_id'', Str (wf_payment_id w)),
     (''amount'', Num (wf_amount w)),
     (''currency'', Str (wf_currency w)),
     (''failure_code'', Str (wf_failure_code w)),
     (''action_type'', Str (wf_selected_action w)),
     (''status'', Str (if wf_recovered w then ''CAPTURED'' else wf_status w)),
     (''recovered'', Bool (wf_recovered w)),
     (''recovered_amount'', Num (if wf_recovered w then wf_amount w else nint 0)),
     (''created_at'', Str (wf_created_at w))]"

definition getSyntheticAnalyticsOverview :: "WorkflowSummary list \<Rightarrow> js" where
  "getSyntheticAnalyticsOverview workflows =
    (let totalPayments = nint (int (length workflows));
         failedPayments = nint (int (length workflows));
         recoveredWorkflows = nint (int (length (filter wf_recovered workflows)));
         recoveryRate = rounded 3 (ndiv recoveredWorkflows totalPayments);
         t = foldl add_workflow start_totals workflows
     in Obj [
       (''total_payments'', Num totalPayments),
       (''failed_payments'', Num failedPayments),
       (''total_workflows'', Num totalPayments),
       (''recovered_workflows'', Num recoveredWorkflows),
       (''recovery_rate'', Num recoveryRate),
       (''recovered_revenue'', Num (recoveredRevenue t)),
       (''total_at_risk_revenue'', Num (totalAtRiskRevenue t)),
       (''active_recoveries'', Num (activeRecoveries t)),
       (''pending_actions'', Num (pendingActions t)),
       (''category_breakdown'', Obj (categoryBreakdown t)),
       (''recent_outcomes'', Arr (map recent_outcome (take 25 workflows)))])"

definition rupees :: "WorkflowSummary \<Rightarrow> int" where
  \<comment> \<open>a whole amount\<close>
  "rupees w = (case wf_amount w of Fin x \<Rightarrow> \<lfloor>x\<rfloor> | _ \<Rightarrow> 0)"

definition whole :: "WorkflowSummary \<Rightarrow> bool" where
  "whole w \<longleftrightarrow> wf_amount w = nint (rupees w) \<and> 0 \<le> rupees w \<and> rupees w \<le> 100000"

fun counts :: "(string \<times> js) list \<Rightarrow> int \<Rightarrow> bool" where
  \<comment> \<open>every field holds a positive count, and they add up\<close>
  "counts [] n = (n = 0)"
| "counts ((k, v) # fs) n = (\<exists>c. v = js_int c \<and> 1 \<le> c \<and> c \<le> n \<and> counts fs (n - c))"

lemma counts_nonneg: "counts fs n \<Longrightarrow> 0 \<le> n"
  by (induction fs n rule: counts.induct) force+

lemma counts_put:
  assumes "counts fs n" "n < 2 ^ 50"
  shows "counts (put_field fs k (Num (nadd (to_num (orv (fld fs k) (js_int 0))) (nint 1)))) (n + 1)"
  using assms
proof (induction fs n rule: counts.induct)
  case (1 n)
  then show ?case using nadd_int [of 0 1] by simp
next
  case (2 k' v fs n)
  then obtain c where c: "v = js_int c" "1 \<le> c" "c \<le> n" "counts fs (n - c)" by auto
  show ?case
  proof (cases "k' = k")
    case True
    have "nadd (nint c) (nint 1) = nint (c + 1)" using c 2(3) by (intro nadd_int) simp
    moreover have "orv (js_int c) (js_int 0) = js_int c" using c(2) by (simp add: orv_def)
    ultimately show ?thesis using True c by (auto intro!: exI [of _ "c + 1"] simp: add_ac simp del: of_int_add)
  next
    case False
    have "counts (put_field fs k (Num (nadd (to_num (orv (fld fs k) (js_int 0))) (nint 1)))) (n - c + 1)"
      using 2(1) [OF c(4)] c(2,3) 2(3) by simp
    then show ?thesis using False c by (auto simp: algebra_simps)
  qed
qed

lemma fold_totals:
  assumes "list_all whole ws" "length ws \<le> 10 ^ 6"
  defines "t \<equiv> foldl add_workflow start_totals ws"
  shows "totalAtRiskRevenue t = nint (sum_list (map rupees ws))
    \<and> recoveredRevenue t = nint (sum_list (map rupees (filter wf_recovered ws)))
    \<and> activeRecoveries t = nint (int (length (filter in_flight ws)))
    \<and> pendingActions t = nint (int (length (filter in_flight ws)))
    \<and> counts (categoryBreakdown t) (int (length ws))
    \<and> 0 \<le> sum_list (map rupees (filter wf_recovered ws))
    \<and> sum_list (map rupees (filter wf_recovered ws)) \<le> sum_list (map rupees ws)
    \<and> sum_list (map rupees ws) \<le> 100000 * int (length ws)"
  using assms(1,2) unfolding t_def
proof (induction ws rule: rev_induct)
  case Nil
  then show ?case by (simp add: start_totals_def)
next
  case (snoc w ws)
  define t where "t = foldl add_workflow start_totals ws"
  define S R A where "S = sum_list (map rupees ws)" and "R = sum_list (map rupees (filter wf_recovered ws))"
    and "A = int (length (filter in_flight ws))"
  have IH: "totalAtRiskRevenue t = nint S" "recoveredRevenue t = nint R" "activeRecoveries t = nint A"
      "pendingActions t = nint A" "counts (categoryBreakdown t) (int (length ws))" "0 \<le> R" "R \<le> S"
      "S \<le> 100000 * int (length ws)"
    using snoc by (simp_all add: t_def S_def R_def A_def)
  have w: "wf_amount w = nint (rupees w)" "0 \<le> rupees w" "rupees w \<le> 100000"
    using snoc(2) by (simp_all add: whole_def)
  have len: "int (length ws) \<le> 10 ^ 6" using snoc(3) by simp
  have A: "0 \<le> A" "A \<le> 10 ^ 6" using len le_trans [OF length_filter_le [of in_flight ws]] by (simp_all add: A_def)
  have S: "0 \<le> S" "S \<le> 10 ^ 11" using IH(6-8) len by simp_all
  have sums: "nadd (nint S) (nint (rupees w)) = nint (S + rupees w)" "nadd (nint R) (nint (rupees w)) = nint (R + rupees w)"
      "nadd (nint A) (nint 1) = nint (A + 1)"
    using S A w IH(6,7) by (intro nadd_int; simp)+
  have c: "counts (put_field (categoryBreakdown t) k
        (Num (nadd (to_num (orv (fld (categoryBreakdown t) k) (js_int 0))) (nint 1)))) (1 + int (length ws))" for k
    using counts_put [OF IH(5), of k] len by (simp only: add.commute [of 1]) simp
  have f: "foldl add_workflow start_totals (ws @ [w]) = add_workflow t w" by (simp add: t_def)
  have "sum_list (map rupees (ws @ [w])) = S + rupees w"
    "sum_list (map rupees (filter wf_recovered (ws @ [w]))) = (if wf_recovered w then R + rupees w else R)"
    "int (length (filter in_flight (ws @ [w]))) = (if in_flight w then A + 1 else A)"
    "int (length (ws @ [w])) = 1 + int (length ws)" by (simp_all add: S_def R_def A_def)
  then show ?case
    unfolding f
    using IH w sums c by (simp add: add_workflow_def Let_def del: of_int_add)
qed

lemma item_whole: "item_ok i w \<Longrightarrow> whole w"
  by (drule item_amount) (auto simp: whole_def rupees_def PLAN_AMOUNTS_def)

lemma escalated_whole: "list_all whole escalated"
proof -
  have "list_all (\<lambda>a. \<exists>k. a = nint k \<and> 0 \<le> k \<and> k \<le> 100000) (map wf_amount escalated)"
    unfolding escalated_facts by (simp del: of_int_numeral; rule conjI exI; rule refl conjI; simp)
  then show ?thesis by (auto simp: list_all_iff whole_def rupees_def)
qed

text \<open>
  C10: The overview of the console's dataset is exact. Floating-point sums notwithstanding, the revenue
  at risk is the sum of all amounts and the recovered revenue the sum over the recovered items, so it
  never exceeds the former; the active and pending counts are the numbers of items in flight; and the category
  counts add up to the number of items.
\<close>

theorem overview_exact:
  "\<exists>ws. generateSyntheticWorkflows 2500 = Inr ws
    \<and> member (getSyntheticAnalyticsOverview ws) ''total_at_risk_revenue'' = js_int (sum_list (map rupees ws))
    \<and> member (getSyntheticAnalyticsOverview ws) ''recovered_revenue'' = js_int (sum_list (map rupees (filter wf_recovered ws)))
    \<and> sum_list (map rupees (filter wf_recovered ws)) \<le> sum_list (map rupees ws)
    \<and> member (getSyntheticAnalyticsOverview ws) ''active_recoveries'' = js_int (int (length (filter in_flight ws)))
    \<and> member (getSyntheticAnalyticsOverview ws) ''pending_actions'' = js_int (int (length (filter in_flight ws)))
    \<and> counts (fields_of (member (getSyntheticAnalyticsOverview ws) ''category_breakdown'')) (int (length ws))
    \<and> has_type AnalyticsOverview (getSyntheticAnalyticsOverview ws)"
proof (rule generate_eq [of 2500])
  fix items assume g: "generateSyntheticWorkflows 2500 = Inr (escalated @ items)" and ok: "list_all2 item_ok [0..<2500] items"
  define ws where "ws = escalated @ items"
  have w: "list_all whole ws"
    using each_item [OF ok] escalated_whole item_whole unfolding ws_def list_all_iff set_append by blast
  have l: "length ws \<le> 10 ^ 6" using list_all2_lengthD [OF ok] by (simp add: ws_def)
  note t = fold_totals [OF w l]
  have "list_all (has_type TNum) (map snd fs)" if "counts fs n" for fs n
    using that by (induction fs n rule: counts.induct) auto
  then have "has_type AnalyticsOverview (getSyntheticAnalyticsOverview ws)"
    using t by (auto simp: getSyntheticAnalyticsOverview_def AnalyticsOverview_def Let_def recent_outcome_def list_all_iff
        dest: in_set_takeD)
  then show ?thesis using g t
    by (intro exI [of _ ws]) (simp add: ws_def [symmetric] getSyntheticAnalyticsOverview_def Let_def fields_of_def)
qed

end
