(* ===== verification/SyntheticDetail.thy ===== *)
theory SyntheticDetail
  imports SyntheticReports
begin

text \<open>
  \<open>getSyntheticWorkflowDetail\<close> of \<open>syntheticDataset.ts\<close>: the record the detail page shows for a
  workflow of the dataset, with its decisions, predictions and audit chain.
\<close>

definition shift_time :: "string \<Rightarrow> int \<Rightarrow> err + string" where
  \<comment> \<open>\<open>new Date(new Date(s).getTime() + ms).toISOString()\<close>\<close>
  "shift_time s ms = to_iso (time_clip (nadd (date_parse s) (nint ms)))"

definition is_halted :: "WorkflowSummary \<Rightarrow> bool" where
  "is_halted w \<longleftrightarrow> wf_status w = ''HALTED''"

definition demo_merchant :: string where
  "demo_merchant = ''00000000-0000-0000-0000-000000000001''"

definition scheduled_at :: "WorkflowSummary \<Rightarrow> err + js" where
  "scheduled_at w = (if wf_selected_action w = ''DELAYED_RETRY''
     then seqE (shift_time (wf_created_at w) (24 * 3600 * 1000)) (\<lambda>t. Inr (Str t)) else Inr Undef)"

definition detail_workflow :: "WorkflowSummary \<Rightarrow> js \<Rightarrow> js" where
  "detail_workflow w scheduled = Obj [
     (''id'', Str (wf_id w)),
     (''payment_id'', Str (wf_payment_id w)),
     (''status'', Str (wf_status w)),
     (''current_state'', Str (wf_status w)),
     (''recovery_probability'', Num (wf_recovery_probability w)),
     (''selected_action'', Str (wf_selected_action w)),
     (''attempt_count'', Num (wf_attempt_count w)),
     (''attempts_count'', Num (wf_attempt_count w)),
     (''created_at'', Str (wf_created_at w)),
     (''updated_at'', Str (wf_updated_at w)),
     (''amount'', Num (wf_amount w)),
     (''currency'', Str (wf_currency w)),
     (''payment_status'', Str (if wf_recovered w then ''CAPTURED'' else ''FAILED'')),
     (''payment_method'', Str (if str_includes (wf_payment_id w) ''up'' then ''upi''
        else if str_includes (wf_payment_id w) ''ne'' then ''netbanking'' else ''card'')),
     (''failure_code'', Str (wf_failure_code w)),
     (''failure_reason'', opt_str (wf_failure_reason w)),
     (''merchant_id'', Str demo_merchant),
     (''razorpay_payment_id'', Str (wf_payment_id w)),
     (''customer_id'', opt_str (wf_customer_id w)),
     (''customer_email'', opt_str (wf_customer_email w)),
     (''customer_phone'', opt_str (wf_customer_phone w)),
     (''customer_success_count'', orv (opt_num (wf_customer_success_count w)) (js_int 4)),
     (''customer_failed_count'', orv (opt_num (wf_customer_failed_count w)) (js_int 1)),
     (''fraud_probability'', opt_num (wf_fraud_probability w)),
     (''return_probability'', opt_num (wf_return_probability w)),
     (''overall_risk'', opt_str (wf_overall_risk w)),
     (''expected_loss'', opt_num (wf_expected_loss w)),
     (''risk_action'', opt_str (wf_risk_action w)),
     (''communication_opt_out'', Bool False),
     (''scheduled_at'', scheduled)]"

definition detail_payment :: "WorkflowSummary \<Rightarrow> js" where
  "detail_payment w = Obj [
     (''id'', Str (wf_payment_id w)),
     (''merchant_id'', Str demo_merchant),
     (''customer_id'', opt_str (wf_customer_id w)),
     (''amount'', Num (wf_amount w)),
     (''currency'', Str ''INR''),
     (''status'', Str (if wf_recovered w then ''CAPTURED'' else ''FAILED'')),
     (''payment_method'', Str (if str_includes (wf_payment_id w) ''up'' then ''upi'' else ''card'')),
     (''failure_code'', Str (wf_failure_code w)),
     (''failure_reason'', opt_str (wf_failure_reason w)),
     (''created_at'', Str (wf_created_at w)),
     (''razorpay_payment_id'', Str (wf_payment_id w))]"

definition detail_ai_decisions :: "WorkflowSummary \<Rightarrow> js" where
  "detail_ai_decisions w = Arr [Obj [
     (''id'', Str (''ai_'' @ wf_id w)),
     (''provider'', Str ''ollama''),
     (''model'', Str ''deepseek-r1:1.5b''),
     (''recommended_action'', Str (wf_selected_action w)),
     (''recommended_delay_hours'', js_int (if wf_selected_action w = ''DELAYED_RETRY'' then 24 else 0)),
     (''confidence'', Num (lit 94 100)),
     (''reasoning'', Str (if is_halted w
        then ''High-risk anomaly detected by Random Forest model. Retries permanently halted to prevent merchant chargeback.''
        else ''Customer has positive payment history. Empirical probability curve indicates optimal capture via ''
          @ wf_selected_action w @ ''.'')),
     (''latency_ms'', js_int 142),
     (''created_at'', Str (wf_created_at w))]]"

definition detail_predictions :: "WorkflowSummary \<Rightarrow> js" where
  "detail_predictions w = Arr [Obj [
     (''id'', Str (''pred_'' @ wf_id w)),
     (''model_version'', Str ''logistic-v1''),
     (''probability'', Num (wf_recovery_probability w)),
     (''features'', Obj [
        (''amount'', Num (wf_amount w)),
        (''customer_success_count'', opt_num (wf_customer_success_count w)),
        (''failure_code'', Str (wf_failure_code w)),
        (''fraud_score'', opt_num (wf_fraud_probability w))]),
     (''created_at'', Str (wf_created_at w))]]"

definition level_of :: "number option \<Rightarrow> js" where
  \<comment> \<open>\<open>(x || 0) > 0.5 ? 'HIGH' : 'LOW'\<close>\<close>
  "level_of x = Str (if gt_num (orv (opt_num x) (js_int 0)) (lit 5 10) then ''HIGH'' else ''LOW'')"

definition detail_risk_assessments :: "WorkflowSummary \<Rightarrow> js" where
  "detail_risk_assessments w = Arr [Obj [
     (''id'', Str (''risk_'' @ wf_id w)),
     (''payment_id'', Str (wf_payment_id w)),
     (''workflow_id'', Str (wf_id w)),
     (''event_type'', Str ''payment.failed''),
     (''fraud_probability'', orv (opt_num (wf_fraud_probability w)) (Num (lit 3 100))),
     (''fraud_risk_level'', level_of (wf_fraud_probability w)),
     (''return_probability'', orv (opt_num (wf_return_probability w)) (Num (lit 2 100))),
     (''return_risk_level'', level_of (wf_return_probability w)),
     (''overall_risk_level'', orv (opt_str (wf_overall_risk w)) (Str ''LOW'')),
     (''expected_loss'', orv (opt_num (wf_expected_loss w)) (js_int 0)),
     (''recommended_action'', orv (opt_str (wf_risk_action w)) (Str ''ALLOW'')),
     (''reason'', Str (if is_halted w then ''Flagged by Random Forest anomaly detector''
        else ''Low anomaly score; normal consumer profile'')),
     (''model_version'', Str ''fraud-rf-v1.0''),
     (''created_at'', Str (wf_created_at w))]]"

definition detail_actions :: "WorkflowSummary \<Rightarrow> string \<Rightarrow> js" where
  "detail_actions w executed = Arr [Obj [
     (''id'', Str (''act_'' @ wf_id w @ ''_1'')),
     (''action_type'', Str (wf_selected_action w)),
     (''status'', Str (if is_halted w then ''FAILED'' else ''EXECUTED'')),
     (''attempt'', js_int 1),
     (''executed_at'', Str executed),
     (''result'', Str (if wf_recovered w then ''Payment recovered successfully''
        else if is_halted w then ''Halted by ML Fraud Guard'' else ''Retry failed'')),
     (''created_at'', Str (wf_created_at w))]]"

definition detail_outcomes :: "WorkflowSummary \<Rightarrow> js" where
  "detail_outcomes w = Arr (if wf_recovered w then [Obj [
     (''id'', Str (''out_'' @ wf_id w)),
     (''action_id'', Str (''act_'' @ wf_id w @ ''_1'')),
     (''payment_id'', Str (wf_payment_id w)),
     (''recovered'', Bool True),
     (''recovered_amount'', Num (wf_amount w)),
     (''time_to_recovery'', Str ''15m 0s''),
     (''created_at'', Str (wf_updated_at w))]] else [])"

definition audit_event :: "WorkflowSummary \<Rightarrow> string \<Rightarrow> string \<Rightarrow> string \<Rightarrow> string \<Rightarrow> string \<Rightarrow> string \<Rightarrow> string \<Rightarrow> js" where
  "audit_event w n time actor action payload prev hash = Obj [
     (''event_id'', Str (''audit_'' @ wf_id w @ ''_'' @ n)),
     (''workflow_id'', Str (wf_id w)),
     (''timestamp'', Str time),
     (''actor'', Str actor),
     (''action'', Str action),
     (''payload_hash'', Str payload),
     (''previous_event_hash'', Str prev),
     (''event_hash'', Str hash)]"

definition detail_audit :: "WorkflowSummary \<Rightarrow> string \<Rightarrow> js list" where
  "detail_audit w risk_time = [
     audit_event w ''1'' (wf_created_at w) ''GATEWAY_WEBHOOK_INGESTION'' ''PAYMENT_FAILURE_INGESTED''
       ''3f8b91a2c4e5d6f7a8b9c0d1e2f3a4b5c6d7e8f9a0b1c2d3e4f5a6b7c8d9e0f1''
       ''0000000000000000000000000000000000000000000000000000000000000000''
       ''a1b2c3d4e5f6a7b8c9d0e1f2a3b4c5d6e7f8a9b0c1d2e3f4a5b6c7d8e9f0a1b2'',
     audit_event w ''2'' risk_time ''ML_RISK_GUARD''
       (if is_halted w then ''RECOVERY_HALTED_FRAUD_RISK'' else ''RISK_EVALUATION_PASSED'')
       ''b2c3d4e5f6a7b8c9d0e1f2a3b4c5d6e7f8a9b0c1d2e3f4a5b6c7d8e9f0a1b2c3''
       ''a1b2c3d4e5f6a7b8c9d0e1f2a3b4c5d6e7f8a9b0c1d2e3f4a5b6c7d8e9f0a1b2''
       ''c3d4e5f6a7b8c9d0e1f2a3b4c5d6e7f8a9b0c1d2e3f4a5b6c7d8e9f0a1b2c3d4'',
     audit_event w ''3'' (wf_updated_at w) ''AUTONOMOUS_EXECUTION_ENGINE''
       (if wf_recovered w then ''PAYMENT_RECOVERY_VERIFIED''
        else if is_halted w then ''WORKFLOW_TERMINATED_GUARDRAILS'' else ''RECOVERY_EXHAUSTED'')
       ''d4e5f6a7b8c9d0e1f2a3b4c5d6e7f8a9b0c1d2e3f4a5b6c7d8e9f0a1b2c3d4e5''
       ''c3d4e5f6a7b8c9d0e1f2a3b4c5d6e7f8a9b0c1d2e3f4a5b6c7d8e9f0a1b2c3d4''
       ''e5f6a7b8c9d0e1f2a3b4c5d6e7f8a9b0c1d2e3f4a5b6c7d8e9f0a1b2c3d4e5f6'']"

definition workflow_detail :: "WorkflowSummary \<Rightarrow> err + js" where
  "workflow_detail w =
    seqE (scheduled_at w) (\<lambda>scheduled.
    seqE (shift_time (wf_created_at w) (120 * 1000)) (\<lambda>executed.
    seqE (shift_time (wf_created_at w) (60 * 1000)) (\<lambda>risk_time. Inr (Obj [
      (''workflow'', detail_workflow w scheduled),
      (''payment'', detail_payment w),
      (''ai_decisions'', detail_ai_decisions w),
      (''model_predictions'', detail_predictions w),
      (''risk_assessments'', detail_risk_assessments w),
      (''recovery_actions'', detail_actions w executed),
      (''recovery_outcomes'', detail_outcomes w),
      (''audit_events'', Arr (detail_audit w risk_time))]))))"

definition find_workflow :: "WorkflowSummary list \<Rightarrow> string \<Rightarrow> WorkflowSummary option" where
  \<comment> \<open>the first match, else the first workflow\<close>
  "find_workflow workflows wid = (case find (\<lambda>w. wf_id w = wid \<or> wf_payment_id w = wid) workflows of
     Some w \<Rightarrow> Some w | None \<Rightarrow> (case workflows of [] \<Rightarrow> None | w # _ \<Rightarrow> Some w))"

definition getSyntheticWorkflowDetail :: "WorkflowSummary list \<Rightarrow> string \<Rightarrow> err + js" where
  "getSyntheticWorkflowDetail workflows wid = (case find_workflow workflows wid of
     None \<Rightarrow> Inl (type_error ''Cannot read properties of undefined (reading 'status')'')
   | Some w \<Rightarrow> workflow_detail w)"

subsection \<open>Lemmas\<close>

definition dated :: "WorkflowSummary \<Rightarrow> bool" where
  "dated w \<longleftrightarrow> (\<exists>t. wf_created_at w = iso_string t \<and> 1785671999000 \<le> t \<and> t \<le> 1788273000000)"

lemma shift_recent:
  assumes "1785671999000 \<le> t" "t \<le> 1788273000000" "0 \<le> k" "k \<le> 86400000"
  shows "shift_time (iso_string t) k = Inr (iso_string (t + k))"
proof -
  have "date_parse (iso_string t) = nint t" using assms by (intro recent_round_trip) (simp add: recent_def)
  moreover have "nadd (nint t) (nint k) = nint (t + k)" using assms by (intro nadd_int) simp
  moreover have "\<bar>of_int (t + k) :: rat\<bar> \<le> of_int max_time"
    using assms by (simp only: of_int_abs [symmetric] of_int_le_iff max_time_def)
  ultimately show ?thesis by (simp add: shift_time_def time_clip_def to_iso_def del: of_int_add)
qed

lemma dated_detail:
  assumes "dated w"
  obtains t s where "wf_created_at w = iso_string t" "1785671999000 \<le> t" "t \<le> 1788273000000"
    "s = Undef \<or> has_type TText s"
    "workflow_detail w = Inr (Obj [
      (''workflow'', detail_workflow w s),
      (''payment'', detail_payment w),
      (''ai_decisions'', detail_ai_decisions w),
      (''model_predictions'', detail_predictions w),
      (''risk_assessments'', detail_risk_assessments w),
      (''recovery_actions'', detail_actions w (iso_string (t + 120000))),
      (''recovery_outcomes'', detail_outcomes w),
      (''audit_events'', Arr (detail_audit w (iso_string (t + 60000))))])"
proof -
  obtain t where t: "wf_created_at w = iso_string t" "1785671999000 \<le> t" "t \<le> 1788273000000"
    using assms by (auto simp: dated_def)
  have s: "shift_time (wf_created_at w) (24 * 3600 * 1000) = Inr (iso_string (t + 86400000))"
    "shift_time (wf_created_at w) (120 * 1000) = Inr (iso_string (t + 120000))"
    "shift_time (wf_created_at w) (60 * 1000) = Inr (iso_string (t + 60000))"
    using shift_recent [OF t(2,3)] by (simp_all add: t(1))
  obtain s0 where "scheduled_at w = Inr s0" "s0 = Undef \<or> has_type TText s0"
    unfolding scheduled_at_def s by (cases "wf_selected_action w = ''DELAYED_RETRY''") auto
  with s(2,3) t show thesis by (intro that [of t s0]) (simp_all add: workflow_detail_def)
qed

lemma item_dated: "item_ok i w \<Longrightarrow> dated w"
  unfolding item_ok_def dated_def by force

lemma escalated_dated: "w \<in> set escalated \<Longrightarrow> dated w"
proof -
  assume "w \<in> set escalated"
  then have "wf_created_at w \<in> set (map wf_created_at escalated)" by simp
  then show ?thesis unfolding escalated_facts dated_def by auto
qed

lemma orv_num_typed: "has_type TNum (orv (opt_num x) (Num n))"
  by (cases x) (simp_all add: orv_def)

lemma orv_str_typed: "has_type TText (orv (opt_str x) (Str s))"
  by (cases x) (simp_all add: orv_def)

lemma detail_parts_typed:
  "s = Undef \<or> has_type TText s \<Longrightarrow> has_type WorkflowDetail_workflow (detail_workflow w s)"
  "has_type WorkflowDetail_payment (detail_payment w)"
  "has_type WorkflowDetail_ai_decisions (detail_ai_decisions w)"
  "has_type WorkflowDetail_model_predictions (detail_predictions w)"
  "has_type WorkflowDetail_risk_assessments (detail_risk_assessments w)"
  "has_type WorkflowDetail_recovery_actions (detail_actions w x)"
  "has_type WorkflowDetail_recovery_outcomes (detail_outcomes w)"
  "has_type WorkflowDetail_audit_events (Arr (detail_audit w x))"
  subgoal by (simp add: WorkflowDetail_workflow_def detail_workflow_def orv_num_typed)
  subgoal by (simp add: WorkflowDetail_payment_def detail_payment_def)
  subgoal by (simp add: WorkflowDetail_ai_decisions_def detail_ai_decisions_def)
  subgoal by (simp add: WorkflowDetail_model_predictions_def detail_predictions_def)
  subgoal by (simp add: WorkflowDetail_risk_assessments_def detail_risk_assessments_def orv_num_typed orv_str_typed level_of_def)
  subgoal by (simp add: WorkflowDetail_recovery_actions_def detail_actions_def)
  subgoal by (simp add: WorkflowDetail_recovery_outcomes_def detail_outcomes_def)
  subgoal by (simp add: WorkflowDetail_audit_events_def detail_audit_def audit_event_def)
  done

lemma detail_typed:
  assumes "workflow_detail w = Inr d" "dated w" shows "has_type WorkflowDetail d"
proof (rule dated_detail [OF assms(2)])
  fix t s
  assume s: "s = Undef \<or> has_type TText s" and d: "workflow_detail w = Inr (Obj [
      (''workflow'', detail_workflow w s), (''payment'', detail_payment w),
      (''ai_decisions'', detail_ai_decisions w), (''model_predictions'', detail_predictions w),
      (''risk_assessments'', detail_risk_assessments w),
      (''recovery_actions'', detail_actions w (iso_string (t + 120000))),
      (''recovery_outcomes'', detail_outcomes w),
      (''audit_events'', Arr (detail_audit w (iso_string (t + 60000))))])"
  have d': "d = Obj [
      (''workflow'', detail_workflow w s), (''payment'', detail_payment w),
      (''ai_decisions'', detail_ai_decisions w), (''model_predictions'', detail_predictions w),
      (''risk_assessments'', detail_risk_assessments w),
      (''recovery_actions'', detail_actions w (iso_string (t + 120000))),
      (''recovery_outcomes'', detail_outcomes w),
      (''audit_events'', Arr (detail_audit w (iso_string (t + 60000))))]" using assms(1) d by simp
  show ?thesis
    unfolding d' WorkflowDetail_def by (simp add: detail_parts_typed(1) [OF s] detail_parts_typed(2-8))
qed

fun linked :: "string \<Rightarrow> js list \<Rightarrow> bool" where
  \<comment> \<open>each event names the hash of the one before it\<close>
  "linked prev [] = True"
| "linked prev (e # es) = (member e ''previous_event_hash'' = Str prev
     \<and> (case member e ''event_hash'' of Str h \<Rightarrow> linked h es | _ \<Rightarrow> False))"

lemma audit_linked: "linked (replicate 64 (CHR ''0'')) (detail_audit w t)"
  by (simp add: detail_audit_def audit_event_def eval_nat_numeral)

lemma dataset_dated:
  assumes "generateSyntheticWorkflows n = Inr ws" "w \<in> set ws" shows "dated w"
proof (rule generate_eq [of n])
  fix items assume "generateSyntheticWorkflows n = Inr (escalated @ items)" "list_all2 item_ok [0..<n] items"
  with assms show ?thesis using escalated_dated item_dated each_item by fastforce
qed

lemma find_workflow_in: "ws \<noteq> [] \<Longrightarrow> \<exists>w\<in>set ws. find_workflow ws i = Some w"
  by (cases "find (\<lambda>w. wf_id w = i \<or> wf_payment_id w = i) ws")
    (auto simp: find_workflow_def dest: find_Some_in split: list.split)

text \<open>
  Every workflow of the dataset has a detail: whatever the requested id, the lookup returns a value of the
  interface \<open>WorkflowDetail\<close> for some workflow of the dataset, the one with that id when there is one, and its
  audit events form a hash chain that starts at the zero hash.
\<close>

theorem detail_total:
  "\<exists>ws. generateSyntheticWorkflows 2500 = Inr ws \<and>
     (\<forall>wid. \<exists>d w t. getSyntheticWorkflowDetail ws wid = Inr d \<and> has_type WorkflowDetail d \<and> w \<in> set ws
       \<and> member (member d ''workflow'') ''id'' = Str (wf_id w)
       \<and> (if wid \<in> set (map wf_id ws) \<union> set (map wf_payment_id ws) then wid \<in> {wf_id w, wf_payment_id w} else w = hd ws)
       \<and> member d ''audit_events'' = Arr (detail_audit w t) \<and> linked (replicate 64 (CHR ''0'')) (detail_audit w t))"
proof -
  obtain ws where g: "generateSyntheticWorkflows 2500 = Inr ws" "ws \<noteq> []"
    by (rule generate_eq [of 2500]) (metis append_is_Nil_conv length_escalated list.size(3) numeral_neq_zero)
  have "\<exists>d w t. getSyntheticWorkflowDetail ws wid = Inr d \<and> has_type WorkflowDetail d \<and> w \<in> set ws
       \<and> member (member d ''workflow'') ''id'' = Str (wf_id w)
       \<and> (if wid \<in> set (map wf_id ws) \<union> set (map wf_payment_id ws) then wid \<in> {wf_id w, wf_payment_id w} else w = hd ws)
       \<and> member d ''audit_events'' = Arr (detail_audit w t) \<and> linked (replicate 64 (CHR ''0'')) (detail_audit w t)" for wid
  proof -
    obtain w where w: "w \<in> set ws" "find_workflow ws wid = Some w" using find_workflow_in [OF g(2)] by blast
    have sel: "if wid \<in> set (map wf_id ws) \<union> set (map wf_payment_id ws) then wid \<in> {wf_id w, wf_payment_id w} else w = hd ws"
      using w(2) g(2) by (auto simp: find_workflow_def find_None_iff dest: find_Some_in split: option.splits list.splits)
    have dw: "dated w" using dataset_dated [OF g(1) w(1)] .
    show ?thesis
    proof (rule dated_detail [OF dw])
      fix t s
      assume d: "workflow_detail w = Inr (Obj [
      (''workflow'', detail_workflow w s), (''payment'', detail_payment w),
      (''ai_decisions'', detail_ai_decisions w), (''model_predictions'', detail_predictions w),
      (''risk_assessments'', detail_risk_assessments w),
      (''recovery_actions'', detail_actions w (iso_string (t + 120000))),
      (''recovery_outcomes'', detail_outcomes w),
      (''audit_events'', Arr (detail_audit w (iso_string (t + 60000))))])"
      show ?thesis
        using w detail_typed [OF d dw] sel audit_linked
        by (intro exI conjI) (auto simp: getSyntheticWorkflowDetail_def d detail_workflow_def)
    qed
  qed
  then show ?thesis using g(1) by blast
qed

text \<open>
  The audit chain of an escalated workflow runs backwards in time: its last event carries the creation
  time, before the risk evaluation a minute later. For every generated workflow the three times increase.
\<close>

lemma audit_times:
  assumes "generateSyntheticWorkflows n = Inr ws" and "w \<in> set ws" and "workflow_detail w = Inr d"
  shows "\<exists>a b c. member d ''audit_events'' = Arr [a, b, c]
    \<and> nless (date_parse (to_str (member a ''timestamp''))) (date_parse (to_str (member b ''timestamp'')))
    \<and> (if wf_status w = ''ESCALATED''
       then nless (date_parse (to_str (member c ''timestamp''))) (date_parse (to_str (member b ''timestamp'')))
       else nless (date_parse (to_str (member b ''timestamp''))) (date_parse (to_str (member c ''timestamp''))))"
proof (rule generate_eq [of n])
  fix items assume "generateSyntheticWorkflows n = Inr (escalated @ items)" and ok: "list_all2 item_ok [0..<n] items"
  then have w: "w \<in> set escalated \<or> w \<in> set items" using assms(1,2) by simp
  have up: "\<exists>u. wf_updated_at w = iso_string u \<and> (if wf_status w = ''ESCALATED'' then u = t else u = t + 900000)"
    if "wf_created_at w = iso_string t" "1785671999000 \<le> t" "t \<le> 1788273000000" for t
    using w
  proof
    assume "w \<in> set escalated"
    then show ?thesis using escalated_facts(5) that(1) by (auto simp: list_all_iff)
  next
    assume "w \<in> set items"
    then obtain i where i: "item_ok i w" using each_item [OF ok] by blast
    then obtain t' where t': "wf_created_at w = iso_string t'" "wf_updated_at w = iso_string (t' + 900000)"
        "1785671999000 \<le> t'" "t' \<le> 1788264000000" unfolding item_ok_def by blast
    have r: "recent t" "recent t'" using that t' by (simp_all add: recent_def)
    have "iso_string t = iso_string t'" using that(1) t'(1) by (rule subst)
    then have "nint t = nint t'" using recent_round_trip [OF r(1)] recent_round_trip [OF r(2)] by metis
    then have tt: "t = t'" by simp
    have "wf_status w \<in> set statuses" using i unfolding item_ok_def by blast
    then have "wf_status w \<noteq> ''ESCALATED''" by (auto simp: statuses_def)
    then show ?thesis using t'(2) tt by simp
  qed
  show ?thesis
  proof (rule dated_detail [OF dataset_dated [OF assms(1,2)]])
    fix t s
    assume t: "wf_created_at w = iso_string t" "1785671999000 \<le> t" "t \<le> 1788273000000"
      and d: "workflow_detail w = Inr (Obj [
      (''workflow'', detail_workflow w s), (''payment'', detail_payment w),
      (''ai_decisions'', detail_ai_decisions w), (''model_predictions'', detail_predictions w),
      (''risk_assessments'', detail_risk_assessments w),
      (''recovery_actions'', detail_actions w (iso_string (t + 120000))),
      (''recovery_outcomes'', detail_outcomes w),
      (''audit_events'', Arr (detail_audit w (iso_string (t + 60000))))])"
    obtain u where u: "wf_updated_at w = iso_string u" "if wf_status w = ''ESCALATED'' then u = t else u = t + 900000"
      using up [OF t] by blast
    have p: "date_parse (iso_string t) = nint t" "date_parse (iso_string (t + 60000)) = nint (t + 60000)"
        "date_parse (iso_string u) = nint u"
      by (rule recent_round_trip; use t u(2) in \<open>simp add: recent_def split: if_splits\<close>)+
    show ?thesis
    proof -
      have d': "member d ''audit_events'' = Arr (detail_audit w (iso_string (t + 60000)))"
        using assms(3) unfolding d sum.inject by - (erule subst, simp)
      have ts: "to_str (member (audit_event w n x a1 a2 a3 a4 a5) ''timestamp'') = x" for n x a1 a2 a3 a4 a5
        by (simp add: audit_event_def)
      have lt: "nless (nint t) (nint (t + 60000))" "nless (nint t) (nint (t + 60000)) = True"
          "nless (nint (t + 60000)) (nint (t + 900000))" by simp_all
      show ?thesis
        unfolding d' detail_audit_def list.inject js.inject
        by (intro exI conjI, (rule refl)+) (use u p t(1) lt in \<open>cases "wf_status w = ''ESCALATED''"; simp add: ts\<close>)+
    qed
  qed
qed

lemma audit_times_witness:
  "\<exists>ws w d. generateSyntheticWorkflows 0 = Inr ws \<and> w \<in> set ws \<and> wf_status w = ''ESCALATED'' \<and> workflow_detail w = Inr d
    \<and> (\<exists>a b c. member d ''audit_events'' = Arr [a, b, c]
      \<and> nless (date_parse (to_str (member c ''timestamp''))) (date_parse (to_str (member b ''timestamp''))))"
proof (rule generate_eq [of 0])
  fix items assume g: "generateSyntheticWorkflows 0 = Inr (escalated @ items)" "list_all2 item_ok [0..<0] items"
  obtain w where w: "w \<in> set escalated" using length_escalated by (metis list.set_sel(1) list.size(3) numeral_neq_zero)
  then have e: "wf_status w = ''ESCALATED''" using escalated_facts(5) by (auto simp: list_all_iff)
  obtain d where d: "workflow_detail w = Inr d" using dated_detail [OF escalated_dated [OF w]] by metis
  have "w \<in> set (escalated @ items)" using w by simp
  from audit_times [OF g(1) this d] e g(1) d w show ?thesis by fastforce
qed

lemma includes_set: "str_includes s t \<Longrightarrow> set t \<subseteq> set s"
  by (simp add: includes_sublist set_mono_sublist)

text \<open>
  The detail names the payment method twice and not always alike: for a netbanking payment of the dataset the
  workflow part says \<open>netbanking\<close> and the payment part says \<open>card\<close>, and a wallet payment is a \<open>card\<close> in both.
\<close>

lemma detail_method_mismatch:
  assumes "item_ok i w" and "workflow_detail w = Inr d"
  shows "(member (member d ''workflow'') ''payment_method'', member (member d ''payment'') ''payment_method'')
    = (if wf_payment_id w = ''pay_synth_'' @ show_nat (100000 + i) @ ''_up'' then (Str ''upi'', Str ''upi'')
       else if wf_payment_id w = ''pay_synth_'' @ show_nat (100000 + i) @ ''_ne'' then (Str ''netbanking'', Str ''card'')
       else (Str ''card'', Str ''card''))"
proof -
  have letters: "CHR ''u'' \<notin> set (show_nat n)" "CHR ''e'' \<notin> set (show_nat n)" for n
    using show_nat_digits [of n] by (auto simp: list_all_iff is_digit_def)
  have no_up: "\<not> str_includes (''pay_synth_'' @ show_nat n @ ''_'' @ m) ''up''" if "m \<in> {''ca'', ''ne'', ''wa''}" for n m
  proof
    assume "str_includes (''pay_synth_'' @ show_nat n @ ''_'' @ m) ''up''"
    then have "CHR ''u'' \<in> set (''pay_synth_'' @ show_nat n @ ''_'' @ m)" using includes_set by fastforce
    then show False using letters [of n] that by auto
  qed
  have no_ne: "\<not> str_includes (''pay_synth_'' @ show_nat n @ ''_'' @ m) ''ne''" if "m \<in> {''ca'', ''wa''}" for n m
  proof
    assume "str_includes (''pay_synth_'' @ show_nat n @ ''_'' @ m) ''ne''"
    then have "CHR ''e'' \<in> set (''pay_synth_'' @ show_nat n @ ''_'' @ m)" using includes_set by fastforce
    then show False using letters [of n] that by auto
  qed
  have yes: "str_includes (''pay_synth_'' @ show_nat n @ ''_'' @ m) m" for n m
    by (rule includes_sublist [THEN iffD2]) (simp add: sublist_def, metis append.assoc append_Cons append_Nil append_Nil2)
  obtain m where m: "m \<in> {''ca'', ''up'', ''ne'', ''wa''}" "wf_payment_id w = ''pay_synth_'' @ show_nat (100000 + i) @ ''_'' @ m"
    using assms(1) unfolding item_ok_def by auto
  show ?thesis
  proof (rule dated_detail [OF item_dated [OF assms(1)]])
    fix t s
    assume d: "workflow_detail w = Inr (Obj [
      (''workflow'', detail_workflow w s), (''payment'', detail_payment w),
      (''ai_decisions'', detail_ai_decisions w), (''model_predictions'', detail_predictions w),
      (''risk_assessments'', detail_risk_assessments w),
      (''recovery_actions'', detail_actions w (iso_string (t + 120000))),
      (''recovery_outcomes'', detail_outcomes w),
      (''audit_events'', Arr (detail_audit w (iso_string (t + 60000))))])"
    have up: "str_includes (wf_payment_id w) ''up'' = (m = ''up'')"
      unfolding m(2) using m(1) no_up [of m] yes [of _ "''up''"] by blast
    have ne: "str_includes (wf_payment_id w) ''ne'' = (m = ''ne'')" if "m \<noteq> ''up''"
      unfolding m(2) using m(1) that no_ne [of m] yes [of _ "''ne''"] by blast
    have e: "(wf_payment_id w = ''pay_synth_'' @ show_nat (100000 + i) @ ''_up'') = (m = ''up'')"
      "(wf_payment_id w = ''pay_synth_'' @ show_nat (100000 + i) @ ''_ne'') = (m = ''ne'')" by (auto simp: m(2))
    have d': "d = Obj [
      (''workflow'', detail_workflow w s), (''payment'', detail_payment w),
      (''ai_decisions'', detail_ai_decisions w), (''model_predictions'', detail_predictions w),
      (''risk_assessments'', detail_risk_assessments w),
      (''recovery_actions'', detail_actions w (iso_string (t + 120000))),
      (''recovery_outcomes'', detail_outcomes w),
      (''audit_events'', Arr (detail_audit w (iso_string (t + 60000))))]" using assms(2) d by simp
    show ?thesis
      unfolding e using ne by (simp add: d' detail_workflow_def detail_payment_def up)
  qed
qed

definition netbanking_item :: WorkflowSummary where
  "netbanking_item = \<lparr>wf_id = ''wf_synth_'' @ show_nat (100000 + 0),
     wf_payment_id = ''pay_synth_'' @ show_nat (100000 + 0) @ ''_'' @ ''ne'', wf_amount = nint 1499, wf_currency = ''INR'',
     wf_customer_id = None, wf_customer_email = None, wf_customer_phone = None, wf_customer_success_count = None,
     wf_customer_failed_count = None, wf_fraud_probability = None, wf_return_probability = None,
     wf_overall_risk = Some ''LOW'', wf_expected_loss = None, wf_risk_action = Some ''ALLOW'',
     wf_failure_code = ''NETWORK_TIMEOUT'', wf_failure_reason = None, wf_status = ''RECOVERED'',
     wf_recovery_probability = nint 1, wf_selected_action = ''IMMEDIATE_RETRY'', wf_attempt_count = nint 1,
     wf_recovered = True, wf_created_at = iso_string 1788000000000,
     wf_updated_at = iso_string (1788000000000 + 900000)\<rparr>"

lemma netbanking_item_ok: "item_ok 0 netbanking_item"
  unfolding item_ok_def netbanking_item_def WorkflowSummary.simps
  by (intro conjI exI [of _ 1788000000000]) (simp_all add: statuses_def PLAN_AMOUNTS_def)

theorem detail_method_mismatch_witness:
  "item_ok 0 netbanking_item \<and> (\<exists>d. workflow_detail netbanking_item = Inr d
    \<and> (member (member d ''workflow'') ''payment_method'', member (member d ''payment'') ''payment_method'')
      = (Str ''netbanking'', Str ''card''))"
proof -
  obtain d where d: "workflow_detail netbanking_item = Inr d"
    using dated_detail [OF item_dated [OF netbanking_item_ok]] by metis
  from detail_method_mismatch [OF netbanking_item_ok d] d netbanking_item_ok
  show ?thesis by (simp add: netbanking_item_def)
qed

end
