(* ===== verification/Browser.thy ===== *)
theory Browser
  imports JsSchema "HOL-Library.AList"
begin

text \<open>
  What the merchant console uses of the browser: \<open>fetch\<close> and its responses, the two URL encodings,
  \<open>localStorage\<close>, and array slices by runtime numbers. The network is a parameter: a function from
  requests to responses or the error \<open>fetch\<close> rejects with. A request that is never answered leaves
  the operation that sent it pending; the operations below describe the answered ones.
\<close>

subsection \<open>The network\<close>

record web_request =
  rq_url :: string
  rq_method :: string
  rq_headers :: "(string \<times> string) list"
  rq_body :: "string option"

record web_response =
  rs_status :: int
  rs_statusText :: string
  rs_body :: "err + string"

type_synonym fetch = "web_request \<Rightarrow> err + web_response"

definition res_ok :: "web_response \<Rightarrow> bool" where
  "res_ok r \<longleftrightarrow> 200 \<le> rs_status r \<and> rs_status r \<le> 299"

definition res_json :: "web_response \<Rightarrow> err + js" where
  "res_json r = seqE (rs_body r) json_parse"

definition json_response :: "js \<Rightarrow> web_response" where
  \<comment> \<open>\<open>NextResponse.json(v)\<close>\<close>
  "json_response v = \<lparr>rs_status = 200, rs_statusText = ''OK'', rs_body = Inr (json_print v)\<rparr>"

definition plain_get :: "string \<Rightarrow> web_request" where
  "plain_get url = \<lparr>rq_url = url, rq_method = ''GET'', rq_headers = [], rq_body = None\<rparr>"

definition json_post :: "string \<Rightarrow> js \<Rightarrow> web_request" where
  "json_post url v = \<lparr>rq_url = url, rq_method = ''POST'',
     rq_headers = [(''Content-Type'', ''application/json'')], rq_body = Some (json_print v)\<rparr>"

definition api_base :: "string option \<Rightarrow> string" where
  \<comment> \<open>\<open>process.env.NEXT_PUBLIC_API_URL || 'http://localhost:8080'\<close>\<close>
  "api_base env = (case env of Some (c # s) \<Rightarrow> c # s | _ \<Rightarrow> ''http://localhost:8080'')"

lemma json_response_ok [simp]: "res_ok (json_response v)"
  by (simp add: res_ok_def json_response_def)

lemma json_response_round_trip: "js_ok v \<Longrightarrow> res_json (json_response v) = Inr (json_image v)"
  by (simp add: res_json_def json_response_def json_round_trip)

definition answering :: "js \<Rightarrow> fetch" where
  \<comment> \<open>a backend that answers every request with \<open>v\<close>\<close>
  "answering v req = Inr (json_response v)"

definition unreachable :: fetch where
  "unreachable req = Inl (type_error ''Failed to fetch'')"

definition act_with_message :: "fetch \<Rightarrow> web_request \<Rightarrow> (js \<Rightarrow> 'p \<Rightarrow> 'p) \<Rightarrow> ('p \<Rightarrow> 'p) \<Rightarrow> ('p \<Rightarrow> 'p) \<Rightarrow> 'p \<Rightarrow> 'p" where
  \<comment> \<open>the body of a page's action: post, then show the answer's message and reload, or alert the failure;
    an answer that is not ok changes nothing\<close>
  "act_with_message net req show_message reload fail p =
    (case seqE (net req) (\<lambda>res. if res_ok res then seqE (res_json res) (\<lambda>data. seqE (get data ''message'') (\<lambda>m. Inr (Some m)))
        else Inr None) of
       Inr (Some m) \<Rightarrow> reload (show_message m p)
     | Inr None \<Rightarrow> p
     | Inl _ \<Rightarrow> fail p)"

lemma act_with_message_keeps:
  \<comment> \<open>what every reload, message and alert keeps, the whole action keeps\<close>
  "I p \<Longrightarrow> (\<And>m q. I q \<Longrightarrow> I (show_message m q)) \<Longrightarrow> (\<And>q. I q \<Longrightarrow> I (reload q)) \<Longrightarrow> (\<And>q. I q \<Longrightarrow> I (fail q))
    \<Longrightarrow> I (act_with_message net req show_message reload fail p)"
  by (auto simp: act_with_message_def split: sum.split option.split)

lemma orv_Arr: "member v k = Arr xs \<Longrightarrow> orv (member v k) d = Arr xs \<and> get v k = Inr (Arr xs)"
  by (cases v) (auto simp: get_def)

subsection \<open>URL encodings\<close>

definition is_alnum :: "char \<Rightarrow> bool" where
  "is_alnum c \<longleftrightarrow> (let n = of_char c :: nat in 48 \<le> n \<and> n \<le> 57 \<or> 65 \<le> n \<and> n \<le> 90 \<or> 97 \<le> n \<and> n \<le> 122)"

definition hex_upper :: "nat \<Rightarrow> char" where
  "hex_upper n = char_of (if n < 10 then 48 + n else 55 + n)"

definition percent :: "char \<Rightarrow> string" where
  "percent c = (let n = of_char c :: nat in [CHR ''%'', hex_upper (n div 16), hex_upper (n mod 16)])"

definition encodeURIComponent :: "string \<Rightarrow> string" where
  "encodeURIComponent s = concat (map (\<lambda>c. if is_alnum c \<or> c \<in> set ''-_.!~*'' \<or> c \<in> {CHR 0x27, CHR ''('', CHR '')''}
     then [c] else percent c) s)"

definition form_encode :: "string \<Rightarrow> string" where
  \<comment> \<open>a component of \<open>URLSearchParams.toString()\<close>\<close>
  "form_encode s = concat (map (\<lambda>c. if is_alnum c \<or> c \<in> set ''*-._'' then [c]
     else if c = CHR '' '' then ''+'' else percent c) s)"

definition query_string :: "(string \<times> string) list \<Rightarrow> string" where
  \<comment> \<open>\<open>URLSearchParams.toString()\<close>\<close>
  "query_string ps = join ''&'' (map (\<lambda>(k, v). form_encode k @ ''='' @ form_encode v) ps)"

definition hex_value :: "char \<Rightarrow> nat option" where
  "hex_value c = (let n = of_char c :: nat in if 48 \<le> n \<and> n \<le> 57 then Some (n - 48)
     else if 65 \<le> n \<and> n \<le> 70 then Some (n - 55) else if 97 \<le> n \<and> n \<le> 102 then Some (n - 87) else None)"

fun form_decode :: "string \<Rightarrow> string" where
  \<comment> \<open>the decoding behind \<open>searchParams\<close>: a percent sign without two hex digits stays\<close>
  "form_decode [] = []"
| "form_decode (c # a # b # s) =
     (if c = CHR ''%'' then (case (hex_value a, hex_value b) of
         (Some m, Some n) \<Rightarrow> char_of (16 * m + n) # form_decode s
       | _ \<Rightarrow> c # form_decode (a # b # s))
      else (if c = CHR ''+'' then CHR '' '' else c) # form_decode (a # b # s))"
| "form_decode (c # s) = (if c = CHR ''+'' then CHR '' '' else c) # form_decode s"

definition parse_pair :: "string \<Rightarrow> string \<times> string" where
  "parse_pair s = (form_decode (takeWhile (\<lambda>c. c \<noteq> CHR ''='') s),
     form_decode (drop 1 (dropWhile (\<lambda>c. c \<noteq> CHR ''='') s)))"

definition search_params :: "string \<Rightarrow> (string \<times> string) list" where
  \<comment> \<open>\<open>new URLSearchParams(query)\<close>\<close>
  "search_params q = map parse_pair (filter (\<lambda>s. s \<noteq> []) (split_char (CHR ''&'') q))"

subsection \<open>Slices by numbers\<close>

definition slice_num :: "'a list \<Rightarrow> number \<Rightarrow> number \<Rightarrow> 'a list" where
  \<comment> \<open>\<open>xs.slice(a, b)\<close>\<close>
  "slice_num xs a b = slice xs (to_integer a) (to_integer b)"

lemma to_integer_nint [simp]: "to_integer (nint n) = n"
  by simp

lemma slice_num_int [simp]: "slice_num xs (nint (int a)) (nint (int b)) = take (b - a) (drop a xs)"
  by (simp only: slice_num_def to_integer_nint slice_nonneg)

text \<open>What the client writes into a query the server reads back, whatever characters it contains.\<close>

lemma hex_value_upper [simp]: "n < 16 \<Longrightarrow> hex_value (hex_upper n) = Some n"
  by (cases "n < 10") (simp_all add: hex_value_def hex_upper_def Let_def)

lemma form_decode_percent [simp]: "form_decode (percent c @ s) = c # form_decode s"
proof -
  have "(of_char c :: nat) < 256" by simp
  then have "(of_char c :: nat) div 16 < 16" by (simp add: less_mult_imp_div_less)
  then show ?thesis by (simp add: percent_def Let_def)
qed

lemma form_decode_plain: "c \<noteq> CHR ''%'' \<Longrightarrow> form_decode (c # s) = (if c = CHR ''+'' then CHR '' '' else c) # form_decode s"
  by (cases s rule: list.exhaust; cases "tl s") auto

lemma alnum_plain: "is_alnum c \<Longrightarrow> c \<notin> {CHR ''%'', CHR ''+'', CHR ''&'', CHR ''=''}"
  by (auto simp: is_alnum_def Let_def)

lemma form_encode_Cons: "form_encode (c # s) = (if is_alnum c \<or> c \<in> set ''*-._'' then [c]
     else if c = CHR '' '' then ''+'' else percent c) @ form_encode s"
  by (simp add: form_encode_def)

lemma form_round_trip [simp]: "form_decode (form_encode s) = s"
proof (induction s)
  case (Cons c s)
  show ?case
  proof (cases "is_alnum c \<or> c \<in> set ''*-._''")
    case True
    then have "c \<noteq> CHR ''%''" "c \<noteq> CHR ''+''" using alnum_plain by auto
    with True Cons show ?thesis by (simp add: form_encode_Cons form_decode_plain)
  next
    case False
    then have *: "form_encode (c # s) = (if c = CHR '' '' then ''+'' else percent c) @ form_encode s"
      by (simp only: form_encode_Cons if_False)
    show ?thesis
    proof (cases "c = CHR '' ''")
      case True
      with * Cons show ?thesis by (simp add: form_decode_plain)
    next
      case False
      with * Cons show ?thesis by simp
    qed
  qed
qed (simp add: form_encode_def)

lemma percent_safe: "set (percent c) \<inter> {CHR ''&'', CHR ''=''} = {}"
proof -
  have "(of_char c :: nat) < 256" by simp
  then have "(of_char c :: nat) div 16 < 16" by (simp add: less_mult_imp_div_less)
  then have "hex_upper n \<noteq> CHR ''&'' \<and> hex_upper n \<noteq> CHR ''=''" if "n \<in> {of_char c div 16, of_char c mod 16}" for n
    using that hex_value_upper [of n] by (auto simp: hex_value_def)
  then show ?thesis by (auto simp: percent_def Let_def)
qed

lemma form_encode_safe: "set (form_encode s) \<inter> {CHR ''&'', CHR ''=''} = {}"
proof (induction s)
  case (Cons c s)
  have "set (if is_alnum c \<or> c \<in> set ''*-._'' then [c] else if c = CHR '' '' then ''+'' else percent c)
      \<inter> {CHR ''&'', CHR ''=''} = {}"
    using percent_safe [of c] alnum_plain [of c] by auto
  with Cons show ?case unfolding form_encode_Cons set_append by blast
qed (simp add: form_encode_def)

lemma parse_pair_encoded [simp]: "parse_pair (form_encode k @ CHR ''='' # form_encode v) = (k, v)"
proof -
  have "\<forall>c\<in>set (form_encode k). c \<noteq> CHR ''=''" using form_encode_safe [of k] by blast
  then show ?thesis by (simp add: parse_pair_def takeWhile_append2 dropWhile_append2)
qed

lemma query_round_trip: "search_params (query_string ps) = ps"
proof (cases "ps = []")
  case False
  let ?es = "map (\<lambda>(k, v). form_encode k @ ''='' @ form_encode v) ps"
  have "\<forall>p\<in>set ?es. CHR ''&'' \<notin> set p" using form_encode_safe by fastforce
  then have "split_char (CHR ''&'') (query_string ps) = ?es"
    unfolding query_string_def using False by (intro split_join) simp_all
  moreover have "filter (\<lambda>s. s \<noteq> []) ?es = ?es" by (auto simp: filter_id_conv)
  ultimately have "search_params (query_string ps) = map parse_pair ?es" by (simp only: search_params_def)
  also have "\<dots> = map (\<lambda>p. p) ps" unfolding map_map by (rule map_cong) auto
  finally show ?thesis by simp
qed (simp add: query_string_def search_params_def)

subsection \<open>The local storage\<close>

record storage =
  entries :: "(string \<times> string) list"
  quota :: nat
  denied :: bool

definition getItem :: "storage \<Rightarrow> string \<Rightarrow> err + string option" where
  \<comment> \<open>a browser that denies storage throws on every access\<close>
  "getItem st k = (if denied st then Inl (plain_error ''SecurityError'') else Inr (map_of (entries st) k))"

definition used :: "(string \<times> string) list \<Rightarrow> nat" where
  "used es = sum_list (map (\<lambda>(k, v). length k + length v) es)"

definition setItem :: "storage \<Rightarrow> string \<Rightarrow> string \<Rightarrow> err + storage" where
  "setItem st k v = (let es = AList.update k v (entries st)
     in if denied st then Inl (plain_error ''SecurityError'')
        else if quota st < used es then Inl (plain_error ''QuotaExceededError'')
        else Inr (st\<lparr>entries := es\<rparr>))"

definition load_json :: "storage \<Rightarrow> string \<Rightarrow> err + js option" where
  \<comment> \<open>\<open>const s = localStorage.getItem(k); if (s) JSON.parse(s)\<close>\<close>
  "load_json st k = seqE (getItem st k) (\<lambda>s. case s of
     Some (c # t) \<Rightarrow> seqE (json_parse (c # t)) (\<lambda>v. Inr (Some v)) | _ \<Rightarrow> Inr None)"

text \<open>
  What the pages rely on of a store: a write that succeeds is read back, and touches no other key.
\<close>

locale key_store =
  fixes lookup :: "'s \<Rightarrow> string \<Rightarrow> err + string option"
    and store :: "'s \<Rightarrow> string \<Rightarrow> string \<Rightarrow> err + 's"
  assumes lookup_same: "store s k v = Inr s' \<Longrightarrow> lookup s' k = Inr (Some v)"
    and lookup_other: "store s k v = Inr s' \<Longrightarrow> k' \<noteq> k \<Longrightarrow> lookup s' k' = lookup s k'"
begin

lemma stores_both:
  assumes "store s k v = Inr s1" "store s1 k' v' = Inr s2" "k \<noteq> k'"
  shows "lookup s2 k = Inr (Some v)" and "lookup s2 k' = Inr (Some v')"
  using lookup_same [OF assms(1)] lookup_same [OF assms(2)] lookup_other [OF assms(2), of k] assms(3) by auto

end

interpretation local_storage: key_store getItem setItem
  by unfold_locales (auto simp: getItem_def setItem_def Let_def update_conv split: if_splits)

lemma load_stored:
  assumes "setItem st k (json_print v) = Inr st'" "js_ok v" "json_print v \<noteq> []"
  shows "load_json st' k = Inr (Some (json_image v))"
  using local_storage.lookup_same [OF assms(1)] assms(2,3) json_round_trip [OF assms(2)]
  by (auto simp: load_json_def split: list.splits)

lemma load_unchanged:
  "setItem st k v = Inr st' \<Longrightarrow> k' \<noteq> k \<Longrightarrow> load_json st' k' = load_json st k'"
  by (simp add: load_json_def local_storage.lookup_other)

definition fresh_storage :: storage where
  "fresh_storage = \<lparr>entries = [], quota = 5000000, denied = False\<rparr>"

end
