(* ===== verification/KeyedMerge.thy ===== *)
theory KeyedMerge
  imports Browser
begin

text \<open>
  How the console merges rows from several sources: rows of the backend or of the local storage go
  first, and a row of the demonstration data follows only when none of them carries its key. The
  pages write this in two ways, a filter against a \<open>Set\<close> of the keys (\<open>merge_rows\<close>) and a loop that
  skips keys already seen (\<open>push_new\<close>); what they rely on are the locales \<open>priority_merge\<close> and \<open>row_key\<close>.
\<close>

lemma mapE_all2: "mapE f xs = Inr ys \<Longrightarrow> (\<And>x y. x \<in> set xs \<Longrightarrow> f x = Inr y \<Longrightarrow> P x y) \<Longrightarrow> list_all2 P xs ys"
  by (induction xs arbitrary: ys) auto

subsection \<open>Sets of runtime values\<close>

fun primitive :: "js \<Rightarrow> bool" where
  "primitive (Arr _) = False"
| "primitive (Obj _) = False"
| "primitive _ = True"

definition same_key :: "js \<Rightarrow> js \<Rightarrow> bool" where
  \<comment> \<open>equality of \<open>Set\<close> members: objects read from different sources are never the same\<close>
  "same_key a b \<longleftrightarrow> a = b \<and> primitive a"

definition set_has :: "js list \<Rightarrow> js \<Rightarrow> bool" where
  "set_has seen k \<longleftrightarrow> list_ex (\<lambda>s. same_key s k) seen"

lemma same_key_sym: "same_key a b \<Longrightarrow> same_key b a"
  by (auto simp: same_key_def)

lemma set_has_iff: "set_has seen k \<longleftrightarrow> primitive k \<and> k \<in> set seen"
  by (auto simp: set_has_def same_key_def list_ex_iff)

lemma set_has_simps [simp]: "\<not> set_has [] k" "set_has (k' # ks) k \<longleftrightarrow> same_key k' k \<or> set_has ks k"
  by (simp_all add: set_has_def)

lemma set_has_map: "set_has (map key rs) k \<longleftrightarrow> list_ex (\<lambda>r. same_key (key r) k) rs"
  by (auto simp: set_has_def list_ex_iff)

lemma set_has_append [simp]: "set_has (ks @ ks') k \<longleftrightarrow> set_has ks k \<or> set_has ks' k"
  by (simp add: set_has_def)

subsection \<open>The filter form\<close>

definition merge_rows :: "(js \<Rightarrow> err + js) \<Rightarrow> string list \<Rightarrow> js list \<Rightarrow> js list \<Rightarrow> err + js list" where
  \<comment> \<open>\<open>keys = new Set(rs.map(key)); [...rs, ...ss.filter((s) => !keys.has(s.f) && ...)]\<close>\<close>
  "merge_rows key fs rs ss = seqE (mapE key rs) (\<lambda>keys.
     Inr (rs @ filter (\<lambda>s. list_all (\<lambda>f. \<not> set_has keys (member s f)) fs) ss))"

locale priority_merge =
  fixes merge :: "'r list \<Rightarrow> 'r list \<Rightarrow> err + 'r list"
    and clash :: "'r \<Rightarrow> 'r \<Rightarrow> bool"
  assumes merged: "merge rs ss = Inr ms \<Longrightarrow> ms = rs @ filter (\<lambda>s. \<not> list_ex (\<lambda>r. clash r s) rs) ss"
begin

lemma first_rows: "merge rs ss = Inr ms \<Longrightarrow> take (length rs) ms = rs"
  by (drule merged) simp

lemma rest_rows: "merge rs ss = Inr ms \<Longrightarrow> drop (length rs) ms = filter (\<lambda>s. \<forall>r\<in>set rs. \<not> clash r s) ss"
  by (drule merged) (simp add: list_ex_iff)

lemma length_bounds: "merge rs ss = Inr ms \<Longrightarrow> length rs \<le> length ms \<and> length ms \<le> length rs + length ss"
  by (drule merged) simp

lemma no_row_lost: "merge rs ss = Inr ms \<Longrightarrow> s \<in> set ss \<Longrightarrow> s \<in> set ms \<or> (\<exists>r\<in>set rs. clash r s)"
  by (drule merged) (auto simp: list_ex_iff)

lemma no_row_invented: "merge rs ss = Inr ms \<Longrightarrow> set ms \<subseteq> set rs \<union> set ss"
  by (drule merged) auto

lemma nothing_first: "merge [] ss = Inr ms \<Longrightarrow> ms = ss"
  by (drule merged) simp

end

lemma merge_rows_eq:
  assumes "\<And>r k. keyE r = Inr k \<Longrightarrow> k = key r" "merge_rows keyE fs rs ss = Inr ms"
  shows "ms = rs @ filter (\<lambda>s. \<not> list_ex (\<lambda>r. list_ex (\<lambda>f. same_key (key r) (member s f)) fs) rs) ss"
proof -
  have keys: "mapE keyE rs = Inr ks \<Longrightarrow> ks = map key rs" for rs ks
    by (induction rs arbitrary: ks) (auto dest: assms(1))
  obtain ks where "mapE keyE rs = Inr ks" and ms: "ms = rs @ filter (\<lambda>s. list_all (\<lambda>f. \<not> set_has ks (member s f)) fs) ss"
    using assms(2) by (auto simp: merge_rows_def)
  then have "ks = map key rs" by (intro keys)
  then have "list_all (\<lambda>f. \<not> set_has ks (member s f)) fs
      \<longleftrightarrow> \<not> list_ex (\<lambda>r. list_ex (\<lambda>f. same_key (key r) (member s f)) fs) rs" for s
    by (auto simp: set_has_map list_ex_iff list_all_iff)
  then show ?thesis using ms by simp
qed

subsection \<open>Keys of rows\<close>

definition key_or :: "string \<Rightarrow> string \<Rightarrow> js \<Rightarrow> err + js" where
  \<comment> \<open>\<open>r.f || r.g\<close>\<close>
  "key_or f g r = seqE (get r f) (\<lambda>v. Inr (orv v (member r g)))"

locale row_key =
  fixes keyE :: "js \<Rightarrow> err + js" and key :: "js \<Rightarrow> js"
  assumes key_value: "keyE r = (if nullish r then keyE r else Inr (key r))"
    and key_throws: "nullish r \<Longrightarrow> \<exists>e. keyE r = Inl e"
begin

lemma key_Inr: "keyE r = Inr k \<Longrightarrow> k = key r \<and> \<not> nullish r"
  by (metis key_throws key_value sum.inject(2) sum.simps(4))

lemma key_ok: "\<not> nullish r \<Longrightarrow> keyE r = Inr (key r)"
  by (metis key_value)

lemma merge_total: "list_all (\<lambda>r. \<not> nullish r) rs \<Longrightarrow> \<exists>ms. merge_rows keyE fs rs ss = Inr ms"
proof -
  assume "list_all (\<lambda>r. \<not> nullish r) rs"
  then have "mapE keyE rs = Inr (map key rs)" by (intro mapE_total) (simp add: list_all_iff key_ok)
  then show ?thesis by (simp add: merge_rows_def)
qed

end

sublocale row_key \<subseteq> priority_merge "merge_rows keyE fs" "\<lambda>r s. list_ex (\<lambda>f. same_key (key r) (member s f)) fs"
  by unfold_locales (rule merge_rows_eq, auto dest: key_Inr)

lemma key_or_row: "row_key (key_or f g) (\<lambda>r. orv (member r f) (member r g))"
  by unfold_locales (auto simp: key_or_def get_def nullish_def)

lemma get_row: "row_key (\<lambda>r. get r f) (\<lambda>r. member r f)"
  by unfold_locales (auto simp: get_def nullish_def)

subsection \<open>The loop form\<close>

fun foldlE :: "('s \<Rightarrow> 'a \<Rightarrow> 'e + 's) \<Rightarrow> 's \<Rightarrow> 'a list \<Rightarrow> 'e + 's" where
  "foldlE f s [] = Inr s"
| "foldlE f s (x # xs) = seqE (f s x) (\<lambda>s'. foldlE f s' xs)"

lemma foldlE_append: "foldlE f s (xs @ ys) = seqE (foldlE f s xs) (\<lambda>s'. foldlE f s' ys)"
  by (induction xs arbitrary: s) (auto simp: seqE_assoc)

definition push_new :: "(js \<Rightarrow> err + js) \<Rightarrow> js list \<times> js list \<Rightarrow> js \<Rightarrow> err + (js list \<times> js list)" where
  \<comment> \<open>one round: the state is the set of keys seen and the rows merged so far\<close>
  "push_new keyE st row = seqE (keyE row) (\<lambda>key.
     Inr (if set_has (fst st) key then st else (fst st @ [key], snd st @ [row])))"

definition merge_sources :: "(js \<Rightarrow> err + js) \<Rightarrow> js list list \<Rightarrow> err + js list" where
  \<comment> \<open>the loops over several sources in turn\<close>
  "merge_sources keyE sources =
     seqE (foldlE (foldlE (push_new keyE)) ([], []) sources) (\<lambda>st. Inr (snd st))"

lemma foldlE_concat: "foldlE (foldlE f) s xss = foldlE f s (concat xss)"
  by (induction xss arbitrary: s) (simp_all add: foldlE_append)

fun firsts :: "(js \<Rightarrow> js) \<Rightarrow> js list \<Rightarrow> js list \<Rightarrow> js list" where
  \<comment> \<open>the specification: the rows whose key no earlier row had\<close>
  "firsts key seen [] = []"
| "firsts key seen (r # rs) = (if set_has seen (key r) then firsts key seen rs
     else r # firsts key (key r # seen) rs)"

lemma firsts_cong: "(\<And>k. set_has s1 k = set_has s2 k) \<Longrightarrow> firsts key s1 rs = firsts key s2 rs"
proof (induction rs arbitrary: s1 s2)
  case (Cons r rs)
  have "set_has (key r # s1) k = set_has (key r # s2) k" for k using Cons.prems [of k] by simp
  then have "firsts key (key r # s1) rs = firsts key (key r # s2) rs" by (rule Cons.IH)
  moreover have "firsts key s1 rs = firsts key s2 rs" using Cons.prems by (rule Cons.IH)
  ultimately show ?case using Cons.prems [of "key r"] by simp
qed simp

lemma firsts_sub: "set (firsts key seen rs) \<subseteq> set rs"
  by (induction rs arbitrary: seen) auto

lemma firsts_new: "r \<in> set (firsts key seen rs) \<Longrightarrow> \<not> set_has seen (key r)"
proof (induction rs arbitrary: seen)
  case (Cons q rs)
  then show ?case using Cons.IH [of seen] Cons.IH [of "key q # seen"] by (auto split: if_splits)
qed simp

lemma firsts_distinct: "sorted_wrt (\<lambda>a b. \<not> same_key (key a) (key b)) (firsts key seen rs)"
  by (induction rs arbitrary: seen) (auto dest: firsts_new)

lemma firsts_complete: "r \<in> set rs \<Longrightarrow> \<not> set_has seen (key r) \<Longrightarrow>
  r \<in> set (firsts key seen rs) \<or> (\<exists>q\<in>set (firsts key seen rs). same_key (key q) (key r))"
proof (induction rs arbitrary: seen)
  case (Cons q rs)
  show ?case
  proof (cases "set_has seen (key q)")
    case True
    with Cons show ?thesis by auto
  next
    case False
    show ?thesis
    proof (cases "same_key (key q) (key r) \<or> r = q")
      case True
      with False show ?thesis by auto
    next
      case diff: False
      then have "\<not> set_has (key q # seen) (key r)" "r \<in> set rs" using Cons.prems by auto
      from Cons.IH [OF this(2,1)] False show ?thesis by auto
    qed
  qed
qed simp

lemma firsts_covers: "r \<in> set rs \<Longrightarrow> \<exists>q\<in>set (firsts key [] rs). q = r \<or> same_key (key q) (key r)"
  using firsts_complete [of r rs "[]" key] by auto

lemma firsts_append: "firsts key seen (rs @ ss) = firsts key seen rs @ firsts key (map key (firsts key seen rs) @ seen) ss"
proof (induction rs arbitrary: seen)
  case (Cons r rs)
  have *: "firsts key (map key xs @ key r # seen) ss = firsts key (key r # map key xs @ seen) ss" for xs
    by (rule firsts_cong) auto
  show ?case using Cons [of seen] Cons [of "key r # seen"] by (simp add: *)
qed simp

context row_key
begin

lemma push_all:
  "list_all (\<lambda>r. \<not> nullish r) rows \<Longrightarrow> foldlE (push_new keyE) (seen, out) rows
    = Inr (seen @ map key (firsts key seen rows), out @ firsts key seen rows)"
proof (induction rows arbitrary: seen out)
  case (Cons r rows)
  have k: "keyE r = Inr (key r)" using Cons.prems by (simp add: key_ok)
  have c: "firsts key (seen @ [key r]) rows = firsts key (key r # seen) rows"
    by (rule firsts_cong) auto
  show ?case using Cons by (simp add: push_new_def k c)
qed simp

lemma merge_sources_firsts:
  "list_all (\<lambda>r. \<not> nullish r) (concat sources) \<Longrightarrow> merge_sources keyE sources = Inr (firsts key [] (concat sources))"
  by (simp add: merge_sources_def foldlE_concat push_all)

lemma push_all_throws:
  "\<not> list_all (\<lambda>r. \<not> nullish r) rows \<Longrightarrow> \<exists>e. foldlE (push_new keyE) st rows = Inl e"
proof (induction rows arbitrary: st)
  case (Cons r rows)
  show ?case
  proof (cases "nullish r")
    case True
    with key_throws [OF this] show ?thesis by (auto simp: push_new_def)
  next
    case False
    with Cons show ?thesis by (simp add: push_new_def key_ok)
  qed
qed simp

lemma merge_sources_Inr:
  "merge_sources keyE sources = Inr ms \<Longrightarrow>
   list_all (\<lambda>r. \<not> nullish r) (concat sources) \<and> ms = firsts key [] (concat sources)"
  using push_all_throws [of "concat sources" "([], [])"] merge_sources_firsts [of sources]
  by (cases "list_all (\<lambda>r. \<not> nullish r) (concat sources)") (auto simp: merge_sources_def foldlE_concat)

lemma merge_sources_distinct:
  "merge_sources keyE sources = Inr ms \<Longrightarrow> sorted_wrt (\<lambda>a b. \<not> same_key (key a) (key b)) ms"
  by (auto dest!: merge_sources_Inr simp: firsts_distinct)

lemma merge_sources_complete:
  "merge_sources keyE sources = Inr ms \<Longrightarrow> r \<in> set (concat sources) \<Longrightarrow>
   r \<in> set ms \<or> (\<exists>q\<in>set ms. same_key (key q) (key r))"
  by (auto dest!: merge_sources_Inr firsts_complete [where seen = "[]" and key = key] simp: set_has_def simp del: set_concat)

end

subsection \<open>Values and amounts of rows\<close>

definition strict_eq :: "js \<Rightarrow> js \<Rightarrow> bool" where
  \<comment> \<open>\<open>===\<close> of values that are not objects\<close>
  "strict_eq a b \<longleftrightarrow> a = b \<and> primitive a \<and> a \<noteq> Num NaN"

definition amount_of :: "js \<Rightarrow> string \<Rightarrow> number" where
  \<comment> \<open>\<open>Number(row.f) || 0\<close>\<close>
  "amount_of row f = (let n = to_num (member row f) in if ntruthy n then n else nint 0)"

text \<open>Sums of whole amounts, exact as long as they stay below \<open>2\<^sup>5\<^sup>3\<close>.\<close>

definition whole :: "string \<Rightarrow> js \<Rightarrow> int" where
  \<comment> \<open>a row's amount when it is a whole number\<close>
  "whole f row = (case amount_of row f of Fin x \<Rightarrow> \<lfloor>x\<rfloor> | _ \<Rightarrow> 0)"

definition has_whole :: "string \<Rightarrow> js \<Rightarrow> bool" where
  "has_whole f row \<longleftrightarrow> \<not> nullish row \<and> (\<exists>n. 0 \<le> n \<and> amount_of row f = nint n)"

definition owed :: "string \<Rightarrow> (js \<Rightarrow> bool) \<Rightarrow> js list \<Rightarrow> int" where
  "owed f P rows = sum_list (map (whole f) (filter P rows))"

lemma has_wholeD: "has_whole f row \<Longrightarrow> amount_of row f = nint (whole f row) \<and> 0 \<le> whole f row \<and> \<not> nullish row"
  by (auto simp: has_whole_def whole_def)

lemma owed_nonneg: "list_all (has_whole f) rows \<Longrightarrow> 0 \<le> owed f P rows"
  by (induction rows) (auto simp: owed_def dest: has_wholeD)

lemma owed_le: "list_all (has_whole f) rows \<Longrightarrow> owed f P rows \<le> owed f (\<lambda>_. True) rows"
  by (induction rows) (auto simp: owed_def dest: has_wholeD)

lemma owed_snoc: "owed f P (rows @ [r]) = owed f P rows + (if P r then whole f r else 0)"
  by (simp add: owed_def)

definition sum_amounts :: "string \<Rightarrow> js list \<Rightarrow> number" where
  \<comment> \<open>\<open>rows.reduce((acc, r) => acc + (Number(r.f) || 0), 0)\<close>\<close>
  "sum_amounts f rows = foldl (\<lambda>acc r. nadd acc (amount_of r f)) (nint 0) rows"

lemma owed_filter: "owed f Q (filter P rows) = owed f (\<lambda>r. P r \<and> Q r) rows"
  by (simp add: owed_def conj_commute)

lemma sum_amounts_whole:
  "list_all (has_whole f) rows \<Longrightarrow> owed f (\<lambda>_. True) rows \<le> 2 ^ 53 \<Longrightarrow> sum_amounts f rows = nint (owed f (\<lambda>_. True) rows)"
proof (induction rows rule: rev_induct)
  case (snoc r rows)
  have r: "amount_of r f = nint (whole f r)" "0 \<le> whole f r" using snoc.prems(1) by (auto dest: has_wholeD)
  have ok: "list_all (has_whole f) rows" using snoc.prems(1) by simp
  have b: "0 \<le> owed f (\<lambda>_. True) rows" "owed f (\<lambda>_. True) rows + whole f r \<le> 2 ^ 53"
    using owed_nonneg [OF ok] snoc.prems(2) by (simp_all add: owed_snoc)
  then have "nadd (nint (owed f (\<lambda>_. True) rows)) (nint (whole f r)) = nint (owed f (\<lambda>_. True) rows + whole f r)"
    using r(2) by (intro nadd_int) linarith
  moreover have "sum_amounts f rows = nint (owed f (\<lambda>_. True) rows)" using b r(2) by (intro snoc.IH [OF ok]) linarith
  ultimately show ?case by (simp add: sum_amounts_def r(1) owed_snoc del: nadd.simps of_int_add)
qed (simp add: sum_amounts_def owed_def)

end
