(* ===== verification/WebApi.thy ===== *)
theory WebApi
  imports SyntheticDetail KeyedMerge
begin

text \<open>
  \<open>apps/web/src/lib/api.ts\<close>: the console's calls to the backend. Each read falls back to the synthetic
  dataset when the backend cannot be reached, answers with an error or with something unusable; the
  writes report the failure. The address \<open>base\<close> of the backend, the network \<open>net\<close> and the list
  \<open>ds\<close> that \<open>getSyntheticWorkflows\<close> returns are parameters of the calls.
\<close>

subsection \<open>One call\<close>

record RequestInit =
  ri_method :: string
  ri_headers :: "(string \<times> string) list"
  ri_body :: "string option"

definition no_init :: RequestInit where
  "no_init = \<lparr>ri_method = ''GET'', ri_headers = [], ri_body = None\<rparr>"

definition post_init :: "js \<Rightarrow> RequestInit" where
  "post_init v = \<lparr>ri_method = ''POST'', ri_headers = [], ri_body = Some (json_print v)\<rparr>"

definition api_request :: "string \<Rightarrow> string \<Rightarrow> RequestInit \<Rightarrow> web_request" where
  "api_request base endpoint options =
    (let cleanEndpoint = (if starts_with endpoint ''/'' then endpoint else ''/'' @ endpoint)
     in \<lparr>rq_url = base @ cleanEndpoint, rq_method = ri_method options,
         rq_headers = foldl (\<lambda>hs (k, v). AList.update k v hs) [(''Content-Type'', ''application/json'')] (ri_headers options),
         rq_body = ri_body options\<rparr>)"

definition error_detail :: "web_response \<Rightarrow> js" where
  "error_detail res =
    (case seqE (res_json res) (\<lambda>errJson. seqE (get errJson ''message'') (\<lambda>m.
        Inr (orv m (orv (member errJson ''error'') (json_stringify errJson))))) of
       Inr d \<Rightarrow> d
     | Inl _ \<Rightarrow> (case rs_body res of Inr t \<Rightarrow> Str t | Inl _ \<Rightarrow> Str (rs_statusText res)))"

definition fetchJSON :: "string \<Rightarrow> fetch \<Rightarrow> string \<Rightarrow> RequestInit \<Rightarrow> err + js" where
  "fetchJSON base net endpoint options =
    seqE (net (api_request base endpoint options)) (\<lambda>res.
      if \<not> res_ok res
      then Inl (plain_error (''API error ('' @ show_int (rs_status res) @ ''): '' @
             to_str (orv (error_detail res) (Str (rs_statusText res)))))
      else res_json res)"

subsection \<open>Analytics\<close>

definition getAnalyticsOverview :: "string \<Rightarrow> fetch \<Rightarrow> WorkflowSummary list \<Rightarrow> js" where
  "getAnalyticsOverview base net ds = (case fetchJSON base net ''/analytics/overview'' no_init of
     Inr res \<Rightarrow> if truthy res \<and> ge_num (member res ''total_payments'') (nint 1000) then res
               else getSyntheticAnalyticsOverview ds
   | Inl _ \<Rightarrow> getSyntheticAnalyticsOverview ds)"

definition getMetricsSummary :: "string \<Rightarrow> fetch \<Rightarrow> WorkflowSummary list \<Rightarrow> js" where
  "getMetricsSummary base net ds = getAnalyticsOverview base net ds"

subsection \<open>The list of workflows\<close>

record WorkflowsQuery =
  q_status :: "string option"
  q_limit :: "number option"
  q_offset :: "number option"

definition no_query :: WorkflowsQuery where
  "no_query = \<lparr>q_status = None, q_limit = None, q_offset = None\<rparr>"

definition wanted_status :: "string option \<Rightarrow> string option" where
  \<comment> \<open>\<open>params?.status && params.status !== 'ALL'\<close>\<close>
  "wanted_status s = (case s of Some t \<Rightarrow> if t \<noteq> [] \<and> t \<noteq> ''ALL'' then Some t else None | None \<Rightarrow> None)"

definition num_or :: "number option \<Rightarrow> number \<Rightarrow> number" where
  \<comment> \<open>\<open>x || d\<close> of an optional number\<close>
  "num_or x d = (case x of Some n \<Rightarrow> if ntruthy n then n else d | None \<Rightarrow> d)"

definition query_pairs :: "WorkflowsQuery \<Rightarrow> (string \<times> string) list" where
  "query_pairs q =
    (case wanted_status (q_status q) of Some s \<Rightarrow> [(''status'', s)] | None \<Rightarrow> []) @
    (case q_limit q of Some n \<Rightarrow> if ntruthy n then [(''limit'', num_to_string n)] else [] | None \<Rightarrow> []) @
    (case q_offset q of Some n \<Rightarrow> if ntruthy n then [(''offset'', num_to_string n)] else [] | None \<Rightarrow> [])"

definition workflows_endpoint :: "WorkflowsQuery \<Rightarrow> string" where
  "workflows_endpoint q = (let qs = query_string (query_pairs q)
     in ''/workflows'' @ (if qs \<noteq> [] then ''?'' @ qs else []))"

definition with_status :: "string option \<Rightarrow> WorkflowSummary list \<Rightarrow> WorkflowSummary list" where
  "with_status s all = (case wanted_status s of
     Some t \<Rightarrow> filter (\<lambda>w. wf_status w = t) all | None \<Rightarrow> all)"

definition page :: "js list \<Rightarrow> nat \<Rightarrow> number \<Rightarrow> number \<Rightarrow> js" where
  \<comment> \<open>a \<open>WorkflowsResponse\<close>\<close>
  "page rows len limit offset = Obj [(''data'', Arr rows), (''workflows'', Arr rows),
     (''total'', js_int (int len)), (''limit'', Num limit), (''offset'', Num offset)]"

definition merge_workflows :: "js list \<Rightarrow> js list \<Rightarrow> err + js list" where
  "merge_workflows = merge_rows (key_or ''payment_id'' ''id'') [''payment_id'', ''id'']"

definition online_page :: "WorkflowSummary list \<Rightarrow> WorkflowsQuery \<Rightarrow> js \<Rightarrow> err + js" where
  "online_page ds q res =
    seqE (get res ''data'') (\<lambda>d.
    seqE (as_array (orv d (orv (member res ''workflows'') (Arr [])))) (\<lambda>realList.
    seqE (merge_workflows realList (map wf_js (with_status (q_status q) ds))) (\<lambda>merged.
      let offset = num_or (q_offset q) (nint 0); requestedLimit = num_or (q_limit q) (nint 50);
          totalToTake = nmax requestedLimit (nint (int (length realList + 50)))
      in Inr (page (slice_num merged offset (nadd offset totalToTake)) (length merged) totalToTake offset))))"

definition offline_page :: "WorkflowSummary list \<Rightarrow> WorkflowsQuery \<Rightarrow> js" where
  "offline_page ds q =
    (let filtered = with_status (q_status q) ds;
         offset = num_or (q_offset q) (nint 0); limit = num_or (q_limit q) (nint 50)
     in page (map wf_js (slice_num filtered offset (nadd offset limit))) (length filtered) limit offset)"

definition getWorkflows :: "string \<Rightarrow> fetch \<Rightarrow> WorkflowSummary list \<Rightarrow> WorkflowsQuery \<Rightarrow> js" where
  "getWorkflows base net ds q =
    (case seqE (fetchJSON base net (workflows_endpoint q) no_init) (online_page ds q) of
       Inr p \<Rightarrow> p | Inl _ \<Rightarrow> offline_page ds q)"

definition captured :: "js \<Rightarrow> js" where
  \<comment> \<open>\<open>s === 'RECOVERED' ? 'CAPTURED' : s\<close>\<close>
  "captured s = (if s = Str ''RECOVERED'' then Str ''CAPTURED'' else s)"

definition payment_row :: "js \<Rightarrow> err + js" where
  "payment_row w = seqE (get w ''payment_id'') (\<lambda>payment_id. Inr (Obj [
     (''id'', orv payment_id (member w ''id'')),
     (''amount'', orv (member w ''amount'') (js_int 1999)),
     (''status'', captured (member w ''status'')),
     (''failure_code'', orv (member w ''failure_reason'') (orv (member w ''failure_code'') (Str ''INSUFFICIENT_FUNDS''))),
     (''razorpay_payment_id'', payment_id),
     (''method'', Str ''card / autopay'')]))"

definition demo_payment :: "WorkflowSummary \<Rightarrow> js" where
  "demo_payment w = Obj [
     (''id'', Str (wf_payment_id w)),
     (''amount'', Num (wf_amount w)),
     (''status'', captured (Str (wf_status w))),
     (''failure_code'', Str (wf_failure_code w)),
     (''razorpay_payment_id'', Str (wf_payment_id w)),
     (''method'', Str ''card / autopay'')]"

definition getPayments :: "string \<Rightarrow> fetch \<Rightarrow> WorkflowSummary list \<Rightarrow> js list" where
  "getPayments base net ds =
    (let res = getWorkflows base net ds (no_query\<lparr>q_limit := Some (nint 10)\<rparr>)
     in case seqE (as_array (orv (member res ''workflows'') (Arr []))) (mapE payment_row) of
          Inr rows \<Rightarrow> rows | Inl _ \<Rightarrow> map demo_payment (take 10 ds))"

definition getWorkflowDetail :: "string \<Rightarrow> fetch \<Rightarrow> WorkflowSummary list \<Rightarrow> string \<Rightarrow> err + js" where
  "getWorkflowDetail base net ds wid = (case fetchJSON base net (''/workflows/'' @ wid) no_init of
     Inr d \<Rightarrow> Inr d | Inl _ \<Rightarrow> getSyntheticWorkflowDetail ds wid)"

subsection \<open>System\<close>

definition component :: "string \<Rightarrow> string \<Rightarrow> int \<Rightarrow> string \<Rightarrow> js" where
  \<comment> \<open>a healthy component with its latency in tenths of a millisecond\<close>
  "component name status tenths message = Obj [(''name'', Str name), (''status'', Str status),
     (''latency_ms'', Num (lit tenths 10)), (''message'', Str message)]"

definition now_plus :: "int \<Rightarrow> int \<Rightarrow> err + js" where
  \<comment> \<open>\<open>new Date(Date.now() + ms).toISOString()\<close>\<close>
  "now_plus t ms = seqE (to_iso (time_clip (nadd (nint t) (nint ms)))) (\<lambda>s. Inr (Str s))"

definition getSystemHealth :: "string \<Rightarrow> fetch \<Rightarrow> clock \<Rightarrow> err + js" where
  "getSystemHealth base net now = (case fetchJSON base net ''/system/health'' no_init of
     Inr v \<Rightarrow> Inr v
   | Inl _ \<Rightarrow> seqE (now_plus (now 0) 0) (\<lambda>timestamp. Inr (Obj [
       (''overall_status'', Str ''HEALTHY''),
       (''components'', Arr [
         component ''API Server'' ''HEALTHY'' 21 ''Online'',
         component ''Recovery Worker Pool'' ''HEALTHY'' 45 ''32 workers active'',
         component ''DeepSeek-R1 AI Reasoning Engine'' ''HEALTHY'' 1102 ''Ollama local inference ready'',
         component ''ML Risk Intelligence (Random Forest)'' ''HEALTHY'' 120 ''Model v1.0 active'',
         component ''PostgreSQL Relational Store'' ''HEALTHY'' 14 ''Pool connected'',
         component ''Redis Work Queue'' ''HEALTHY'' 8 ''Stream healthy'']),
       (''timestamp'', timestamp)])))"

definition queue_stats :: "string \<Rightarrow> int \<Rightarrow> int \<Rightarrow> int \<Rightarrow> int \<Rightarrow> int \<Rightarrow> int \<Rightarrow> js" where
  "queue_stats name len mem active pending scheduled completed = Obj [
     (''queue'', Str name), (''size'', js_int len), (''memory_usage_bytes'', js_int mem),
     (''active'', js_int active), (''pending'', js_int pending), (''scheduled'', js_int scheduled),
     (''retry'', js_int 0), (''archived'', js_int 0), (''completed'', js_int completed), (''paused'', Bool False)]"

definition getSystemQueues :: "string \<Rightarrow> fetch \<Rightarrow> clock \<Rightarrow> err + js" where
  "getSystemQueues base net now = (case fetchJSON base net ''/system/queues'' no_init of
     Inr v \<Rightarrow> Inr v
   | Inl _ \<Rightarrow> seqE (now_plus (now 0) (- 3600000)) (\<lambda>started. seqE (now_plus (now 1) 0) (\<lambda>timestamp. Inr (Obj [
       (''redis_status'', Str ''HEALTHY''),
       (''queues'', Arr [
         queue_stats ''recovery.inbound.events'' 0 1024 0 0 0 2500,
         queue_stats ''recovery.ai.diagnosis'' 2 2048 1 1 0 2498,
         queue_stats ''recovery.delayed.retries'' 18 4096 2 16 18 1710,
         queue_stats ''recovery.outbox.relay'' 0 1024 0 0 0 2500]),
       (''servers'', Arr [Obj [(''id'', Str ''worker-primary-01''), (''host'', Str ''reviveos-core-01''),
         (''pid'', js_int 4821), (''concurrency'', js_int 32),
         (''queues'', Arr [Str ''recovery.inbound.events'', Str ''recovery.ai.diagnosis'', Str ''recovery.delayed.retries'']),
         (''started'', started), (''status'', Str ''RUNNING'')]]),
       (''timestamp'', timestamp)]))))"

subsection \<open>Accounts and merchants\<close>

datatype creds = Creds js | Email string "string option"

definition loginUser :: "string \<Rightarrow> fetch \<Rightarrow> creds \<Rightarrow> err + js" where
  "loginUser base net c = fetchJSON base net ''/auth/login'' (post_init (case c of
     Creds v \<Rightarrow> v
   | Email email passwordArg \<Rightarrow> Obj [(''email'', Str email),
       (''password'', Str (case passwordArg of Some p \<Rightarrow> p | None \<Rightarrow> []))]))"

definition getMerchants :: "string \<Rightarrow> fetch \<Rightarrow> err + js" where
  "getMerchants base net = fetchJSON base net ''/merchants'' no_init"

definition createMerchant :: "string \<Rightarrow> fetch \<Rightarrow> js \<Rightarrow> err + js" where
  "createMerchant base net d = fetchJSON base net ''/merchants'' (post_init d)"

definition merchant_query :: "string option \<Rightarrow> string" where
  \<comment> \<open>\<open>merchantId ? `?merchant_id=...` : ''\<close>\<close>
  "merchant_query merchantId = (case merchantId of
     Some (c # s) \<Rightarrow> ''?merchant_id='' @ encodeURIComponent (c # s) | _ \<Rightarrow> [])"

definition customer_row :: "string \<Rightarrow> WorkflowSummary \<Rightarrow> js" where
  "customer_row customer_id w = Obj [
     (''id'', Str customer_id),
     (''email'', opt_str (wf_customer_email w)),
     (''phone'', opt_str (wf_customer_phone w)),
     (''communication_opt_out'', Bool False),
     (''created_at'', Str (wf_created_at w)),
     (''subscriptions_count'', js_int 1),
     (''failed_payments_count'', Num (num_or (wf_customer_failed_count w) (nint 1))),
     (''successful_recoveries_count'', Num (num_or (wf_customer_success_count w) (nint 4))),
     (''recovery_rate'', Num (lit 8 10)),
     (''preferred_payment_method'', Str (if str_includes (wf_payment_id w) ''up'' then ''upi'' else ''card''))]"

definition add_customer :: "(string \<times> js) list \<Rightarrow> WorkflowSummary \<Rightarrow> (string \<times> js) list" where
  \<comment> \<open>one round of the loop that fills \<open>customersMap\<close>, in insertion order\<close>
  "add_customer m w = (case wf_customer_id w of
     Some (c # s) \<Rightarrow> if map_of m (c # s) = None then m @ [(c # s, customer_row (c # s) w)] else m
   | _ \<Rightarrow> m)"

definition subscription_row :: "int \<Rightarrow> nat \<Rightarrow> WorkflowSummary \<Rightarrow> err + js" where
  "subscription_row t idx w = seqE (now_plus t (14 * 86400 * 1000)) (\<lambda>next_billing_at. Inr (Obj [
     (''id'', Str (''sub_synth_'' @ show_nat (idx + 100))),
     (''customer_id'', opt_str (wf_customer_id w)),
     (''customer_email'', opt_str (wf_customer_email w)),
     (''customer_phone'', opt_str (wf_customer_phone w)),
     (''amount'', Num (wf_amount w)),
     (''currency'', Str ''INR''),
     (''status'', Str (if wf_recovered w then ''ACTIVE'' else ''PAST_DUE'')),
     (''plan_id'', Str (''plan_'' @ (if nleq (nint 14999) (wf_amount w) then ''enterprise'' else ''pro'') @ ''_monthly'')),
     (''billing_interval'', Str ''monthly''),
     (''payment_link_url'', Str (''https://reviveos.io/pay/sub_synth_'' @ show_nat (idx + 100))),
     (''next_billing_at'', next_billing_at),
     (''created_at'', Str (wf_created_at w))]))"

definition offline_dashboard :: "clock \<Rightarrow> WorkflowSummary list \<Rightarrow> string option \<Rightarrow> err + js" where
  "offline_dashboard now wfs merchantId =
    (let customersMap = foldl add_customer [] wfs; customers = take 30 (map snd customersMap)
     in seqE (mapE (\<lambda>(idx, w). subscription_row (now idx) idx w) (index_from 0 (take 25 wfs))) (\<lambda>subscriptions.
     Inr (Obj [
       (''merchant'', Obj [
          (''id'', Str (case merchantId of Some (c # s) \<Rightarrow> c # s | _ \<Rightarrow> ''00000000-0000-0000-0000-000000000001'')),
          (''name'', Str ''Acme Cloud Services''),
          (''created_at'', Str ''2026-08-01T00:00:00Z'')]),
       (''stats'', Obj [
          (''total_customers'', js_int 350),
          (''active_subscriptions'', js_int 382),
          (''past_due_subscriptions'', js_int 68),
          (''recovered_subscriptions'', js_int 214),
          (''total_mrr'', js_int 1862900),
          (''at_risk_mrr'', js_int 248000)]),
       (''subscriptions'', Arr subscriptions),
       (''customers'', Arr customers)])))"

definition getMerchantDashboard ::
  "string \<Rightarrow> fetch \<Rightarrow> clock \<Rightarrow> WorkflowSummary list \<Rightarrow> string option \<Rightarrow> err + js" where
  "getMerchantDashboard base net now ds merchantId =
    (case fetchJSON base net (''/merchant/dashboard'' @ merchant_query merchantId) no_init of
       Inr v \<Rightarrow> Inr v | Inl _ \<Rightarrow> offline_dashboard now ds merchantId)"

definition createSubscription :: "string \<Rightarrow> fetch \<Rightarrow> js \<Rightarrow> err + js" where
  "createSubscription base net d = fetchJSON base net ''/merchant/subscriptions'' (post_init d)"

definition createSandboxPaymentLink :: "string \<Rightarrow> fetch \<Rightarrow> js \<Rightarrow> err + js" where
  "createSandboxPaymentLink base net d = fetchJSON base net ''/merchant/sandbox/payment-link'' (post_init d)"

subsection \<open>Interventions\<close>

definition interventions_page :: "js list \<Rightarrow> js" where
  "interventions_page rows = Obj [(''data'', Arr rows), (''total'', js_int (int (length rows)))]"

definition getInterventions :: "string \<Rightarrow> fetch \<Rightarrow> string option \<Rightarrow> err + js" where
  "getInterventions base net merchantId = seqE getSyntheticInterventions (\<lambda>synthetic.
    Inr (case seqE (fetchJSON base net (''/workflows/interventions'' @ merchant_query merchantId) no_init) (\<lambda>res.
             seqE (as_array (orv (member res ''data'') (Arr []))) (\<lambda>realList. merge_workflows realList synthetic)) of
       Inr merged \<Rightarrow> interventions_page merged
     | Inl _ \<Rightarrow> interventions_page synthetic))"

definition or_empty :: "js option \<Rightarrow> js" where
  \<comment> \<open>\<open>data || {}\<close>\<close>
  "or_empty d = (case d of Some v \<Rightarrow> orv v (Obj []) | None \<Rightarrow> Obj [])"

definition approveWorkflow :: "string \<Rightarrow> fetch \<Rightarrow> string \<Rightarrow> js option \<Rightarrow> err + js" where
  "approveWorkflow base net wid d = fetchJSON base net (''/workflows/'' @ wid @ ''/approve'') (post_init (or_empty d))"

definition rejectWorkflow :: "string \<Rightarrow> fetch \<Rightarrow> string \<Rightarrow> js option \<Rightarrow> err + js" where
  "rejectWorkflow base net wid d = fetchJSON base net (''/workflows/'' @ wid @ ''/reject'') (post_init (or_empty d))"

definition overrideWorkflow :: "string \<Rightarrow> fetch \<Rightarrow> string \<Rightarrow> js \<Rightarrow> err + js" where
  "overrideWorkflow base net wid d = fetchJSON base net (''/workflows/'' @ wid @ ''/override'') (post_init d)"

subsection \<open>Lemmas\<close>

interpretation workflow_rows: row_key "key_or ''payment_id'' ''id''" "\<lambda>r. orv (member r ''payment_id'') (member r ''id'')"
  by (rule key_or_row)

abbreviation row_id :: "js \<Rightarrow> js" where
  "row_id r \<equiv> orv (member r ''payment_id'') (member r ''id'')"

definition shadows :: "js \<Rightarrow> js \<Rightarrow> bool" where
  \<comment> \<open>the backend's row \<open>r\<close> stands for the demonstration row \<open>s\<close>\<close>
  "shadows r s \<longleftrightarrow> same_key (row_id r) (member s ''payment_id'') \<or> same_key (row_id r) (member s ''id'')"

lemma wf_js_ids [simp]: "member (wf_js w) ''payment_id'' = Str (wf_payment_id w)" "member (wf_js w) ''id'' = Str (wf_id w)"
  by (simp_all add: wf_js_def)

interpretation workflow_merge: priority_merge merge_workflows shadows
  using workflow_rows.merged [where fs = "[''payment_id'', ''id'']"]
  by unfold_locales (simp add: merge_workflows_def shadows_def)

lemma merge_workflows_total: "list_all (\<lambda>r. \<not> nullish r) rs \<Longrightarrow> \<exists>ms. merge_workflows rs ss = Inr ms"
  unfolding merge_workflows_def by (rule workflow_rows.merge_total)

lemma online_rows:
  assumes "member res ''data'' = Arr rows" "list_all (\<lambda>r. \<not> nullish r) rows"
  obtains ms where "merge_workflows rows (map wf_js (with_status (q_status q) ds)) = Inr ms"
    and "online_page ds q res = Inr (let offset = num_or (q_offset q) (nint 0);
          totalToTake = nmax (num_or (q_limit q) (nint 50)) (nint (int (length rows + 50)))
        in page (slice_num ms offset (nadd offset totalToTake)) (length ms) totalToTake offset)"
proof -
  obtain ms where ms: "merge_workflows rows (map wf_js (with_status (q_status q) ds)) = Inr ms"
    using merge_workflows_total [OF assms(2)] by blast
  moreover from orv_Arr [OF assms(1)] have "get res ''data'' = Inr (Arr rows)" by blast
  ultimately show thesis by (intro that [OF ms]) (simp add: online_page_def Let_def)
qed

lemma page_data [simp]: "member (page rows n l off) ''data'' = Arr rows" "member (page rows n l off) ''workflows'' = Arr rows"
  "member (page rows n l off) ''total'' = js_int (int n)"
  by (simp_all add: page_def)

lemma set_slice_drop: "length rs \<le> k \<Longrightarrow> set (slice xs (int k) j) \<subseteq> set (drop (length rs) xs)"
proof -
  assume "length rs \<le> k"
  then have "set (drop (slice_idx (length xs) (int k)) xs) \<subseteq> set (drop (length rs) xs)"
    by (cases "k \<le> length xs") (auto simp: slice_idx_def min_def intro: set_drop_subset_set_drop [THEN subsetD])
  then show ?thesis by (auto simp: slice_def dest: in_set_takeD)
qed

lemma with_status_subset: "set (with_status s ds) \<subseteq> set ds"
  by (auto simp: with_status_def split: option.splits)

subsection \<open>Properties\<close>

text \<open>
  C19: When the backend answers the list request with rows, the console shows a slice of the merged list: the
  backend's rows come first and unchanged, every demonstration item of the wanted status follows unless one of
  those rows carries its payment id or its id, nothing else is in the list, and the total counts the merged list.
\<close>

theorem workflows_merged:
  assumes "fetchJSON base net (workflows_endpoint q) no_init = Inr res"
    and "member res ''data'' = Arr rows" and "list_all (\<lambda>r. \<not> nullish r) rows"
  shows "\<exists>ms. member (getWorkflows base net ds q) ''total'' = js_int (int (length ms))
    \<and> member (getWorkflows base net ds q) ''data'' = Arr (slice_num ms (num_or (q_offset q) (nint 0))
          (nadd (num_or (q_offset q) (nint 0)) (nmax (num_or (q_limit q) (nint 50)) (nint (int (length rows + 50))))))
    \<and> take (length rows) ms = rows
    \<and> drop (length rows) ms = filter (\<lambda>s. \<forall>r\<in>set rows. \<not> shadows r s) (map wf_js (with_status (q_status q) ds))
    \<and> (\<forall>w\<in>set (with_status (q_status q) ds). wf_js w \<in> set ms \<or> (\<exists>r\<in>set rows. shadows r (wf_js w)))"
proof (rule online_rows [OF assms(2,3), of q ds])
  fix ms
  assume ms: "merge_workflows rows (map wf_js (with_status (q_status q) ds)) = Inr ms"
    and p: "online_page ds q res = Inr (let offset = num_or (q_offset q) (nint 0);
          totalToTake = nmax (num_or (q_limit q) (nint 50)) (nint (int (length rows + 50)))
        in page (slice_num ms offset (nadd offset totalToTake)) (length ms) totalToTake offset)"
  have "\<forall>w\<in>set (with_status (q_status q) ds). wf_js w \<in> set ms \<or> (\<exists>r\<in>set rows. shadows r (wf_js w))"
    using workflow_merge.no_row_lost [OF ms] by simp
  with workflow_merge.first_rows [OF ms] workflow_merge.rest_rows [OF ms] show ?thesis
    by (intro exI [of _ ms]) (auto simp: getWorkflows_def assms(1) p Let_def)
qed

definition one_row :: js where
  "one_row = Obj [(''id'', Str ''wf_1''), (''payment_id'', Str ''pay_1'')]"

lemma answering_fetch: "js_ok v \<Longrightarrow> fetchJSON base (answering v) ep ini = Inr (json_image v)"
  by (simp add: fetchJSON_def answering_def json_response_round_trip)

lemma one_row_answer:
  "fetchJSON ''/api'' (answering (Obj [(''data'', Arr [one_row])])) ep no_init = Inr (Obj [(''data'', Arr [one_row])])"
  by (subst answering_fetch) (simp_all add: one_row_def)

theorem workflows_merged_witness:
  "\<exists>ms. member (getWorkflows ''/api'' (answering (Obj [(''data'', Arr [one_row])])) [] no_query) ''total'' = js_int (int (length ms))
    \<and> take 1 ms = [one_row]"
  using workflows_merged [where q = no_query and ds = "[]" and rows = "[one_row]",
      OF one_row_answer, unfolded member.simps fld_simps] by (auto simp: one_row_def nullish_def)

text \<open>
  C40: The offset is applied twice, by the backend and again to the merged list. Asking for an offset at or behind the
  number of rows the backend returned shows none of them: the page holds demonstration items only, so the
  backend's rows of the second page never appear.
\<close>

theorem offset_hides_backend_rows:
  assumes "fetchJSON base net (workflows_endpoint q) no_init = Inr res"
    and "member res ''data'' = Arr rows" and "list_all (\<lambda>r. \<not> nullish r) rows"
    and "q_offset q = Some (nint (int k))" and "length rows \<le> k"
  shows "\<exists>shown. member (getWorkflows base net ds q) ''data'' = Arr shown \<and> set shown \<subseteq> wf_js ` set ds"
proof (rule online_rows [OF assms(2,3), of q ds])
  fix ms
  assume ms: "merge_workflows rows (map wf_js (with_status (q_status q) ds)) = Inr ms"
    and p: "online_page ds q res = Inr (let offset = num_or (q_offset q) (nint 0);
          totalToTake = nmax (num_or (q_limit q) (nint 50)) (nint (int (length rows + 50)))
        in page (slice_num ms offset (nadd offset totalToTake)) (length ms) totalToTake offset)"
  have off: "num_or (q_offset q) (nint 0) = nint (int k)" using assms(4) by (simp add: num_or_def)
  have "set (drop (length rows) ms) \<subseteq> wf_js ` set ds"
    unfolding workflow_merge.rest_rows [OF ms] using with_status_subset [of "q_status q" ds] by fastforce
  then have "set (slice ms (int k) j) \<subseteq> wf_js ` set ds" for j
    using set_slice_drop [OF assms(5), of ms j] by (rule subset_trans [rotated])
  then show ?thesis
    unfolding getWorkflows_def assms(1) seqE.simps p Let_def off sum.case page_data slice_num_def to_integer_nint by blast
qed

theorem offset_hides_backend_rows_witness:
  "\<exists>shown. member (getWorkflows ''/api'' (answering (Obj [(''data'', Arr [one_row])])) []
      (no_query\<lparr>q_offset := Some (nint (int 50))\<rparr>)) ''data'' = Arr shown \<and> set shown \<subseteq> wf_js ` {}"
  using offset_hides_backend_rows [where q = "no_query\<lparr>q_offset := Some (nint (int 50))\<rparr>" and ds = "[]"
      and rows = "[one_row]" and k = 50, OF one_row_answer, unfolded member.simps fld_simps]
  by (simp add: one_row_def nullish_def)

lemma offline_getWorkflows:
  "fetchJSON base net (workflows_endpoint q) no_init = Inl e \<Longrightarrow> getWorkflows base net ds q = offline_page ds q"
  by (simp add: getWorkflows_def)

lemma offline_page_nat:
  assumes "0 < l" "k + l \<le> 2 ^ 53"
  shows "offline_page ds \<lparr>q_status = s, q_limit = Some (nint (int l)), q_offset = Some (nint (int k))\<rparr>
    = page (map wf_js (take l (drop k (with_status s ds)))) (length (with_status s ds)) (nint (int l)) (nint (int k))"
proof -
  have n: "num_or (Some (nint (int l))) d = nint (int l)" "num_or (Some (nint (int k))) (nint 0) = nint (int k)" for d
    using assms(1) by (simp_all add: num_or_def)
  have "int k + int l \<le> 2 ^ 53" using assms(2) by (metis of_nat_add of_nat_le_iff of_nat_numeral of_nat_power)
  then have a: "nadd (nint (int k)) (nint (int l)) = nint (int (k + l))" using nadd_int [of "int k" "int l"] by simp
  show ?thesis unfolding offline_page_def Let_def WorkflowsQuery.simps n a slice_num_int by simp
qed

lemma take_tiles: "concat (map (\<lambda>p. take l (drop (p * l) xs)) [0..<n]) = take (n * l) xs"
  by (induction n) (simp_all add: take_add [symmetric] add.commute)

text \<open>
  C25: With the backend out of reach the pages tile the dataset: for a page size \<open>l\<close>, the first \<open>n\<close> pages one after the
  other are exactly the first \<open>n * l\<close> items of the wanted status, none twice and none missing.
\<close>

theorem offline_pages_tile:
  assumes "\<And>q. fetchJSON base net (workflows_endpoint q) no_init = Inl (e q)" and "0 < l" and "(n + 1) * l \<le> 2 ^ 53"
  shows "map Arr (map (\<lambda>p. map wf_js (take l (drop (p * l) (with_status s ds)))) [0..<n])
      = map (\<lambda>p. member (getWorkflows base net ds
          \<lparr>q_status = s, q_limit = Some (nint (int l)), q_offset = Some (nint (int (p * l)))\<rparr>) ''data'') [0..<n]
    \<and> concat (map (\<lambda>p. map wf_js (take l (drop (p * l) (with_status s ds)))) [0..<n])
      = map wf_js (take (n * l) (with_status s ds))"
proof
  have "p * l + l \<le> 2 ^ 53" if "p < n" for p
  proof -
    have "p * l + l \<le> n * l + l" using that by simp
    also have "\<dots> \<le> 2 ^ 53" using assms(3) by (simp add: algebra_simps)
    finally show ?thesis .
  qed
  then have "Arr (map wf_js (take l (drop (p * l) (with_status s ds)))) = member (getWorkflows base net ds
      \<lparr>q_status = s, q_limit = Some (nint (int l)), q_offset = Some (nint (int (p * l)))\<rparr>) ''data''" if "p < n" for p
    unfolding offline_getWorkflows [OF assms(1)] using that by (simp only: offline_page_nat [OF assms(2)] page_data)
  then show "map Arr (map (\<lambda>p. map wf_js (take l (drop (p * l) (with_status s ds)))) [0..<n])
      = map (\<lambda>p. member (getWorkflows base net ds
          \<lparr>q_status = s, q_limit = Some (nint (int l)), q_offset = Some (nint (int (p * l)))\<rparr>) ''data'') [0..<n]"
    unfolding map_map comp_def by (intro map_cong refl) (simp only: set_upt atLeastLessThan_iff)
  have "concat (map (\<lambda>p. map wf_js (take l (drop (p * l) xs))) [0..<n]) = map wf_js (concat (map (\<lambda>p. take l (drop (p * l) xs)) [0..<n]))"
    for xs by (simp add: map_concat comp_def)
  then show "concat (map (\<lambda>p. map wf_js (take l (drop (p * l) (with_status s ds)))) [0..<n])
      = map wf_js (take (n * l) (with_status s ds))" by (simp add: take_tiles)
qed

lemma unreachable_fetch [simp]: "fetchJSON base unreachable ep ini = Inl (type_error ''Failed to fetch'')"
  by (simp add: fetchJSON_def unreachable_def)

theorem offline_pages_tile_witness:
  "map (\<lambda>p. member (getWorkflows ''/api'' unreachable [netbanking_item]
      \<lparr>q_status = None, q_limit = Some (nint (int 1)), q_offset = Some (nint (int (p * 1)))\<rparr>) ''data'') [0..<2]
    = [Arr [wf_js netbanking_item], Arr []]"
proof -
  have u: "[0..<2] = [0, 1::nat]" by (simp add: upt_rec)
  have b: "(0::nat) < 1" "((2::nat) + 1) * 1 \<le> 2 ^ 53" by simp_all
  from offline_pages_tile [where s = None and ds = "[netbanking_item]", OF unreachable_fetch b]
  have "map (\<lambda>p. member (getWorkflows ''/api'' unreachable [netbanking_item]
      \<lparr>q_status = None, q_limit = Some (nint (int 1)), q_offset = Some (nint (int (p * 1)))\<rparr>) ''data'') [0..<2]
    = map Arr (map (\<lambda>p. map wf_js (take 1 (drop (p * 1) (with_status None [netbanking_item])))) [0..<2])"
    by (rule conjunct1 [THEN sym])
  then show ?thesis by (simp only: u) (simp add: with_status_def wanted_status_def)
qed

text \<open>
  C32: The review queue never loses an intervention. When the backend answers, its interventions come first and a
  demonstration intervention is left out only if one of them carries its payment id or its id; when it does not,
  the queue is the demonstration data. The total is the number of entries shown.
\<close>

theorem interventions_complete:
  assumes "getSyntheticInterventions = Inr synthetic"
  shows "\<exists>shown. getInterventions base net merchantId = Inr (interventions_page shown)
    \<and> (case fetchJSON base net (''/workflows/interventions'' @ merchant_query merchantId) no_init of
         Inl _ \<Rightarrow> shown = synthetic
       | Inr res \<Rightarrow> (\<forall>rows. member res ''data'' = Arr rows \<and> list_all (\<lambda>r. \<not> nullish r) rows \<longrightarrow>
           shown = rows @ filter (\<lambda>s. \<forall>r\<in>set rows. \<not> shadows r s) synthetic))"
proof (cases "fetchJSON base net (''/workflows/interventions'' @ merchant_query merchantId) no_init")
  case (Inl e)
  then show ?thesis by (simp add: getInterventions_def assms)
next
  case (Inr res)
  show ?thesis
  proof (cases "\<exists>rows. member res ''data'' = Arr rows \<and> list_all (\<lambda>r. \<not> nullish r) rows")
    case True
    then obtain rows where rows: "member res ''data'' = Arr rows" "list_all (\<lambda>r. \<not> nullish r) rows" by blast
    obtain ms where ms: "merge_workflows rows synthetic = Inr ms" using merge_workflows_total [OF rows(2)] by blast
    have "ms = rows @ filter (\<lambda>s. \<forall>r\<in>set rows. \<not> shadows r s) synthetic"
      using workflow_merge.merged [OF ms] by (simp add: list_ex_iff)
    with Inr rows ms show ?thesis by (simp add: getInterventions_def assms)
  next
    case False
    then show ?thesis using Inr by (auto simp: getInterventions_def assms split: sum.split)
  qed
qed

theorem interventions_complete_witness:
  "\<exists>synthetic. getSyntheticInterventions = Inr synthetic
    \<and> getInterventions ''/api'' unreachable None = Inr (interventions_page synthetic)"
proof -
  have "getSyntheticInterventions = Inr intervention_items" by (rule interventions)
  from interventions_complete [OF this, of "''/api''" unreachable None] this show ?thesis
    by (intro exI [of _ intervention_items]) simp
qed

lemma add_customer_keys:
  "distinct (map fst m) \<Longrightarrow> distinct (map fst (foldl add_customer m ws))"
proof (induction ws arbitrary: m)
  case (Cons w ws)
  have "distinct (map fst (add_customer m w))"
    using Cons.prems by (auto simp: add_customer_def map_of_eq_None_iff split: option.splits list.splits)
  with Cons.IH show ?case by simp
qed simp

lemma add_customer_rows:
  assumes "(k, v) \<in> set (foldl add_customer m ws)" "(k, v) \<notin> set m"
  shows "\<exists>w\<in>set ws. wf_customer_id w = Some k \<and> v = customer_row k w"
  using assms
proof (induction ws arbitrary: m)
  case (Cons w ws)
  show ?case
  proof (cases "(k, v) \<in> set (add_customer m w)")
    case True
    with Cons.prems(2) show ?thesis by (auto simp: add_customer_def split: option.splits list.splits if_splits)
  next
    case False
    with Cons.IH [of "add_customer m w"] Cons.prems(1) show ?thesis by auto
  qed
qed simp

lemma customer_row_id [simp]: "member (customer_row k w) ''id'' = Str k"
  by (simp add: customer_row_def)

text \<open>
  The offline dashboard lists at most 30 customers and 25 subscriptions, no customer twice, and every customer
  with the data of a workflow of the dataset that belongs to that customer.
\<close>

lemma dashboard_customers:
  assumes "offline_dashboard now wfs m = Inr d"
  shows "\<exists>cs ss. member d ''customers'' = Arr cs \<and> member d ''subscriptions'' = Arr ss
    \<and> length cs \<le> 30 \<and> length ss = min 25 (length wfs) \<and> distinct (map (\<lambda>c. member c ''id'') cs)
    \<and> (\<forall>c\<in>set cs. \<exists>w\<in>set wfs. \<exists>k. wf_customer_id w = Some k \<and> c = customer_row k w)"
proof -
  let ?m = "foldl add_customer [] wfs"
  obtain ss where ss: "mapE (\<lambda>(idx, w). subscription_row (now idx) idx w) (index_from 0 (take 25 wfs)) = Inr ss"
      and d: "member d ''customers'' = Arr (take 30 (map snd ?m))" "member d ''subscriptions'' = Arr ss"
    using assms by (auto simp: offline_dashboard_def Let_def)
  have rows: "\<exists>w\<in>set wfs. wf_customer_id w = Some k \<and> v = customer_row k w" if "(k, v) \<in> set ?m" for k v
    using add_customer_rows [OF that] by simp
  then have "member v ''id'' = Str k" if "(k, v) \<in> set ?m" for k v using that by fastforce
  then have "map (\<lambda>c. member c ''id'') (map snd ?m) = map Str (map fst ?m)" by auto
  then have "distinct (map (\<lambda>c. member c ''id'') (take 30 (map snd ?m)))"
    using add_customer_keys [of "[]" wfs] by (simp add: take_map [symmetric] distinct_map distinct_take inj_on_def)
  moreover have "\<forall>c\<in>set (take 30 (map snd ?m)). \<exists>w\<in>set wfs. \<exists>k. wf_customer_id w = Some k \<and> c = customer_row k w"
    using rows by (fastforce dest: in_set_takeD)
  moreover have "length ss = min 25 (length wfs)" using mapE_length [OF ss] by (simp add: min.commute)
  ultimately show ?thesis using d by auto
qed

end
