(* ===== verification/WorkflowsPage.thy ===== *)
theory WorkflowsPage
  imports WebApi
begin

text \<open>
  \<open>apps/web/src/app/workflows/page.tsx\<close>: the list of workflows and the queue of human interventions, with the
  status filter, the search and the inline decisions.
\<close>

subsection \<open>State\<close>

datatype list_tab = All_workflows | Interventions

record workflows_page =
  wp_workflows :: "js list"
  wp_interventions :: "js list"
  wp_activeTab :: list_tab
  wp_loading :: bool
  wp_error :: "string option"
  wp_statusFilter :: string
  wp_searchQuery :: string
  wp_actionLoadingId :: "string option"
  wp_alerts :: "string list"

definition workflows_init :: "WorkflowSummary list \<Rightarrow> err + workflows_page" where
  "workflows_init ds = seqE getSyntheticInterventions (\<lambda>interventions. Inr
    \<lparr>wp_workflows = map wf_js (take 50 ds), wp_interventions = interventions, wp_activeTab = All_workflows, wp_loading = False,
     wp_error = None, wp_statusFilter = ''ALL'', wp_searchQuery = [], wp_actionLoadingId = None, wp_alerts = []\<rparr>)"

subsection \<open>Loading\<close>

definition shown_rows :: "js \<Rightarrow> js list \<Rightarrow> js list" where
  \<comment> \<open>\<open>if (res?.data && res.data.length > 0) set(res.data)\<close>\<close>
  "shown_rows res old = (case member res ''data'' of Arr (r # rs) \<Rightarrow> r # rs | _ \<Rightarrow> old)"

definition filter_query :: "string \<Rightarrow> WorkflowsQuery" where
  "filter_query statusFilter = no_query\<lparr>q_status := (if statusFilter \<noteq> ''ALL'' then Some statusFilter else None),
     q_limit := Some (nint 100)\<rparr>"

definition loadData :: "string \<Rightarrow> fetch \<Rightarrow> WorkflowSummary list \<Rightarrow> workflows_page \<Rightarrow> workflows_page" where
  "loadData base net ds p =
    (let q = p\<lparr>wp_error := None, wp_loading := False\<rparr>
     in case getInterventions base net None of
          Inl _ \<Rightarrow> q
        | Inr intRes \<Rightarrow> q\<lparr>wp_workflows := shown_rows (getWorkflows base net ds (filter_query (wp_statusFilter p))) (wp_workflows p),
            wp_interventions := shown_rows intRes (wp_interventions p)\<rparr>)"

definition set_statusFilter :: "string \<Rightarrow> fetch \<Rightarrow> WorkflowSummary list \<Rightarrow> string \<Rightarrow> workflows_page \<Rightarrow> workflows_page" where
  \<comment> \<open>the drop-down and the effect on \<open>statusFilter\<close>\<close>
  "set_statusFilter base net ds s p = (if s = wp_statusFilter p then p else loadData base net ds (p\<lparr>wp_statusFilter := s\<rparr>))"

subsection \<open>Inline decisions\<close>

definition decided :: "string \<Rightarrow> string \<Rightarrow> fetch \<Rightarrow> WorkflowSummary list \<Rightarrow> err + js \<Rightarrow> workflows_page \<Rightarrow> workflows_page" where
  \<comment> \<open>what both handlers do with the answer\<close>
  "decided failure base net ds answer p = (case answer of
     Inr _ \<Rightarrow> (loadData base net ds p)\<lparr>wp_actionLoadingId := None\<rparr>
   | Inl e \<Rightarrow> p\<lparr>wp_alerts := wp_alerts p @ [failure @ '' error: '' @ emessage e], wp_actionLoadingId := None\<rparr>)"

definition handleInlineApprove :: "string \<Rightarrow> fetch \<Rightarrow> fetch \<Rightarrow> WorkflowSummary list \<Rightarrow> string \<Rightarrow> workflows_page \<Rightarrow> workflows_page" where
  \<comment> \<open>\<open>net\<close> answers the decision, \<open>net'\<close> the reload after it\<close>
  "handleInlineApprove base net net' ds wid p = decided ''Approval'' base net' ds
     (approveWorkflow base net wid (Some (Obj [(''notes'', Str ''Approved via Human Intervention Queue'')]))) p"

definition inline_reason :: "string option \<Rightarrow> string" where
  "inline_reason answer = (case answer of Some (c # s) \<Rightarrow> c # s | _ \<Rightarrow> ''Rejected by operator'')"

definition handleInlineReject ::
  "string \<Rightarrow> fetch \<Rightarrow> fetch \<Rightarrow> WorkflowSummary list \<Rightarrow> string \<Rightarrow> string option \<Rightarrow> workflows_page \<Rightarrow> workflows_page" where
  "handleInlineReject base net net' ds wid answer p = decided ''Rejection'' base net' ds
     (rejectWorkflow base net wid (Some (Obj [(''reason'', Str (inline_reason answer)),
        (''notes'', Str ''Rejected via Human Intervention Queue'')]))) p"

subsection \<open>Searching\<close>

definition has_text :: "string \<Rightarrow> js \<Rightarrow> err + bool" where
  \<comment> \<open>\<open>v.toLowerCase().includes(q)\<close>\<close>
  "has_text q v = (if nullish v then Inl (type_error ''Cannot read properties of undefined'')
     else seqE (as_string v) (\<lambda>s. Inr (str_includes (to_lower s) q)))"

definition has_opt_text :: "string \<Rightarrow> js \<Rightarrow> err + bool" where
  \<comment> \<open>\<open>v && v.toLowerCase().includes(q)\<close>\<close>
  "has_opt_text q v = (if truthy v then has_text q v else Inr False)"

definition orE :: "'e + bool \<Rightarrow> 'e + bool \<Rightarrow> 'e + bool" where
  \<comment> \<open>\<open>a || b\<close>: \<open>b\<close> is evaluated only when \<open>a\<close> is false\<close>
  "orE a b = seqE a (\<lambda>x. if x then Inr True else b)"

definition row_matches :: "string \<Rightarrow> string \<Rightarrow> js \<Rightarrow> err + bool" where
  "row_matches field search row = (if search = [] then Inr True else let q = to_lower search in
     orE (seqE (get row ''payment_id'') (has_text q)) (
     orE (has_opt_text q (member row ''customer_email'')) (
     orE (has_text q (member row ''failure_code'')) (
     has_opt_text q (member row field)))))"

definition filteredWorkflows :: "workflows_page \<Rightarrow> err + js list" where
  "filteredWorkflows p = filterE (row_matches ''selected_action'' (wp_searchQuery p)) (wp_workflows p)"

definition filteredInterventions :: "workflows_page \<Rightarrow> err + js list" where
  "filteredInterventions p = filterE (row_matches ''escalation_reason'' (wp_searchQuery p)) (wp_interventions p)"

subsection \<open>Lemmas\<close>

lemma orE_Inr [simp]: "orE (Inr a) (Inr b) = Inr (a \<or> b)"
  by (simp add: orE_def)

lemma has_text_Str [simp]: "has_text q (Str s) = Inr (str_includes (to_lower s) q)"
  by (simp add: has_text_def nullish_def)

lemma has_opt_text_opt [simp]:
  "q \<noteq> [] \<Longrightarrow> has_opt_text q (opt_str x) = Inr (case x of Some s \<Rightarrow> str_includes (to_lower s) q | None \<Rightarrow> False)"
  by (auto simp: has_opt_text_def split: option.split)

lemma has_opt_text_Str [simp]: "q \<noteq> [] \<Longrightarrow> has_opt_text q (Str s) = Inr (str_includes (to_lower s) q)"
  using has_opt_text_opt [of q "Some s"] by simp

definition row_texts :: "WorkflowSummary \<Rightarrow> string list" where
  \<comment> \<open>the texts of a row the search looks at\<close>
  "row_texts w = [wf_payment_id w, wf_failure_code w, wf_selected_action w]
     @ (case wf_customer_email w of Some s \<Rightarrow> [s] | None \<Rightarrow> [])"

definition found :: "string \<Rightarrow> WorkflowSummary \<Rightarrow> bool" where
  "found search w \<longleftrightarrow> search = [] \<or> (\<exists>t\<in>set (row_texts w). str_includes (to_lower t) (to_lower search))"

lemma row_matches_found: "row_matches ''selected_action'' search (wf_js w) = Inr (found search w)"
proof (cases "search = []")
  case False
  then have q: "to_lower search \<noteq> []" by simp
  have m: "get (wf_js w) ''payment_id'' = Inr (Str (wf_payment_id w))" "member (wf_js w) ''customer_email'' = opt_str (wf_customer_email w)"
      "member (wf_js w) ''failure_code'' = Str (wf_failure_code w)" "member (wf_js w) ''selected_action'' = Str (wf_selected_action w)"
    by (simp_all add: wf_js_def)
  have "row_matches ''selected_action'' search (wf_js w) = Inr (str_includes (to_lower (wf_payment_id w)) (to_lower search)
      \<or> (case wf_customer_email w of Some s \<Rightarrow> str_includes (to_lower s) (to_lower search) | None \<Rightarrow> False)
      \<or> str_includes (to_lower (wf_failure_code w)) (to_lower search) \<or> str_includes (to_lower (wf_selected_action w)) (to_lower search))"
    unfolding row_matches_def Let_def m by (simp only: False if_False seqE.simps has_text_Str has_opt_text_opt [OF q] has_opt_text_Str [OF q] orE_Inr)
  then show ?thesis using False by (auto simp: found_def row_texts_def split: option.split)
qed (simp add: row_matches_def found_def)

subsection \<open>Properties\<close>

text \<open>
  Searching the rows of the dataset is total and exact: the page shows, in their order, precisely the rows one of whose
  searched texts (payment, failure code, action, customer address when known) contains the search, case ignored; an
  empty search shows all.
\<close>

lemma search_exact:
  "filteredWorkflows (p\<lparr>wp_workflows := map wf_js ws, wp_searchQuery := search\<rparr>) = Inr (map wf_js (filter (found search) ws))"
proof -
  have "filterE (row_matches ''selected_action'' search) (map wf_js ws) = Inr (map wf_js (filter (found search) ws))"
    by (induction ws) (simp_all add: row_matches_found)
  then show ?thesis by (simp add: filteredWorkflows_def)
qed

lemma search_needs_failure_code:
  \<comment> \<open>a backend row without a failure code makes any search the earlier texts do not answer throw\<close>
  assumes "search \<noteq> []" "get row ''payment_id'' = Inr (Str s)" "\<not> str_includes (to_lower s) (to_lower search)"
    "\<not> truthy (member row ''customer_email'')" "nullish (member row ''failure_code'')"
  shows "\<exists>e. row_matches ''selected_action'' search row = Inl e"
  using assms by (simp add: row_matches_def has_opt_text_def has_text_def orE_def Let_def nullish_def)

lemma loaded_rows:
  \<comment> \<open>loading never empties the list\<close>
  "wp_workflows p \<noteq> [] \<Longrightarrow> wp_workflows (loadData base net ds p) \<noteq> []"
  by (auto simp: loadData_def Let_def shown_rows_def split: sum.split js.split list.split)

end
