(* ===== verification/JsFormat.thy ===== *)
theory JsFormat
  imports JsValue
begin

text \<open>
  How values become text on the pages: \<open>toLocaleString\<close> with Indian grouping, \<open>toFixed\<close>, slices and letter case of
  values that need not have the method, the operator \<open>+\<close>, \<open>Math.round\<close>. What the browser's own locale decides (dates,
  numbers formatted without a named locale) is a record of functions, a parameter of the pages; \<open>loc_moment m v\<close> is
  the call \<open>m\<close>, as it is written, on \<open>new Date(v)\<close>.
\<close>

record locale_fns =
  loc_number :: "number \<Rightarrow> string"
  loc_moment :: "string \<Rightarrow> js \<Rightarrow> string"

subsection \<open>Numbers\<close>

function by_pairs :: "string \<Rightarrow> string" where
  \<comment> \<open>commas before every second digit from the right\<close>
  "by_pairs s = (if length s \<le> 2 then s else by_pairs (take (length s - 2) s) @ CHR '','' # drop (length s - 2) s)"
  by pat_completeness auto
termination by (relation "measure length") auto

declare by_pairs.simps [simp del]

definition indian_digits :: "string \<Rightarrow> string" where
  "indian_digits s = (if length s \<le> 3 then s else by_pairs (take (length s - 3) s) @ CHR '','' # drop (length s - 3) s)"

definition locale_num :: "nat \<Rightarrow> number \<Rightarrow> string" where
  \<comment> \<open>\<open>n.toLocaleString('en-IN', { minimumFractionDigits: d })\<close>: Indian grouping, between \<open>d\<close> and three decimals,
    halves away from zero\<close>
  "locale_num d n = (case n of
     NaN \<Rightarrow> ''NaN'' | PosInf \<Rightarrow> [CHR 0xE2, CHR 0x88, CHR 0x9E] | NegInf \<Rightarrow> ''-'' @ [CHR 0xE2, CHR 0x88, CHR 0x9E]
   | Fin x \<Rightarrow> (let m = nat \<lfloor>\<bar>x\<bar> * 1000 + 1 / 2\<rfloor>; ds = pad_left 3 (show_nat (m mod 1000)); short = strip_zeros ds;
         decimals = (if length short < d then take d ds else short)
       in (if x < 0 then ''-'' else []) @ indian_digits (show_nat (m div 1000)) @ (if decimals = [] then [] else ''.'' @ decimals)))"

fun nround :: "number \<Rightarrow> number" where
  \<comment> \<open>\<open>Math.round(n)\<close>\<close>
  "nround (Fin x) = to_number (of_int \<lfloor>x + 1 / 2\<rfloor>)"
| "nround n = n"

fun concats :: "js \<Rightarrow> bool" where
  "concats (Str _) = True"
| "concats (Arr _) = True"
| "concats (Obj _) = True"
| "concats _ = False"

definition plus_js :: "js \<Rightarrow> js \<Rightarrow> js" where
  \<comment> \<open>\<open>a + b\<close>: a text on either side concatenates\<close>
  "plus_js a b = (if concats a \<or> concats b then Str (to_str a @ to_str b) else Num (nadd (to_num a) (to_num b)))"

definition andv :: "js \<Rightarrow> js \<Rightarrow> js" where
  \<comment> \<open>\<open>a && b\<close>\<close>
  "andv a b = (if truthy a then b else a)"

subsection \<open>Methods\<close>

definition no_method :: "js \<Rightarrow> err" where
  "no_method v = type_error (if nullish v then ''Cannot read properties of '' @ to_str v else ''not a function'')"

definition fixed :: "nat \<Rightarrow> js \<Rightarrow> err + js" where
  \<comment> \<open>\<open>v.toFixed(d)\<close>, a method of numbers only\<close>
  "fixed d v = (case v of Num n \<Rightarrow> Inr (Str (to_fixed d n)) | _ \<Rightarrow> Inl (no_method v))"

fun to_locale :: "(number \<Rightarrow> string) \<Rightarrow> js \<Rightarrow> string" and to_locale_items :: "(number \<Rightarrow> string) \<Rightarrow> js list \<Rightarrow> string list" where
  "to_locale f (Num n) = f n"
| "to_locale f (Arr xs) = join '','' (to_locale_items f xs)"
| "to_locale f v = to_str v"
| "to_locale_items f [] = []"
| "to_locale_items f (x # xs) = (if nullish x then [] else to_locale f x) # to_locale_items f xs"

definition localized :: "(number \<Rightarrow> string) \<Rightarrow> js \<Rightarrow> err + js" where
  \<comment> \<open>\<open>v.toLocaleString(...)\<close>, a method of every value but \<open>undefined\<close> and \<open>null\<close>\<close>
  "localized f v = (if nullish v then Inl (no_method v) else Inr (Str (to_locale f v)))"

definition cut :: "nat \<Rightarrow> nat \<Rightarrow> js \<Rightarrow> err + js" where
  \<comment> \<open>\<open>v.slice(a, b)\<close>\<close>
  "cut a b v = (case v of Str s \<Rightarrow> Inr (Str (slice s (int a) (int b))) | Arr xs \<Rightarrow> Inr (Arr (slice xs (int a) (int b)))
     | _ \<Rightarrow> Inl (no_method v))"

definition substring :: "nat \<Rightarrow> nat \<Rightarrow> js \<Rightarrow> err + js" where
  \<comment> \<open>\<open>v.substring(a, b)\<close> with \<open>a \<le> b\<close>\<close>
  "substring a b v = (case v of Str s \<Rightarrow> Inr (Str (slice s (int a) (int b))) | _ \<Rightarrow> Inl (no_method v))"

definition to_upper :: "string \<Rightarrow> string" where
  "to_upper s = map (\<lambda>c. let n = of_char c :: nat in if 97 \<le> n \<and> n \<le> 122 then char_of (n - 32) else c) s"

definition upper :: "js \<Rightarrow> err + js" where
  \<comment> \<open>\<open>v.toUpperCase()\<close>\<close>
  "upper v = (case v of Str s \<Rightarrow> Inr (Str (to_upper s)) | _ \<Rightarrow> Inl (no_method v))"

definition joined :: "string \<Rightarrow> js \<Rightarrow> err + js" where
  \<comment> \<open>\<open>v.join(s)\<close>\<close>
  "joined s v = (case v of Arr xs \<Rightarrow> Inr (Str (join s (to_str_items xs))) | _ \<Rightarrow> Inl (no_method v))"

definition opt_call :: "(js \<Rightarrow> err + js) \<Rightarrow> js \<Rightarrow> err + js" where
  \<comment> \<open>\<open>v?.f(...)\<close>\<close>
  "opt_call f v = (if nullish v then Inr Undef else f v)"

end
