(* ===== verification/Jsx.thy ===== *)
theory Jsx
  imports JsFormat
begin

text \<open>
  What a page's \<open>return (...)\<close> evaluates to: a tree of elements with their properties, handlers and children. Evaluating
  it may throw, in a property or a child. Kept are tags, texts, values, conditions, lists, handlers and every property
  that depends on data; left out are constant styles and class names and the hover effects. \<open>renders\<close> says that
  nothing throws; \<open>acts\<close> lists what the controls of the tree can do, a disabled one nothing.
\<close>

named_theorems view_simps \<open>rendering of views\<close>

datatype 'a jsx = El string "(string \<times> js) list" "(string \<times> (js \<Rightarrow> 'a)) list" "'a jsx list" | Val js | Several "'a jsx list"

type_synonym 'a view = "err + 'a jsx"

subsection \<open>Building\<close>

definition el :: "string \<Rightarrow> (string \<times> (err + js)) list \<Rightarrow> (string \<times> (js \<Rightarrow> 'a)) list \<Rightarrow> 'a view list \<Rightarrow> 'a view" where
  \<comment> \<open>\<open><tag p={..} onEvent={..}>children</tag>\<close>; a handler gets the event's value\<close>
  "el t ps hs cs = seqE (mapE (\<lambda>(k, e). seqE e (\<lambda>v. Inr (k, v))) ps) (\<lambda>ps'. seqE (mapE (\<lambda>c. c) cs) (\<lambda>cs'. Inr (El t ps' hs cs')))"

definition node :: "string \<Rightarrow> 'a view list \<Rightarrow> 'a view" where
  "node t cs = el t [] [] cs"

definition icon :: "string \<Rightarrow> 'a view" where
  "icon t = el t [] [] []"

definition put :: "js \<Rightarrow> 'a view" where
  \<comment> \<open>\<open>{v}\<close>\<close>
  "put v = Inr (Val v)"

definition say :: "string \<Rightarrow> 'a view" where
  \<comment> \<open>a text between the tags\<close>
  "say s = put (Str s)"

definition eval :: "err + js \<Rightarrow> 'a view" where
  \<comment> \<open>\<open>{e}\<close> for an expression that may throw\<close>
  "eval e = seqE e put"

definition show_when :: "bool \<Rightarrow> 'a view \<Rightarrow> 'a view" where
  \<comment> \<open>\<open>{b && <..>}\<close>\<close>
  "show_when b v = (if b then v else put (Bool False))"

definition show_if :: "js \<Rightarrow> 'a view \<Rightarrow> 'a view" where
  \<comment> \<open>\<open>{c && <..>}\<close>: a falsy value stands for itself\<close>
  "show_if c v = (if truthy c then v else put c)"

definition each :: "'b list \<Rightarrow> ('b \<Rightarrow> 'a view) \<Rightarrow> 'a view" where
  \<comment> \<open>\<open>{xs.map((x) => <..>)}\<close>\<close>
  "each xs f = seqE (mapE f xs) (\<lambda>ns. Inr (Several ns))"

definition each_pair :: "(string \<times> js) list \<Rightarrow> (string \<Rightarrow> js \<Rightarrow> 'a view) \<Rightarrow> 'a view" where
  \<comment> \<open>\<open>{Object.entries(o).map(([k, v]) => <..>)}\<close>\<close>
  "each_pair kvs f = seqE (mapE (\<lambda>(k, v). f k v) kvs) (\<lambda>ns. Inr (Several ns))"

definition opt_text :: "string option \<Rightarrow> js" where
  \<comment> \<open>a state that is \<open>null\<close> or a text\<close>
  "opt_text t = (case t of None \<Rightarrow> Null | Some s \<Rightarrow> Str s)"

definition each_i :: "'b list \<Rightarrow> (nat \<Rightarrow> 'b \<Rightarrow> 'a view) \<Rightarrow> 'a view" where
  "each_i xs f = seqE (mapE (\<lambda>(i, x). f i x) (index_from 0 xs)) (\<lambda>ns. Inr (Several ns))"

subsection \<open>Rendering\<close>

definition runs :: "'e + 'b \<Rightarrow> bool" where
  \<comment> \<open>nothing is thrown\<close>
  "runs m = (case m of Inl _ \<Rightarrow> False | Inr _ \<Rightarrow> True)"

definition renders :: "'a view \<Rightarrow> bool" where
  "renders v = runs v"

lemma runs_simps [simp, view_simps]: "runs (Inr x)" "\<not> runs (Inl e)"
  by (simp_all add: runs_def)

lemma runs_iff: "runs m \<longleftrightarrow> (\<exists>x. m = Inr x)"
  by (cases m) simp_all

lemma runs_seqE: "runs (seqE m f) \<longleftrightarrow> (\<exists>x. m = Inr x \<and> runs (f x))"
  by (cases m) simp_all

lemma runs_mapE: "runs (mapE f xs) \<longleftrightarrow> list_all (\<lambda>x. runs (f x)) xs"
proof (induction xs)
  case (Cons x xs)
  have "runs (mapE f (x # xs)) \<longleftrightarrow> runs (f x) \<and> runs (mapE f xs)" by (auto simp: runs_seqE runs_iff)
  then show ?case using Cons.IH by simp
qed simp

lemma renders_seqE: "renders (seqE m f) \<longleftrightarrow> (\<exists>x. m = Inr x \<and> renders (f x))"
  by (simp add: renders_def runs_seqE)

lemma renders_bind: "m = Inr x \<Longrightarrow> renders (seqE m f) = renders (f x)"
  by (simp add: renders_def)

lemma renders_el [view_simps]: "renders (el t ps hs cs) \<longleftrightarrow> list_all (\<lambda>(k, e). runs e) ps \<and> list_all renders cs"
proof -
  have "runs (mapE (\<lambda>(k, e). seqE e (\<lambda>v. Inr (k, v))) ps) \<longleftrightarrow> list_all (\<lambda>(k, e). runs e) ps"
    unfolding runs_mapE by (rule arg_cong [of _ _ "\<lambda>P. list_all P ps"]) (auto simp: fun_eq_iff runs_seqE runs_iff)
  moreover have "runs (mapE (\<lambda>c. c) cs) \<longleftrightarrow> list_all renders cs"
    by (simp add: runs_mapE renders_def [abs_def])
  ultimately show ?thesis by (simp add: renders_def el_def runs_seqE flip: runs_iff)
qed

lemma renders_node [view_simps]: "renders (node t cs) \<longleftrightarrow> list_all renders cs"
  by (simp add: node_def renders_el)

lemma renders_leaves [simp, view_simps]: "renders (icon t)" "renders (put v)" "renders (say s)"
  by (simp_all add: icon_def put_def say_def renders_el renders_def [of "Inr _"])

lemma renders_eval [view_simps]: "renders (eval e) \<longleftrightarrow> runs e"
  by (simp add: eval_def renders_seqE runs_iff)

lemma renders_show_when [view_simps]: "renders (show_when b v) \<longleftrightarrow> (b \<longrightarrow> renders v)"
  by (simp add: show_when_def)

lemma renders_show_if [view_simps]: "renders (show_if c v) \<longleftrightarrow> (truthy c \<longrightarrow> renders v)"
  by (simp add: show_if_def)

lemma renders_each [view_simps]: "renders (each xs f) \<longleftrightarrow> list_all (\<lambda>x. renders (f x)) xs"
proof -
  have "renders (each xs f) \<longleftrightarrow> runs (mapE f xs)" by (simp add: each_def renders_def runs_seqE runs_iff)
  then show ?thesis by (simp add: runs_mapE renders_def)
qed

lemma renders_each_i:
  assumes "\<And>i x. x \<in> set xs \<Longrightarrow> renders (f i x)"
  shows "renders (each_i xs f)"
proof -
  have "x \<in> set xs" if "(i, x) \<in> set (index_from n xs)" for i x n
    using that by (induction xs arbitrary: n) auto
  then have "list_all (\<lambda>(i, x). renders (f i x)) (index_from 0 xs)"
    using assms by (fastforce simp: list_all_iff)
  then have "runs (mapE (\<lambda>(i, x). f i x) (index_from 0 xs))"
    by (simp add: runs_mapE renders_def case_prod_unfold)
  then show ?thesis by (auto simp: each_i_def renders_def runs_seqE runs_iff)
qed

lemma renders_each_pair [view_simps]: "renders (each_pair kvs f) \<longleftrightarrow> list_all (\<lambda>(k, v). renders (f k v)) kvs"
proof -
  have "renders (each_pair kvs f) \<longleftrightarrow> runs (mapE (\<lambda>(k, v). f k v) kvs)"
    by (simp add: each_pair_def renders_def runs_seqE runs_iff)
  then show ?thesis by (simp add: runs_mapE renders_def case_prod_unfold)
qed

lemma runs_methods [simp, view_simps]:
  "runs (fixed d (Num n))" "runs (get v k) \<longleftrightarrow> \<not> nullish v" "runs (localized f v) \<longleftrightarrow> \<not> nullish v"
  "runs (cut a b (Str s))" "runs (substring a b (Str s))" "runs (upper (Str s))"
  "runs (opt_call g v) \<longleftrightarrow> nullish v \<or> runs (g v)"
  by (auto simp: fixed_def get_def localized_def cut_def substring_def upper_def opt_call_def nullish_def)

subsection \<open>Controls\<close>

definition disabled :: "(string \<times> js) list \<Rightarrow> bool" where
  "disabled ps \<longleftrightarrow> truthy (fld ps ''disabled'')"

fun fires :: "js \<Rightarrow> 'a jsx \<Rightarrow> 'a list" where
  \<comment> \<open>what the handlers in a tree do on an event with this value\<close>
  "fires x (El t ps hs cs) = (if disabled ps then [] else map (\<lambda>(k, h). h x) hs) @ concat (map (fires x) cs)"
| "fires x (Val v) = []"
| "fires x (Several ns) = concat (map (fires x) ns)"

definition acts :: "js \<Rightarrow> 'a view \<Rightarrow> 'a list" where
  "acts x v = (case v of Inl _ \<Rightarrow> [] | Inr n \<Rightarrow> fires x n)"

lemma acts_iff: "a \<in> set (acts x v) \<longleftrightarrow> (\<exists>n. v = Inr n \<and> a \<in> set (fires x n))"
  by (cases v) (simp_all add: acts_def)

lemma mapE_id_set: "mapE (\<lambda>c. c) cs = Inr ns \<Longrightarrow> n \<in> set ns \<Longrightarrow> Inr n \<in> set cs"
  by (induction cs arbitrary: ns) auto

lemma acts_el:
  assumes "a \<in> set (acts x (el t ps hs cs))"
  shows "(\<exists>h\<in>set hs. a = snd h x) \<and> (\<forall>d. map_of ps ''disabled'' = Some (Inr d) \<longrightarrow> \<not> truthy d) \<or> (\<exists>c\<in>set cs. a \<in> set (acts x c))"
proof -
  obtain ps' cs' where p: "mapE (\<lambda>(k, e). seqE e (\<lambda>v. Inr (k, v))) ps = Inr ps'" and c: "mapE (\<lambda>c. c) cs = Inr cs'"
    and a: "a \<in> set (fires x (El t ps' hs cs'))"
    using assms by (auto simp: acts_iff el_def)
  from p have m: "map_of ps k = Some (Inr d) \<Longrightarrow> map_of ps' k = Some d" for k d
    by (induction ps arbitrary: ps') (auto split: if_splits)
  from a consider "\<not> disabled ps'" "\<exists>h\<in>set hs. a = snd h x" | n where "n \<in> set cs'" "a \<in> set (fires x n)"
    by (fastforce split: if_splits)
  then show ?thesis
  proof cases
    case 1
    then have "\<not> truthy d" if "map_of ps ''disabled'' = Some (Inr d)" for d
      using m [OF that] by (simp add: disabled_def fld_def)
    with 1 show ?thesis by blast
  next
    case 2
    then have "Inr n \<in> set cs" "a \<in> set (acts x (Inr n))" using mapE_id_set [OF c] by (auto simp: acts_def)
    then show ?thesis by blast
  qed
qed

text \<open>\<open>confined A v\<close>: everything the controls of \<open>v\<close> do is in \<open>A\<close>.\<close>

definition confined :: "'a set \<Rightarrow> 'a view \<Rightarrow> bool" where
  "confined A v \<longleftrightarrow> (\<forall>x. set (acts x v) \<subseteq> A)"

lemma confinedD: "confined A v \<Longrightarrow> a \<in> set (acts x v) \<Longrightarrow> a \<in> A"
  by (auto simp: confined_def)

lemma confined_leaves [simp, view_simps]: "confined A (icon t)" "confined A (put v)" "confined A (say s)" "confined A (eval e)"
  by (auto simp: confined_def icon_def put_def say_def eval_def acts_iff el_def split: if_splits)

lemma confined_el [view_simps]:
  assumes "list_all (\<lambda>(k, h). (\<forall>d. map_of ps ''disabled'' = Some (Inr d) \<longrightarrow> \<not> truthy d) \<longrightarrow> (\<forall>x. h x \<in> A)) hs"
    and "list_all (confined A) cs"
  shows "confined A (el t ps hs cs)"
  unfolding confined_def
proof (intro allI subsetI)
  fix x a assume "a \<in> set (acts x (el t ps hs cs))"
  from acts_el [OF this] show "a \<in> A"
    using assms by (fastforce simp: list_all_iff confined_def)
qed

lemma confined_node [view_simps]: "list_all (confined A) cs \<Longrightarrow> confined A (node t cs)"
  unfolding node_def by (rule confined_el) simp_all

lemma confined_show_when [view_simps]: "confined A (show_when b v) \<longleftrightarrow> (b \<longrightarrow> confined A v)"
  by (simp add: show_when_def)

lemma confined_show_if [view_simps]: "confined A (show_if c v) \<longleftrightarrow> (truthy c \<longrightarrow> confined A v)"
  by (simp add: show_if_def)

lemma confined_seqE [view_simps]: "(\<And>y. m = Inr y \<Longrightarrow> confined A (f y)) \<Longrightarrow> confined A (seqE m f)"
  by (cases m) (simp_all add: confined_def acts_def)

lemma confined_several: "(\<And>n. n \<in> set ns \<Longrightarrow> confined A (Inr n)) \<Longrightarrow> confined A (Inr (Several ns))"
  by (auto simp: confined_def acts_def)

lemma mapE_values: "mapE f xs = Inr ys \<Longrightarrow> y \<in> set ys \<Longrightarrow> \<exists>x\<in>set xs. f x = Inr y"
  by (induction xs arbitrary: ys) auto

lemma confined_each [view_simps]: "(\<And>y. y \<in> set xs \<Longrightarrow> confined A (f y)) \<Longrightarrow> confined A (each xs f)"
  unfolding each_def by (rule confined_seqE, rule confined_several) (metis mapE_values)

lemma confined_each_i [view_simps]: "(\<And>i y. confined A (f i y)) \<Longrightarrow> confined A (each_i xs f)"
  unfolding each_i_def by (rule confined_seqE, rule confined_several) (metis (mono_tags, lifting) case_prod_beta mapE_values)

lemma confined_each_pair [view_simps]: "(\<And>k y. confined A (f k y)) \<Longrightarrow> confined A (each_pair kvs f)"
  unfolding each_pair_def by (rule confined_seqE, rule confined_several) (metis (mono_tags, lifting) case_prod_beta mapE_values)

text \<open>What a rendered tree does, exactly.\<close>

lemma mapE_list: "mapE f xs = Inr ys \<Longrightarrow> list_all2 (\<lambda>x y. f x = Inr y) xs ys"
  by (induction xs arbitrary: ys) auto

lemma acts_el_eq:
  assumes "renders (el t ps hs cs)"
  shows "acts x (el t ps hs cs) = (if \<exists>d. map_of ps ''disabled'' = Some (Inr d) \<and> truthy d then [] else map (\<lambda>(k, h). h x) hs)
    @ concat (map (acts x) cs)"
proof -
  obtain ps' cs' where p: "mapE (\<lambda>(k, e). seqE e (\<lambda>v. Inr (k, v))) ps = Inr ps'" and c: "mapE (\<lambda>c. c) cs = Inr cs'"
    using assms by (auto simp: renders_def runs_iff el_def)
  from p have "disabled ps' \<longleftrightarrow> (\<exists>d. map_of ps ''disabled'' = Some (Inr d) \<and> truthy d)"
    unfolding disabled_def by (induction ps arbitrary: ps') (auto simp: fld_def)
  moreover have "map (fires x) cs' = map (acts x) cs"
    using mapE_list [OF c] by (induction rule: list_all2_induct) (simp_all add: acts_def)
  moreover have "acts x (el t ps hs cs) = fires x (El t ps' hs cs')" by (simp add: acts_def el_def p c)
  ultimately show ?thesis by simp
qed

lemma acts_node_eq: "renders (node t cs) \<Longrightarrow> acts x (node t cs) = concat (map (acts x) cs)"
  unfolding node_def by (simp add: acts_el_eq)

lemma acts_leaves [simp]: "acts x (icon t) = []" "acts x (put v) = []" "acts x (say s) = []" "acts x (eval e) = []"
  by (auto simp: icon_def put_def say_def eval_def acts_def el_def split: sum.split)

subsection \<open>Shown values\<close>

fun shown :: "'a jsx \<Rightarrow> js list" where
  \<comment> \<open>the values and texts of a tree in reading order\<close>
  "shown (El t ps hs cs) = concat (map shown cs)"
| "shown (Val v) = [v]"
| "shown (Several ns) = concat (map shown ns)"

end
