(* ===== verification/PageLife.thy ===== *)
theory PageLife
  imports Jsx WebTypes Browser
begin

text \<open>
  The contract every page of the console meets, as in a type system: a state whose data has the declared types is
  rendered without throwing, and the page's actions keep it so as long as what they get from the backend is typed.
  Each page interprets the locale on its own state, markup and actions.
\<close>

locale page_life =
  fixes sound :: "'s \<Rightarrow> bool" and markup :: "'s \<Rightarrow> 'a view" and step :: "'e \<Rightarrow> 's \<Rightarrow> 's" and fair :: "'e \<Rightarrow> bool"
  assumes progress: "sound s \<Longrightarrow> renders (markup s)"
    and preservation: "sound s \<Longrightarrow> fair e \<Longrightarrow> sound (step e s)"
begin

lemma sound_run: "sound s \<Longrightarrow> list_all fair es \<Longrightarrow> sound (fold step es s)"
  by (induction es arbitrary: s) (simp_all add: preservation)

lemma never_throws: "sound s \<Longrightarrow> list_all fair es \<Longrightarrow> renders (markup (fold step es s))"
  by (rule progress) (rule sound_run)

end

definition plain_locale :: locale_fns where
  \<comment> \<open>a browser that writes numbers and dates as they are\<close>
  "plain_locale = \<lparr>loc_number = num_to_string, loc_moment = (\<lambda>_. to_str)\<rparr>"

text \<open>Reading typed data.\<close>

lemma typed_get: "has_type (TRec ds) v \<Longrightarrow> get v k = Inr (member v k)"
  by (cases v) (simp_all add: get_def nullish_def)

lemma typed_text: "has_type (TRec ds) v \<Longrightarrow> Req k TText \<in> set ds \<Longrightarrow> \<exists>s. member v k = Str s"
  by (blast dest: member_req TTextD)

lemma typed_number: "has_type (TRec ds) v \<Longrightarrow> Req k TNum \<in> set ds \<Longrightarrow> \<exists>n. member v k = Num n"
  by (blast dest: member_req TNumD)

lemma typed_opt_text: "has_type (TRec ds) v \<Longrightarrow> Opt k TText \<in> set ds \<Longrightarrow> member v k = Undef \<or> (\<exists>s. member v k = Str s)"
  using member_opt TTextD by blast

lemma typed_opt_number: "has_type (TRec ds) v \<Longrightarrow> Opt k TNum \<in> set ds \<Longrightarrow> member v k = Undef \<or> (\<exists>n. member v k = Num n)"
  using member_opt TNumD by blast

lemma nullish_values [simp]: "nullish Undef" "nullish Null" "\<not> nullish (Bool b)" "\<not> nullish (Num n)" "\<not> nullish (Str s)"
    "\<not> nullish (Arr xs)" "\<not> nullish (Obj fs)"
  by (simp_all add: nullish_def)

lemma method_values [simp]:
  "substring a b (Str s) = Inr (Str (slice s (int a) (int b)))" "cut a b (Str s) = Inr (Str (slice s (int a) (int b)))"
  "fixed d (Num n) = Inr (Str (to_fixed d n))" "upper (Str s) = Inr (Str (to_upper s))" "localized f (Num n) = Inr (Str (f n))"
  by (simp_all add: substring_def cut_def fixed_def upper_def localized_def)

lemma opt_call_values [simp]: "nullish v \<Longrightarrow> opt_call g v = Inr Undef" "\<not> nullish v \<Longrightarrow> opt_call g v = g v"
  by (simp_all add: opt_call_def)

lemma filterE_ex: "(\<And>x. x \<in> set xs \<Longrightarrow> \<exists>b. p x = Inr b) \<Longrightarrow> \<exists>ys. filterE p xs = Inr ys \<and> set ys \<subseteq> set xs"
proof (induction xs)
  case (Cons x xs)
  obtain b where "p x = Inr b" using Cons.prems [of x] by auto
  moreover obtain ys where "filterE p xs = Inr ys" "set ys \<subseteq> set xs" using Cons by fastforce
  ultimately show ?case by auto
qed simp

lemma runs_if [simp, view_simps]: "runs (if b then m else n) \<longleftrightarrow> (if b then runs m else runs n)"
  by simp

lemma renders_if [simp, view_simps]: "renders (if b then m else n) \<longleftrightarrow> (if b then renders m else renders n)"
  by simp

lemma filterE_kept: "filterE p xs = Inr ys \<Longrightarrow> y \<in> set ys \<Longrightarrow> y \<in> set xs \<and> p y = Inr True"
  by (induction xs arbitrary: ys) (auto split: if_splits)

lemma confined_mono: "confined A v \<Longrightarrow> A \<subseteq> B \<Longrightarrow> confined B v"
  by (auto simp: confined_def)

lemma get_fails: "nullish v \<Longrightarrow> \<exists>e. get v k = Inl e"
  by (auto simp: get_def nullish_def)

lemma get_runs: "\<not> nullish v \<Longrightarrow> get v k = Inr (member v k)"
  by (auto simp: get_def)

lemma confined_if [view_simps]: "confined A (if b then v else w) \<longleftrightarrow> (if b then confined A v else confined A w)"
  by simp

lemma acts_each: "renders (each xs f) \<Longrightarrow> acts x (each xs f) = concat (map (\<lambda>y. acts x (f y)) xs)"
proof -
  assume "renders (each xs f)"
  then obtain ns where n: "mapE f xs = Inr ns" by (auto simp: each_def renders_seqE)
  have "map (fires x) ns = map (\<lambda>y. acts x (f y)) xs"
    using mapE_list [OF n] by (induction rule: list_all2_induct) (simp_all add: acts_def)
  then show ?thesis by (simp add: each_def n acts_def)
qed

lemma acts_show_when [simp]: "acts x (show_when b v) = (if b then acts x v else [])"
  by (simp add: show_when_def)

lemma acts_show_if [simp]: "acts x (show_if c v) = (if truthy c then acts x v else [])"
  by (simp add: show_if_def)

lemma seqE_cases: "(\<And>e. P (Inl e)) \<Longrightarrow> (\<And>x. m = Inr x \<Longrightarrow> P (f x)) \<Longrightarrow> P (seqE m f)"
  by (cases m) simp_all

text \<open>The three ends of loading JSON: nothing readable arrives, an answer that is not ok, an answer.\<close>

lemma json_answer_cases:
  assumes "\<And>e. P (Inl e)" and "P (Inr d)"
    and "\<And>res data. net req = Inr res \<Longrightarrow> res_ok res \<Longrightarrow> res_json res = Inr data \<Longrightarrow> P (g data)"
  shows "P (seqE (net req) (\<lambda>res. if res_ok res then seqE (res_json res) g else Inr d))"
proof (cases "net req")
  case (Inr res)
  then show ?thesis using assms by (cases "res_json res") simp_all
qed (use assms(1) in simp)

text \<open>Finding a control in a tree that renders.\<close>

lemma acts_in_node: "renders (node t cs) \<Longrightarrow> c \<in> set cs \<Longrightarrow> a \<in> set (acts x c) \<Longrightarrow> a \<in> set (acts x (node t cs))"
  by (auto simp: acts_node_eq)

lemma acts_in_el: "renders (el t ps hs cs) \<Longrightarrow> c \<in> set cs \<Longrightarrow> a \<in> set (acts x c) \<Longrightarrow> a \<in> set (acts x (el t ps hs cs))"
  by (auto simp: acts_el_eq)

lemma acts_in_each: "renders (each xs f) \<Longrightarrow> y \<in> set xs \<Longrightarrow> a \<in> set (acts x (f y)) \<Longrightarrow> a \<in> set (acts x (each xs f))"
  by (auto simp: acts_each)

lemma opt_fixed_runs: "nullish v \<or> has_type TNum v \<Longrightarrow> \<exists>r. opt_call (fixed d) v = Inr r"
  by (cases v) auto

lemma opt_localized_runs: "\<exists>r. opt_call (localized f) v = Inr r"
  by (cases "nullish v") (simp_all add: localized_def)

end
