(* ===== verification/Components.thy ===== *)
theory Components
  imports PageLife
begin

text \<open>
  The small components the pages are built from: \<open>components/ui/StatusBadge.tsx\<close>, \<open>StateViews.tsx\<close>, \<open>MetricCard.tsx\<close>,
  the badge of \<open>AnimatedComponents.tsx\<close> and \<open>ReviveLogo.tsx\<close>. A component is a function from its properties to a view; a
  property that is an expression which may throw is evaluated first.
\<close>

subsection \<open>Status badges\<close>

definition badge_norm :: "string \<Rightarrow> string" where
  "badge_norm status = to_upper (if status = [] then ''UNKNOWN'' else status)"

definition badge_class :: "string \<Rightarrow> string" where
  \<comment> \<open>the class of a normalised status\<close>
  "badge_class st =
    (if st \<in> {''RECOVERED'', ''CAPTURED'', ''ALLOW'', ''HEALTHY'', ''AVAILABLE'', ''EXECUTED'', ''SUCCESS''} then ''badge-success''
     else if st \<in> {''SCHEDULED'', ''ANALYZING'', ''EXECUTING'', ''VERIFYING'', ''PENDING'', ''DEGRADED'', ''MODIFY''} then ''badge-warning''
     else if st \<in> {''FAILED'', ''BLOCKED'', ''HALTED'', ''UNHEALTHY'', ''UNAVAILABLE''} then ''badge-danger''
     else if st \<in> {''ESCALATE'', ''ESCALATED''} then ''badge-accent''
     else ''badge-neutral'')"

definition StatusBadge :: "err + js \<Rightarrow> 'a view" where
  "StatusBadge e = seqE e (\<lambda>status. seqE (upper (orv status (Str ''UNKNOWN''))) (\<lambda>norm.
     el ''span'' [(''className'', Inr (Str (''badge '' @ badge_class (to_str norm))))] [] [put norm]))"

subsection \<open>Loading, nothing, failure\<close>

definition LoadingView :: "string \<Rightarrow> 'a view" where
  "LoadingView message =
    node ''div'' [
      icon ''Loader2'',
      node ''div'' [say message],
      node ''div'' [say ''Querying backend PostgreSQL and Asynq queues'']]"

definition EmptyView :: "string \<Rightarrow> string \<Rightarrow> 'a view option \<Rightarrow> 'a view" where
  "EmptyView title description action =
    node ''div'' [
      icon ''Inbox'',
      node ''div'' [say title],
      node ''div'' [say description],
      case action of None \<Rightarrow> put Undef | Some v \<Rightarrow> node ''div'' [v]]"

definition ErrorView :: "js \<Rightarrow> (js \<Rightarrow> 'a) option \<Rightarrow> 'a view" where
  \<comment> \<open>the title is the default one on every page\<close>
  "ErrorView message onRetry =
    node ''div'' [
      icon ''AlertCircle'',
      node ''div'' [say ''Unable to connect to ReviveOS API''],
      node ''div'' [put message],
      case onRetry of None \<Rightarrow> put Undef | Some h \<Rightarrow> el ''button'' [] [(''onClick'', h)] [say ''Retry Connection'']]"

subsection \<open>Metric cards\<close>

definition MetricCard :: "string \<Rightarrow> err + js \<Rightarrow> err + js \<Rightarrow> 'a view" where
  \<comment> \<open>no page passes a badge\<close>
  "MetricCard label v s = seqE v (\<lambda>value. seqE s (\<lambda>sub.
    node ''div'' [
      node ''div'' [node ''span'' [say label], put Undef],
      node ''div'' [put value],
      show_if sub (node ''div'' [put sub])]))"

subsection \<open>Pulsing badges\<close>

definition pulse_styles :: "(string \<times> string \<times> string \<times> string \<times> string) list" where
  \<comment> \<open>background, border, text and dot of a variant\<close>
  "pulse_styles = [
     (''success'', ''var(--color-emerald-bg)'', ''var(--color-emerald-border)'', ''var(--color-emerald)'', ''#10b981''),
     (''warning'', ''var(--color-amber-bg)'', ''var(--color-amber-border)'', ''var(--color-amber)'', ''#f59e0b''),
     (''danger'', ''var(--color-red-bg)'', ''var(--color-red-border)'', ''var(--color-red)'', ''#ef4444''),
     (''info'', ''var(--color-accent-bg)'', ''var(--color-accent-border)'', ''var(--color-accent-light)'', ''#8b5cf6''),
     (''purple'', ''var(--color-accent-bg)'', ''var(--color-accent-border)'', ''var(--color-accent-light)'', ''#8b5cf6'')]"

definition BadgePulse :: "js \<Rightarrow> string \<Rightarrow> 'a view" where
  "BadgePulse words variant = (case map_of pulse_styles variant of
     None \<Rightarrow> Inl (type_error ''Cannot read properties of undefined'')
   | Some (bg, border, col, dot) \<Rightarrow>
       el ''span'' [
           (''style.background'', Inr (Str bg)),
           (''style.border'', Inr (Str (''1px solid '' @ border))),
           (''style.color'', Inr (Str col))] [] [
         el ''span'' [
             (''style.backgroundColor'', Inr (Str dot)),
             (''style.boxShadow'', Inr (Str (''0 0 6px '' @ dot)))] [] [],
         put words])"

subsection \<open>The logo\<close>

definition logo_sizes :: "(string \<times> nat \<times> nat \<times> nat \<times> nat) list" where
  \<comment> \<open>icon, font, tag line and gap\<close>
  "logo_sizes = [(''sm'', 28, 16, 8, 8), (''md'', 36, 20, 9, 10), (''lg'', 48, 26, 11, 12), (''xl'', 64, 34, 13, 14)]"

definition px :: "nat \<Rightarrow> err + js" where
  "px n = Inr (Str (show_nat n @ ''px''))"

definition linked :: "string \<Rightarrow> 'a view \<Rightarrow> 'a view" where
  "linked href content = (if href \<noteq> [] then el ''Link'' [(''href'', Inr (Str href))] [] [content] else content)"

definition logo_image :: "string \<Rightarrow> 'a view" where
  \<comment> \<open>the image of the whole logo\<close>
  "logo_image size_name = (let w = (if size_name = ''xl'' then 320 else if size_name = ''lg'' then 240 else 180);
       h = (if size_name = ''xl'' then 180 else if size_name = ''lg'' then 135 else 100) in
     el ''div'' [(''style.maxWidth'', px w)] [] [
       el ''Image'' [
           (''src'', Inr (Str ''/logo.png'')),
           (''alt'', Inr (Str ''ReviveOS Logo'')),
           (''width'', Inr (Num (nint (int w)))),
           (''height'', Inr (Num (nint (int h))))] [] []])"

definition logo_content :: "bool \<Rightarrow> nat \<times> nat \<times> nat \<times> nat \<Rightarrow> bool \<Rightarrow> 'a view" where
  \<comment> \<open>icon and, unless only the icon is wanted, the words beside it\<close>
  "logo_content only_icon dimensions showTagline = (case dimensions of (iconSize, fontSize, tagSize, gap) \<Rightarrow>
     el ''div'' [(''style.gap'', px gap)] [] [
       el ''div'' [(''style.width'', px iconSize), (''style.height'', px iconSize)] [] [
         el ''Image'' [
             (''src'', Inr (Str ''/logo-icon.png'')),
             (''alt'', Inr (Str ''ReviveOS Icon'')),
             (''width'', Inr (Num (nint (int iconSize * 2)))),
             (''height'', Inr (Num (nint (int iconSize * 2))))] [] []],
       show_when (\<not> only_icon) (node ''div'' [
         el ''div'' [(''style.fontSize'', px fontSize)] [] [node ''span'' [say ''revive''], node ''span'' [say ''OS'']],
         show_when showTagline (el ''span'' [(''style.fontSize'', px tagSize)] [] [say ''RECOVER. OPTIMIZE. SCALE.''])])])"

definition Logo :: "string \<Rightarrow> string \<Rightarrow> bool \<Rightarrow> string \<Rightarrow> 'a view" where
  \<comment> \<open>the dimensions are looked up for every variant and read for all but the image\<close>
  "Logo variant size_name showTagline href = linked href
     (if variant = ''image-full'' then logo_image size_name
      else case map_of logo_sizes size_name of
        None \<Rightarrow> Inl (type_error ''Cannot read properties of undefined'')
      | Some dimensions \<Rightarrow> logo_content (variant = ''icon'') dimensions showTagline)"

definition ReviveLogo :: "string \<Rightarrow> bool \<Rightarrow> string \<Rightarrow> 'a view" where
  \<comment> \<open>the default variant, the one every page shows\<close>
  "ReviveLogo size_name showTagline href = Logo ''full'' size_name showTagline href"

subsection \<open>Rendering\<close>

definition badge_ok :: "js \<Rightarrow> bool" where
  \<comment> \<open>the statuses a badge can show\<close>
  "badge_ok v \<longleftrightarrow> \<not> truthy v \<or> has_type TText v"

lemma upper_runs: "runs (upper v) \<longleftrightarrow> has_type TText v"
  by (cases v) (simp_all add: upper_def no_method_def)

lemma renders_StatusBadge [view_simps]: "renders (StatusBadge e) \<longleftrightarrow> (\<exists>v. e = Inr v \<and> badge_ok v)"
proof -
  have "renders (StatusBadge (Inr v)) \<longleftrightarrow> badge_ok v" for v
  proof (cases "truthy v")
    case True
    then have "renders (StatusBadge (Inr v)) \<longleftrightarrow> runs (upper v)"
      unfolding StatusBadge_def by (auto simp: renders_seqE view_simps orv_def runs_iff)
    then show ?thesis using True by (simp add: badge_ok_def upper_runs)
  qed (auto simp: StatusBadge_def badge_ok_def orv_def upper_def view_simps)
  then show ?thesis by (cases e) (auto simp: StatusBadge_def renders_def)
qed

lemma logo_image_renders [simp, view_simps]: "renders (logo_image s)"
  unfolding logo_image_def px_def Let_def by (simp add: view_simps)

lemma logo_renders: "renders (ReviveLogo s tag href) \<longleftrightarrow> s \<in> fst ` set logo_sizes"
  unfolding ReviveLogo_def Logo_def linked_def logo_content_def px_def
  by (auto simp: view_simps logo_sizes_def split: option.split) (simp_all add: renders_def)

lemma renders_components [simp, view_simps]:
  "renders (LoadingView m)" "renders (EmptyView t d a) \<longleftrightarrow> (\<forall>v. a = Some v \<longrightarrow> renders v)" "renders (ErrorView v r)"
  "renders (MetricCard l e f) \<longleftrightarrow> runs e \<and> runs f" "renders (BadgePulse w variant) \<longleftrightarrow> variant \<in> fst ` set pulse_styles"
  "renders (ReviveLogo s tag href) \<longleftrightarrow> s \<in> fst ` set logo_sizes"
  subgoal unfolding LoadingView_def by (simp add: view_simps)
  subgoal unfolding EmptyView_def by (cases a) (simp_all add: view_simps)
  subgoal unfolding ErrorView_def by (cases r) (simp_all add: view_simps)
  subgoal unfolding MetricCard_def by (auto simp: renders_seqE view_simps runs_iff)
  subgoal unfolding BadgePulse_def
    by (auto simp: view_simps pulse_styles_def split: option.split) (simp_all add: renders_def)
  subgoal by (rule logo_renders)
  done

lemma confined_thrown: "confined A (Inl e)"
  by (simp add: confined_def acts_def)

lemma confined_components [simp, view_simps]:
  "confined A (StatusBadge e)" "confined A (LoadingView m)" "confined A (EmptyView t d None)" "confined A (MetricCard l f g)"
  "confined A (BadgePulse w variant)" "confined A (ReviveLogo s tag href)"
  "confined A (ErrorView v None)" "(\<And>x. h x \<in> A) \<Longrightarrow> confined A (ErrorView v (Some h))"
  subgoal unfolding StatusBadge_def by (intro confined_seqE) (simp add: view_simps)
  subgoal unfolding LoadingView_def by (simp add: view_simps)
  subgoal unfolding EmptyView_def by (simp add: view_simps)
  subgoal unfolding MetricCard_def by (intro confined_seqE) (simp add: view_simps)
  subgoal unfolding BadgePulse_def by (auto simp: view_simps split: option.split) (simp add: confined_def acts_def)
  subgoal unfolding ReviveLogo_def Logo_def linked_def logo_content_def
    by (auto simp: view_simps confined_thrown split: option.split)
  subgoal unfolding ErrorView_def by (simp add: view_simps)
  subgoal unfolding ErrorView_def by (simp add: view_simps)
  done

lemma style_names [simp, view_simps]:
  "fst ` set pulse_styles = {''success'', ''warning'', ''danger'', ''info'', ''purple''}"
  "fst ` set logo_sizes = {''sm'', ''md'', ''lg'', ''xl''}"
  by (simp_all add: pulse_styles_def logo_sizes_def)

lemma badge_ok_simps [simp]: "badge_ok (Str s)" "badge_ok Undef" "badge_ok Null" "has_type TText v \<Longrightarrow> badge_ok v"
  by (simp_all add: badge_ok_def)

lemma badge_ok_orv [simp]: "badge_ok v \<Longrightarrow> badge_ok (orv v (Str s))"
  by (auto simp: orv_def badge_ok_def)

lemma oneof_text:
  assumes "has_type (TOneOf ts) v" and "list_all (\<lambda>t. t = TText \<or> (\<exists>s. t = TLit s)) ts"
  shows "has_type TText v"
  using assms by (auto simp: has_some_iff list_all_iff list_ex_iff)

lemma typed_badge: "has_type (TRec ds) v \<Longrightarrow> Req k TText \<in> set ds \<Longrightarrow> badge_ok (member v k)"
  by (rule badge_ok_simps) (rule member_req)

lemma listed_badge:
  assumes "has_type (TRec ds) v" and "Req k (TOneOf ts) \<in> set ds" and "list_all (\<lambda>t. t = TText \<or> (\<exists>s. t = TLit s)) ts"
  shows "badge_ok (member v k)"
  by (rule badge_ok_simps, rule oneof_text [OF member_req [OF assms(1,2)] assms(3)])

lemma acts_each_i: "renders (each_i xs f) \<Longrightarrow> acts x (each_i xs f) = concat (map (\<lambda>(i, y). acts x (f i y)) (index_from 0 xs))"
  using acts_each [of "index_from 0 xs" "\<lambda>(i, y). f i y" x] by (simp add: each_def each_i_def split_def)

lemma index_from_eq: "index_from n xs = zip [n..<n + length xs] xs"
  by (induction xs arbitrary: n) (simp_all add: upt_rec)

lemma confined_each_nth:
  assumes "\<And>i. i < length xs \<Longrightarrow> confined A (f i (xs ! i))"
  shows "confined A (each_i xs f)"
proof -
  have "confined A (each (index_from 0 xs) (\<lambda>(i, y). f i y))"
    by (rule confined_each) (auto simp: index_from_eq in_set_zip assms)
  then show ?thesis by (simp add: each_def each_i_def)
qed

lemma confined_empty: "confined {} v \<Longrightarrow> acts x v = []"
  by (simp add: confined_def)

lemma acts_components [simp]:
  "acts x (StatusBadge e) = []" "acts x (LoadingView m) = []" "acts x (EmptyView t d None) = []" "acts x (MetricCard l f g) = []"
  "acts x (BadgePulse w variant) = []" "acts x (ReviveLogo s tag href) = []"
  by (rule confined_empty, rule confined_components)+

end
