(* ===== verification/WorkflowsView.thy ===== *)
theory WorkflowsView
  imports WorkflowsPage Components
begin

text \<open>
  What \<open>apps/web/src/app/workflows/page.tsx\<close> renders, and what its controls do. With typed rows the page never throws,
  searching included, and only a row of the queue that is shown can be decided from it.
\<close>

subsection \<open>Controls\<close>

datatype list_action = Refresh | Open_tab list_tab | Search js | Filter_status js | Approve_row js | Reject_row js

type_synonym list_event = "fetch \<times> fetch \<times> string option \<times> list_action"

fun list_do :: "string \<Rightarrow> WorkflowSummary list \<Rightarrow> list_event \<Rightarrow> workflows_page \<Rightarrow> workflows_page" where
  \<comment> \<open>\<open>net\<close> answers the first call of a handler, \<open>net'\<close> the reload after it, \<open>answer\<close> the prompt\<close>
  "list_do base ds (net, net', answer, Refresh) p = loadData base net ds p"
| "list_do base ds (net, net', answer, Open_tab t) p = p\<lparr>wp_activeTab := t\<rparr>"
| "list_do base ds (net, net', answer, Search v) p = p\<lparr>wp_searchQuery := to_str v\<rparr>"
| "list_do base ds (net, net', answer, Filter_status v) p = set_statusFilter base net ds (to_str v) p"
| "list_do base ds (net, net', answer, Approve_row v) p = handleInlineApprove base net net' ds (to_str v) p"
| "list_do base ds (net, net', answer, Reject_row v) p = handleInlineReject base net net' ds (to_str v) answer p"

subsection \<open>The page\<close>

definition tab_bar :: "workflows_page \<Rightarrow> list_action view" where
  "tab_bar p =
    node ''div'' [
      el ''button'' [
          (''style.background'', Inr (Str (if wp_activeTab p = All_workflows then ''var(--bg-elevated)'' else
              ''transparent''))),
          (''style.border'', Inr (Str (if wp_activeTab p = All_workflows then ''1px solid var(--color-accent)'' else
              ''1px solid transparent''))),
          (''style.color'', Inr (Str (if wp_activeTab p = All_workflows then ''var(--text-primary)'' else
              ''var(--text-secondary)'')))] [(''onClick'', \<lambda>_. Open_tab All_workflows)] [
        say ''All Workflows ('',
        put (Num (nint (int (length (wp_workflows p))))),
        say '')''],
      el ''button'' [
          (''style.background'', Inr (Str (if wp_activeTab p = Interventions then ''var(--color-amber-bg)'' else
              ''transparent''))),
          (''style.border'', Inr (Str (if wp_activeTab p = Interventions then ''1px solid var(--color-amber-border)'' else
              ''1px solid transparent''))),
          (''style.color'', Inr (Str (if wp_activeTab p = Interventions then ''var(--color-amber)'' else
              ''var(--text-secondary)'')))] [(''onClick'', \<lambda>_. Open_tab Interventions)] [
        icon ''ShieldAlert'',
        node ''span'' [say ''Needs Human Review''],
        node ''span'' [put (Num (nint (int (length (wp_interventions p)))))]]]"

definition filter_bar :: "workflows_page \<Rightarrow> list_action view" where
  "filter_bar p =
    node ''div'' [
      node ''div'' [
        icon ''Search'',
        el ''input'' [
            (''type'', Inr (Str ''text'')),
            (''placeholder'', Inr (Str ''Search by Payment ID, customer email, failure code, or reason...'')),
            (''value'', Inr (Str (wp_searchQuery p)))] [(''onChange'', Search)] []],
      show_when (wp_activeTab p = All_workflows) (
        node ''div'' [
          icon ''Filter'',
          el ''select'' [(''value'', Inr (Str (wp_statusFilter p)))] [(''onChange'', Filter_status)] [
            el ''option'' [(''value'', Inr (Str ''ALL''))] [] [say ''All Statuses''],
            el ''option'' [(''value'', Inr (Str ''ANALYZING''))] [] [say ''ANALYZING''],
            el ''option'' [(''value'', Inr (Str ''SCHEDULED''))] [] [say ''SCHEDULED''],
            el ''option'' [(''value'', Inr (Str ''ESCALATED''))] [] [say ''ESCALATED''],
            el ''option'' [(''value'', Inr (Str ''EXECUTING''))] [] [say ''EXECUTING''],
            el ''option'' [(''value'', Inr (Str ''VERIFYING''))] [] [say ''VERIFYING''],
            el ''option'' [(''value'', Inr (Str ''RECOVERED''))] [] [say ''RECOVERED''],
            el ''option'' [(''value'', Inr (Str ''FAILED''))] [] [say ''FAILED''],
            el ''option'' [(''value'', Inr (Str ''HALTED''))] [] [say ''HALTED'']]])]"

definition intervention_row :: "locale_fns \<Rightarrow> workflows_page \<Rightarrow> js \<Rightarrow> list_action view" where
  "intervention_row lc p item =
    el ''tr'' [(''key'', get item ''id'')] [] [
      node ''td'' [
        el ''Link'' [(''href'', seqE (get item ''id'') (\<lambda>v1. Inr (Str (''/workflows/'' @ to_str v1))))] [] [
          node ''div'' [
            eval (seqE (get item ''payment_id'') (\<lambda>v5. (if truthy v5 then seqE (get item ''payment_id'')
                (\<lambda>v2. seqE (substring 0 18 v2) (\<lambda>v3. Inr (Str (to_str v3 @ ''...'')))) else seqE (get item
                ''id'') (\<lambda>v4. substring 0 8 v4))))],
          node ''div'' [
            say ''Created: '',
            eval (seqE (get item ''created_at'') (\<lambda>v6. Inr (Str (loc_moment lc ''toLocaleString()'' v6))))]]],
      node ''td'' [
        node ''div'' [
          eval (seqE (get item ''customer_email'') (\<lambda>v7. if truthy v7 then Inr v7 else Inr (Str [CHR 0xE2, CHR 0x80,
              CHR 0x94])))],
        node ''div'' [
          node ''span'' [
            icon ''Check'',
            say '' '',
            eval (seqE (get item ''customer_success_count'') (\<lambda>v8. if truthy v8 then Inr v8 else Inr (Num (nint 0)))),
            say '' paid''],
          node ''span'' [
            icon ''X'',
            say '' '',
            eval (seqE (get item ''customer_failed_count'') (\<lambda>v9. if truthy v9 then Inr v9 else Inr (Num (nint 0)))),
            say '' failed''],
          seqE (get item ''communication_opt_out'') (\<lambda>v10. show_if v10 (
            node ''span'' [icon ''AlertTriangle'', say '' Opted Out'']))]],
      node ''td'' [
        node ''span'' [
          say [CHR 0xE2, CHR 0x82, CHR 0xB9],
          eval (seqE (get item ''amount'') (\<lambda>v11. localized (locale_num 2) v11))],
        node ''div'' [eval (get item ''currency'')],
        node ''div'' [
          el ''span'' [
              (''className'', seqE (seqE (seqE (seqE (get item ''fraud_probability'') (\<lambda>v12. if \<not> nullish v12
                  then Inr v12 else Inr (Num (nint 0)))) (\<lambda>v13. Inr (Bool (nleq (lit 7 10) (to_num v13)))))
                  (\<lambda>v17. (if truthy v17 then Inr (Str ''badge-danger'') else seqE (seqE (seqE (get item
                  ''fraud_probability'') (\<lambda>v14. if \<not> nullish v14 then Inr v14 else Inr (Num (nint 0))))
                  (\<lambda>v15. Inr (Bool (nleq (lit 35 100) (to_num v15))))) (\<lambda>v16. Inr (Str (if truthy v16 then
                  ''badge-warning'' else ''badge-success'')))))) (\<lambda>v18. Inr (Str (''badge '' @ to_str v18))))] [] [
            icon ''Shield'',
            say '' '',
            eval (seqE (seqE (get item ''fraud_probability'') (\<lambda>v19. if \<not> nullish v19 then Inr v19 else Inr (Num
                (lit 8 100)))) (\<lambda>v20. Inr (Str (to_fixed 0 (nmul (to_num v20) (nint 100)))))),
            say ''% Fraud'']]],
      node ''td'' [
        node ''span'' [
          eval (seqE (get item ''failure_code'') (\<lambda>v21. if truthy v21 then Inr v21 else Inr (Str ''UNKNOWN'')))]],
      node ''td'' [
        node ''div'' [
          icon ''AlertTriangle'',
          eval (seqE (get item ''escalation_reason'') (\<lambda>v22. if truthy v22 then Inr v22 else Inr (Str
              ''Policy threshold exceeded'')))]],
      node ''td'' [
        node ''div'' [
          eval (seqE (get item ''selected_action'') (\<lambda>v23. if truthy v23 then Inr v23 else Inr (Str
              ''PAYMENT_LINK'')))],
        node ''div'' [
          say ''Confidence: '',
          eval (seqE (seqE (seqE (get item ''latest_confidence'') (\<lambda>v24. if truthy v24 then Inr v24 else get item
              ''recovery_probability'')) (\<lambda>v25. if truthy v25 then Inr v25 else Inr (Num (lit 75 100))))
              (\<lambda>v26. Inr (Str (to_fixed 0 (nmul (to_num v26) (nint 100)))))),
          say ''%'']],
      node ''td'' [
        node ''div'' [
          el ''button'' [
              (''disabled'', seqE (get item ''id'') (\<lambda>v27. Inr (Bool (strict_eq (opt_text (wp_actionLoadingId p))
                  v27))))] [(''onClick'', \<lambda>_. Approve_row (member item ''id''))] [
            icon ''CheckCircle'',
            node ''span'' [
              eval (seqE (seqE (get item ''id'') (\<lambda>v28. Inr (Bool (strict_eq (opt_text (wp_actionLoadingId p))
                  v28)))) (\<lambda>v29. Inr (Str (if truthy v29 then ''Executing...'' else ''Approve''))))]],
          el ''button'' [
              (''disabled'', seqE (get item ''id'') (\<lambda>v30. Inr (Bool (strict_eq (opt_text (wp_actionLoadingId p))
                  v30))))] [(''onClick'', \<lambda>_. Reject_row (member item ''id''))] [
            icon ''XCircle'',
            node ''span'' [say ''Reject'']],
          el ''Link'' [(''href'', seqE (get item ''id'') (\<lambda>v31. Inr (Str (''/workflows/'' @ to_str v31))))] [] [
            say ''Review'']]]]"

definition intervention_table :: "locale_fns \<Rightarrow> workflows_page \<Rightarrow> js list \<Rightarrow> list_action view" where
  "intervention_table lc p xs =
    node ''table'' [
      node ''thead'' [
        node ''tr'' [
          node ''th'' [say ''Payment / Link''],
          node ''th'' [say ''Customer Profile & History''],
          node ''th'' [say ''Amount''],
          node ''th'' [say ''Failure Reason''],
          node ''th'' [say ''Escalation Reason''],
          node ''th'' [say ''AI Recommended Action''],
          node ''th'' [say ''Human Decision Action'']]],
      node ''tbody'' [each xs (\<lambda>item.  intervention_row lc p item)]]"

definition workflow_row :: "locale_fns \<Rightarrow> js \<Rightarrow> js \<Rightarrow> js \<Rightarrow> list_action view" where
  "workflow_row lc w fraudScore riskLevel =
    el ''tr'' [(''key'', get w ''id'')] [] [
      node ''td'' [
        el ''Link'' [(''href'', seqE (get w ''id'') (\<lambda>v34. Inr (Str (''/workflows/'' @ to_str v34))))] [] [
          node ''span'' [
            eval (seqE (get w ''payment_id'') (\<lambda>v38. (if truthy v38 then seqE (get w ''payment_id'') (\<lambda>v35.
                seqE (substring 0 17 v35) (\<lambda>v36. Inr (Str (to_str v36 @ ''...'')))) else seqE (get w ''id'')
                (\<lambda>v37. substring 0 8 v37))))]]],
      node ''td'' [
        el ''div'' [
            (''title'', seqE (get w ''customer_email'') (\<lambda>v39. if truthy v39 then Inr v39 else Inr (Str [])))] [] [
          eval (seqE (get w ''customer_email'') (\<lambda>v40. if truthy v40 then Inr v40 else Inr (Str [CHR 0xE2, CHR 0x80,
              CHR 0x94])))]],
      node ''td'' [
        node ''span'' [
          say [CHR 0xE2, CHR 0x82, CHR 0xB9],
          eval (seqE (get w ''amount'') (\<lambda>v41. localized (locale_num 2) v41))]],
      node ''td'' [StatusBadge (get w ''status'')],
      node ''td'' [
        el ''span'' [
            (''className'', Inr (Str (''badge '' @ (if riskLevel = Str ''HIGH'' then ''badge-danger'' else (if riskLevel =
                Str ''MEDIUM'' then ''badge-warning'' else ''badge-success'')))))] [] [
          icon ''Shield'',
          say '' '',
          put (Str (to_fixed 0 (nmul (to_num fraudScore) (nint 100)))),
          say ''% ('',
          put riskLevel,
          say '')'']],
      node ''td'' [
        el ''span'' [
            (''title'', seqE (get w ''failure_code'') (\<lambda>v42. if truthy v42 then Inr v42 else Inr (Str ''UNKNOWN'')))]
          [] [
          eval (seqE (get w ''failure_code'') (\<lambda>v43. if truthy v43 then Inr v43 else Inr (Str ''UNKNOWN'')))]],
      node ''td'' [
        node ''div'' [
          node ''div'' [
            el ''div'' [
                (''style.width'', seqE (get w ''recovery_probability'') (\<lambda>v44. Inr (Str (to_fixed 0 (nmul (to_num
                    v44) (nint 100)) @ ''%'')))),
                (''style.background'', seqE (seqE (get w ''recovery_probability'') (\<lambda>v45. Inr (Bool (nless (lit 6 10)
                    (to_num v45))))) (\<lambda>v48. (if truthy v48 then Inr (Str ''#10b981'') else seqE (seqE (get w
                    ''recovery_probability'') (\<lambda>v46. Inr (Bool (nless (lit 3 10) (to_num v46))))) (\<lambda>v47. Inr
                    (Str (if truthy v47 then ''#f59e0b'' else ''#ef4444''))))))] [] []],
          node ''span'' [
            eval (seqE (get w ''recovery_probability'') (\<lambda>v49. Inr (Str (to_fixed 0 (nmul (to_num v49) (nint
                100)))))),
            say ''%'']]],
      node ''td'' [
        node ''span'' [
          eval (seqE (get w ''selected_action'') (\<lambda>v50. if truthy v50 then Inr v50 else Inr (Str ''PENDING'')))]],
      node ''td'' [node ''span'' [eval (get w ''attempt_count'')]],
      node ''td'' [
        eval (seqE (seqE (get w ''updated_at'') (\<lambda>v51. if truthy v51 then Inr v51 else get w ''created_at''))
            (\<lambda>v52. Inr (Str (loc_moment lc ''toLocaleTimeString([], {hour:'2-digit',minute:'2-digit'})'' v52)))),
        say '' ('',
        eval (seqE (seqE (get w ''updated_at'') (\<lambda>v53. if truthy v53 then Inr v53 else get w ''created_at''))
            (\<lambda>v54. Inr (Str (loc_moment lc ''toLocaleDateString([], {month:'short',day:'numeric'})'' v54)))),
        say '')'']]"

definition workflow_table :: "locale_fns \<Rightarrow> js list \<Rightarrow> list_action view" where
  "workflow_table lc ws =
    node ''table'' [
      node ''thead'' [
        node ''tr'' [
          node ''th'' [say ''Payment''],
          node ''th'' [say ''Customer''],
          node ''th'' [say ''Amount''],
          node ''th'' [say ''Status''],
          node ''th'' [say ''Risk Level''],
          node ''th'' [say ''Failure Reason''],
          node ''th'' [say ''Probability''],
          node ''th'' [say ''Recommended Action''],
          node ''th'' [say ''Attempts''],
          node ''th'' [say ''Updated'']]],
      node ''tbody'' [
        each ws (\<lambda>w. 
          seqE (seqE (get w ''fraud_probability'') (\<lambda>v32. if \<not> nullish v32 then Inr v32 else Inr (Num (lit 8
              100)))) (\<lambda>fraudScore.
            seqE (seqE (get w ''overall_risk'') (\<lambda>v33. if \<not> nullish v33 then Inr v33 else Inr (Str (if nleq (lit
                7 10) (to_num fraudScore) then ''HIGH'' else (if nleq (lit 35 100) (to_num fraudScore) then ''MEDIUM'' else
                ''LOW''))))) (\<lambda>riskLevel.
              workflow_row lc w fraudScore riskLevel)))]]"

definition workflows_view :: "locale_fns \<Rightarrow> workflows_page \<Rightarrow> js list \<Rightarrow> js list \<Rightarrow> list_action view" where
  "workflows_view lc p ws xs =
    node ''div'' [
      node ''div'' [
        node ''div'' [
          node ''h1'' [say ''Recovery Orchestration''],
          node ''p'' [say ''Monitor automated lifecycle executions and resolve high-risk escalated workflows'']],
        el ''button'' [] [(''onClick'', \<lambda>_. Refresh)] [
          el ''RefreshCw'' [(''className'', Inr (Str (if wp_loading p then ''spinning'' else [])))] [] [],
          node ''span'' [say ''Refresh'']]],
      tab_bar p,
      filter_bar p,
      node ''div'' [
        if wp_loading p \<and> (if wp_activeTab p = All_workflows then strict_eq (Num (nint (int (length (wp_workflows p)))))
            (Num (nint 0)) else strict_eq (Num (nint (int (length (wp_interventions p))))) (Num (nint 0)))
          then node ''div'' [LoadingView ''Loading workflows from database...'']
          else if truthy (opt_text (wp_error p))
              then node ''div'' [
                  ErrorView (opt_text (wp_error p)) (Some (\<lambda>_. Refresh))]
              else if wp_activeTab p = Interventions
                  then if nless (nint 0) (nint (int (length xs)))
                      then intervention_table lc p xs
                      else node ''div'' [
                          icon ''CheckCircle'',
                          node ''h3'' [say ''All Clear! No Pending Human Interventions''],
                          node ''p'' [
                            say
                                ''High-value, elevated-fraud, and edge-case transactions requiring human review will appear here automatically.'']]
                  else if nless (nint 0) (nint (int (length ws)))
                      then workflow_table lc ws
                      else node ''div'' [
                          EmptyView ''No workflows match query''
                              ''Adjust search filters or intake a new payment failure webhook.'' None]]]"

definition workflows_page_view :: "locale_fns \<Rightarrow> workflows_page \<Rightarrow> list_action view" where
  \<comment> \<open>the two filters run on every rendering\<close>
  "workflows_page_view lc p = seqE (filteredWorkflows p) (\<lambda>ws. seqE (filteredInterventions p) (\<lambda>xs. workflows_view lc p ws xs))"


subsection \<open>Typed rows are rendered\<close>

definition QueueRow :: ty where
  \<comment> \<open>the fields of an \<open>InterventionItem\<close> the page cannot do without; the demonstration entries lack others
    (\<open>status\<close>, \<open>updated_at\<close>, \<open>latest_diagnosis\<close>, \<open>attempts_count\<close>)\<close>
  "QueueRow = TRec [Req ''id'' TText, Req ''payment_id'' TText, Req ''amount'' TNum, Req ''customer_email'' TText,
     Req ''failure_code'' TText, Req ''selected_action'' TText, Req ''escalation_reason'' TText, Req ''created_at'' TText]"

lemma InterventionItem_queue: "has_type InterventionItem v \<Longrightarrow> has_type QueueRow v"
  unfolding QueueRow_def InterventionItem_def by (cases v) simp_all

lemma intervention_row_renders:
  assumes "has_type QueueRow item"
  shows "renders (intervention_row lc p item)"
proof -
  note t = assms [unfolded QueueRow_def]
  obtain s where s: "member item ''payment_id'' = Str s" using typed_text [OF t] by fastforce
  obtain i where i: "member item ''id'' = Str i" using typed_text [OF t] by fastforce
  obtain n where n: "member item ''amount'' = Num n" using typed_number [OF t] by fastforce
  show ?thesis unfolding intervention_row_def by (simp add: view_simps typed_get [OF t] s i n)
qed

lemma workflow_row_renders:
  assumes "has_type WorkflowSummaryT w"
  shows "renders (workflow_row lc w f r)"
proof -
  note t = assms [unfolded WorkflowSummaryT_def]
  obtain s where s: "member w ''payment_id'' = Str s" using typed_text [OF t] by fastforce
  obtain i where i: "member w ''id'' = Str i" using typed_text [OF t] by fastforce
  obtain n where n: "member w ''amount'' = Num n" using typed_number [OF t] by fastforce
  show ?thesis unfolding workflow_row_def by (simp add: view_simps typed_get [OF t] s i n typed_badge [OF t])
qed

lemma workflow_table_renders:
  assumes "list_all (has_type WorkflowSummaryT) ws"
  shows "renders (workflow_table lc ws)"
proof -
  have "get w k = Inr (member w k)" if "w \<in> set ws" for w k
    using assms that by (auto simp: list_all_iff WorkflowSummaryT_def intro: typed_get)
  then show ?thesis using assms workflow_row_renders unfolding workflow_table_def
    by (simp add: view_simps list_all_iff renders_seqE)
qed

lemma intervention_table_renders: "list_all (has_type QueueRow) xs \<Longrightarrow> renders (intervention_table lc p xs)"
  unfolding intervention_table_def by (simp add: view_simps list_all_iff intervention_row_renders)

lemma workflows_view_renders:
  "list_all (has_type WorkflowSummaryT) ws \<Longrightarrow> list_all (has_type QueueRow) xs \<Longrightarrow> renders (workflows_view lc p ws xs)"
  unfolding workflows_view_def tab_bar_def filter_bar_def
  by (simp add: view_simps workflow_table_renders intervention_table_renders)

lemma has_opt_text_total: "v = Undef \<or> (\<exists>s. v = Str s) \<Longrightarrow> \<exists>b. has_opt_text q v = Inr b"
  by (auto simp: has_opt_text_def)

lemma row_matches_total:
  assumes t: "has_type (TRec ds) row" and r: "Req ''payment_id'' TText \<in> set ds" "Req ''failure_code'' TText \<in> set ds"
    and o: "Opt ''customer_email'' TText \<in> set ds \<or> Req ''customer_email'' TText \<in> set ds" and f: "Req field TText \<in> set ds"
  shows "\<exists>b. row_matches field search row = Inr b"
proof -
  obtain s c where "member row ''payment_id'' = Str s" "member row ''failure_code'' = Str c"
    using typed_text [OF t r(1)] typed_text [OF t r(2)] by blast
  moreover have "member row ''customer_email'' = Undef \<or> (\<exists>s. member row ''customer_email'' = Str s)"
    using o typed_opt_text [OF t] typed_text [OF t] by blast
  then obtain b1 where "has_opt_text (to_lower search) (member row ''customer_email'') = Inr b1" using has_opt_text_total by blast
  moreover obtain b2 where "has_opt_text (to_lower search) (member row field) = Inr b2"
    using has_opt_text_total typed_text [OF t f] by blast
  ultimately show ?thesis by (cases "search = []") (auto simp: row_matches_def Let_def typed_get [OF t])
qed

subsection \<open>The page's life\<close>

definition typed_list :: "workflows_page \<Rightarrow> bool" where
  "typed_list p \<longleftrightarrow> list_all (has_type WorkflowSummaryT) (wp_workflows p) \<and> list_all (has_type QueueRow) (wp_interventions p)"

definition typed_lists :: "string \<Rightarrow> WorkflowSummary list \<Rightarrow> fetch \<Rightarrow> bool" where
  \<comment> \<open>the answers of the API client are what its signatures declare\<close>
  "typed_lists base ds net \<longleftrightarrow> (\<forall>q. has_type WorkflowsResponse (getWorkflows base net ds q))
     \<and> (\<forall>r. getInterventions base net None = Inr r \<longrightarrow> has_type (TRec [Req ''data'' (TArr QueueRow)]) r)"

definition list_fair :: "string \<Rightarrow> WorkflowSummary list \<Rightarrow> list_event \<Rightarrow> bool" where
  "list_fair base ds e \<longleftrightarrow> (case e of (net, net', answer, a) \<Rightarrow> typed_lists base ds net \<and> typed_lists base ds net')"

lemma workflows_page_view_renders:
  assumes "typed_list p"
  shows "renders (workflows_page_view lc p)"
proof -
  have "\<exists>b. row_matches ''selected_action'' (wp_searchQuery p) w = Inr b" if "w \<in> set (wp_workflows p)" for w
    using assms that by (auto simp: typed_list_def list_all_iff WorkflowSummaryT_def intro!: row_matches_total)
  then obtain ws where ws: "filteredWorkflows p = Inr ws" "set ws \<subseteq> set (wp_workflows p)"
    using filterE_ex [of "wp_workflows p"] unfolding filteredWorkflows_def by blast
  have "\<exists>b. row_matches ''escalation_reason'' (wp_searchQuery p) w = Inr b" if "w \<in> set (wp_interventions p)" for w
    using assms that by (auto simp: typed_list_def list_all_iff QueueRow_def intro!: row_matches_total)
  then obtain xs where xs: "filteredInterventions p = Inr xs" "set xs \<subseteq> set (wp_interventions p)"
    using filterE_ex [of "wp_interventions p"] unfolding filteredInterventions_def by blast
  have "list_all (has_type WorkflowSummaryT) ws" "list_all (has_type QueueRow) xs"
    using assms ws(2) xs(2) by (auto simp: typed_list_def list_all_iff)
  then show ?thesis by (simp add: workflows_page_view_def ws(1) xs(1) workflows_view_renders)
qed

lemma shown_rows_typed:
  assumes "member res ''data'' = Undef \<or> has_type (TArr t) (member res ''data'')" "list_all (has_type t) old"
  shows "list_all (has_type t) (shown_rows res old)"
  using assms by (cases "member res ''data''") (auto simp: shown_rows_def split: list.split)

lemma loadData_typed:
  assumes "typed_list p" "typed_lists base ds net"
  shows "typed_list (loadData base net ds p)"
proof (cases "getInterventions base net None")
  case (Inr r)
  then have r: "has_type (TRec [Req ''data'' (TArr QueueRow)]) r" and w: "\<And>q. has_type WorkflowsResponse (getWorkflows base net ds q)"
    using assms(2) by (auto simp: typed_lists_def)
  have "has_type (TArr QueueRow) (member r ''data'')"
    by (rule member_req [OF r]) simp
  moreover have "member (getWorkflows base net ds q) ''data'' = Undef
      \<or> has_type (TArr WorkflowSummaryT) (member (getWorkflows base net ds q) ''data'')" for q
    by (rule member_opt [OF w [unfolded WorkflowsResponse_def]]) simp
  ultimately show ?thesis using assms(1) Inr by (simp add: loadData_def Let_def typed_list_def shown_rows_typed)
next
  case (Inl e)
  then show ?thesis using assms(1) by (simp add: loadData_def Let_def typed_list_def)
qed

lemma typed_list_other [simp]:
  "typed_list (p\<lparr>wp_activeTab := t\<rparr>) = typed_list p" "typed_list (p\<lparr>wp_searchQuery := s\<rparr>) = typed_list p"
  "typed_list (p\<lparr>wp_statusFilter := s\<rparr>) = typed_list p" "typed_list (p\<lparr>wp_actionLoadingId := i\<rparr>) = typed_list p"
  "typed_list (p\<lparr>wp_alerts := xs\<rparr>) = typed_list p"
  by (simp_all add: typed_list_def)

lemma decided_typed: "typed_list p \<Longrightarrow> typed_lists base ds net \<Longrightarrow> typed_list (decided f base net ds r p)"
  by (cases r) (simp_all add: decided_def loadData_typed)

lemma list_do_typed: "typed_list p \<Longrightarrow> list_fair base ds e \<Longrightarrow> typed_list (list_do base ds e p)"
  by (cases "(base, ds, e, p)" rule: list_do.cases)
    (simp_all add: list_fair_def loadData_typed set_statusFilter_def handleInlineApprove_def handleInlineReject_def decided_typed)

interpretation workflow_list: page_life typed_list "workflows_page_view lc" "list_do base ds" "list_fair base ds" for lc base ds
  by unfold_locales (simp_all add: workflows_page_view_renders list_do_typed)

lemma offline_rows_typed: "typed_lists base ds unreachable"
proof -
  have "list_all (has_type QueueRow) intervention_items"
    unfolding intervention_items_def intervention_rows_def QueueRow_def by simp
  then show ?thesis by (simp add: typed_lists_def getInterventions_def interventions interventions_page_def 
    getWorkflows_def offline_page_def page_def WorkflowsResponse_def Let_def list_all_iff)
qed

lemma workflows_init_typed: "workflows_init ds = Inr p \<Longrightarrow> typed_list p"
  using offline_rows_typed [of "[]" ds] by (auto simp: workflows_init_def typed_list_def list_all_iff typed_lists_def getInterventions_def
    interventions interventions_page_def )

lemma intervention_row_confined:
  "confined {a. \<not> strict_eq (opt_text (wp_actionLoadingId p)) (member item ''id'')
      \<and> (a = Approve_row (member item ''id'') \<or> a = Reject_row (member item ''id''))} (intervention_row lc p item)"
proof (cases "nullish item")
  case True
  then obtain e where "get item ''id'' = Inl e" using get_fails by blast
  then show ?thesis unfolding intervention_row_def by (simp add: el_def confined_def acts_def)
next
  case False
  then have "get item k = Inr (member item k)" for k by (rule get_runs)
  then show ?thesis unfolding intervention_row_def by (simp add: view_simps)
qed

lemma workflows_view_confined:
  assumes "\<And>item. wp_activeTab p = Interventions \<Longrightarrow> item \<in> set xs \<Longrightarrow> confined A (intervention_row lc p item)"
    and "Refresh \<in> A" "\<And>t. Open_tab t \<in> A" "\<And>v. Search v \<in> A" "\<And>v. Filter_status v \<in> A"
  shows "confined A (workflows_view lc p ws xs)"
  using assms unfolding workflows_view_def tab_bar_def filter_bar_def intervention_table_def workflow_table_def workflow_row_def
  by (simp add: view_simps)

subsection \<open>Properties\<close>

text \<open>
  The list of workflows always renders. As long as the API client returns what its signatures declare, no sequence of
  clicks, searches, filters, decisions and reloads brings the page into a state it cannot render.
\<close>

lemma workflows_page_renders:
  assumes "typed_list p" and "list_all (list_fair base ds) es"
  shows "renders (workflows_page_view lc (fold (list_do base ds) es p))"
  using assms by (rule workflow_list.never_throws)

text \<open>
  C11: Only what the queue shows can be decided from it: a click that approves or rejects is on a row of the open
  intervention tab, one the search keeps, and not on the row whose decision is being sent.
\<close>

theorem queue_decides_shown_rows:
  assumes "a \<in> set (acts x (workflows_page_view lc p))" and "a = Approve_row v \<or> a = Reject_row v"
  shows "wp_activeTab p = Interventions \<and> \<not> strict_eq (opt_text (wp_actionLoadingId p)) v
    \<and> (\<exists>row\<in>set (wp_interventions p). v = member row ''id'' \<and> row_matches ''escalation_reason'' (wp_searchQuery p) row = Inr True)"
proof -
  let ?live = "\<lambda>v. wp_activeTab p = Interventions \<and> \<not> strict_eq (opt_text (wp_actionLoadingId p)) v
    \<and> (\<exists>row\<in>set (wp_interventions p). v = member row ''id'' \<and> row_matches ''escalation_reason'' (wp_searchQuery p) row = Inr True)"
  let ?A = "{a. \<forall>v. a = Approve_row v \<or> a = Reject_row v \<longrightarrow> ?live v}"
  have row: "confined ?A (intervention_row lc p item)" if "wp_activeTab p = Interventions" "filteredInterventions p = Inr xs" "item \<in> set xs" for xs item
    by (rule confined_mono [OF intervention_row_confined])
      (use that filterE_kept [of _ "wp_interventions p" xs item] in \<open>auto simp: filteredInterventions_def\<close>)
  have "confined ?A (workflows_view lc p ws xs)" if "filteredInterventions p = Inr xs" for ws xs
  proof (rule workflows_view_confined)
    show "confined ?A (intervention_row lc p item)" if "wp_activeTab p = Interventions" "item \<in> set xs" for item
      using row that \<open>filteredInterventions p = Inr xs\<close> by blast
  qed auto
  then have "confined ?A (workflows_page_view lc p)"
    by (simp add: workflows_page_view_def view_simps)
  from confinedD [OF this assms(1)] assms(2) show ?thesis by blast
qed

definition one_in_queue :: workflows_page where
  "one_in_queue = \<lparr>wp_workflows = [], wp_interventions = [Obj [(''id'', Str ''w1''), (''payment_id'', Str ''pay_1''), (''amount'', js_int 100),
       (''customer_email'', Str ''a@b''), (''failure_code'', Str ''LIMIT''), (''selected_action'', Str ''LINK''),
       (''escalation_reason'', Str ''high value''), (''created_at'', Str ''today'')]],
     wp_activeTab = Interventions, wp_loading = False, wp_error = None, wp_statusFilter = ''ALL'', wp_searchQuery = ''PAY'',
     wp_actionLoadingId = None, wp_alerts = []\<rparr>"

theorem queue_decides_shown_rows_witness:
  "Approve_row (Str ''w1'') \<in> set (acts Undef (workflows_page_view plain_locale one_in_queue)) \<and> wp_activeTab one_in_queue = Interventions"
proof -
  let ?r = "hd (wp_interventions one_in_queue)"
  have t: "has_type QueueRow ?r" by (simp add: one_in_queue_def QueueRow_def)
  have f: "filteredInterventions one_in_queue = Inr [?r]"
    by (simp add: filteredInterventions_def one_in_queue_def) code_simp
  have g: "filteredWorkflows one_in_queue = Inr []" by (simp add: filteredWorkflows_def one_in_queue_def)
  have q: "\<not> wp_loading one_in_queue" "opt_text (wp_error one_in_queue) = Null" "wp_activeTab one_in_queue = Interventions"
    by (simp_all add: one_in_queue_def opt_text_def)
  have "Approve_row (Str ''w1'') \<in> set (acts Undef (intervention_row plain_locale one_in_queue ?r))"
    using intervention_row_renders [OF t, of plain_locale one_in_queue] unfolding intervention_row_def
    by (simp add: acts_node_eq acts_el_eq view_simps) (simp add: one_in_queue_def opt_text_def strict_eq_def)
  then have "Approve_row (Str ''w1'') \<in> set (acts Undef (intervention_table plain_locale one_in_queue [?r]))"
    using intervention_table_renders [of "[?r]" plain_locale one_in_queue] t unfolding intervention_table_def
    by (simp add: acts_node_eq acts_each view_simps)
  then have "Approve_row (Str ''w1'') \<in> set (acts Undef (workflows_view plain_locale one_in_queue [] [?r]))"
    using workflows_view_renders [of "[]" "[?r]" plain_locale one_in_queue] intervention_table_renders [of "[?r]" plain_locale one_in_queue] t q unfolding workflows_view_def
    by (simp add: acts_node_eq view_simps)
  then have "Approve_row (Str ''w1'') \<in> set (acts Undef (workflows_page_view plain_locale one_in_queue))"
    by (simp add: workflows_page_view_def f g)
  from queue_decides_shown_rows [OF this] this show ?thesis by blast
qed

end
