(* ===== verification/VoicePage.thy ===== *)
theory VoicePage
  imports WebApi
begin

text \<open>
  \<open>apps/web/src/app/voice-recovery/page.tsx\<close>: the calls placed by the voice agent. Calls dispatched from this
  browser are kept in the local storage under \<open>revive_voice_dispatches\<close>, which the promise-to-pay page reads
  as well. A handler takes the page's state (and the storage) and yields it changed; an error a handler does
  not catch is yielded beside the state it leaves.
\<close>

subsection \<open>State\<close>

definition demo_call :: "string \<Rightarrow> int \<Rightarrow> string \<Rightarrow> string \<Rightarrow> js \<Rightarrow> js" where
  "demo_call sid seconds spoken intent ptp = Obj [(''call_sid'', Str sid), (''provider'', Str ''twilio''),
     (''duration_seconds'', js_int seconds), (''customer_spoken'', Str spoken), (''intent'', Str intent), (''ptp_date'', ptp)]"

definition DEMO_VOICE_LOGS :: "js list" where
  "DEMO_VOICE_LOGS = [
     demo_call ''call_twilio_9021831'' 45 ''Haan bhai kal subah 11 baje tak payment kar dunga.'' ''PROMISE_TO_PAY'' (Str ''tomorrow''),
     demo_call ''call_twilio_4810924'' 32 ''Aap mujhe WhatsApp pe UPI link bhej dijiye abhi kar deti hoon.'' ''REQUEST_LINK'' Null,
     demo_call ''call_twilio_3310892'' 51 ''Salary aane me 2 din lagenge, tab karta hoon.'' ''PROMISE_TO_PAY'' (Str ''in 2 days'')]"

record voice_page =
  vp_calls :: "js list"
  vp_preview :: js
  vp_calling :: bool
  vp_callStatus :: "string option"
  vp_showDialModal :: bool
  vp_availableWorkflows :: "js list"
  vp_workflowSearch :: string
  vp_customWorkflowId :: js
  vp_customName :: js
  vp_customEmail :: js
  vp_customPhone :: js
  vp_customAmount :: string

definition preview_text :: string where
  "preview_text = ''Namaste Rajesh ji! Main ReviveOS Payments Desk se baat kar raha hoon. Aapka '' @
     [CHR 0xE2, CHR 0x82, CHR 0xB9] @ ''14,999 ka payment due tha...''"

definition voice_init :: "WorkflowSummary list \<Rightarrow> voice_page" where
  "voice_init ds = \<lparr>vp_calls = DEMO_VOICE_LOGS, vp_preview = Obj [(''hinglish_script'', Str preview_text)],
     vp_calling = False, vp_callStatus = None, vp_showDialModal = False,
     vp_availableWorkflows = map wf_js (take 50 ds), vp_workflowSearch = [], vp_customWorkflowId = Str [],
     vp_customName = Str ''Rajesh Sharma'', vp_customEmail = Str ''rajesh.sharma@example.com'',
     vp_customPhone = Str ''+919876543210'', vp_customAmount = ''14999''\<rparr>"

subsection \<open>Choosing a workflow\<close>

definition loadWorkflowsList :: "string \<Rightarrow> fetch \<Rightarrow> WorkflowSummary list \<Rightarrow> voice_page \<Rightarrow> voice_page" where
  \<comment> \<open>\<open>getWorkflows\<close> never throws, so the \<open>catch\<close> is not reached\<close>
  "loadWorkflowsList base net ds p =
    (case member (getWorkflows base net ds (no_query\<lparr>q_limit := Some (nint 100)\<rparr>)) ''data'' of
       Arr (r # rs) \<Rightarrow> p\<lparr>vp_availableWorkflows := r # rs\<rparr> | _ \<Rightarrow> p)"

definition upper_char :: "char \<Rightarrow> char" where
  "upper_char c = (let n = of_char c :: nat in if 97 \<le> n \<and> n \<le> 122 then char_of (n - 32) else c)"

definition name_of_email :: "string \<Rightarrow> string" where
  \<comment> \<open>the part before the at sign, separators and digits blanked, the first letter capital\<close>
  "name_of_email email =
    (let p = map (\<lambda>c. if c = CHR ''.'' \<or> c = CHR ''_'' \<or> is_digit c then CHR '' '' else c) (hd (split_char (CHR ''@'') email))
     in (case p of [] \<Rightarrow> [] | c # s \<Rightarrow> upper_char c # s))"

definition handleSelectWorkflow :: "js \<Rightarrow> voice_page \<Rightarrow> voice_page \<times> err option" where
  "handleSelectWorkflow w p =
    (let p1 = p\<lparr>vp_customWorkflowId := orv (member w ''id'') (member w ''payment_id'')\<rparr>;
         email = member w ''customer_email'';
         named = (if truthy (member w ''customer_name'') then Inr (p1\<lparr>vp_customName := member w ''customer_name''\<rparr>)
           else if truthy email then seqE (as_string email) (\<lambda>s. Inr (p1\<lparr>vp_customName := Str (name_of_email s)\<rparr>))
           else Inr p1)
     in case named of Inl e \<Rightarrow> (p1, Some e)
        | Inr p2 \<Rightarrow>
            let p3 = (if truthy email then p2\<lparr>vp_customEmail := email\<rparr> else p2);
                p4 = (if truthy (member w ''customer_phone'') then p3\<lparr>vp_customPhone := member w ''customer_phone''\<rparr> else p3)
            in (if truthy (member w ''amount'') then p4\<lparr>vp_customAmount := to_str (member w ''amount'')\<rparr> else p4, None))"

definition workflow_key :: "js \<Rightarrow> js" where
  "workflow_key w = orv (member w ''id'') (member w ''payment_id'')"

definition select_changed :: "string \<Rightarrow> voice_page \<Rightarrow> voice_page \<times> err option" where
  \<comment> \<open>the \<open>onChange\<close> of the drop-down\<close>
  "select_changed v p = (case find (\<lambda>w. workflow_key w = Str v) (vp_availableWorkflows p) of
     Some w \<Rightarrow> handleSelectWorkflow w p
   | None \<Rightarrow> (p\<lparr>vp_customWorkflowId := Str v\<rparr>, None))"

definition matches_search :: "string \<Rightarrow> js \<Rightarrow> err + bool" where
  \<comment> \<open>the filter of the drop-down's options\<close>
  "matches_search search w = (if search = [] then Inr True
     else let q = to_lower search in
       seqE (as_string (orv (member w ''customer_email'') (Str []))) (\<lambda>email.
       seqE (as_string (orv (workflow_key w) (Str []))) (\<lambda>wid.
       Inr (str_includes (to_lower email) q \<or> str_includes (to_lower wid) q
         \<or> str_includes (to_str (orv (member w ''amount'') (Str []))) q))))"

definition search_results :: "voice_page \<Rightarrow> err + js list" where
  "search_results p = filterE (matches_search (vp_workflowSearch p)) (vp_availableWorkflows p)"

subsection \<open>The list of calls\<close>

definition dispatch_key :: string where
  "dispatch_key = ''revive_voice_dispatches''"

definition local_call :: "js \<Rightarrow> err + js" where
  "local_call c = seqE (get c ''call_sid'') (\<lambda>sid. Inr (Obj [
     (''call_sid'', sid),
     (''provider'', Str ''twilio''),
     (''duration_seconds'', js_int 42),
     (''customer_spoken'', orv (member c ''customer_spoken'') (Str (''Customer spoken intent: '' @ to_str (member c ''intent'')))),
     (''intent'', orv (member c ''intent'') (Str ''PROMISE_TO_PAY'')),
     (''ptp_date'', if member c ''intent'' = Str ''PROMISE_TO_PAY'' then Str ''in 2 days'' else Undef)]))"

definition local_calls :: "storage \<Rightarrow> js list" where
  "local_calls st = (case seqE (load_json st dispatch_key) (\<lambda>v. case v of
       Some d \<Rightarrow> seqE (as_array d) (mapE local_call) | None \<Rightarrow> Inr []) of
     Inr cs \<Rightarrow> cs | Inl _ \<Rightarrow> [])"

definition call_key :: "js \<Rightarrow> err + js" where
  "call_key c = get c ''call_sid''"

definition offline_calls :: "js list \<Rightarrow> js list" where
  \<comment> \<open>\<open>[...localCalls, ...DEMO_VOICE_LOGS.filter((demo) => !seenSids.has(demo.call_sid))]\<close>\<close>
  "offline_calls local = local @ filter (\<lambda>d. \<not> set_has (map (\<lambda>c. member c ''call_sid'') local) (member d ''call_sid'')) DEMO_VOICE_LOGS"

definition online_calls :: "js list \<Rightarrow> js \<Rightarrow> err + js list" where
  "online_calls local d = seqE (get d ''calls'') (\<lambda>calls.
     seqE (as_iterable (orv calls (Arr []))) (\<lambda>apiCalls. merge_sources call_key [local, apiCalls, DEMO_VOICE_LOGS]))"

definition fetchVoiceData :: "string \<Rightarrow> fetch \<Rightarrow> storage \<Rightarrow> voice_page \<Rightarrow> voice_page" where
  "fetchVoiceData base net st p =
    (let local = local_calls st
     in case seqE (net (plain_get (base @ ''/v1/voice''))) (\<lambda>callsRes.
          seqE (net (plain_get (base @ ''/v1/voice/scripts/preview''))) (\<lambda>previewRes.
          seqE (if res_ok callsRes then seqE (res_json callsRes) (online_calls local) else Inr (offline_calls local)) (\<lambda>calls.
          if res_ok previewRes then seqE (res_json previewRes) (\<lambda>v. Inr (p\<lparr>vp_calls := calls, vp_preview := v\<rparr>))
          else Inr (p\<lparr>vp_calls := calls\<rparr>)))) of
        Inr p' \<Rightarrow> p'
      | Inl _ \<Rightarrow> p\<lparr>vp_calls := offline_calls local\<rparr>)"

subsection \<open>Placing a call\<close>

definition call_amount :: "voice_page \<Rightarrow> number" where
  \<comment> \<open>\<open>parseFloat(customAmount) || 14999\<close>\<close>
  "call_amount p = (let n = parse_float (vp_customAmount p) in if ntruthy n then n else nint 14999)"

definition linked_workflow :: "voice_page \<Rightarrow> err + js" where
  \<comment> \<open>\<open>customWorkflowId.trim() || undefined\<close>\<close>
  "linked_workflow p = seqE (as_string (vp_customWorkflowId p)) (\<lambda>s. Inr (if trim s = [] then Undef else Str (trim s)))"

definition dispatch_record :: "js \<Rightarrow> js \<Rightarrow> js \<Rightarrow> js \<Rightarrow> string \<Rightarrow> voice_page \<Rightarrow> js" where
  "dispatch_record callSid workflow_id intent spoken timestamp p = Obj [
     (''call_sid'', callSid),
     (''workflow_id'', workflow_id),
     (''customer_name'', vp_customName p),
     (''customer_email'', vp_customEmail p),
     (''phone'', vp_customPhone p),
     (''amount'', Num (call_amount p)),
     (''status'', Str ''EXECUTED''),
     (''intent'', intent),
     (''customer_spoken'', spoken),
     (''timestamp'', Str timestamp)]"

definition lodge_dispatch :: "int \<Rightarrow> storage \<Rightarrow> js \<Rightarrow> js \<Rightarrow> js \<Rightarrow> js \<Rightarrow> voice_page \<Rightarrow> storage" where
  \<comment> \<open>the inner \<open>try\<close>: newest first, at most 50; a failure leaves the storage as it was\<close>
  "lodge_dispatch t st callSid workflow_id intent spoken p =
    (case seqE (load_json st dispatch_key) (\<lambda>v. seqE (as_array (case v of Some d \<Rightarrow> d | None \<Rightarrow> Arr [])) (\<lambda>dispatches.
          seqE (to_iso (time_clip (nint t))) (\<lambda>timestamp.
          setItem st dispatch_key (json_print (Arr (take 50
            (dispatch_record callSid workflow_id intent spoken timestamp p # dispatches))))))) of
       Inr st' \<Rightarrow> st' | Inl _ \<Rightarrow> st)"

definition call_request :: "string \<Rightarrow> voice_page \<Rightarrow> js \<Rightarrow> web_request" where
  "call_request base p workflow_id = json_post (base @ ''/v1/voice'') (Obj [
     (''workflow_id'', workflow_id),
     (''customer_name'', orv (vp_customName p) (Str ''Valued Customer'')),
     (''customer_email'', vp_customEmail p),
     (''phone'', vp_customPhone p),
     (''amount'', Num (call_amount p)),
     (''currency'', Str ''INR'')])"

definition placed_call :: "clock \<Rightarrow> js \<Rightarrow> err + (js \<times> js \<times> js)" where
  \<comment> \<open>the call's id, intent and spoken text from the backend's answer\<close>
  "placed_call now data = seqE (get data ''call_result'') (\<lambda>r. let callRes = orv r (Obj []) in Inr (
     orv (member callRes ''call_sid'') (Str (''call_live_'' @ num_to_string (nint (now 0)))),
     orv (member callRes ''intent'') (Str ''PROMISE_TO_PAY''),
     orv (member callRes ''customer_spoken'') (Str ''Customer speech processing via Twilio Gather'')))"

definition call_error :: "web_response \<Rightarrow> err + string" where
  "call_error res = (let errData = (case res_json res of Inr v \<Rightarrow> v | Inl _ \<Rightarrow> Obj [])
     in seqE (get errData ''detail'') (\<lambda>d. Inr (''Twilio Call failed: '' @
          to_str (orv d (orv (member errData ''error'') (Str ''Server error''))))))"

definition triggerCallSimulation ::
  "string \<Rightarrow> fetch \<Rightarrow> fetch \<Rightarrow> clock \<Rightarrow> storage \<Rightarrow> voice_page \<Rightarrow> voice_page \<times> storage" where
  \<comment> \<open>\<open>net\<close> answers the call, \<open>reload\<close> the reload of the page's data after it\<close>
  "triggerCallSimulation base net reload now st p =
    (let p1 = p\<lparr>vp_calling := True, vp_showDialModal := False,
           vp_callStatus := Some (''Initiating live Hinglish call via Twilio to '' @ to_str (vp_customPhone p) @
             '' ('' @ to_str (vp_customName p) @ '')...'')\<rparr>;
         outcome = seqE (linked_workflow p) (\<lambda>workflow_id.
           seqE (net (call_request base p workflow_id)) (\<lambda>res.
           if res_ok res then seqE (res_json res) (\<lambda>data. seqE (placed_call now data) (\<lambda>(callSid, intent, spoken).
             let st' = lodge_dispatch (now 1) st callSid workflow_id intent spoken p
             in Inr (fetchVoiceData base reload st' (p1\<lparr>vp_callStatus := Some (''Twilio Call ('' @ to_str callSid @
                  '') dispatched to '' @ to_str (vp_customPhone p) @ '' with intent: '' @ to_str intent)\<rparr>), st')))
           else seqE (call_error res) (\<lambda>m. Inr (p1\<lparr>vp_callStatus := Some m\<rparr>, st))))
     in case outcome of
          Inr (p2, st') \<Rightarrow> (p2\<lparr>vp_calling := False\<rparr>, st')
        | Inl e \<Rightarrow> (p1\<lparr>vp_callStatus := Some (''Call error: '' @ emessage e), vp_calling := False\<rparr>, st))"

end
