(* ===== verification/DetailPage.thy ===== *)
theory DetailPage
  imports VoicePage
begin

text \<open>
  \<open>apps/web/src/app/workflows/[id]/page.tsx\<close>: one workflow. Loading merges the voice calls dispatched from this
  browser into the recovery actions and the audit trail; the reviewer approves or rejects; the values the page
  shows are normalised from whatever parts of the detail the backend sent.
\<close>

subsection \<open>State\<close>

datatype breakdown = CUSTOMER_MEMORY | REVENUE_RISK

record detail_page =
  dp_detail :: js
  dp_loading :: bool
  dp_error :: "string option"
  dp_actionLoading :: bool
  dp_actionMessage :: "(string \<times> string) option"
  dp_selectedStrategy :: js
  dp_expandedBreakdown :: "breakdown option"
  dp_prompts :: nat

definition detail_init :: detail_page where
  "detail_init = \<lparr>dp_detail = Null, dp_loading = True, dp_error = None, dp_actionLoading = False, dp_actionMessage = None,
     dp_selectedStrategy = Str ''PAYMENT_LINK'', dp_expandedBreakdown = None, dp_prompts = 0\<rparr>"

subsection \<open>Merging the dispatched calls\<close>

definition call_matches :: "string \<Rightarrow> js \<Rightarrow> js \<Rightarrow> js \<Rightarrow> err + bool" where
  "call_matches wid currentPhone currentEmail call = seqE (get call ''workflow_id'') (\<lambda>w. Inr (
     strict_eq w (Str wid)
     \<or> truthy currentPhone \<and> strict_eq (member call ''phone'') currentPhone
     \<or> truthy currentEmail \<and> strict_eq (member call ''customer_email'') currentEmail))"

definition voice_action :: "js \<Rightarrow> js" where
  "voice_action call = Obj [
     (''id'', Str (''act_'' @ to_str (member call ''call_sid''))),
     (''action_type'', Str ''VOICE_RECOVERY_CALL''),
     (''status'', orv (member call ''status'') (Str ''EXECUTED'')),
     (''attempt'', js_int 1),
     (''executed_at'', member call ''timestamp''),
     (''result'', Str (''Hinglish Call ['' @ to_str (member call ''call_sid'') @ ''] dispatched to '' @ to_str (member call ''phone'')
        @ ''. Intent: '' @ to_str (member call ''intent'') @ ''. Transcribed: '' @ [CHR 0x22] @ to_str (member call ''customer_spoken'') @ [CHR 0x22])),
     (''created_at'', member call ''timestamp'')]"

definition is_hex :: "char \<Rightarrow> bool" where
  "is_hex c \<longleftrightarrow> is_digit c \<or> c \<in> set ''abcdefABCDEF''"

definition event_hash :: "string \<Rightarrow> string" where
  \<comment> \<open>\<open>`0x${sid.replace(/[^a-fA-F0-9]/g, 'a').slice(0, 24)}...`\<close>\<close>
  "event_hash sid = ''0x'' @ take 24 (map (\<lambda>c. if is_hex c then c else CHR ''a'') sid) @ ''...''"

definition voice_audit :: "js \<Rightarrow> err + js" where
  "voice_audit call = seqE (get call ''call_sid'') (\<lambda>v. seqE (as_string v) (\<lambda>sid. Inr (Obj [
     (''id'', Str (''aud_'' @ sid)),
     (''event_id'', Str (''ev_'' @ sid)),
     (''actor'', Str ''system:voice_agent:twilio''),
     (''action'', Str ''VOICE_CALL_DISPATCHED''),
     (''timestamp'', member call ''timestamp''),
     (''payload_hash'', Str (''sha256_'' @ take 16 sid)),
     (''event_hash'', Str (event_hash sid)),
     (''metadata'', Obj [
        (''phone'', member call ''phone''),
        (''customer_name'', member call ''customer_name''),
        (''call_sid'', v),
        (''intent'', member call ''intent''),
        (''spoken_response'', member call ''customer_spoken'')])])))"

definition set_field :: "js \<Rightarrow> string \<Rightarrow> js \<Rightarrow> err + js" where
  \<comment> \<open>\<open>v.k = x\<close>; only objects take fields here (a detail that is an array is outside the model)\<close>
  "set_field v k x = (case v of Obj fs \<Rightarrow> Inr (Obj (put_field fs k x)) | _ \<Rightarrow> Inl (type_error ''Cannot create property''))"

definition prepend_rows :: "string \<Rightarrow> js list \<Rightarrow> js \<Rightarrow> err + js" where
  \<comment> \<open>\<open>res.k = [...rows, ...(res.k || [])]\<close>\<close>
  "prepend_rows k rows res = seqE (as_iterable (orv (member res k) (Arr []))) (\<lambda>old. set_field res k (Arr (rows @ old)))"

definition matching_calls :: "storage \<Rightarrow> string \<Rightarrow> js \<Rightarrow> err + js list" where
  "matching_calls st wid res = seqE (load_json st dispatch_key) (\<lambda>v. case v of
     None \<Rightarrow> Inr []
   | Some dispatches \<Rightarrow> seqE (get res ''workflow'') (\<lambda>w. seqE (as_array dispatches)
       (filterE (call_matches wid (member w ''customer_phone'') (member w ''customer_email'')))))"

definition merge_dispatches :: "storage \<Rightarrow> string \<Rightarrow> js \<Rightarrow> js" where
  \<comment> \<open>the inner \<open>try\<close>; actions stay merged when the audit events cannot be\<close>
  "merge_dispatches st wid res =
    (case seqE (matching_calls st wid res) (\<lambda>calls. if calls = [] then Inr res
        else seqE (mapE voice_audit calls) (\<lambda>audits. seqE (prepend_rows ''recovery_actions'' (map voice_action calls) res) (\<lambda>res1.
          Inr (case prepend_rows ''audit_events'' audits res1 of Inr res2 \<Rightarrow> res2 | Inl _ \<Rightarrow> res1)))) of
       Inr res' \<Rightarrow> res' | Inl _ \<Rightarrow> res)"

subsection \<open>Loading and acting\<close>

definition message_or :: "err \<Rightarrow> string \<Rightarrow> string" where
  "message_or e d = (if emessage e = [] then d else emessage e)"

definition loadWorkflow :: "string \<Rightarrow> fetch \<Rightarrow> WorkflowSummary list \<Rightarrow> storage \<Rightarrow> string \<Rightarrow> detail_page \<Rightarrow> detail_page" where
  "loadWorkflow base net ds st wid p = (if wid = [] then p else
    (let q = p\<lparr>dp_error := None, dp_loading := False\<rparr>
     in case getWorkflowDetail base net ds wid of
          Inl e \<Rightarrow> q\<lparr>dp_error := Some (message_or e ''Failed to fetch workflow detail'')\<rparr>
        | Inr r \<Rightarrow> (let res = merge_dispatches st wid r; q1 = q\<lparr>dp_detail := res\<rparr>
            in case get res ''workflow'' of
                 Inl e \<Rightarrow> q1\<lparr>dp_error := Some (message_or e ''Failed to fetch workflow detail'')\<rparr>
               | Inr w \<Rightarrow> if truthy (member w ''selected_action'') then q1\<lparr>dp_selectedStrategy := member w ''selected_action''\<rparr> else q1)))"

definition handleApprove :: "string \<Rightarrow> fetch \<Rightarrow> fetch \<Rightarrow> WorkflowSummary list \<Rightarrow> storage \<Rightarrow> string \<Rightarrow> detail_page \<Rightarrow> detail_page" where
  "handleApprove base net net' ds st wid p =
    (case seqE (approveWorkflow base net wid (Some (Obj [(''action'', dp_selectedStrategy p),
            (''notes'', Str ''Manually approved via Human Intervention Hub'')]))) (\<lambda>res.
          seqE (get res ''action_executed'') (\<lambda>action_executed. Inr (''Workflow approved! Action '' @ to_str action_executed
            @ '' dispatched successfully.'' @ (if truthy (member res ''result'') then '' ('' @ to_str (member res ''result'') @ '')'' else [])))) of
       Inr m \<Rightarrow> (loadWorkflow base net' ds st wid (p\<lparr>dp_actionMessage := Some (''success'', m)\<rparr>))\<lparr>dp_actionLoading := False\<rparr>
     | Inl e \<Rightarrow> p\<lparr>dp_actionMessage := Some (''error'', ''Approval failed: '' @ emessage e), dp_actionLoading := False\<rparr>)"

definition rejection_reason :: "string option \<Rightarrow> string \<Rightarrow> string" where
  \<comment> \<open>\<open>prompt(...) || d\<close>: a cancelled or empty prompt gives the default\<close>
  "rejection_reason answer d = (case answer of Some (c # s) \<Rightarrow> c # s | _ \<Rightarrow> d)"

definition handleReject :: "string \<Rightarrow> fetch \<Rightarrow> fetch \<Rightarrow> WorkflowSummary list \<Rightarrow> storage \<Rightarrow> string \<Rightarrow> string option \<Rightarrow> detail_page \<Rightarrow> detail_page" where
  "handleReject base net net' ds st wid answer p0 =
    (let p = p0\<lparr>dp_prompts := Suc (dp_prompts p0)\<rparr>
     in case rejectWorkflow base net wid (Some (Obj [(''reason'', Str (rejection_reason answer ''Rejected by human operator'')),
            (''notes'', Str ''Rejected via Human Intervention Hub'')])) of
       Inr _ \<Rightarrow> (loadWorkflow base net' ds st wid
         (p\<lparr>dp_actionMessage := Some (''success'', ''Workflow rejected and marked as HALTED.'')\<rparr>))\<lparr>dp_actionLoading := False\<rparr>
     | Inl e \<Rightarrow> p\<lparr>dp_actionMessage := Some (''error'', ''Rejection failed: '' @ emessage e), dp_actionLoading := False\<rparr>)"

subsection \<open>The normalised view\<close>

datatype risk = LOW | MEDIUM | HIGH

instantiation risk :: linorder
begin

definition less_eq_risk :: "risk \<Rightarrow> risk \<Rightarrow> bool" where
  "less_eq_risk a b \<longleftrightarrow> a = LOW \<or> b = HIGH \<or> a = b"

definition less_risk :: "risk \<Rightarrow> risk \<Rightarrow> bool" where
  "less_risk a b \<longleftrightarrow> a \<le> b \<and> a \<noteq> (b :: risk)"

instance
proof
  fix x y z :: risk
  show "(x < y) = (x \<le> y \<and> \<not> y \<le> x)" by (cases x; cases y) (simp_all add: less_risk_def less_eq_risk_def)
  show "x \<le> x" by (simp add: less_eq_risk_def)
  show "x \<le> y \<Longrightarrow> y \<le> z \<Longrightarrow> x \<le> z" by (cases x; cases y; cases z) (simp_all add: less_eq_risk_def)
  show "x \<le> y \<Longrightarrow> y \<le> x \<Longrightarrow> x = y" by (cases x; cases y) (simp_all add: less_eq_risk_def)
  show "x \<le> y \<or> y \<le> x" by (cases x; cases y) (simp_all add: less_eq_risk_def)
qed

end

definition risk_of :: "js \<Rightarrow> risk" where
  "risk_of prob = (if ge_num prob (lit 7 10) then HIGH else if ge_num prob (lit 35 100) then MEDIUM else LOW)"

definition risk_name :: "risk \<Rightarrow> string" where
  "risk_name r = (case r of LOW \<Rightarrow> ''LOW'' | MEDIUM \<Rightarrow> ''MEDIUM'' | HIGH \<Rightarrow> ''HIGH'')"

definition workflow_part :: "js \<Rightarrow> js" where
  "workflow_part detail = orv (member detail ''workflow'') detail"

definition payment_part :: "js \<Rightarrow> js" where
  "payment_part detail = (let w = workflow_part detail in orv (member detail ''payment'') (Obj [
     (''id'', orv (member w ''payment_id'') (orv (member w ''id'') (Str ''N/A''))),
     (''merchant_id'', member w ''merchant_id''),
     (''customer_id'', member w ''customer_id''),
     (''amount'', orv (member w ''amount'') (js_int 0)),
     (''currency'', orv (member w ''currency'') (Str ''INR'')),
     (''status'', orv (member w ''payment_status'') (orv (captured (member w ''status'')) (Str ''FAILED''))),
     (''payment_method'', orv (member w ''payment_method'') (Str ''card / autopay'')),
     (''failure_code'', orv (member w ''failure_code'') (Str ''INSUFFICIENT_FUNDS'')),
     (''failure_reason'', orv (member w ''failure_reason'') (Str ''Payment execution failed at gateway'')),
     (''razorpay_payment_id'', orv (member w ''razorpay_payment_id'') (member w ''payment_id'')),
     (''created_at'', member w ''created_at'')]))"

definition customer_part :: "js \<Rightarrow> js" where
  "customer_part detail = (let w = workflow_part detail in orv (member detail ''customer'') (Obj [
     (''id'', orv (member w ''customer_id'') (Str ''N/A'')),
     (''email'', orv (member w ''customer_email'') (Str ''subscriber@example.com'')),
     (''phone'', orv (member w ''customer_phone'') (Str [])),
     (''communication_opt_out'', orv (member w ''communication_opt_out'') (Bool False))]))"

definition latest :: "js \<Rightarrow> string \<Rightarrow> js" where
  \<comment> \<open>\<open>const xs = detail.k || []; xs.length > 0 ? xs[0] : null\<close>\<close>
  "latest detail k = (case orv (member detail k) (Arr []) of
     Arr (x # xs) \<Rightarrow> x | Str (c # s) \<Rightarrow> Str [c]
   | Obj fs \<Rightarrow> if gt_num (fld fs ''length'') (nint 0) then fld fs ''0'' else Null | _ \<Rightarrow> Null)"

definition fraud_prob :: "js \<Rightarrow> js" where
  "fraud_prob detail = coalesce (member (latest detail ''risk_assessments'') ''fraud_probability'')
     (coalesce (member (workflow_part detail) ''fraud_probability'') (Num (lit 8 100)))"

definition fraud_level :: "js \<Rightarrow> js" where
  "fraud_level detail = coalesce (member (latest detail ''risk_assessments'') ''fraud_risk_level'')
     (coalesce (member (workflow_part detail) ''overall_risk'') (Str (risk_name (risk_of (fraud_prob detail)))))"

definition return_prob :: "js \<Rightarrow> js" where
  "return_prob detail = coalesce (member (latest detail ''risk_assessments'') ''return_probability'')
     (coalesce (member (workflow_part detail) ''return_probability'') (Num (lit 12 100)))"

definition exp_loss :: "js \<Rightarrow> js" where
  "exp_loss detail = coalesce (member (workflow_part detail) ''expected_loss'')
     (Num (nmul (to_num (orv (member (payment_part detail) ''amount'') (js_int 0))) (to_num (fraud_prob detail))))"

definition is_intervention :: "js \<Rightarrow> bool" where
  "is_intervention detail \<longleftrightarrow> member (workflow_part detail) ''status''
     \<in> Str ` set [''ESCALATED'', ''REQUIRES_HUMAN_REVIEW'', ''ANALYZING'', ''SCHEDULED'']"

subsection \<open>Lemmas\<close>

lemma risk_mono:
  \<comment> \<open>a larger probability never lowers the level\<close>
  assumes "to_num a = Fin x" "to_num b = Fin y" "x \<le> y"
  shows "risk_of a \<le> risk_of b"
  using assms by (cases "lit 7 10"; cases "lit 35 100") (auto simp: risk_of_def ge_num_def less_eq_risk_def)

definition about :: "string \<Rightarrow> js \<Rightarrow> js \<Rightarrow> bool" where
  \<comment> \<open>the calls that belong to the workflow: placed for it, or to its customer's phone or address\<close>
  "about wid w call \<longleftrightarrow> strict_eq (member call ''workflow_id'') (Str wid)
     \<or> truthy (member w ''customer_phone'') \<and> strict_eq (member call ''phone'') (member w ''customer_phone'')
     \<or> truthy (member w ''customer_email'') \<and> strict_eq (member call ''customer_email'') (member w ''customer_email'')"

definition call_row :: "js \<Rightarrow> bool" where
  "call_row call \<longleftrightarrow> \<not> nullish call \<and> (\<exists>sid. member call ''call_sid'' = Str sid)"

lemma matching_filter:
  assumes "load_json st dispatch_key = Inr (Some (Arr calls))" and "list_all call_row calls"
  shows "matching_calls st wid (Obj fs) = Inr (filter (about wid (fld fs ''workflow'')) calls)"
proof -
  have "filterE (call_matches wid (member (fld fs ''workflow'') ''customer_phone'') (member (fld fs ''workflow'') ''customer_email'')) calls
      = Inr (filter (about wid (fld fs ''workflow'')) calls)"
    using assms(2) by (intro filterE_total) (simp add: list_all_iff call_row_def call_matches_def about_def get_member)
  with assms(1) show ?thesis by (simp add: matching_calls_def)
qed

lemma voice_audit_row: "call_row call \<Longrightarrow> \<exists>a. voice_audit call = Inr a \<and> member a ''event_id'' = Str (''ev_'' @ to_str (member call ''call_sid''))"
  by (auto simp: call_row_def voice_audit_def get_member)

lemma voice_audits:
  "list_all call_row calls \<Longrightarrow> \<exists>audits. mapE voice_audit calls = Inr audits
    \<and> map (\<lambda>a. member a ''event_id'') audits = map (\<lambda>c. Str (''ev_'' @ to_str (member c ''call_sid''))) calls"
proof (induction calls)
  case (Cons c calls)
  then obtain audits where "mapE voice_audit calls = Inr audits"
    "map (\<lambda>a. member a ''event_id'') audits = map (\<lambda>c. Str (''ev_'' @ to_str (member c ''call_sid''))) calls" by auto
  with voice_audit_row [of c] Cons.prems show ?case by auto
qed simp

definition list_or_none :: "js \<Rightarrow> js list \<Rightarrow> bool" where
  "list_or_none v xs \<longleftrightarrow> v = Arr xs \<or> nullish v \<and> xs = []"

lemma prepend_rows_list:
  "list_or_none (fld fs k) old \<Longrightarrow> prepend_rows k rows (Obj fs) = Inr (Obj (put_field fs k (Arr (rows @ old))))"
  by (auto simp: list_or_none_def prepend_rows_def set_field_def nullish_def)

lemma merged_detail:
  assumes "load_json st dispatch_key = Inr (Some (Arr calls))" and "list_all call_row calls"
    and "list_or_none (fld fs ''recovery_actions'') acts" and "list_or_none (fld fs ''audit_events'') evs"
    and "ms = filter (about wid (fld fs ''workflow'')) calls" and "ms \<noteq> []"
  shows "\<exists>audits. mapE voice_audit ms = Inr audits \<and> map (\<lambda>a. member a ''event_id'') audits = map (\<lambda>c. Str (''ev_'' @ to_str (member c ''call_sid''))) ms
    \<and> merge_dispatches st wid (Obj fs) = Obj (put_field (put_field fs ''recovery_actions'' (Arr (map voice_action ms @ acts)))
        ''audit_events'' (Arr (audits @ evs)))"
proof -
  have "list_all call_row ms" using assms(2,5) by (auto simp: list_all_iff)
  then obtain audits where a: "mapE voice_audit ms = Inr audits"
    "map (\<lambda>a. member a ''event_id'') audits = map (\<lambda>c. Str (''ev_'' @ to_str (member c ''call_sid''))) ms"
    using voice_audits by blast
  let ?fs = "put_field fs ''recovery_actions'' (Arr (map voice_action ms @ acts))"
  have "list_or_none (fld ?fs ''audit_events'') evs" using assms(4) by simp
  note p = prepend_rows_list [OF assms(3), of "map voice_action ms"] prepend_rows_list [OF this, of audits]
  have "merge_dispatches st wid (Obj fs) = Obj (put_field ?fs ''audit_events'' (Arr (audits @ evs)))"
    unfolding merge_dispatches_def matching_filter [OF assms(1,2)] assms(5) [symmetric] seqE.simps
    using assms(6) by (simp add: a(1) p)
  with a show ?thesis by blast
qed

subsection \<open>Properties\<close>

text \<open>
  C13: A workflow's page shows the calls dispatched for it. When the detail arrives and calls are stored, loading puts
  exactly the calls about this workflow, its customer's phone or its customer's address in front of the recovery actions
  and, call by call in the same order, in front of the audit trail; every other field is the backend's, and the
  strategy offered is the workflow's own action when it has one.
\<close>

theorem calls_shown_in_detail:
  assumes "getWorkflowDetail base net ds wid = Inr (Obj fs)" and "wid \<noteq> []"
    and "load_json st dispatch_key = Inr (Some (Arr calls))" and "list_all call_row calls"
    and "list_or_none (fld fs ''recovery_actions'') acts" and "list_or_none (fld fs ''audit_events'') evs"
    and "ms = filter (about wid (fld fs ''workflow'')) calls" and "ms \<noteq> []" and "q = loadWorkflow base net ds st wid p"
  shows "\<exists>audits. member (dp_detail q) ''recovery_actions'' = Arr (map voice_action ms @ acts)
    \<and> member (dp_detail q) ''audit_events'' = Arr (audits @ evs)
    \<and> map (\<lambda>a. member a ''event_id'') audits = map (\<lambda>c. Str (''ev_'' @ to_str (member c ''call_sid''))) ms
    \<and> (\<forall>k. k \<noteq> ''recovery_actions'' \<and> k \<noteq> ''audit_events'' \<longrightarrow> member (dp_detail q) k = fld fs k)
    \<and> dp_error q = None \<and> \<not> dp_loading q
    \<and> dp_selectedStrategy q = orv (member (fld fs ''workflow'') ''selected_action'') (dp_selectedStrategy p)"
proof -
  obtain audits where a: "map (\<lambda>a. member a ''event_id'') audits = map (\<lambda>c. Str (''ev_'' @ to_str (member c ''call_sid''))) ms"
    and m: "merge_dispatches st wid (Obj fs) = Obj (put_field (put_field fs ''recovery_actions'' (Arr (map voice_action ms @ acts)))
        ''audit_events'' (Arr (audits @ evs)))"
    using merged_detail [OF assms(3-8)] by blast
  have "q = (if truthy (member (fld fs ''workflow'') ''selected_action'')
       then p\<lparr>dp_error := None, dp_loading := False, dp_detail := merge_dispatches st wid (Obj fs),
          dp_selectedStrategy := member (fld fs ''workflow'') ''selected_action''\<rparr>
       else p\<lparr>dp_error := None, dp_loading := False, dp_detail := merge_dispatches st wid (Obj fs)\<rparr>)"
    using assms(2) unfolding assms(9) loadWorkflow_def assms(1) Let_def sum.case m by simp
  then show ?thesis using a unfolding m by (auto simp: orv_def)
qed

definition old_call :: js where
  "old_call = Obj [(''call_sid'', Str ''CA42''), (''workflow_id'', Str ''wf_other''), (''phone'', Str ''+9198''), (''status'', Str ''EXECUTED'')]"

definition wf_7 :: "(string \<times> js) list" where
  "wf_7 = [(''workflow'', Obj [(''id'', Str ''wf_7''), (''customer_phone'', Str ''+9198'')])]"

theorem calls_shown_in_detail_witness:
  "\<exists>st. member (dp_detail (loadWorkflow ''/api'' (answering (Obj wf_7)) [] st ''wf_7'' detail_init)) ''recovery_actions''
     = Arr [voice_action old_call]"
proof -
  have ok: "js_ok (Arr [old_call])" "json_image (Arr [old_call]) = Arr [old_call]" "js_ok (Obj wf_7)" "json_image (Obj wf_7) = Obj wf_7"
    by (simp_all add: old_call_def wf_7_def)
  have d: "getWorkflowDetail ''/api'' (answering (Obj wf_7)) [] ''wf_7'' = Inr (Obj wf_7)"
    using answering_fetch [OF ok(3), of "''/api''" "''/workflows/wf_7''" no_init] ok(4) by (simp add: getWorkflowDetail_def)
  define body where "body = json_print (Arr [old_call])"
  define st where "st = \<lparr>entries = [(dispatch_key, body)], quota = 0, denied = False\<rparr>"
  have "json_parse body = Inr (Arr [old_call])" unfolding body_def using json_round_trip [OF ok(1)] ok(2) by simp
  moreover have "body \<noteq> []" by (simp add: body_def)
  ultimately have l: "load_json st dispatch_key = Inr (Some (Arr [old_call]))"
    by (auto simp: load_json_def getItem_def st_def split: list.splits)
  have c: "list_all call_row [old_call]" by (simp add: call_row_def old_call_def nullish_def)
  have r: "list_or_none (fld wf_7 ''recovery_actions'') []" and a: "list_or_none (fld wf_7 ''audit_events'') []"
    by (simp_all add: list_or_none_def wf_7_def nullish_def)
  have m: "[old_call] = filter (about ''wf_7'' (fld wf_7 ''workflow'')) [old_call]"
    by (simp add: about_def old_call_def wf_7_def strict_eq_def)
  show ?thesis using calls_shown_in_detail [OF d _ l c r a m _ refl, of detail_init] by auto
qed

end
