(* ===== verification/ReceivablesPage.thy ===== *)
theory ReceivablesPage
  imports KeyedMerge
begin

text \<open>
  \<open>apps/web/src/app/receivables/page.tsx\<close>: the ledger of business invoices. The page's React state is a
  record; a handler takes it with the local storage and yields both changed. The rows on the page are never
  \<open>null\<close> (loading reads each row's key), so a handler can only throw before its first update and yields the
  error alone; \<open>fetchReceivables\<close>, which stops loading before its fallback can fail, yields the error beside the state.
\<close>

subsection \<open>State\<close>

record InvoiceForm =
  fm_invoice_number :: js
  fm_buyer_company :: js
  fm_buyer_name :: js
  fm_buyer_email :: js
  fm_amount :: string
  fm_credit_terms :: js
  fm_due_date :: string
  fm_payment_link_url :: js

record receivables_page =
  rp_invoices :: "js list"
  rp_summary :: js
  rp_loading :: bool
  rp_notice :: "string option"
  rp_timers :: nat
  rp_showCreateModal :: bool
  rp_editing :: "js option"
  rp_audited :: "js option"
  rp_form :: InvoiceForm

definition days_from :: "int \<Rightarrow> int \<Rightarrow> err + string" where
  \<comment> \<open>\<open>new Date(Date.now() + d * 86400000).toISOString()\<close>\<close>
  "days_from t d = to_iso (time_clip (nadd (nint t) (nint (d * 86400000))))"

definition demo_row :: "clock \<Rightarrow> nat \<Rightarrow> string \<Rightarrow> string \<Rightarrow> string \<Rightarrow> string \<Rightarrow> string \<Rightarrow> int \<Rightarrow> string \<Rightarrow> int \<Rightarrow> int
    \<Rightarrow> string \<Rightarrow> int \<Rightarrow> int \<Rightarrow> err + js" where
  "demo_row now i key number company buyer email amount bucket overdue stage terms age due =
    seqE (days_from (now (2 * i)) (- age)) (\<lambda>created.
    seqE (days_from (now (2 * i + 1)) due) (\<lambda>due_date. Inr (Obj [
      (''id'', Str key),
      (''invoice_number'', Str number),
      (''buyer_company'', Str company),
      (''buyer_name'', Str buyer),
      (''buyer_email'', Str email),
      (''amount'', js_int amount),
      (''currency'', Str ''INR''),
      (''current_bucket'', Str bucket),
      (''days_past_due'', js_int overdue),
      (''dunning_stage'', js_int stage),
      (''credit_terms'', Str terms),
      (''payment_link_url'', Str (''https://checkout.reviveos.io/pay/'' @ number)),
      (''created_at'', Str created),
      (''due_date'', Str due_date)])))"

definition DEMO_B2B_INVOICES :: "clock \<Rightarrow> err + js list" where
  "DEMO_B2B_INVOICES now = mapE (\<lambda>x. x) [
     demo_row now 0 ''b2b_inv_001'' ''INV-IND-901'' ''Bharat Cloud Labs'' ''Vikram Mehta'' ''vikram@bharatcloud.in''
       450000 ''1_30'' 15 1 ''NET_30'' 45 (- 15),
     demo_row now 1 ''b2b_inv_002'' ''INV-IND-902'' ''Deccan Logistics Pvt Ltd'' ''Ananya Iyer'' ''accounts@deccanlogistics.com''
       185000 ''31_60'' 40 2 ''NET_30'' 70 (- 40),
     demo_row now 2 ''b2b_inv_003'' ''INV-IND-903'' ''Zest Enterprise SaaS'' ''Rohan Roy'' ''finance@zestsaas.io''
       89000 ''CURRENT'' 0 0 ''NET_15'' 5 10]"

definition blank_form :: InvoiceForm where
  "blank_form = \<lparr>fm_invoice_number = Str [], fm_buyer_company = Str [], fm_buyer_name = Str [], fm_buyer_email = Str [],
     fm_amount = [], fm_credit_terms = Str ''NET_30'', fm_due_date = [], fm_payment_link_url = Str []\<rparr>"

definition receivables_init :: "js list \<Rightarrow> receivables_page" where
  "receivables_init demo = \<lparr>rp_invoices = demo, rp_summary = Null, rp_loading = True, rp_notice = None, rp_timers = 0,
     rp_showCreateModal = False, rp_editing = None, rp_audited = None, rp_form = blank_form\<rparr>"

subsection \<open>The ageing summary\<close>

record buckets =
  bk_total :: number
  bk_curr :: number
  bk_b1 :: number
  bk_b2 :: number

definition add_invoice :: "buckets \<Rightarrow> js \<Rightarrow> err + buckets" where
  "add_invoice s row = seqE (get row ''amount'') (\<lambda>_.
    let amt = amount_of row ''amount''; t = s\<lparr>bk_total := nadd (bk_total s) amt\<rparr>
    in Inr (if member row ''current_bucket'' = Str ''CURRENT'' then t\<lparr>bk_curr := nadd (bk_curr s) amt\<rparr>
       else if member row ''current_bucket'' = Str ''1_30'' then t\<lparr>bk_b1 := nadd (bk_b1 s) amt\<rparr>
       else t\<lparr>bk_b2 := nadd (bk_b2 s) amt\<rparr>))"

definition no_buckets :: buckets where
  "no_buckets = \<lparr>bk_total = nint 0, bk_curr = nint 0, bk_b1 = nint 0, bk_b2 = nint 0\<rparr>"

definition recalcSummary :: "js list \<Rightarrow> err + js" where
  "recalcSummary invList = seqE (foldlE add_invoice no_buckets invList) (\<lambda>s. Inr (Obj [
     (''total_outstanding'', Num (bk_total s)),
     (''current_due'', Num (bk_curr s)),
     (''bucket_1_30'', Num (bk_b1 s)),
     (''bucket_31_60'', Num (bk_b2 s))]))"

subsection \<open>Loading the ledger\<close>

definition ledger_key :: string where
  "ledger_key = ''revive_b2b_invoices''"

definition invoice_key :: "js \<Rightarrow> err + js" where
  "invoice_key = key_or ''invoice_number'' ''id''"

definition local_invoices :: "storage \<Rightarrow> js" where
  \<comment> \<open>whatever JSON value is stored; nothing readable counts as an empty list\<close>
  "local_invoices st = (case load_json st ledger_key of Inr (Some v) \<Rightarrow> v | _ \<Rightarrow> Arr [])"

definition online_ledger :: "js list \<Rightarrow> js \<Rightarrow> js \<Rightarrow> err + (js list \<times> js)" where
  "online_ledger demo local data = seqE (get data ''invoices'') (\<lambda>invs. let apiInvoices = orv invs (Arr []) in
     seqE (as_iterable local) (\<lambda>ls.
     seqE (foldlE (push_new invoice_key) ([], []) ls) (\<lambda>st1.
     seqE (as_iterable apiInvoices) (\<lambda>as.
     seqE (foldlE (push_new invoice_key) st1 as) (\<lambda>st2.
     seqE (foldlE (push_new invoice_key) st2 demo) (\<lambda>st3.
     seqE (recalcSummary (snd st3)) (\<lambda>summary. Inr (snd st3, summary))))))))"

definition offline_ledger :: "js list \<Rightarrow> js \<Rightarrow> err + (js list \<times> js)" where
  "offline_ledger demo local = seqE (as_array local) (\<lambda>ls.
     seqE (merge_rows invoice_key [''invoice_number'', ''id''] ls demo) (\<lambda>fallback.
     seqE (recalcSummary fallback) (\<lambda>summary. Inr (fallback, summary))))"

definition fetchReceivables ::
  "string \<Rightarrow> fetch \<Rightarrow> storage \<Rightarrow> js list \<Rightarrow> receivables_page \<Rightarrow> receivables_page \<times> err option" where
  "fetchReceivables base net st demo p =
    (let localInvoices = local_invoices st;
         loaded = p\<lparr>rp_loading := False\<rparr>;
         online = seqE (net (plain_get (base @ ''/v1/receivables''))) (\<lambda>res.
           if res_ok res then seqE (res_json res) (\<lambda>data. seqE (online_ledger demo localInvoices data) (\<lambda>r. Inr (Some r)))
           else Inr None)
     in case online of
          Inr (Some (invs, summary)) \<Rightarrow> (loaded\<lparr>rp_invoices := invs, rp_summary := summary\<rparr>, None)
        | _ \<Rightarrow> (case offline_ledger demo localInvoices of
              Inr (invs, summary) \<Rightarrow> (loaded\<lparr>rp_invoices := invs, rp_summary := summary\<rparr>, None)
            | Inl e \<Rightarrow> (loaded, Some e)))"

subsection \<open>Dunning notices\<close>

definition show_notice :: "string \<Rightarrow> receivables_page \<Rightarrow> receivables_page" where
  \<comment> \<open>the notice, and the timer that clears it\<close>
  "show_notice m p = p\<lparr>rp_notice := Some m, rp_timers := Suc (rp_timers p)\<rparr>"

definition fire_timer :: "receivables_page \<Rightarrow> receivables_page" where
  "fire_timer p = p\<lparr>rp_notice := None, rp_timers := rp_timers p - 1\<rparr>"

definition payment_link :: "js \<Rightarrow> string" where
  \<comment> \<open>\<open>row.payment_link_url || 'https://checkout.reviveos.io/pay/' + row.invoice_number\<close>\<close>
  "payment_link row = to_str (orv (member row ''payment_link_url'')
     (Str (''https://checkout.reviveos.io/pay/'' @ to_str (member row ''invoice_number''))))"

definition triggerDunning :: "string \<Rightarrow> fetch \<Rightarrow> js \<Rightarrow> receivables_page \<Rightarrow> receivables_page" where
  "triggerDunning base net row p =
    (case seqE (net (json_post (base @ ''/v1/receivables/dunning/trigger'') (Obj [(''invoice_id'', member row ''id'')]))) (\<lambda>res.
        if res_ok res then seqE (res_json res) (\<lambda>_.
          Inr (''Dispatch successful! Payment link '' @ payment_link row @ '' emailed to '' @ to_str (member row ''buyer_email'')))
        else Inr (''Dispatch link emailed to '' @ to_str (member row ''buyer_email'') @ '' with payment link.'')) of
       Inr m \<Rightarrow> show_notice m p
     | Inl _ \<Rightarrow> show_notice (''Direct dispatch generated: Link '' @ payment_link row @ '' sent to '' @ to_str (member row ''buyer_email'')) p)"

subsection \<open>The invoice form\<close>

definition random_number :: "rng \<Rightarrow> string" where
  \<comment> \<open>\<open>`INV-IND-${Math.floor(100 + Math.random() * 900)}`\<close>\<close>
  "random_number random = ''INV-IND-'' @ num_to_string (nfloor (nadd (nint 100) (nmul (Fin (random 0)) (nint 900))))"

definition trimmed_or :: "js \<Rightarrow> string \<Rightarrow> err + string" where
  \<comment> \<open>\<open>v.trim() || d\<close>\<close>
  "trimmed_or v d = seqE (as_string v) (\<lambda>s. Inr (if trim s = [] then d else trim s))"

definition same_invoice :: "js \<Rightarrow> js \<Rightarrow> bool" where
  "same_invoice editing row \<longleftrightarrow> strict_eq (member row ''id'') (member editing ''id'')
     \<or> strict_eq (member row ''invoice_number'') (member editing ''invoice_number'')"

definition form_amount :: "InvoiceForm \<Rightarrow> number" where
  \<comment> \<open>\<open>parseFloat(formData.amount) || 50000\<close>\<close>
  "form_amount f = (let n = parse_float (fm_amount f) in if ntruthy n then n else nint 50000)"

definition edited_row :: "InvoiceForm \<Rightarrow> string \<Rightarrow> js \<Rightarrow> err + js" where
  "edited_row f link row = seqE
     (if fm_due_date f \<noteq> [] then seqE (to_iso (date_parse (fm_due_date f))) (\<lambda>s. Inr (Str s)) else Inr (member row ''due_date''))
     (\<lambda>due. Inr (Obj (spread (fields_of row) [
        (''buyer_company'', fm_buyer_company f),
        (''buyer_name'', fm_buyer_name f),
        (''buyer_email'', fm_buyer_email f),
        (''amount'', Num (form_amount f)),
        (''credit_terms'', fm_credit_terms f),
        (''payment_link_url'', Str link),
        (''due_date'', due)])))"

definition new_row :: "clock \<Rightarrow> InvoiceForm \<Rightarrow> string \<Rightarrow> string \<Rightarrow> err + js" where
  "new_row now f invNum link =
    seqE (to_iso (time_clip (nint (now 1)))) (\<lambda>created.
    seqE (if fm_due_date f \<noteq> [] then to_iso (date_parse (fm_due_date f)) else days_from (now 2) 30) (\<lambda>due. Inr (Obj [
      (''id'', Str (''b2b_inv_'' @ num_to_string (nint (now 0)))),
      (''invoice_number'', Str invNum),
      (''buyer_company'', orv (fm_buyer_company f) (Str ''Enterprise Client Ltd'')),
      (''buyer_name'', orv (fm_buyer_name f) (Str ''Accounts Head'')),
      (''buyer_email'', orv (fm_buyer_email f) (Str ''billing@enterprise.com'')),
      (''amount'', Num (form_amount f)),
      (''currency'', Str ''INR''),
      (''credit_terms'', orv (fm_credit_terms f) (Str ''NET_30'')),
      (''current_bucket'', Str ''CURRENT''),
      (''days_past_due'', js_int 0),
      (''dunning_stage'', js_int 0),
      (''payment_link_url'', Str link),
      (''created_at'', Str created),
      (''due_date'', Str due)])))"

definition updated_list :: "clock \<Rightarrow> receivables_page \<Rightarrow> string \<Rightarrow> string \<Rightarrow> err + js list" where
  "updated_list now p invNum link = (case rp_editing p of
     Some editing \<Rightarrow> mapE (\<lambda>row. if same_invoice editing row then edited_row (rp_form p) link row else Inr row) (rp_invoices p)
   | None \<Rightarrow> seqE (new_row now (rp_form p) invNum link) (\<lambda>row. Inr (row # rp_invoices p)))"

definition handleSaveInvoice ::
  "clock \<Rightarrow> rng \<Rightarrow> storage \<Rightarrow> receivables_page \<Rightarrow> err + (receivables_page \<times> storage)" where
  "handleSaveInvoice now random st p =
    seqE (trimmed_or (fm_invoice_number (rp_form p)) (random_number random)) (\<lambda>invNum.
    seqE (trimmed_or (fm_payment_link_url (rp_form p)) (''https://checkout.reviveos.io/pay/'' @ invNum)) (\<lambda>link.
    seqE (updated_list now p invNum link) (\<lambda>updatedList.
    seqE (recalcSummary updatedList) (\<lambda>summary.
    let st' = (case setItem st ledger_key (json_print (Arr updatedList)) of Inr s \<Rightarrow> s | Inl _ \<Rightarrow> st);
        message = (if rp_editing p \<noteq> None then ''Invoice '' @ invNum @ '' updated successfully.''
          else ''New B2B Invoice '' @ invNum @ '' generated and payment link created.'')
    in Inr (show_notice message (p\<lparr>rp_invoices := updatedList, rp_summary := summary, rp_showCreateModal := False,
         rp_editing := None\<rparr>), st')))))"

definition openCreate :: "clock \<Rightarrow> rng \<Rightarrow> receivables_page \<Rightarrow> err + receivables_page" where
  "openCreate now random p = seqE (days_from (now 0) 30) (\<lambda>due. Inr (p\<lparr>rp_editing := None,
     rp_form := blank_form\<lparr>fm_invoice_number := Str (random_number random),
       fm_due_date := hd (split_char (CHR ''T'') due)\<rparr>, rp_showCreateModal := True\<rparr>))"

definition openEdit :: "js \<Rightarrow> receivables_page \<Rightarrow> err + receivables_page" where
  "openEdit row p = seqE (if truthy (member row ''due_date'')
       then seqE (as_string (member row ''due_date'')) (\<lambda>s. Inr (hd (split_char (CHR ''T'') s))) else Inr []) (\<lambda>due.
     Inr (p\<lparr>rp_editing := Some row, rp_form := \<lparr>
       fm_invoice_number = member row ''invoice_number'', fm_buyer_company = member row ''buyer_company'',
       fm_buyer_name = member row ''buyer_name'', fm_buyer_email = member row ''buyer_email'',
       fm_amount = to_str (member row ''amount''), fm_credit_terms = orv (member row ''credit_terms'') (Str ''NET_30''),
       fm_due_date = due, fm_payment_link_url = orv (member row ''payment_link_url'')
         (Str (''https://checkout.reviveos.io/pay/'' @ to_str (member row ''invoice_number'')))\<rparr>,
       rp_showCreateModal := True\<rparr>))"

subsection \<open>Lemmas\<close>

interpretation invoice: row_key invoice_key "\<lambda>r. orv (member r ''invoice_number'') (member r ''id'')"
  unfolding invoice_key_def by (rule key_or_row)

abbreviation invoice_id :: "js \<Rightarrow> js" where
  "invoice_id r \<equiv> orv (member r ''invoice_number'') (member r ''id'')"

lemma online_ledger_eq:
  assumes "as_iterable (orv invs (Arr [])) = Inr as" "get data ''invoices'' = Inr invs"
    "merge_sources invoice_key [ls, as, demo] = Inr ms" "recalcSummary ms = Inr s"
  shows "online_ledger demo (Arr ls) data = Inr (ms, s)"
  using assms by (auto simp: online_ledger_def merge_sources_def)

definition in_bucket :: "string \<Rightarrow> js \<Rightarrow> bool" where
  "in_bucket b row \<longleftrightarrow> member row ''current_bucket'' = Str b"

definition older :: "js \<Rightarrow> bool" where
  "older row \<longleftrightarrow> \<not> in_bucket ''CURRENT'' row \<and> \<not> in_bucket ''1_30'' row"

definition buckets_of :: "js list \<Rightarrow> buckets" where
  "buckets_of rows = \<lparr>bk_total = nint (owed ''amount'' (\<lambda>_. True) rows), bk_curr = nint (owed ''amount'' (in_bucket ''CURRENT'') rows),
     bk_b1 = nint (owed ''amount'' (in_bucket ''1_30'') rows), bk_b2 = nint (owed ''amount'' older rows)\<rparr>"

lemma fold_buckets:
  "list_all (has_whole ''amount'') rows \<Longrightarrow> owed ''amount'' (\<lambda>_. True) rows \<le> 2 ^ 53 \<Longrightarrow> foldlE add_invoice no_buckets rows = Inr (buckets_of rows)"
proof (induction rows rule: rev_induct)
  case (snoc r rows)
  have r: "amount_of r ''amount'' = nint (whole ''amount'' r)" "0 \<le> whole ''amount'' r" "\<not> nullish r" using snoc.prems(1) by (auto dest: has_wholeD)
  have ok: "list_all (has_whole ''amount'') rows" using snoc.prems(1) by simp
  have b: "0 \<le> owed ''amount'' P rows" "owed ''amount'' P rows + whole ''amount'' r \<le> 2 ^ 53" for P
    using owed_nonneg [OF ok, of P] owed_le [OF ok, of P] snoc.prems(2) by (simp_all add: owed_snoc)
  have a: "nadd (nint (owed ''amount'' P rows)) (nint (whole ''amount'' r)) = nint (owed ''amount'' P rows + whole ''amount'' r)" for P
    using b [of P] r(2) by (intro nadd_int) linarith
  have IH: "foldlE add_invoice no_buckets rows = Inr (buckets_of rows)"
    using snoc.IH [OF ok] b(2) [of "\<lambda>_. True"] r(2) by linarith
  have "get r ''amount'' = Inr (member r ''amount'')" using r(3) by (rule get_member)
  then show ?case
    unfolding foldlE_append IH by (simp add: add_invoice_def r(1) buckets_of_def a owed_snoc older_def in_bucket_def Let_def del: of_int_add nadd.simps)
qed (simp add: no_buckets_def buckets_of_def owed_def)

lemma recalc_total: "list_all (\<lambda>r. \<not> nullish r) rows \<Longrightarrow> \<exists>s. recalcSummary rows = Inr s"
proof -
  assume "list_all (\<lambda>r. \<not> nullish r) rows"
  then have "\<exists>b. foldlE add_invoice b0 rows = Inr b" for b0
    by (induction rows arbitrary: b0) (auto simp: add_invoice_def get_member Let_def)
  then obtain b where "foldlE add_invoice no_buckets rows = Inr b" by blast
  then show ?thesis by (simp add: recalcSummary_def)
qed

subsection \<open>Properties\<close>

text \<open>
  C21: The loaded ledger has no invoice twice: with the backend reachable, no two rows share an invoice number (or id,
  when they have no number), locally saved rows go first and win over the backend's, the backend's over the
  demonstration rows, and every row of the three sources is there unless an earlier one has its number.
\<close>

theorem ledger_merged:
  assumes "net (plain_get (base @ ''/v1/receivables'')) = Inr res" and "res_ok res" and "res_json res = Inr data"
    and "member data ''invoices'' = Arr api" and "local_invoices st = Arr ls"
    and "list_all (\<lambda>r. \<not> nullish r) (ls @ api @ demo)"
  shows "snd (fetchReceivables base net st demo p) = None
    \<and> \<not> rp_loading (fst (fetchReceivables base net st demo p))
    \<and> sorted_wrt (\<lambda>a b. \<not> same_key (invoice_id a) (invoice_id b)) (rp_invoices (fst (fetchReceivables base net st demo p)))
    \<and> prefix (firsts invoice_id [] ls) (rp_invoices (fst (fetchReceivables base net st demo p)))
    \<and> prefix (firsts invoice_id [] (ls @ api)) (rp_invoices (fst (fetchReceivables base net st demo p)))
    \<and> set (rp_invoices (fst (fetchReceivables base net st demo p))) \<subseteq> set (ls @ api @ demo)
    \<and> (\<forall>r\<in>set (ls @ api @ demo). \<exists>q\<in>set (rp_invoices (fst (fetchReceivables base net st demo p))).
         q = r \<or> same_key (invoice_id q) (invoice_id r))"
proof -
  have g: "get data ''invoices'' = Inr (Arr api)" using orv_Arr [OF assms(4)] by blast
  let ?ms = "firsts invoice_id [] (ls @ api @ demo)"
  have m: "merge_sources invoice_key [ls, api, demo] = Inr ?ms"
    using invoice.merge_sources_firsts [of "[ls, api, demo]"] assms(6) by simp
  have sub: "set ?ms \<subseteq> set (ls @ api @ demo)" by (rule firsts_sub)
  then have "list_all (\<lambda>r. \<not> nullish r) ?ms" using assms(6) unfolding list_all_iff by blast
  then obtain s where s: "recalcSummary ?ms = Inr s" using recalc_total by blast
  have o: "online_ledger demo (Arr ls) data = Inr (?ms, s)" by (rule online_ledger_eq [OF _ g m s]) simp
  then have f: "fetchReceivables base net st demo p = (p\<lparr>rp_loading := False, rp_invoices := ?ms, rp_summary := s\<rparr>, None)"
    using assms(1-3,5) by (simp add: fetchReceivables_def Let_def)
  have "prefix (firsts invoice_id [] ls) ?ms" by (simp add: firsts_append)
  moreover have "prefix (firsts invoice_id [] (ls @ api)) ?ms" using firsts_append [of invoice_id "[]" "ls @ api" demo] by simp
  moreover have "\<forall>r\<in>set (ls @ api @ demo). \<exists>q\<in>set ?ms. q = r \<or> same_key (invoice_id q) (invoice_id r)"
    by (intro ballI firsts_covers)
  moreover have sel: "rp_invoices (p\<lparr>rp_loading := False, rp_invoices := ?ms, rp_summary := s\<rparr>) = ?ms"
    "\<not> rp_loading (p\<lparr>rp_loading := False, rp_invoices := ?ms, rp_summary := s\<rparr>)" by simp_all
  ultimately show ?thesis
    unfolding f fst_conv snd_conv sel using sub firsts_distinct [of invoice_id "[]"] sel(2) by (intro conjI refl) assumption+
qed

lemma fresh_local: "local_invoices fresh_storage = Arr []"
  by (simp add: local_invoices_def load_json_def getItem_def fresh_storage_def)

definition api_invoice :: js where
  "api_invoice = Obj [(''id'', Str ''b2b_inv_9''), (''invoice_number'', Str ''INV-9'')]"

theorem ledger_merged_witness:
  "rp_invoices (fst (fetchReceivables ''/api'' (answering (Obj [(''invoices'', Arr [api_invoice, api_invoice])])) fresh_storage [] (receivables_init [])))
    \<noteq> [api_invoice, api_invoice]"
proof
  let ?v = "Obj [(''invoices'', Arr [api_invoice, api_invoice])]"
  assume twice: "rp_invoices (fst (fetchReceivables ''/api'' (answering ?v) fresh_storage [] (receivables_init []))) = [api_invoice, api_invoice]"
  have j: "res_json (json_response ?v) = Inr ?v" by (subst json_response_round_trip) (simp_all add: api_invoice_def)
  have n: "answering ?v (plain_get (''/api'' @ ''/v1/receivables'')) = Inr (json_response ?v)" by (simp add: answering_def)
  have m: "member ?v ''invoices'' = Arr [api_invoice, api_invoice]" by simp
  have l: "list_all (\<lambda>r. \<not> nullish r) ([] @ [api_invoice, api_invoice] @ [])" by (simp add: nullish_def api_invoice_def)
  have "sorted_wrt (\<lambda>a b. \<not> same_key (invoice_id a) (invoice_id b)) [api_invoice, api_invoice]"
    using ledger_merged [where base = "''/api''" and net = "answering ?v" and res = "json_response ?v" and ls = "[]" and demo = "[]" and p = "receivables_init []",
      OF n json_response_ok j m fresh_local l] unfolding twice by blast
  then show False by (simp add: api_invoice_def same_key_def)
qed

text \<open>
  C22: The ageing summary conserves money. For whole amounts the total outstanding is exactly the sum of all amounts
  and splits into the current ones, those one to 30 days overdue and all others, so the card labelled 31 to 60
  days also holds whatever is older than 60.
\<close>

theorem summary_conserves:
  assumes "list_all (has_whole ''amount'') rows" and "owed ''amount'' (\<lambda>_. True) rows \<le> 2 ^ 53"
  shows "recalcSummary rows = Inr (Obj [
       (''total_outstanding'', js_int (owed ''amount'' (\<lambda>_. True) rows)),
       (''current_due'', js_int (owed ''amount'' (in_bucket ''CURRENT'') rows)),
       (''bucket_1_30'', js_int (owed ''amount'' (in_bucket ''1_30'') rows)),
       (''bucket_31_60'', js_int (owed ''amount'' older rows))])
    \<and> owed ''amount'' (\<lambda>_. True) rows = owed ''amount'' (in_bucket ''CURRENT'') rows + owed ''amount'' (in_bucket ''1_30'') rows + owed ''amount'' older rows"
proof
  show "recalcSummary rows = Inr (Obj [
       (''total_outstanding'', js_int (owed ''amount'' (\<lambda>_. True) rows)),
       (''current_due'', js_int (owed ''amount'' (in_bucket ''CURRENT'') rows)),
       (''bucket_1_30'', js_int (owed ''amount'' (in_bucket ''1_30'') rows)),
       (''bucket_31_60'', js_int (owed ''amount'' older rows))])"
    using fold_buckets [OF assms] by (simp add: recalcSummary_def buckets_of_def)
  show "owed ''amount'' (\<lambda>_. True) rows = owed ''amount'' (in_bucket ''CURRENT'') rows + owed ''amount'' (in_bucket ''1_30'') rows + owed ''amount'' older rows"
    by (induction rows) (auto simp: owed_def older_def in_bucket_def)
qed

theorem summary_conserves_witness:
  "recalcSummary [Obj [(''amount'', js_int 500), (''current_bucket'', Str ''61_90'')]]
    = Inr (Obj [(''total_outstanding'', js_int 500), (''current_due'', js_int 0), (''bucket_1_30'', js_int 0), (''bucket_31_60'', js_int 500)])"
proof -
  let ?r = "Obj [(''amount'', js_int 500), (''current_bucket'', Str ''61_90'')]"
  have r: "amount_of ?r ''amount'' = nint 500" by (simp add: amount_of_def)
  then have w: "whole ''amount'' ?r = 500" "has_whole ''amount'' ?r" by (auto simp: whole_def has_whole_def nullish_def intro: exI [of _ 500])
  have l: "list_all (has_whole ''amount'') [?r]" and b: "owed ''amount'' (\<lambda>_. True) [?r] \<le> 2 ^ 53" using w by (simp_all add: owed_def)
  show ?thesis using summary_conserves [OF l b] w(1) by (simp add: owed_def in_bucket_def older_def)
qed

definition is_row :: "js \<Rightarrow> bool" where
  "is_row r \<longleftrightarrow> (\<exists>fs. r = Obj fs)"

lemma updated_rows:
  assumes "updated_list now p invNum link = Inr rows" "list_all is_row (rp_invoices p)" shows "list_all is_row rows"
proof (cases "rp_editing p")
  case None
  with assms show ?thesis by (auto simp: updated_list_def new_row_def is_row_def)
next
  case (Some e)
  have "list_all is_row xs" if "mapE (\<lambda>row. if same_invoice e row then edited_row f link row else Inr row) ys = Inr xs"
      "list_all is_row ys" for f xs ys
    using that by (induction ys arbitrary: xs) (auto simp: edited_row_def is_row_def split: if_splits)
  then show ?thesis using assms Some by (simp add: updated_list_def)
qed

lemma load_saved:
  assumes "setItem st ledger_key (json_print (Arr rows)) = Inr st'" "js_ok (Arr rows)"
  shows "local_invoices st' = Arr (image_items rows)"
proof -
  have "json_print (Arr rows) \<noteq> []" by simp
  from load_stored [OF assms this] show ?thesis by (simp add: local_invoices_def)
qed

lemma image_rows: "list_all is_row rows \<Longrightarrow> list_all (\<lambda>r. \<not> nullish r) (image_items rows)"
  by (induction rows) (auto simp: is_row_def nullish_def)

lemma offline_load:
  assumes "net (plain_get (base @ ''/v1/receivables'')) = Inl e" "local_invoices st = Arr ls" "list_all (\<lambda>r. \<not> nullish r) (ls @ demo)"
  shows "\<exists>s. fetchReceivables base net st demo p = (p\<lparr>rp_loading := False,
    rp_invoices := ls @ filter (\<lambda>d. \<forall>r\<in>set ls. \<not> same_key (invoice_id r) (member d ''invoice_number'')
      \<and> \<not> same_key (invoice_id r) (member d ''id'')) demo, rp_summary := s\<rparr>, None)"
proof -
  obtain ms where ms: "merge_rows invoice_key [''invoice_number'', ''id''] ls demo = Inr ms"
    using invoice.merge_total assms(3) by fastforce
  then have m: "ms = ls @ filter (\<lambda>d. \<forall>r\<in>set ls. \<not> same_key (invoice_id r) (member d ''invoice_number'')
      \<and> \<not> same_key (invoice_id r) (member d ''id'')) demo"
    using invoice.merged [OF ms] by (simp add: list_ex_iff)
  then have "list_all (\<lambda>r. \<not> nullish r) ms" using assms(3) by (auto simp: list_all_iff)
  then obtain s where s: "recalcSummary ms = Inr s" using recalc_total by blast
  show ?thesis
    unfolding m [symmetric] using assms(1) by (intro exI [of _ s]) (simp add: fetchReceivables_def Let_def assms(2) offline_ledger_def ms s)
qed


definition form_9 :: InvoiceForm where
  "form_9 = blank_form\<lparr>fm_invoice_number := Str ''INV-9'', fm_payment_link_url := Str ''https://pay/9''\<rparr>"

lemma save_9:
  obtains row where "\<And>st. handleSaveInvoice (\<lambda>_. 0) random st (receivables_init []\<lparr>rp_form := form_9\<rparr>)
      = Inr (show_notice ''New B2B Invoice INV-9 generated and payment link created.''
          (receivables_init []\<lparr>rp_form := form_9, rp_invoices := [row],
            rp_summary := (case recalcSummary [row] of Inr s \<Rightarrow> s | Inl _ \<Rightarrow> Undef), rp_showCreateModal := False, rp_editing := None\<rparr>),
          case setItem st ledger_key (json_print (Arr [row])) of Inr s \<Rightarrow> s | Inl _ \<Rightarrow> st)"
    and "js_ok (Arr [row])"
proof -
  have a: "nadd (nint 0) (nint 2592000000) = nint 2592000000" using nadd_int [of 0 2592000000] by simp
  have d: "days_from 0 30 = Inr (iso_string 2592000000)"
    by (simp add: days_from_def a [simplified] time_clip_def max_time_def to_iso_def)
  have c: "to_iso (time_clip (nint 0)) = Inr (iso_string 0)" by (simp add: time_clip_def max_time_def to_iso_def)
  have t: "trimmed_or (Str ''INV-9'') r = Inr ''INV-9''" "trimmed_or (Str ''https://pay/9'') r = Inr ''https://pay/9''" for r
    by (simp_all add: trimmed_or_def trim_def is_ws_def)
  have nums: "fm_invoice_number form_9 = Str ''INV-9''" "fm_payment_link_url form_9 = Str ''https://pay/9''"
    by (simp_all add: form_9_def blank_form_def)
  have f: "form_amount form_9 = nint 50000"
    by (simp add: form_amount_def form_9_def blank_form_def parse_float_def trim_start_def read_signed_def read_decimal_def
      read_frac_def ntruthy_def Let_def)
  obtain row where r: "new_row (\<lambda>_. 0) form_9 ''INV-9'' ''https://pay/9'' = Inr row" "js_ok (Arr [row])" "\<not> nullish row"
    using prints_int [of 50000] prints_int [of 0] c d
    by (auto simp: new_row_def f nullish_def) (auto simp: form_9_def blank_form_def)
  obtain s where s: "recalcSummary [row] = Inr s" using recalc_total [of "[row]"] r(3) by auto
  show thesis
    by (rule that [of row]) (use r(2) in \<open>simp_all add: handleSaveInvoice_def receivables_init_def nums t updated_list_def r(1) s Let_def
      show_notice_def\<close>)
qed


lemma spread_fld: "k \<notin> fst ` set b \<Longrightarrow> fld (spread a b) k = fld a k"
  by (induction b arbitrary: a) (auto simp: spread_def)

lemma edited_row_keeps:
  assumes "edited_row f link row = Inr r" "is_row row"
  shows "member r ''id'' = member row ''id'' \<and> member r ''invoice_number'' = member row ''invoice_number''"
  using assms by (auto simp: edited_row_def is_row_def fields_of_def spread_fld split: if_splits)

text \<open>
  Editing an invoice changes its row alone and never its number: rows of other invoices keep every field, and
  every row keeps its id and invoice number, whatever number was typed. The confirmation still reports
  the typed number.
\<close>

lemma edit_keeps_number:
  assumes "handleSaveInvoice now random st p = Inr (p', st')" and "rp_editing p = Some e" and "list_all is_row (rp_invoices p)"
  shows "list_all2 (\<lambda>r r'. (if same_invoice e r then member r' ''id'' = member r ''id''
        \<and> member r' ''invoice_number'' = member r ''invoice_number'' else r' = r)) (rp_invoices p) (rp_invoices p')
    \<and> (\<exists>n. trimmed_or (fm_invoice_number (rp_form p)) (random_number random) = Inr n
        \<and> rp_notice p' = Some (''Invoice '' @ n @ '' updated successfully.''))"
proof -
  obtain n link rows where n: "trimmed_or (fm_invoice_number (rp_form p)) (random_number random) = Inr n"
    and u: "updated_list now p n link = Inr rows" and p': "rp_invoices p' = rows"
      "rp_notice p' = Some (''Invoice '' @ n @ '' updated successfully.'')"
    using assms(1,2) by (auto simp: handleSaveInvoice_def Let_def show_notice_def)
  have "mapE (\<lambda>row. if same_invoice e row then edited_row (rp_form p) link row else Inr row) (rp_invoices p) = Inr rows"
    using u assms(2) by (simp add: updated_list_def)
  then have "list_all2 (\<lambda>r r'. (if same_invoice e r then member r' ''id'' = member r ''id''
        \<and> member r' ''invoice_number'' = member r ''invoice_number'' else r' = r)) (rp_invoices p) rows"
  proof (rule mapE_all2)
    fix r r'
    assume r: "r \<in> set (rp_invoices p)" and e: "(if same_invoice e r then edited_row (rp_form p) link r else Inr r) = Inr r'"
    have "is_row r" using r assms(3) by (simp add: list_all_iff)
    with e show "if same_invoice e r then member r' ''id'' = member r ''id''
        \<and> member r' ''invoice_number'' = member r ''invoice_number'' else r' = r"
      using edited_row_keeps by (auto split: if_splits)
  qed
  with n p' show ?thesis by simp
qed

end
