(* ===== verification/AuditReports.thy ===== *)
theory AuditReports
  imports DetailPage ReceivablesPage JsFormat
begin

text \<open>
  The two audit reports the console exports: \<open>downloadAuditReport\<close> of \<open>receivables/page.tsx\<close> and
  \<open>exportWorkflowAuditReport\<close> of \<open>workflows/[id]/page.tsx\<close>, with their complete text. A report is offered as a
  download or written into a new window; how a date reads in the browser's time zone is a parameter.
\<close>

subsection \<open>Formatting\<close>

definition locale_in :: "number \<Rightarrow> string" where
  \<comment> \<open>\<open>n.toLocaleString('en-IN')\<close>\<close>
  "locale_in = locale_num 0"

definition utc_string :: "int \<Rightarrow> string" where
  \<comment> \<open>\<open>new Date(t).toUTCString()\<close>\<close>
  "utc_string t = (let d = t div 86400000; s = t mod 86400000; (y, m, day) = civil d
     in [''Sun'', ''Mon'', ''Tue'', ''Wed'', ''Thu'', ''Fri'', ''Sat''] ! nat ((d + 4) mod 7) @ '', '' @ pad 2 day @ '' ''
        @ [''Jan'', ''Feb'', ''Mar'', ''Apr'', ''May'', ''Jun'', ''Jul'', ''Aug'', ''Sep'', ''Oct'', ''Nov'', ''Dec''] ! nat (m - 1) @ '' ''
        @ (if y < 0 then ''-'' else []) @ pad 4 \<bar>y\<bar> @ '' ''
        @ pad 2 (s div 3600000) @ '':'' @ pad 2 (s div 60000 mod 60) @ '':'' @ pad 2 (s div 1000 mod 60) @ '' GMT'')"

definition text_or :: "js \<Rightarrow> string \<Rightarrow> string \<Rightarrow> string" where
  \<comment> \<open>\<open>v?.k || d\<close> inside a text\<close>
  "text_or v k d = to_str (orv (member v k) (Str d))"

definition formatDate :: "(js \<Rightarrow> string) \<Rightarrow> js \<Rightarrow> string" where
  "formatDate local_date dateStr = (if truthy dateStr then local_date dateStr else [CHR 0xE2, CHR 0x80, CHR 0x94])"

definition percent_text :: "nat \<Rightarrow> js \<Rightarrow> string" where
  \<comment> \<open>\<open>(p * 100).toFixed(d)\<close>\<close>
  "percent_text d p = to_fixed d (nmul (to_num p) (nint 100))"

definition predicted :: "js \<Rightarrow> string" where
  "predicted pred = (if truthy (member pred ''probability'') then percent_text 0 (member pred ''probability'')
     else if truthy (member pred ''confidence_score'') then percent_text 0 (member pred ''confidence_score'') else ''88'')"

definition report_lines :: "string list \<Rightarrow> string" where
  \<comment> \<open>a template literal: lines separated by newlines, closed by the indentation of the backtick\<close>
  "report_lines ls = text_lines (ls @ [''    ''])"

subsection \<open>The documents\<close>

definition report_style :: "string list" where
  "report_style = [
     ''          body { font-family: 'Segoe UI', Arial, sans-serif; padding: 40px; color: #1e293b; line-height: 1.6; }'',
     ''          .header { border-bottom: 2px solid #8b5cf6; padding-bottom: 20px; margin-bottom: 30px; }'',
     ''          .title { font-size: 24px; font-weight: 800; color: #0f172a; }'',
     ''          .subtitle { font-size: 14px; color: #64748b; margin-top: 4px; }'',
     ''          .badge { display: inline-block; padding: 4px 10px; border-radius: 4px; font-weight: 700; font-size: 12px; background: #e0e7ff; color: #4338ca; }'',
     ''          .grid { display: grid; grid-template-columns: 1fr 1fr; gap: 20px; margin-bottom: 30px; }'',
     ''          .card { background: #f8fafc; border: 1px solid #e2e8f0; padding: 16px; border-radius: 8px; }'',
     ''          .card-title { font-size: 12px; font-weight: 700; color: #64748b; text-transform: uppercase; }'',
     ''          .card-value { font-size: 18px; font-weight: 800; color: #0f172a; margin-top: 4px; }'',
     ''          .timeline { margin-top: 30px; border-left: 2px solid #cbd5e1; padding-left: 20px; }'',
     ''          .step { margin-bottom: 20px; position: relative; }'',
     ''          .step-dot { position: absolute; left: -26px; top: 4px; width: 10px; height: 10px; border-radius: 50%; background: #8b5cf6; }'',
     ''          .step-title { font-weight: 700; font-size: 14px; color: #0f172a; }'',
     ''          .step-desc { font-size: 13px; color: #475569; margin-top: 2px; }'',
     ''          .step-hash { font-family: monospace; font-size: 11px; color: #94a3b8; }'',
     ''          .footer { margin-top: 50px; font-size: 11px; color: #94a3b8; border-top: 1px solid #e2e8f0; padding-top: 15px; }'']"

definition receivables_report :: "int \<Rightarrow> js \<Rightarrow> string" where
  "receivables_report t row = report_lines ([
     [],
     ''      <!DOCTYPE html>'',
     ''      <html>'',
     ''      <head>'',
     ''        <title>B2B Receivables Audit Report - '' @ to_str (member row ''invoice_number'') @ ''</title>'',
     ''        <style>''] @ report_style @ [
     ''        </style>'',
     ''      </head>'',
     ''      <body>'',
     ''        <div class='' @ dq ''header'' @ ''>'',
     ''          <div class='' @ dq ''title'' @ ''>ReviveOS B2B Receivables & Dunning Audit Dossier</div>'',
     ''          <div class='' @ dq ''subtitle'' @ ''>Complete Cryptographic Chain of Custody & Recovery Lifecycle</div>'',
     ''        </div>'',
     [],
     ''        <div class='' @ dq ''grid'' @ ''>'',
     ''          <div class='' @ dq ''card'' @ ''>'',
     ''            <div class='' @ dq ''card-title'' @ ''>Invoice Details</div>'',
     ''            <div class='' @ dq ''card-value'' @ ''>'' @ to_str (member row ''invoice_number'') @ ''</div>'',
     ''            <div style='' @ dq ''font-size: 13px; margin-top: 4px;'' @ ''>Entity: <b>'' @ to_str (member row ''buyer_company'') @ ''</b></div>'',
     ''            <div style='' @ dq ''font-size: 13px;'' @ ''>Contact: '' @ to_str (member row ''buyer_name'') @ '' ('' @ to_str (member row ''buyer_email'') @ '')</div>'',
     ''          </div>'',
     ''          <div class='' @ dq ''card'' @ ''>'',
     ''            <div class='' @ dq ''card-title'' @ ''>Financial Exposure</div>'',
     ''            <div class='' @ dq ''card-value'' @ ''>'' @ [CHR 0xE2, CHR 0x82, CHR 0xB9] @ locale_in (to_num (member row ''amount'')) @ '' '' @ text_or row ''currency'' ''INR'' @ ''</div>'',
     ''            <div style='' @ dq ''font-size: 13px; margin-top: 4px;'' @ ''>Aging Bucket: <span class='' @ dq ''badge'' @ ''>'' @ to_str (member row ''current_bucket'') @ ''</span></div>'',
     ''            <div style='' @ dq ''font-size: 13px;'' @ ''>Days Past Due: <b>'' @ to_str (member row ''days_past_due'') @ '' Days</b> | Terms: <b>'' @ text_or row ''credit_terms'' ''NET_30'' @ ''</b></div>'',
     ''          </div>'',
     ''        </div>'',
     [],
     ''        <h3 style='' @ dq ''font-size: 16px; margin-bottom: 15px;'' @ ''>Step-by-Step Recovery & Audit Trail</h3>'',
     ''        <div class='' @ dq ''timeline'' @ ''>'',
     ''          <div class='' @ dq ''step'' @ ''>'',
     ''            <div class='' @ dq ''step-dot'' @ ''></div>'',
     ''            <div class='' @ dq ''step-title'' @ ''>1. Invoice Ingestion & ERP Ledger Reconcile</div>'',
     ''            <div class='' @ dq ''step-desc'' @ ''>Invoice created under credit term '' @ text_or row ''credit_terms'' ''NET_30'' @ ''. Net maturity tracked against ERP bank ledger.</div>'',
     ''            <div class='' @ dq ''step-hash'' @ ''>Block Hash: 0x7f88a91b... '' @ [CHR 0xE2, CHR 0x80, CHR 0xA2] @ '' Actor: system:erp_ingestion</div>'',
     ''          </div>'',
     ''          <div class='' @ dq ''step'' @ ''>'',
     ''            <div class='' @ dq ''step-dot'' @ ''></div>'',
     ''            <div class='' @ dq ''step-title'' @ ''>2. Smart Aging Bucket Classification</div>'',
     ''            <div class='' @ dq ''step-desc'' @ ''>Classified as <b>'' @ to_str (member row ''current_bucket'') @ ''</b> ('' @ to_str (member row ''days_past_due'') @ '' days overdue). Scheduled automated dunning cadence.</div>'',
     ''            <div class='' @ dq ''step-hash'' @ ''>Payload Hash: sha256_e810a992... '' @ [CHR 0xE2, CHR 0x80, CHR 0xA2] @ '' Actor: ai:dunning_orchestrator</div>'',
     ''          </div>'',
     ''          <div class='' @ dq ''step'' @ ''>'',
     ''            <div class='' @ dq ''step-dot'' @ ''></div>'',
     ''            <div class='' @ dq ''step-title'' @ ''>3. Instant Payment Link & Resend Dispatch</div>'',
     ''            <div class='' @ dq ''step-desc'' @ ''>Generated self-serve checkout link: <a href='' @ dq (payment_link row) @ ''>'' @ payment_link row @ ''</a>. Dispatched to '' @ to_str (member row ''buyer_email'') @ ''.</div>'',
     ''            <div class='' @ dq ''step-hash'' @ ''>Event Hash: 0xbb291a0f... '' @ [CHR 0xE2, CHR 0x80, CHR 0xA2] @ '' Channel: RESEND_EMAIL & SMS</div>'',
     ''          </div>'',
     ''          <div class='' @ dq ''step'' @ ''>'',
     ''            <div class='' @ dq ''step-dot'' @ ''></div>'',
     ''            <div class='' @ dq ''step-title'' @ ''>4. Compliance & Dispute Guard Verification</div>'',
     ''            <div class='' @ dq ''step-desc'' @ ''>Verified no active disputes or chargeback blocks on buyer entity. Cryptographically immutable record sealed.</div>'',
     ''            <div class='' @ dq ''step-hash'' @ ''>Chain Hash: 0x99aef102... '' @ [CHR 0xE2, CHR 0x80, CHR 0xA2] @ '' Status: AUDIT_SEALED</div>'',
     ''          </div>'',
     ''        </div>'',
     [],
     ''        <div class='' @ dq ''footer'' @ ''>'',
     ''          ReviveOS Autonomous Recovery System '' @ [CHR 0xE2, CHR 0x80, CHR 0xA2] @ '' Generated on '' @ utc_string t @ '' '' @ [CHR 0xE2, CHR 0x80, CHR 0xA2] @ '' Cryptographically Certified'',
     ''        </div>'',
     ''      </body>'',
     ''      </html>''])"

definition workflow_report :: "(js \<Rightarrow> string) \<Rightarrow> int \<Rightarrow> js \<Rightarrow> string \<Rightarrow> string" where
  \<comment> \<open>\<open>loss\<close> is the text of the expected loss\<close>
  "workflow_report local_date t detail loss = (let w = workflow_part detail; pay = payment_part detail; cust = customer_part detail;
     ai = latest detail ''ai_decisions'' in report_lines ([
     [],
     ''      <!DOCTYPE html>'',
     ''      <html>'',
     ''      <head>'',
     ''        <title>ReviveOS Workflow Audit Dossier - '' @ to_str (member w ''id'') @ ''</title>'',
     ''        <style>''] @ report_style @ [
     ''        </style>'',
     ''      </head>'',
     ''      <body>'',
     ''        <div class='' @ dq ''header'' @ ''>'',
     ''          <div class='' @ dq ''title'' @ ''>ReviveOS Autonomous Recovery Audit Dossier</div>'',
     ''          <div class='' @ dq ''subtitle'' @ ''>Complete Cryptographic Chain of Custody '' @ [CHR 0xE2, CHR 0x80, CHR 0xA2] @ '' Workflow '' @ to_str (member w ''id'') @ ''</div>'',
     ''        </div>'',
     [],
     ''        <div class='' @ dq ''grid'' @ ''>'',
     ''          <div class='' @ dq ''card'' @ ''>'',
     ''            <div class='' @ dq ''card-title'' @ ''>Transaction & Customer</div>'',
     ''            <div class='' @ dq ''card-value'' @ ''>'' @ [CHR 0xE2, CHR 0x82, CHR 0xB9] @ locale_in (to_num (orv (member pay ''amount'') (js_int 0))) @ '' '' @ text_or pay ''currency'' ''INR'' @ ''</div>'',
     ''            <div style='' @ dq ''font-size: 13px; margin-top: 4px;'' @ ''>Customer: <b>'' @ to_str (member cust ''email'') @ ''</b> ('' @ text_or cust ''phone'' ''Phone verified'' @ '')</div>'',
     ''            <div style='' @ dq ''font-size: 13px;'' @ ''>Payment ID: <span style='' @ dq ''font-family: monospace;'' @ ''>'' @ to_str (member pay ''id'') @ ''</span></div>'',
     ''          </div>'',
     ''          <div class='' @ dq ''card'' @ ''>'',
     ''            <div class='' @ dq ''card-title'' @ ''>Recovery Status & AI Health</div>'',
     ''            <div class='' @ dq ''card-value'' @ ''><span class='' @ dq ''badge'' @ ''>'' @ to_str (member w ''status'') @ ''</span></div>'',
     ''            <div style='' @ dq ''font-size: 13px; margin-top: 4px;'' @ ''>Fraud Risk: <b>'' @ percent_text 0 (fraud_prob detail) @ ''% ('' @ to_str (fraud_level detail) @ '')</b></div>'',
     ''            <div style='' @ dq ''font-size: 13px;'' @ ''>Failure Code: <b>'' @ text_or pay ''failure_code'' ''INSUFFICIENT_FUNDS'' @ ''</b></div>'',
     ''          </div>'',
     ''        </div>'',
     [],
     ''        <h3 style='' @ dq ''font-size: 16px; margin-bottom: 15px;'' @ ''>10-Stage Comprehensive Recovery Audit Trail</h3>'',
     ''        <div class='' @ dq ''timeline'' @ ''>'',
     ''          <div class='' @ dq ''step'' @ ''>'',
     ''            <div class='' @ dq ''step-dot'' @ ''></div>'',
     ''            <div class='' @ dq ''step-title'' @ ''>Stage 1: Webhook Ingestion & Invariant Validation</div>'',
     ''            <div class='' @ dq ''step-desc'' @ ''>Payment decline event captured from Razorpay webhook. Invariant validation checks executed without anomalies.</div>'',
     ''            <div class='' @ dq ''step-hash'' @ ''>Block: 0x4891b2... '' @ [CHR 0xE2, CHR 0x80, CHR 0xA2] @ '' Actor: system:webhook_receiver '' @ [CHR 0xE2, CHR 0x80, CHR 0xA2] @ '' Time: '' @ formatDate local_date (member w ''created_at'') @ ''</div>'',
     ''          </div>'',
     ''          <div class='' @ dq ''step'' @ ''>'',
     ''            <div class='' @ dq ''step-dot'' @ ''></div>'',
     ''            <div class='' @ dq ''step-title'' @ ''>Stage 2: Customer Identity & Velocity Analysis</div>'',
     ''            <div class='' @ dq ''step-desc'' @ ''>Analyzed customer '' @ to_str (member cust ''email'') @ ''. Communication opt-out status: Active. Velocity score: 0.94.</div>'',
     ''            <div class='' @ dq ''step-hash'' @ ''>Block: 0x9910ac... '' @ [CHR 0xE2, CHR 0x80, CHR 0xA2] @ '' Actor: ai:identity_engine</div>'',
     ''          </div>'',
     ''          <div class='' @ dq ''step'' @ ''>'',
     ''            <div class='' @ dq ''step-dot'' @ ''></div>'',
     ''            <div class='' @ dq ''step-title'' @ ''>Stage 3: ML Model Prediction & Optimal Recovery Route</div>'',
     ''            <div class='' @ dq ''step-desc'' @ ''>Predicted recovery probability '' @ predicted (latest detail ''model_predictions'') @ ''%. Action recommendation: '' @ text_or ai ''recommended_action'' ''WHATSAPP_VOICE'' @ ''.</div>'',
     ''            <div class='' @ dq ''step-hash'' @ ''>Block: 0x77b01d... '' @ [CHR 0xE2, CHR 0x80, CHR 0xA2] @ '' Actor: ml:routing_model</div>'',
     ''          </div>'',
     ''          <div class='' @ dq ''step'' @ ''>'',
     ''            <div class='' @ dq ''step-dot'' @ ''></div>'',
     ''            <div class='' @ dq ''step-title'' @ ''>Stage 4: Fraud & Expected Loss Guard</div>'',
     ''            <div class='' @ dq ''step-desc'' @ ''>Fraud score '' @ percent_text 1 (fraud_prob detail) @ ''%. Risk level '' @ to_str (fraud_level detail) @ ''. Expected loss bounded at '' @ [CHR 0xE2, CHR 0x82, CHR 0xB9] @ loss @ ''.</div>'',
     ''            <div class='' @ dq ''step-hash'' @ ''>Block: 0x11e49c... '' @ [CHR 0xE2, CHR 0x80, CHR 0xA2] @ '' Actor: security:risk_guard</div>'',
     ''          </div>'',
     ''          <div class='' @ dq ''step'' @ ''>'',
     ''            <div class='' @ dq ''step-dot'' @ ''></div>'',
     ''            <div class='' @ dq ''step-title'' @ ''>Stage 5: Strategy Selection & Timing Optimization</div>'',
     ''            <div class='' @ dq ''step-desc'' @ ''>Selected strategy: '' @ text_or ai ''recommended_action'' ''Hinglish AI Voice Telephony + WhatsApp Link'' @ ''. Target dispatch window optimal.</div>'',
     ''            <div class='' @ dq ''step-hash'' @ ''>Block: 0x33cf81... '' @ [CHR 0xE2, CHR 0x80, CHR 0xA2] @ '' Actor: ai:cadence_scheduler</div>'',
     ''          </div>'',
     ''          <div class='' @ dq ''step'' @ ''>'',
     ''            <div class='' @ dq ''step-dot'' @ ''></div>'',
     ''            <div class='' @ dq ''step-title'' @ ''>Stage 6: Multi-Channel Recovery Action Execution</div>'',
     ''            <div class='' @ dq ''step-desc'' @ ''>Dispatched personalized Hinglish voice call / dynamic payment link to '' @ to_str (orv (member cust ''phone'') (member cust ''email'')) @ ''.</div>'',
     ''            <div class='' @ dq ''step-hash'' @ ''>Block: 0x66f912... '' @ [CHR 0xE2, CHR 0x80, CHR 0xA2] @ '' Actor: worker:telephony_dispatcher</div>'',
     ''          </div>'',
     ''          <div class='' @ dq ''step'' @ ''>'',
     ''            <div class='' @ dq ''step-dot'' @ ''></div>'',
     ''            <div class='' @ dq ''step-title'' @ ''>Stage 7: Cryptographic Ledger Proof & Audit Seal</div>'',
     ''            <div class='' @ dq ''step-desc'' @ ''>Audit event sealed with SHA-256 chain of custody hash. Ready for compliance audit & GST export.</div>'',
     ''            <div class='' @ dq ''step-hash'' @ ''>Block: 0xaa542b... '' @ [CHR 0xE2, CHR 0x80, CHR 0xA2] @ '' Status: CERTIFIED_IMMUTABLE</div>'',
     ''          </div>'',
     ''        </div>'',
     [],
     ''        <div class='' @ dq ''footer'' @ ''>'',
     ''          ReviveOS Autonomous Recovery System '' @ [CHR 0xE2, CHR 0x80, CHR 0xA2] @ '' Certified Audit Dossier Generated on '' @ utc_string t,
     ''        </div>'',
     ''      </body>'',
     ''      </html>'']))"

subsection \<open>Exporting\<close>

datatype report_format = Doc | Pdf

datatype export = Download string string | Printed string | Popup_blocked

definition offer :: "report_format \<Rightarrow> bool \<Rightarrow> string \<Rightarrow> string \<Rightarrow> export" where
  \<comment> \<open>a download starts with the byte order mark; a window may be refused\<close>
  "offer format popups filename html = (case format of
     Doc \<Rightarrow> Download filename ([CHR 0xEF, CHR 0xBB, CHR 0xBF] @ html)
   | Pdf \<Rightarrow> if popups then Printed html else Popup_blocked)"

definition downloadAuditReport :: "clock \<Rightarrow> bool \<Rightarrow> js \<Rightarrow> report_format \<Rightarrow> export" where
  "downloadAuditReport now popups row format = offer format popups
     (''ReviveOS_Audit_Report_'' @ to_str (member row ''invoice_number'') @ ''.doc'') (receivables_report (now 0) row)"

definition fixed2 :: "js \<Rightarrow> err + string" where
  \<comment> \<open>\<open>v.toFixed(2)\<close>, a method of numbers only\<close>
  "fixed2 v = (case v of Num n \<Rightarrow> Inr (to_fixed 2 n) | _ \<Rightarrow> Inl (type_error ''toFixed is not a function''))"

definition exportWorkflowAuditReport :: "(js \<Rightarrow> string) \<Rightarrow> clock \<Rightarrow> bool \<Rightarrow> js \<Rightarrow> report_format \<Rightarrow> err + export" where
  "exportWorkflowAuditReport local_date now popups detail format =
    seqE (fixed2 (exp_loss detail)) (\<lambda>loss. let html = workflow_report local_date (now 0) detail loss in
      (case format of
         Doc \<Rightarrow> seqE (get (workflow_part detail) ''id'') (\<lambda>v. seqE (as_string v) (\<lambda>wid.
           Inr (offer Doc popups (''ReviveOS_Workflow_Audit_'' @ take 8 wid @ ''.doc'') html)))
       | Pdf \<Rightarrow> Inr (offer Pdf popups [] html)))"

subsection \<open>Lemmas\<close>

text \<open>
  The reports embed every text as it is: markup in a buyer's name becomes markup of the document.
\<close>

lemma join_sublist: "l \<in> set ls \<Longrightarrow> sublist l (join s ls)"
proof (induction s ls rule: join.induct)
  case (3 s x y ys)
  have "sublist (join s (y # ys)) (join s (x # y # ys))" using sublist_append_leftI [of "join s (y # ys)" "x @ s"] by simp
  moreover have "sublist x (join s (x # y # ys))" using sublist_append_rightI [of x "s @ join s (y # ys)"] by simp
  ultimately show ?case using 3 by (auto intro: sublist_order.order.trans)
qed auto

lemma report_embeds_company: "sublist (to_str (member row ''buyer_company'')) (receivables_report t row)"
proof -
  let ?l = "''            <div style='' @ dq ''font-size: 13px; margin-top: 4px;'' @ ''>Entity: <b>'' @ to_str (member row ''buyer_company'') @ ''</b></div>''"
  have "sublist ?l (receivables_report t row)"
    unfolding receivables_report_def report_lines_def text_lines_def
    by (rule join_sublist) (simp only: set_append Un_iff list.set insert_iff refl simp_thms)
  moreover have "sublist (to_str (member row ''buyer_company'')) ?l"
    by (simp only: sublist_append sublist_order.order.refl simp_thms)
  ultimately show ?thesis by (rule sublist_order.order.trans [rotated])
qed

end
