(* ===== verification/DetailView.thy ===== *)
theory DetailView
  imports AuditReports Components
begin

text \<open>
  What \<open>apps/web/src/app/workflows/[id]/page.tsx\<close> renders, and what its controls do. A detail that has its declared
  type is rendered without throwing, and no control of the page approves or rejects a workflow that is closed.
\<close>

subsection \<open>Controls\<close>

datatype detail_action = Approve | Reject | Reload | Export report_format | Expand "breakdown option" | Choose js | Dismiss

definition toggled :: "breakdown \<Rightarrow> detail_page \<Rightarrow> breakdown option" where
  "toggled b p = (if dp_expandedBreakdown p = Some b then None else Some b)"

definition detail_do :: "string \<Rightarrow> fetch \<Rightarrow> fetch \<Rightarrow> WorkflowSummary list \<Rightarrow> storage \<Rightarrow> string \<Rightarrow> string option \<Rightarrow>
    detail_action \<Rightarrow> detail_page \<Rightarrow> detail_page" where
  "detail_do base net net' ds st wid answer a p = (case a of
     Approve \<Rightarrow> handleApprove base net net' ds st wid p
   | Reject \<Rightarrow> handleReject base net net' ds st wid answer p
   | Reload \<Rightarrow> loadWorkflow base net ds st wid p
   | Export f \<Rightarrow> p
   | Expand b \<Rightarrow> p\<lparr>dp_expandedBreakdown := b\<rparr>
   | Choose v \<Rightarrow> p\<lparr>dp_selectedStrategy := v\<rparr>
   | Dismiss \<Rightarrow> p\<lparr>dp_actionMessage := None\<rparr>)"

subsection \<open>The page\<close>

definition rows :: "js \<Rightarrow> string \<Rightarrow> js" where
  \<comment> \<open>\<open>detail.k || []\<close>\<close>
  "rows d k = orv (member d k) (Arr [])"

definition detail_header :: "locale_fns \<Rightarrow> detail_page \<Rightarrow> js \<Rightarrow> js \<Rightarrow> js \<Rightarrow> detail_action view" where
  "detail_header lc p d w pay =
    node ''div'' [
      node ''div'' [
        el ''Link'' [(''href'', Inr (Str ''/workflows''))] [] [icon ''ArrowLeft''],
        node ''div'' [
          node ''div'' [
            node ''h1'' [say ''Workflow '', node ''span'' [eval (cut 0 8 (member w ''id'')), say ''...'']],
            StatusBadge (Inr (member w ''status'')),
            el ''span'' [
                (''className'', Inr (Str (''badge '' @ (if fraud_level d = Str ''HIGH'' then ''badge-danger'' else (if
                    fraud_level d = Str ''MEDIUM'' then ''badge-warning'' else ''badge-success'')))))] [] [
              icon ''Shield'',
              say '' Fraud: '',
              put (Str (to_fixed 0 (nmul (to_num (fraud_prob d)) (nint 100)))),
              say ''% ('',
              put (fraud_level d),
              say '')'']],
          node ''p'' [
            say ''Payment ID: '',
            node ''span'' [put (member pay ''id'')],
            say ('' '' @ [CHR 0xE2, CHR 0x80, CHR 0xA2] @ '' Initiated ''),
            put (Str (formatDate (loc_moment lc ''toLocaleString'') (member w ''created_at'')))]]],
      node ''div'' [
        show_when (is_intervention d) (
          el ''button'' [(''disabled'', Inr (Bool (dp_actionLoading p)))] [(''onClick'', \<lambda>_. Approve)] [
            icon ''CheckCircle2'',
            say '' Approve & Dispatch'']),
        el ''button'' [
            (''title'', Inr (Str ''Download Full Step-by-Step Audit PDF''))] [(''onClick'', \<lambda>_. Export Pdf)] [
          icon ''Download'',
          node ''span'' [say ''Audit PDF'']],
        el ''button'' [
            (''title'', Inr (Str ''Download Full Step-by-Step Audit DOC''))] [(''onClick'', \<lambda>_. Export Doc)] [
          icon ''FileText'',
          node ''span'' [say ''Audit DOC'']],
        el ''button'' [] [(''onClick'', \<lambda>_. Reload)] [
          el ''RefreshCw'' [(''className'', Inr (Str (if dp_loading p then ''spinning'' else [])))] [] [],
          node ''span'' [say ''Refresh'']]]]"

definition detail_figures :: "js \<Rightarrow> js \<Rightarrow> js \<Rightarrow> detail_action view" where
  "detail_figures d w pay =
    node ''div'' [
      node ''div'' [
        node ''div'' [say ''TOTAL TRANSACTION''],
        node ''div'' [
          say [CHR 0xE2, CHR 0x82, CHR 0xB9],
          eval (seqE (opt_call (localized (locale_num 2)) (member pay ''amount'')) (\<lambda>v1. if truthy v1 then Inr v1
              else Inr (Str ''0.00'')))],
        node ''div'' [
          node ''span'' [put (orv (member pay ''currency'') (Str ''INR''))],
          say ('' '' @ [CHR 0xE2, CHR 0x80, CHR 0xA2]),
          el ''span'' [
              (''className'', Inr (Str (''badge '' @ (if member pay ''status'' = Str ''CAPTURED'' then ''badge-success'' else
                  ''badge-danger''))))] [] [
            put (orv (member pay ''status'') (Str ''FAILED''))]]],
      node ''div'' [
        node ''div'' [say ''GATEWAY FAILURE REASON''],
        node ''div'' [put (orv (orv (member pay ''failure_code'') (member w ''failure_code'')) (Str ''INSUFFICIENT_FUNDS''))],
        node ''div'' [
          put (orv (orv (member pay ''failure_reason'') (member w ''failure_reason'')) (Str
              ''Bank gateway transaction decline''))]],
      node ''div'' [
        node ''div'' [say ''AI RECOVERY PROBABILITY''],
        el ''div'' [
            (''style.color'', Inr (Str (if nless (lit 6 10) (to_num (coalesce (member w ''recovery_probability'') (Num (lit
                75 100)))) then ''var(--color-emerald)'' else ''var(--color-amber)'')))] [] [
          put (Str (to_fixed 0 (nmul (to_num (orv (coalesce (member (latest d ''model_predictions'') ''probability'') (member
              w ''recovery_probability'')) (Num (lit 75 100)))) (nint 100)))),
          say ''%''],
        node ''div'' [
          say ''Model: '',
          node ''span'' [put (orv (member (latest d ''model_predictions'') ''model_version'') (Str ''logistic-v1.0''))]]],
      node ''div'' [
        node ''div'' [say ''RECOMMENDED RECOVERY ACTION''],
        node ''div'' [
          put (orv (orv (member (latest d ''ai_decisions'') ''recommended_action'') (member w ''selected_action'')) (Str
              ''DELAYED_RETRY''))],
        node ''div'' [say ''Strategy: '', node ''span'' [say ''DeepSeek-R1 Autonomous Policy'']]]]"

definition three_tiles :: "detail_page \<Rightarrow> js \<Rightarrow> js \<Rightarrow> js \<Rightarrow> js \<Rightarrow> js \<Rightarrow> number \<Rightarrow> detail_action view" where
  "three_tiles p d w cust succ failed reliability =
    node ''div'' [
      el ''div'' [
          (''style.border'', Inr (if dp_expandedBreakdown p = Some CUSTOMER_MEMORY then Str ''1px solid var(--color-accent)''
              else Undef)),
          (''style.background'', Inr (if dp_expandedBreakdown p = Some CUSTOMER_MEMORY then Str ''var(--color-accent-bg)''
              else Undef)),
          (''title'', Inr (Str ''Click to view full customer recovery history & calibration logic''))]
        [(''onClick'', \<lambda>_. Expand (toggled CUSTOMER_MEMORY p))] [
        node ''div'' [
          node ''div'' [node ''div'' [icon ''User''], node ''span'' [say ''CUSTOMER RECOVERY MEMORY'']],
          node ''div'' [
            node ''span'' [put (Num reliability), say ''% Score''],
            if dp_expandedBreakdown p = Some CUSTOMER_MEMORY then icon ''ChevronUp'' else icon ''ChevronDown'']],
        node ''div'' [put (member cust ''email'')],
        node ''div'' [
          node ''div'' [
            node ''span'' [icon ''Check'', say '' '', put succ, say '' successful''],
            node ''span'' [icon ''X'', say '' '', put failed, say '' failed'']],
          node ''span'' [
            put (Str (if dp_expandedBreakdown p = Some CUSTOMER_MEMORY then (''Hide logic '' @ [CHR 0xE2, CHR 0x96, CHR
                0xB2]) else (''View formula '' @ [CHR 0xE2, CHR 0x96, CHR 0xBC])))]]],
      el ''div'' [
          (''style.border'', Inr (if dp_expandedBreakdown p = Some REVENUE_RISK then Str (if fraud_level d = Str ''HIGH''
              then ''1px solid #ef4444'' else ''1px solid var(--color-accent)'') else Undef)),
          (''style.background'', Inr (if dp_expandedBreakdown p = Some REVENUE_RISK then Str (if fraud_level d = Str ''HIGH''
              then ''rgba(239, 68, 68, 0.08)'' else ''rgba(16, 185, 129, 0.08)'') else Undef)),
          (''title'', Inr (Str ''Click to view fraud weight breakdown and expected loss calculation''))]
        [(''onClick'', \<lambda>_. Expand (toggled REVENUE_RISK p))] [
        node ''div'' [
          node ''div'' [
            el ''ShieldCheck'' [
                (''color'', Inr (Str (if fraud_level d = Str ''HIGH'' then ''#ef4444'' else (if fraud_level d = Str
                    ''MEDIUM'' then ''#f59e0b'' else ''#10b981''))))] [] [],
            node ''span'' [say ''Revenue Risk Assessment'']],
          node ''div'' [
            el ''span'' [
                (''className'', Inr (Str (''badge '' @ (if fraud_level d = Str ''HIGH'' then ''badge-danger'' else (if
                    fraud_level d = Str ''MEDIUM'' then ''badge-warning'' else ''badge-success'')))))] [] [
              put (fraud_level d)],
            if dp_expandedBreakdown p = Some REVENUE_RISK then icon ''ChevronUp'' else icon ''ChevronDown'']],
        el ''div'' [
            (''style.color'', Inr (Str (if fraud_level d = Str ''HIGH'' then ''#ef4444'' else (if fraud_level d = Str
                ''MEDIUM'' then ''#f59e0b'' else ''#10b981''))))] [] [
          put (Str (to_fixed 1 (nmul (to_num (fraud_prob d)) (nint 100)))),
          say ''% Fraud''],
        node ''div'' [
          node ''span'' [
            say ''Return Risk: '',
            put (Str (to_fixed 0 (nmul (to_num (return_prob d)) (nint 100)))),
            say (''% | Exp. Loss: '' @ [CHR 0xE2, CHR 0x82, CHR 0xB9]),
            eval (fixed 2 (exp_loss d))],
          el ''span'' [
              (''style.color'', Inr (Str (if fraud_level d = Str ''HIGH'' then ''#ef4444'' else ''var(--color-accent)'')))]
            [] [
            put (Str (if dp_expandedBreakdown p = Some REVENUE_RISK then (''Hide weights '' @ [CHR 0xE2, CHR 0x96, CHR 0xB2])
                else (''View weights '' @ [CHR 0xE2, CHR 0x96, CHR 0xBC])))]]],
      node ''div'' [
        node ''div'' [icon ''Cpu'', node ''span'' [say ''AI Strategy (DeepSeek-R1)'']],
        node ''div'' [
          put (orv (orv (member (latest d ''ai_decisions'') ''recommended_action'') (member w ''selected_action'')) (Str
              ''DELAYED_RETRY''))],
        node ''span'' [
          say ''Confidence: '',
          eval (if truthy (member (latest d ''ai_decisions'') ''confidence'') then seqE (get (latest d ''ai_decisions'')
              ''confidence'') (\<lambda>v2. Inr (Str (to_fixed 0 (nmul (to_num v2) (nint 100)) @ ''%''))) else Inr (Str
              ''85%'')),
          say '' | Delay: '',
          put (orv (member (latest d ''ai_decisions'') ''recommended_delay_hours'') (Num (nint 24))),
          say ''h'']],
      node ''div'' [
        node ''div'' [icon ''ShieldAlert'', node ''span'' [say ''Policy Safety Engine'']],
        node ''div'' [
          StatusBadge (Inr (orv (member (member d ''policy_decision'') ''decision'') (Str (if member w ''status'' =
              Str ''ESCALATED'' then ''ESCALATE'' else ''ALLOW''))))],
        node ''span'' [
          put (orv (member (member d ''policy_decision'') ''reason'') (Str (if member w ''status'' = Str ''ESCALATED'' then
              ''Flagged for human operator approval'' else ''Verified zero rate-limit or customer opt-out conflicts'')))]]]"

definition memory_formula :: "js \<Rightarrow> js \<Rightarrow> js \<Rightarrow> js \<Rightarrow> number \<Rightarrow> number \<Rightarrow> detail_action view" where
  "memory_formula d cust succ failed attempts reliability =
    node ''div'' [
      node ''div'' [
        node ''div'' [
          node ''div'' [icon ''Calculator''],
          node ''div'' [
            node ''h4'' [say ''Closed-Loop Customer Memory & Reliability Logic''],
            node ''span'' [
              say ''How ReviveOS computes the '',
              node ''b'' [put (Num reliability), say ''% Score''],
              say '' for '',
              node ''code'' [put (member cust ''email'')]]]],
        el ''button'' [] [(''onClick'', \<lambda>_. Expand None)] [say ([CHR 0xE2, CHR 0x9C, CHR 0x95] @ '' Close'')]],
      node ''div'' [
        node ''div'' [
          node ''div'' [say ''1. Mathematical Formulation''],
          node ''div'' [
            say (''Reliability % = [ Successful_Payments / Total_Lifetime_Payments ] '' @ [CHR 0xC3, CHR 0x97] @ '' 100'')],
          node ''div'' [
            node ''b'' [say ''Calculation with Live Telemetry:''],
            node ''br'' [],
            say ''= [ '',
            node ''span'' [put succ, say '' paid''],
            say '' / ( '',
            node ''span'' [put succ],
            say '' + '',
            node ''span'' [put failed, say '' failed''],
            say ('' ) ] '' @ [CHR 0xC3, CHR 0x97] @ '' 100''),
            node ''br'' [],
            say ''= [ '',
            node ''span'' [put succ],
            say '' / '',
            node ''span'' [put (Num attempts)],
            say ('' ] '' @ [CHR 0xC3, CHR 0x97] @ '' 100 = ''),
            el ''b'' [(''style.color'', Inr (Str (if nleq (nint 70) reliability then ''#10b981'' else ''#f59e0b'')))] [] [
              put (Num reliability),
              say ''%'']]],
        node ''div'' [
          node ''div'' [say ''2. Closed-Loop Telemetry Sources''],
          node ''ul'' [
            node ''li'' [
              node ''b'' [say ''PostgreSQL Ledger:''],
              say '' Queried across all payment attempts matching email '',
              node ''code'' [put (member cust ''email'')],
              say ''.''],
            node ''li'' [
              node ''b'' [say ''Feedback Calibration:''],
              say '' Every recovered checkout logs into '',
              node ''code'' [say ''recovery_outcomes''],
              say '', automatically raising customer reliability.''],
            node ''li'' [
              node ''b'' [say ''Opt-Out Verification:''],
              say '' '',
              if truthy (member cust ''communication_opt_out'')
                then node ''span'' [
                    icon ''AlertTriangle'',
                    say '' Customer has explicitly opted out of marketing/recovery SMS/Emails.'']
                else node ''span'' [icon ''Check'', say '' Verified active, deliverable, and compliant with opt-out policies.'']]]],
        node ''div'' [
          node ''div'' [say ''3. Impact on AI Decision Pipeline''],
          node ''p'' [
            say ''Because reliability is '',
            node ''b'' [put (Num reliability), say ''%''],
            say '' ('',
            put failed,
            say '' past failures), DeepSeek-R1 and the Policy Engine throttle rapid retries and instead inject a strategic '',
            node ''b'' [
              say ''+'',
              put (orv (member (latest d ''ai_decisions'') ''recommended_delay_hours'') (Num (nint 24))),
              say ''h delay''],
            say '' or generate a self-service payment link to avoid triggering issuer bank card blocks.'']]]]"

definition risk_weights :: "js \<Rightarrow> js \<Rightarrow> js \<Rightarrow> js \<Rightarrow> detail_action view" where
  "risk_weights d w pay failed =
    el ''div'' [
        (''style.border'', Inr (Str (if fraud_level d = Str ''HIGH'' then ''1px solid var(--color-red)'' else
            ''1px solid var(--color-accent)'')))] [] [
      node ''div'' [
        node ''div'' [
          el ''div'' [
              (''style.background'', Inr (Str (if fraud_level d = Str ''HIGH'' then ''var(--color-red-bg)'' else
                  ''var(--color-emerald-bg)'')))] [] [
            el ''ShieldCheck'' [
                (''color'', Inr (Str (if fraud_level d = Str ''HIGH'' then ''var(--color-red)'' else
                    ''var(--color-emerald)'')))] [] []],
          node ''div'' [
            node ''h4'' [say ''ML Fraud Detection & Risk Calculation Breakdown''],
            node ''span'' [
              say ''Why this transaction is classified as '',
              node ''b'' [
                put (fraud_level d),
                say '' RISK ('',
                put (Str (to_fixed 1 (nmul (to_num (fraud_prob d)) (nint 100)))),
                say ''%)'']]]],
        el ''button'' [] [(''onClick'', \<lambda>_. Expand None)] [say ''Close'']],
      node ''div'' [
        node ''div'' [
          el ''div'' [
              (''style.color'', Inr (Str (if fraud_level d = Str ''HIGH'' then ''var(--color-red)'' else
                  ''var(--color-emerald)'')))] [] [
            say ''1. ML Feature Weight Attribution''],
          node ''div'' [
            node ''div'' [
              node ''span'' [say ([CHR 0xE2, CHR 0x80, CHR 0xA2] @ '' Baseline Prior Fraud Rate:'')],
              node ''b'' [say ''+5.0%'']],
            node ''div'' [
              node ''span'' [
                say ([CHR 0xE2, CHR 0x80, CHR 0xA2] @ '' High-Value Exposure ('' @ [CHR 0xE2, CHR 0x82, CHR 0xB9]),
                eval (localized (locale_num 0) (orv (member pay ''amount'') (Num (nint 0)))),
                say ''):''],
              el ''b'' [
                  (''style.color'', Inr (Str (if nless (nint 50000) (to_num (member pay ''amount'')) then
                      ''var(--color-red)'' else (if nless (nint 20000) (to_num (member pay ''amount'')) then
                      ''var(--color-amber)'' else ''var(--text-primary)''))))] [] [
                put (Str (if nless (nint 50000) (to_num (member pay ''amount'')) then ''+40.0%'' else (if nless (nint 20000)
                    (to_num (member pay ''amount'')) then ''+20.0%'' else ''+0.0%'')))]],
            node ''div'' [
              node ''span'' [
                say ([CHR 0xE2, CHR 0x80, CHR 0xA2] @ '' Customer Failure Velocity (''),
                put failed,
                say '' past failures):''],
              el ''b'' [
                  (''style.color'', Inr (Str (if nless (nint 3) (to_num failed) then ''var(--color-red)'' else
                      ''var(--color-emerald)'')))] [] [
                put (Str (if nless (nint 3) (to_num failed) then ''+30.0%'' else ''+0.0%''))]],
            node ''div'' [
              node ''span'' [
                say ([CHR 0xE2, CHR 0x80, CHR 0xA2] @ '' Retry Attempt Multiplier (Attempt #''),
                put (orv (orv (member w ''attempt_count'') (member w ''attempts_count'')) (Num (nint 1))),
                say ''):''],
              el ''b'' [
                  (''style.color'', Inr (Str (if nless (nint 2) (to_num (orv (orv (member w ''attempt_count'') (member w
                      ''attempts_count'')) (Num (nint 1)))) then ''var(--color-red)'' else ''var(--text-primary)'')))] [] [
                put (Str (if nless (nint 3) (to_num (orv (orv (member w ''attempt_count'') (member w ''attempts_count''))
                    (Num (nint 1)))) then ''+15.0%'' else ''+0.0%''))]],
            node ''div'' [
              node ''span'' [say ''Total Fraud Probability:''],
              el ''span'' [
                  (''style.color'', Inr (Str (if fraud_level d = Str ''HIGH'' then ''var(--color-red)'' else
                      ''var(--color-emerald)'')))] [] [
                put (Str (to_fixed 1 (nmul (to_num (fraud_prob d)) (nint 100)))),
                say ''%'']]]],
        node ''div'' [
          node ''div'' [say ''2. Expected Loss Formulation''],
          node ''div'' [say (''Expected Loss = Amount '' @ [CHR 0xC3, CHR 0x97] @ '' Fraud Probability'')],
          node ''div'' [
            say (''= '' @ [CHR 0xE2, CHR 0x82, CHR 0xB9]),
            eval (localized (locale_num 2) (orv (member pay ''amount'') (Num (nint 0)))),
            say ('' '' @ [CHR 0xC3, CHR 0x97] @ '' ''),
            put (Str (to_fixed 1 (nmul (to_num (fraud_prob d)) (nint 100)))),
            say ''%'',
            node ''br'' [],
            say ''= '',
            el ''b'' [
                (''style.color'', Inr (Str (if fraud_level d = Str ''HIGH'' then ''var(--color-red)'' else
                    ''var(--text-primary)'')))] [] [
              say [CHR 0xE2, CHR 0x82, CHR 0xB9],
              eval (localized (locale_num 2) (coalesce (member w ''expected_loss'') (Num (nmul (to_num (member pay
                  ''amount'')) (to_num (fraud_prob d))))))]],
          node ''div'' [
            say ''Evaluated by ML Model: '',
            node ''code'' [put (orv (member (latest d ''risk_assessments'') ''model_version'') (Str ''fraud-rf-v1.0''))]]],
        node ''div'' [
          node ''div'' [say ''3. Downstream Safety Guardrail''],
          node ''div'' [
            if nleq (lit 7 10) (to_num (fraud_prob d))
              then node ''Fragment'' [
                  node ''div'' [
                    icon ''AlertTriangle'',
                    say '' Threshold Exceeded ('',
                    put (Str (to_fixed 1 (nmul (to_num (fraud_prob d)) (nint 100)))),
                    say (''% '' @ [CHR 0xE2, CHR 0x89, CHR 0xA5] @ '' 70% Guardrail)'')],
                  node ''div'' [
                    say ''Automated recovery has been '',
                    node ''b'' [say ''HALTED''],
                    say ''. The workflow is routed to the '',
                    node ''b'' [say ''Needs Human Review''],
                    say '' queue to protect your merchant account from unauthorized chargebacks.'']]
              else node ''Fragment'' [
                  node ''div'' [
                    icon ''CheckCircle'',
                    say '' Passed Safety Guardrails ('',
                    put (Str (to_fixed 1 (nmul (to_num (fraud_prob d)) (nint 100)))),
                    say ''% < 70%)''],
                  node ''div'' [
                    say
                        ''Transaction verified safe for autonomous Razorpay payment retries and email recovery link dispatch.'']]]]]]"

definition detail_tiles :: "detail_page \<Rightarrow> js \<Rightarrow> js \<Rightarrow> js \<Rightarrow> js \<Rightarrow> js \<Rightarrow> js \<Rightarrow> number \<Rightarrow> number \<Rightarrow> detail_action view" where
  "detail_tiles p d w pay cust succ failed attempts reliability =
    node ''div'' [
      three_tiles p d w cust succ failed reliability,
      show_when (dp_expandedBreakdown p = Some CUSTOMER_MEMORY) (memory_formula d cust succ failed attempts reliability),
      show_when (dp_expandedBreakdown p = Some REVENUE_RISK) (risk_weights d w pay failed)]"

definition notice :: "string \<times> string \<Rightarrow> detail_action view" where
  "notice m =
    el ''div'' [
        (''style.background'', Inr (Str (if fst m = ''success'' then ''var(--color-emerald-bg)'' else
            ''var(--color-red-bg)''))),
        (''style.border'', Inr (Str (if fst m = ''success'' then ''1px solid var(--color-emerald-border)'' else
            ''1px solid var(--color-red-border)''))),
        (''style.color'', Inr (Str (if fst m = ''success'' then ''var(--color-emerald)'' else ''var(--color-red)'')))] [] [
      if fst m = ''success'' then icon ''CheckCircle'' else icon ''AlertTriangle'',
      node ''span'' [put (Str (snd m))],
      el ''button'' [] [(''onClick'', \<lambda>_. Dismiss)] [icon ''X'']]"

definition review_controls :: "detail_page \<Rightarrow> js \<Rightarrow> js \<Rightarrow> detail_action view" where
  "review_controls p d w =
    node ''div'' [
      node ''div'' [
        node ''div'' [
          el ''ShieldAlert'' [
              (''color'', Inr (Str (if member w ''status'' = Str ''ESCALATED'' then ''#f59e0b'' else
                  ''var(--color-accent)'')))] [] [],
          node ''h2'' [say ''Human Intervention & Policy Review Hub''],
          show_when (member w ''status'' = Str ''ESCALATED'') (node ''span'' [say ''ACTION REQUIRED''])],
        node ''p'' [
          put (orv (member (member d ''policy_decision'') ''reason'') (Str (if member w ''status'' = Str ''ESCALATED'' then
              ''Transaction flagged for human review by policy guardrails.'' else
              ''Autonomous recovery is ready. Operator may approve, override strategy, or halt.'')))]],
      node ''div'' [
        node ''div'' [
          node ''span'' [say ''Strategy:''],
          el ''select'' [(''value'', Inr (dp_selectedStrategy p))] [(''onChange'', Choose)] [
            el ''option'' [(''value'', Inr (Str ''PAYMENT_LINK''))] [] [say ''PAYMENT_LINK (Razorpay Email/SMS)''],
            el ''option'' [(''value'', Inr (Str ''CUSTOMER_NOTIFICATION''))] [] [say ''CUSTOMER_NOTIFICATION (SMS / Email)''],
            el ''option'' [(''value'', Inr (Str ''IMMEDIATE_RETRY''))] [] [
              say ''IMMEDIATE_RETRY (Instant Token Re-execution)''],
            el ''option'' [(''value'', Inr (Str ''DELAYED_RETRY''))] [] [say ''DELAYED_RETRY (+24h Salary Window)''],
            el ''option'' [(''value'', Inr (Str ''PAYMENT_METHOD_UPDATE''))] [] [
              say ''PAYMENT_METHOD_UPDATE (Card Update Portal)'']]],
        el ''button'' [
            (''disabled'', Inr (Bool (dp_actionLoading p \<or> member w ''status'' = Str ''RECOVERED'' \<or> member w
                ''status'' = Str ''HALTED'')))] [(''onClick'', \<lambda>_. Approve)] [
          icon ''CheckCircle'',
          node ''span'' [put (Str (if dp_actionLoading p then ''Executing...'' else ''Approve & Trigger''))]],
        el ''button'' [
            (''disabled'', Inr (Bool (dp_actionLoading p \<or> member w ''status'' = Str ''RECOVERED'' \<or> member w
                ''status'' = Str ''HALTED'')))] [(''onClick'', \<lambda>_. Reject)] [
          icon ''XCircle'',
          node ''span'' [say ''Reject & Halt'']]]]"

definition review_hub :: "detail_page \<Rightarrow> js \<Rightarrow> js \<Rightarrow> js \<Rightarrow> js \<Rightarrow> detail_action view" where
  "review_hub p d w pay cust =
    el ''div'' [
        (''style.background'', Inr (Str (if member w ''status'' = Str ''ESCALATED'' \<or> member w ''status'' = Str
            ''REQUIRES_HUMAN_REVIEW'' then ''rgba(245, 158, 11, 0.08)'' else ''var(--bg-surface)''))),
        (''style.border'', Inr (Str (if member w ''status'' = Str ''ESCALATED'' \<or> member w ''status'' = Str
            ''REQUIRES_HUMAN_REVIEW'' then ''1px solid #f59e0b'' else ''1px solid var(--border-subtle)''))),
        (''style.boxShadow'', Inr (Str (if member w ''status'' = Str ''ESCALATED'' then ''0 0 20px rgba(245, 158, 11, 0.15)''
            else ''none'')))] [] [
      review_controls p d w,
      node ''div'' [
        node ''div'' [
          node ''span'' [say ''Customer Status:''],
          el ''div'' [
              (''style.color'', Inr (Str (if truthy (member cust ''communication_opt_out'') then ''var(--color-red)'' else
                  ''var(--color-emerald)'')))] [] [
            put (Str (if truthy (member cust ''communication_opt_out'') then ''Opted-Out (Do Not Contact)'' else
                ''Deliverable / Subscribed''))]],
        node ''div'' [node ''span'' [say ''Failure Classification:''], node ''div'' [put (member pay ''failure_code'')]],
        node ''div'' [
          node ''span'' [say ''AI Model Diagnosis:''],
          node ''div'' [
            put (orv (orv (member (latest d ''ai_decisions'') ''recommended_action'') (member w ''selected_action'')) (Str
                ''DELAYED_RETRY'')),
            say '' ('',
            eval (if truthy (member (latest d ''ai_decisions'') ''confidence'') then seqE (get (latest d ''ai_decisions'')
                ''confidence'') (\<lambda>v3. Inr (Str (to_fixed 0 (nmul (to_num v3) (nint 100)) @ ''%''))) else Inr (Str
                ''85%'')),
            say '')'']],
        node ''div'' [
          node ''span'' [say ''Attempt History:''],
          node ''div'' [put (member (rows d ''recovery_actions'') ''length''), say '' attempts logged'']]]]"

definition risk_stage :: "js \<Rightarrow> js \<Rightarrow> js \<Rightarrow> detail_action view" where
  "risk_stage d w pay =
    node ''div'' [
      node ''div'' [say ''3''],
      node ''div'' [
        node ''div'' [
          node ''div'' [
            el ''ShieldCheck'' [
                (''color'', Inr (Str (if fraud_level d = Str ''HIGH'' then ''var(--color-red)'' else (if fraud_level d = Str
                    ''MEDIUM'' then ''var(--color-amber)'' else ''var(--color-emerald)''))))] [] [],
            node ''b'' [say ''3. Revenue Risk Assessment (Fraud Detection & Return Models)'']],
          el ''span'' [
              (''className'', Inr (Str (''badge '' @ (if fraud_level d = Str ''HIGH'' then ''badge-danger'' else (if
                  fraud_level d = Str ''MEDIUM'' then ''badge-warning'' else ''badge-success'')))))] [] [
            put (fraud_level d),
            say '' RISK'']],
        node ''p'' [
          put (orv (member (latest d ''risk_assessments'') ''reason'') (Str (if fraud_level d = Str ''HIGH'' then
              ''High fraud velocity/risk detected. Autonomous retry paused for verification.'' else
              ''Evaluated via fraud_model.pkl and return_model.pkl. Transaction verified safe for autonomous recovery.'')))],
        node ''div'' [
          el ''span'' [
              (''className'', Inr (Str (''badge '' @ (if fraud_level d = Str ''HIGH'' then ''badge-danger'' else (if
                  fraud_level d = Str ''MEDIUM'' then ''badge-warning'' else ''badge-success'')))))] [] [
            icon ''Shield'',
            say '' Fraud Risk: '',
            put (Str (to_fixed 1 (nmul (to_num (fraud_prob d)) (nint 100)))),
            say ''% (model: '',
            put (orv (member (latest d ''risk_assessments'') ''model_version'') (Str ''fraud-rf-v1.0'')),
            say '')''],
          node ''span'' [say ''Return Risk: '', put (Str (to_fixed 1 (nmul (to_num (return_prob d)) (nint 100)))), say ''%''],
          node ''span'' [
            say (''Expected Loss: '' @ [CHR 0xE2, CHR 0x82, CHR 0xB9]),
            eval (fixed 2 (coalesce (member w ''expected_loss'') (Num (nmul (to_num (member pay ''amount'')) (to_num
                (fraud_prob d))))))],
          node ''span'' [
            say ''Risk Action: '',
            put (orv (orv (member w ''risk_action'') (member (latest d ''risk_assessments'') ''recommended_action'')) (Str
                (if fraud_level d = Str ''HIGH'' then ''VERIFY_FRAUD_ESCALATE'' else ''ALLOW_AUTONOMOUS_RECOVERY'')))]]]]"

definition probability_stage :: "js \<Rightarrow> js \<Rightarrow> js \<Rightarrow> detail_action view" where
  "probability_stage d w pay =
    node ''div'' [
      node ''div'' [say ''4''],
      node ''div'' [
        node ''div'' [
          node ''b'' [say ''4. Empirical Recovery Probability Scoring (Customer Memory Context)''],
          node ''span'' [
            put (Str (to_fixed 1 (nmul (to_num (orv (coalesce (member (latest d ''model_predictions'') ''probability'')
                (member w ''recovery_probability'')) (Num (lit 67 100)))) (nint 100)))),
            say ''% P(Recovery)'']],
        node ''p'' [
          say
              ''Scored using customer historical payment success rates, issuer bank availability curves, and transaction volume.''],
        node ''div'' [
          node ''span'' [say ''Customer Successes: '', put (coalesce (member w ''customer_success_count'') (Num (nint 3)))],
          node ''span'' [
            icon ''AlertTriangle'',
            say '' Customer Failures: '',
            put (coalesce (member w ''customer_failed_count'') (Num (nint 1)))],
          node ''span'' [
            say ''Customer Reliability: '',
            put (Str (to_fixed 0 (nmul (ndiv (to_num (coalesce (member w ''customer_success_count'') (Num (nint 3)))) (nmax
                (nint 1) (to_num (plus_js (coalesce (member w ''customer_success_count'') (Num (nint 3))) (coalesce (member w
                ''customer_failed_count'') (Num (nint 1))))))) (nint 100)))),
            say ''%''],
          node ''span'' [say ''Category Benchmark: 68.4%''],
          node ''span'' [
            say (''Amount: '' @ [CHR 0xE2, CHR 0x82, CHR 0xB9]),
            eval (fixed 2 (orv (member pay ''amount'') (Num (nint 0))))],
          node ''span'' [
            say ''Attempt #'',
            put (orv (orv (member w ''attempt_count'') (member w ''attempts_count'')) (Num (nint 1)))]]]]"

definition inference_stage :: "js \<Rightarrow> js \<Rightarrow> detail_action view" where
  "inference_stage d w =
    node ''div'' [
      node ''div'' [say ''5''],
      node ''div'' [
        node ''div'' [
          node ''div'' [
            icon ''Cpu'',
            node ''b'' [
              say ''5. AI Inference Decision ('',
              put (orv (member (latest d ''ai_decisions'') ''model'') (Str ''deepseek-r1:1.5b'')),
              say '')'']],
          node ''span'' [
            say ''Latency: '',
            put (orv (member (latest d ''ai_decisions'') ''latency_ms'') (Num (nint 12))),
            say ''ms'']],
        node ''div'' [
          say ''Action: '',
          node ''b'' [
            put (orv (orv (member (latest d ''ai_decisions'') ''recommended_action'') (member w ''selected_action'')) (Str
                ''DELAYED_RETRY''))],
          node ''span'' [
            say ''(Delay: '',
            node ''b'' [
              say ''+'',
              put (orv (member (latest d ''ai_decisions'') ''recommended_delay_hours'') (Num (nint 24))),
              say ''h''],
            say '', Confidence: '',
            node ''b'' [
              put (Str (to_fixed 0 (nmul (to_num (orv (member (latest d ''ai_decisions'') ''confidence'') (Num (lit 85
                  100)))) (nint 100)))),
              say ''%''],
            say '')'']],
        node ''div'' [
          node ''b'' [say ''Risk & Profile Context Aware:''],
          say '' '',
          put (orv (member (latest d ''ai_decisions'') ''reasoning'') (Str
              (''Customer history indicates high payment fidelity with low fraud risk score ('' @ to_fixed 0 (nmul (to_num
              (fraud_prob d)) (nint 100)) @
              ''%). Configured optimal recovery delay to coincide with issuer bank settlement window.'')))]]]"

definition execution_stage :: "js \<Rightarrow> js \<Rightarrow> detail_action view" where
  "execution_stage d w =
    node ''div'' [
      node ''div'' [say ''8''],
      node ''div'' [
        node ''div'' [
          node ''b'' [say ''8. Autonomous Recovery Execution''],
          node ''span'' [
            say ''Attempt #'',
            put (orv (orv (member w ''attempt_count'') (member w ''attempts_count'')) (Num (nint 1)))]],
        if nless (nint 0) (to_num (member (rows d ''recovery_actions'') ''length''))
          then seqE (as_array (rows d ''recovery_actions'')) (\<lambda>xs9. each xs9 (\<lambda>a. 
              el ''div'' [(''key'', get a ''id'')] [] [
                say ''Action '',
                node ''b'' [eval (get a ''action_type'')],
                say '' executed via PaymentProvider. Result:'',
                put (Str '' ''),
                el ''span'' [
                    (''style.color'', seqE (seqE (seqE (get a ''status'') (\<lambda>v4. Inr (Bool (v4 = Str ''SUCCESS''))))
                        (\<lambda>v6. if truthy v6 then Inr v6 else seqE (get a ''status'') (\<lambda>v5. Inr (Bool (v5 = Str
                        ''EXECUTED''))))) (\<lambda>v7. Inr (Str (if truthy v7 then ''#10b981'' else
                        ''var(--text-primary)''))))] [] [
                  eval (seqE (get a ''result'') (\<lambda>v8. if truthy v8 then Inr v8 else get a ''status''))]]))
          else node ''p'' [say ''Zero-touch token re-execution scheduled and dispatched via Razorpay API worker queue.'']]]"

definition outcome_stage :: "js \<Rightarrow> js \<Rightarrow> js \<Rightarrow> js \<Rightarrow> detail_action view" where
  "outcome_stage d w pay cust =
    node ''div'' [
      node ''div'' [say ''10''],
      node ''div'' [
        node ''div'' [
          node ''b'' [say ''10. Outcome Recording & Closed-Loop Calibration Feedback''],
          StatusBadge (Inr (if truthy (member (latest d ''recovery_outcomes'') ''recovered'') \<or> member w
              ''status'' = Str ''RECOVERED'' then Str ''RECOVERED'' else member w ''status''))],
        node ''p'' [
          eval (if truthy (member (latest d ''recovery_outcomes'') ''recovered'') \<or> member w ''status'' = Str
              ''RECOVERED'' then seqE (fixed 2 (orv (member (latest d ''recovery_outcomes'') ''recovered_amount'') (member
              pay ''amount''))) (\<lambda>v10. Inr (Str (''Successfully recovered '' @ [CHR 0xE2, CHR 0x82, CHR 0xB9] @
              to_str v10 @ ''. Transaction telemetry fed back to calibrate AI heuristics.''))) else Inr (Str
              ''Recovery in progress / scheduled for optimal timing window.''))],
        node ''div'' [
          node ''div'' [say ([CHR 0xF0, CHR 0x9F, CHR 0x94, CHR 0x84] @ '' Closed-Loop Feedback Ingested'')],
          node ''div'' [
            say ''Telemetry recorded into '',
            node ''code'' [say ''recovery_outcomes''],
            say '' ledger. Empirical recovery rates for category '',
            node ''b'' [put (member pay ''failure_code'')],
            say '' and customer '',
            node ''b'' [put (member cust ''email'')],
            say '' are dynamically calibrated for subsequent predictions.'']]]]"

definition chain_stage :: "locale_fns \<Rightarrow> js \<Rightarrow> detail_action view" where
  "chain_stage lc d =
    node ''div'' [
      node ''div'' [say ''11''],
      node ''div'' [
        node ''div'' [
          node ''div'' [icon ''FileCheck'', node ''b'' [say ''10. Tamper-Evident SHA-256 Audit Chain'']],
          node ''span'' [
            put (Str (if nless (nint 0) (to_num (member (rows d ''audit_events'') ''length'')) then to_str (member (rows d
                ''audit_events'') ''length'') @ '' Block Events Linked'' else ''Cryptographically Verified''))]],
        if nless (nint 0) (to_num (member (rows d ''audit_events'') ''length''))
          then node ''div'' [
              seqE (as_array (rows d ''audit_events'')) (\<lambda>xs16. each_i xs16 (\<lambda>idx e. 
                el ''div'' [
                    (''key'', seqE (seqE (seqE (get e ''event_id'') (\<lambda>v11. if truthy v11 then Inr v11 else get e
                        ''id'')) (\<lambda>v12. if truthy v12 then Inr v12 else Inr (Str ''ev''))) (\<lambda>v13. Inr (Str
                        (to_str v13 @ ''-'' @ to_str (Num (nint (int idx)))))))] [] [
                  node ''div'' [
                    node ''span'' [eval (get e ''action'')],
                    node ''span'' [
                      eval (get e ''actor''),
                      say '' | '',
                      eval (seqE (get e ''timestamp'') (\<lambda>v14. Inr (Str (formatDate (loc_moment lc ''toLocaleString'') v14))))]],
                  node ''div'' [
                    node ''div'' [say ''Payload Hash: '', node ''span'' [eval (get e ''payload_hash'')]],
                    node ''div'' [say ''Block Hash:   '', node ''span'' [eval (get e ''event_hash'')]],
                    seqE (get e ''previous_event_hash'') (\<lambda>v15. show_if v15 (
                      node ''div'' [say ''Parent Hash:  '', node ''span'' [eval (get e ''previous_event_hash'')]]))]]))]
          else node ''div'' [
              node ''div'' [say ''Audit Ledger Awaiting Execution Blocks''],
              node ''div'' [
                say
                    ''SHA-256 block events are appended in real-time as automated retries, policy evaluations, and Resend notification links are dispatched.'']]]]"

definition audit_trail :: "locale_fns \<Rightarrow> js \<Rightarrow> js \<Rightarrow> js \<Rightarrow> js \<Rightarrow> detail_action view" where
  "audit_trail lc d w pay cust =
    node ''div'' [
      node ''div'' [
        node ''div'' [icon ''GitCommit'', node ''span'' [say ''10-Stage Recovery Orchestration Lifecycle'']],
        node ''span'' [say ''Autonomous Loop'']],
      node ''div'' [
        node ''div'' [
          node ''div'' [say ''1''],
          node ''div'' [
            node ''div'' [
              node ''b'' [say ''1. Webhook Ingestion & Signature Verification''],
              node ''span'' [
                put (Str (formatDate (loc_moment lc ''toLocaleString'') (orv (member pay ''created_at'') (member w ''created_at''))))]],
            node ''p'' [
              say ''Payment failure webhook validated via HMAC-SHA256 signature and deduplicated against PostgreSQL ledger.''],
            node ''div'' [
              say ''Payment ID: '',
              put (member pay ''id''),
              say '' | Method: '',
              put (orv (member pay ''payment_method'') (Str ''card / autopay''))]]],
        node ''div'' [
          node ''div'' [say ''2''],
          node ''div'' [
            node ''div'' [
              node ''b'' [say ''2. Deterministic Error Classification''],
              node ''span'' [put (orv (member pay ''failure_code'') (member w ''failure_code''))]],
            node ''p'' [
              put (orv (orv (member pay ''failure_reason'') (member w ''failure_reason'')) (Str (''Classified as '' @ to_str
                  (orv (member pay ''failure_code'') (Str ''INSUFFICIENT_FUNDS'')) @
                  '' across 50+ bank failure heuristics.'')))]]],
        risk_stage d w pay,
        probability_stage d w pay,
        inference_stage d w,
        node ''div'' [
          node ''div'' [say ''6''],
          node ''div'' [
            node ''div'' [
              node ''div'' [icon ''ShieldAlert'', node ''b'' [say ''6. Merchant Policy & Guardrails Safety Engine'']],
              StatusBadge (Inr (orv (member (member d ''policy_decision'') ''decision'') (Str (if member w
                  ''status'' = Str ''ESCALATED'' then ''ESCALATE'' else ''ALLOW''))))],
            node ''p'' [
              put (orv (member (member d ''policy_decision'') ''reason'') (Str (if member w ''status'' = Str ''ESCALATED''
                  then ''Recommendation routed to human operator review due to merchant policy threshold.'' else
                  ''Recommendation passed all database safety checks, customer opt-out verifications, fraud score thresholds, and retry limits.'')))]]],
        node ''div'' [
          node ''div'' [say ''7''],
          node ''div'' [
            node ''div'' [
              node ''b'' [say ''7. Pre-Execution Provider Reconciliation''],
              node ''span'' [say ''VERIFIED IDEMPOTENT'']],
            node ''p'' [
              say
                  ''Queried Payment Gateway API to guarantee payment state has not been concurrently settled by user before executing retry.'']]],
        execution_stage d w,
        node ''div'' [
          node ''div'' [say ''9''],
          node ''div'' [
            node ''div'' [
              node ''b'' [say ''9. Gateway Webhook Authoritative Verification''],
              el ''span'' [
                  (''style.color'', Inr (Str (if member w ''status'' = Str ''RECOVERED'' then ''#10b981'' else
                      ''var(--text-primary)'')))] [] [
                put (member pay ''status'')]],
            node ''p'' [
              say ''Direct settlement webhook signature verified. Final authoritative gateway status: '',
              node ''b'' [put (member pay ''status'')],
              say ''.'']]],
        outcome_stage d w pay cust,
        chain_stage lc d]]"

definition detail_view :: "locale_fns \<Rightarrow> detail_page \<Rightarrow> js \<Rightarrow> js \<Rightarrow> js \<Rightarrow> js \<Rightarrow> detail_action view" where
  "detail_view lc p d w pay cust =
    node ''div'' [
      detail_header lc p d w pay,
      detail_figures d w pay,
      let succ = coalesce (member w ''customer_success_count'') (Num (nint 4)) in
        let failed = coalesce (member w ''customer_failed_count'') (Num (nint 1)) in
          let attempts = nmax (nint 1) (to_num (plus_js succ failed)) in
            let reliability = nround (nmul (ndiv (to_num succ) attempts) (nint 100)) in
              detail_tiles p d w pay cust succ failed attempts reliability,
      case dp_actionMessage p of None \<Rightarrow> put Null | Some m \<Rightarrow> notice m,
      show_when (member w ''status'' = Str ''ESCALATED'' \<or> member w ''status'' = Str ''REQUIRES_HUMAN_REVIEW'' \<or>
          member (member d ''policy_decision'') ''decision'' = Str ''ESCALATE'' \<or> member w ''status'' = Str ''ANALYZING''
          \<or> member w ''status'' = Str ''SCHEDULED'') (
        review_hub p d w pay cust),
      audit_trail lc d w pay cust]"

definition detail_page_view :: "locale_fns \<Rightarrow> detail_page \<Rightarrow> detail_action view" where
  "detail_page_view lc p =
    (if dp_loading p \<and> \<not> truthy (dp_detail p)
     then node ''div'' [LoadingView ''Loading complete recovery lifecycle & audit trail...'']
     else if (case dp_error p of Some (c # s) \<Rightarrow> True | _ \<Rightarrow> False) \<or> \<not> truthy (dp_detail p)
     then node ''div'' [ErrorView (Str (case dp_error p of Some (c # s) \<Rightarrow> c # s | _ \<Rightarrow>
         ''Workflow not found'')) (Some (\<lambda>_. Reload))]
     else let d = dp_detail p in detail_view lc p d (workflow_part d) (payment_part d) (customer_part d))"

subsection \<open>Rendering never throws\<close>

definition sound_detail :: "js \<Rightarrow> bool" where
  \<comment> \<open>what rendering needs of a detail\<close>
  "sound_detail d \<longleftrightarrow> has_type TText (member (workflow_part d) ''id'') \<and> has_type TNum (member (payment_part d) ''amount'')
     \<and> (nullish (member (workflow_part d) ''expected_loss'') \<or> has_type TNum (member (workflow_part d) ''expected_loss''))
     \<and> has_type TNum (orv (member (latest d ''recovery_outcomes'') ''recovered_amount'') (member (payment_part d) ''amount''))
     \<and> badge_ok (member (workflow_part d) ''status'') \<and> badge_ok (member (member d ''policy_decision'') ''decision'')
     \<and> (\<forall>k\<in>{''recovery_actions'', ''audit_events''}. \<exists>xs. rows d k = Arr xs \<and> list_all (\<lambda>x. \<not> nullish x) xs)"

lemma read_runs: "\<not> nullish v \<Longrightarrow> runs (get v k)" "truthy (member v k') \<Longrightarrow> runs (get v k)"
  by (auto simp: nullish_def)

lemma truthy_member_get: "truthy (member v k) \<Longrightarrow> get v k = Inr (member v k)"
  by (auto simp: get_def)

lemma num_orv: "has_type TNum v \<Longrightarrow> has_type TNum (orv v (Num n))"
  by (auto simp: orv_def)

lemma num_coalesce: "nullish v \<or> has_type TNum v \<Longrightarrow> has_type TNum (coalesce v (Num n))"
  by (auto simp: coalesce_def)

lemma fixed_runs: "has_type TNum v \<Longrightarrow> \<exists>s. fixed k v = Inr (Str s)"
  by (auto simp: fixed_def dest!: TNumD)

lemma cut_runs: "has_type TText v \<Longrightarrow> runs (cut a b v)"
  by (auto dest!: TTextD)

lemma not_nullish_num: "has_type TNum v \<Longrightarrow> \<not> nullish v"
  by (auto simp: nullish_def)

lemma exp_loss_num:
  "nullish (member (workflow_part d) ''expected_loss'') \<or> has_type TNum (member (workflow_part d) ''expected_loss'') \<Longrightarrow> has_type TNum (exp_loss d)"
  unfolding exp_loss_def by (rule num_coalesce)

lemma header_renders:
  "sound_detail d \<Longrightarrow> renders (detail_header lc p d (workflow_part d) (payment_part d))"
  unfolding detail_header_def sound_detail_def
  by (simp add: view_simps cut_runs)

lemma tiles_render:
  assumes "sound_detail d"
  shows "renders (detail_tiles p d (workflow_part d) (payment_part d) (customer_part d) succ failed attempts reliability)"
proof -
  have l: "has_type TNum (exp_loss d)" using assms by (simp add: sound_detail_def exp_loss_num)
  have a: "has_type TNum (member (payment_part d) ''amount'')" using assms by (simp add: sound_detail_def)
  have e: "\<not> nullish (coalesce (member (workflow_part d) ''expected_loss'') (Num n))" for n
    by (simp add: coalesce_def nullish_def)
  have o: "\<not> nullish (orv (member (payment_part d) ''amount'') (Num n))" for n
    using not_nullish_num [OF num_orv [OF a]] .
  have b: "badge_ok (member (member d ''policy_decision'') ''decision'')" using assms by (simp add: sound_detail_def)
  have t: "renders (three_tiles p d (workflow_part d) (customer_part d) succ failed reliability)"
    using fixed_runs [OF l, of 2] b unfolding three_tiles_def by (auto simp: view_simps runs_seqE truthy_member_get)
  have m: "renders (memory_formula d (customer_part d) succ failed attempts reliability)"
    unfolding memory_formula_def by (simp add: view_simps)
  have r: "renders (risk_weights d (workflow_part d) (payment_part d) failed)"
    using e o unfolding risk_weights_def by (simp add: view_simps)
  show ?thesis unfolding detail_tiles_def by (simp add: view_simps t m r)
qed

lemma hub_renders: "sound_detail d \<Longrightarrow> renders (review_hub p d (workflow_part d) (payment_part d) (customer_part d))"
  unfolding review_hub_def review_controls_def
  by (auto simp: view_simps runs_seqE truthy_member_get)

lemma stages_render:
  assumes "sound_detail d"
  shows "renders (risk_stage d (workflow_part d) (payment_part d))" and "renders (probability_stage d (workflow_part d) (payment_part d))"
    and "renders (inference_stage d (workflow_part d))" and "renders (execution_stage d (workflow_part d))"
    and "renders (outcome_stage d (workflow_part d) (payment_part d) (customer_part d))" and "renders (chain_stage lc d)"
proof -
  have a: "has_type TNum (member (payment_part d) ''amount'')"
    and e: "nullish (member (workflow_part d) ''expected_loss'') \<or> has_type TNum (member (workflow_part d) ''expected_loss'')"
    and o: "has_type TNum (orv (member (latest d ''recovery_outcomes'') ''recovered_amount'') (member (payment_part d) ''amount''))"
    using assms by (simp_all add: sound_detail_def)
  obtain acts where ra: "rows d ''recovery_actions'' = Arr acts" "list_all (\<lambda>x. \<not> nullish x) acts"
    using assms by (auto simp: sound_detail_def)
  obtain evs where re: "rows d ''audit_events'' = Arr evs" "list_all (\<lambda>x. \<not> nullish x) evs"
    using assms by (auto simp: sound_detail_def)
  show "renders (risk_stage d (workflow_part d) (payment_part d))"
    using fixed_runs [OF num_coalesce [OF e]] unfolding risk_stage_def by (auto simp: view_simps runs_iff)
  show "renders (probability_stage d (workflow_part d) (payment_part d))"
    using fixed_runs [OF num_orv [OF a]] unfolding probability_stage_def by (auto simp: view_simps runs_iff)
  show "renders (inference_stage d (workflow_part d))" unfolding inference_stage_def by (simp add: view_simps)
  have row: "runs (get x k)" if "x \<in> set acts" for x k using ra(2) that by (auto simp: list_all_iff)
  show "renders (execution_stage d (workflow_part d))"
    using ra(2) unfolding execution_stage_def ra(1)
    by (auto simp: view_simps renders_seqE runs_seqE list_all_iff get_member)
  have b: "badge_ok (member (workflow_part d) ''status'')" using assms by (simp add: sound_detail_def)
  show "renders (outcome_stage d (workflow_part d) (payment_part d) (customer_part d))"
    using fixed_runs [OF o, of 2] b unfolding outcome_stage_def by (auto simp: view_simps runs_seqE)
  show "renders (chain_stage lc d)"
    using re(2) unfolding chain_stage_def re(1)
    by (auto simp: view_simps renders_seqE runs_seqE list_all_iff get_member intro!: renders_each_i)
qed

lemma detail_view_renders:
  assumes "sound_detail d"
  shows "renders (detail_view lc p d (workflow_part d) (payment_part d) (customer_part d))"
proof -
  have f: "renders (detail_figures d (workflow_part d) (payment_part d))"
    using assms unfolding detail_figures_def by (auto simp: view_simps runs_seqE sound_detail_def opt_call_def localized_def)
  have n: "renders (notice m)" for m unfolding notice_def by (simp add: view_simps)
  have t: "renders (audit_trail lc d (workflow_part d) (payment_part d) (customer_part d))"
    using assms unfolding audit_trail_def by (simp add: view_simps stages_render sound_detail_def)
  show ?thesis
    unfolding detail_view_def Let_def
    by (simp add: view_simps header_renders [OF assms] f n t tiles_render [OF assms] hub_renders [OF assms] split: option.split)
qed

lemma detail_fields:
  assumes "has_type WorkflowDetail d"
  shows "has_type WorkflowDetail_workflow (member d ''workflow'')"
    and "member d ''payment'' = Undef \<or> has_type WorkflowDetail_payment (member d ''payment'')"
    and "member d ''recovery_outcomes'' = Undef \<or> has_type WorkflowDetail_recovery_outcomes (member d ''recovery_outcomes'')"
    and "member d ''recovery_actions'' = Undef \<or> has_type WorkflowDetail_recovery_actions (member d ''recovery_actions'')"
    and "member d ''audit_events'' = Undef \<or> has_type WorkflowDetail_audit_events (member d ''audit_events'')"
    and "member d ''policy_decision'' = Undef \<or> has_type WorkflowDetail_policy_decision (member d ''policy_decision'')"
  using assms unfolding WorkflowDetail_def by (rule member_req member_opt, simp)+

lemma rec_truthy: "has_type (TRec ds) v \<Longrightarrow> truthy v"
  by (auto dest!: TRecD)

lemma typed_workflow:
  assumes "has_type WorkflowDetail d"
  shows "truthy (member d ''workflow'')" and "workflow_part d = member d ''workflow''"
proof -
  show "truthy (member d ''workflow'')"
    using detail_fields(1) [OF assms] unfolding WorkflowDetail_workflow_def by (rule rec_truthy)
  then show "workflow_part d = member d ''workflow''" by (simp add: workflow_part_def orv_def)
qed

lemma typed_amount:
  assumes "has_type WorkflowDetail d"
  shows "has_type TNum (member (payment_part d) ''amount'')"
proof (cases "member d ''payment'' = Undef")
  case True
  have "member (member d ''workflow'') ''amount'' = Undef \<or> has_type TNum (member (member d ''workflow'') ''amount'')"
    using detail_fields(1) [OF assms] unfolding WorkflowDetail_workflow_def by (rule member_opt) simp
  moreover have "member (payment_part d) ''amount'' = orv (member (member d ''workflow'') ''amount'') (js_int 0)"
    using True by (simp add: payment_part_def typed_workflow(2) [OF assms] Let_def)
  ultimately show ?thesis by (auto simp: orv_def)
next
  case False
  with detail_fields(2) [OF assms] have p: "has_type WorkflowDetail_payment (member d ''payment'')" by simp
  then have "truthy (member d ''payment'')" unfolding WorkflowDetail_payment_def by (rule rec_truthy)
  then have "payment_part d = member d ''payment''" by (simp add: payment_part_def orv_def Let_def)
  with p show ?thesis unfolding WorkflowDetail_payment_def by (auto intro: member_req)
qed

lemma typed_rows:
  assumes "member d k = Undef \<or> has_type (TArr (TRec ds)) (member d k)"
  shows "\<exists>xs. rows d k = Arr xs \<and> list_all (has_type (TRec ds)) xs \<and> list_all (\<lambda>x. \<not> nullish x) xs"
proof -
  obtain xs where xs: "rows d k = Arr xs" "list_all (has_type (TRec ds)) xs"
    using assms by (auto simp: rows_def dest!: TArrD)
  have "\<not> nullish x" if "has_type (TRec ds) x" for x using that by (auto simp: nullish_def)
  with xs show ?thesis by (auto simp: list_all_iff)
qed

lemma typed_recovered:
  assumes "has_type WorkflowDetail d"
  shows "has_type TNum (orv (member (latest d ''recovery_outcomes'') ''recovered_amount'') (member (payment_part d) ''amount''))"
proof -
  obtain xs where x: "orv (member d ''recovery_outcomes'') (Arr []) = Arr xs" "has_type WorkflowDetail_recovery_outcomes (Arr xs)"
    using detail_fields(3) [OF assms] unfolding WorkflowDetail_recovery_outcomes_def
    by (auto simp: rows_def dest!: typed_rows)
  show ?thesis
  proof (cases xs)
    case (Cons y ys)
    then have "member y ''recovered_amount'' = Undef \<or> has_type TNum (member y ''recovered_amount'')"
      using x(2) unfolding WorkflowDetail_recovery_outcomes_def by (auto dest!: TRecD)
    then show ?thesis using typed_amount [OF assms] x(1) Cons by (auto simp: latest_def orv_def)
  qed (use typed_amount [OF assms] x(1) in \<open>simp add: latest_def\<close>)
qed

lemma typed_sound:
  assumes "has_type WorkflowDetail d"
  shows "sound_detail d"
proof -
  have "has_type TText (member (member d ''workflow'') ''id'')"
    using detail_fields(1) [OF assms] unfolding WorkflowDetail_workflow_def by (rule member_req) simp
  moreover have "member (member d ''workflow'') ''expected_loss'' = Undef \<or> has_type TNum (member (member d ''workflow'') ''expected_loss'')"
    using detail_fields(1) [OF assms] unfolding WorkflowDetail_workflow_def by (rule member_opt) simp
  moreover have "\<exists>xs. rows d ''recovery_actions'' = Arr xs \<and> list_all (\<lambda>x. \<not> nullish x) xs"
    using typed_rows detail_fields(4) [OF assms] unfolding WorkflowDetail_recovery_actions_def by blast
  moreover have "\<exists>xs. rows d ''audit_events'' = Arr xs \<and> list_all (\<lambda>x. \<not> nullish x) xs"
    using typed_rows detail_fields(5) [OF assms] unfolding WorkflowDetail_audit_events_def by blast
  moreover have "badge_ok (member (member d ''workflow'') ''status'')"
    using detail_fields(1) [OF assms] unfolding WorkflowDetail_workflow_def by (intro badge_ok_simps) (rule member_req, simp, simp)
  moreover have "badge_ok (member (member d ''policy_decision'') ''decision'')"
  proof (cases "member d ''policy_decision'' = Undef")
    case False
    with detail_fields(6) [OF assms] have t: "has_type WorkflowDetail_policy_decision (member d ''policy_decision'')" by simp
    then show ?thesis unfolding WorkflowDetail_policy_decision_def by (rule listed_badge) (simp, simp)
  qed simp
  ultimately show ?thesis
    unfolding sound_detail_def typed_workflow(2) [OF assms] using typed_amount [OF assms] typed_recovered [OF assms]
    by (simp add: nullish_def) blast
qed

text \<open>Merging stored calls keeps a detail sound, whatever the storage holds.\<close>

lemma prepend_sound:
  assumes "sound_detail r" and "truthy (member r ''workflow'')" and "prepend_rows k new r = Inr r'"
    and "k \<in> {''recovery_actions'', ''audit_events''}" and "list_all (\<lambda>x. \<not> nullish x) new"
  shows "sound_detail r' \<and> truthy (member r' ''workflow'')"
proof -
  obtain xs where xs: "orv (member r k) (Arr []) = Arr xs" "list_all (\<lambda>x. \<not> nullish x) xs"
    using assms(1,4) by (auto simp: sound_detail_def rows_def)
  then obtain fs where r: "r = Obj fs" and r': "r' = Obj (put_field fs k (Arr (new @ xs)))"
    using assms(3) by (auto simp: prepend_rows_def set_field_def split: js.splits)
  have same: "member r' k' = member r k'" if "k' \<noteq> k" for k' using that by (simp add: r r')
  have w: "workflow_part r' = workflow_part r" using assms(2,4) same by (auto simp: workflow_part_def orv_def)
  moreover have "payment_part r' = payment_part r" using assms(4) same [of "''payment''"] by (auto simp: payment_part_def w)
  moreover have "latest r' ''recovery_outcomes'' = latest r ''recovery_outcomes''" using assms(4) same by (auto simp: latest_def)
  moreover have "member r' ''policy_decision'' = member r ''policy_decision''" "member r' ''workflow'' = member r ''workflow''"
    using assms(4) same by auto
  moreover have "\<exists>ys. rows r' k' = Arr ys \<and> list_all (\<lambda>x. \<not> nullish x) ys" if "k' \<in> {''recovery_actions'', ''audit_events''}" for k'
  proof (cases "k' = k")
    case True
    then have "rows r' k' = Arr (new @ xs)" by (simp add: rows_def r')
    then show ?thesis using xs(2) assms(5) by simp
  next
    case False
    then show ?thesis using assms(1) that same by (simp add: sound_detail_def rows_def) blast
  qed
  ultimately show ?thesis using assms(1,2) unfolding sound_detail_def by simp
qed

lemma voice_audit_row_kind: "mapE voice_audit calls = Inr as \<Longrightarrow> list_all (\<lambda>x. \<not> nullish x) as"
proof (induction calls arbitrary: as)
  case (Cons c calls)
  then show ?case by (auto simp: voice_audit_def nullish_def)
qed simp

lemma merge_sound:
  assumes "sound_detail r" and "truthy (member r ''workflow'')"
  shows "sound_detail (merge_dispatches st wid r)"
proof (cases "matching_calls st wid r")
  case (Inr calls)
  have v: "list_all (\<lambda>x. \<not> nullish x) (map voice_action calls)" by (simp add: list_all_iff voice_action_def nullish_def)
  show ?thesis
  proof (cases "calls = []")
    case False
    show ?thesis
    proof (cases "mapE voice_audit calls")
      case (Inr audits)
      note m = Inr
      show ?thesis
      proof (cases "prepend_rows ''recovery_actions'' (map voice_action calls) r")
        case (Inr r1)
        have s1: "sound_detail r1" "truthy (member r1 ''workflow'')"
          using prepend_sound [OF assms Inr _ v] by simp_all
        have "sound_detail r2" if "prepend_rows ''audit_events'' audits r1 = Inr r2" for r2
          using prepend_sound [OF s1 that _ voice_audit_row_kind [OF m]] by simp
        with s1 show ?thesis
          using False \<open>matching_calls st wid r = Inr calls\<close> m Inr by (simp add: merge_dispatches_def split: sum.split)
      qed (use assms False \<open>matching_calls st wid r = Inr calls\<close> m in \<open>simp add: merge_dispatches_def\<close>)
    qed (use assms False \<open>matching_calls st wid r = Inr calls\<close> in \<open>simp add: merge_dispatches_def\<close>)
  qed (use assms Inr in \<open>simp add: merge_dispatches_def\<close>)
qed (use assms in \<open>simp add: merge_dispatches_def\<close>)

subsection \<open>Controls of a closed workflow\<close>

definition open_only :: "detail_page \<Rightarrow> js \<Rightarrow> detail_action set" where
  \<comment> \<open>decisions only while none is under way, on a workflow that is neither recovered nor halted\<close>
  "open_only p w = {a. a \<in> {Approve, Reject} \<longrightarrow> \<not> dp_actionLoading p \<and> member w ''status'' \<notin> {Str ''RECOVERED'', Str ''HALTED''}}"

lemma open_only_simps [simp]:
  "Reload \<in> open_only p w" "Export f \<in> open_only p w" "Expand b \<in> open_only p w" "Choose v \<in> open_only p w" "Dismiss \<in> open_only p w"
  "Approve \<in> open_only p w \<longleftrightarrow> \<not> dp_actionLoading p \<and> member w ''status'' \<notin> {Str ''RECOVERED'', Str ''HALTED''}"
  "Reject \<in> open_only p w \<longleftrightarrow> \<not> dp_actionLoading p \<and> member w ''status'' \<notin> {Str ''RECOVERED'', Str ''HALTED''}"
  by (simp_all add: open_only_def)

lemma intervention_open:
  "is_intervention d \<Longrightarrow> member (workflow_part d) ''status'' \<noteq> Str ''RECOVERED''"
  "is_intervention d \<Longrightarrow> member (workflow_part d) ''status'' \<noteq> Str ''HALTED''"
  by (auto simp: is_intervention_def)

lemma parts_confined:
  "confined (open_only p (workflow_part d)) (detail_header lc p d (workflow_part d) pay)"
  "confined (open_only p w) (review_hub p d w pay cust)"
  "confined (open_only p w) (detail_figures d w pay)"
  "confined (open_only p w) (notice m)"
  "confined (open_only p w) (detail_tiles p d w pay cust succ failed attempts reliability)"
  "confined (open_only p w) (audit_trail lc d w pay cust)"
  subgoal unfolding detail_header_def by (simp add: view_simps intervention_open)
  subgoal unfolding review_hub_def review_controls_def by (simp add: view_simps)
  subgoal unfolding detail_figures_def by (simp add: view_simps)
  subgoal unfolding notice_def by (simp add: view_simps)
  subgoal unfolding detail_tiles_def three_tiles_def memory_formula_def risk_weights_def by (simp add: view_simps)
  subgoal unfolding audit_trail_def risk_stage_def probability_stage_def inference_stage_def execution_stage_def outcome_stage_def
      chain_stage_def by (simp add: view_simps)
  done

lemma dataset_detail_typed:
  assumes "generateSyntheticWorkflows n = Inr ws" "getSyntheticWorkflowDetail ws wid = Inr r"
  shows "has_type WorkflowDetail r"
proof -
  obtain w where w: "find_workflow ws wid = Some w" "workflow_detail w = Inr r"
    using assms(2) by (auto simp: getSyntheticWorkflowDetail_def split: option.splits)
  then have "w \<in> set ws" by (auto simp: find_workflow_def dest!: find_Some_in split: option.splits list.splits)
  from detail_typed [OF w(2) dataset_dated [OF assms(1) this]] show ?thesis .
qed

subsection \<open>The page's life\<close>

type_synonym detail_event = "fetch \<times> fetch \<times> storage \<times> string option \<times> detail_action"

fun detail_step :: "string \<Rightarrow> WorkflowSummary list \<Rightarrow> string \<Rightarrow> detail_event \<Rightarrow> detail_page \<Rightarrow> detail_page" where
  "detail_step base ds wid (net, net', st, answer, a) p = detail_do base net net' ds st wid answer a p"

definition typed_detail :: "detail_page \<Rightarrow> bool" where
  "typed_detail p \<longleftrightarrow> dp_detail p = Null \<or> sound_detail (dp_detail p)"

definition typed_answer :: "string \<Rightarrow> WorkflowSummary list \<Rightarrow> string \<Rightarrow> fetch \<Rightarrow> bool" where
  "typed_answer base ds wid net \<longleftrightarrow> (\<forall>r. getWorkflowDetail base net ds wid = Inr r \<longrightarrow> has_type WorkflowDetail r)"

definition detail_fair :: "string \<Rightarrow> WorkflowSummary list \<Rightarrow> string \<Rightarrow> detail_event \<Rightarrow> bool" where
  \<comment> \<open>the details that arrive are typed; nothing is asked of the storage\<close>
  "detail_fair base ds wid e \<longleftrightarrow> (case e of (net, net', st, answer, a) \<Rightarrow> typed_answer base ds wid net \<and> typed_answer base ds wid net')"

lemma typed_detail_other [simp]:
  "typed_detail (p\<lparr>dp_expandedBreakdown := b\<rparr>) = typed_detail p" "typed_detail (p\<lparr>dp_selectedStrategy := v\<rparr>) = typed_detail p"
  "typed_detail (p\<lparr>dp_actionMessage := m\<rparr>) = typed_detail p" "typed_detail (p\<lparr>dp_actionLoading := l\<rparr>) = typed_detail p"
  "typed_detail (p\<lparr>dp_prompts := n\<rparr>) = typed_detail p"
  by (simp_all add: typed_detail_def)

lemma detail_page_view_renders: "typed_detail p \<Longrightarrow> renders (detail_page_view lc p)"
  by (auto simp: detail_page_view_def typed_detail_def view_simps detail_view_renders Let_def)

lemma loadWorkflow_typed:
  assumes "typed_detail p" "typed_answer base ds wid net"
  shows "typed_detail (loadWorkflow base net ds st wid p)"
proof (cases "getWorkflowDetail base net ds wid")
  case (Inl e)
  then show ?thesis using assms(1) by (simp add: loadWorkflow_def typed_detail_def)
next
  case (Inr r)
  then have "has_type WorkflowDetail r" using assms(2) by (simp add: typed_answer_def)
  then have "sound_detail (merge_dispatches st wid r)" using merge_sound [OF typed_sound typed_workflow(1)] by blast
  then show ?thesis using assms(1) Inr by (simp add: loadWorkflow_def typed_detail_def Let_def split: sum.split)
qed

lemma detail_step_typed:
  "typed_detail p \<Longrightarrow> detail_fair base ds wid e \<Longrightarrow> typed_detail (detail_step base ds wid e p)"
  by (cases e) (auto simp: detail_fair_def detail_do_def handleApprove_def handleReject_def Let_def loadWorkflow_typed
    split: detail_action.split sum.split)

interpretation detail_life: page_life typed_detail "detail_page_view lc" "detail_step base ds wid" "detail_fair base ds wid"
  for lc base ds wid
  by unfold_locales (simp_all add: detail_page_view_renders detail_step_typed)

lemma offline_detail_typed: "generateSyntheticWorkflows n = Inr ws \<Longrightarrow> typed_answer base ws wid unreachable"
  using dataset_detail_typed by (simp add: typed_answer_def getWorkflowDetail_def)

lemma detail_init_typed: "typed_detail detail_init"
  by (simp add: typed_detail_def detail_init_def)

subsection \<open>Properties\<close>

text \<open>
  C7: The page of a workflow always renders. If the details that arrive have their declared type, then after any sequence
  of loads, decisions and clicks the page is rendered without an exception, whatever the browser's local storage holds
  (the calls merged into a detail come from it) and whatever the locale; also when loading fails.
\<close>

theorem detail_page_renders:
  assumes "typed_detail p" and "list_all (detail_fair base ds wid) es"
  shows "renders (detail_page_view lc (fold (detail_step base ds wid) es p))"
  using assms by (rule detail_life.never_throws)

theorem detail_page_renders_witness:
  "\<exists>ws. generateSyntheticWorkflows 2500 = Inr ws \<and>
    renders (detail_page_view plain_locale (fold (detail_step ''/api'' ws ''wf_esc_revive_101'')
      [(unreachable, unreachable, fresh_storage, None, Reload), (unreachable, unreachable, fresh_storage, None, Approve)] detail_init))"
proof -
  obtain ws where g: "generateSyntheticWorkflows 2500 = Inr ws" by (rule generate_eq [of 2500])
  have "list_all (detail_fair ''/api'' ws ''wf_esc_revive_101'')
      [(unreachable, unreachable, fresh_storage, None, Reload), (unreachable, unreachable, fresh_storage, None, Approve)]"
    using offline_detail_typed [OF g] by (simp add: detail_fair_def)
  from detail_page_renders [OF detail_init_typed this] g show ?thesis by blast
qed

text \<open>
  C5: No control of the page decides a closed workflow: when a click can approve or reject, no decision is being sent
  and the workflow shown is neither recovered nor halted.
\<close>

theorem closed_workflow_untouched:
  assumes "a \<in> set (acts x (detail_page_view lc p))" and "a = Approve \<or> a = Reject"
  shows "\<not> dp_actionLoading p \<and> truthy (dp_detail p)
    \<and> member (workflow_part (dp_detail p)) ''status'' \<notin> {Str ''RECOVERED'', Str ''HALTED''}"
proof -
  let ?w = "workflow_part (dp_detail p)"
  have t: "truthy (dp_detail p)"
  proof (rule ccontr)
    assume "\<not> truthy (dp_detail p)"
    then have "confined {Reload} (detail_page_view lc p)" by (simp add: detail_page_view_def view_simps)
    from confinedD [OF this assms(1)] assms(2) show False by auto
  qed
  have "confined (open_only p ?w) (detail_view lc p (dp_detail p) ?w (payment_part (dp_detail p)) (customer_part (dp_detail p)))"
    unfolding detail_view_def Let_def by (simp add: view_simps parts_confined split: option.split)
  then have "confined (open_only p ?w) (detail_page_view lc p)"
    using t by (simp add: detail_page_view_def view_simps Let_def)
  from confinedD [OF this assms(1)] assms(2) t show ?thesis by (auto simp: open_only_def)
qed

definition escalated_page :: detail_page where
  "escalated_page = detail_init\<lparr>dp_loading := False, dp_detail := Obj [(''workflow'', Obj [(''id'', Str ''wf_1''), (''status'', Str ''ESCALATED'')])]\<rparr>"

theorem closed_workflow_untouched_witness:
  "Approve \<in> set (acts Undef (detail_page_view plain_locale escalated_page)) \<and> \<not> dp_actionLoading escalated_page"
proof -
  let ?d = "dp_detail escalated_page"
  have s: "sound_detail ?d"
    by (simp add: sound_detail_def escalated_page_def detail_init_def rows_def latest_def workflow_part_def payment_part_def nullish_def)
  note h = header_renders [OF s, of plain_locale escalated_page]
  have "Approve \<in> set (acts Undef (detail_header plain_locale escalated_page ?d (workflow_part ?d) (payment_part ?d)))"
    using h unfolding detail_header_def
    by (simp add: acts_node_eq acts_el_eq view_simps show_when_def is_intervention_def)
      (simp add: escalated_page_def detail_init_def workflow_part_def)
  moreover note v = detail_view_renders [OF s, of plain_locale escalated_page]
  ultimately have "Approve \<in> set (acts Undef (detail_view plain_locale escalated_page ?d (workflow_part ?d) (payment_part ?d) (customer_part ?d)))"
    unfolding detail_view_def by (simp add: acts_node_eq)
  then have "Approve \<in> set (acts Undef (detail_page_view plain_locale escalated_page))"
    by (simp add: detail_page_view_def Let_def) (simp add: escalated_page_def detail_init_def)
  with closed_workflow_untouched [OF this] show ?thesis by simp
qed

end
