(* ===== verification/PtpPage.thy ===== *)
theory PtpPage
  imports VoicePage
begin

text \<open>
  \<open>apps/web/src/app/ptp-tracker/page.tsx\<close>: the promises to pay. The page merges the promises behind the voice
  dispatches in the local storage, the backend's promises and the demonstration ones, and computes
  its figures from the merged list.
\<close>

subsection \<open>State\<close>

record ptp_page =
  pt_promises :: "js list"
  pt_metrics :: js
  pt_loading :: bool
  pt_statusMsg :: js
  pt_timers :: nat
  pt_alert :: "string option"

definition hours_from :: "int \<Rightarrow> int \<Rightarrow> err + string" where
  \<comment> \<open>\<open>new Date(Date.now() + h * 3600 * 1000).toISOString()\<close>\<close>
  "hours_from t h = to_iso (time_clip (nadd (nint t) (nint (h * 3600 * 1000))))"

definition demo_promise :: "int \<Rightarrow> string \<Rightarrow> string \<Rightarrow> string \<Rightarrow> int \<Rightarrow> int \<Rightarrow> string \<Rightarrow> string \<Rightarrow> err + js" where
  "demo_promise t key name contact amount hours status channel = seqE (hours_from t hours) (\<lambda>due. Inr (Obj [
     (''id'', Str key), (''customer_name'', Str name), (''customer_contact'', Str contact),
     (''promised_amount'', js_int amount), (''promised_date'', Str due), (''status'', Str status),
     (''recorded_channel'', Str channel)]))"

definition DEMO_PTP_PROMISES :: "clock \<Rightarrow> err + js list" where
  "DEMO_PTP_PROMISES now = mapE (\<lambda>x. x) [
     demo_promise (now 0) ''ptp_881901'' ''Manish Trivedi'' ''+919820192831'' 18500 24 ''PENDING'' ''VOICE_AGENT (Hinglish)'',
     demo_promise (now 1) ''ptp_881902'' ''Shreya Sen'' ''+919711829301'' 6500 (- 12) ''HONORED'' ''WHATSAPP_LINK'',
     demo_promise (now 2) ''ptp_881903'' ''Kunal Batra'' ''+919833019284'' 32000 72 ''EXTENDED'' ''VOICE_AGENT'']"

definition ptp_init :: "js list \<Rightarrow> ptp_page" where
  "ptp_init demo = \<lparr>pt_promises = demo, pt_metrics = Null, pt_loading = True, pt_statusMsg = Null, pt_timers = 0, pt_alert = None\<rparr>"

subsection \<open>Promises behind voice dispatches\<close>

definition promise_id :: "string \<Rightarrow> string" where
  \<comment> \<open>\<open>`ptp_${sid.replace(/[^a-zA-Z0-9]/g, '').slice(-8)}`\<close>\<close>
  "promise_id sid = (let s = filter is_alnum sid in ''ptp_'' @ slice s (- 8) (int (length s)))"

definition is_promise :: "js \<Rightarrow> err + bool" where
  \<comment> \<open>\<open>!d.intent || d.intent === 'PROMISE_TO_PAY'\<close>\<close>
  "is_promise d = seqE (get d ''intent'') (\<lambda>intent. Inr (\<not> truthy intent \<or> intent = Str ''PROMISE_TO_PAY''))"

definition local_promise :: "int \<Rightarrow> js \<Rightarrow> err + js" where
  "local_promise t d =
    seqE (as_string (orv (member d ''call_sid'') (Str ''voice''))) (\<lambda>sid.
    seqE (hours_from t 48) (\<lambda>due. Inr (Obj [
      (''id'', Str (promise_id sid)),
      (''customer_name'', orv (member d ''customer_name'') (Str ''Customer'')),
      (''customer_contact'', orv (member d ''phone'') (orv (member d ''customer_email'') (Str ''Phone Call''))),
      (''promised_amount'', Num (let n = to_num (member d ''amount'') in if ntruthy n then n else nint 14999)),
      (''promised_date'', Str due),
      (''status'', Str ''PENDING''),
      (''recorded_channel'', Str ''VOICE_AGENT (Hinglish)'')])))"

definition local_promises :: "clock \<Rightarrow> storage \<Rightarrow> js list" where
  "local_promises now st = (case seqE (load_json st dispatch_key) (\<lambda>v. case v of
       Some s \<Rightarrow> seqE (as_array s) (\<lambda>dispatches. seqE (filterE is_promise dispatches) (\<lambda>ds.
         mapE (\<lambda>(i, d). local_promise (now i) d) (index_from 0 ds)))
     | None \<Rightarrow> Inr []) of
     Inr ps \<Rightarrow> ps | Inl _ \<Rightarrow> [])"

subsection \<open>Loading\<close>

definition promise_key :: "js \<Rightarrow> err + js" where
  "promise_key p = get p ''id''"

definition honored :: "js \<Rightarrow> bool" where
  "honored p \<longleftrightarrow> member p ''status'' = Str ''HONORED''"

definition metrics_of :: "js list \<Rightarrow> js \<Rightarrow> js" where
  "metrics_of merged rate =
    (let totalCommitted = sum_amounts ''promised_amount'' merged;
         totalRecovered = sum_amounts ''promised_amount'' (filter honored merged)
     in Obj [
       (''total_commitments'', js_int (int (length merged))),
       (''committed_amount'', Num totalCommitted),
       (''recovered_amount'', Num (if ntruthy totalRecovered then totalRecovered else nint 6500)),
       (''fulfillment_rate'', rate)])"

definition online_promises :: "js list \<Rightarrow> js list \<Rightarrow> js \<Rightarrow> err + js list" where
  "online_promises demo local data = seqE (get data ''promises'') (\<lambda>ps.
     seqE (as_iterable (orv ps (Arr []))) (\<lambda>realPromises. merge_sources promise_key [local, realPromises, demo]))"

definition offline_promises :: "js list \<Rightarrow> js list \<Rightarrow> js list" where
  "offline_promises demo local = local @ filter (\<lambda>d. \<not> set_has (map (\<lambda>p. member p ''id'') local) (member d ''id'')) demo"

definition fetchPTP :: "string \<Rightarrow> fetch \<Rightarrow> clock \<Rightarrow> storage \<Rightarrow> js list \<Rightarrow> ptp_page \<Rightarrow> ptp_page" where
  "fetchPTP base net now st demo p =
    (let local = local_promises now st; loaded = p\<lparr>pt_loading := False\<rparr>;
         offline = offline_promises demo local;
         fallback = loaded\<lparr>pt_promises := offline, pt_metrics := metrics_of offline (js_int 100)\<rparr>
     in case seqE (net (plain_get (base @ ''/v1/ptp''))) (\<lambda>res.
          if res_ok res then seqE (res_json res) (\<lambda>data. seqE (online_promises demo local data) (\<lambda>merged.
            Inr (loaded\<lparr>pt_promises := merged,
              pt_metrics := metrics_of merged (orv (member (member data ''metrics'') ''fulfillment_rate'') (js_int 100))\<rparr>)))
          else Inr fallback) of
        Inr p' \<Rightarrow> p'
      | Inl _ \<Rightarrow> fallback)"

subsection \<open>Acting on a promise\<close>

definition act_on_promise :: "web_request \<Rightarrow> string \<Rightarrow> fetch \<Rightarrow> (ptp_page \<Rightarrow> ptp_page) \<Rightarrow> ptp_page \<Rightarrow> ptp_page" where
  \<comment> \<open>the body both handlers share\<close>
  "act_on_promise req failure net reload p = act_with_message net req
     (\<lambda>m q. q\<lparr>pt_statusMsg := m, pt_timers := Suc (pt_timers q)\<rparr>) reload (\<lambda>q. q\<lparr>pt_alert := Some failure\<rparr>) p"

definition verifyPayment :: "string \<Rightarrow> fetch \<Rightarrow> fetch \<Rightarrow> clock \<Rightarrow> storage \<Rightarrow> js list \<Rightarrow> js \<Rightarrow> ptp_page \<Rightarrow> ptp_page" where
  "verifyPayment base net net' now st demo promiseId p =
    act_on_promise (json_post (base @ ''/v1/ptp/verify'') (Obj [(''promise_id'', promiseId), (''is_paid'', Bool True)]))
      ''Verification failed'' net (fetchPTP base net' now st demo) p"

definition extendPromise :: "string \<Rightarrow> fetch \<Rightarrow> fetch \<Rightarrow> clock \<Rightarrow> storage \<Rightarrow> js list \<Rightarrow> js \<Rightarrow> ptp_page \<Rightarrow> ptp_page" where
  "extendPromise base net net' now st demo promiseId p =
    act_on_promise (json_post (base @ ''/v1/ptp/extend'') (Obj [(''promise_id'', promiseId), (''days'', js_int 3)]))
      ''Extension failed'' net (fetchPTP base net' now st demo) p"

definition clear_status :: "ptp_page \<Rightarrow> ptp_page" where
  \<comment> \<open>the timer's callback\<close>
  "clear_status p = p\<lparr>pt_statusMsg := Null, pt_timers := pt_timers p - 1\<rparr>"

subsection \<open>Lemmas\<close>

interpretation promises: row_key promise_key "\<lambda>p. member p ''id''"
  unfolding promise_key_def by (rule get_row)

interpretation voice_calls: row_key call_key "\<lambda>c. member c ''call_sid''"
  unfolding call_key_def by (rule get_row)

lemma is_promise_throws: "is_promise d = Inl e \<Longrightarrow> nullish d"
  by (auto simp: is_promise_def get_def nullish_def split: if_splits)

text \<open>
  The figures are the sums of the rows shown. For whole amounts the commitment figure is the sum over all
  promises and the recovery figure the sum over the honoured ones, except when nothing is honoured (or the
  honoured amounts are zero): then the page claims 6500.
\<close>

theorem ptp_figures:
  assumes "list_all (has_whole ''promised_amount'') rows" and "owed ''promised_amount'' (\<lambda>_. True) rows \<le> 2 ^ 53"
  shows "metrics_of rows rate = Obj [
      (''total_commitments'', js_int (int (length rows))),
      (''committed_amount'', js_int (owed ''promised_amount'' (\<lambda>_. True) rows)),
      (''recovered_amount'', js_int (if owed ''promised_amount'' honored rows = 0 then 6500
         else owed ''promised_amount'' honored rows)),
      (''fulfillment_rate'', rate)]
    \<and> owed ''promised_amount'' honored rows \<le> owed ''promised_amount'' (\<lambda>_. True) rows"
proof -
  have h: "list_all (has_whole ''promised_amount'') (filter honored rows)" using assms(1) by (auto simp: list_all_iff)
  have e: "owed ''promised_amount'' (\<lambda>_. True) (filter honored rows) = owed ''promised_amount'' honored rows" by (simp add: owed_filter)
  have le: "owed ''promised_amount'' honored rows \<le> owed ''promised_amount'' (\<lambda>_. True) rows" by (rule owed_le [OF assms(1)])
  have s: "sum_amounts ''promised_amount'' (filter honored rows) = nint (owed ''promised_amount'' honored rows)"
    using sum_amounts_whole [OF h] e le assms(2) by simp
  show ?thesis using le by (simp add: metrics_of_def s sum_amounts_whole [OF assms] Let_def)
qed

theorem ptp_figures_witness:
  "metrics_of [Obj [(''promised_amount'', js_int 100), (''status'', Str ''PENDING'')]] (js_int 100) = Obj [
     (''total_commitments'', js_int 1), (''committed_amount'', js_int 100), (''recovered_amount'', js_int 6500),
     (''fulfillment_rate'', js_int 100)]"
proof -
  let ?r = "Obj [(''promised_amount'', js_int 100), (''status'', Str ''PENDING'')]"
  have a: "amount_of ?r ''promised_amount'' = nint 100" by (simp add: amount_of_def)
  then have w: "whole ''promised_amount'' ?r = 100" "has_whole ''promised_amount'' ?r"
    by (auto simp: whole_def has_whole_def nullish_def intro: exI [of _ 100])
  have l: "list_all (has_whole ''promised_amount'') [?r]" and b: "owed ''promised_amount'' (\<lambda>_. True) [?r] \<le> 2 ^ 53"
    using w by (simp_all add: owed_def)
  show ?thesis using ptp_figures [OF l b, of "js_int 100"] w(1) by (simp add: owed_def honored_def)
qed

subsection \<open>From the voice agent to the tracker\<close>

definition dispatch_row :: "js \<Rightarrow> bool" where
  \<comment> \<open>an object whose call id, if there is one, is a text\<close>
  "dispatch_row d \<longleftrightarrow> \<not> nullish d \<and> (\<exists>s. orv (member d ''call_sid'') (Str ''voice'') = Str s)"

definition json_row :: "js \<Rightarrow> bool" where
  \<comment> \<open>a dispatch as it is read back from the storage\<close>
  "json_row d \<longleftrightarrow> js_ok d \<and> json_image d = d \<and> dispatch_row d"

definition dated :: "clock \<Rightarrow> bool" where
  \<comment> \<open>the clock stays within the range of dates\<close>
  "dated now \<longleftrightarrow> (\<forall>i. \<exists>due. hours_from (now i) 48 = Inr due)"

lemma image_items_id: "list_all json_row ds \<Longrightarrow> image_items ds = ds" "list_all json_row ds \<Longrightarrow> items_ok ds"
  by (induction ds) (auto simp: json_row_def)

lemma local_promise_ex:
  assumes "dispatch_row d" "dated now"
  shows "\<exists>q. local_promise (now i) d = Inr q"
proof -
  obtain s where "orv (member d ''call_sid'') (Str ''voice'') = Str s" using assms(1) by (auto simp: dispatch_row_def)
  moreover obtain due where "hours_from (now i) 48 = Inr due" using assms(2) by (auto simp: dated_def)
  ultimately show ?thesis by (simp add: local_promise_def)
qed

lemma local_promises_head:
  assumes l: "load_json st dispatch_key = Inr (Some (Arr (d # ds)))" and r: "list_all dispatch_row (d # ds)" and t: "dated now"
    and d: "member d ''intent'' = Str ''PROMISE_TO_PAY''"
  shows "\<exists>q qs. local_promise (now 0) d = Inr q \<and> local_promises now st = q # qs"
proof -
  have isp: "is_promise x = Inr (\<not> truthy (member x ''intent'') \<or> member x ''intent'' = Str ''PROMISE_TO_PAY'')" if "x \<in> set (d # ds)" for x
  proof -
    have "\<not> nullish x" using that r by (auto simp: list_all_iff dispatch_row_def)
    then show ?thesis by (simp add: is_promise_def get_member)
  qed
  define ps where "ps = filter (\<lambda>x. \<not> truthy (member x ''intent'') \<or> member x ''intent'' = Str ''PROMISE_TO_PAY'') ds"
  have f: "filterE is_promise (d # ds) = Inr (d # ps)"
    using filterE_total [of "d # ds" is_promise, OF isp] d by (simp add: ps_def)
  have "\<exists>q. local_promise (now i) x = Inr q" if "(i, x) \<in> set (index_from 0 (d # ps))" for i x
  proof -
    have "x \<in> set (d # ps)" using that by (metis map_snd_index_from list.set_map image_eqI snd_conv)
    then have "dispatch_row x" using r by (auto simp: ps_def list_all_iff)
    then show ?thesis using local_promise_ex t by blast
  qed
  then obtain qs where qs: "mapE (\<lambda>(i, x). local_promise (now i) x) (index_from 0 (d # ps)) = Inr qs"
    using mapE_ex [of "index_from 0 (d # ps)" "\<lambda>(i, x). local_promise (now i) x"] by auto
  then obtain q qs' where "local_promise (now 0) d = Inr q" "qs = q # qs'" by auto
  moreover have "local_promises now st = qs" unfolding local_promises_def l by (simp only: seqE.simps option.case as_simps f qs sum.case)
  ultimately show ?thesis by blast
qed

lemma fetchPTP_head:
  assumes "local_promises now st = q # qs"
  shows "\<exists>rest. pt_promises (fetchPTP base net now st demo p) = q # rest"
proof -
  have m: "\<exists>rest. ms = q # rest" if "online_promises demo (q # qs) data = Inr ms" for data ms
    using that by (auto simp: online_promises_def dest!: promises.merge_sources_Inr)
  show ?thesis by (auto simp: fetchPTP_def Let_def assms offline_promises_def dest: m split: sum.split if_splits)
qed

lemma record_image:
  assumes "rec = dispatch_record (Str sid) wid (Str ''PROMISE_TO_PAY'') spoken ts p" and "call_amount p = Fin x"
    and "js_ok wid" "js_ok spoken" "prints x" "js_ok (vp_customName p)" "js_ok (vp_customEmail p)" "js_ok (vp_customPhone p)"
  shows "js_ok rec \<and> \<not> nullish (json_image rec) \<and> member (json_image rec) ''call_sid'' = Str sid
    \<and> member (json_image rec) ''intent'' = Str ''PROMISE_TO_PAY'' \<and> member (json_image rec) ''amount'' = Num (Fin x)"
  using assms by (simp add: dispatch_record_def nullish_def)

lemma lodged:
  assumes l: "load_json st dispatch_key = Inr (if ds = [] then None else Some (Arr ds))" and r: "list_all json_row ds"
    and "lodge_dispatch t st (Str sid) wid (Str ''PROMISE_TO_PAY'') spoken p \<noteq> st" and "call_amount p = Fin x"
    and "js_ok wid" "js_ok spoken" "prints x" "js_ok (vp_customName p)" "js_ok (vp_customEmail p)" "js_ok (vp_customPhone p)"
  shows "\<exists>d. load_json (lodge_dispatch t st (Str sid) wid (Str ''PROMISE_TO_PAY'') spoken p) dispatch_key
      = Inr (Some (Arr (d # take 49 ds))) \<and> \<not> nullish d \<and> member d ''call_sid'' = Str sid
      \<and> member d ''intent'' = Str ''PROMISE_TO_PAY'' \<and> member d ''amount'' = Num (Fin x)"
proof -
  have a: "as_array (case (if ds = [] then None else Some (Arr ds)) of Some d \<Rightarrow> d | None \<Rightarrow> Arr []) = Inr ds" by simp
  obtain ts st' where ts: "to_iso (time_clip (nint t)) = Inr ts"
    and st': "setItem st dispatch_key (json_print (Arr (take 50 (dispatch_record (Str sid) wid (Str ''PROMISE_TO_PAY'') spoken ts p # ds)))) = Inr st'"
    and e: "lodge_dispatch t st (Str sid) wid (Str ''PROMISE_TO_PAY'') spoken p = st'"
    using assms(3) unfolding lodge_dispatch_def l seqE.simps a by (auto split: sum.splits)
  define d where "d = dispatch_record (Str sid) wid (Str ''PROMISE_TO_PAY'') spoken ts p"
  note d = record_image [OF d_def assms(4-10)]
  have t: "list_all json_row (take 49 ds)" using r by (auto simp: list_all_iff dest: in_set_takeD)
  have ok: "js_ok (Arr (d # take 49 ds))" using d image_items_id(2) [OF t] by simp
  have "setItem st dispatch_key (json_print (Arr (d # take 49 ds))) = Inr st'" using st' by (simp add: d_def)
  from load_stored [OF this ok] have "load_json st' dispatch_key = Inr (Some (Arr (json_image d # take 49 ds)))"
    using image_items_id(1) [OF t] by simp
  with d e show ?thesis by blast
qed

text \<open>
  C12: The two pages agree through the local storage. A call the voice page could lodge whose customer promised to pay
  is the newest of at most fifty stored dispatches, and the next load of the promise-to-pay page, with or without a
  backend, shows first a pending promise with the call's id and amount.
\<close>

theorem voice_promise_tracked:
  assumes "load_json st dispatch_key = Inr (if ds = [] then None else Some (Arr ds))" and "list_all json_row ds" and "dated now"
    and "sid \<noteq> []" and "call_amount p = Fin x" and "prints x"
    and "\<forall>v\<in>{wid, spoken, vp_customName p, vp_customEmail p, vp_customPhone p}. js_ok v"
    and "st' = lodge_dispatch t st (Str sid) wid (Str ''PROMISE_TO_PAY'') spoken p" and "st' \<noteq> st"
  shows "\<exists>q rest stored. pt_promises (fetchPTP base net now st' demo shown) = q # rest
    \<and> member q ''id'' = Str (promise_id sid) \<and> member q ''status'' = Str ''PENDING''
    \<and> member q ''promised_amount'' = Num (call_amount p)
    \<and> load_json st' dispatch_key = Inr (Some (Arr stored)) \<and> length stored \<le> 50 \<and> tl stored = take 49 ds"
proof -
  have ok: "js_ok wid" "js_ok spoken" "js_ok (vp_customName p)" "js_ok (vp_customEmail p)" "js_ok (vp_customPhone p)"
    using assms(7) by simp_all
  obtain d where l: "load_json st' dispatch_key = Inr (Some (Arr (d # take 49 ds)))" and d: "\<not> nullish d"
      "member d ''call_sid'' = Str sid" "member d ''intent'' = Str ''PROMISE_TO_PAY''" "member d ''amount'' = Num (Fin x)"
    using lodged [OF assms(1,2) assms(9) [unfolded assms(8)] assms(5) ok(1,2) assms(6) ok(3-5)] assms(8) by blast
  have x: "x \<noteq> 0" using assms(5) by (auto simp: call_amount_def Let_def split: if_splits)
  have "dispatch_row d" using d assms(4) by (simp add: dispatch_row_def orv_def)
  then have rows: "list_all dispatch_row (d # take 49 ds)"
    using assms(2) by (auto simp: list_all_iff json_row_def dest: in_set_takeD)
  obtain q qs where q: "local_promise (now 0) d = Inr q" "local_promises now st' = q # qs"
    using local_promises_head [OF l rows assms(3) d(3)] by blast
  obtain rest where "pt_promises (fetchPTP base net now st' demo shown) = q # rest" using fetchPTP_head [OF q(2)] by blast
  moreover have "member q ''id'' = Str (promise_id sid) \<and> member q ''status'' = Str ''PENDING''
      \<and> member q ''promised_amount'' = Num (Fin x)"
    using q(1) d x orv_truthy [of "Str sid" "Str ''voice''"] assms(4) by (auto simp: local_promise_def)
  ultimately show ?thesis using l assms(5) by auto
qed

theorem voice_promise_tracked_witness:
  "\<exists>st q rest. entries st = [] \<and> pt_promises (fetchPTP ''/api'' unreachable (\<lambda>_. 0)
       (lodge_dispatch 0 st (Str ''CA12345678'') Undef (Str ''PROMISE_TO_PAY'') (Str ''Haan'') (voice_init [])) [] (ptp_init [])) = q # rest
     \<and> member q ''id'' = Str (promise_id ''CA12345678'')"
proof -
  let ?p = "voice_init []"
  define body where "body = json_print (Arr [dispatch_record (Str ''CA12345678'') Undef (Str ''PROMISE_TO_PAY'') (Str ''Haan'') (iso_string 0) ?p])"
  define st where "st = \<lparr>entries = [], quota = used [(dispatch_key, body)], denied = False\<rparr>"
  have l: "load_json st dispatch_key = Inr (if ([] :: js list) = [] then None else Some (Arr []))"
    by (simp add: load_json_def getItem_def st_def)
  have h: "nadd (nint 0) (nint (48 * 3600 * 1000)) = nint 172800000" using nadd_int [of 0 172800000] by simp
  have t: "dated (\<lambda>_. 0)"
    unfolding dated_def hours_from_def h by (simp add: time_clip_def max_time_def to_iso_def)
  have c: "call_amount ?p = Fin 14999"
    by (simp add: call_amount_def voice_init_def parse_float_def trim_start_def read_signed_def read_decimal_def
      read_frac_def read_exp_def dec_value_def is_ws_def num_eval)
  have x: "prints 14999" using prints_int [of 14999] by simp
  have ok: "\<forall>v\<in>{Undef, Str ''Haan'', vp_customName ?p, vp_customEmail ?p, vp_customPhone ?p}. js_ok v" by (simp add: voice_init_def)
  have i: "to_iso (time_clip (nint 0)) = Inr (iso_string 0)" by (simp add: time_clip_def max_time_def to_iso_def)
  have w: "setItem st dispatch_key body = Inr (st\<lparr>entries := [(dispatch_key, body)]\<rparr>)" by (simp add: setItem_def st_def Let_def)
  have "lodge_dispatch 0 st (Str ''CA12345678'') Undef (Str ''PROMISE_TO_PAY'') (Str ''Haan'') ?p = st\<lparr>entries := [(dispatch_key, body)]\<rparr>"
    unfolding lodge_dispatch_def l i by (simp add: w [unfolded body_def, simplified] body_def)
  then have n: "lodge_dispatch 0 st (Str ''CA12345678'') Undef (Str ''PROMISE_TO_PAY'') (Str ''Haan'') ?p \<noteq> st" by (simp add: st_def)
  have "entries st = []" by (simp add: st_def)
  with voice_promise_tracked [OF l _ t _ c x ok refl n, of "''/api''" unreachable "[]" "ptp_init []"] show ?thesis by auto
qed

end
