(* ===== verification/PtpView.thy ===== *)
theory PtpView
  imports PtpPage Components
begin

text \<open>
  What \<open>apps/web/src/app/ptp-tracker/page.tsx\<close> renders, and what its controls do: an honoured promise offers no action.
\<close>

subsection \<open>Controls\<close>

datatype ptp_action = Verify js | Extend js

datatype ptp_event = Fetch_promises fetch clock storage | Promise_click fetch fetch clock storage ptp_action | Status_over

fun ptp_do :: "string \<Rightarrow> js list \<Rightarrow> ptp_event \<Rightarrow> ptp_page \<Rightarrow> ptp_page" where
  \<comment> \<open>the effect that loads, the two buttons of a row, the timer that clears the message\<close>
  "ptp_do base demo (Fetch_promises net now st) p = fetchPTP base net now st demo p"
| "ptp_do base demo (Promise_click net net' now st (Verify v)) p = verifyPayment base net net' now st demo v p"
| "ptp_do base demo (Promise_click net net' now st (Extend v)) p = extendPromise base net net' now st demo v p"
| "ptp_do base demo Status_over p = clear_status p"

subsection \<open>The page\<close>

definition promise_row :: "locale_fns \<Rightarrow> js \<Rightarrow> ptp_action view" where
  "promise_row lc r =
    el ''tr'' [(''key'', get r ''id'')] [] [
      node ''td'' [eval (get r ''id'')],
      node ''td'' [node ''div'' [eval (get r ''customer_name'')], node ''div'' [eval (get r ''customer_contact'')]],
      node ''td'' [
        say [CHR 0xE2, CHR 0x82, CHR 0xB9],
        eval (seqE (get r ''promised_amount'') (\<lambda>v4. localized (loc_number lc) v4))],
      node ''td'' [
        eval (seqE (get r ''promised_date'') (\<lambda>v5. Inr (Str (loc_moment lc
            ''toLocaleDateString('en-IN', {day:'2-digit',month:'short',year:'numeric'})'' v5))))],
      node ''td'' [eval (get r ''recorded_channel'')],
      node ''td'' [
        el ''span'' [
            (''style.background'', seqE (seqE (get r ''status'') (\<lambda>v6. Inr (Bool (v6 = Str ''HONORED''))))
                (\<lambda>v9. (if truthy v9 then Inr (Str ''rgba(16, 185, 129, 0.15)'') else seqE (seqE (get r ''status'')
                (\<lambda>v7. Inr (Bool (v7 = Str ''EXTENDED'')))) (\<lambda>v8. Inr (Str (if truthy v8 then
                ''rgba(59, 130, 246, 0.15)'' else ''rgba(245, 158, 11, 0.15)'')))))),
            (''style.color'', seqE (seqE (get r ''status'') (\<lambda>v10. Inr (Bool (v10 = Str ''HONORED''))))
                (\<lambda>v13. (if truthy v13 then Inr (Str ''#10b981'') else seqE (seqE (get r ''status'') (\<lambda>v11.
                Inr (Bool (v11 = Str ''EXTENDED'')))) (\<lambda>v12. Inr (Str (if truthy v12 then ''#60a5fa'' else
                ''#fbbf24''))))))] [] [
          eval (get r ''status'')]],
      node ''td'' [
        seqE (seqE (get r ''status'') (\<lambda>v14. Inr (Bool (v14 \<noteq> Str ''HONORED'')))) (\<lambda>v15. show_if v15 (
          node ''Fragment'' [
            el ''button'' [] [(''onClick'', \<lambda>_. Verify (member r ''id''))] [say ''Verify Paid''],
            el ''button'' [] [(''onClick'', \<lambda>_. Extend (member r ''id''))] [say ''+3 Days'']]))]]"

definition ptp_view :: "locale_fns \<Rightarrow> ptp_page \<Rightarrow> ptp_action view" where
  "ptp_view lc p =
    node ''div'' [
      node ''div'' [
        node ''div'' [
          node ''div'' [
            node ''h1'' [say ''Promise-to-Pay (PTP) Commitment Tracker''],
            BadgePulse (Str ''Auto-Reconcile'') ''success''],
          node ''p'' [
            say
                ''Track commitments captured via voice calls, WhatsApp links, and SMS cadences with automated pre-due reminders.'']]],
      show_if (pt_statusMsg p) (node ''div'' [icon ''CheckCircle2'', node ''span'' [put (pt_statusMsg p)]]),
      node ''div'' [
        node ''div'' [
          node ''div'' [say ''Total PTP Commitments''],
          node ''div'' [
            say [CHR 0xE2, CHR 0x82, CHR 0xB9],
            eval (seqE (opt_call (localized (loc_number lc)) (member (pt_metrics p) ''committed_amount'')) (\<lambda>v1. if
                truthy v1 then Inr v1 else Inr (Str ''57,000'')))],
          node ''div'' [say ''Across 3 active promises'']],
        node ''div'' [
          node ''div'' [say ''Recovered & Honored''],
          node ''div'' [
            say [CHR 0xE2, CHR 0x82, CHR 0xB9],
            eval (seqE (opt_call (localized (loc_number lc)) (member (pt_metrics p) ''recovered_amount'')) (\<lambda>v2. if
                truthy v2 then Inr v2 else Inr (Str ''6,500'')))],
          node ''div'' [say ''Reconciled with Razorpay webhook'']],
        node ''div'' [
          node ''div'' [say ''Commitment Honor Rate''],
          node ''div'' [
            eval (seqE (opt_call (fixed 1) (member (pt_metrics p) ''fulfillment_rate'')) (\<lambda>v3. if truthy v3 then Inr
                v3 else Inr (Str ''100.0''))),
            say ''%''],
          node ''div'' [say ''Zero broken promises today'']]],
      node ''div'' [
        node ''div'' [node ''h2'' [say ''Active Payment Commitments & Due Cadence'']],
        node ''div'' [
          node ''table'' [
            node ''thead'' [
              node ''tr'' [
                node ''th'' [say ''ID''],
                node ''th'' [say ''Customer''],
                node ''th'' [say ''Promised Amount''],
                node ''th'' [say ''Promised Date''],
                node ''th'' [say ''Source Channel''],
                node ''th'' [say ''Status''],
                node ''th'' [say ''Action'']]],
            node ''tbody'' [each (pt_promises p) (\<lambda>r.  promise_row lc r)]]]]]"

subsection \<open>Rendering\<close>

definition promise_ok :: "js \<Rightarrow> bool" where
  \<comment> \<open>what the table needs of a row\<close>
  "promise_ok r \<longleftrightarrow> \<not> nullish r \<and> \<not> nullish (member r ''promised_amount'')"

definition figures_ok :: "js \<Rightarrow> bool" where
  "figures_ok m \<longleftrightarrow> nullish (member m ''fulfillment_rate'') \<or> has_type TNum (member m ''fulfillment_rate'')"

definition ptp_sound :: "ptp_page \<Rightarrow> bool" where
  "ptp_sound p \<longleftrightarrow> list_all promise_ok (pt_promises p) \<and> figures_ok (pt_metrics p)"

lemma promise_row_renders: "promise_ok r \<Longrightarrow> renders (promise_row lc r)"
  unfolding promise_row_def promise_ok_def by (simp add: view_simps get_runs)

lemma ptp_view_renders:
  assumes "ptp_sound p"
  shows "renders (ptp_view lc p)"
proof -
  obtain f where f: "opt_call (fixed 1) (member (pt_metrics p) ''fulfillment_rate'') = Inr f"
    using assms opt_fixed_runs by (auto simp: ptp_sound_def figures_ok_def)
  obtain a where a: "opt_call (localized (loc_number lc)) (member (pt_metrics p) ''committed_amount'') = Inr a"
    using opt_localized_runs by blast
  obtain b where b: "opt_call (localized (loc_number lc)) (member (pt_metrics p) ''recovered_amount'') = Inr b"
    using opt_localized_runs by blast
  show ?thesis using assms unfolding ptp_view_def ptp_sound_def
    by (simp add: view_simps f a b promise_row_renders list_all_iff del: One_nat_def)
qed

subsection \<open>The page's life\<close>

definition PtpAnswer :: ty where
  \<comment> \<open>what the page expects of \<open>GET /v1/ptp\<close>\<close>
  "PtpAnswer = TRec [Opt ''promises'' (TArr (TRec [Req ''promised_amount'' TNum])), Opt ''metrics'' (TRec [Opt ''fulfillment_rate'' TNum])]"

definition typed_ptp_net :: "string \<Rightarrow> fetch \<Rightarrow> bool" where
  "typed_ptp_net base net \<longleftrightarrow> (\<forall>res data. net (plain_get (base @ ''/v1/ptp'')) = Inr res \<and> res_ok res \<and> res_json res = Inr data
     \<longrightarrow> has_type PtpAnswer data)"

fun ptp_fair :: "string \<Rightarrow> ptp_event \<Rightarrow> bool" where
  "ptp_fair base (Fetch_promises net now st) = typed_ptp_net base net"
| "ptp_fair base (Promise_click net net' now st a) = typed_ptp_net base net'"
| "ptp_fair base Status_over = True"

lemma local_promises_ok: "list_all promise_ok (local_promises now st)"
proof -
  have "promise_ok r" if "local_promise t d = Inr r" for t d r
    using that by (auto simp: local_promise_def promise_ok_def)
  then have "list_all promise_ok rs" if "mapE (\<lambda>(i, d). local_promise (now i) d) ds = Inr rs" for ds rs
    using mapE_values [OF that] by (fastforce simp: list_all_iff)
  then show ?thesis by (auto simp: local_promises_def split: sum.split option.splits)
qed

lemma metrics_ok: "figures_ok (metrics_of rows rate) \<longleftrightarrow> nullish rate \<or> has_type TNum rate"
  by (simp add: metrics_of_def figures_ok_def Let_def)

lemma online_promises_ok:
  assumes "list_all promise_ok demo" "list_all promise_ok local" "has_type PtpAnswer data" "online_promises demo local data = Inr rows"
  shows "list_all promise_ok rows"
proof -
  note t = assms(3) [unfolded PtpAnswer_def]
  have "member data ''promises'' = Undef \<or> has_type (TArr (TRec [Req ''promised_amount'' TNum])) (member data ''promises'')"
    using t by (rule member_opt) simp
  then obtain ps where ps: "orv (member data ''promises'') (Arr []) = Arr ps" "list_all (has_type (TRec [Req ''promised_amount'' TNum])) ps"
    by (auto simp: orv_def dest!: TArrD)
  have "promise_ok r" if "has_type (TRec [Req ''promised_amount'' TNum]) r" for r
    using that typed_number [OF that, of "''promised_amount''"] by (auto simp: promise_ok_def dest!: TRecD)
  with ps(2) have "list_all promise_ok ps" by (auto simp: list_all_iff)
  moreover have "rows = firsts (\<lambda>p. member p ''id'') [] (concat [local, ps, demo])"
    using assms(4) ps(1) by (auto simp: online_promises_def typed_get [OF t] dest!: promises.merge_sources_Inr)
  then have "set rows \<subseteq> set (concat [local, ps, demo])" by (simp only: firsts_sub)
  ultimately show ?thesis using assms(1,2) by (auto simp: list_all_iff)
qed

lemma typed_rate:
  assumes "has_type PtpAnswer data"
  shows "has_type TNum (orv (member (member data ''metrics'') ''fulfillment_rate'') (js_int 100))"
proof -
  have m: "member data ''metrics'' = Undef \<or> has_type (TRec [Opt ''fulfillment_rate'' TNum]) (member data ''metrics'')"
    using assms unfolding PtpAnswer_def by (rule member_opt) simp
  have "member (member data ''metrics'') ''fulfillment_rate'' = Undef \<or> has_type TNum (member (member data ''metrics'') ''fulfillment_rate'')"
    using m by (rule opt_member) simp
  then show ?thesis by (rule has_type_orv) simp
qed

lemma ptp_sound_other [simp]:
  "ptp_sound (p\<lparr>pt_statusMsg := m\<rparr>) = ptp_sound p" "ptp_sound (p\<lparr>pt_timers := n\<rparr>) = ptp_sound p"
  "ptp_sound (p\<lparr>pt_alert := a\<rparr>) = ptp_sound p" "ptp_sound (p\<lparr>pt_loading := l\<rparr>) = ptp_sound p"
  "ptp_sound (p\<lparr>pt_promises := rows, pt_metrics := m\<rparr>) \<longleftrightarrow> list_all promise_ok rows \<and> figures_ok m"
  by (simp_all add: ptp_sound_def)

lemma fetchPTP_sound:
  assumes "ptp_sound p" "list_all promise_ok demo" "typed_ptp_net base net"
  shows "ptp_sound (fetchPTP base net now st demo p)"
proof -
  let ?l = "local_promises now st"
  have off: "list_all promise_ok (offline_promises demo ?l)"
    using assms(2) local_promises_ok [of now st] by (auto simp: offline_promises_def list_all_iff)
  show ?thesis unfolding fetchPTP_def Let_def
  proof (rule json_answer_cases)
    fix res data assume "net (plain_get (base @ ''/v1/ptp'')) = Inr res" "res_ok res" "res_json res = Inr data"
    then have t: "has_type PtpAnswer data" using assms(3) by (auto simp: typed_ptp_net_def)
    show "ptp_sound (case seqE (online_promises demo ?l data) (\<lambda>merged. Inr (p\<lparr>pt_loading := False, pt_promises := merged,
          pt_metrics := metrics_of merged (orv (member (member data ''metrics'') ''fulfillment_rate'') (js_int 100))\<rparr>)) of
        Inl e \<Rightarrow> p\<lparr>pt_loading := False, pt_promises := offline_promises demo ?l, pt_metrics := metrics_of (offline_promises demo ?l) (js_int 100)\<rparr>
      | Inr q \<Rightarrow> q)"
      using off typed_rate [OF t] online_promises_ok [OF assms(2) local_promises_ok t]
      by (cases "online_promises demo ?l data") (simp_all add: metrics_ok)
  qed (use off in \<open>simp_all add: metrics_ok\<close>)
qed

lemma ptp_do_sound:
  assumes "ptp_sound p" "list_all promise_ok demo" "ptp_fair base e"
  shows "ptp_sound (ptp_do base demo e p)"
proof (cases e)
  case (Promise_click net net' now st a)
  with assms have n: "typed_ptp_net base net'" by simp
  show ?thesis unfolding Promise_click using assms(1)
    by (cases a) (auto simp: verifyPayment_def extendPromise_def act_on_promise_def
      intro!: act_with_message_keeps [where I = ptp_sound] fetchPTP_sound [OF _ assms(2) n])
qed (use assms in \<open>simp_all add: fetchPTP_sound clear_status_def\<close>)

interpretation ptp_life: page_life "\<lambda>p. ptp_sound p \<and> list_all promise_ok demo" "ptp_view lc" "ptp_do base demo" "ptp_fair base"
  for lc base demo
  by unfold_locales (simp_all add: ptp_view_renders ptp_do_sound)

lemma demo_promises_ok: "DEMO_PTP_PROMISES now = Inr demo \<Longrightarrow> list_all promise_ok demo"
  by (auto simp: DEMO_PTP_PROMISES_def demo_promise_def promise_ok_def)

lemma ptp_init_sound: "DEMO_PTP_PROMISES now = Inr demo \<Longrightarrow> ptp_sound (ptp_init demo)"
  using demo_promises_ok by (simp add: ptp_sound_def ptp_init_def figures_ok_def)

lemma ptp_unreachable: "typed_ptp_net base unreachable"
  by (simp add: typed_ptp_net_def unreachable_def)

lemma promise_row_confined:
  "confined {a. member r ''status'' \<noteq> Str ''HONORED'' \<and> (a = Verify (member r ''id'') \<or> a = Extend (member r ''id''))} (promise_row lc r)"
proof (cases "nullish r")
  case True
  then obtain e where "get r ''id'' = Inl e" using get_fails by blast
  then show ?thesis unfolding promise_row_def by (simp add: el_def confined_def acts_def)
next
  case False
  then have "get r k = Inr (member r k)" for k by (rule get_runs)
  then show ?thesis unfolding promise_row_def by (cases "member r ''status'' = Str ''HONORED''") (simp_all add: view_simps)
qed

lemma honored_promises_closed:
  \<comment> \<open>an honoured promise can neither be verified nor extended\<close>
  assumes "a \<in> set (acts x (ptp_view lc p))"
  shows "\<exists>r\<in>set (pt_promises p). member r ''status'' \<noteq> Str ''HONORED'' \<and> (a = Verify (member r ''id'') \<or> a = Extend (member r ''id''))"
proof -
  let ?A = "{a. \<exists>r\<in>set (pt_promises p). member r ''status'' \<noteq> Str ''HONORED'' \<and> (a = Verify (member r ''id'') \<or> a = Extend (member r ''id''))}"
  have "confined ?A (promise_row lc r)" if "r \<in> set (pt_promises p)" for r
    by (rule confined_mono [OF promise_row_confined]) (use that in blast)
  then have "confined ?A (ptp_view lc p)" unfolding ptp_view_def by (simp add: view_simps)
  from confinedD [OF this assms] show ?thesis by simp
qed

end
