(* ===== verification/CheckoutPage.thy ===== *)
theory CheckoutPage
  imports WebApi
begin

text \<open>
  \<open>apps/web/src/app/checkout-recovery/page.tsx\<close>: the abandoned checkouts. Backend sessions go before the
  demonstration ones; a recovery is dispatched by the session's token and reloads the page's data.
\<close>

subsection \<open>State\<close>

record checkout_page =
  ck_sessions :: "js list"
  ck_funnel :: js
  ck_loading :: bool
  ck_notice :: js
  ck_timers :: nat
  ck_alert :: "string option"

definition demo_session :: "string \<Rightarrow> string \<Rightarrow> string \<Rightarrow> string \<Rightarrow> int \<Rightarrow> string \<Rightarrow> string \<Rightarrow> string \<Rightarrow> js" where
  "demo_session key token name email amount step status reason = Obj [
     (''id'', Str key), (''session_token'', Str token), (''customer_name'', Str name), (''customer_email'', Str email),
     (''cart_amount'', js_int amount), (''step_reached'', Str step), (''status'', Str status), (''drop_off_reason'', Str reason)]"

definition DEMO_CHECKOUT_SESSIONS :: "js list" where
  "DEMO_CHECKOUT_SESSIONS = [
     demo_session ''sess_01_a9f1'' ''tok_chk_99812401'' ''Arjun Verma'' ''arjun.verma@startup.co'' 12499
       ''3DS_INITIATED'' ''RECOVERY_DISPATCHED'' ''Bank OTP timeout / browser tab closed'',
     demo_session ''sess_02_b8e2'' ''tok_chk_88201944'' ''Kavita Patel'' ''kavita.p@fashionstore.in'' 4890
       ''PAYMENT_STEP'' ''RECOVERED'' ''UPI intent app not installed on desktop'',
     demo_session ''sess_03_c7d3'' ''tok_chk_77192033'' ''Deepak Chawla'' ''deepak@chawlaenterprises.com'' 29500
       ''DETAILS_ENTERED'' ''DROPPED_OFF'' ''Price sticker shock / exited tab'']"

definition checkout_init :: checkout_page where
  "checkout_init = \<lparr>ck_sessions = DEMO_CHECKOUT_SESSIONS, ck_funnel = Null, ck_loading = True, ck_notice = Null,
     ck_timers = 0, ck_alert = None\<rparr>"

subsection \<open>Loading\<close>

definition session_key :: "js \<Rightarrow> err + js" where
  "session_key s = get s ''session_token''"

definition merge_sessions :: "js list \<Rightarrow> js list \<Rightarrow> err + js list" where
  "merge_sessions = merge_rows session_key [''session_token'']"

definition offline_funnel :: js where
  "offline_funnel = Obj [(''total_sessions'', js_int 3), (''dropped_off'', js_int 1), (''recovery_dispatched'', js_int 1),
     (''recovered'', js_int 1), (''recovery_rate_pct'', Num (lit 333 10)), (''recoverable_value'', js_int 46889),
     (''recovered_value'', js_int 4890)]"

definition fetchCheckoutData :: "string \<Rightarrow> fetch \<Rightarrow> checkout_page \<Rightarrow> checkout_page" where
  \<comment> \<open>an answer that is not ok leaves the sessions and the funnel as they are\<close>
  "fetchCheckoutData base net p =
    (let loaded = p\<lparr>ck_loading := False\<rparr>
     in case seqE (net (plain_get (base @ ''/v1/checkout''))) (\<lambda>res.
          if res_ok res then seqE (res_json res) (\<lambda>d. seqE (get d ''sessions'') (\<lambda>ss.
            seqE (as_array (orv ss (Arr []))) (\<lambda>realSessions.
            seqE (merge_sessions realSessions DEMO_CHECKOUT_SESSIONS) (\<lambda>merged.
            Inr (loaded\<lparr>ck_sessions := merged, ck_funnel := orv (member d ''funnel'') Null\<rparr>)))))
          else Inr loaded) of
        Inr p' \<Rightarrow> p'
      | Inl _ \<Rightarrow> loaded\<lparr>ck_sessions := DEMO_CHECKOUT_SESSIONS, ck_funnel := offline_funnel\<rparr>)"

subsection \<open>Dispatching a recovery\<close>

definition recover_request :: "string \<Rightarrow> js \<Rightarrow> web_request" where
  "recover_request base token = json_post (base @ ''/v1/checkout/recover'')
     (Obj [(''session_token'', token), (''channel'', Str ''EMAIL'')])"

definition dispatchRecovery :: "string \<Rightarrow> fetch \<Rightarrow> fetch \<Rightarrow> js \<Rightarrow> checkout_page \<Rightarrow> checkout_page" where
  \<comment> \<open>\<open>net\<close> answers the dispatch, \<open>net'\<close> the reload after it\<close>
  "dispatchRecovery base net net' token p = act_with_message net (recover_request base token)
     (\<lambda>m q. q\<lparr>ck_notice := m, ck_timers := Suc (ck_timers q)\<rparr>) (fetchCheckoutData base net')
     (\<lambda>q. q\<lparr>ck_alert := Some ''Recovery dispatch failed''\<rparr>) p"

definition clear_notice :: "checkout_page \<Rightarrow> checkout_page" where
  \<comment> \<open>the timer's callback\<close>
  "clear_notice p = p\<lparr>ck_notice := Null, ck_timers := ck_timers p - 1\<rparr>"

subsection \<open>Lemmas\<close>

interpretation checkout_rows: row_key session_key "\<lambda>s. member s ''session_token''"
  unfolding session_key_def by (rule get_row)

definition demo_covered :: "js list \<Rightarrow> bool" where
  \<comment> \<open>every demonstration session is shown, itself or as a backend session with its token\<close>
  "demo_covered rows \<longleftrightarrow> (\<forall>d\<in>set DEMO_CHECKOUT_SESSIONS. d \<in> set rows
     \<or> (\<exists>r\<in>set rows. same_key (member r ''session_token'') (member d ''session_token'')))"

lemma demo_covered_merge: "merge_sessions rs DEMO_CHECKOUT_SESSIONS = Inr ms \<Longrightarrow> demo_covered ms"
  unfolding demo_covered_def merge_sessions_def
  by (auto dest!: checkout_rows.merged simp: list_ex_iff)

lemma demo_covered_demo: "demo_covered DEMO_CHECKOUT_SESSIONS"
  by (simp add: demo_covered_def)

lemma fetch_covered: "demo_covered (ck_sessions p) \<Longrightarrow> demo_covered (ck_sessions (fetchCheckoutData base net p))"
  by (auto simp: fetchCheckoutData_def Let_def demo_covered_demo split: sum.split if_splits dest: demo_covered_merge)

text \<open>The page's life: loads, dispatches and expiring notices in any order, with any answers.\<close>

datatype checkout_event = Load fetch | Dispatch fetch fetch js | Notice_over

fun checkout_step :: "string \<Rightarrow> checkout_page \<Rightarrow> checkout_event \<Rightarrow> checkout_page" where
  "checkout_step base p (Load net) = fetchCheckoutData base net p"
| "checkout_step base p (Dispatch net net' token) = dispatchRecovery base net net' token p"
| "checkout_step base p Notice_over = clear_notice p"

lemma dispatch_covered:
  "demo_covered (ck_sessions p) \<Longrightarrow> demo_covered (ck_sessions (dispatchRecovery base net net' token p))"
  unfolding dispatchRecovery_def by (rule act_with_message_keeps) (simp_all add: fetch_covered)

lemma checkout_run_covered: "demo_covered (ck_sessions (foldl (checkout_step base) checkout_init es))"
proof (induction es rule: rev_induct)
  case Nil
  show ?case by (simp add: checkout_init_def demo_covered_demo)
next
  case (snoc e es)
  then show ?case by (cases e) (simp_all add: fetch_covered dispatch_covered clear_notice_def)
qed

end
