(* ===== verification/CheckoutView.thy ===== *)
theory CheckoutView
  imports CheckoutPage Components
begin

text \<open>
  What \<open>apps/web/src/app/checkout-recovery/page.tsx\<close> renders, and what its controls do. A session needs its token as a text
  and an amount: without either the page throws.
\<close>

subsection \<open>Controls\<close>

datatype session_action = Send_link js

fun session_event :: "fetch \<Rightarrow> fetch \<Rightarrow> session_action \<Rightarrow> checkout_event" where
  \<comment> \<open>the event of the page's life a click is\<close>
  "session_event net net' (Send_link token) = Dispatch net net' token"

subsection \<open>The page\<close>

definition session_row :: "locale_fns \<Rightarrow> js \<Rightarrow> session_action view" where
  "session_row lc s =
    el ''tr'' [(''key'', get s ''id'')] [] [
      node ''td'' [eval (seqE (get s ''session_token'') (\<lambda>v3. cut 0 16 v3)), say ''...''],
      node ''td'' [node ''div'' [eval (get s ''customer_name'')], node ''div'' [eval (get s ''customer_email'')]],
      node ''td'' [
        say [CHR 0xE2, CHR 0x82, CHR 0xB9],
        eval (seqE (get s ''cart_amount'') (\<lambda>v4. localized (loc_number lc) v4))],
      node ''td'' [node ''span'' [eval (get s ''step_reached'')]],
      node ''td'' [
        eval (seqE (get s ''drop_off_reason'') (\<lambda>v5. if truthy v5 then Inr v5 else Inr (Str ''Incomplete payment'')))],
      node ''td'' [
        el ''span'' [
            (''style.background'', seqE (seqE (get s ''status'') (\<lambda>v6. Inr (Bool (v6 = Str ''RECOVERED''))))
                (\<lambda>v9. (if truthy v9 then Inr (Str ''rgba(16, 185, 129, 0.15)'') else seqE (seqE (get s ''status'')
                (\<lambda>v7. Inr (Bool (v7 = Str ''RECOVERY_DISPATCHED'')))) (\<lambda>v8. Inr (Str (if truthy v8 then
                ''rgba(59, 130, 246, 0.15)'' else ''rgba(245, 158, 11, 0.15)'')))))),
            (''style.color'', seqE (seqE (get s ''status'') (\<lambda>v10. Inr (Bool (v10 = Str ''RECOVERED''))))
                (\<lambda>v13. (if truthy v13 then Inr (Str ''#10b981'') else seqE (seqE (get s ''status'') (\<lambda>v11.
                Inr (Bool (v11 = Str ''RECOVERY_DISPATCHED'')))) (\<lambda>v12. Inr (Str (if truthy v12 then ''#60a5fa'' else
                ''#fbbf24''))))))] [] [
          eval (get s ''status'')]],
      node ''td'' [
        seqE (seqE (get s ''status'') (\<lambda>v14. Inr (Bool (v14 \<noteq> Str ''RECOVERED'')))) (\<lambda>v15. show_if v15
            (
          el ''button'' [] [(''onClick'', \<lambda>_. Send_link (member s ''session_token''))] [
            icon ''Send'',
            say ''Dispatch Link'']))]]"

definition checkout_view :: "locale_fns \<Rightarrow> checkout_page \<Rightarrow> session_action view" where
  "checkout_view lc p =
    node ''div'' [
      node ''div'' [
        node ''div'' [
          node ''div'' [
            node ''h1'' [say ''Checkout Drop-off Recovery & Cart Telemetry''],
            BadgePulse (Str ''Telemetry Active'') ''success''],
          node ''p'' [
            say
                ''Detect abandoned carts, OTP drop-offs, and payment friction points before customer churn. Dispatches 1-click cart restoration links via Resend.'']]],
      show_if (ck_notice p) (node ''div'' [icon ''CheckCircle2'', node ''span'' [put (ck_notice p)]]),
      node ''div'' [
        node ''div'' [
          node ''div'' [say ''Total Checkout Sessions''],
          node ''div'' [put (orv (member (ck_funnel p) ''total_sessions'') (Num (nint 3)))],
          node ''div'' [say ''Monitored in real-time'']],
        node ''div'' [
          node ''div'' [say ''Drop-offs Detected''],
          node ''div'' [put (orv (member (ck_funnel p) ''dropped_off'') (Num (nint 1)))],
          node ''div'' [say ''Idle > 15 mins'']],
        node ''div'' [
          node ''div'' [say ''Recovered Cart Value''],
          node ''div'' [
            say [CHR 0xE2, CHR 0x82, CHR 0xB9],
            eval (seqE (opt_call (localized (loc_number lc)) (member (ck_funnel p) ''recovered_value'')) (\<lambda>v1. if
                truthy v1 then Inr v1 else Inr (Str ''4,890'')))],
          node ''div'' [say ''Recovered via 1-click restore'']],
        node ''div'' [
          node ''div'' [say ''Recovery Success Rate''],
          node ''div'' [
            eval (seqE (opt_call (fixed 1) (member (ck_funnel p) ''recovery_rate_pct'')) (\<lambda>v2. if truthy v2 then Inr
                v2 else Inr (Str ''33.3''))),
            say ''%''],
          node ''div'' [say ''Multi-channel Resend / SMS'']]],
      node ''div'' [
        node ''div'' [node ''h2'' [say ''Checkout Sessions & Churn Prevention Queue'']],
        node ''div'' [
          node ''table'' [
            node ''thead'' [
              node ''tr'' [
                node ''th'' [say ''Session''],
                node ''th'' [say ''Customer''],
                node ''th'' [say ''Cart Value''],
                node ''th'' [say ''Step Reached''],
                node ''th'' [say ''Drop-off Reason''],
                node ''th'' [say ''Status''],
                node ''th'' [say ''Action'']]],
            node ''tbody'' [each (ck_sessions p) (\<lambda>s.  session_row lc s)]]]]]"

subsection \<open>Rendering\<close>

definition SessionRow :: ty where
  \<comment> \<open>what the table needs of a session\<close>
  "SessionRow = TRec [Req ''session_token'' TText, Req ''cart_amount'' TNum]"

definition checkout_sound :: "checkout_page \<Rightarrow> bool" where
  "checkout_sound p \<longleftrightarrow> list_all (has_type SessionRow) (ck_sessions p)
     \<and> (nullish (member (ck_funnel p) ''recovery_rate_pct'') \<or> has_type TNum (member (ck_funnel p) ''recovery_rate_pct''))"

lemma session_row_renders:
  assumes "has_type SessionRow s"
  shows "renders (session_row lc s)"
proof -
  note t = assms [unfolded SessionRow_def]
  obtain k n where "member s ''session_token'' = Str k" "member s ''cart_amount'' = Num n"
    using typed_text [OF t, of "''session_token''"] typed_number [OF t, of "''cart_amount''"] by auto
  then show ?thesis unfolding session_row_def by (simp add: view_simps typed_get [OF t])
qed

lemma checkout_view_renders:
  assumes "checkout_sound p"
  shows "renders (checkout_view lc p)"
proof -
  obtain f where f: "opt_call (fixed 1) (member (ck_funnel p) ''recovery_rate_pct'') = Inr f"
    using assms opt_fixed_runs by (auto simp: checkout_sound_def)
  obtain a where a: "opt_call (localized (loc_number lc)) (member (ck_funnel p) ''recovered_value'') = Inr a"
    using opt_localized_runs by blast
  show ?thesis using assms unfolding checkout_view_def checkout_sound_def
    by (simp add: view_simps f a session_row_renders list_all_iff del: One_nat_def)
qed

subsection \<open>The page's life\<close>

definition CheckoutAnswer :: ty where
  \<comment> \<open>what the page expects of \<open>GET /v1/checkout\<close>\<close>
  "CheckoutAnswer = TRec [Opt ''sessions'' (TArr SessionRow), Opt ''funnel'' (TRec [Opt ''recovery_rate_pct'' TNum])]"

definition typed_checkout :: "string \<Rightarrow> fetch \<Rightarrow> bool" where
  "typed_checkout base net \<longleftrightarrow> (\<forall>res data. net (plain_get (base @ ''/v1/checkout'')) = Inr res \<and> res_ok res \<and> res_json res = Inr data
     \<longrightarrow> has_type CheckoutAnswer data)"

fun checkout_fair :: "string \<Rightarrow> checkout_event \<Rightarrow> bool" where
  "checkout_fair base (Load net) = typed_checkout base net"
| "checkout_fair base (Dispatch net net' token) = typed_checkout base net'"
| "checkout_fair base Notice_over = True"

lemma demo_sessions_typed: "list_all (has_type SessionRow) DEMO_CHECKOUT_SESSIONS"
  by (simp add: DEMO_CHECKOUT_SESSIONS_def demo_session_def SessionRow_def)

lemma checkout_sound_other [simp]:
  "checkout_sound (p\<lparr>ck_notice := m\<rparr>) = checkout_sound p" "checkout_sound (p\<lparr>ck_timers := n\<rparr>) = checkout_sound p"
  "checkout_sound (p\<lparr>ck_alert := a\<rparr>) = checkout_sound p" "checkout_sound (p\<lparr>ck_loading := l\<rparr>) = checkout_sound p"
  by (simp_all add: checkout_sound_def)

lemma checkout_answer:
  assumes "has_type CheckoutAnswer d"
  shows "\<exists>rows. orv (member d ''sessions'') (Arr []) = Arr rows \<and> list_all (has_type SessionRow) rows"
    and "nullish (member (orv (member d ''funnel'') Null) ''recovery_rate_pct'')
      \<or> has_type TNum (member (orv (member d ''funnel'') Null) ''recovery_rate_pct'')"
proof -
  note t = assms [unfolded CheckoutAnswer_def]
  have "member d ''sessions'' = Undef \<or> has_type (TArr SessionRow) (member d ''sessions'')" using t by (rule member_opt) simp
  then show "\<exists>rows. orv (member d ''sessions'') (Arr []) = Arr rows \<and> list_all (has_type SessionRow) rows"
    by (auto simp: orv_def dest!: TArrD)
  have "member d ''funnel'' = Undef \<or> has_type (TRec [Opt ''recovery_rate_pct'' TNum]) (member d ''funnel'')"
    using t by (rule member_opt) simp
  then show "nullish (member (orv (member d ''funnel'') Null) ''recovery_rate_pct'')
      \<or> has_type TNum (member (orv (member d ''funnel'') Null) ''recovery_rate_pct'')"
    by (auto simp: orv_def dest!: TRecD)
qed

lemma checkout_load_sound:
  assumes "checkout_sound p" "typed_checkout base net"
  shows "checkout_sound (fetchCheckoutData base net p)"
proof -
  let ?demo = "p\<lparr>ck_loading := False, ck_sessions := DEMO_CHECKOUT_SESSIONS, ck_funnel := offline_funnel\<rparr>"
  have demo: "checkout_sound ?demo" by (simp add: checkout_sound_def demo_sessions_typed offline_funnel_def)
  show ?thesis unfolding fetchCheckoutData_def Let_def
  proof (rule json_answer_cases)
    fix res d assume "net (plain_get (base @ ''/v1/checkout'')) = Inr res" "res_ok res" "res_json res = Inr d"
    then have t: "has_type CheckoutAnswer d" using assms(2) by (auto simp: typed_checkout_def)
    then have g: "get d k = Inr (member d k)" for k unfolding CheckoutAnswer_def by (rule typed_get)
    obtain rows where rows: "orv (member d ''sessions'') (Arr []) = Arr rows" "list_all (has_type SessionRow) rows"
      using checkout_answer(1) [OF t] by blast
    have "list_all (has_type SessionRow) ms" if "merge_sessions rows DEMO_CHECKOUT_SESSIONS = Inr ms" for ms
      using checkout_rows.no_row_invented [OF that [unfolded merge_sessions_def]] rows(2) demo_sessions_typed
      by (auto simp: list_all_iff)
    then show "checkout_sound (case seqE (get d ''sessions'') (\<lambda>ss. seqE (as_array (orv ss (Arr []))) (\<lambda>realSessions.
          seqE (merge_sessions realSessions DEMO_CHECKOUT_SESSIONS) (\<lambda>merged.
            Inr (p\<lparr>ck_loading := False, ck_sessions := merged, ck_funnel := orv (member d ''funnel'') Null\<rparr>)))) of
        Inl e \<Rightarrow> ?demo | Inr q \<Rightarrow> q)"
      using rows(1) demo checkout_answer(2) [OF t]
      by (cases "merge_sessions rows DEMO_CHECKOUT_SESSIONS") (simp_all add: g checkout_sound_def)
  qed (use assms(1) demo in simp_all)
qed

lemma checkout_step_sound: "checkout_sound p \<Longrightarrow> checkout_fair base e \<Longrightarrow> checkout_sound (checkout_step base p e)"
  by (cases e) (auto simp: checkout_load_sound clear_notice_def dispatchRecovery_def
    intro!: act_with_message_keeps [where I = checkout_sound] checkout_load_sound)

interpretation checkout_life: page_life checkout_sound "checkout_view lc" "\<lambda>e p. checkout_step base p e" "checkout_fair base" for lc base
  by unfold_locales (simp_all add: checkout_view_renders checkout_step_sound)

lemma checkout_init_sound: "checkout_sound checkout_init"
  by (simp add: checkout_init_def checkout_sound_def demo_sessions_typed)

lemma checkout_unreachable: "typed_checkout base unreachable"
  by (simp add: typed_checkout_def unreachable_def)

lemma session_row_confined:
  "confined {a. member s ''status'' \<noteq> Str ''RECOVERED'' \<and> a = Send_link (member s ''session_token'')} (session_row lc s)"
proof (cases "nullish s")
  case True
  then obtain e where "get s ''id'' = Inl e" using get_fails by blast
  then show ?thesis unfolding session_row_def by (simp add: el_def confined_def acts_def)
next
  case False
  then have "get s k = Inr (member s k)" for k by (rule get_runs)
  then show ?thesis unfolding session_row_def by (cases "member s ''status'' = Str ''RECOVERED''") (simp_all add: view_simps)
qed

lemma recovered_sessions_closed:
  \<comment> \<open>no link is sent for a recovered session\<close>
  assumes "Send_link v \<in> set (acts x (checkout_view lc p))"
  shows "\<exists>s\<in>set (ck_sessions p). member s ''status'' \<noteq> Str ''RECOVERED'' \<and> v = member s ''session_token''"
proof -
  let ?A = "{a. \<exists>s\<in>set (ck_sessions p). member s ''status'' \<noteq> Str ''RECOVERED'' \<and> a = Send_link (member s ''session_token'')}"
  have "confined ?A (session_row lc s)" if "s \<in> set (ck_sessions p)" for s
    by (rule confined_mono [OF session_row_confined]) (use that in blast)
  then have "confined ?A (checkout_view lc p)" unfolding checkout_view_def by (simp add: view_simps)
  from confinedD [OF this assms] show ?thesis by simp
qed

end
