(* ===== verification/ReceivablesView.thy ===== *)
theory ReceivablesView
  imports AuditReports Components
begin

text \<open>
  What \<open>apps/web/src/app/receivables/page.tsx\<close> renders, and what its controls do: the ledger, the form of an invoice, the
  audit panel. Loading reads the key of every row, so the page renders whatever the backend and the local storage hold.
\<close>

subsection \<open>Controls\<close>

datatype receivables_action = Open_create | Remind js | Open_edit js | Audit "js option" | Close_form | Save_invoice
  | Report js report_format | Type_in string js

definition typed_in :: "string \<Rightarrow> js \<Rightarrow> InvoiceForm \<Rightarrow> InvoiceForm" where
  \<comment> \<open>\<open>{ ...formData, k: e.target.value }\<close>\<close>
  "typed_in k v f = (if k = ''invoice_number'' then f\<lparr>fm_invoice_number := v\<rparr>
     else if k = ''amount'' then f\<lparr>fm_amount := to_str v\<rparr>
     else if k = ''buyer_company'' then f\<lparr>fm_buyer_company := v\<rparr>
     else if k = ''buyer_name'' then f\<lparr>fm_buyer_name := v\<rparr>
     else if k = ''buyer_email'' then f\<lparr>fm_buyer_email := v\<rparr>
     else if k = ''credit_terms'' then f\<lparr>fm_credit_terms := v\<rparr>
     else if k = ''due_date'' then f\<lparr>fm_due_date := to_str v\<rparr>
     else if k = ''payment_link_url'' then f\<lparr>fm_payment_link_url := v\<rparr> else f)"

datatype ledger_event = Fetch_ledger fetch | Ledger_click fetch clock rng receivables_action | Notice_fires

definition or_keep :: "'s \<Rightarrow> 'e + 's \<Rightarrow> 's" where
  \<comment> \<open>a handler that throws before its first update leaves the state\<close>
  "or_keep s r = (case r of Inl _ \<Rightarrow> s | Inr s' \<Rightarrow> s')"

fun receivables_do :: "string \<Rightarrow> js list \<Rightarrow> ledger_event \<Rightarrow> receivables_page \<times> storage \<Rightarrow> receivables_page \<times> storage" where
  "receivables_do base demo (Fetch_ledger net) (p, st) = (fst (fetchReceivables base net st demo p), st)"
| "receivables_do base demo Notice_fires (p, st) = (fire_timer p, st)"
| "receivables_do base demo (Ledger_click net now random a) (p, st) = (case a of
     Open_create \<Rightarrow> (or_keep p (openCreate now random p), st)
   | Remind row \<Rightarrow> (triggerDunning base net row p, st)
   | Open_edit row \<Rightarrow> (or_keep p (openEdit row p), st)
   | Audit row \<Rightarrow> (p\<lparr>rp_audited := row\<rparr>, st)
   | Close_form \<Rightarrow> (p\<lparr>rp_showCreateModal := False\<rparr>, st)
   | Save_invoice \<Rightarrow> or_keep (p, st) (handleSaveInvoice now random st p)
   | Report row f \<Rightarrow> (p, st)
   | Type_in k v \<Rightarrow> (p\<lparr>rp_form := typed_in k v (rp_form p)\<rparr>, st))"

subsection \<open>The page\<close>

definition invoice_row :: "locale_fns \<Rightarrow> js \<Rightarrow> receivables_action view" where
  "invoice_row lc row =
    el ''tr'' [(''key'', seqE (get row ''id'') (\<lambda>v5. if truthy v5 then Inr v5 else get row ''invoice_number''))] [] [
      node ''td'' [
        node ''div'' [eval (get row ''invoice_number'')],
        node ''div'' [
          eval (seqE (get row ''credit_terms'') (\<lambda>v6. if truthy v6 then Inr v6 else Inr (Str ''NET_30'')))]],
      node ''td'' [
        node ''div'' [eval (get row ''buyer_company'')],
        node ''div'' [eval (get row ''buyer_name''), say '' ('', eval (get row ''buyer_email''), say '')'']],
      node ''td'' [
        say [CHR 0xE2, CHR 0x82, CHR 0xB9],
        eval (seqE (get row ''amount'') (\<lambda>v7. Inr (Str (loc_number lc (to_num v7)))))],
      node ''td'' [
        el ''span'' [
            (''style.background'', seqE (seqE (get row ''current_bucket'') (\<lambda>v8. Inr (Bool (v8 = Str ''CURRENT''))))
                (\<lambda>v11. (if truthy v11 then Inr (Str ''rgba(59, 130, 246, 0.15)'') else seqE (seqE (get row
                ''current_bucket'') (\<lambda>v9. Inr (Bool (v9 = Str ''1_30'')))) (\<lambda>v10. Inr (Str (if truthy v10
                then ''rgba(245, 158, 11, 0.15)'' else ''rgba(239, 68, 68, 0.15)'')))))),
            (''style.color'', seqE (seqE (get row ''current_bucket'') (\<lambda>v12. Inr (Bool (v12 = Str ''CURRENT''))))
                (\<lambda>v15. (if truthy v15 then Inr (Str ''#60a5fa'') else seqE (seqE (get row ''current_bucket'')
                (\<lambda>v13. Inr (Bool (v13 = Str ''1_30'')))) (\<lambda>v14. Inr (Str (if truthy v14 then ''#fbbf24'' else
                ''#f87171''))))))] [] [
          eval (get row ''current_bucket'')]],
      node ''td'' [
        seqE (seqE (get row ''days_past_due'') (\<lambda>v16. Inr (Bool (nless (nint 0) (to_num v16))))) (\<lambda>v17. if
            truthy v17
          then node ''span'' [eval (get row ''days_past_due''), say '' days'']
          else node ''span'' [say ''On Schedule''])],
      node ''td'' [
        el ''a'' [
            (''href'', seqE (get row ''payment_link_url'') (\<lambda>v19. if truthy v19 then Inr v19 else seqE (get row
                ''invoice_number'') (\<lambda>v18. Inr (Str (''https://checkout.reviveos.io/pay/'' @ to_str v18))))),
            (''target'', Inr (Str ''_blank'')),
            (''rel'', Inr (Str ''noopener noreferrer''))] [] [
          icon ''Link2'',
          node ''span'' [say ''/pay/'', eval (get row ''invoice_number'')]]],
      node ''td'' [
        node ''div'' [
          el ''button'' [] [(''onClick'', \<lambda>_. Remind row)] [icon ''Send'', say ''Dispatch''],
          el ''button'' [(''title'', Inr (Str ''Edit Invoice & Payment Link''))] [(''onClick'', \<lambda>_. Open_edit row)] [
            icon ''Edit2'',
            say ''Edit''],
          el ''button'' [(''title'', Inr (Str ''View Full Audit Report''))] [(''onClick'', \<lambda>_. Audit (Some row))] [
            icon ''FileText'',
            say ''Audit'']]]]"

definition invoice_form :: "receivables_page \<Rightarrow> receivables_action view" where
  "invoice_form p =
    node ''div'' [
      node ''div'' [
        node ''div'' [
          node ''div'' [
            icon ''Building2'',
            node ''h3'' [
              put (Str (if rp_editing p \<noteq> None then ''Edit B2B Invoice & Link'' else ''Generate New B2B Invoice''))]],
          el ''button'' [] [(''onClick'', \<lambda>_. Close_form)] [say [CHR 0xC3, CHR 0x97]]],
        el ''form'' [] [(''onSubmit'', \<lambda>_. Save_invoice)] [
          node ''div'' [
            node ''div'' [
              node ''label'' [say ''Invoice Number''],
              el ''input'' [
                  (''type'', Inr (Str ''text'')),
                  (''required'', Inr (Bool True)),
                  (''value'', Inr (fm_invoice_number (rp_form p))),
                  (''placeholder'', Inr (Str ''INV-IND-905''))] [(''onChange'', Type_in ''invoice_number'')] []],
            node ''div'' [
              node ''label'' [say (''Amount ('' @ [CHR 0xE2, CHR 0x82, CHR 0xB9] @ '' INR)'')],
              el ''input'' [
                  (''type'', Inr (Str ''number'')),
                  (''required'', Inr (Bool True)),
                  (''value'', Inr (Str (fm_amount (rp_form p)))),
                  (''placeholder'', Inr (Str ''150000''))] [(''onChange'', Type_in ''amount'')] []]],
          node ''div'' [
            node ''label'' [say ''Buyer Enterprise Company''],
            el ''input'' [
                (''type'', Inr (Str ''text'')),
                (''required'', Inr (Bool True)),
                (''value'', Inr (fm_buyer_company (rp_form p))),
                (''placeholder'', Inr (Str ''Infosys BPM / Tata Tech''))] [(''onChange'', Type_in ''buyer_company'')] []],
          node ''div'' [
            node ''div'' [
              node ''label'' [say ''Buyer Contact Name''],
              el ''input'' [
                  (''type'', Inr (Str ''text'')),
                  (''required'', Inr (Bool True)),
                  (''value'', Inr (fm_buyer_name (rp_form p))),
                  (''placeholder'', Inr (Str ''Pooja Sen''))] [(''onChange'', Type_in ''buyer_name'')] []],
            node ''div'' [
              node ''label'' [say ''Buyer Email''],
              el ''input'' [
                  (''type'', Inr (Str ''email'')),
                  (''required'', Inr (Bool True)),
                  (''value'', Inr (fm_buyer_email (rp_form p))),
                  (''placeholder'', Inr (Str ''finance@buyer.com''))] [(''onChange'', Type_in ''buyer_email'')] []]],
          node ''div'' [
            node ''div'' [
              node ''label'' [say ''Credit Terms''],
              el ''select'' [(''value'', Inr (fm_credit_terms (rp_form p)))] [(''onChange'', Type_in ''credit_terms'')] [
                el ''option'' [(''value'', Inr (Str ''NET_15''))] [] [say ''NET 15 Days''],
                el ''option'' [(''value'', Inr (Str ''NET_30''))] [] [say ''NET 30 Days''],
                el ''option'' [(''value'', Inr (Str ''NET_60''))] [] [say ''NET 60 Days''],
                el ''option'' [(''value'', Inr (Str ''DUE_ON_RECEIPT''))] [] [say ''Due on Receipt'']]],
            node ''div'' [
              node ''label'' [say ''Due Date''],
              el ''input'' [
                  (''type'', Inr (Str ''date'')),
                  (''value'', Inr (Str (fm_due_date (rp_form p))))] [(''onChange'', Type_in ''due_date'')] []]],
          node ''div'' [
            node ''label'' [say ''Custom Payment Link URL (Optional - Auto-generated if blank)''],
            el ''input'' [
                (''type'', Inr (Str ''url'')),
                (''value'', Inr (fm_payment_link_url (rp_form p))),
                (''placeholder'', Inr (Str (''https://checkout.reviveos.io/pay/'' @ to_str (orv (fm_invoice_number (rp_form
                    p)) (Str ''INV-001'')))))] [(''onChange'', Type_in ''payment_link_url'')] []],
          node ''div'' [
            el ''button'' [(''type'', Inr (Str ''button''))] [(''onClick'', \<lambda>_. Close_form)] [say ''Cancel''],
            el ''button'' [(''type'', Inr (Str ''submit''))] [] [
              put (Str (if rp_editing p \<noteq> None then ''Save Changes'' else ''Generate & Register''))]]]]]"

definition audit_panel :: "locale_fns \<Rightarrow> js \<Rightarrow> receivables_action view" where
  "audit_panel lc a =
    node ''div'' [
      node ''div'' [
        node ''div'' [
          node ''div'' [
            icon ''ShieldCheck'',
            node ''div'' [
              node ''h3'' [
                say (''Audit Dossier '' @ [CHR 0xE2, CHR 0x80, CHR 0x94] @ '' ''),
                eval (get a ''invoice_number'')],
              node ''span'' [say ''Cryptographically Verified Blockchain-Style Audit Trail'']]],
          el ''button'' [] [(''onClick'', \<lambda>_. Audit None)] [say [CHR 0xC3, CHR 0x97]]],
        node ''div'' [
          node ''div'' [
            node ''div'' [say ''Buyer Entity''],
            node ''div'' [eval (get a ''buyer_company'')],
            node ''div'' [eval (get a ''buyer_email'')]],
          node ''div'' [
            node ''div'' [say ''Outstanding Balance''],
            node ''div'' [
              say [CHR 0xE2, CHR 0x82, CHR 0xB9],
              eval (seqE (get a ''amount'') (\<lambda>v20. Inr (Str (loc_number lc (to_num v20)))))],
            node ''div'' [
              say ''Bucket: '',
              eval (get a ''current_bucket''),
              say '' ('',
              eval (get a ''days_past_due''),
              say ''d PDU)'']]],
        node ''div'' [
          node ''h4'' [say ''Step-by-Step Recovery Trail''],
          node ''div'' [
            node ''div'' [
              node ''div'' [
                node ''span'' [say ''1. Ingestion & Credit Term Reconciliation''],
                node ''span'' [say ''VERIFIED'']],
              node ''div'' [
                say ''Registered under '',
                eval (seqE (get a ''credit_terms'') (\<lambda>v21. if truthy v21 then Inr v21 else Inr (Str ''NET_30''))),
                say '' terms with ERP hash verification.''],
              node ''div'' [say ''Hash: 0x8f22a19c... | Actor: system:erp_ingestion'']],
            node ''div'' [
              node ''div'' [node ''span'' [say ''2. Dynamic Aging Bucket Classification''], node ''span'' [say ''EXECUTED'']],
              node ''div'' [
                say ''Overdue by '',
                eval (get a ''days_past_due''),
                say '' days. Placed in '',
                eval (get a ''current_bucket''),
                say '' dunning queue.''],
              node ''div'' [say ''Hash: sha256_d9180... | Actor: ai:dunning_orchestrator'']],
            node ''div'' [
              node ''div'' [
                node ''span'' [say ''3. Payment Link & Dunning Notice Dispatch''],
                node ''span'' [say ''DISPATCHED'']],
              node ''div'' [
                say ''Self-serve link: '',
                node ''span'' [
                  eval (seqE (get a ''payment_link_url'') (\<lambda>v23. if truthy v23 then Inr v23 else seqE (get a
                      ''invoice_number'') (\<lambda>v22. Inr (Str (''https://checkout.reviveos.io/pay/'' @ to_str v22)))))]],
              node ''div'' [say ''Hash: 0xee2194b1... | Channel: RESEND_EMAIL & SMS'']],
            node ''div'' [
              node ''div'' [node ''span'' [say ''4. Cryptographic Proof & Ledger Finality''], node ''span'' [say ''SEALED'']],
              node ''div'' [say ''Audit log immutable record linked to master revenue ledger.''],
              node ''div'' [say ''Hash: 0x5a18c991... | Status: AUDITED'']]]],
        node ''div'' [
          el ''button'' [] [(''onClick'', \<lambda>_. Report a Pdf)] [
            icon ''Download'',
            node ''span'' [say ''Download Audit PDF'']],
          el ''button'' [] [(''onClick'', \<lambda>_. Report a Doc)] [
            icon ''Download'',
            node ''span'' [say ''Download Audit DOC'']]]]]"

definition receivables_view :: "locale_fns \<Rightarrow> receivables_page \<Rightarrow> receivables_action view" where
  "receivables_view lc p =
    node ''div'' [
      node ''div'' [
        node ''div'' [
          node ''div'' [
            node ''h1'' [say ''B2B Receivables Chaser & Dunning''],
            BadgePulse (Str ''Net Terms Monitor'') ''success''],
          node ''p'' [
            say
                ''Generate and edit enterprise invoices, dispatch customized payment links, and export audit compliance dossiers.'']],
        el ''button'' [] [(''onClick'', \<lambda>_. Open_create)] [
          icon ''Plus'',
          node ''span'' [say ''Generate B2B Invoice'']]],
      show_if (opt_text (rp_notice p)) (node ''div'' [icon ''CheckCircle2'', node ''span'' [put (opt_text (rp_notice p))]]),
      node ''div'' [
        node ''div'' [
          node ''div'' [say ''Total Outstanding AR''],
          node ''div'' [
            say [CHR 0xE2, CHR 0x82, CHR 0xB9],
            eval (seqE (opt_call (localized (loc_number lc)) (member (rp_summary p) ''total_outstanding'')) (\<lambda>v1. if
                truthy v1 then Inr v1 else Inr (Str ''7,24,000'')))],
          node ''div'' [say ''Across '', put (Num (nint (int (length (rp_invoices p))))), say '' Enterprise Invoices'']],
        node ''div'' [
          node ''div'' [say ''Current (Due <30d)''],
          node ''div'' [
            say [CHR 0xE2, CHR 0x82, CHR 0xB9],
            eval (seqE (opt_call (localized (loc_number lc)) (member (rp_summary p) ''current_due'')) (\<lambda>v2. if truthy
                v2 then Inr v2 else Inr (Str ''89,000'')))],
          node ''div'' [say ''Courteous reminders'']],
        node ''div'' [
          node ''div'' [say ''1 - 30 Days Past Due''],
          node ''div'' [
            say [CHR 0xE2, CHR 0x82, CHR 0xB9],
            eval (seqE (opt_call (localized (loc_number lc)) (member (rp_summary p) ''bucket_1_30'')) (\<lambda>v3. if truthy
                v3 then Inr v3 else Inr (Str ''4,50,000'')))],
          node ''div'' [say ''Automated firm notice'']],
        node ''div'' [
          node ''div'' [say ''31 - 60 Days Past Due''],
          node ''div'' [
            say [CHR 0xE2, CHR 0x82, CHR 0xB9],
            eval (seqE (opt_call (localized (loc_number lc)) (member (rp_summary p) ''bucket_31_60'')) (\<lambda>v4. if
                truthy v4 then Inr v4 else Inr (Str ''1,85,000'')))],
          node ''div'' [say ''Urgent / Voice call escalated'']]],
      node ''div'' [
        node ''div'' [
          node ''h2'' [say ''Overdue Invoices & Automated Dunning Queue''],
          node ''span'' [say ''Auto-sync with Razorpay Invoices'']],
        node ''div'' [
          node ''table'' [
            node ''thead'' [
              node ''tr'' [
                node ''th'' [say ''Invoice #''],
                node ''th'' [say ''Buyer Entity''],
                node ''th'' [say ''Amount''],
                node ''th'' [say ''Aging Bucket''],
                node ''th'' [say ''Days Past Due''],
                node ''th'' [say ''Dispatch Link''],
                node ''th'' [say ''Actions'']]],
            node ''tbody'' [each (rp_invoices p) (\<lambda>row.  invoice_row lc row)]]]],
      show_when (rp_showCreateModal p) (invoice_form p),
      case rp_audited p of None \<Rightarrow> put Null | Some a \<Rightarrow> audit_panel lc a]"

subsection \<open>Rendering\<close>

definition rows_ok :: "receivables_page \<Rightarrow> bool" where
  "rows_ok p \<longleftrightarrow> list_all (\<lambda>r. \<not> nullish r) (rp_invoices p) \<and> (\<forall>a. rp_audited p = Some a \<longrightarrow> \<not> nullish a)"

lemma invoice_row_renders: "\<not> nullish r \<Longrightarrow> renders (invoice_row lc r)"
  unfolding invoice_row_def by (simp add: view_simps get_runs renders_seqE)

lemma invoice_form_renders: "renders (invoice_form p)"
  unfolding invoice_form_def by (simp add: view_simps)

lemma audit_panel_renders: "\<not> nullish a \<Longrightarrow> renders (audit_panel lc a)"
  unfolding audit_panel_def by (simp add: view_simps get_runs)

lemma receivables_view_renders:
  assumes "rows_ok p"
  shows "renders (receivables_view lc p)"
proof -
  have "runs (seqE (opt_call (localized (loc_number lc)) v) (\<lambda>w. if truthy w then Inr w else Inr d))" for v d
    using opt_localized_runs [of "loc_number lc" v] by (auto simp: runs_seqE)
  moreover have "renders (case rp_audited p of None \<Rightarrow> put Null | Some a \<Rightarrow> audit_panel lc a)"
    using assms by (auto simp: rows_ok_def audit_panel_renders split: option.split)
  ultimately show ?thesis using assms unfolding receivables_view_def rows_ok_def
    by (simp add: view_simps invoice_form_renders invoice_row_renders list_all_iff)
qed

subsection \<open>The page's life\<close>

fun ledger_fair :: "ledger_event \<Rightarrow> bool" where
  \<comment> \<open>nothing is asked of the backend, the storage or the clock; the audit button passes a row it is rendered for\<close>
  "ledger_fair (Ledger_click net now random (Audit (Some r))) \<longleftrightarrow> \<not> nullish r"
| "ledger_fair e = True"

lemma rows_ok_other [simp]:
  "rows_ok (p\<lparr>rp_notice := m\<rparr>) = rows_ok p" "rows_ok (p\<lparr>rp_timers := n\<rparr>) = rows_ok p" "rows_ok (p\<lparr>rp_loading := l\<rparr>) = rows_ok p"
  "rows_ok (p\<lparr>rp_showCreateModal := b\<rparr>) = rows_ok p" "rows_ok (p\<lparr>rp_editing := e\<rparr>) = rows_ok p"
  "rows_ok (p\<lparr>rp_form := f\<rparr>) = rows_ok p" "rows_ok (p\<lparr>rp_summary := s\<rparr>) = rows_ok p"
  by (simp_all add: rows_ok_def)

lemma pushed_rows_ok:
  "foldlE (push_new invoice_key) s rows = Inr s' \<Longrightarrow> list_all (\<lambda>r. \<not> nullish r) (snd s) \<Longrightarrow> list_all (\<lambda>r. \<not> nullish r) (snd s')"
proof (induction rows arbitrary: s)
  case (Cons r rows)
  obtain k where k: "invoice_key r = Inr k" using Cons.prems(1) by (cases "invoice_key r") (simp_all add: push_new_def)
  have f: "foldlE (push_new invoice_key) (if set_has (fst s) k then s else (fst s @ [k], snd s @ [r])) rows = Inr s'"
    using Cons.prems(1) by (simp add: push_new_def [of _ _ r] k)
  have "\<not> nullish r" using invoice.key_Inr [OF k] by blast
  then show ?case using Cons.IH [OF f] Cons.prems(2) by (simp split: if_splits)
qed simp

lemma online_rows_ok: "online_ledger demo local data = Inr (rows, s) \<Longrightarrow> list_all (\<lambda>r. \<not> nullish r) rows"
  by (auto simp: online_ledger_def Let_def dest!: pushed_rows_ok)

lemma keyed_rows_ok: "mapE invoice_key rows = Inr ks \<Longrightarrow> list_all (\<lambda>r. \<not> nullish r) rows"
  by (induction rows arbitrary: ks) (auto dest: invoice.key_Inr)

lemma offline_rows_ok:
  "offline_ledger demo local = Inr (rows, s) \<Longrightarrow> list_all (\<lambda>r. \<not> nullish r) demo \<Longrightarrow> list_all (\<lambda>r. \<not> nullish r) rows"
  by (auto simp: offline_ledger_def merge_rows_def list_all_iff dest!: keyed_rows_ok)

lemma fetchReceivables_ok:
  assumes "rows_ok p" "list_all (\<lambda>r. \<not> nullish r) demo"
  shows "rows_ok (fst (fetchReceivables base net st demo p))"
proof -
  have off: "rows_ok (fst (case offline_ledger demo l of
      Inr (invs, summary) \<Rightarrow> (p\<lparr>rp_loading := False, rp_invoices := invs, rp_summary := summary\<rparr>, None)
    | Inl e \<Rightarrow> (p\<lparr>rp_loading := False\<rparr>, Some e)))" for l
    using assms offline_rows_ok [OF _ assms(2)] by (auto simp: rows_ok_def split: sum.split)
  show ?thesis unfolding fetchReceivables_def Let_def
  proof (rule json_answer_cases)
    fix data
    show "rows_ok (fst (case seqE (online_ledger demo (local_invoices st) data) (\<lambda>r. Inr (Some r)) of
        Inr (Some (invs, summary)) \<Rightarrow> (p\<lparr>rp_loading := False, rp_invoices := invs, rp_summary := summary\<rparr>, None)
      | _ \<Rightarrow> (case offline_ledger demo (local_invoices st) of
          Inr (invs, summary) \<Rightarrow> (p\<lparr>rp_loading := False, rp_invoices := invs, rp_summary := summary\<rparr>, None)
        | Inl e \<Rightarrow> (p\<lparr>rp_loading := False\<rparr>, Some e))))"
    proof (cases "online_ledger demo (local_invoices st) data")
      case (Inr r)
      then show ?thesis using assms(1) online_rows_ok by (cases r) (auto simp: rows_ok_def)
    qed (use off in simp)
  qed (use off in simp_all)
qed

lemma updated_list_ok:
  assumes "updated_list now p n link = Inr rows" "rows_ok p"
  shows "list_all (\<lambda>r. \<not> nullish r) rows"
proof (cases "rp_editing p")
  case None
  then show ?thesis using assms by (auto simp: updated_list_def new_row_def rows_ok_def)
next
  case (Some e)
  have "list_all (\<lambda>r. \<not> nullish r) xs" if "mapE (\<lambda>row. if same_invoice e row then edited_row f link row else Inr row) ys = Inr xs"
      "list_all (\<lambda>r. \<not> nullish r) ys" for f xs ys
    using that by (induction ys arbitrary: xs) (auto simp: edited_row_def split: if_splits)
  then show ?thesis using assms Some by (simp add: updated_list_def rows_ok_def)
qed

lemma save_ok: "handleSaveInvoice now random st p = Inr (p', st') \<Longrightarrow> rows_ok p \<Longrightarrow> rows_ok p'"
  by (auto simp: handleSaveInvoice_def Let_def show_notice_def) (auto simp: rows_ok_def dest!: updated_list_ok)

lemma receivables_do_ok:
  assumes "rows_ok (fst s)" "list_all (\<lambda>r. \<not> nullish r) demo" "ledger_fair e"
  shows "rows_ok (fst (receivables_do base demo e s))"
proof (cases "(base, demo, e, s)" rule: receivables_do.cases)
  case (3 base' demo' net now random a p st)
  with assms have p: "rows_ok p" by simp
  show ?thesis
  proof (cases a)
    case Open_create
    then show ?thesis using 3 p by (auto simp: or_keep_def openCreate_def split: sum.split)
  next
    case (Remind row)
    then show ?thesis using 3 p by (auto simp: triggerDunning_def show_notice_def split: sum.split)
  next
    case (Open_edit row)
    then show ?thesis using 3 p by (auto simp: or_keep_def openEdit_def split: sum.split)
  next
    case (Audit r)
    then show ?thesis using 3 p assms(3) by (cases r) (auto simp: rows_ok_def)
  next
    case Save_invoice
    then show ?thesis using 3 p save_ok [of now random st p] by (auto simp: or_keep_def split: sum.split)
  qed (use 3 p in simp_all)
qed (use assms fetchReceivables_ok in \<open>auto simp: fire_timer_def\<close>)

interpretation ledger_life: page_life "\<lambda>s. rows_ok (fst s) \<and> list_all (\<lambda>r. \<not> nullish r) demo" "\<lambda>s. receivables_view lc (fst s)"
    "receivables_do base demo" ledger_fair
  for lc base demo
  by unfold_locales (simp_all add: receivables_view_renders receivables_do_ok)

lemma demo_invoices_ok: "DEMO_B2B_INVOICES now = Inr demo \<Longrightarrow> list_all (\<lambda>r. \<not> nullish r) demo"
  by (auto simp: DEMO_B2B_INVOICES_def demo_row_def)

lemma receivables_init_ok: "DEMO_B2B_INVOICES now = Inr demo \<Longrightarrow> rows_ok (receivables_init demo)"
  using demo_invoices_ok by (simp add: rows_ok_def receivables_init_def)

end
