(* ===== verification/MonitorPages.thy ===== *)
theory MonitorPages
  imports WebApi JsFormat
begin

text \<open>
  The pages that only watch: \<open>system/page.tsx\<close> (health and queues, every ten seconds), \<open>analytics/page.tsx\<close>
  (the overview) and \<open>dashboard/page.tsx\<close> (metrics and recent payments, every six seconds), and the redirect of
  \<open>admin/page.tsx\<close>.
\<close>

subsection \<open>System\<close>

record system_page =
  sy_health :: js
  sy_queues :: js
  sy_loading :: bool
  sy_error :: "string option"

datatype system_view = System_loading | System_error string | System_report js js

definition system_init :: system_page where
  "system_init = \<lparr>sy_health = Null, sy_queues = Null, sy_loading = True, sy_error = None\<rparr>"

definition loadSystemInfo :: "string \<Rightarrow> fetch \<Rightarrow> clock \<Rightarrow> system_page \<Rightarrow> system_page" where
  "loadSystemInfo base net now p = (case getSystemHealth base net now of
     Inr h \<Rightarrow> p\<lparr>sy_health := h, sy_queues := (case getSystemQueues base net (\<lambda>i. now (Suc i)) of Inr q \<Rightarrow> q | Inl _ \<Rightarrow> Null),
       sy_loading := False, sy_error := None\<rparr>
   | Inl e \<Rightarrow> p\<lparr>sy_loading := False, sy_error := Some (if emessage e = [] then ''Failed to load system diagnostics'' else emessage e)\<rparr>)"

definition system_view_of :: "system_page \<Rightarrow> system_view" where
  \<comment> \<open>which of the three screens is rendered\<close>
  "system_view_of p = (if sy_loading p \<and> \<not> truthy (sy_health p) then System_loading
     else case sy_error p of
       Some e \<Rightarrow> if e \<noteq> [] \<and> \<not> truthy (sy_health p) then System_error e else System_report (sy_health p) (sy_queues p)
     | None \<Rightarrow> System_report (sy_health p) (sy_queues p))"

subsection \<open>Analytics\<close>

record analytics_page =
  an_data :: js
  an_loading :: bool
  an_error :: "string option"

definition analytics_init :: "WorkflowSummary list \<Rightarrow> analytics_page" where
  "analytics_init ds = \<lparr>an_data = getSyntheticAnalyticsOverview ds, an_loading = False, an_error = None\<rparr>"

definition loadAnalytics :: "string \<Rightarrow> fetch \<Rightarrow> WorkflowSummary list \<Rightarrow> analytics_page \<Rightarrow> analytics_page" where
  "loadAnalytics base net ds p =
    (let res = getAnalyticsOverview base net ds; q = p\<lparr>an_error := None, an_loading := False\<rparr>
     in if truthy res \<and> gt_num (member res ''total_payments'') (nint 0) then q\<lparr>an_data := res\<rparr> else q)"

definition recovery_rate_text :: "js \<Rightarrow> string" where
  "recovery_rate_text d = (if truthy d then to_fixed 1 (nmul (to_num (member d ''recovery_rate'')) (nint 100)) else ''0.0'')"

subsection \<open>Dashboard\<close>

record dashboard_page =
  db_metrics :: js
  db_recentPayments :: "js list"
  db_loading :: bool

definition dashboard_init :: dashboard_page where
  "dashboard_init = \<lparr>db_metrics = Null, db_recentPayments = [], db_loading = True\<rparr>"

definition fetchData :: "string \<Rightarrow> fetch \<Rightarrow> WorkflowSummary list \<Rightarrow> dashboard_page \<Rightarrow> dashboard_page" where
  "fetchData base net ds p = p\<lparr>db_metrics := getMetricsSummary base net ds,
     db_recentPayments := getPayments base net ds, db_loading := False\<rparr>"

definition count_status :: "string \<Rightarrow> js list \<Rightarrow> js" where
  \<comment> \<open>\<open>recentPayments.filter((p) => p.status === s).length\<close>\<close>
  "count_status s ps = js_int (int (length (filter (\<lambda>p. member p ''status'' = Str s) ps)))"

definition total_failed :: "dashboard_page \<Rightarrow> js" where
  "total_failed p = orv (member (db_metrics p) ''failed_count'') (orv (count_status ''FAILED'' (db_recentPayments p)) (js_int 12))"

definition total_recovered :: "dashboard_page \<Rightarrow> js" where
  "total_recovered p = orv (member (db_metrics p) ''recovered_count'') (orv (count_status ''CAPTURED'' (db_recentPayments p)) (js_int 8))"

definition dashboard_rate :: "dashboard_page \<Rightarrow> js" where
  "dashboard_rate p = orv (member (db_metrics p) ''recovery_rate'')
     (if gt_num (total_failed p) (nint 0)
      then Num (nmul (ndiv (to_num (total_recovered p)) (to_num (plus_js (total_failed p) (total_recovered p)))) (nint 100))
      else Num (lit 667 10))"

definition recovered_amount :: "dashboard_page \<Rightarrow> js" where
  "recovered_amount p = orv (member (db_metrics p) ''recovered_amount'') (Num (nmul (to_num (total_recovered p)) (nint 1999)))"

subsection \<open>The redirect\<close>

definition admin_redirect :: "string list \<Rightarrow> string list" where
  \<comment> \<open>\<open>router.replace('/merchant')\<close> on the browser's history\<close>
  "admin_redirect history = butlast history @ [''/merchant'']"

subsection \<open>Lemmas\<close>

text \<open>With a clock within the range of dates the system page always reports, whatever the network does.\<close>

lemma system_reports:
  assumes "\<And>i. \<exists>s. now_plus (now i) 0 = Inr s"
  shows "sy_error (loadSystemInfo base net now p) = None \<and> \<not> sy_loading (loadSystemInfo base net now p)"
  using assms [of 0] by (auto simp: loadSystemInfo_def getSystemHealth_def split: sum.splits)

lemma analytics_keeps_baseline:
  \<comment> \<open>unreachable, the analytics page shows the dataset's overview\<close>
  "an_data (loadAnalytics base unreachable ds (analytics_init ds)) = getSyntheticAnalyticsOverview ds"
  by (simp add: loadAnalytics_def analytics_init_def getAnalyticsOverview_def Let_def)

lemma no_payments_no_zero:
  \<comment> \<open>without metrics and payments the dashboard does not show zeros but 12 failed and 8 recovered payments\<close>
  "total_failed dashboard_init = js_int 12 \<and> total_recovered dashboard_init = js_int 8"
  by (simp add: total_failed_def total_recovered_def dashboard_init_def count_status_def orv_def)

end
