(* ===== verification/MonitorViews.thy ===== *)
theory MonitorViews
  imports MonitorPages Components
begin

text \<open>
  What the watching pages render: \<open>dashboard/page.tsx\<close>, \<open>analytics/page.tsx\<close> and \<open>system/page.tsx\<close> under
  \<open>apps/web/src/app/\<close>. Their only control loads again.
\<close>

subsection \<open>The dashboard\<close>

datatype dashboard_action = Reload_dashboard

definition dashboard_do :: "string \<Rightarrow> WorkflowSummary list \<Rightarrow> fetch \<Rightarrow> dashboard_page \<Rightarrow> dashboard_page" where
  \<comment> \<open>the button and the timer: both load\<close>
  "dashboard_do base ds net p = fetchData base net ds p"

definition dashboard_header :: "dashboard_page \<Rightarrow> dashboard_action view" where
  "dashboard_header p =
    node ''div'' [
      node ''div'' [
        node ''div'' [
          node ''h1'' [say ''Autonomous Recovery Operations''],
          BadgePulse (Str ''Engine Active'') ''success''],
        node ''p'' [say ''DeepSeek-R1 AI decisioning & real-time zero-touch payment reconciliation'']],
      node ''div'' [
        el ''button'' [] [(''onClick'', \<lambda>_. Reload_dashboard)] [
          el ''RefreshCw'' [(''className'', Inr (Str (if db_loading p then ''animate-spin'' else [])))] [] [],
          say '' Refresh''],
        el ''Link'' [(''href'', Inr (Str ''/merchant''))] [] [node ''button'' [icon ''Zap'', say '' Merchant Sandbox'']]]]"

definition dashboard_figures :: "locale_fns \<Rightarrow> dashboard_page \<Rightarrow> dashboard_action view" where
  "dashboard_figures lc p =
    node ''div'' [
      node ''div'' [
        node ''div'' [node ''span'' [say ''Recovered Revenue''], node ''div'' [icon ''TrendingUp'']],
        node ''div'' [say [CHR 0xE2, CHR 0x82, CHR 0xB9], eval (localized (loc_number lc) (recovered_amount p))],
        node ''div'' [say ''+18.4% lift vs static dunning'']],
      node ''div'' [
        node ''div'' [node ''span'' [say ''AI Recovery Rate''], node ''div'' [icon ''Sparkles'']],
        node ''div'' [eval (fixed 1 (dashboard_rate p)), say ''%''],
        node ''div'' [say ''Industry avg: ~34.0%'']],
      node ''div'' [
        node ''div'' [node ''span'' [say ''Captured Events''], node ''div'' [icon ''ShieldCheck'']],
        node ''div'' [put (total_recovered p), say '' '', node ''span'' [say ''events'']],
        node ''div'' [say ''Verified with payment gateways'']],
      node ''div'' [
        node ''div'' [node ''span'' [say ''Under Orchestration''], node ''div'' [icon ''Activity'']],
        node ''div'' [put (total_failed p), say '' '', node ''span'' [say ''in queue'']],
        node ''div'' [say ''Scheduled zero-touch retries'']]]"

definition payment_line :: "locale_fns \<Rightarrow> js \<Rightarrow> dashboard_action view" where
  "payment_line lc pmt =
    el ''tr'' [(''key'', get pmt ''id'')] [] [
      node ''td'' [
        node ''span'' [
          eval (seqE (get pmt ''razorpay_payment_id'') (\<lambda>v2. if truthy v2 then Inr v2 else seqE (get pmt ''id'')
              (\<lambda>v1. opt_call (substring 0 14) v1))),
          say ''...'']],
      node ''td'' [
        say [CHR 0xE2, CHR 0x82, CHR 0xB9],
        eval (seqE (seqE (get pmt ''amount'') (\<lambda>v3. if truthy v3 then Inr v3 else Inr (Num (nint 1999))))
            (\<lambda>v4. Inr (Str (loc_number lc (to_num v4)))))],
      node ''td'' [
        node ''span'' [
          eval (seqE (get pmt ''failure_code'') (\<lambda>v5. if truthy v5 then Inr v5 else Inr (Str
              ''INSUFFICIENT_FUNDS'')))]],
      node ''td'' [
        seqE (seqE (get pmt ''status'') (\<lambda>v6. Inr (Bool (v6 = Str ''CAPTURED'')))) (\<lambda>v9. if truthy v9
          then node ''span'' [say ''CAPTURED'']
          else seqE (seqE (get pmt ''status'') (\<lambda>v7. Inr (Bool (v7 = Str ''RECOVERING'')))) (\<lambda>v8. if truthy v8
              then node ''span'' [say ''RECOVERING'']
              else node ''span'' [say ''FAILED'']))],
      node ''td'' [
        eval (seqE (get pmt ''method'') (\<lambda>v10. if truthy v10 then Inr v10 else Inr (Str ''card / autopay'')))]]"

definition dashboard_view :: "locale_fns \<Rightarrow> dashboard_page \<Rightarrow> dashboard_action view" where
  "dashboard_view lc p =
    node ''div'' [
      dashboard_header p,
      dashboard_figures lc p,
      node ''div'' [
        node ''div'' [
          node ''div'' [
            node ''h3'' [say ''Recent Payment Recovery Workflows''],
            node ''p'' [say ''Live stream of transactions analyzed and orchestrated by ReviveOS'']],
          el ''Link'' [(''href'', Inr (Str ''/workflows''))] [] [say ''View all workflows '', icon ''ArrowUpRight'']],
        node ''div'' [
          node ''table'' [
            node ''thead'' [
              node ''tr'' [
                node ''th'' [say ''Payment ID''],
                node ''th'' [say ''Amount''],
                node ''th'' [say ''Failure Code''],
                node ''th'' [say ''Recovery Status''],
                node ''th'' [say ''Method'']]],
            node ''tbody'' [
              if strict_eq (Num (nint (int (length (db_recentPayments p))))) (Num (nint 0))
                then node ''tr'' [
                    el ''td'' [(''colSpan'', Inr (Num (nint 5)))] [] [
                      say ''No payment recovery events yet. Use the'',
                      put (Str '' ''),
                      el ''Link'' [(''href'', Inr (Str ''/merchant''))] [] [say ''Merchant Sandbox Simulator''],
                      put (Str '' ''),
                      say ''to generate a test failure.'']]
                else each (take 8 (db_recentPayments p)) (\<lambda>pmt.  payment_line lc pmt)]]]]]"

subsection \<open>Analytics\<close>

definition breakdown :: "js \<Rightarrow> (string \<times> js) list" where
  \<comment> \<open>\<open>Object.entries(data.category_breakdown)\<close>\<close>
  "breakdown d = fields_of (member d ''category_breakdown'')"

definition metric_cards :: "analytics_page \<Rightarrow> unit view" where
  "metric_cards p =
    node ''div'' [
      MetricCard ''Recovered Revenue'' (seqE (localized (locale_num 2) (orv (member (an_data p)
          ''recovered_revenue'') (Num (nint 0)))) (\<lambda>v1. Inr (Str ([CHR 0xE2, CHR 0x82, CHR 0xB9] @ to_str
          v1)))) (Inr (Str (to_str (orv (member (an_data p) ''recovered_workflows'') (Num (nint 0))) @
          '' successful recoveries''))),
      MetricCard ''Overall Recovery Rate'' (Inr (Str (recovery_rate_text (an_data p) @ ''%''))) (Inr (Str (to_str
          (orv (member (an_data p) ''recovered_workflows'') (Num (nint 0))) @ '' of '' @ to_str (orv (orv (member
          (an_data p) ''total_workflows'') (member (an_data p) ''total_payments'')) (Num (nint 0))) @
          '' transactions''))),
      MetricCard ''At-Risk Volume'' (seqE (localized (locale_num 2) (orv (member (an_data p)
          ''total_at_risk_revenue'') (Num (nint 0)))) (\<lambda>v2. Inr (Str ([CHR 0xE2, CHR 0x82, CHR 0xB9] @
          to_str v2)))) (Inr (Str (to_str (orv (member (an_data p) ''total_payments'') (Num (nint 0))) @
          '' failed payments''))),
      MetricCard ''Active Recovery Load'' (Inr (orv (member (an_data p) ''active_recoveries'') (Num (nint 0))))
          (Inr (Str (to_str (orv (member (an_data p) ''pending_actions'') (Num (nint 0))) @ '' pending actions'')))]"

definition category_section :: "analytics_page \<Rightarrow> unit view" where
  "category_section p =
    node ''div'' [
      node ''h3'' [icon ''TrendingUp'', node ''span'' [say ''Failure Category Recovery Performance'']],
      if truthy (andv (member (an_data p) ''category_breakdown'') (Bool (breakdown (an_data p) \<noteq> [])))
        then node ''table'' [
            node ''thead'' [
              node ''tr'' [
                node ''th'' [say ''Failure Category''],
                node ''th'' [say ''Volume Count''],
                node ''th'' [say ''Share of Total'']]],
            node ''tbody'' [
              each_pair (breakdown (an_data p)) (\<lambda>cat count. 
                seqE (seqE (get (an_data p) ''total_payments'') (\<lambda>v3. if truthy v3 then Inr v3 else Inr (Num (nint
                    1)))) (\<lambda>denominator.
                  let pct = to_fixed 1 (nmul (ndiv (to_num count) (to_num denominator)) (nint 100)) in
                    el ''tr'' [(''key'', Inr (Str cat))] [] [
                      node ''td'' [node ''span'' [put (Str cat)]],
                      node ''td'' [node ''span'' [put count]],
                      node ''td'' [
                        node ''div'' [
                          node ''div'' [el ''div'' [(''style.width'', Inr (Str (pct @ ''%'')))] [] []],
                          node ''span'' [put (Str pct), say ''%'']]]]))]]
        else EmptyView ''No category data'' ''Process failure webhooks to populate category analytics.'' None]"

definition outcome_row :: "locale_fns \<Rightarrow> js \<Rightarrow> nat \<Rightarrow> unit view" where
  "outcome_row lc item idx =
    el ''tr'' [
        (''key'', seqE (seqE (get item ''payment_id'') (\<lambda>v7. if truthy v7 then Inr v7 else Inr (Str ''outcome'')))
            (\<lambda>v9. seqE (seqE (get item ''created_at'') (\<lambda>v8. if truthy v8 then Inr v8 else Inr (Str [])))
            (\<lambda>v10. Inr (Str (to_str v9 @ ''-'' @ to_str v10 @ ''-'' @ to_str (Num (nint (int idx))))))))] [] [
      node ''td'' [node ''span'' [eval (seqE (get item ''payment_id'') (\<lambda>v11. substring 0 16 v11)), say ''...'']],
      node ''td'' [
        node ''span'' [
          say [CHR 0xE2, CHR 0x82, CHR 0xB9],
          eval (seqE (get item ''amount'') (\<lambda>v12. localized (locale_num 2) v12))]],
      node ''td'' [node ''span'' [eval (get item ''failure_code'')]],
      node ''td'' [
        node ''span'' [
          eval (seqE (get item ''action_type'') (\<lambda>v13. if truthy v13 then Inr v13 else Inr (Str ''RETRY'')))]],
      node ''td'' [StatusBadge (get item ''status'')],
      node ''td'' [
        seqE (get item ''recovered'') (\<lambda>v15. if truthy v15
          then node ''span'' [
              icon ''CheckCircle2'',
              node ''span'' [
                say (''YES (+'' @ [CHR 0xE2, CHR 0x82, CHR 0xB9]),
                eval (seqE (get item ''recovered_amount'') (\<lambda>v14. fixed 0 v14)),
                say '')'']]
          else node ''span'' [icon ''XCircle'', node ''span'' [say ''NO'']])],
      node ''td'' [
        eval (seqE (get item ''created_at'') (\<lambda>v16. Inr (Str (loc_moment lc ''toLocaleTimeString()'' v16))))]]"

definition outcomes_section :: "locale_fns \<Rightarrow> analytics_page \<Rightarrow> unit view" where
  "outcomes_section lc p =
    node ''div'' [
      node ''div'' [node ''h3'' [say ''Verified Recovery Outcomes''], node ''span'' [say ''Latest Provider Resolutions'']],
      seqE (let v6 = member (an_data p) ''recent_outcomes'' in if \<not> truthy v6 then Inr v6 else seqE (get (an_data p)
          ''recent_outcomes'') (\<lambda>v4. seqE (get v4 ''length'') (\<lambda>v5. Inr (Bool (nless (nint 0) (to_num
          v5)))))) (\<lambda>v18. if truthy v18
        then node ''table'' [
            node ''thead'' [
              node ''tr'' [
                node ''th'' [say ''Payment ID''],
                node ''th'' [say ''Amount''],
                node ''th'' [say ''Failure''],
                node ''th'' [say ''Action Taken''],
                node ''th'' [say ''Provider Status''],
                node ''th'' [say ''Recovered''],
                node ''th'' [say ''Timestamp'']]],
            node ''tbody'' [
              seqE (seqE (get (an_data p) ''recent_outcomes'') as_array) (\<lambda>xs17. each_i xs17 (\<lambda>idx item. 
                outcome_row lc item idx))]]
        else node ''div'' [
            EmptyView ''No verified outcomes yet'' ''Completed recovery attempts will appear here.'' None])]"

definition analytics_view :: "locale_fns \<Rightarrow> analytics_page \<Rightarrow> unit view" where
  "analytics_view lc p =
    node ''div'' [
      node ''div'' [
        node ''div'' [
          node ''h1'' [say ''Recovery Analytics''],
          node ''p'' [say ''Real-world performance metrics derived directly from verified payment provider outcomes'']],
        el ''button'' [] [(''onClick'', \<lambda>_. ())] [
          el ''RefreshCw'' [(''className'', Inr (Str (if an_loading p then ''spinning'' else [])))] [] [],
          node ''span'' [say ''Refresh'']]],
      metric_cards p,
      category_section p,
      outcomes_section lc p]"

definition analytics_page_view :: "locale_fns \<Rightarrow> analytics_page \<Rightarrow> unit view" where
  "analytics_page_view lc p =
    (if an_loading p \<and> \<not> truthy (an_data p)
     then node ''div'' [LoadingView ''Computing recovery analytics from PostgreSQL...'']
     else if truthy (opt_text (an_error p)) \<and> \<not> truthy (an_data p)
     then node ''div'' [ErrorView (opt_text (an_error p)) (Some (\<lambda>_. ()))]
     else analytics_view lc p)"

subsection \<open>System\<close>

definition contains :: "js \<Rightarrow> string \<Rightarrow> err + js" where
  \<comment> \<open>\<open>v.includes(s)\<close> of a text\<close>
  "contains v s = (case v of Str t \<Rightarrow> Inr (Bool (str_includes t s)) | _ \<Rightarrow> Inl (no_method v))"

definition component_card :: "js \<Rightarrow> string \<Rightarrow> unit view" where
  "component_card part Icon =
    el ''div'' [(''key'', get part ''name'')] [] [
      node ''div'' [
        node ''div'' [icon Icon, node ''span'' [eval (get part ''name'')]],
        StatusBadge (get part ''status'')],
      node ''div'' [
        eval (seqE (get part ''message'') (\<lambda>v13. if truthy v13 then Inr v13 else Inr (Str ''Operational'')))],
      node ''div'' [
        node ''span'' [say ''Latency: '', eval (get part ''latency_ms''), say ''ms''],
        seqE (get part ''details'') (\<lambda>v14. show_if v14 (
          node ''span'' [eval (seqE (get part ''details'') (\<lambda>d. Inr (json_stringify d)))]))]]"

definition queue_section :: "system_page \<Rightarrow> unit view" where
  "queue_section p =
    node ''div'' [
      node ''h3'' [say ''Asynq Background Queue Infrastructure''],
      seqE (let v18 = member (sy_queues p) ''queues'' in if \<not> truthy v18 then Inr v18 else seqE (get (sy_queues p)
          ''queues'') (\<lambda>v16. seqE (get v16 ''length'') (\<lambda>v17. Inr (Bool (nless (nint 0) (to_num v17))))))
          (\<lambda>v21. if truthy v21
        then node ''table'' [
            node ''thead'' [
              node ''tr'' [
                node ''th'' [say ''Queue''],
                node ''th'' [say ''Active''],
                node ''th'' [say ''Pending''],
                node ''th'' [say ''Scheduled''],
                node ''th'' [say ''Retry''],
                node ''th'' [say ''Archived''],
                node ''th'' [say ''Completed''],
                node ''th'' [say ''Memory (RAM)'']]],
            node ''tbody'' [
              seqE (seqE (get (sy_queues p) ''queues'') as_array) (\<lambda>xs20. each xs20 (\<lambda>q. 
                el ''tr'' [(''key'', get q ''queue'')] [] [
                  node ''td'' [node ''span'' [eval (get q ''queue'')]],
                  node ''td'' [node ''span'' [eval (get q ''active'')]],
                  node ''td'' [node ''span'' [eval (get q ''pending'')]],
                  node ''td'' [node ''span'' [eval (get q ''scheduled'')]],
                  node ''td'' [node ''span'' [eval (get q ''retry'')]],
                  node ''td'' [node ''span'' [eval (get q ''archived'')]],
                  node ''td'' [node ''span'' [eval (get q ''completed'')]],
                  node ''td'' [
                    node ''span'' [
                      eval (seqE (get q ''memory_usage_bytes'') (\<lambda>v19. Inr (Str (to_fixed 1 (ndiv (to_num v19) (nint
                          1024)))))),
                      say '' KB'']]]))]]
        else node ''div'' [say ''No active queue inspectors found.''])]"

definition server_section :: "locale_fns \<Rightarrow> system_page \<Rightarrow> unit view" where
  "server_section lc p =
    node ''div'' [
      node ''h3'' [say ''Registered Worker Processes''],
      seqE (let v24 = member (sy_queues p) ''servers'' in if \<not> truthy v24 then Inr v24 else seqE (get (sy_queues p)
          ''servers'') (\<lambda>v22. seqE (get v22 ''length'') (\<lambda>v23. Inr (Bool (nless (nint 0) (to_num v23))))))
          (\<lambda>v28. if truthy v28
        then node ''table'' [
            node ''thead'' [
              node ''tr'' [
                node ''th'' [say ''Server Host / PID''],
                node ''th'' [say ''Concurrency''],
                node ''th'' [say ''Queues Handled''],
                node ''th'' [say ''Status''],
                node ''th'' [say ''Started At'']]],
            node ''tbody'' [
              seqE (seqE (get (sy_queues p) ''servers'') as_array) (\<lambda>xs27. each xs27 (\<lambda>srv. 
                el ''tr'' [(''key'', get srv ''id'')] [] [
                  node ''td'' [node ''span'' [eval (get srv ''host''), say '' (PID: '', eval (get srv ''pid''), say '')'']],
                  node ''td'' [node ''span'' [eval (get srv ''concurrency''), say '' threads'']],
                  node ''td'' [node ''span'' [eval (seqE (get srv ''queues'') (\<lambda>v25. joined '', '' v25))]],
                  node ''td'' [StatusBadge (get srv ''status'')],
                  node ''td'' [
                    eval (seqE (get srv ''started'') (\<lambda>v26. Inr (Str (loc_moment lc ''toLocaleTimeString()'' v26))))]]))]]
        else node ''div'' [say ''No worker processes currently connected.''])]"

definition system_view_shown :: "locale_fns \<Rightarrow> system_page \<Rightarrow> unit view" where
  "system_view_shown lc p =
    node ''div'' [
      node ''div'' [
        node ''div'' [
          node ''h1'' [say ''System Infrastructure Health''],
          node ''p'' [say ''Real-time telemetry across database, queuing, worker pool, and local AI runtime'']],
        el ''button'' [] [(''onClick'', \<lambda>_. ())] [
          el ''RefreshCw'' [(''className'', Inr (Str (if sy_loading p then ''spinning'' else [])))] [] [],
          node ''span'' [say ''Refresh'']]],
      node ''div'' [
        if nullish (sy_health p)
          then put Undef
          else seqE (as_array (member (sy_health p) ''components'')) (\<lambda>xs15. each xs15 (\<lambda>part. 
              let Icon = ''Server'' in
                seqE (seqE (seqE (get part ''name'') (\<lambda>v1. contains v1 ''PostgreSQL'')) (\<lambda>v2. if truthy v2
                    then Inr ''Database'' else Inr Icon)) (\<lambda>Icon.
                  seqE (seqE (seqE (seqE (get part ''name'') (\<lambda>v3. contains v3 ''Redis'')) (\<lambda>v5. if truthy v5
                      then Inr v5 else seqE (get part ''name'') (\<lambda>v4. contains v4 ''Queue''))) (\<lambda>v6. if
                      truthy v6 then Inr ''HardDrive'' else Inr Icon)) (\<lambda>Icon.
                    seqE (seqE (seqE (seqE (get part ''name'') (\<lambda>v7. contains v7 ''Ollama'')) (\<lambda>v9. if truthy
                        v9 then Inr v9 else seqE (get part ''name'') (\<lambda>v8. contains v8 ''DeepSeek''))) (\<lambda>v10.
                        if truthy v10 then Inr ''Cpu'' else Inr Icon)) (\<lambda>Icon.
                      seqE (seqE (seqE (get part ''name'') (\<lambda>v11. contains v11 ''API'')) (\<lambda>v12. if truthy v12
                          then Inr ''Activity'' else Inr Icon)) (\<lambda>Icon.
                        component_card part Icon))))))],
      queue_section p,
      server_section lc p]"

definition system_page_view :: "locale_fns \<Rightarrow> system_page \<Rightarrow> unit view" where
  "system_page_view lc p = (case system_view_of p of
     System_loading \<Rightarrow> node ''div'' [LoadingView ''Querying live infrastructure dependencies...'']
   | System_error e \<Rightarrow> node ''div'' [ErrorView (Str e) (Some (\<lambda>_. ()))]
   | System_report h q \<Rightarrow> system_view_shown lc p)"


subsection \<open>The dashboard renders\<close>

definition pay_ok :: "js \<Rightarrow> bool" where
  "pay_ok r \<longleftrightarrow> \<not> nullish r \<and> (truthy (member r ''razorpay_payment_id'') \<or> nullish (member r ''id'') \<or> has_type TText (member r ''id''))"

definition dashboard_sound :: "dashboard_page \<Rightarrow> bool" where
  "dashboard_sound p \<longleftrightarrow> list_all pay_ok (db_recentPayments p)
     \<and> (\<not> truthy (member (db_metrics p) ''recovery_rate'') \<or> has_type TNum (member (db_metrics p) ''recovery_rate''))"

lemma payment_line_renders:
  assumes "pay_ok r"
  shows "renders (payment_line lc r)"
proof -
  have g: "get r k = Inr (member r k)" for k using assms by (simp add: pay_ok_def get_runs)
  have "runs (if truthy (member r ''razorpay_payment_id'') then Inr (member r ''razorpay_payment_id'')
      else opt_call (substring 0 14) (member r ''id''))"
    using assms by (cases "member r ''id''") (auto simp: pay_ok_def)
  then show ?thesis unfolding payment_line_def by (simp add: g view_simps split: if_splits)
qed

lemma dashboard_view_renders:
  assumes "dashboard_sound p"
  shows "renders (dashboard_view lc p)"
proof -
  have "has_type TNum (dashboard_rate p)" using assms by (auto simp: dashboard_rate_def dashboard_sound_def orv_def)
  then have "runs (fixed 1 (dashboard_rate p))" by (auto dest!: TNumD)
  moreover have "\<not> nullish (recovered_amount p)" by (auto simp: recovered_amount_def orv_def nullish_def)
  moreover have "list_all pay_ok (take 8 (db_recentPayments p))"
    using assms by (auto simp: dashboard_sound_def list_all_iff dest: in_set_takeD)
  ultimately show ?thesis unfolding dashboard_view_def dashboard_header_def dashboard_figures_def
    by (simp add: view_simps payment_line_renders list_all_iff del: One_nat_def)
qed

definition dashboard_fair :: "string \<Rightarrow> WorkflowSummary list \<Rightarrow> fetch \<Rightarrow> bool" where
  "dashboard_fair base ds net \<longleftrightarrow> has_type AnalyticsOverview (getMetricsSummary base net ds)
     \<and> (\<forall>q. has_type WorkflowsResponse (getWorkflows base net ds q))"

lemma payment_rows_ok:
  assumes "mapE payment_row ws = Inr rows" "list_all (has_type WorkflowSummaryT) ws"
  shows "list_all pay_ok rows"
proof -
  have "pay_ok r" if "payment_row w = Inr r" "has_type WorkflowSummaryT w" for w r
  proof -
    note t = that(2) [unfolded WorkflowSummaryT_def]
    obtain s i where "member w ''payment_id'' = Str s" "member w ''id'' = Str i"
      using typed_text [OF t, of "''payment_id''"] typed_text [OF t, of "''id''"] by auto
    then show ?thesis using that(1) typed_get [OF t, of "''payment_id''"] by (auto simp: payment_row_def pay_ok_def orv_def)
  qed
  then show ?thesis using mapE_values [OF assms(1)] assms(2) by (fastforce simp: list_all_iff)
qed

lemma getPayments_ok:
  assumes "\<And>q. has_type WorkflowsResponse (getWorkflows base net ds q)"
  shows "list_all pay_ok (getPayments base net ds)"
proof -
  let ?r = "getWorkflows base net ds (no_query\<lparr>q_limit := Some (nint 10)\<rparr>)"
  have "member ?r ''workflows'' = Undef \<or> has_type (TArr WorkflowSummaryT) (member ?r ''workflows'')"
    by (rule member_opt [OF assms [unfolded WorkflowsResponse_def]]) simp
  then obtain ws where ws: "orv (member ?r ''workflows'') (Arr []) = Arr ws" "list_all (has_type WorkflowSummaryT) ws"
    by (auto simp: orv_def dest!: TArrD)
  have "list_all pay_ok (map demo_payment xs)" for xs by (simp add: list_all_iff demo_payment_def pay_ok_def)
  then show ?thesis using ws payment_rows_ok by (auto simp: getPayments_def Let_def split: sum.split)
qed

lemma dashboard_do_sound: "dashboard_fair base ds net \<Longrightarrow> dashboard_sound (dashboard_do base ds net p)"
proof -
  assume f: "dashboard_fair base ds net"
  have "has_type TNum (member (getMetricsSummary base net ds) ''recovery_rate'')"
    by (rule member_req [OF _ _, where ds = "case AnalyticsOverview of TRec fs \<Rightarrow> fs"]) (use f in \<open>simp_all add: dashboard_fair_def AnalyticsOverview_def\<close>)
  then show ?thesis using f getPayments_ok by (simp add: dashboard_do_def fetchData_def dashboard_sound_def dashboard_fair_def)
qed

interpretation dashboard_life: page_life dashboard_sound "dashboard_view lc" "dashboard_do base ds" "dashboard_fair base ds" for lc base ds
  by unfold_locales (simp_all add: dashboard_view_renders dashboard_do_sound)

lemma dashboard_init_sound: "dashboard_sound dashboard_init"
  by (simp add: dashboard_sound_def dashboard_init_def)

subsection \<open>Analytics renders\<close>

definition analytics_sound :: "analytics_page \<Rightarrow> bool" where
  "analytics_sound p \<longleftrightarrow> has_type AnalyticsOverview (an_data p)"

definition OutcomeT :: ty where
  "OutcomeT = TRec [Req ''payment_id'' TText, Req ''amount'' TNum, Req ''currency'' TText, Req ''failure_code'' TText,
     Req ''action_type'' TText, Req ''status'' TText, Req ''recovered'' TBool, Req ''recovered_amount'' TNum, Req ''created_at'' TText]"

lemma outcome_row_renders:
  assumes "has_type OutcomeT item"
  shows "renders (outcome_row lc item i)"
proof -
  note t = assms [unfolded OutcomeT_def]
  obtain s where s: "member item ''payment_id'' = Str s" using typed_text [OF t, of "''payment_id''"] by auto
  obtain n where n: "member item ''amount'' = Num n" using typed_number [OF t, of "''amount''"] by auto
  obtain r where r: "member item ''recovered_amount'' = Num r" using typed_number [OF t, of "''recovered_amount''"] by auto
  show ?thesis unfolding outcome_row_def by (simp add: view_simps typed_get [OF t] s n r typed_badge [OF t])
qed

lemma overview_parts:
  assumes "has_type AnalyticsOverview d"
  shows "get d k = Inr (member d k)"
    and "member d ''recent_outcomes'' = Undef \<or> (\<exists>xs. member d ''recent_outcomes'' = Arr xs \<and> list_all (has_type OutcomeT) xs)"
proof -
  note t = assms [unfolded AnalyticsOverview_def]
  show "get d k = Inr (member d k)" by (rule typed_get [OF t])
  have "member d ''recent_outcomes'' = Undef \<or> has_type (TArr OutcomeT) (member d ''recent_outcomes'')"
    unfolding OutcomeT_def by (rule member_opt [OF t]) simp
  then show "member d ''recent_outcomes'' = Undef \<or> (\<exists>xs. member d ''recent_outcomes'' = Arr xs \<and> list_all (has_type OutcomeT) xs)"
    by (auto dest!: TArrD)
qed

lemma orv_not_nullish: "\<not> nullish d \<Longrightarrow> \<not> nullish (orv v d)"
  by (auto simp: orv_def nullish_def)

lemma analytics_view_renders:
  assumes "analytics_sound p"
  shows "renders (analytics_page_view lc p)"
proof -
  have d: "has_type AnalyticsOverview (an_data p)" using assms by (simp add: analytics_sound_def)
  note g = overview_parts(1) [OF d]
  have "renders (outcomes_section lc p)"
    using overview_parts(2) [OF d] unfolding outcomes_section_def
    by (auto simp: view_simps g get_runs list_all_iff intro!: renders_each_i outcome_row_renders)
  moreover have "renders (category_section p)"
    unfolding category_section_def by (simp add: view_simps g Let_def list_all_iff)
  moreover have "renders (metric_cards p)"
    unfolding metric_cards_def by (simp add: view_simps localized_def orv_not_nullish)
  ultimately show ?thesis unfolding analytics_page_view_def analytics_view_def by (simp add: view_simps)
qed

definition analytics_fair :: "string \<Rightarrow> WorkflowSummary list \<Rightarrow> fetch \<Rightarrow> bool" where
  "analytics_fair base ds net \<longleftrightarrow> has_type AnalyticsOverview (getAnalyticsOverview base net ds)"

lemma loadAnalytics_sound: "analytics_sound p \<Longrightarrow> analytics_fair base ds net \<Longrightarrow> analytics_sound (loadAnalytics base net ds p)"
  by (simp add: analytics_sound_def analytics_fair_def loadAnalytics_def Let_def)

interpretation analytics_life: page_life analytics_sound "analytics_page_view lc" "\<lambda>net p. loadAnalytics base net ds p" "analytics_fair base ds"
  for lc base ds
  by unfold_locales (simp_all add: analytics_view_renders loadAnalytics_sound)

lemma breakdown_typed: "list_all (has_type TNum) (map snd (categoryBreakdown t)) \<Longrightarrow>
    list_all (has_type TNum) (map snd (categoryBreakdown (foldl add_workflow t ws)))"
proof (induction ws arbitrary: t)
  case (Cons w ws)
  have "list_all (has_type TNum) (map snd fs) \<Longrightarrow> list_all (has_type TNum) (map snd (put_field fs k (Num n)))" for fs k n
    by (induction fs) auto
  then have "list_all (has_type TNum) (map snd (categoryBreakdown (add_workflow t w)))"
    using Cons.prems by (simp add: add_workflow_def Let_def)
  from Cons.IH [OF this] show ?case by simp
qed simp

lemma offline_overview_typed: "has_type AnalyticsOverview (getSyntheticAnalyticsOverview ws)"
  using breakdown_typed [of start_totals ws]
  by (simp add: getSyntheticAnalyticsOverview_def AnalyticsOverview_def Let_def recent_outcome_def list_all_iff start_totals_def)

lemma analytics_init_sound: "analytics_sound (analytics_init ds)"
  by (simp add: analytics_sound_def analytics_init_def offline_overview_typed)

lemma analytics_unreachable: "analytics_fair base ds unreachable"
  by (simp add: analytics_fair_def getAnalyticsOverview_def offline_overview_typed)

lemma dashboard_unreachable: "dashboard_fair base ds unreachable"
  by (simp add: dashboard_fair_def getMetricsSummary_def getAnalyticsOverview_def offline_overview_typed getWorkflows_def
    offline_page_def page_def WorkflowsResponse_def Let_def list_all_iff)

subsection \<open>System renders\<close>

definition system_sound :: "system_page \<Rightarrow> bool" where
  "system_sound p \<longleftrightarrow> (sy_health p = Null \<or> has_type SystemHealthResponse (sy_health p))
     \<and> (sy_queues p = Null \<or> has_type SystemQueuesResponse (sy_queues p))"

lemma component_card_renders:
  assumes "has_type ComponentStatus part"
  shows "renders (component_card part Icon)"
proof -
  note t = assms [unfolded ComponentStatus_def]
  have "badge_ok (member part ''status'')" by (rule listed_badge [OF t]) (simp, simp)
  then show ?thesis unfolding component_card_def by (simp add: view_simps typed_get [OF t])
qed

lemma typed_list:
  assumes "has_type (TRec ds) v" "Req k (TArr t) \<in> set ds"
  shows "\<exists>xs. member v k = Arr xs \<and> list_all (has_type t) xs"
  using member_req [OF assms] by (auto dest!: TArrD)

lemma joined_texts: "has_type (TArr t) v \<Longrightarrow> \<exists>s. joined d v = Inr s"
  by (auto dest!: TArrD simp: joined_def)

lemma typed_present: "has_type (TRec ds) v \<Longrightarrow> \<not> nullish v"
  by (auto dest!: TRecD)

lemma contains_Str [simp]: "contains (Str t) s = Inr (Bool (str_includes t s))"
  by (simp add: contains_def)

lemma queue_section_renders:
  assumes "sy_queues p = Null \<or> has_type SystemQueuesResponse (sy_queues p)"
  shows "renders (queue_section p)"
proof (cases "sy_queues p = Null")
  case False
  with assms have t: "has_type SystemQueuesResponse (sy_queues p)" by simp
  note t' = t [unfolded SystemQueuesResponse_def]
  obtain xs where xs: "member (sy_queues p) ''queues'' = Arr xs" "list_all (has_type QueueStats) xs"
    using typed_list [OF t', of "''queues''"] by auto
  have "get q k = Inr (member q k)" if "q \<in> set xs" for q k
    by (rule typed_get) (use xs(2) that in \<open>auto simp: list_all_iff QueueStats_def\<close>)
  moreover have "list_all (\<lambda>q. \<not> nullish q) xs" using xs(2) by (auto simp: list_all_iff QueueStats_def dest: typed_present)
  ultimately show ?thesis unfolding queue_section_def by (simp add: view_simps typed_get [OF t'] xs(1) get_runs list_all_iff)
qed (simp add: queue_section_def view_simps)

lemma server_section_renders:
  assumes "sy_queues p = Null \<or> has_type SystemQueuesResponse (sy_queues p)"
  shows "renders (server_section lc p)"
proof (cases "sy_queues p = Null")
  case False
  with assms have t: "has_type SystemQueuesResponse (sy_queues p)" by simp
  note t' = t [unfolded SystemQueuesResponse_def]
  obtain xs where xs: "member (sy_queues p) ''servers'' = Arr xs" "list_all (has_type ServerInfo) xs"
    using typed_list [OF t', of "''servers''"] by auto
  have "get q k = Inr (member q k)" if "q \<in> set xs" for q k
    by (rule typed_get) (use xs(2) that in \<open>auto simp: list_all_iff ServerInfo_def\<close>)
  moreover have "list_all (\<lambda>q. \<not> nullish q) xs" using xs(2) by (auto simp: list_all_iff ServerInfo_def dest: typed_present)
  moreover have "runs (joined d (member q ''queues''))" if "q \<in> set xs" for q d
  proof -
    have "has_type ServerInfo q" using xs(2) that by (simp add: list_all_iff)
    then have "has_type (TArr TText) (member q ''queues'')" unfolding ServerInfo_def by (rule member_req) simp
    then show ?thesis using joined_texts by (auto simp: runs_iff)
  qed
  moreover have "badge_ok (member q ''status'')" if "q \<in> set xs" for q
    by (rule typed_badge) (use xs(2) that in \<open>auto simp: list_all_iff ServerInfo_def\<close>)
  ultimately show ?thesis unfolding server_section_def
    by (simp add: view_simps typed_get [OF t'] xs(1) get_runs list_all_iff)
qed (simp add: server_section_def view_simps)

lemma system_view_renders:
  assumes "system_sound p"
  shows "renders (system_page_view lc p)"
proof -
  have "renders (system_view_shown lc p)"
  proof (cases "sy_health p = Null")
    case True
    then show ?thesis using assms unfolding system_view_shown_def system_sound_def
      by (simp add: view_simps queue_section_renders server_section_renders)
  next
    case False
    with assms have t: "has_type SystemHealthResponse (sy_health p)" by (simp add: system_sound_def)
    note t' = t [unfolded SystemHealthResponse_def]
    obtain xs where xs: "member (sy_health p) ''components'' = Arr xs" "list_all (has_type ComponentStatus) xs"
      using typed_list [OF t', of "''components''"] by auto
    define nm where "nm q = (case member q ''name'' of Str s \<Rightarrow> s | _ \<Rightarrow> [])" for q
    have n: "get q ''name'' = Inr (Str (nm q))" if "q \<in> set xs" for q
    proof -
      have "has_type ComponentStatus q" using xs(2) that by (simp add: list_all_iff)
      note q = this [unfolded ComponentStatus_def]
      obtain s where "member q ''name'' = Str s" using typed_text [OF q, of "''name''"] by auto
      then show ?thesis by (simp add: typed_get [OF q] nm_def)
    qed
    have "list_all (\<lambda>q. renders (component_card q Icon)) xs" for Icon
      using xs(2) component_card_renders by (simp add: list_all_iff)
    moreover have "\<not> nullish (sy_health p)" by (rule typed_present [OF t'])
    ultimately show ?thesis using assms xs(1) n unfolding system_view_shown_def system_sound_def
      by (simp add: view_simps queue_section_renders server_section_renders list_all_iff Let_def renders_seqE)
  qed
  then show ?thesis by (auto simp: system_page_view_def view_simps split: system_view.split)
qed

type_synonym system_event = "fetch \<times> clock"

fun system_do :: "string \<Rightarrow> system_event \<Rightarrow> system_page \<Rightarrow> system_page" where
  \<comment> \<open>the button and the timer\<close>
  "system_do base (net, now) p = loadSystemInfo base net now p"

fun system_fair :: "string \<Rightarrow> system_event \<Rightarrow> bool" where
  "system_fair base (net, now) \<longleftrightarrow> (\<forall>h. getSystemHealth base net now = Inr h \<longrightarrow> has_type SystemHealthResponse h)
     \<and> (\<forall>q. getSystemQueues base net (\<lambda>i. now (Suc i)) = Inr q \<longrightarrow> has_type SystemQueuesResponse q)"

lemma system_do_sound: "system_sound p \<Longrightarrow> system_fair base e \<Longrightarrow> system_sound (system_do base e p)"
  by (cases e) (auto simp: system_sound_def loadSystemInfo_def split: sum.split)

interpretation system_life: page_life system_sound "system_page_view lc" "system_do base" "system_fair base" for lc base
  by unfold_locales (simp_all add: system_view_renders system_do_sound)

lemma system_init_sound: "system_sound system_init"
  by (simp add: system_sound_def system_init_def)

lemma system_unreachable: "system_fair base (unreachable, now)"
  by (auto simp: getSystemHealth_def getSystemQueues_def now_plus_def SystemHealthResponse_def SystemQueuesResponse_def
    ComponentStatus_def QueueStats_def ServerInfo_def component_def queue_stats_def)

subsection \<open>What the dashboard shows offline\<close>

lemma overview_fields:
  "member (getSyntheticAnalyticsOverview ws) k \<noteq> Undef \<Longrightarrow> k \<notin> {''failed_count'', ''recovered_count'', ''recovered_amount''}"
  by (auto simp: getSyntheticAnalyticsOverview_def Let_def)

text \<open>
  Without the backend the dashboard does not show the dataset's figures, although it has loaded them: the revenue is 1999
  times a number of payments (those captured among the ten listed, or 8 when none is), not the recovered
  revenue of the overview; and the recovery rate is the overview's fraction, printed with a percent sign, where the analytics page
  multiplies it by 100. Only when that fraction is zero the dashboard counts a percentage itself.
\<close>

theorem dashboard_offline_figures:
  "let q = dashboard_do base ds unreachable p; d = getSyntheticAnalyticsOverview ds; r = member d ''recovery_rate'';
       counted = (\<lambda>st n. let k = length (filter (\<lambda>r. member r ''status'' = Str st) (getPayments base unreachable ds))
         in if k = 0 then n else int k);
       events = counted ''CAPTURED'' 8; failed = counted ''FAILED'' 12
   in recovered_amount q = Num (nmul (nint events) (nint 1999))
    \<and> dashboard_rate q = (if truthy r then r else Num (nmul (ndiv (nint events) (nadd (nint failed) (nint events))) (nint 100)))
    \<and> recovery_rate_text d = to_fixed 1 (nmul (to_num r) (nint 100))"
proof -
  let ?q = "dashboard_do base ds unreachable p" and ?d = "getSyntheticAnalyticsOverview ds"
  have m: "db_metrics ?q = ?d" "db_recentPayments ?q = getPayments base unreachable ds"
    by (simp_all add: dashboard_do_def fetchData_def getMetricsSummary_def getAnalyticsOverview_def)
  have absent: "member ?d ''recovered_count'' = Undef" "member ?d ''recovered_amount'' = Undef" "member ?d ''failed_count'' = Undef"
    using overview_fields by blast+
  have "truthy ?d" by (simp add: getSyntheticAnalyticsOverview_def Let_def)
  then show ?thesis
    by (simp add: Let_def total_recovered_def total_failed_def recovered_amount_def dashboard_rate_def recovery_rate_text_def m absent
      count_status_def orv_def plus_js_def gt_num_def)
qed

end
