(* ===== verification/MerchantPage.thy ===== *)
theory MerchantPage
  imports WebApi
begin

text \<open>
  \<open>apps/web/src/app/merchant/page.tsx\<close>: the merchant portal. It loads the merchant's dashboard, creates
  subscriptions and sandbox payment links for the merchant it has loaded, and reloads after each.
\<close>

subsection \<open>State\<close>

datatype merchant_tab = Subscriptions | Sandbox | Customers

record merchant_page =
  mp_data :: js
  mp_loading :: bool
  mp_activeTab :: merchant_tab
  mp_subEmail :: string
  mp_subAmount :: string
  mp_subPlan :: string
  mp_subInterval :: string
  mp_creatingSub :: bool
  mp_sbEmail :: string
  mp_sbAmount :: string
  mp_sbFailureCode :: string
  mp_sbTriggerFail :: bool
  mp_creatingLink :: bool
  mp_lastCreatedLink :: js
  mp_alerts :: "string list"

definition merchant_init :: merchant_page where
  "merchant_init = \<lparr>mp_data = Null, mp_loading = True, mp_activeTab = Subscriptions, mp_subEmail = [], mp_subAmount = ''1499.00'',
     mp_subPlan = ''plan_pro_monthly'', mp_subInterval = ''monthly'', mp_creatingSub = False, mp_sbEmail = [],
     mp_sbAmount = ''500.00'', mp_sbFailureCode = ''INSUFFICIENT_FUNDS'', mp_sbTriggerFail = True, mp_creatingLink = False,
     mp_lastCreatedLink = Null, mp_alerts = []\<rparr>"

subsection \<open>Operations\<close>

definition fetchDashboard :: "string \<Rightarrow> fetch \<Rightarrow> clock \<Rightarrow> WorkflowSummary list \<Rightarrow> merchant_page \<Rightarrow> merchant_page" where
  "fetchDashboard base net now ds p = (case getMerchantDashboard base net now ds None of
     Inr res \<Rightarrow> p\<lparr>mp_data := res, mp_loading := False\<rparr>
   | Inl _ \<Rightarrow> p\<lparr>mp_loading := False\<rparr>)"

definition merchant_id :: "merchant_page \<Rightarrow> js" where
  \<comment> \<open>\<open>data?.merchant?.id\<close>\<close>
  "merchant_id p = member (member (mp_data p) ''merchant'') ''id''"

definition amount_text :: "string \<Rightarrow> int \<Rightarrow> number" where
  \<comment> \<open>\<open>parseFloat(s) || d\<close>\<close>
  "amount_text s d = (let n = parse_float s in if ntruthy n then n else nint d)"

definition subscription_body :: "merchant_page \<Rightarrow> js" where
  "subscription_body p = Obj [
     (''merchant_id'', merchant_id p),
     (''customer_email'', Str (mp_subEmail p)),
     (''amount'', Num (amount_text (mp_subAmount p) 1000)),
     (''plan_id'', Str (mp_subPlan p)),
     (''billing_interval'', Str (mp_subInterval p))]"

definition alert_error :: "err \<Rightarrow> merchant_page \<Rightarrow> merchant_page" where
  "alert_error e p = p\<lparr>mp_alerts := mp_alerts p @ [''Error: '' @ emessage e]\<rparr>"

definition handleCreateSubscription ::
  "string \<Rightarrow> fetch \<Rightarrow> fetch \<Rightarrow> clock \<Rightarrow> WorkflowSummary list \<Rightarrow> merchant_page \<Rightarrow> merchant_page" where
  \<comment> \<open>\<open>net\<close> answers the creation, \<open>net'\<close> the reload after it\<close>
  "handleCreateSubscription base net net' now ds p =
    (if \<not> truthy (merchant_id p) then p
     else (case createSubscription base net (subscription_body p) of
         Inr _ \<Rightarrow> (let q = fetchDashboard base net' now ds (p\<lparr>mp_subEmail := []\<rparr>)
           in q\<lparr>mp_alerts := mp_alerts q @ [''Recurring Subscription created successfully!''], mp_creatingSub := False\<rparr>)
       | Inl e \<Rightarrow> (alert_error e p)\<lparr>mp_creatingSub := False\<rparr>))"

definition link_body :: "merchant_page \<Rightarrow> js" where
  "link_body p = Obj [
     (''merchant_id'', merchant_id p),
     (''customer_email'', Str (if trim (mp_sbEmail p) = [] then ''delivered@resend.dev'' else trim (mp_sbEmail p))),
     (''amount'', Num (amount_text (mp_sbAmount p) 500)),
     (''trigger_failure_immediately'', Bool (mp_sbTriggerFail p)),
     (''failure_code'', Str (mp_sbFailureCode p))]"

definition handleCreateSandboxLink ::
  "string \<Rightarrow> fetch \<Rightarrow> fetch \<Rightarrow> clock \<Rightarrow> WorkflowSummary list \<Rightarrow> merchant_page \<Rightarrow> merchant_page" where
  "handleCreateSandboxLink base net net' now ds p =
    (if \<not> truthy (merchant_id p) then p
     else (case createSandboxPaymentLink base net (link_body p) of
         Inr res \<Rightarrow> (fetchDashboard base net' now ds (p\<lparr>mp_lastCreatedLink := res\<rparr>))\<lparr>mp_creatingLink := False\<rparr>
       | Inl e \<Rightarrow> (alert_error e p)\<lparr>mp_creatingLink := False\<rparr>))"

subsection \<open>The figures\<close>

definition portal_metrics :: "js \<Rightarrow> js" where
  \<comment> \<open>\<open>data?.metrics || {}\<close>\<close>
  "portal_metrics d = orv (member d ''metrics'') (Obj [])"

definition active_subscriptions :: "js \<Rightarrow> err + js" where
  "active_subscriptions d = (let m = portal_metrics d; given = coalesce (member m ''active_subscriptions'') (member m ''ActiveSubscriptions'')
     in if \<not> nullish given then Inr given
        else if nullish (member d ''subscriptions'') then Inr (js_int 0)
        else seqE (as_array (member d ''subscriptions'')) (\<lambda>ss.
          seqE (filterE (\<lambda>s. seqE (get s ''status'') (\<lambda>v. Inr (v = Str ''ACTIVE''))) ss) (\<lambda>active. Inr (js_int (int (length active))))))"

definition at_risk_volume :: "js \<Rightarrow> js" where
  "at_risk_volume d = (let m = portal_metrics d in
     coalesce (member m ''total_at_risk_revenue'') (coalesce (member m ''TotalAtRiskRevenue'') (js_int 0)))"

definition recovered_revenue :: "js \<Rightarrow> js" where
  "recovered_revenue d = (let m = portal_metrics d in
     coalesce (member m ''total_recovered_revenue'') (coalesce (member m ''TotalRecovered'') (js_int 0)))"

definition portal_recovery_rate :: "js \<Rightarrow> js" where
  "portal_recovery_rate d = (let m = portal_metrics d in
     coalesce (member m ''recovery_rate'') (coalesce (member m ''RecoveryRate'') (js_int 0)))"

subsection \<open>Lemmas\<close>

text \<open>Offline, the portal knows a merchant, so the forms work; its money figures are not among what the fallback sends.\<close>

lemma offline_dashboard_figures:
  assumes "offline_dashboard now ds None = Inr d"
  shows "merchant_id (p\<lparr>mp_data := d\<rparr>) = Str ''00000000-0000-0000-0000-000000000001''
    \<and> at_risk_volume d = js_int 0 \<and> recovered_revenue d = js_int 0 \<and> portal_recovery_rate d = js_int 0"
  using assms by (auto simp: offline_dashboard_def Let_def merchant_id_def at_risk_volume_def recovered_revenue_def
    portal_recovery_rate_def portal_metrics_def)

lemma fetchDashboard_keeps:
  "mp_alerts (fetchDashboard base net now ds p) = mp_alerts p" "mp_lastCreatedLink (fetchDashboard base net now ds p) = mp_lastCreatedLink p"
  "mp_subEmail (fetchDashboard base net now ds p) = mp_subEmail p"
  by (auto simp: fetchDashboard_def split: sum.split)

lemma refused_subscription:
  \<comment> \<open>a creation that fails keeps the form and the data and says why\<close>
  assumes "truthy (merchant_id p)" "createSubscription base net (subscription_body p) = Inl e"
  shows "handleCreateSubscription base net net' now ds p
    = p\<lparr>mp_alerts := mp_alerts p @ [''Error: '' @ emessage e], mp_creatingSub := False\<rparr>"
  using assms by (simp add: handleCreateSubscription_def alert_error_def)

end
