(* ===== verification/MerchantView.thy ===== *)
theory MerchantView
  imports MerchantPage Components
begin

text \<open>
  What \<open>apps/web/src/app/merchant/page.tsx\<close> renders, and what its controls do: figures, three tabs, the forms for a
  subscription and for a sandbox payment link.
\<close>

subsection \<open>Controls\<close>

datatype merchant_action = Reload_portal | Open_portal_tab merchant_tab | Enroll | Generate_link | Type_field string js

type_synonym merchant_event = "fetch \<times> fetch \<times> clock \<times> merchant_action"

definition field_typed :: "string \<Rightarrow> js \<Rightarrow> merchant_page \<Rightarrow> merchant_page" where
  \<comment> \<open>the setters of the form fields; the check box passes \<open>checked\<close>\<close>
  "field_typed k v p = (if k = ''subEmail'' then p\<lparr>mp_subEmail := to_str v\<rparr>
     else if k = ''subAmount'' then p\<lparr>mp_subAmount := to_str v\<rparr>
     else if k = ''subPlan'' then p\<lparr>mp_subPlan := to_str v\<rparr>
     else if k = ''sbEmail'' then p\<lparr>mp_sbEmail := to_str v\<rparr>
     else if k = ''sbAmount'' then p\<lparr>mp_sbAmount := to_str v\<rparr>
     else if k = ''sbFailureCode'' then p\<lparr>mp_sbFailureCode := to_str v\<rparr>
     else if k = ''sbTriggerFail'' then p\<lparr>mp_sbTriggerFail := truthy v\<rparr> else p)"

fun merchant_do :: "string \<Rightarrow> WorkflowSummary list \<Rightarrow> merchant_event \<Rightarrow> merchant_page \<Rightarrow> merchant_page" where
  "merchant_do base ds (net, net', now, Reload_portal) p = fetchDashboard base net now ds p"
| "merchant_do base ds (net, net', now, Open_portal_tab t) p = p\<lparr>mp_activeTab := t\<rparr>"
| "merchant_do base ds (net, net', now, Enroll) p = handleCreateSubscription base net net' now ds p"
| "merchant_do base ds (net, net', now, Generate_link) p = handleCreateSandboxLink base net net' now ds p"
| "merchant_do base ds (net, net', now, Type_field k v) p = field_typed k v p"

subsection \<open>The page\<close>

definition merchant_header :: "merchant_page \<Rightarrow> merchant_action view" where
  "merchant_header p =
    node ''div'' [
      node ''div'' [
        node ''div'' [
          icon ''Building2'',
          node ''h1'' [put (orv (member (member (mp_data p) ''merchant'') ''name'') (Str ''Acme Cloud Services''))],
          node ''span'' [say ''MERCHANT PORTAL'']],
        node ''p'' [
          say ''Manage recurring subscriptions, test checkout sandbox links, and monitor AI payment recovery in real-time.'']],
      el ''button'' [] [(''onClick'', \<lambda>_. Reload_portal)] [
        el ''RefreshCw'' [(''className'', Inr (Str (if mp_loading p then ''spin'' else [])))] [] [],
        node ''span'' [say ''Refresh'']]]"

definition merchant_figures :: "merchant_page \<Rightarrow> merchant_action view" where
  "merchant_figures p =
    node ''div'' [
      node ''div'' [
        node ''div'' [say ''Active Subscriptions''],
        node ''div'' [eval (active_subscriptions (mp_data p))],
        node ''div'' [say ''Recurring revenue protected'']],
      node ''div'' [
        node ''div'' [say ''At-Risk Volume''],
        node ''div'' [say [CHR 0xE2, CHR 0x82, CHR 0xB9], eval (localized (locale_num 2) (at_risk_volume (mp_data p)))],
        node ''div'' [
          put (coalesce (coalesce (member (portal_metrics (mp_data p)) ''pending_recoveries'') (member (portal_metrics
              (mp_data p)) ''PendingRecoveries'')) (Num (nint 0))),
          say '' pending workflows'']],
      node ''div'' [
        node ''div'' [say ''Recovered Revenue''],
        node ''div'' [say [CHR 0xE2, CHR 0x82, CHR 0xB9], eval (localized (locale_num 2) (recovered_revenue (mp_data p)))],
        node ''div'' [say ''Verified by payment provider'']],
      node ''div'' [
        node ''div'' [say ''Recovery Rate''],
        node ''div'' [eval (fixed 1 (portal_recovery_rate (mp_data p))), say ''%''],
        node ''div'' [say ''AI Adaptive Orchestration'']],
      node ''div'' [
        node ''div'' [say ''Fraud Protection''],
        node ''div'' [say ''100%''],
        node ''div'' [say ''ML Fraud & Return Guard active'']]]"

definition merchant_tabs :: "merchant_page \<Rightarrow> merchant_action view" where
  "merchant_tabs p =
    node ''div'' [
      el ''button'' [
          (''style.borderBottom'', Inr (Str (if mp_activeTab p = Subscriptions then ''2px solid #38BDF8'' else
              ''2px solid transparent''))),
          (''style.color'', Inr (Str (if mp_activeTab p = Subscriptions then ''#38BDF8'' else ''var(--text-secondary)'')))]
        [(''onClick'', \<lambda>_. Open_portal_tab Subscriptions)] [
        icon ''CreditCard'',
        node ''span'' [
          say ''Recurring Subscriptions ('',
          put (orv (member (member (mp_data p) ''subscriptions'') ''length'') (Num (nint 0))),
          say '')'']],
      el ''button'' [
          (''style.borderBottom'', Inr (Str (if mp_activeTab p = Sandbox then ''2px solid #38BDF8'' else
              ''2px solid transparent''))),
          (''style.color'', Inr (Str (if mp_activeTab p = Sandbox then ''#38BDF8'' else ''var(--text-secondary)'')))]
        [(''onClick'', \<lambda>_. Open_portal_tab Sandbox)] [
        icon ''Zap'',
        node ''span'' [say ''Payment Link Sandbox Simulator'']],
      el ''button'' [
          (''style.borderBottom'', Inr (Str (if mp_activeTab p = Customers then ''2px solid #38BDF8'' else
              ''2px solid transparent''))),
          (''style.color'', Inr (Str (if mp_activeTab p = Customers then ''#38BDF8'' else ''var(--text-secondary)'')))]
        [(''onClick'', \<lambda>_. Open_portal_tab Customers)] [
        icon ''ShieldCheck'',
        node ''span'' [
          say ''Customer Recovery Status ('',
          put (orv (member (member (mp_data p) ''customers'') ''length'') (Num (nint 0))),
          say '')'']]]"

definition subscription_line :: "locale_fns \<Rightarrow> js \<Rightarrow> merchant_action view" where
  "subscription_line lc sub =
    el ''tr'' [(''key'', get sub ''id'')] [] [
      node ''td'' [eval (get sub ''customer_email'')],
      node ''td'' [node ''div'' [eval (get sub ''plan_id'')], node ''span'' [eval (get sub ''billing_interval'')]],
      node ''td'' [say [CHR 0xE2, CHR 0x82, CHR 0xB9], eval (seqE (get sub ''amount'') (\<lambda>v4. fixed 2 v4))],
      node ''td'' [
        el ''span'' [
            (''style.background'', seqE (seqE (get sub ''status'') (\<lambda>v5. Inr (Bool (v5 = Str ''ACTIVE''))))
                (\<lambda>v6. Inr (Str (if truthy v6 then ''rgba(52, 211, 153, 0.15)'' else ''rgba(248, 113, 113, 0.15)'')))),
            (''style.color'', seqE (seqE (get sub ''status'') (\<lambda>v7. Inr (Bool (v7 = Str ''ACTIVE'')))) (\<lambda>v8.
                Inr (Str (if truthy v8 then ''#34D399'' else ''#F87171''))))] [] [
          eval (get sub ''status'')]],
      node ''td'' [
        eval (seqE (get sub ''next_billing_at'') (\<lambda>v10. (if truthy v10 then seqE (get sub ''next_billing_at'')
            (\<lambda>v9. Inr (Str (loc_moment lc ''toLocaleDateString()'' v9))) else Inr (Str ''N/A''))))]]"

definition enrol_form :: "merchant_page \<Rightarrow> merchant_action view" where
  "enrol_form p =
    node ''div'' [
      node ''h3'' [icon ''Plus'', node ''span'' [say ''New Recurring Subscription'']],
      el ''form'' [] [(''onSubmit'', \<lambda>_. Enroll)] [
        node ''div'' [
          node ''label'' [say ''Customer Email''],
          el ''input'' [
              (''type'', Inr (Str ''email'')),
              (''required'', Inr (Bool True)),
              (''placeholder'', Inr (Str ''subscriber@example.com'')),
              (''value'', Inr (Str (mp_subEmail p)))] [(''onChange'', Type_field ''subEmail'')] []],
        node ''div'' [
          node ''label'' [say ''Monthly Amount (INR)''],
          el ''input'' [
              (''type'', Inr (Str ''number'')),
              (''required'', Inr (Bool True)),
              (''value'', Inr (Str (mp_subAmount p)))] [(''onChange'', Type_field ''subAmount'')] []],
        node ''div'' [
          node ''label'' [say ''Plan Tier''],
          el ''select'' [(''value'', Inr (Str (mp_subPlan p)))] [(''onChange'', Type_field ''subPlan'')] [
            el ''option'' [(''value'', Inr (Str ''plan_starter_monthly''))] [] [
              say (''Starter Tier ('' @ [CHR 0xE2, CHR 0x82, CHR 0xB9] @ ''499/mo)'')],
            el ''option'' [(''value'', Inr (Str ''plan_pro_monthly''))] [] [
              say (''Pro Business Tier ('' @ [CHR 0xE2, CHR 0x82, CHR 0xB9] @ ''1,499/mo)'')],
            el ''option'' [(''value'', Inr (Str ''plan_enterprise_monthly''))] [] [
              say (''Enterprise Tier ('' @ [CHR 0xE2, CHR 0x82, CHR 0xB9] @ ''4,999/mo)'')]]],
        el ''button'' [
            (''type'', Inr (Str ''submit'')),
            (''disabled'', Inr (Bool (mp_creatingSub p))),
            (''style.cursor'', Inr (Str (if mp_creatingSub p then ''not-allowed'' else ''pointer'')))] [] [
          put (Str (if mp_creatingSub p then ''Creating...'' else ''Enroll Subscription''))]]]"

definition subscriptions_tab :: "locale_fns \<Rightarrow> merchant_page \<Rightarrow> merchant_action view" where
  "subscriptions_tab lc p =
    node ''div'' [
      node ''div'' [
        node ''h3'' [say ''Active & Recurring Subscriptions''],
        seqE (if \<not> (truthy (member (mp_data p) ''subscriptions'')) then Inr (Bool True) else seqE (get (mp_data p)
            ''subscriptions'') (\<lambda>v1. seqE (get v1 ''length'') (\<lambda>v2. Inr (Bool (strict_eq v2 (Num (nint
            0))))))) (\<lambda>v12. if truthy v12
          then node ''div'' [say ''No subscriptions registered yet. Create one using the form on the right.'']
          else node ''div'' [
              node ''table'' [
                node ''thead'' [
                  node ''tr'' [
                    node ''th'' [say ''Customer''],
                    node ''th'' [say ''Plan / Interval''],
                    node ''th'' [say ''Amount''],
                    node ''th'' [say ''Status''],
                    node ''th'' [say ''Next Billing'']]],
                node ''tbody'' [
                  seqE (seqE (get (mp_data p) ''subscriptions'') as_array) (\<lambda>xs11. each xs11 (\<lambda>sub. 
                    subscription_line lc sub))]]])],
      enrol_form p]"

definition sandbox_form :: "merchant_page \<Rightarrow> merchant_action view" where
  "sandbox_form p =
    node ''div'' [
      node ''div'' [icon ''Zap'', node ''h3'' [say ''Payment Link Sandbox'']],
      node ''p'' [
        say
            ''Simulate checkout transactions with specific card failure triggers to test the AI adaptive recovery workflow end-to-end.''],
      el ''form'' [] [(''onSubmit'', \<lambda>_. Generate_link)] [
        node ''div'' [
          node ''label'' [say ''Customer Email''],
          el ''input'' [
              (''type'', Inr (Str ''email'')),
              (''placeholder'', Inr (Str ''test_user@gmail.com'')),
              (''value'', Inr (Str (mp_sbEmail p)))] [(''onChange'', Type_field ''sbEmail'')] []],
        node ''div'' [
          node ''label'' [say ''Amount (INR)''],
          el ''input'' [
              (''type'', Inr (Str ''number'')),
              (''value'', Inr (Str (mp_sbAmount p)))] [(''onChange'', Type_field ''sbAmount'')] []],
        node ''div'' [
          node ''label'' [say ''Failure Reason / Gateway Error Code''],
          el ''select'' [(''value'', Inr (Str (mp_sbFailureCode p)))] [(''onChange'', Type_field ''sbFailureCode'')] [
            el ''option'' [(''value'', Inr (Str ''INSUFFICIENT_FUNDS''))] [] [
              say ''INSUFFICIENT_FUNDS (Smart Delayed Retry)''],
            el ''option'' [(''value'', Inr (Str ''EXPIRED_CARD''))] [] [say ''EXPIRED_CARD (Customer Payment Link Trigger)''],
            el ''option'' [(''value'', Inr (Str ''BANK_UNAVAILABLE''))] [] [
              say ''BANK_UNAVAILABLE (Immediate / Jitter Retry)''],
            el ''option'' [(''value'', Inr (Str ''AUTHENTICATION_FAILED''))] [] [
              say ''AUTHENTICATION_FAILED (3D Secure Required)''],
            el ''option'' [(''value'', Inr (Str ''LIMIT_EXCEEDED''))] [] [say ''LIMIT_EXCEEDED (Escalation / Card Update)'']]],
        node ''div'' [
          el ''input'' [
              (''type'', Inr (Str ''checkbox'')),
              (''id'', Inr (Str ''triggerFail'')),
              (''checked'', Inr (Bool (mp_sbTriggerFail p)))] [(''onChange'', Type_field ''sbTriggerFail'')] [],
          el ''label'' [(''htmlFor'', Inr (Str ''triggerFail''))] [] [
            say ''Trigger immediate failure & launch AI Recovery Pipeline'']],
        el ''button'' [
            (''type'', Inr (Str ''submit'')),
            (''disabled'', Inr (Bool (mp_creatingLink p))),
            (''style.cursor'', Inr (Str (if mp_creatingLink p then ''not-allowed'' else ''pointer'')))] [] [
          icon ''Play'',
          node ''span'' [put (Str (if mp_creatingLink p then ''Generating...'' else ''Generate & Simulate Recovery''))]]]]"

definition last_link :: "merchant_page \<Rightarrow> merchant_action view" where
  "last_link p =
    node ''div'' [
      node ''h3'' [say ''Sandbox Output & Link''],
      if truthy (mp_lastCreatedLink p)
        then node ''div'' [
            node ''div'' [icon ''CheckCircle2'', node ''span'' [say ''Sandbox Transaction Dispatched'']],
            node ''div'' [
              node ''strong'' [say ''Payment ID:''],
              say '' '',
              node ''span'' [eval (get (mp_lastCreatedLink p) ''payment_id'')]],
            node ''div'' [
              node ''strong'' [say ''Amount:''],
              say ('' '' @ [CHR 0xE2, CHR 0x82, CHR 0xB9]),
              eval (get (mp_lastCreatedLink p) ''amount'')],
            node ''div'' [
              node ''strong'' [say ''Recovery Queued:''],
              say '' '',
              node ''span'' [
                eval (seqE (get (mp_lastCreatedLink p) ''recovery_queued'') (\<lambda>v13. Inr (Str (if truthy v13 then
                    ''YES (AI Orchestrator Active)'' else ''NO''))))]],
            node ''div'' [
              node ''div'' [say ''Payment Link URL:''],
              el ''a'' [
                  (''href'', get (mp_lastCreatedLink p) ''payment_link_url''),
                  (''target'', Inr (Str ''_blank'')),
                  (''rel'', Inr (Str ''noreferrer''))] [] [
                node ''span'' [eval (get (mp_lastCreatedLink p) ''payment_link_url'')],
                icon ''ExternalLink'']]]
        else node ''div'' [
            say ''Generate a sandbox payment link using the simulator to view its live URL and tracking status here.'']]"

definition sandbox_tab :: "merchant_page \<Rightarrow> merchant_action view" where
  "sandbox_tab p =
    node ''div'' [sandbox_form p, last_link p]"

definition customer_line :: "js \<Rightarrow> js \<Rightarrow> string \<Rightarrow> string \<Rightarrow> merchant_action view" where
  "customer_line c status badgeBg badgeColor =
    el ''tr'' [(''key'', get c ''id'')] [] [
      node ''td'' [eval (get c ''email'')],
      node ''td'' [
        seqE (get c ''communication_opt_out'') (\<lambda>v19. if truthy v19
          then node ''span'' [say ''OPTED OUT'']
          else node ''span'' [say ''ALLOWED''])],
      node ''td'' [
        eval (seqE (get c ''failed_count'') (\<lambda>v20. if \<not> nullish v20 then Inr v20 else Inr (Num (nint 0))))],
      node ''td'' [
        eval (seqE (get c ''recovered_count'') (\<lambda>v21. if \<not> nullish v21 then Inr v21 else Inr (Num (nint 0))))],
      node ''td'' [eval (seqE (get c ''last_action'') (\<lambda>v22. if truthy v22 then Inr v22 else Inr (Str ''N/A'')))],
      node ''td'' [
        el ''span'' [(''style.background'', Inr (Str badgeBg)), (''style.color'', Inr (Str badgeColor))] [] [put status]]]"

definition customers_tab :: "merchant_page \<Rightarrow> merchant_action view" where
  "customers_tab p =
    node ''div'' [
      node ''h3'' [say ''Customer Recovery Status & History''],
      seqE (if \<not> (truthy (member (mp_data p) ''customers'')) then Inr (Bool True) else seqE (get (mp_data p)
          ''customers'') (\<lambda>v14. seqE (get v14 ''length'') (\<lambda>v15. Inr (Bool (strict_eq v15 (Num (nint 0)))))))
          (\<lambda>v24. if truthy v24
        then node ''div'' [say ''No customer recovery records found for this merchant.'']
        else node ''div'' [
            node ''table'' [
              node ''thead'' [
                node ''tr'' [
                  node ''th'' [say ''Customer Email''],
                  node ''th'' [say ''Communications''],
                  node ''th'' [say ''Failed Payments''],
                  node ''th'' [say ''Recovered''],
                  node ''th'' [say ''Latest Action''],
                  node ''th'' [say ''Status'']]],
              node ''tbody'' [
                seqE (seqE (get (mp_data p) ''customers'') as_array) (\<lambda>xs23. each xs23 (\<lambda>c. 
                  seqE (seqE (seqE (get c ''last_status'') (\<lambda>v17. if truthy v17 then Inr v17 else Inr (Str ''NEW'')))
                      (\<lambda>v18. upper v18)) (\<lambda>status.
                    let badgeBg = ''rgba(148, 163, 184, 0.15)'' in
                      let badgeColor = ''var(--text-secondary)'' in
                        let badgeBg = if status = Str ''CAPTURED'' \<or> status = Str ''RECOVERED'' \<or> status = Str
                            ''SUCCESS'' then ''rgba(52, 211, 153, 0.15)'' else if status = Str ''ESCALATED'' \<or> status =
                            Str ''REQUIRES_HUMAN_REVIEW'' then ''rgba(245, 158, 11, 0.15)'' else if status = Str
                            ''ANALYZING'' \<or> status = Str ''SCHEDULED'' \<or> status = Str ''ACTIVE'' then
                            ''rgba(56, 189, 248, 0.15)'' else if status = Str ''FAILED'' \<or> status = Str ''HALTED'' then
                            ''rgba(248, 113, 113, 0.15)'' else badgeBg in
                          let badgeColor = if status = Str ''CAPTURED'' \<or> status = Str ''RECOVERED'' \<or> status = Str
                              ''SUCCESS'' then ''#34D399'' else if status = Str ''ESCALATED'' \<or> status = Str
                              ''REQUIRES_HUMAN_REVIEW'' then ''#F59E0B'' else if status = Str ''ANALYZING'' \<or> status =
                              Str ''SCHEDULED'' \<or> status = Str ''ACTIVE'' then ''#38BDF8'' else if status = Str
                              ''FAILED'' \<or> status = Str ''HALTED'' then ''#F87171'' else badgeColor in
                            customer_line c status badgeBg badgeColor)))]]])]"

definition merchant_view :: "locale_fns \<Rightarrow> merchant_page \<Rightarrow> merchant_action view" where
  "merchant_view lc p =
    node ''div'' [
      merchant_header p,
      merchant_figures p,
      merchant_tabs p,
      show_when (mp_activeTab p = Subscriptions) (subscriptions_tab lc p),
      show_when (mp_activeTab p = Sandbox) (sandbox_tab p),
      show_when (mp_activeTab p = Customers) (customers_tab p)]"

definition merchant_page_view :: "locale_fns \<Rightarrow> merchant_page \<Rightarrow> merchant_action view" where
  "merchant_page_view lc p = (if mp_loading p \<and> \<not> truthy (mp_data p)
     then node ''div'' [icon ''RefreshCw'', node ''span'' [say ''Loading Merchant Portal...'']]
     else merchant_view lc p)"

subsection \<open>Rendering\<close>

definition SubscriptionRow :: ty where
  "SubscriptionRow = TRec [Req ''amount'' TNum]"

definition CustomerRow :: ty where
  "CustomerRow = TRec [Opt ''last_status'' TText]"

definition PortalData :: ty where
  \<comment> \<open>what the page needs of the dashboard: amounts are numbers, a customer's status, if known, is a text\<close>
  "PortalData = TRec [Opt ''metrics'' (TRec [Opt ''recovery_rate'' TNum, Opt ''RecoveryRate'' TNum]),
     Opt ''subscriptions'' (TArr SubscriptionRow), Opt ''customers'' (TArr CustomerRow)]"

definition merchant_sound :: "merchant_page \<Rightarrow> bool" where
  "merchant_sound p \<longleftrightarrow> mp_data p = Null \<or> has_type PortalData (mp_data p)"

lemma subscription_line_renders:
  assumes "has_type SubscriptionRow r"
  shows "renders (subscription_line lc r)"
proof -
  note t = assms [unfolded SubscriptionRow_def]
  obtain n where n: "member r ''amount'' = Num n" using typed_number [OF t, of "''amount''"] by auto
  show ?thesis unfolding subscription_line_def by (simp add: view_simps typed_get [OF t] n)
qed

lemma customer_line_renders: "has_type CustomerRow c \<Longrightarrow> renders (customer_line c s b b')"
  unfolding customer_line_def CustomerRow_def by (simp add: view_simps typed_get)

lemma portal_rows:
  assumes "mp_data p = Null \<or> has_type PortalData (mp_data p)"
  shows "member (mp_data p) ''subscriptions'' = Undef \<or> (\<exists>xs. get (mp_data p) ''subscriptions'' = Inr (Arr xs)
      \<and> member (mp_data p) ''subscriptions'' = Arr xs \<and> list_all (has_type SubscriptionRow) xs)"
    and "member (mp_data p) ''customers'' = Undef \<or> (\<exists>xs. get (mp_data p) ''customers'' = Inr (Arr xs)
      \<and> member (mp_data p) ''customers'' = Arr xs \<and> list_all (has_type CustomerRow) xs)"
    and "nullish (member (portal_metrics (mp_data p)) ''recovery_rate'') \<or> has_type TNum (member (portal_metrics (mp_data p)) ''recovery_rate'')"
    and "nullish (member (portal_metrics (mp_data p)) ''RecoveryRate'') \<or> has_type TNum (member (portal_metrics (mp_data p)) ''RecoveryRate'')"
proof -
  let ?d = "mp_data p"
  have rows: "member ?d k = Undef \<or> (\<exists>xs. get ?d k = Inr (Arr xs) \<and> member ?d k = Arr xs \<and> list_all (has_type t) xs)"
    if "(k, t) \<in> {(''subscriptions'', SubscriptionRow), (''customers'', CustomerRow)}" for k t
  proof (cases "?d = Null")
    case False
    with assms have d: "has_type PortalData ?d" by simp
    note d' = d [unfolded PortalData_def]
    have "member ?d k = Undef \<or> has_type (TArr t) (member ?d k)" using d' by (rule member_opt) (use that in auto)
    then show ?thesis by (auto simp: typed_get [OF d'] dest!: TArrD)
  qed simp
  show "member ?d ''subscriptions'' = Undef \<or> (\<exists>xs. get ?d ''subscriptions'' = Inr (Arr xs)
      \<and> member ?d ''subscriptions'' = Arr xs \<and> list_all (has_type SubscriptionRow) xs)" by (rule rows) simp
  show "member ?d ''customers'' = Undef \<or> (\<exists>xs. get ?d ''customers'' = Inr (Arr xs)
      \<and> member ?d ''customers'' = Arr xs \<and> list_all (has_type CustomerRow) xs)" by (rule rows) simp
  have m: "member ?d ''metrics'' = Undef \<or> has_type (TRec [Opt ''recovery_rate'' TNum, Opt ''RecoveryRate'' TNum]) (member ?d ''metrics'')"
  proof (cases "?d = Null")
    case False
    with assms have "has_type PortalData ?d" by simp
    then show ?thesis unfolding PortalData_def by (rule member_opt) simp
  qed simp
  then show "nullish (member (portal_metrics ?d) ''recovery_rate'') \<or> has_type TNum (member (portal_metrics ?d) ''recovery_rate'')"
      "nullish (member (portal_metrics ?d) ''RecoveryRate'') \<or> has_type TNum (member (portal_metrics ?d) ''RecoveryRate'')"
    by (auto simp: portal_metrics_def orv_def dest!: TRecD)
qed

lemma coalesce_num: "nullish v \<or> has_type TNum v \<Longrightarrow> has_type TNum w \<Longrightarrow> has_type TNum (coalesce v w)"
  by (auto simp: coalesce_def)

lemma coalesce_present: "\<not> nullish w \<Longrightarrow> \<not> nullish (coalesce v w)"
  by (auto simp: coalesce_def)

lemma filterE_status: "list_all (has_type SubscriptionRow) xs \<Longrightarrow> \<exists>ys. filterE (\<lambda>s. seqE (get s ''status'') (\<lambda>v. Inr (v = Str ''ACTIVE''))) xs = Inr ys"
proof -
  assume xs: "list_all (has_type SubscriptionRow) xs"
  have "get x k = Inr (member x k)" if "x \<in> set xs" for x k
    using xs that by (auto simp: list_all_iff SubscriptionRow_def intro: typed_get)
  then show ?thesis using filterE_ex [of xs "\<lambda>s. seqE (get s ''status'') (\<lambda>v. Inr (v = Str ''ACTIVE''))"] by auto
qed

lemma merchant_figures_renders:
  assumes "merchant_sound p"
  shows "renders (merchant_figures p)"
proof -
  note r = portal_rows [OF assms [unfolded merchant_sound_def]]
  have "runs (active_subscriptions (mp_data p))"
    using r(1) filterE_status unfolding active_subscriptions_def Let_def by (auto simp: runs_seqE)
  moreover have "has_type TNum (portal_recovery_rate (mp_data p))"
    unfolding portal_recovery_rate_def Let_def by (intro coalesce_num r(3,4)) simp
  then have "runs (fixed 1 (portal_recovery_rate (mp_data p)))" by (auto dest!: TNumD)
  moreover have "\<not> nullish (at_risk_volume (mp_data p))" "\<not> nullish (recovered_revenue (mp_data p))"
    by (simp_all add: at_risk_volume_def recovered_revenue_def Let_def coalesce_present)
  ultimately show ?thesis unfolding merchant_figures_def by (simp add: view_simps del: One_nat_def)
qed

lemma merchant_view_renders:
  assumes "merchant_sound p"
  shows "renders (merchant_page_view lc p)"
proof -
  note r = portal_rows [OF assms [unfolded merchant_sound_def]]
  have "renders (subscriptions_tab lc p)"
    using r(1) unfolding subscriptions_tab_def enrol_form_def
    by (auto simp: view_simps get_def list_all_iff subscription_line_renders)
  moreover have "renders (customers_tab p)"
  proof -
    define up where "up c = to_upper (case member c ''last_status'' of Str s \<Rightarrow> if s = [] then ''NEW'' else s | _ \<Rightarrow> ''NEW'')" for c
    have st: "seqE (seqE (get c ''last_status'') (\<lambda>v. if truthy v then Inr v else Inr (Str ''NEW''))) (\<lambda>v. upper v) = Inr (Str (up c))"
      if "has_type CustomerRow c" for c
    proof -
      note t = that [unfolded CustomerRow_def]
      have "member c ''last_status'' = Undef \<or> (\<exists>s. member c ''last_status'' = Str s)" using typed_opt_text [OF t] by simp
      then show ?thesis by (auto simp: typed_get [OF t] up_def)
    qed
    from r(2) show ?thesis
    proof
      assume "\<exists>xs. get (mp_data p) ''customers'' = Inr (Arr xs) \<and> member (mp_data p) ''customers'' = Arr xs \<and> list_all (has_type CustomerRow) xs"
      then obtain xs where xs: "get (mp_data p) ''customers'' = Inr (Arr xs)" "member (mp_data p) ''customers'' = Arr xs"
        "list_all (has_type CustomerRow) xs" by blast
      then show ?thesis unfolding customers_tab_def
        by (simp add: view_simps get_def [of "Arr xs"] list_all_iff st customer_line_renders Let_def)
    qed (simp add: customers_tab_def view_simps)
  qed
  moreover have "renders (sandbox_tab p)"
  proof -
    have "get (mp_lastCreatedLink p) k = Inr (member (mp_lastCreatedLink p) k)" if "truthy (mp_lastCreatedLink p)" for k
      by (rule get_runs) (use that in \<open>auto simp: nullish_def\<close>)
    then show ?thesis unfolding sandbox_tab_def sandbox_form_def last_link_def by (simp add: view_simps)
  qed
  ultimately show ?thesis using merchant_figures_renders [OF assms]
    unfolding merchant_page_view_def merchant_view_def merchant_header_def merchant_tabs_def by (simp add: view_simps)
qed

subsection \<open>The page's life\<close>

definition portal_typed :: "string \<Rightarrow> WorkflowSummary list \<Rightarrow> clock \<Rightarrow> fetch \<Rightarrow> bool" where
  "portal_typed base ds now net \<longleftrightarrow> (\<forall>d. getMerchantDashboard base net now ds None = Inr d \<longrightarrow> d = Null \<or> has_type PortalData d)"

definition merchant_fair :: "string \<Rightarrow> WorkflowSummary list \<Rightarrow> merchant_event \<Rightarrow> bool" where
  "merchant_fair base ds e \<longleftrightarrow> (case e of (net, net', now, a) \<Rightarrow> portal_typed base ds now net \<and> portal_typed base ds now net')"

lemma merchant_sound_other [simp]:
  "merchant_sound (p\<lparr>mp_activeTab := t\<rparr>) = merchant_sound p" "merchant_sound (p\<lparr>mp_loading := l\<rparr>) = merchant_sound p"
  "merchant_sound (p\<lparr>mp_subEmail := s\<rparr>) = merchant_sound p" "merchant_sound (p\<lparr>mp_alerts := xs\<rparr>) = merchant_sound p"
  "merchant_sound (p\<lparr>mp_creatingSub := b\<rparr>) = merchant_sound p" "merchant_sound (p\<lparr>mp_creatingLink := b\<rparr>) = merchant_sound p"
  "merchant_sound (p\<lparr>mp_lastCreatedLink := v\<rparr>) = merchant_sound p" "merchant_sound (field_typed k v p) = merchant_sound p"
  by (simp_all add: merchant_sound_def field_typed_def)

lemma fetchDashboard_sound: "merchant_sound p \<Longrightarrow> portal_typed base ds now net \<Longrightarrow> merchant_sound (fetchDashboard base net now ds p)"
  by (auto simp: fetchDashboard_def merchant_sound_def portal_typed_def split: sum.split)

lemma merchant_do_sound: "merchant_sound p \<Longrightarrow> merchant_fair base ds e \<Longrightarrow> merchant_sound (merchant_do base ds e p)"
  by (cases "(base, ds, e, p)" rule: merchant_do.cases)
    (auto simp: merchant_fair_def fetchDashboard_sound handleCreateSubscription_def handleCreateSandboxLink_def alert_error_def Let_def
      split: sum.split)

interpretation merchant_life: page_life merchant_sound "merchant_page_view lc" "merchant_do base ds" "merchant_fair base ds" for lc base ds
  by unfold_locales (simp_all add: merchant_view_renders merchant_do_sound)

lemma merchant_init_sound: "merchant_sound merchant_init"
  by (simp add: merchant_sound_def merchant_init_def)

lemma offline_subscriptions_typed:
  "mapE (\<lambda>(i, w). subscription_row (now i) i w) iws = Inr rows \<Longrightarrow> list_all (has_type SubscriptionRow) rows"
  by (induction iws arbitrary: rows) (auto simp: subscription_row_def SubscriptionRow_def)

lemma offline_customers_typed: "list_all (\<lambda>(k, v). has_type CustomerRow v) (foldl add_customer m ws)"
    if "list_all (\<lambda>(k, v). has_type CustomerRow v) m"
  using that
proof (induction ws arbitrary: m)
  case (Cons w ws)
  have "list_all (\<lambda>(k, v). has_type CustomerRow v) (add_customer m w)"
    using Cons.prems by (simp add: add_customer_def customer_row_def CustomerRow_def split: option.split list.split)
  from Cons.IH [OF this] show ?case by simp
qed simp

lemma merchant_unreachable: "portal_typed base ds now unreachable"
proof -
  have "has_type PortalData d" if "offline_dashboard now ds None = Inr d" for d
  proof -
    let ?rows = "mapE (\<lambda>(i, w). subscription_row (now i) i w) (index_from 0 (take 25 ds))"
    have c: "list_all (has_type CustomerRow) (take 30 (map snd (foldl add_customer [] ds)))"
      using offline_customers_typed [of "[]" ds] by (fastforce simp: list_all_iff dest!: in_set_takeD)
    show ?thesis
    proof (cases ?rows)
      case (Inr subs)
      then show ?thesis using c that offline_subscriptions_typed [OF Inr] by (auto simp: offline_dashboard_def Let_def PortalData_def)
    qed (use that in \<open>simp add: offline_dashboard_def Let_def\<close>)
  qed
  then show ?thesis by (simp add: portal_typed_def getMerchantDashboard_def)
qed

end
