(* ===== verification/VoiceView.thy ===== *)
theory VoiceView
  imports VoicePage PtpPage Components
begin

text \<open>
  What \<open>apps/web/src/app/voice-recovery/page.tsx\<close> renders, and what its controls do: the dialogue that places a call, the
  preview of what is said, the log of calls.
\<close>

subsection \<open>Controls\<close>

datatype voice_action_on = Dial bool | Place_call | Type_voice string js | Select_workflow js

datatype voice_event = Load_list fetch | Load_calls fetch | Voice_click fetch fetch clock voice_action_on

definition voice_typed :: "string \<Rightarrow> js \<Rightarrow> voice_page \<Rightarrow> voice_page" where
  "voice_typed k v p = (if k = ''workflowSearch'' then p\<lparr>vp_workflowSearch := to_str v\<rparr>
     else if k = ''customName'' then p\<lparr>vp_customName := v\<rparr>
     else if k = ''customPhone'' then p\<lparr>vp_customPhone := v\<rparr> else p)"

fun voice_do :: "string \<Rightarrow> WorkflowSummary list \<Rightarrow> voice_event \<Rightarrow> voice_page \<times> storage \<Rightarrow> voice_page \<times> storage" where
  "voice_do base ds (Load_list net) (p, st) = (loadWorkflowsList base net ds p, st)"
| "voice_do base ds (Load_calls net) (p, st) = (fetchVoiceData base net st p, st)"
| "voice_do base ds (Voice_click net reload now (Dial b)) (p, st) = (p\<lparr>vp_showDialModal := b\<rparr>, st)"
| "voice_do base ds (Voice_click net reload now Place_call) (p, st) = triggerCallSimulation base net reload now st p"
| "voice_do base ds (Voice_click net reload now (Type_voice k v)) (p, st) = (voice_typed k v p, st)"
| "voice_do base ds (Voice_click net reload now (Select_workflow v)) (p, st) = (fst (select_changed (to_str v) p), st)"

definition before_at :: "js \<Rightarrow> err + js" where
  \<comment> \<open>\<open>v.split('@')[0]\<close>\<close>
  "before_at v = seqE (as_string v) (\<lambda>s. Inr (Str (hd (split_char (CHR ''@'') s))))"

subsection \<open>The page\<close>

definition workflow_option :: "locale_fns \<Rightarrow> js \<Rightarrow> js \<Rightarrow> js \<Rightarrow> voice_action_on view" where
  "workflow_option lc w wfKey displayCustomer =
    el ''option'' [(''key'', Inr wfKey), (''value'', Inr wfKey)] [] [
      eval (cut 0 16 wfKey),
      say ''... | '',
      put displayCustomer,
      say ('' | '' @ [CHR 0xE2, CHR 0x82, CHR 0xB9]),
      eval (seqE (seqE (get w ''amount'') (\<lambda>v4. if truthy v4 then Inr v4 else Inr (Num (nint 0)))) (\<lambda>v5. Inr
          (Str (loc_number lc (to_num v5)))))]"

definition dial_form :: "locale_fns \<Rightarrow> voice_page \<Rightarrow> voice_action_on view" where
  "dial_form lc p =
    el ''form'' [] [(''onSubmit'', \<lambda>_. Place_call)] [
      node ''div'' [
        node ''label'' [say ''Select Workflow (Autofills Customer Email & Amount)''],
        node ''div'' [
          icon ''Search'',
          el ''input'' [
              (''type'', Inr (Str ''text'')),
              (''value'', Inr (Str (vp_workflowSearch p))),
              (''placeholder'', Inr (Str ''Search workflows by email, ID, or amount...''))]
            [(''onChange'', Type_voice ''workflowSearch'')] []],
        el ''select'' [(''value'', Inr (vp_customWorkflowId p))] [(''onChange'', Select_workflow)] [
          el ''option'' [(''value'', Inr (Str []))] [] [say ''-- Choose from Active Workflows --''],
          seqE (search_results p) (\<lambda>xs6. each xs6 (\<lambda>w. 
            seqE (seqE (get w ''id'') (\<lambda>v1. if truthy v1 then Inr v1 else get w ''payment_id'')) (\<lambda>wfKey.
              seqE (seqE (get w ''customer_name'') (\<lambda>v3. if truthy v3 then Inr v3 else seqE (get w
                  ''customer_email'') (\<lambda>v2. (if truthy v2 then seqE (get w ''customer_email'') before_at else Inr
                  (Str ''Customer''))))) (\<lambda>displayCustomer.
                workflow_option lc w wfKey displayCustomer))))],
        show_if (vp_customWorkflowId p) (
          node ''div'' [
            node ''span'' [say ''Linked: '', eval (substring 0 18 (vp_customWorkflowId p)), say ''...''],
            node ''span'' [
              say [CHR 0xE2, CHR 0x82, CHR 0xB9],
              put (Str (locale_num 0 (parse_float (to_str (orv (Str (vp_customAmount p)) (Str ''0'')))))),
              say '' Due'']])],
      node ''div'' [
        node ''label'' [say ''Target Customer Name''],
        el ''input'' [
            (''type'', Inr (Str ''text'')),
            (''required'', Inr (Bool True)),
            (''value'', Inr (vp_customName p)),
            (''placeholder'', Inr (Str ''e.g. Rajesh Sharma''))] [(''onChange'', Type_voice ''customName'')] []],
      node ''div'' [
        node ''label'' [say ''Customer Mobile Number (E.164 format)''],
        el ''input'' [
            (''type'', Inr (Str ''tel'')),
            (''required'', Inr (Bool True)),
            (''value'', Inr (vp_customPhone p)),
            (''placeholder'', Inr (Str ''+919876543210''))] [(''onChange'', Type_voice ''customPhone'')] [],
        node ''span'' [say ''Twilio will initiate an outbound call and speak vernacular Hinglish script upon answer.'']],
      node ''div'' [
        el ''input'' [(''type'', Inr (Str ''hidden'')), (''value'', Inr (vp_customEmail p))] [] [],
        el ''input'' [(''type'', Inr (Str ''hidden'')), (''value'', Inr (Str (vp_customAmount p)))] [] []],
      node ''div'' [
        el ''button'' [(''type'', Inr (Str ''button''))] [(''onClick'', \<lambda>_. Dial False)] [say ''Cancel''],
        el ''button'' [(''type'', Inr (Str ''submit'')), (''disabled'', Inr (Bool (vp_calling p)))] [] [
          icon ''PhoneCall'',
          node ''span'' [put (Str (if vp_calling p then ''Dialing...'' else ''Place Hinglish Call''))]]]]"

definition dial_modal :: "locale_fns \<Rightarrow> voice_page \<Rightarrow> voice_action_on view" where
  "dial_modal lc p =
    node ''div'' [
      node ''div'' [
        node ''div'' [
          node ''div'' [icon ''PhoneCall'', node ''h3'' [say ''Trigger Live Hinglish Call'']],
          el ''button'' [] [(''onClick'', \<lambda>_. Dial False)] [say [CHR 0xC3, CHR 0x97]]],
        dial_form lc p]]"

definition call_preview :: "voice_page \<Rightarrow> voice_action_on view" where
  "call_preview p =
    node ''div'' [
      node ''div'' [
        node ''div'' [icon ''Volume2'', node ''h3'' [say ''Dynamic Hinglish Prompt Preview'']],
        node ''p'' [
          put (Str (if truthy (orv (vp_customName p) (Str (vp_customAmount p))) then [CHR 0x22] @ ''Namaste '' @ to_str (orv
              (vp_customName p) (Str ''Aman Gupta'')) @ '' ji! Main ReviveOS Payments Desk se baat kar raha hoon. Aapka '' @
              [CHR 0xE2, CHR 0x82, CHR 0xB9] @ to_str (orv (Str (vp_customAmount p)) (Str ''14999'')) @
              '' ka payment due tha jo abhi tak process nahi ho paaya. Kya aap abhi WhatsApp ya SMS pe instant payment link chahenge, ya fir koi date schedule karni hai?''
              @ [CHR 0x22] else [CHR 0x22] @ to_str (orv (member (vp_preview p) ''hinglish_script'') (Str
              (''Namaste Aman Gupta ji! Main ReviveOS Payments Desk se baat kar raha hoon. Aapka '' @ [CHR 0xE2, CHR 0x82,
              CHR 0xB9] @
              ''14999 ka payment due tha jo abhi tak process nahi ho paaya. Kya aap abhi WhatsApp ya SMS pe instant payment link chahenge, ya fir koi date schedule karni hai?'')))
              @ [CHR 0x22]))],
        node ''div'' [say ''Tone: Empathetic & Respectful | Latency: ~450ms | Language: Indian Hinglish'']],
      node ''div'' [
        node ''div'' [icon ''Mic'', node ''h3'' [say ''Recognized Customer Responses'']],
        node ''ul'' [
          node ''li'' [
            node ''span'' [say ([CHR 0xE2, CHR 0x80, CHR 0xA2] @ '' PROMISE_TO_PAY:'')],
            say ('' '' @ [CHR 0x22] @ ''Kal tak pakka ho jayega'' @ [CHR 0x22] @ '' / '' @ [CHR 0x22] @
                ''Salary somwar ko aayegi'' @ [CHR 0x22])],
          node ''li'' [
            node ''span'' [say ([CHR 0xE2, CHR 0x80, CHR 0xA2] @ '' REQUEST_LINK:'')],
            say ('' '' @ [CHR 0x22] @ ''WhatsApp pe UPI payment link bhejo'' @ [CHR 0x22])],
          node ''li'' [
            node ''span'' [say ([CHR 0xE2, CHR 0x80, CHR 0xA2] @ '' CALL_LATER:'')],
            say ('' '' @ [CHR 0x22] @ ''Main abhi driving kar raha hoon baad me phone karo'' @ [CHR 0x22])],
          node ''li'' [
            node ''span'' [say ([CHR 0xE2, CHR 0x80, CHR 0xA2] @ '' DISPUTE:'')],
            say ('' '' @ [CHR 0x22] @ ''Amount galat hai, hamara issue resolve nahi hua'' @ [CHR 0x22])]]]]"

definition call_row :: "js \<Rightarrow> nat \<Rightarrow> voice_action_on view" where
  "call_row call idx =
    el ''tr'' [(''key'', Inr (Num (nint (int idx))))] [] [
      node ''td'' [eval (get call ''call_sid'')],
      node ''td'' [eval (get call ''provider'')],
      node ''td'' [eval (get call ''duration_seconds''), say ''s''],
      node ''td'' [say [CHR 0x22], eval (get call ''customer_spoken''), say [CHR 0x22]],
      node ''td'' [node ''span'' [eval (get call ''intent'')]],
      node ''td'' [
        eval (seqE (get call ''ptp_date'') (\<lambda>v7. Inr (Str (if truthy v7 then ''PTP Tracked'' else
            ''Link Dispatched''))))]]"

definition call_table :: "voice_page \<Rightarrow> voice_action_on view" where
  "call_table p =
    node ''div'' [
      node ''div'' [node ''h2'' [say ''Recent Voice Recovery Telephony Logs'']],
      node ''div'' [
        node ''table'' [
          node ''thead'' [
            node ''tr'' [
              node ''th'' [say ''Call ID''],
              node ''th'' [say ''Provider''],
              node ''th'' [say ''Duration''],
              node ''th'' [say ''Customer Speech Transcript''],
              node ''th'' [say ''Extracted Intent''],
              node ''th'' [say ''Next Action'']]],
          node ''tbody'' [each_i (vp_calls p) (\<lambda>idx call.  call_row call idx)]]]]"

definition voice_view :: "locale_fns \<Rightarrow> voice_page \<Rightarrow> voice_action_on view" where
  "voice_view lc p =
    node ''div'' [
      node ''div'' [
        node ''div'' [
          node ''div'' [
            node ''h1'' [say ''Hinglish AI Voice Recovery Engine''],
            BadgePulse (Str ''Twilio Active'') ''success''],
          node ''p'' [
            say
                ''Culturally attuned vernacular Hinglish voice calling with real-time intent classification powered by Twilio Telephony.'']],
        el ''button'' [(''disabled'', Inr (Bool (vp_calling p)))] [(''onClick'', \<lambda>_. Dial True)] [
          icon ''PhoneCall'',
          node ''span'' [put (Str (if vp_calling p then ''Calling Target...'' else ''Dial Custom Number (Hinglish)''))]]],
      show_when (vp_showDialModal p) (dial_modal lc p),
      show_if (opt_text (vp_callStatus p)) (
        node ''div'' [icon ''CheckCircle2'', node ''span'' [put (opt_text (vp_callStatus p))]]),
      call_preview p,
      call_table p]"

subsection \<open>Rendering\<close>

definition voice_sound :: "voice_page \<Rightarrow> bool" where
  "voice_sound p \<longleftrightarrow> list_all (\<lambda>c. \<not> nullish c) (vp_calls p) \<and> list_all (has_type WorkflowSummaryT) (vp_availableWorkflows p)
     \<and> has_type TText (vp_customWorkflowId p)"

lemma call_row_renders: "\<not> nullish c \<Longrightarrow> renders (call_row c i)"
  unfolding call_row_def by (simp add: view_simps get_runs)

lemma summary_texts:
  assumes "has_type WorkflowSummaryT w"
  shows "get w k = Inr (member w k)"
    and "\<exists>s. orv (member w ''id'') (member w ''payment_id'') = Str s"
    and "member w ''customer_email'' = Undef \<or> (\<exists>s. member w ''customer_email'' = Str s)"
proof -
  note t = assms [unfolded WorkflowSummaryT_def]
  show "get w k = Inr (member w k)" by (rule typed_get [OF t])
  obtain i s where "member w ''id'' = Str i" "member w ''payment_id'' = Str s"
    using typed_text [OF t, of "''id''"] typed_text [OF t, of "''payment_id''"] by auto
  then show "\<exists>s. orv (member w ''id'') (member w ''payment_id'') = Str s" by (simp add: orv_def)
  show "member w ''customer_email'' = Undef \<or> (\<exists>s. member w ''customer_email'' = Str s)"
    by (rule typed_opt_text [OF t]) simp
qed

lemma search_total:
  assumes "list_all (has_type WorkflowSummaryT) (vp_availableWorkflows p)"
  shows "\<exists>ws. search_results p = Inr ws \<and> list_all (has_type WorkflowSummaryT) ws"
proof -
  have "\<exists>b. matches_search (vp_workflowSearch p) w = Inr b" if "w \<in> set (vp_availableWorkflows p)" for w
  proof -
    have t: "has_type WorkflowSummaryT w" using assms that by (simp add: list_all_iff)
    obtain s where "orv (member w ''id'') (member w ''payment_id'') = Str s" using summary_texts(2) [OF t] by blast
    moreover have "\<exists>e. orv (member w ''customer_email'') (Str []) = Str e" using summary_texts(3) [OF t] by (auto simp: orv_def)
    ultimately show ?thesis by (auto simp: matches_search_def workflow_key_def Let_def orv_def)
  qed
  then obtain ws where "search_results p = Inr ws" "set ws \<subseteq> set (vp_availableWorkflows p)"
    using filterE_ex [of "vp_availableWorkflows p" "matches_search (vp_workflowSearch p)"] unfolding search_results_def by blast
  with assms show ?thesis by (auto simp: list_all_iff)
qed

lemma dial_form_renders:
  assumes "voice_sound p"
  shows "renders (dial_form lc p)"
proof -
  obtain ws where ws: "search_results p = Inr ws" "list_all (has_type WorkflowSummaryT) ws"
    using search_total assms by (auto simp: voice_sound_def)
  obtain i where i: "vp_customWorkflowId p = Str i" using assms by (auto simp: voice_sound_def dest!: TTextD)
  have body: "renders (seqE (seqE (get w ''id'') (\<lambda>v1. if truthy v1 then Inr v1 else get w ''payment_id'')) (\<lambda>wfKey.
      seqE (seqE (get w ''customer_name'') (\<lambda>v3. if truthy v3 then Inr v3 else seqE (get w ''customer_email'')
        (\<lambda>v2. (if truthy v2 then seqE (get w ''customer_email'') before_at else Inr (Str ''Customer'')))))
      (\<lambda>displayCustomer. workflow_option lc w wfKey displayCustomer)))"
    if "has_type WorkflowSummaryT w" for w
  proof -
    note t = that
    obtain k where "seqE (get w ''id'') (\<lambda>v. if truthy v then Inr v else get w ''payment_id'') = Inr (Str k)"
      using summary_texts(1,2) [OF t] by (auto simp: orv_def split: if_splits)
    moreover from summary_texts(1,3) [OF t] have "\<exists>n. seqE (get w ''customer_name'') (\<lambda>v3. if truthy v3 then Inr v3 else seqE (get w ''customer_email'')
        (\<lambda>v2. if truthy v2 then seqE (get w ''customer_email'') before_at else Inr (Str ''Customer''))) = Inr n"
      by (auto simp: before_at_def split: if_split)
    then obtain n where "seqE (get w ''customer_name'') (\<lambda>v3. if truthy v3 then Inr v3 else seqE (get w ''customer_email'')
        (\<lambda>v2. if truthy v2 then seqE (get w ''customer_email'') before_at else Inr (Str ''Customer''))) = Inr n" by blast
    ultimately show ?thesis by (simp only: seqE.simps) (simp add: workflow_option_def view_simps summary_texts(1) [OF t])
  qed
  then have "list_all (\<lambda>w. renders (seqE (seqE (get w ''id'') (\<lambda>v1. if truthy v1 then Inr v1 else get w ''payment_id'')) (\<lambda>wfKey.
      seqE (seqE (get w ''customer_name'') (\<lambda>v3. if truthy v3 then Inr v3 else seqE (get w ''customer_email'')
        (\<lambda>v2. (if truthy v2 then seqE (get w ''customer_email'') before_at else Inr (Str ''Customer'')))))
      (\<lambda>displayCustomer. workflow_option lc w wfKey displayCustomer)))) ws"
    using ws(2) by (simp add: list_all_iff)
  then show ?thesis unfolding dial_form_def by (simp add: view_simps ws(1) i)
qed

lemma voice_view_renders: "voice_sound p \<Longrightarrow> renders (voice_view lc p)"
  unfolding voice_view_def dial_modal_def call_preview_def call_table_def voice_sound_def
  by (auto simp: view_simps list_all_iff voice_sound_def call_row_renders intro!: renders_each_i dial_form_renders)

subsection \<open>The page's life\<close>

fun voice_fair :: "string \<Rightarrow> WorkflowSummary list \<Rightarrow> voice_event \<Rightarrow> bool" where
  \<comment> \<open>of the list of workflows its declared type is asked; of calls and storage nothing\<close>
  "voice_fair base ds (Load_list net) \<longleftrightarrow> has_type WorkflowsResponse (getWorkflows base net ds (no_query\<lparr>q_limit := Some (nint 100)\<rparr>))"
| "voice_fair base ds e = True"

lemma voice_sound_other [simp]:
  "voice_sound (p\<lparr>vp_showDialModal := b\<rparr>) = voice_sound p" "voice_sound (p\<lparr>vp_callStatus := c\<rparr>) = voice_sound p"
  "voice_sound (p\<lparr>vp_calling := b\<rparr>) = voice_sound p" "voice_sound (p\<lparr>vp_customName := v\<rparr>) = voice_sound p"
  "voice_sound (p\<lparr>vp_customEmail := v\<rparr>) = voice_sound p" "voice_sound (p\<lparr>vp_customPhone := v\<rparr>) = voice_sound p"
  "voice_sound (p\<lparr>vp_customAmount := s\<rparr>) = voice_sound p" "voice_sound (p\<lparr>vp_workflowSearch := s\<rparr>) = voice_sound p"
  "voice_sound (p\<lparr>vp_preview := v\<rparr>) = voice_sound p" "voice_sound (voice_typed k v p) = voice_sound p"
  by (simp_all add: voice_sound_def voice_typed_def)

lemma local_calls_present: "list_all (\<lambda>c. \<not> nullish c) (local_calls st)"
proof -
  have "list_all (\<lambda>c. \<not> nullish c) cs" if "mapE local_call ds = Inr cs" for ds cs
    using mapE_values [OF that] by (fastforce simp: list_all_iff local_call_def)
  then show ?thesis by (auto simp: local_calls_def split: sum.split option.splits)
qed

lemma offline_calls_present: "list_all (\<lambda>c. \<not> nullish c) (offline_calls (local_calls st))"
  using local_calls_present by (auto simp: offline_calls_def list_all_iff DEMO_VOICE_LOGS_def demo_call_def)

lemma online_calls_present: "online_calls cs d = Inr rows \<Longrightarrow> list_all (\<lambda>c. \<not> nullish c) rows"
proof -
  assume "online_calls cs d = Inr rows"
  then obtain as where m: "merge_sources call_key [cs, as, DEMO_VOICE_LOGS] = Inr rows" by (auto simp: online_calls_def)
  from voice_calls.merge_sources_Inr [OF m] have "rows = firsts (\<lambda>c. member c ''call_sid'') [] (concat [cs, as, DEMO_VOICE_LOGS])"
      "list_all (\<lambda>r. \<not> nullish r) (concat [cs, as, DEMO_VOICE_LOGS])" by blast+
  then show ?thesis using firsts_sub [of "\<lambda>c. member c ''call_sid''" "[]" "concat [cs, as, DEMO_VOICE_LOGS]"]
    unfolding list_all_iff by blast
qed

lemma fetchVoiceData_sound:
  assumes "voice_sound p"
  shows "voice_sound (fetchVoiceData base net st p)"
proof -
  have calls: "voice_sound (p\<lparr>vp_calls := cs\<rparr>)" "voice_sound (p\<lparr>vp_calls := cs, vp_preview := v\<rparr>)"
    if "list_all (\<lambda>c. \<not> nullish c) cs" for cs v
    using assms that by (simp_all add: voice_sound_def)
  have loaded: "list_all (\<lambda>c. \<not> nullish c) cs"
    if "(if res_ok r then seqE (res_json r) (online_calls (local_calls st)) else Inr (offline_calls (local_calls st))) = Inr cs" for r cs
    using that online_calls_present offline_calls_present by (auto split: if_splits)
  have off: "voice_sound (p\<lparr>vp_calls := offline_calls (local_calls st)\<rparr>)" by (rule calls) (rule offline_calls_present)
  show ?thesis unfolding fetchVoiceData_def Let_def
    by (rule seqE_cases [where P = "\<lambda>r. voice_sound (case r of Inl e \<Rightarrow> _ e | Inr q \<Rightarrow> q)"], use off in simp)+
      (use calls loaded off in \<open>auto split: sum.split\<close>)
qed

lemma handleSelectWorkflow_sound:
  assumes "voice_sound p" "has_type WorkflowSummaryT w"
  shows "voice_sound (fst (handleSelectWorkflow w p))"
proof -
  obtain k where k: "orv (member w ''id'') (member w ''payment_id'') = Str k" using summary_texts(2) [OF assms(2)] by blast
  have "voice_sound (p\<lparr>vp_customWorkflowId := Str k\<rparr>)" using assms(1) by (simp add: voice_sound_def)
  then show ?thesis using summary_texts(3) [OF assms(2)] by (auto simp: handleSelectWorkflow_def Let_def k)
qed

lemma voice_do_sound:
  assumes "voice_sound (fst s)" "voice_fair base ds e"
  shows "voice_sound (fst (voice_do base ds e s))"
proof (cases "(base, ds, e, s)" rule: voice_do.cases)
  case (1 base' ds' net p st)
  then have t: "has_type WorkflowsResponse (getWorkflows base net ds (no_query\<lparr>q_limit := Some (nint 100)\<rparr>))" using assms(2) by simp
  have "member (getWorkflows base net ds (no_query\<lparr>q_limit := Some (nint 100)\<rparr>)) ''data'' = Undef
      \<or> has_type (TArr WorkflowSummaryT) (member (getWorkflows base net ds (no_query\<lparr>q_limit := Some (nint 100)\<rparr>)) ''data'')"
    by (rule member_opt [OF t [unfolded WorkflowsResponse_def]]) simp
  then show ?thesis using 1 assms(1) by (auto simp: loadWorkflowsList_def voice_sound_def split: js.split list.split)
next
  case (4 base' ds' net reload now p st)
  then show ?thesis using assms(1) fetchVoiceData_sound
    by (auto simp: triggerCallSimulation_def Let_def split: sum.split prod.split)
next
  case (6 base' ds' net reload now v p st)
  have "has_type WorkflowSummaryT w" if "find (\<lambda>w. workflow_key w = Str (to_str v)) (vp_availableWorkflows p) = Some w" for w
    using find_Some_in [OF that] assms(1) 6 by (auto simp: voice_sound_def list_all_iff)
  then show ?thesis using 6 assms(1) handleSelectWorkflow_sound
    by (auto simp: select_changed_def voice_sound_def split: option.split)
qed (use assms fetchVoiceData_sound in auto)

interpretation voice_life: page_life "\<lambda>s. voice_sound (fst s)" "\<lambda>s. voice_view lc (fst s)" "voice_do base ds" "voice_fair base ds" for lc base ds
  by unfold_locales (simp_all add: voice_view_renders voice_do_sound)

lemma voice_init_sound: "voice_sound (voice_init ds)"
  by (simp add: voice_sound_def voice_init_def DEMO_VOICE_LOGS_def demo_call_def list_all_iff)

lemma voice_unreachable: "voice_fair base ds (Load_list unreachable)"
  by (simp add: getWorkflows_def offline_page_def page_def WorkflowsResponse_def Let_def list_all_iff)

end
