(* ===== verification/SdkTypes.thy ===== *)
theory SdkTypes
  imports JsSchema
begin

text \<open>
  \<open>packages/sdk/src/types.ts\<close> and \<open>errors.ts\<close>: the data the SDK exchanges and the errors it
  throws. The options the application builds are records; the wire types, whose values come
  from JSON or are read by untyped code, are type schemas over runtime values.
\<close>

subsection \<open>Configuration\<close>

abbreviation has_text :: "string option \<Rightarrow> bool" where
  \<comment> \<open>an optional text is truthy\<close>
  "has_text s \<equiv> (s \<noteq> None \<and> s \<noteq> Some [])"

definition or_text :: "string option \<Rightarrow> string option \<Rightarrow> string option" where
  \<comment> \<open>\<open>a || b\<close> of optional texts\<close>
  "or_text a b = (if has_text a then a else b)"

datatype ReviveOSMode = Live | Test | Mock

fun mode_str :: "ReviveOSMode \<Rightarrow> string" where
  "mode_str Live = ''live''"
| "mode_str Test = ''test''"
| "mode_str Mock = ''mock''"

record ReviveOSFeatures =
  f_recovery :: "bool option"
  f_fraud :: "bool option"
  f_customerMemory :: "bool option"
  f_refundRecovery :: "bool option"

record ReviveOSOptions =
  o_apiKey :: "string option"
  o_webhookSecret :: "string option"
  o_endpoint :: "string option"
  o_mode :: "ReviveOSMode option"
  o_features :: "ReviveOSFeatures option"
  o_timeoutMs :: "int option"
  o_maxRetries :: "int option"

subsection \<open>Wire types\<close>

definition UnifiedFailureDetail :: ty where
  "UnifiedFailureDetail = TRec [Req ''code'' TText, Opt ''reason'' TText, Opt ''description'' TText,
     Opt ''step'' TText, Opt ''source'' TText]"

definition UnifiedPaymentEvent :: ty where
  "UnifiedPaymentEvent = TRec [Req ''provider'' TText, Req ''eventType'' TText, Req ''eventId'' TText,
     Opt ''idempotencyKey'' TText, Req ''paymentId'' TText, Opt ''orderId'' TText,
     Opt ''customerId'' TText, Opt ''customerEmail'' TText, Opt ''customerPhone'' TText,
     Req ''amount'' TNum, Req ''currency'' TText, Opt ''paymentMethod'' TText, Opt ''bank'' TText,
     Req ''timestamp'' TText, Opt ''failure'' UnifiedFailureDetail, Opt ''metadata'' (TDict TAny),
     Opt ''rawPayload'' TAny]"

definition CustomerHistorySummary :: ty where
  "CustomerHistorySummary = TRec [Req ''successful_payments'' TNum, Req ''failed_payments'' TNum]"

definition FraudRiskScore :: ty where
  "FraudRiskScore = TRec [Req ''fraudProbability'' TNum,
     Req ''riskLevel'' (TLits [''LOW'', ''MEDIUM'', ''HIGH'']), Opt ''expectedLoss'' TNum,
     Req ''overallRisk'' TText]"

definition PaymentAnalysisResult :: ty where
  "PaymentAnalysisResult = TRec [Req ''paymentId'' TText, Req ''failureCategory'' TText,
     Req ''diagnosis'' TText, Req ''fraudRisk'' FraudRiskScore, Req ''recoveryProbability'' TNum,
     Req ''nextBestAction'' TText, Req ''action'' TText, Req ''delaySeconds'' TNum,
     Req ''confidence'' TNum, Req ''reason'' TText, Req ''customerHistory'' CustomerHistorySummary,
     Req ''decision'' TText, Req ''timestamp'' TText]"

definition RecoveryDecisionRequest :: ty where
  "RecoveryDecisionRequest = TRec [Req ''paymentId'' TText, Req ''failureType'' TText,
     Req ''fraudProbability'' TNum, Req ''recoveryProbability'' TNum,
     Opt ''customerHistory'' (TDict TAny), Opt ''paymentContext'' (TDict TAny)]"

definition RecoveryDecisionResponse :: ty where
  "RecoveryDecisionResponse = TRec [
     Req ''decision'' (TLits [''RECOVER'', ''BLOCK'', ''ESCALATE'', ''NO_ACTION'']),
     Req ''action'' TText, Req ''delaySeconds'' TNum, Req ''confidence'' TNum, Req ''reason'' TText,
     Req ''timestamp'' TText]"

definition RecoveryExecutionResult :: ty where
  "RecoveryExecutionResult = TRec [Req ''status'' (TLits [''EXECUTED'', ''FAILED'', ''SCHEDULED'']),
     Req ''paymentId'' TText, Req ''action'' TText, Req ''resultStatus'' TText,
     Opt ''paymentLinkUrl'' TText, Req ''verified'' TBool, Req ''executedAt'' TText]"

definition CustomerRecoveryProfile :: ty where
  "CustomerRecoveryProfile = TRec [Req ''customerId'' TText, Opt ''email'' TText, Opt ''phone'' TText,
     Req ''previousFailures'' TNum, Req ''previousSuccessfulRecoveries'' TNum,
     Req ''preferredPaymentMethods'' (TArr TText), Req ''averageRecoveryTime'' TNum,
     Req ''recoveryProbability'' TNum, Req ''communicationOptOut'' TBool, Req ''lastActivityAt'' TText]"

definition IngestEventResponse :: ty where
  "IngestEventResponse = TRec [Req ''status'' (TLits [''INGESTED'', ''DUPLICATE_IGNORED'']),
     Req ''event_id'' TText, Opt ''idempotency_key'' TText, Req ''payment_id'' TText,
     Opt ''internal_id'' TText, Req ''timestamp'' TText, Opt ''message'' TText]"

record WebhookVerificationResult =
  wv_valid :: bool
  wv_event :: "js option"
  wv_error :: "string option"

lemmas sdk_types = UnifiedFailureDetail_def UnifiedPaymentEvent_def CustomerHistorySummary_def
  FraudRiskScore_def PaymentAnalysisResult_def RecoveryDecisionRequest_def
  RecoveryDecisionResponse_def RecoveryExecutionResult_def CustomerRecoveryProfile_def
  IngestEventResponse_def

subsection \<open>Errors\<close>

definition ReviveOSError :: "string \<Rightarrow> string option \<Rightarrow> err" where
  "ReviveOSError message code = \<lparr>eclass = CReviveOS, ename = ''ReviveOSError'', emessage = message,
     ecode = Some (case code of None \<Rightarrow> ''REVIVEOS_ERROR'' | Some c \<Rightarrow> c), estatus = None, ebody = Undef\<rparr>"

definition ReviveOSAuthError :: "string option \<Rightarrow> err" where
  "ReviveOSAuthError message =
     (ReviveOSError (case message of None \<Rightarrow> ''Invalid or missing ReviveOS API key'' | Some m \<Rightarrow> m)
        (Some ''REVIVEOS_AUTH_ERROR''))\<lparr>eclass := CAuth, ename := ''ReviveOSAuthError''\<rparr>"

definition ReviveOSSignatureError :: "string option \<Rightarrow> err" where
  "ReviveOSSignatureError message =
     (ReviveOSError (case message of None \<Rightarrow> ''Invalid webhook signature from payment gateway''
          | Some m \<Rightarrow> m)
        (Some ''REVIVEOS_SIGNATURE_ERROR''))\<lparr>eclass := CSignature, ename := ''ReviveOSSignatureError''\<rparr>"

definition ReviveOSValidationError :: "string \<Rightarrow> err" where
  "ReviveOSValidationError message =
     (ReviveOSError message (Some ''REVIVEOS_VALIDATION_ERROR''))
       \<lparr>eclass := CValidation, ename := ''ReviveOSValidationError''\<rparr>"

definition ReviveOSApiError :: "string \<Rightarrow> int \<Rightarrow> js \<Rightarrow> err" where
  "ReviveOSApiError message statusCode responseBody =
     (ReviveOSError (''ReviveOS API Error ('' @ show_int statusCode @ ''): '' @ message)
        (Some ''REVIVEOS_API_ERROR''))
       \<lparr>eclass := CApi, ename := ''ReviveOSApiError'', estatus := Some statusCode, ebody := responseBody\<rparr>"

text \<open>
  \<open>instanceof\<close> along the class hierarchy: every SDK error is a \<open>ReviveOSError\<close>, and every error
  an \<open>Error\<close>.
\<close>

fun parent :: "err_class \<Rightarrow> err_class option" where
  "parent CError = None"
| "parent CTypeError = Some CError"
| "parent CRangeError = Some CError"
| "parent CSyntaxError = Some CError"
| "parent CReviveOS = Some CError"
| "parent CAuth = Some CReviveOS"
| "parent CSignature = Some CReviveOS"
| "parent CValidation = Some CReviveOS"
| "parent CApi = Some CReviveOS"

definition instance_of :: "err \<Rightarrow> err_class \<Rightarrow> bool" where
  "instance_of e c \<longleftrightarrow> eclass e = c \<or> parent (eclass e) = Some c
     \<or> Option.bind (parent (eclass e)) parent = Some c"

lemmas sdk_errors = ReviveOSError_def ReviveOSAuthError_def ReviveOSSignatureError_def
  ReviveOSValidationError_def ReviveOSApiError_def

lemma eclass_simps [simp]:
  "eclass (ReviveOSError m c) = CReviveOS" "eclass (ReviveOSAuthError o') = CAuth"
  "eclass (ReviveOSSignatureError o') = CSignature" "eclass (ReviveOSValidationError m) = CValidation"
  "eclass (ReviveOSApiError m s b) = CApi"
  by (simp_all add: sdk_errors)

lemma eclass_builtin [simp]: "eclass (type_error m) = CTypeError" "eclass (plain_error m) = CError"
  "eclass (range_error m) = CRangeError" "eclass (syntax_error m) = CSyntaxError"
  by (simp_all add: type_error_def plain_error_def range_error_def syntax_error_def builtin_err_def)

lemma emessage_builtin [simp]: "emessage (type_error m) = m" "emessage (plain_error m) = m"
  "emessage (range_error m) = m" "emessage (syntax_error m) = m"
  by (simp_all add: type_error_def plain_error_def range_error_def syntax_error_def builtin_err_def)

lemma instance_of_class: "instance_of e CAuth \<longleftrightarrow> eclass e = CAuth"
  "instance_of e CValidation \<longleftrightarrow> eclass e = CValidation"
  by (cases "eclass e"; simp add: instance_of_def)+

end
