(* ===== verification/Normalizer.thy ===== *)
theory Normalizer
  imports SdkTypes
begin

text \<open>
  \<open>packages/sdk/src/normalizer.ts\<close>: the translation of a Razorpay webhook body into the
  provider-independent payment event. The clock's reading 0 is \<open>Date.now()\<close> in the event id and
  reading 1 is \<open>new Date()\<close> in the timestamp; a body without \<open>created_at\<close> reads both.
\<close>

definition event_entity :: "js \<Rightarrow> string \<Rightarrow> err + js" where
  \<comment> \<open>\<open>payload.payload?.X?.entity || {}\<close>\<close>
  "event_entity payload x =
     seqE (get payload ''payload'') (\<lambda>p. Inr (orv (member (member p x) ''entity'') (Obj [])))"

definition customer_contact :: "js \<Rightarrow> js \<times> js" where
  \<comment> \<open>email and phone: the payment's own, else those of an embedded customer object\<close>
  "customer_contact paymentEntity =
    (let email = member paymentEntity ''email''; phone = member paymentEntity ''contact'';
         customer = member paymentEntity ''customer''
     in if \<not> truthy email \<and> truthy customer \<and> (case customer of Obj _ \<Rightarrow> True | Arr _ \<Rightarrow> True | _ \<Rightarrow> False)
        then (member customer ''email'', member customer ''contact'') else (email, phone))"

definition major_amount :: "js \<Rightarrow> number" where
  \<comment> \<open>paise to rupees\<close>
  "major_amount rawAmount =
    (case rawAmount of Num n \<Rightarrow> ndiv n (nint 100) | _ \<Rightarrow> ndiv (parse_float (to_str rawAmount)) (nint 100))"

definition failure_detail :: "js \<Rightarrow> js" where
  "failure_detail paymentEntity =
    (let f = (\<lambda>k. member paymentEntity k)
     in if truthy (f ''error_code'') \<or> truthy (f ''error_description'') \<or> truthy (f ''error_reason'')
        then Obj [(''code'', orv (f ''error_code'') (Str ''UNKNOWN_ERROR'')),
                  (''reason'', orv (f ''error_reason'') (Str [])),
                  (''description'', orv (f ''error_description'') (Str [])),
                  (''step'', orv (f ''error_step'') (Str [])),
                  (''source'', orv (f ''error_source'') (Str []))]
        else Undef)"

definition header_event_id :: "js \<Rightarrow> js" where
  "header_event_id headers =
    (if truthy headers
     then (case member headers ''x-razorpay-event-id'' of Str s \<Rightarrow> Str s | Arr (x # _) \<Rightarrow> x | _ \<Rightarrow> Str [])
     else Str [])"

definition event_id :: "clock \<Rightarrow> js \<Rightarrow> js \<Rightarrow> js \<Rightarrow> js" where
  "event_id now paymentId created_at headers =
    (let eventId = header_event_id headers
     in if truthy eventId then eventId
        else Str (''evt_'' @ to_str paymentId @ ''_'' @ to_str (orv created_at (js_int (now 0)))))"

definition event_timestamp :: "clock \<Rightarrow> js \<Rightarrow> err + string" where
  "event_timestamp now created_at =
    (if truthy created_at then to_iso (time_clip (nmul (to_num created_at) (nint 1000)))
     else to_iso (nint (now 1)))"

definition unified_event ::
  "clock \<Rightarrow> js \<Rightarrow> js \<Rightarrow> js \<Rightarrow> js \<Rightarrow> js \<Rightarrow> err + js" where
  "unified_event now payload paymentEntity orderEntity refundEntity headers =
    (let eventType = orv (member payload ''event'') (Str ''payment.failed'');
         paymentId = orv (orv (member paymentEntity ''id'') (member refundEntity ''payment_id''))
           (Str ''pay_unknown'');
         orderId = orv (orv (member paymentEntity ''order_id'') (member orderEntity ''id'')) Undef;
         (email, phone) = customer_contact paymentEntity;
         amount = major_amount (coalesce (member paymentEntity ''amount'')
           (coalesce (member orderEntity ''amount'') (coalesce (member refundEntity ''amount'') (js_int 0))));
         eventId = event_id now paymentId (member payload ''created_at'') headers
     in seqE (event_timestamp now (member payload ''created_at'')) (\<lambda>timestamp. Inr (Obj [
       (''provider'', Str ''razorpay''),
       (''eventType'', eventType),
       (''eventId'', eventId),
       (''idempotencyKey'', eventId),
       (''paymentId'', paymentId),
       (''orderId'', orderId),
       (''customerId'', orv (member paymentEntity ''customer_id'') Undef),
       (''customerEmail'', orv email Undef),
       (''customerPhone'', orv phone Undef),
       (''amount'', Num amount),
       (''currency'', orv (member paymentEntity ''currency'') (Str ''INR'')),
       (''paymentMethod'', orv (member paymentEntity ''method'') Undef),
       (''bank'', orv (member paymentEntity ''bank'') Undef),
       (''timestamp'', Str timestamp),
       (''failure'', failure_detail paymentEntity),
       (''rawPayload'', payload)])))"

definition normalizeRazorpayEvent :: "clock \<Rightarrow> js \<Rightarrow> js \<Rightarrow> err + js" where
  "normalizeRazorpayEvent now rawBody headers =
    seqE (case rawBody of Str s \<Rightarrow> json_parse s | v \<Rightarrow> Inr v) (\<lambda>payload.
    seqE (get payload ''event'') (\<lambda>_.
    seqE (event_entity payload ''payment'') (\<lambda>paymentEntity.
    seqE (event_entity payload ''order'') (\<lambda>orderEntity.
    seqE (event_entity payload ''refund'') (\<lambda>refundEntity.
    unified_event now payload paymentEntity orderEntity refundEntity headers)))))"

subsection \<open>The documented shape of a webhook body\<close>

text \<open>
  The gateway's documentation: string fields hold text, \<open>created_at\<close> and \<open>amount\<close> are numbers,
  every field may be missing. The normalizer itself checks nothing of this.
\<close>

definition razorpay_payment :: ty where
  "razorpay_payment = TRec [Opt ''id'' TText, Opt ''order_id'' TText, Opt ''email'' TText,
     Opt ''contact'' TText, Opt ''customer'' (TRec [Opt ''email'' TText, Opt ''contact'' TText]),
     Opt ''amount'' TNum, Opt ''error_code'' TText, Opt ''error_description'' TText,
     Opt ''error_reason'' TText, Opt ''error_step'' TText, Opt ''error_source'' TText,
     Opt ''customer_id'' TText, Opt ''currency'' TText, Opt ''method'' TText, Opt ''bank'' TText]"

definition razorpay_order :: ty where
  "razorpay_order = TRec [Opt ''id'' TText, Opt ''amount'' TNum]"

definition razorpay_refund :: ty where
  "razorpay_refund = TRec [Opt ''payment_id'' TText, Opt ''amount'' TNum]"

definition razorpay_payload :: ty where
  "razorpay_payload = TRec [Opt ''event'' TText, Opt ''created_at'' TNum,
     Opt ''payload'' (TRec [
       Opt ''payment'' (TRec [Opt ''entity'' razorpay_payment]),
       Opt ''order'' (TRec [Opt ''entity'' razorpay_order]),
       Opt ''refund'' (TRec [Opt ''entity'' razorpay_refund])])]"

definition razorpay_headers :: ty where
  "razorpay_headers = TDict (TOneOf [TText, TArr TText, TUndef])"

subsection \<open>Lemmas\<close>

lemma event_entity_truthy: "event_entity p x = Inr v \<Longrightarrow> truthy v"
  by (auto simp: event_entity_def)

lemma normalize_parsed:
  "normalizeRazorpayEvent now (Str s) h = (case json_parse s of Inl e \<Rightarrow> Inl e
     | Inr p \<Rightarrow> (case p of Str t \<Rightarrow> unified_event now (Str t) (Obj []) (Obj []) (Obj []) h
        | _ \<Rightarrow> normalizeRazorpayEvent now p h))"
  by (cases "json_parse s")
    (auto simp: normalizeRazorpayEvent_def event_entity_def get_def split: js.splits)

lemma unified_event_Inr:
  assumes "unified_event now p pe oe re h = Inr ev"
  obtains fs where "ev = Obj fs"
    "fld fs ''eventId'' = event_id now (orv (orv (member pe ''id'') (member re ''payment_id''))
       (Str ''pay_unknown'')) (member p ''created_at'') h"
    "fld fs ''idempotencyKey'' = fld fs ''eventId''"
    "fld fs ''paymentId'' = orv (orv (member pe ''id'') (member re ''payment_id'')) (Str ''pay_unknown'')"
    "fld fs ''eventType'' = orv (member p ''event'') (Str ''payment.failed'')"
    "fld fs ''provider'' = Str ''razorpay''"
    "fld fs ''failure'' = failure_detail pe"
    "fld fs ''amount'' = Num (major_amount (coalesce (member pe ''amount'')
       (coalesce (member oe ''amount'') (coalesce (member re ''amount'') (js_int 0)))))"
    "fld fs ''currency'' = orv (member pe ''currency'') (Str ''INR'')"
    "fld fs ''rawPayload'' = p"
    "\<exists>t. event_timestamp now (member p ''created_at'') = Inr t \<and> fld fs ''timestamp'' = Str t"
    "fld fs ''orderId'' = orv (orv (member pe ''order_id'') (member oe ''id'')) Undef"
    "fld fs ''customerId'' = orv (member pe ''customer_id'') Undef"
    "fld fs ''customerEmail'' = orv (fst (customer_contact pe)) Undef"
    "fld fs ''customerPhone'' = orv (snd (customer_contact pe)) Undef"
    "fld fs ''paymentMethod'' = orv (member pe ''method'') Undef"
    "fld fs ''bank'' = orv (member pe ''bank'') Undef"
    "fld fs ''metadata'' = Undef"
  using assms by (fastforce simp: unified_event_def Let_def split_beta)

subsection \<open>Types\<close>

lemma entity_typed:
  assumes "has_type razorpay_payload p" "Opt x (TRec [Opt ''entity'' (TRec ds)]) \<in> set [
       Opt ''payment'' (TRec [Opt ''entity'' razorpay_payment]),
       Opt ''order'' (TRec [Opt ''entity'' razorpay_order]),
       Opt ''refund'' (TRec [Opt ''entity'' razorpay_refund])]"
    and empty: "has_type (TRec ds) (Obj [])" and e: "event_entity p x = Inr v"
  shows "has_type (TRec ds) v"
proof -
  have "member p ''payload'' = Undef \<or> has_type (TRec [
       Opt ''payment'' (TRec [Opt ''entity'' razorpay_payment]),
       Opt ''order'' (TRec [Opt ''entity'' razorpay_order]),
       Opt ''refund'' (TRec [Opt ''entity'' razorpay_refund])]) (member p ''payload'')"
    by (rule member_opt [OF assms(1) [unfolded razorpay_payload_def]]) simp
  from opt_member [OF this assms(2)]
  have "member (member (member p ''payload'') x) ''entity'' = Undef
      \<or> has_type (TRec ds) (member (member (member p ''payload'') x) ''entity'')"
    by (rule opt_member) simp
  moreover have "v = orv (member (member (member p ''payload'') x) ''entity'') (Obj [])"
    using e by (auto simp: event_entity_def dest: get_InrD)
  ultimately show ?thesis using empty has_type_orv by blast
qed

lemma payment_text:
  assumes "has_type razorpay_payment v" "k \<in> {''id'', ''order_id'', ''email'', ''contact'', ''error_code'',
    ''error_description'', ''error_reason'', ''error_step'', ''error_source'', ''customer_id'', ''currency'',
    ''method'', ''bank''}"
  shows "member v k = Undef \<or> has_type TText (member v k)"
  by (rule member_opt [OF assms(1) [unfolded razorpay_payment_def]]) (use assms(2) in auto)

lemma failure_typed:
  assumes "has_type razorpay_payment v"
  shows "failure_detail v = Undef \<or> has_type UnifiedFailureDetail (failure_detail v)"
  using payment_text [OF assms, THEN text_orv]
  by (simp add: failure_detail_def UnifiedFailureDetail_def Let_def)

lemma contact_typed:
  assumes "has_type razorpay_payment v"
  shows "fst (customer_contact v) = Undef \<or> has_type TText (fst (customer_contact v))"
    "snd (customer_contact v) = Undef \<or> has_type TText (snd (customer_contact v))"
proof -
  have c: "member v ''customer'' = Undef \<or>
      has_type (TRec [Opt ''email'' TText, Opt ''contact'' TText]) (member v ''customer'')"
    by (rule member_opt [OF assms [unfolded razorpay_payment_def]]) simp
  show "fst (customer_contact v) = Undef \<or> has_type TText (fst (customer_contact v))"
    using opt_member [OF c, of "''email''" TText] payment_text [OF assms, of "''email''"]
    by (simp add: customer_contact_def Let_def)
  show "snd (customer_contact v) = Undef \<or> has_type TText (snd (customer_contact v))"
    using opt_member [OF c, of "''contact''" TText] payment_text [OF assms, of "''contact''"]
    by (simp add: customer_contact_def Let_def)
qed

lemma event_id_typed:
  assumes "h = Undef \<or> has_type razorpay_headers h"
  shows "has_type TText (event_id now i c h)"
proof -
  have "has_type TText (header_event_id h)"
  proof (cases h)
    case (Obj fs)
    then have "list_all (has_type (TOneOf [TText, TArr TText, TUndef])) (map snd fs)"
      using assms by (simp add: razorpay_headers_def)
    from dict_fld [OF this, of "''x-razorpay-event-id''"]
    have "has_type (TOneOf [TText, TArr TText, TUndef]) (fld fs ''x-razorpay-event-id'')" by auto
    then show ?thesis
      using Obj by (auto simp: header_event_id_def split: js.splits list.splits)
  qed (use assms in \<open>auto simp: header_event_id_def razorpay_headers_def has_type_unfold\<close>)
  then show ?thesis by (auto simp: event_id_def Let_def)
qed

lemma timestamp_cases:
  "(\<exists>t. event_timestamp now c = Inr t) \<or>
   (\<exists>e. event_timestamp now c = Inl e \<and> eclass e = CRangeError \<and> truthy c)"
  by (auto simp: event_timestamp_def to_iso_def split: number.splits)

lemma unified_event_typed:
  assumes pe: "has_type razorpay_payment pe" and oe: "has_type razorpay_order oe"
    and re: "has_type razorpay_refund re" and p: "has_type razorpay_payload p"
    and h: "h = Undef \<or> has_type razorpay_headers h" and u: "unified_event now p pe oe re h = Inr ev"
  shows "has_type UnifiedPaymentEvent ev"
proof -
  note pt = payment_text [OF pe]
  have id: "member oe ''id'' = Undef \<or> has_type TText (member oe ''id'')"
      "member re ''payment_id'' = Undef \<or> has_type TText (member re ''payment_id'')"
      "member p ''event'' = Undef \<or> has_type TText (member p ''event'')"
    by (rule member_opt [OF oe [unfolded razorpay_order_def]]
        member_opt [OF re [unfolded razorpay_refund_def]]
        member_opt [OF p [unfolded razorpay_payload_def]]; simp)+
  have ids: "has_type TText (orv (orv (member pe ''id'') (member re ''payment_id'')) (Str ''pay_unknown''))"
    "orv (orv (member pe ''order_id'') (member oe ''id'')) Undef = Undef
       \<or> has_type TText (orv (orv (member pe ''order_id'') (member oe ''id'')) Undef)"
    using pt [of "''id''"] pt [of "''order_id''"] id by (auto simp: orv_def)
  obtain t where t: "event_timestamp now (member p ''created_at'') = Inr t"
    using u by (auto simp: unified_event_def Let_def split_beta)
  note facts = ids event_id_typed [OF h] failure_typed [OF pe] contact_typed [OF pe, THEN opt_orv]
    text_orv [OF id(3)] pt [of "''currency''", THEN text_orv] pt [of "''customer_id''", THEN opt_orv]
    pt [of "''method''", THEN opt_orv] pt [of "''bank''", THEN opt_orv]
  show ?thesis
    using u t
    by (simp add: unified_event_def Let_def split_beta)
      (erule subst, simp add: UnifiedPaymentEvent_def facts)
qed



subsection \<open>When the normalizer throws\<close>

definition parsed_body :: "js \<Rightarrow> err + js" where
  \<comment> \<open>the payload a body carries\<close>
  "parsed_body b = (case b of Str s \<Rightarrow> json_parse s | v \<Rightarrow> Inr v)"

lemma normalize_steps:
  "normalizeRazorpayEvent now b h = seqE (parsed_body b) (\<lambda>p.
     if nullish p then get p ''event''
     else unified_event now p (orv (member (member (member p ''payload'') ''payment'') ''entity'') (Obj []))
       (orv (member (member (member p ''payload'') ''order'') ''entity'') (Obj []))
       (orv (member (member (member p ''payload'') ''refund'') ''entity'') (Obj [])) h)"
proof -
  have "seqE (get p ''event'') (\<lambda>_. seqE (event_entity p ''payment'') (\<lambda>pe. seqE (event_entity p ''order'') (\<lambda>oe.
      seqE (event_entity p ''refund'') (\<lambda>re. unified_event now p pe oe re h))))
    = (if nullish p then get p ''event''
     else unified_event now p (orv (member (member (member p ''payload'') ''payment'') ''entity'') (Obj []))
       (orv (member (member (member p ''payload'') ''order'') ''entity'') (Obj []))
       (orv (member (member (member p ''payload'') ''refund'') ''entity'') (Obj [])) h)" for p
    by (cases "nullish p") (auto simp: event_entity_def get_member nullish_def)
  then show ?thesis by (simp only: normalizeRazorpayEvent_def parsed_body_def)
qed

lemma to_iso_Fin [simp]: "\<exists>t. to_iso (Fin x) = Inr t" "to_iso NaN = Inl (range_error ''Invalid time value'')"
  by (simp_all add: to_iso_def)

lemma to_iso_nint: "to_iso (nint n) = Inr (iso_string n)"
  by (simp add: to_iso_def)

lemma time_clip_cases: "time_clip n = NaN \<or> (\<exists>k. time_clip n = nint k)"
  by (auto simp: time_clip_def split: number.splits)

lemma timestamp_ok:
  "(\<exists>t. event_timestamp now c = Inr t) \<longleftrightarrow>
   (if truthy c then time_clip (nmul (to_num c) (nint 1000)) \<noteq> NaN else True)"
  using time_clip_cases [of "nmul (to_num c) (nint 1000)"]
  by (auto simp: event_timestamp_def to_iso_def)


text \<open>
  C29: Idempotent redelivery. A body that carries \<open>created_at\<close> normalizes to the same event whenever
  it is delivered: the event id, which is the idempotency key, and the timestamp do not depend on
  the clock.
\<close>

theorem redelivery_same_event:
  assumes "parsed_body b = Inr p" and "truthy (member p ''created_at'')"
  shows "normalizeRazorpayEvent now b h = normalizeRazorpayEvent now' b h"
proof -
  have "event_id now i (member p ''created_at'') h = event_id now' i (member p ''created_at'') h"
    "event_timestamp now (member p ''created_at'') = event_timestamp now' (member p ''created_at'')" for i
    using assms(2) by (simp_all add: event_id_def event_timestamp_def orv_truthy Let_def)
  then show ?thesis
    by (simp add: normalize_steps assms(1) unified_event_def Let_def split_beta)
qed

lemma redelivery_same_event_witness:
  "normalizeRazorpayEvent (\<lambda>_. 0) (Obj [(''created_at'', js_int 1700000000)]) Undef
     = normalizeRazorpayEvent (\<lambda>_. 5) (Obj [(''created_at'', js_int 1700000000)]) Undef"
  by (rule redelivery_same_event [where p = "Obj [(''created_at'', js_int 1700000000)]"]) (simp_all add: parsed_body_def)

end
