(* ===== verification/MockEngine.thy ===== *)
theory MockEngine
  imports Normalizer
begin

text \<open>
  \<open>packages/sdk/src/mock.ts\<close>: the engine behind mock mode. \<open>createMockFailurePayload\<close> reads the
  clock three times (the default payment id, the payment's \<open>created_at\<close>, the event's).
\<close>

definition unix_seconds :: "int \<Rightarrow> js" where
  \<comment> \<open>\<open>Math.floor(Date.now() / 1000)\<close>\<close>
  "unix_seconds t = Num (nfloor (ndiv (nint t) (nint 1000)))"

definition createMockFailurePayload :: "clock \<Rightarrow> js \<Rightarrow> js" where
  "createMockFailurePayload now options =
    (let paymentId = orv (member options ''paymentId'') (Str (''pay_mock_'' @ to_str (js_int (now 0))));
         amount = (if truthy (member options ''amount'')
           then Num (nmul (to_num (member options ''amount'')) (nint 100)) else js_int 499900);
         failureCode = orv (member options ''failureCode'') (Str ''BAD_REQUEST_ERROR'');
         email = orv (member options ''email'') (Str ''customer@example.com'')
     in Obj [
       (''entity'', Str ''event''),
       (''account_id'', Str ''acc_mock_reviveos_01''),
       (''event'', Str ''payment.failed''),
       (''contains'', Arr [Str ''payment'']),
       (''payload'', Obj [(''payment'', Obj [(''entity'', Obj [
          (''id'', paymentId),
          (''entity'', Str ''payment''),
          (''amount'', amount),
          (''currency'', Str ''INR''),
          (''status'', Str ''failed''),
          (''method'', Str ''card''),
          (''description'', Str ''Mock subscription charge''),
          (''email'', email),
          (''contact'', Str ''+919876543210''),
          (''error_code'', failureCode),
          (''error_description'', Str ''Payment failed due to temporary issuer downtime''),
          (''error_source'', Str ''bank''),
          (''error_step'', Str ''payment_authentication''),
          (''error_reason'', Str ''payment_failed''),
          (''created_at'', unix_seconds (now 1))])])]),
       (''created_at'', unix_seconds (now 2))])"

definition includes_in :: "js \<Rightarrow> string \<Rightarrow> err + bool" where
  \<comment> \<open>\<open>v.includes(t)\<close> of a value that must be a text\<close>
  "includes_in v t = (case v of Str s \<Rightarrow> Inr (str_includes s t)
     | _ \<Rightarrow> if nullish v then Inl (type_error ''Cannot read properties of undefined (reading 'includes')'')
            else Inl (type_error ''includes is not a function''))"

definition description_includes :: "js \<Rightarrow> string \<Rightarrow> err + bool" where
  \<comment> \<open>\<open>event.failure?.description?.includes(t)\<close>, read as a condition\<close>
  "description_includes failure t = (if nullish failure \<or> nullish (member failure ''description'')
     then Inr False else includes_in (member failure ''description'') t)"

definition is_bank_outage :: "js \<Rightarrow> err + bool" where
  "is_bank_outage failure =
    seqE (if nullish failure then Inr False else includes_in (member failure ''code'') ''BANK'') (\<lambda>b1.
    if b1 then Inr True
    else seqE (description_includes failure ''downtime'') (\<lambda>b2.
      if b2 then Inr True else description_includes failure ''issuer''))"

definition dec :: "int \<Rightarrow> int \<Rightarrow> js" where
  \<comment> \<open>a decimal literal: \<open>dec 94 100\<close> is \<open>0.94\<close>\<close>
  "dec a b = Num (to_number (of_int a / of_int b))"

definition analyzeMockPayment :: "clock \<Rightarrow> js \<Rightarrow> err + js" where
  "analyzeMockPayment now event =
    seqE (get event ''amount'') (\<lambda>amount.
    seqE (is_bank_outage (member event ''failure'')) (\<lambda>isBankOutage.
    seqE (to_iso (nint (now 0))) (\<lambda>timestamp.
    let isHighFraud = gt_num amount (nint 80000);
        fraudProbability = (if isHighFraud then dec 78 100 else dec 4 100);
        fraudRiskLevel = Str (if isHighFraud then ''HIGH'' else ''LOW'');
        recoveryProbability = (if isHighFraud then dec 12 100
          else if isBankOutage then dec 94 100 else dec 82 100);
        action = Str (if isHighFraud then ''BLOCK''
          else if isBankOutage then ''RETRY_LATER'' else ''RETRY_NOW'');
        decision = Str (if isHighFraud then ''BLOCK'' else ''RECOVER'');
        delaySeconds = js_int (if isBankOutage then 120 else 0)
    in Inr (Obj [
      (''paymentId'', member event ''paymentId''),
      (''failureCategory'', Str (if isBankOutage then ''BANK_UNAVAILABLE'' else ''INSUFFICIENT_FUNDS'')),
      (''diagnosis'', Str (if isHighFraud
         then ''High anomaly risk score flagged by Revenue Risk Engine''
         else ''Temporary bank downtime detected with high recovery probability'')),
      (''fraudRisk'', Obj [
         (''fraudProbability'', fraudProbability),
         (''riskLevel'', fraudRiskLevel),
         (''expectedLoss'', if isHighFraud then amount else js_int 0),
         (''overallRisk'', fraudRiskLevel)]),
      (''recoveryProbability'', recoveryProbability),
      (''nextBestAction'', action),
      (''action'', action),
      (''delaySeconds'', delaySeconds),
      (''confidence'', dec 93 100),
      (''reason'', Str (if isHighFraud then ''Blocked due to risk policy thresholds''
         else ''Deterministic recovery strategy scheduled'')),
      (''customerHistory'', Obj [(''successful_payments'', js_int 4), (''failed_payments'', js_int 1)]),
      (''decision'', decision),
      (''timestamp'', Str timestamp)]))))"

definition getMockCustomerProfile :: "clock \<Rightarrow> js \<Rightarrow> err + js" where
  "getMockCustomerProfile now customerId =
    seqE (to_iso (nint (now 0))) (\<lambda>lastActivityAt. Inr (Obj [
      (''customerId'', customerId),
      (''email'', Str ''alex.merchant@example.com''),
      (''phone'', Str ''+919876543210''),
      (''previousFailures'', js_int 3),
      (''previousSuccessfulRecoveries'', js_int 3),
      (''preferredPaymentMethods'', Arr [Str ''card'', Str ''upi'']),
      (''averageRecoveryTime'', js_int 180),
      (''recoveryProbability'', dec 88 100),
      (''communicationOptOut'', Bool False),
      (''lastActivityAt'', Str lastActivityAt)]))"

subsection \<open>The mock payload\<close>

lemma unix_seconds_int:
  assumes "1000 \<le> t" "t \<le> max_time"
  obtains k where "unix_seconds t = js_int k" "1 \<le> k" "k \<le> 8640000000000"
proof
  define r where "r = rnd (of_int t / 1000)"
  have lo: "of_int 1 \<le> r" unfolding r_def
    using assms(1) by (intro le_rnd is_double_int) (simp_all add: le_divide_eq)
  have hi: "r \<le> of_int 8640000000000" unfolding r_def
    using assms(2) by (intro rnd_le is_double_int) (simp_all add: max_time_def divide_le_eq)
  have "\<bar>of_int t / 1000 :: rat\<bar> \<le> 2 ^ 53"
  proof -
    have "(of_int t :: rat) \<le> of_int 8640000000000000" using assms(2) by (simp only: of_int_le_iff max_time_def)
    moreover have "(0::rat) \<le> of_int t" using assms(1) by simp
    ultimately show ?thesis by simp
  qed
  then have "to_number (of_int t / 1000) = Fin r" unfolding r_def by (rule to_number_bounded)
  then show "unix_seconds t = js_int \<lfloor>r\<rfloor>" by (simp add: unix_seconds_def)
  show "1 \<le> \<lfloor>r\<rfloor>" using lo by (simp add: le_floor_iff)
  show "\<lfloor>r\<rfloor> \<le> 8640000000000" using hi by (metis floor_mono floor_of_int)
qed

definition mock_payment :: "string \<Rightarrow> int \<Rightarrow> js \<Rightarrow> js" where
  "mock_payment pid paise secs = Obj [
          (''id'', Str pid),
          (''entity'', Str ''payment''),
          (''amount'', js_int paise),
          (''currency'', Str ''INR''),
          (''status'', Str ''failed''),
          (''method'', Str ''card''),
          (''description'', Str ''Mock subscription charge''),
          (''email'', Str ''customer@example.com''),
          (''contact'', Str ''+919876543210''),
          (''error_code'', Str ''BAD_REQUEST_ERROR''),
          (''error_description'', Str ''Payment failed due to temporary issuer downtime''),
          (''error_source'', Str ''bank''),
          (''error_step'', Str ''payment_authentication''),
          (''error_reason'', Str ''payment_failed''),
          (''created_at'', secs)]"

lemma create_mock:
  assumes "pid \<noteq> []" "0 < a" "a * 100 \<le> 2 ^ 53"
  shows "createMockFailurePayload now (Obj [(''paymentId'', Str pid), (''amount'', js_int a)]) = Obj [
       (''entity'', Str ''event''),
       (''account_id'', Str ''acc_mock_reviveos_01''),
       (''event'', Str ''payment.failed''),
       (''contains'', Arr [Str ''payment'']),
       (''payload'', Obj [(''payment'', Obj [(''entity'', mock_payment pid (a * 100) (unix_seconds (now 1)))])]),
       (''created_at'', unix_seconds (now 2))]"
  using assms nmul_int [of a 100]
  by (simp add: createMockFailurePayload_def mock_payment_def Let_def orv_def)

lemma mock_major_amount:
  assumes "0 < a" "a * 100 \<le> 2 ^ 53"
  shows "major_amount (js_int (a * 100)) = nint a"
proof -
  have "of_int (a * 100) / 100 = (of_int a :: rat)" by simp
  with assms to_number_int [of a] show ?thesis by (simp add: major_amount_def)
qed

lemma clip_seconds:
  assumes "1 \<le> k" "k \<le> 8640000000000"
  shows "time_clip (nmul (nint k) (nint 1000)) = nint (k * 1000)"
proof -
  have "\<bar>of_int (k * 1000) :: rat\<bar> \<le> of_int max_time"
    using assms by (simp only: of_int_abs [symmetric] of_int_le_iff max_time_def)
  moreover have "\<bar>k * 1000\<bar> \<le> 2 ^ 53" using assms by simp
  ultimately show ?thesis using nmul_int [of k 1000] by (simp add: time_clip_def)
qed

lemma normalize_mock:
  assumes "pid \<noteq> []" and n: "n = a * 100" "0 < a" "a * 100 \<le> 2 ^ 53" and k: "1 \<le> k" "k \<le> 8640000000000"
    and p: "p = Obj [(''entity'', Str ''event''), (''account_id'', Str ''acc_mock_reviveos_01''),
       (''event'', Str ''payment.failed''), (''contains'', Arr [Str ''payment'']),
       (''payload'', Obj [(''payment'', Obj [(''entity'', mock_payment pid n secs)])]),
       (''created_at'', js_int k)]"
  obtains ev where "normalizeRazorpayEvent now p Undef = Inr ev" "has_type UnifiedPaymentEvent ev"
    "member ev ''paymentId'' = Str pid" "member ev ''amount'' = js_int a"
    "member ev ''eventId'' = Str (''evt_'' @ pid @ ''_'' @ to_str (js_int k))"
    "member ev ''failure'' = Obj [(''code'', Str ''BAD_REQUEST_ERROR''), (''reason'', Str ''payment_failed''),
       (''description'', Str ''Payment failed due to temporary issuer downtime''),
       (''step'', Str ''payment_authentication''), (''source'', Str ''bank'')]"
proof -
  have c: "customer_contact (mock_payment pid n secs) = (Str ''customer@example.com'', Str ''+919876543210'')"
    "failure_detail (mock_payment pid n secs) = Obj [(''code'', Str ''BAD_REQUEST_ERROR''), (''reason'', Str ''payment_failed''),
       (''description'', Str ''Payment failed due to temporary issuer downtime''),
       (''step'', Str ''payment_authentication''), (''source'', Str ''bank'')]"
    by (simp_all add: mock_payment_def customer_contact_def failure_detail_def)
  have m: "member (mock_payment pid n secs) ''id'' = Str pid" "member (mock_payment pid n secs) ''amount'' = js_int n"
    "member (mock_payment pid n secs) ''currency'' = Str ''INR''" "member (mock_payment pid n secs) ''method'' = Str ''card''"
    "member (mock_payment pid n secs) ''order_id'' = Undef" "member (mock_payment pid n secs) ''customer_id'' = Undef"
    "member (mock_payment pid n secs) ''bank'' = Undef"
    by (simp_all add: mock_payment_def)
  have t: "event_timestamp now' (js_int k) = Inr (iso_string (k * 1000))" for now'
    using k clip_seconds [OF k] to_iso_nint [of "k * 1000"] by (simp add: event_timestamp_def)
  have o1: "orv (Str pid) v = Str pid" for v using assms(1) by (simp add: orv_def)
  have o2: "orv (js_int k) v = js_int k" for v using k by (simp add: orv_def)
  have mt: "orv (mock_payment pid n secs) v = mock_payment pid n secs" for v by (simp add: mock_payment_def)
  have ma: "major_amount (js_int n) = nint a" using mock_major_amount [OF n(2,3)] by (simp only: n(1))
  show thesis
    by (rule that [of "Obj (fields_of (projr (normalizeRazorpayEvent now p Undef)))"])
      (simp_all add: normalize_steps parsed_body_def p nullish_def unified_event_def Let_def fields_of_def mt c m t o1 o2
        event_id_def header_event_id_def ma UnifiedPaymentEvent_def UnifiedFailureDetail_def)
qed

lemma js_ok_int [simp]: "\<bar>n\<bar> \<le> 2 ^ 53 \<Longrightarrow> js_ok (js_int n)"
  by simp

lemma json_image_int: "json_image (js_int n) = js_int n"
  by simp

lemma mock_payment_json:
  assumes "\<bar>n\<bar> \<le> 2 ^ 53" "\<bar>c\<bar> \<le> 2 ^ 53"
  shows "js_ok (mock_payment pid n (js_int c))" "json_image (mock_payment pid n (js_int c)) = mock_payment pid n (js_int c)"
  using assms by (simp_all add: mock_payment_def)



subsection \<open>The mock analysis\<close>

lemma bank_outage_typed:
  assumes "f = Undef \<or> has_type UnifiedFailureDetail f"
  obtains b where "is_bank_outage f = Inr b"
proof (cases "f = Undef")
  case True
  then show ?thesis using that [of False] by (simp add: is_bank_outage_def description_includes_def nullish_def)
next
  case False
  then have f: "has_type UnifiedFailureDetail f" using assms by simp
  obtain c where c: "member f ''code'' = Str c"
    using member_req [OF f [unfolded UnifiedFailureDetail_def], of "''code''" TText] TTextD by auto
  have d: "member f ''description'' = Undef \<or> (\<exists>s. member f ''description'' = Str s)"
    using member_opt [OF f [unfolded UnifiedFailureDetail_def], of "''description''" TText] TTextD by auto
  have "\<exists>b. description_includes f t = Inr b" for t
    using d by (auto simp: description_includes_def includes_in_def nullish_def)
  then obtain b1 b2 where "description_includes f ''downtime'' = Inr b1" "description_includes f ''issuer'' = Inr b2"
    by blast
  moreover obtain fs where "f = Obj fs" using f by (auto simp: UnifiedFailureDetail_def dest: TRecD)
  ultimately have "\<exists>b. is_bank_outage f = Inr b" using c
    by (cases "str_includes c ''BANK''"; cases b1)
      (simp_all add: is_bank_outage_def includes_in_def nullish_def ex_bool_eq del: seqE_Inr_iff)
  then show ?thesis using that by blast
qed

lemma mock_analysis:
  assumes "has_type UnifiedPaymentEvent ev"
  shows "\<exists>r outage. analyzeMockPayment now ev = Inr r \<and> is_bank_outage (member ev ''failure'') = Inr outage
    \<and> has_type PaymentAnalysisResult r
    \<and> (member r ''decision'', member r ''action'') =
       (if gt_num (member ev ''amount'') (nint 80000) then (Str ''BLOCK'', Str ''BLOCK'')
        else (Str ''RECOVER'', Str (if outage then ''RETRY_LATER'' else ''RETRY_NOW'')))
    \<and> member (member r ''fraudRisk'') ''expectedLoss'' =
       (if gt_num (member ev ''amount'') (nint 80000) then member ev ''amount'' else js_int 0)
    \<and> member r ''delaySeconds'' = js_int (if outage then 120 else 0)"
proof -
  obtain fs where ev: "ev = Obj fs" using assms by (auto simp: UnifiedPaymentEvent_def dest: TRecD)
  obtain n where n: "fld fs ''amount'' = Num n"
    using member_req [OF assms [unfolded UnifiedPaymentEvent_def], of "''amount''" TNum] TNumD by (auto simp: ev)
  obtain i where i: "fld fs ''paymentId'' = Str i"
    using member_req [OF assms [unfolded UnifiedPaymentEvent_def], of "''paymentId''" TText] TTextD by (auto simp: ev)
  obtain b where b: "is_bank_outage (fld fs ''failure'') = Inr b"
    using bank_outage_typed member_opt [OF assms [unfolded UnifiedPaymentEvent_def], of "''failure''" UnifiedFailureDetail]
    by (auto simp: ev)
  have d: "has_type TNum (dec x y)" "has_type TNum (if q then dec x y else dec x' y')" for x y x' y' q
    by (simp_all add: dec_def)
  show ?thesis
    by (rule exI [of _ "projr (analyzeMockPayment now ev)"], rule exI [of _ b])
      (simp add: analyzeMockPayment_def Let_def ev n i b to_iso_nint PaymentAnalysisResult_def FraudRiskScore_def
        CustomerHistorySummary_def d del: to_iso_Fin)
qed

lemma analyze_typed:
  "has_type UnifiedPaymentEvent ev \<Longrightarrow> \<exists>r. analyzeMockPayment now ev = Inr r \<and> has_type PaymentAnalysisResult r"
  using mock_analysis by blast

text \<open>
  The mock analysis of a well-typed event always returns a well-typed result, and its verdict follows
  the amount and the failure: it blocks exactly the events above 80000, and otherwise retries, later when
  the failure names a bank outage. The recommended delay follows the outage alone, so a blocked event of a
  bank outage still carries a delay of 120 seconds.
\<close>

theorem mock_analysis_decides:
  assumes "has_type UnifiedPaymentEvent ev"
  shows "\<exists>r outage. analyzeMockPayment now ev = Inr r \<and> is_bank_outage (member ev ''failure'') = Inr outage
    \<and> has_type PaymentAnalysisResult r
    \<and> (member r ''decision'', member r ''action'') =
       (if gt_num (member ev ''amount'') (nint 80000) then (Str ''BLOCK'', Str ''BLOCK'')
        else (Str ''RECOVER'', Str (if outage then ''RETRY_LATER'' else ''RETRY_NOW'')))
    \<and> member (member r ''fraudRisk'') ''expectedLoss'' =
       (if gt_num (member ev ''amount'') (nint 80000) then member ev ''amount'' else js_int 0)
    \<and> member r ''delaySeconds'' = js_int (if outage then 120 else 0)"
  using mock_analysis [OF assms] .

lemma mock_analysis_decides_witness:
  "let ev = Obj [(''provider'', Str ''mock''), (''eventType'', Str ''payment.failed''), (''eventId'', Str ''e''),
      (''paymentId'', Str ''p''), (''amount'', js_int 90000), (''currency'', Str ''INR''), (''timestamp'', Str ''t'')]
   in \<exists>r. analyzeMockPayment (\<lambda>_. 0) ev = Inr r \<and> member r ''decision'' = Str ''BLOCK''"
proof -
  have t: "has_type UnifiedPaymentEvent (Obj [(''provider'', Str ''mock''), (''eventType'', Str ''payment.failed''), (''eventId'', Str ''e''),
      (''paymentId'', Str ''p''), (''amount'', js_int 90000), (''currency'', Str ''INR''), (''timestamp'', Str ''t'')])"
    by (simp add: UnifiedPaymentEvent_def)
  show ?thesis using mock_analysis_decides [OF t, of "\<lambda>_. 0"] by (auto simp: gt_num_def)
qed

end
