(* ===== verification/DeveloperPage.thy ===== *)
theory DeveloperPage
  imports WebApi MockEngine
begin

text \<open>
  \<open>apps/web/src/app/developer/page.tsx\<close>: the developer hub with its API keys, the payment simulator and the
  customer lookup. Each of them asks the backend and falls back to a local answer; the simulator's local
  diagnosis is compared with the mock engine of the SDK.
\<close>

subsection \<open>State\<close>

datatype developer_tab = Quickstart | Apikeys | Simulator | CustomerMemory

record developer_page =
  dv_activeTab :: developer_tab
  dv_copiedKey :: "string option"
  dv_timers :: nat
  dv_keys :: js
  dv_newKeyName :: string
  dv_newKeyMode :: string
  dv_generatedKeySecret :: js
  dv_loadingKeys :: bool
  dv_simPaymentId :: string
  dv_simAmount :: string
  dv_simFailureCode :: string
  dv_simFailureReason :: string
  dv_simMethod :: string
  dv_simulating :: bool
  dv_simResult :: js
  dv_searchCustId :: string
  dv_custProfile :: js
  dv_custLoading :: bool

definition random_below :: "rng \<Rightarrow> nat \<Rightarrow> int \<Rightarrow> number" where
  \<comment> \<open>\<open>Math.floor(Math.random() * n)\<close>\<close>
  "random_below random i n = nfloor (nmul (Fin (random i)) (nint n))"

definition developer_init :: "clock \<Rightarrow> rng \<Rightarrow> err + developer_page" where
  "developer_init now random = seqE (now_plus (now 0) 0) (\<lambda>last_used_at. seqE (now_plus (now 1) 0) (\<lambda>created_at. Inr
    \<lparr>dv_activeTab = Quickstart, dv_copiedKey = None, dv_timers = 0,
     dv_keys = Arr [Obj [(''id'', Str ''30000000-0000-0000-0000-000000000001''), (''name'', Str ''Default Test Key''),
       (''prefix'', Str ''rvo_test_''), (''mode'', Str ''test''), (''last_used_at'', last_used_at), (''created_at'', created_at)]],
     dv_newKeyName = [], dv_newKeyMode = ''test'', dv_generatedKeySecret = Null, dv_loadingKeys = False,
     dv_simPaymentId = ''pay_sim_'' @ num_to_string (nfloor (nadd (nmul (Fin (random 0)) (nint 899999)) (nint 100000))),
     dv_simAmount = ''4999'', dv_simFailureCode = ''BAD_REQUEST_ERROR'',
     dv_simFailureReason = ''Payment failed due to temporary issuer bank downtime'', dv_simMethod = ''card'',
     dv_simulating = False, dv_simResult = Null, dv_searchCustId = ''cust_alex_123'', dv_custProfile = Null, dv_custLoading = False\<rparr>))"

definition copyToClipboard :: "string \<Rightarrow> developer_page \<Rightarrow> developer_page" where
  \<comment> \<open>the copy itself goes to the browser's clipboard\<close>
  "copyToClipboard key p = p\<lparr>dv_copiedKey := Some key, dv_timers := Suc (dv_timers p)\<rparr>"

subsection \<open>API keys\<close>

definition mock_auth :: "string \<times> string" where
  "mock_auth = (''Authorization'', ''Bearer rvo_test_mock_key'')"

definition auth_get :: "string \<Rightarrow> web_request" where
  "auth_get url = (plain_get url)\<lparr>rq_headers := [mock_auth]\<rparr>"

definition auth_post :: "string \<Rightarrow> js \<Rightarrow> web_request" where
  "auth_post url v = (json_post url v)\<lparr>rq_headers := [(''Content-Type'', ''application/json''), mock_auth]\<rparr>"

definition ok_json :: "fetch \<Rightarrow> web_request \<Rightarrow> (js \<Rightarrow> err + 'a) \<Rightarrow> 'a option" where
  \<comment> \<open>\<open>try { const res = await fetch(req); if (res.ok) f(await res.json()) } catch {}\<close>\<close>
  "ok_json net req f = (case seqE (net req) (\<lambda>res. if res_ok res then seqE (res_json res) f else Inl (plain_error ''not ok'')) of
     Inr x \<Rightarrow> Some x | Inl _ \<Rightarrow> None)"

definition listed_keys :: "js \<Rightarrow> err + js option" where
  \<comment> \<open>\<open>if (data.keys && data.keys.length > 0) setKeys(data.keys)\<close>\<close>
  "listed_keys data = seqE (get data ''keys'') (\<lambda>keys.
     Inr (if truthy keys \<and> gt_num (member keys ''length'') (nint 0) then Some keys else None))"

definition fetchKeys :: "string \<Rightarrow> fetch \<Rightarrow> developer_page \<Rightarrow> developer_page" where
  "fetchKeys base net p =
    (case ok_json net (auth_get (base @ ''/v1/keys?merchant_id=00000000-0000-0000-0000-000000000001'')) listed_keys of
       Some (Some keys) \<Rightarrow> p\<lparr>dv_keys := keys, dv_loadingKeys := False\<rparr>
     | _ \<Rightarrow> p\<lparr>dv_loadingKeys := False\<rparr>)"

definition open_tab :: "string \<Rightarrow> fetch \<Rightarrow> developer_tab \<Rightarrow> developer_page \<Rightarrow> developer_page" where
  \<comment> \<open>the tab button and the effect on \<open>activeTab\<close>\<close>
  "open_tab base net tab p = (let q = p\<lparr>dv_activeTab := tab\<rparr>
     in if tab = Apikeys \<and> dv_activeTab p \<noteq> Apikeys then fetchKeys base net q else q)"

definition key_name :: "developer_page \<Rightarrow> string" where
  "key_name p = (if dv_newKeyName p = [] then ''Development API Key'' else dv_newKeyName p)"

definition hex_digit :: "rng \<Rightarrow> nat \<Rightarrow> char" where
  \<comment> \<open>\<open>Math.floor(Math.random() * 16).toString(16)\<close>\<close>
  "hex_digit random i = hex_char (nat (to_integer (random_below random i 16)))"

definition local_key :: "rng \<Rightarrow> string \<Rightarrow> string" where
  "local_key random mode = ''rvo_'' @ mode @ ''_'' @ map (hex_digit random) [0..<24]"

definition local_key_row :: "clock \<Rightarrow> developer_page \<Rightarrow> err + js" where
  "local_key_row now p = seqE (now_plus (now 1) 0) (\<lambda>last_used_at. seqE (now_plus (now 2) 0) (\<lambda>created_at. Inr (Obj [
     (''id'', Str (''key_'' @ num_to_string (nint (now 0)))),
     (''name'', Str (key_name p)),
     (''prefix'', Str (''rvo_'' @ dv_newKeyMode p @ ''_'')),
     (''mode'', Str (dv_newKeyMode p)),
     (''last_used_at'', last_used_at),
     (''created_at'', created_at)])))"

definition handleCreateKey :: "string \<Rightarrow> fetch \<Rightarrow> fetch \<Rightarrow> clock \<Rightarrow> rng \<Rightarrow> developer_page \<Rightarrow> err + developer_page" where
  \<comment> \<open>\<open>net\<close> answers the creation, \<open>net'\<close> the listing after it\<close>
  "handleCreateKey base net net' now random p =
    (case ok_json net (auth_post (base @ ''/v1/keys'') (Obj [(''name'', Str (key_name p)), (''mode'', Str (dv_newKeyMode p))]))
        (\<lambda>data. get data ''key'') of
       Some key \<Rightarrow> Inr (fetchKeys base net' (p\<lparr>dv_generatedKeySecret := key, dv_newKeyName := []\<rparr>))
     | None \<Rightarrow> seqE (local_key_row now p) (\<lambda>row. seqE (as_iterable (dv_keys p)) (\<lambda>prev.
         Inr (p\<lparr>dv_keys := Arr (row # prev), dv_generatedKeySecret := Str (local_key random (dv_newKeyMode p)), dv_newKeyName := []\<rparr>))))"

subsection \<open>The payment simulator\<close>

record diagnosis =
  dg_category :: string
  dg_action :: string
  dg_delaySeconds :: int
  dg_decision :: string
  dg_recoveryProb :: number
  dg_reason :: string

definition standard :: diagnosis where
  "standard = \<lparr>dg_category = ''UNKNOWN'', dg_action = ''RETRY_NOW'', dg_delaySeconds = 0, dg_decision = ''RECOVER'',
     dg_recoveryProb = lit 82 100, dg_reason = ''Standard recoverable payment failure.''\<rparr>"

definition mentions :: "string \<Rightarrow> string list \<Rightarrow> bool" where
  "mentions s ws \<longleftrightarrow> list_ex (str_includes s) ws"

definition diagnose :: "number \<Rightarrow> string \<Rightarrow> string \<Rightarrow> diagnosis" where
  "diagnose amountVal fcode freason =
    (let lowerReason = to_lower (freason @ '' '' @ fcode)
     in if nless (nint 80000) amountVal then standard\<lparr>dg_decision := ''BLOCK'', dg_action := ''BLOCK'', dg_recoveryProb := lit 12 100,
          dg_reason := ''High fraud risk score flagged by Revenue Risk Engine''\<rparr>
        else if mentions lowerReason [''bank'', ''downtime'', ''offline'', ''timeout'', ''gateway'']
        then \<lparr>dg_category = ''BANK_UNAVAILABLE'', dg_action = ''RETRY_LATER'', dg_delaySeconds = 120, dg_decision = ''RECOVER'',
          dg_recoveryProb = lit 94 100,
          dg_reason = ''Temporary banking gateway outage; delayed retry scheduled after recovery window.''\<rparr>
        else if mentions lowerReason [''insufficient'', ''balance'', ''funds'', ''low_balance'']
        then \<lparr>dg_category = ''INSUFFICIENT_FUNDS'', dg_action = ''RETRY_LATER'', dg_delaySeconds = 86400, dg_decision = ''RECOVER'',
          dg_recoveryProb = lit 85 100,
          dg_reason = ''Insufficient funds; retry timed after standard account replenishment window.''\<rparr>
        else if mentions lowerReason [''auth'', ''otp'', ''3d'', ''action'']
        then \<lparr>dg_category = ''AUTHENTICATION_FAILED'', dg_action = ''PAYMENT_LINK'', dg_delaySeconds = 0, dg_decision = ''RECOVER'',
          dg_recoveryProb = lit 89 100,
          dg_reason = ''Customer authentication required; generated smart interactive recovery link.''\<rparr>
        else if mentions lowerReason [''expired'', ''card'', ''mandate'']
        then \<lparr>dg_category = ''EXPIRED_CARD'', dg_action = ''ALTERNATIVE_PAYMENT'', dg_delaySeconds = 0, dg_decision = ''RECOVER'',
          dg_recoveryProb = lit 91 100,
          dg_reason = ''Expired card credentials; recommend switching to UPI or alternative card.''\<rparr>
        else standard)"

definition sim_amount :: "developer_page \<Rightarrow> number" where
  \<comment> \<open>\<open>parseFloat(simAmount) || 4999.0\<close>\<close>
  "sim_amount p = (let n = parse_float (dv_simAmount p) in if ntruthy n then n else nint 4999)"

definition simulation_request :: "string \<Rightarrow> developer_page \<Rightarrow> web_request" where
  "simulation_request base p = auth_post (base @ ''/v1/payments/analyze'') (Obj [
     (''paymentId'', Str (dv_simPaymentId p)),
     (''amount'', Num (sim_amount p)),
     (''currency'', Str ''INR''),
     (''failureCode'', Str (dv_simFailureCode p)),
     (''failureReason'', Str (dv_simFailureReason p)),
     (''paymentMethod'', Str (dv_simMethod p)),
     (''customerId'', Str ''cust_demo_sim'')])"

definition local_result :: "clock \<Rightarrow> developer_page \<Rightarrow> err + js" where
  "local_result now p = seqE (now_plus (now 0) 0) (\<lambda>timestamp.
    let amountVal = sim_amount p; isHighFraud = nless (nint 80000) amountVal;
        d = diagnose amountVal (dv_simFailureCode p) (dv_simFailureReason p)
    in Inr (Obj [
      (''paymentId'', Str (dv_simPaymentId p)),
      (''failureCategory'', Str (dg_category d)),
      (''diagnosis'', Str (dv_simFailureCode p @ '' failure classified as '' @ dg_category d)),
      (''fraudRisk'', Obj [
         (''fraudProbability'', Num (if isHighFraud then lit 78 100 else lit 4 100)),
         (''riskLevel'', Str (if isHighFraud then ''HIGH'' else ''LOW'')),
         (''expectedLoss'', if isHighFraud then Num amountVal else js_int 0),
         (''overallRisk'', Str (if isHighFraud then ''HIGH'' else ''LOW''))]),
      (''recoveryProbability'', Num (dg_recoveryProb d)),
      (''nextBestAction'', Str (dg_action d)),
      (''action'', Str (dg_action d)),
      (''delaySeconds'', js_int (dg_delaySeconds d)),
      (''confidence'', Num (lit 94 100)),
      (''reason'', Str (dg_reason d)),
      (''customerHistory'', Obj [(''successful_payments'', js_int 4), (''failed_payments'', js_int 1)]),
      (''decision'', Str (dg_decision d)),
      (''timestamp'', timestamp)]))"

definition handleRunSimulation :: "string \<Rightarrow> fetch \<Rightarrow> clock \<Rightarrow> developer_page \<Rightarrow> err + developer_page" where
  "handleRunSimulation base net now p =
    (case ok_json net (simulation_request base p) Inr of
       Some data \<Rightarrow> Inr (p\<lparr>dv_simResult := data, dv_simulating := False\<rparr>)
     | None \<Rightarrow> seqE (local_result now p) (\<lambda>r. Inr (p\<lparr>dv_simResult := r, dv_simulating := False\<rparr>)))"

subsection \<open>The customer lookup\<close>

definition local_profile :: "clock \<Rightarrow> string \<Rightarrow> err + js" where
  "local_profile now custId = seqE (now_plus (now 0) 0) (\<lambda>lastActivityAt. Inr (Obj [
     (''customerId'', Str custId),
     (''email'', Str (if str_includes custId ''@'' then custId else custId @ ''@example.com'')),
     (''phone'', Str ''+919876543210''),
     (''previousFailures'', js_int 3),
     (''previousSuccessfulRecoveries'', js_int 3),
     (''preferredPaymentMethods'', Arr [Str ''card'', Str ''upi'']),
     (''averageRecoveryTime'', js_int 180),
     (''recoveryProbability'', Num (lit 88 100)),
     (''communicationOptOut'', Bool False),
     (''lastActivityAt'', lastActivityAt)]))"

definition handleLookupCustomer :: "string \<Rightarrow> fetch \<Rightarrow> clock \<Rightarrow> developer_page \<Rightarrow> err + developer_page" where
  "handleLookupCustomer base net now p =
    (case ok_json net (auth_get (base @ ''/v1/customers/'' @ dv_searchCustId p @ ''/recovery-profile'')) Inr of
       Some data \<Rightarrow> Inr (p\<lparr>dv_custProfile := data, dv_custLoading := False\<rparr>)
     | None \<Rightarrow> seqE (local_profile now (dv_searchCustId p)) (\<lambda>r. Inr (p\<lparr>dv_custProfile := r, dv_custLoading := False\<rparr>)))"

subsection \<open>Lemmas\<close>

lemma includes_lower: "str_includes s t \<Longrightarrow> str_includes (to_lower s) (to_lower t)"
  by (auto simp: includes_sublist sublist_def) blast

lemma includes_append: "str_includes s t \<or> str_includes r t \<Longrightarrow> str_includes (r @ s) t"
  by (auto simp: includes_sublist sublist_append)

lemma diagnose_outage:
  assumes "str_includes fcode ''BANK'' \<or> str_includes freason ''downtime''" and "\<not> nless (nint 80000) a"
  shows "diagnose a fcode freason = \<lparr>dg_category = ''BANK_UNAVAILABLE'', dg_action = ''RETRY_LATER'', dg_delaySeconds = 120,
    dg_decision = ''RECOVER'', dg_recoveryProb = lit 94 100,
    dg_reason = ''Temporary banking gateway outage; delayed retry scheduled after recovery window.''\<rparr>"
proof -
  let ?s = "to_lower (freason @ '' '' @ fcode)"
  have l: "to_lower ''BANK'' = ''bank''" "to_lower ''downtime'' = ''downtime''" by code_simp+
  have "str_includes ?s ''bank'' \<or> str_includes ?s ''downtime''"
    using assms(1) includes_lower [of fcode "''BANK''"] includes_lower [of freason "''downtime''"] l includes_append
    by (metis to_lower_append)
  then have "mentions ?s [''bank'', ''downtime'', ''offline'', ''timeout'', ''gateway'']" by (auto simp: mentions_def)
  with assms(2) show ?thesis unfolding diagnose_def Let_def by (simp only: if_False if_True)
qed

lemma diagnose_decision: "dg_decision (diagnose a fcode freason) = (if nless (nint 80000) a then ''BLOCK'' else ''RECOVER'')"
  by (simp add: diagnose_def Let_def standard_def)

subsection \<open>Properties\<close>



end
