(* ===== verification/DeveloperView.thy ===== *)
theory DeveloperView
  imports DeveloperPage Components
begin

text \<open>
  What \<open>apps/web/src/app/developer/page.tsx\<close> renders, and what its controls do: the quick start, the API keys, the
  simulator with its result as indented JSON, the customer lookup.
\<close>

subsection \<open>Controls\<close>

datatype developer_action = Copy_key string | Fetch_keys | Create_key | Run_simulation | Lookup_customer
  | Open_developer_tab js | Type_developer string js

type_synonym developer_event = "fetch \<times> fetch \<times> clock \<times> rng \<times> developer_action"

fun tab_id :: "developer_tab \<Rightarrow> string" where
  "tab_id Quickstart = ''quickstart''"
| "tab_id Apikeys = ''apikeys''"
| "tab_id Simulator = ''simulator''"
| "tab_id CustomerMemory = ''customerMemory''"

definition tab_named :: "js \<Rightarrow> developer_tab option" where
  "tab_named v = find (\<lambda>t. Str (tab_id t) = v) [Quickstart, Apikeys, Simulator, CustomerMemory]"

definition developer_typed :: "string \<Rightarrow> js \<Rightarrow> developer_page \<Rightarrow> developer_page" where
  "developer_typed k v p = (if k = ''newKeyName'' then p\<lparr>dv_newKeyName := to_str v\<rparr>
     else if k = ''newKeyMode'' then p\<lparr>dv_newKeyMode := to_str v\<rparr>
     else if k = ''simPaymentId'' then p\<lparr>dv_simPaymentId := to_str v\<rparr>
     else if k = ''simAmount'' then p\<lparr>dv_simAmount := to_str v\<rparr>
     else if k = ''simFailureCode'' then p\<lparr>dv_simFailureCode := to_str v\<rparr>
     else if k = ''simFailureReason'' then p\<lparr>dv_simFailureReason := to_str v\<rparr>
     else if k = ''searchCustId'' then p\<lparr>dv_searchCustId := to_str v\<rparr> else p)"

definition unless_thrown :: "'s \<Rightarrow> 'e + 's \<Rightarrow> 's" where
  "unless_thrown s r = (case r of Inl _ \<Rightarrow> s | Inr s' \<Rightarrow> s')"

fun developer_do :: "string \<Rightarrow> developer_event \<Rightarrow> developer_page \<Rightarrow> developer_page" where
  "developer_do base (net, net', now, random, Copy_key k) p = copyToClipboard k p"
| "developer_do base (net, net', now, random, Fetch_keys) p = fetchKeys base net p"
| "developer_do base (net, net', now, random, Create_key) p = unless_thrown p (handleCreateKey base net net' now random p)"
| "developer_do base (net, net', now, random, Run_simulation) p = unless_thrown p (handleRunSimulation base net now p)"
| "developer_do base (net, net', now, random, Lookup_customer) p =
     unless_thrown (p\<lparr>dv_custProfile := Null\<rparr>) (handleLookupCustomer base net now p)"
| "developer_do base (net, net', now, random, Open_developer_tab v) p =
     (case tab_named v of Some t \<Rightarrow> open_tab base net t p | None \<Rightarrow> p)"
| "developer_do base (net, net', now, random, Type_developer k v) p = developer_typed k v p"

subsection \<open>Indented JSON\<close>

definition spaces :: "nat \<Rightarrow> string" where
  \<comment> \<open>a new line, indented to the depth\<close>
  "spaces n = CHR 0x0A # replicate (2 * n) (CHR '' '')"

fun json_pretty :: "nat \<Rightarrow> js \<Rightarrow> string"
  and pretty_items :: "nat \<Rightarrow> js list \<Rightarrow> string list"
  and pretty_fields :: "nat \<Rightarrow> (string \<times> js) list \<Rightarrow> string list" where
  \<comment> \<open>\<open>JSON.stringify(v, null, 2)\<close> at a depth\<close>
  "json_pretty n (Arr xs) = (if xs = [] then ''[]''
     else ''['' @ spaces (Suc n) @ join ('','' @ spaces (Suc n)) (pretty_items (Suc n) xs) @ spaces n @ '']'')"
| "json_pretty n (Obj fs) = (if pretty_fields (Suc n) fs = [] then ''{}''
     else ''{'' @ spaces (Suc n) @ join ('','' @ spaces (Suc n)) (pretty_fields (Suc n) fs) @ spaces n @ ''}'')"
| "json_pretty n v = json_print v"
| "pretty_items n [] = []"
| "pretty_items n (x # xs) = json_pretty n x # pretty_items n xs"
| "pretty_fields n [] = []"
| "pretty_fields n ((k, v) # fs) = (if v = Undef then pretty_fields n fs else (quote k @ '': '' @ json_pretty n v) # pretty_fields n fs)"

subsection \<open>The page\<close>

definition developer_header :: "developer_page \<Rightarrow> developer_action view" where
  "developer_header p =
    node ''div'' [
      node ''div'' [
        node ''div'' [node ''span'' [say ''ONE-COMMAND INTEGRATION''], node ''span'' [say ''Razorpay AI Layer'']],
        node ''h1'' [say ''Plug AI Payment Recovery into Razorpay in 60 Seconds''],
        node ''p'' [
          say ''ReviveOS does '',
          node ''strong'' [say ''not''],
          say '' replace Razorpay and does '',
          node ''strong'' [say ''not''],
          say
              '' proxy regular traffic. Successful payments flow directly to Razorpay; failures trigger ReviveOS intelligence and autonomous recovery.'']],
      node ''div'' [
        node ''div'' [
          node ''span'' [say ''$ npx reviveos init''],
          el ''button'' [(''title'', Inr (Str ''Copy command''))] [(''onClick'', \<lambda>_. Copy_key ''cmd'')] [
            if opt_text (dv_copiedKey p) = Str ''cmd'' then icon ''Check'' else icon ''Copy'']]]]"

definition developer_tabs :: "developer_page \<Rightarrow> developer_action view" where
  "developer_tabs p =
    node ''div'' [
      each ([Obj [(''id'', Str ''quickstart''), (''label'', Str ''1-Command Setup & Docs''), (''icon'', Str ''Terminal'')],
          Obj [(''id'', Str ''apikeys''), (''label'', Str ''API Keys & Secrets''), (''icon'', Str ''Key'')], Obj [(''id'',
          Str ''simulator''), (''label'', Str ''AI Recovery Simulator''), (''icon'', Str ''Play'')], Obj [(''id'', Str
          ''customerMemory''), (''label'', Str ''Customer Recovery Memory''), (''icon'', Str ''Database'')]]) (\<lambda>tab. 
        let Icon = to_str (member tab ''icon'') in
          let isActive = Str (tab_id (dv_activeTab p)) = member tab ''id'' in
            el ''button'' [
                (''key'', Inr (member tab ''id'')),
                (''style.borderBottom'', Inr (Str (if isActive then ''2px solid var(--color-accent-blue)'' else
                    ''2px solid transparent''))),
                (''style.color'', Inr (Str (if isActive then ''var(--color-accent-blue)'' else ''var(--text-secondary)''))),
                (''style.fontWeight'', Inr (Num (if isActive then nint 600 else nint 500)))]
              [(''onClick'', \<lambda>_. Open_developer_tab (member tab ''id''))] [
              icon Icon,
              node ''span'' [put (member tab ''label'')]])]"

definition quickstart_tab :: "developer_action view" where
  "quickstart_tab =
    node ''div'' [
      node ''div'' [
        node ''div'' [node ''div'' [say ''1''], node ''h3'' [say ''Install & Configure with CLI'']],
        node ''p'' [say ''Run the official setup in your existing Next.js, Express, or Node.js Razorpay repository:''],
        node ''div'' [
          node ''div'' [say ''# 1. Install ReviveOS Razorpay SDK''],
          node ''div'' [say ''npm install @reviveos/razorpay''],
          node ''div'' [say ''# 2. Run the ReviveOS Auto-Configurator''],
          node ''div'' [say ''npx reviveos init'']],
        node ''div'' [
          say
              ''The CLI automatically detects your project framework, generates environment variables, and creates a ready-to-use webhook endpoint.'']],
      node ''div'' [
        node ''div'' [node ''div'' [say ''2''], node ''h3'' [say ''Generated Webhook Route'']],
        node ''div'' [say ''app/api/reviveos/webhook/route.ts''],
        node ''div'' [
          node ''pre'' [
            put (Str (''import { NextResponse } from '' @ [CHR 0x22] @ ''next/server'' @ [CHR 0x22] @ '';'' @ [CHR 0x0A] @
                ''import { ReviveOS } from '' @ [CHR 0x22] @ ''@reviveos/razorpay'' @ [CHR 0x22] @ '';'' @ [CHR 0x0A, CHR
                0x0A] @ ''const revive = new ReviveOS({'' @ [CHR 0x0A] @ ''  apiKey: process.env.REVIVEOS_API_KEY,'' @ [CHR
                0x0A] @ ''  webhookSecret: process.env.RAZORPAY_WEBHOOK_SECRET,'' @ [CHR 0x0A] @ ''});'' @ [CHR 0x0A, CHR
                0x0A] @ ''export async function POST(req: Request) {'' @ [CHR 0x0A] @ ''  const rawBody = await req.text();''
                @ [CHR 0x0A] @ ''  const signature = req.headers.get('' @ [CHR 0x22] @ ''x-razorpay-signature'' @ [CHR 0x22]
                @ '');'' @ [CHR 0x0A, CHR 0x0A] @ ''  // 1. Verify HMAC signature & normalize event'' @ [CHR 0x0A] @
                ''  const event = revive.webhooks.verifyAndNormalize(rawBody, signature);'' @ [CHR 0x0A, CHR 0x0A] @
                ''  // 2. Ingest into ReviveOS AI pipeline'' @ [CHR 0x0A] @
                ''  const result = await revive.events.process(event);'' @ [CHR 0x0A, CHR 0x0A] @
                ''  return NextResponse.json(result);'' @ [CHR 0x0A] @ ''}''))]]],
      node ''div'' [
        node ''h3'' [say ''End-to-End Autonomous Pipeline Architecture''],
        node ''div'' [
          each_i ([Obj [(''step'', Str ''1. Ingest''), (''desc'', Str ''Webhook signature verified & idempotency checked''),
              (''color'', Str ''var(--color-accent-blue)'')], Obj [(''step'', Str ''2. Diagnose''), (''desc'', Str
              ''Deterministic failure classification''), (''color'', Str ''#8b5cf6'')], Obj [(''step'', Str
              ''3. Risk Guard''), (''desc'', Str ''Random Forest fraud & return risk scoring''), (''color'', Str
              ''#f59e0b'')], Obj [(''step'', Str ''4. Predict''), (''desc'', Str
              ''Logistic recovery probability estimation''), (''color'', Str ''#10b981'')], Obj [(''step'', Str
              ''5. Decide''), (''desc'', Str ''Next Best Action & Optimal Timing''), (''color'', Str ''#06b6d4'')], Obj
              [(''step'', Str ''6. Execute''), (''desc'', Str ''Razorpay payment link or delayed retry''), (''color'', Str
              ''#ec4899'')]]) (\<lambda>idx item. 
            el ''div'' [(''key'', Inr (Num (nint (int idx))))] [] [
              el ''div'' [(''style.color'', get item ''color'')] [] [eval (get item ''step'')],
              node ''div'' [eval (get item ''desc'')]])]]]"

definition keys_panel :: "locale_fns \<Rightarrow> developer_page \<Rightarrow> developer_action view" where
  "keys_panel lc p =
    node ''div'' [
      node ''div'' [
        node ''h3'' [say ''Active API Keys''],
        el ''button'' [] [(''onClick'', \<lambda>_. Fetch_keys)] [icon ''RefreshCw'', node ''span'' [say ''Refresh'']]],
      show_if (dv_generatedKeySecret p) (
        node ''div'' [
          node ''div'' [say ''New API Key Generated Successfully!''],
          node ''p'' [say ''Make sure to copy your API key now as you will not be able to see it again.''],
          node ''div'' [
            node ''span'' [put (dv_generatedKeySecret p)],
            el ''button'' [] [(''onClick'', \<lambda>_. Copy_key ''secret'')] [
              if opt_text (dv_copiedKey p) = Str ''secret'' then icon ''Check'' else icon ''Copy'']]]),
      node ''table'' [
        node ''thead'' [
          node ''tr'' [
            node ''th'' [say ''NAME''],
            node ''th'' [say ''KEY PREFIX''],
            node ''th'' [say ''MODE''],
            node ''th'' [say ''CREATED'']]],
        node ''tbody'' [
          seqE (as_array (dv_keys p)) (\<lambda>xs7. each_i xs7 (\<lambda>i k. 
            el ''tr'' [(''key'', Inr (Num (nint (int i))))] [] [
              node ''td'' [eval (get k ''name'')],
              node ''td'' [
                eval (get k ''prefix''),
                say [CHR 0xE2, CHR 0x80, CHR 0xA2, CHR 0xE2, CHR 0x80, CHR 0xA2, CHR 0xE2, CHR 0x80, CHR 0xA2, CHR 0xE2, CHR
                    0x80, CHR 0xA2, CHR 0xE2, CHR 0x80, CHR 0xA2, CHR 0xE2, CHR 0x80, CHR 0xA2, CHR 0xE2, CHR 0x80, CHR 0xA2,
                    CHR 0xE2, CHR 0x80, CHR 0xA2]],
              node ''td'' [
                el ''span'' [
                    (''style.background'', seqE (seqE (get k ''mode'') (\<lambda>v1. Inr (Bool (v1 = Str ''live''))))
                        (\<lambda>v2. Inr (Str (if truthy v2 then ''rgba(16, 185, 129, 0.15)'' else
                        ''rgba(14, 165, 233, 0.15)'')))),
                    (''style.color'', seqE (seqE (get k ''mode'') (\<lambda>v3. Inr (Bool (v3 = Str ''live''))))
                        (\<lambda>v4. Inr (Str (if truthy v4 then ''var(--color-green)'' else
                        ''var(--color-accent-blue)''))))] [] [
                  eval (seqE (get k ''mode'') (\<lambda>v5. upper v5))]],
              node ''td'' [
                eval (seqE (get k ''created_at'') (\<lambda>v6. Inr (Str (loc_moment lc ''toLocaleDateString()'' v6))))]]))]]]"

definition key_form :: "developer_page \<Rightarrow> developer_action view" where
  "key_form p =
    node ''div'' [
      node ''h3'' [say ''Generate Key''],
      el ''form'' [] [(''onSubmit'', \<lambda>_. Create_key)] [
        node ''div'' [
          node ''label'' [say ''Key Name''],
          el ''input'' [
              (''type'', Inr (Str ''text'')),
              (''placeholder'', Inr (Str ''e.g. Production Backend'')),
              (''value'', Inr (Str (dv_newKeyName p))),
              (''required'', Inr (Bool True))] [(''onChange'', Type_developer ''newKeyName'')] []],
        node ''div'' [
          node ''label'' [say ''Environment Mode''],
          el ''select'' [(''value'', Inr (Str (dv_newKeyMode p)))] [(''onChange'', Type_developer ''newKeyMode'')] [
            el ''option'' [(''value'', Inr (Str ''test''))] [] [say ''Test Sandbox (rvo_test_...)''],
            el ''option'' [(''value'', Inr (Str ''live''))] [] [say ''Production Live (rvo_live_...)'']]],
        el ''button'' [(''type'', Inr (Str ''submit''))] [] [say ''Create API Key'']]]"

definition apikeys_tab :: "locale_fns \<Rightarrow> developer_page \<Rightarrow> developer_action view" where
  "apikeys_tab lc p =
    node ''div'' [keys_panel lc p, key_form p]"

definition simulation_form :: "developer_page \<Rightarrow> developer_action view" where
  "simulation_form p =
    node ''div'' [
      node ''h3'' [say ''Simulate Razorpay Failure''],
      node ''div'' [
        node ''div'' [
          node ''label'' [say ''Payment ID''],
          el ''input'' [
              (''type'', Inr (Str ''text'')),
              (''value'', Inr (Str (dv_simPaymentId p)))] [(''onChange'', Type_developer ''simPaymentId'')] []],
        node ''div'' [
          node ''label'' [say (''Amount ('' @ [CHR 0xE2, CHR 0x82, CHR 0xB9] @ '' INR)'')],
          el ''input'' [
              (''type'', Inr (Str ''number'')),
              (''value'', Inr (Str (dv_simAmount p)))] [(''onChange'', Type_developer ''simAmount'')] []],
        node ''div'' [
          node ''label'' [say ''Razorpay Error Code''],
          el ''select'' [(''value'', Inr (Str (dv_simFailureCode p)))] [(''onChange'', Type_developer ''simFailureCode'')] [
            el ''option'' [(''value'', Inr (Str ''BAD_REQUEST_ERROR''))] [] [
              say ''BAD_REQUEST_ERROR (Bank Issue / Balance)''],
            el ''option'' [(''value'', Inr (Str ''GATEWAY_ERROR''))] [] [say ''GATEWAY_ERROR (Gateway Timeout)''],
            el ''option'' [(''value'', Inr (Str ''AUTHENTICATION_FAILED''))] [] [say ''AUTHENTICATION_FAILED (OTP / 3DS)''],
            el ''option'' [(''value'', Inr (Str ''CARD_EXPIRED''))] [] [say ''CARD_EXPIRED (Expired Card)'']]],
        node ''div'' [
          node ''label'' [say ''Error Description''],
          el ''input'' [
              (''type'', Inr (Str ''text'')),
              (''value'', Inr (Str (dv_simFailureReason p)))] [(''onChange'', Type_developer ''simFailureReason'')] []],
        el ''button'' [
            (''disabled'', Inr (Bool (dv_simulating p))),
            (''style.cursor'', Inr (Str (if dv_simulating p then ''not-allowed'' else ''pointer'')))]
          [(''onClick'', \<lambda>_. Run_simulation)] [
          icon ''Play'',
          node ''span'' [put (Str (if dv_simulating p then ''Analyzing Failure...'' else ''Trigger AI Analysis''))]]]]"

definition simulation_result :: "developer_page \<Rightarrow> developer_action view" where
  "simulation_result p =
    node ''div'' [
      node ''h3'' [say ''AI Pipeline Diagnosis Output''],
      if truthy (dv_simResult p)
        then node ''div'' [
            node ''div'' [
              node ''div'' [
                node ''div'' [say ''CLASSIFICATION''],
                node ''div'' [put (orv (member (dv_simResult p) ''failureCategory'') (Str ''UNKNOWN''))]],
              node ''div'' [
                node ''div'' [say ''RECOVERY PROBABILITY''],
                node ''div'' [
                  put (Str (if truthy (member (dv_simResult p) ''recoveryProbability'') then to_fixed 1 (nmul (to_num (member
                      (dv_simResult p) ''recoveryProbability'')) (nint 100)) @ ''%'' else ''N/A''))]],
              node ''div'' [
                node ''div'' [say ''FRAUD RISK''],
                el ''div'' [
                    (''style.color'', Inr (Str (if member (member (dv_simResult p) ''fraudRisk'') ''riskLevel'' = Str
                        ''HIGH'' then ''var(--color-red)'' else ''var(--color-green)'')))] [] [
                  put (orv (member (member (dv_simResult p) ''fraudRisk'') ''riskLevel'') (Str ''LOW'')),
                  say '' ('',
                  eval (fixed 1 (orv (Num (nmul (to_num (member (member (dv_simResult p) ''fraudRisk'')
                      ''fraudProbability'')) (nint 100))) (Num (nint 4)))),
                  say ''%)'']],
              node ''div'' [
                node ''div'' [say ''NEXT BEST ACTION''],
                node ''div'' [
                  put (orv (member (dv_simResult p) ''action'') (Str ''RETRY_NOW'')),
                  say '' '',
                  put (Str (if truthy (member (dv_simResult p) ''delaySeconds'') then ''('' @ to_str (member (dv_simResult p)
                      ''delaySeconds'') @ ''s delay)'' else []))]]],
            node ''div'' [
              node ''div'' [say ''AI Reasoning & Diagnosis:''],
              node ''div'' [put (orv (member (dv_simResult p) ''reason'') (member (dv_simResult p) ''diagnosis''))]],
            node ''div'' [say ''Raw JSON Response:''],
            node ''pre'' [put (Str (json_pretty 0 (dv_simResult p)))]]
        else node ''div'' [
            icon ''Play'',
            node ''div'' [
              say (''Select error parameters on the left and click '' @ [CHR 0x22] @ ''Trigger AI Analysis'' @ [CHR 0x22] @
                  '' to view real-time pipeline inference.'')]]]"

definition simulator_tab :: "developer_page \<Rightarrow> developer_action view" where
  "simulator_tab p =
    node ''div'' [simulation_form p, simulation_result p]"

definition memory_tab :: "developer_page \<Rightarrow> developer_action view" where
  "memory_tab p =
    node ''div'' [
      node ''div'' [
        node ''h3'' [say ''Customer Recovery Memory Profile''],
        el ''form'' [] [(''onSubmit'', \<lambda>_. Lookup_customer)] [
          el ''input'' [
              (''type'', Inr (Str ''text'')),
              (''placeholder'', Inr (Str ''Customer ID or Email (e.g. cust_alex_123)'')),
              (''value'', Inr (Str (dv_searchCustId p))),
              (''required'', Inr (Bool True))] [(''onChange'', Type_developer ''searchCustId'')] [],
          el ''button'' [(''type'', Inr (Str ''submit''))] [] [
            put (Str (if dv_custLoading p then ''Searching...'' else ''Lookup Profile''))]]],
      show_if (dv_custProfile p) (
        node ''div'' [
          node ''div'' [
            node ''div'' [
              node ''h4'' [put (member (dv_custProfile p) ''customerId'')],
              node ''span'' [put (orv (member (dv_custProfile p) ''email'') (Str ''No email attached''))]],
            el ''span'' [
                (''style.color'', Inr (Str (if nless (lit 7 10) (to_num (member (dv_custProfile p) ''recoveryProbability''))
                    then ''var(--color-green)'' else ''var(--color-accent-blue)'')))] [] [
              say ''Historical Recovery Rate: '',
              put (Str (to_fixed 1 (nmul (to_num (member (dv_custProfile p) ''recoveryProbability'')) (nint 100)))),
              say ''%'']],
          node ''div'' [
            node ''div'' [
              node ''div'' [say ''PREVIOUS FAILURES''],
              node ''div'' [put (member (dv_custProfile p) ''previousFailures'')]],
            node ''div'' [
              node ''div'' [say ''SUCCESSFUL RECOVERIES''],
              node ''div'' [put (member (dv_custProfile p) ''previousSuccessfulRecoveries'')]],
            node ''div'' [
              node ''div'' [say ''AVG RECOVERY TIME''],
              node ''div'' [put (member (dv_custProfile p) ''averageRecoveryTime''), say ''s'']]],
          node ''div'' [
            node ''div'' [say ''Preferred Payment Methods:''],
            node ''div'' [
              seqE (as_array (member (dv_custProfile p) ''preferredPaymentMethods'')) (\<lambda>xs8. each_i xs8 (\<lambda>i
                  m. 
                el ''span'' [(''key'', Inr (Num (nint (int i))))] [] [eval (upper m)]))]]])]"

definition developer_view :: "locale_fns \<Rightarrow> developer_page \<Rightarrow> developer_action view" where
  "developer_view lc p =
    node ''div'' [
      developer_header p,
      developer_tabs p,
      show_when (dv_activeTab p = Quickstart) (quickstart_tab),
      show_when (dv_activeTab p = Apikeys) (apikeys_tab lc p),
      show_when (dv_activeTab p = Simulator) (simulator_tab p),
      show_when (dv_activeTab p = CustomerMemory) (memory_tab p)]"

subsection \<open>Rendering\<close>

definition KeyRow :: ty where
  "KeyRow = TRec [Req ''mode'' TText]"

definition ProfileT :: ty where
  "ProfileT = TRec [Req ''preferredPaymentMethods'' (TArr TText)]"

definition developer_sound :: "developer_page \<Rightarrow> bool" where
  "developer_sound p \<longleftrightarrow> has_type (TArr KeyRow) (dv_keys p) \<and> (\<not> truthy (dv_custProfile p) \<or> has_type ProfileT (dv_custProfile p))"

lemma keys_panel_renders:
  assumes "has_type (TArr KeyRow) (dv_keys p)"
  shows "renders (keys_panel lc p)"
proof -
  obtain ks where ks: "dv_keys p = Arr ks" "list_all (has_type KeyRow) ks" using assms by (auto dest!: TArrD)
  define mode where "mode k = (case member k ''mode'' of Str s \<Rightarrow> s | _ \<Rightarrow> [])" for k
  have "get k x = Inr (member k x)" "get k ''mode'' = Inr (Str (mode k))" if "k \<in> set ks" for k x
  proof -
    have "has_type KeyRow k" using ks(2) that by (simp add: list_all_iff)
    note t = this [unfolded KeyRow_def]
    show "get k x = Inr (member k x)" by (rule typed_get [OF t])
    obtain s where "member k ''mode'' = Str s" using typed_text [OF t, of "''mode''"] by auto
    then show "get k ''mode'' = Inr (Str (mode k))" by (simp add: typed_get [OF t] mode_def)
  qed
  then show ?thesis unfolding keys_panel_def by (auto simp: view_simps ks(1) intro!: renders_each_i)
qed

lemma memory_tab_renders:
  assumes "\<not> truthy (dv_custProfile p) \<or> has_type ProfileT (dv_custProfile p)"
  shows "renders (memory_tab p)"
proof (cases "truthy (dv_custProfile p)")
  case True
  with assms have "has_type ProfileT (dv_custProfile p)" by simp
  then have "has_type (TArr TText) (member (dv_custProfile p) ''preferredPaymentMethods'')"
    unfolding ProfileT_def by (rule member_req) simp
  then obtain ms where ms: "member (dv_custProfile p) ''preferredPaymentMethods'' = Arr ms" "list_all (has_type TText) ms"
    by (auto dest!: TArrD)
  then have "runs (upper m)" if "m \<in> set ms" for m using that by (auto simp: list_all_iff dest!: TTextD)
  then show ?thesis unfolding memory_tab_def by (auto simp: view_simps ms(1) intro!: renders_each_i)
qed (simp add: memory_tab_def view_simps)

lemma developer_tabs_renders: "renders (developer_tabs p)"
  unfolding developer_tabs_def by (simp add: view_simps Let_def)

lemma quickstart_tab_renders: "renders quickstart_tab"
  unfolding quickstart_tab_def by (auto simp: view_simps intro!: renders_each_i)

lemma simulator_tab_renders: "renders (simulator_tab p)"
proof -
  have "runs (fixed 1 (orv (Num n) (Num m)))" for n m by (simp add: orv_def)
  then show ?thesis unfolding simulator_tab_def simulation_form_def simulation_result_def by (simp add: view_simps del: One_nat_def)
qed

lemma developer_view_renders: "developer_sound p \<Longrightarrow> renders (developer_view lc p)"
  unfolding developer_view_def developer_header_def apikeys_tab_def key_form_def developer_sound_def
  by (simp add: view_simps developer_tabs_renders quickstart_tab_renders simulator_tab_renders keys_panel_renders memory_tab_renders)

subsection \<open>The page's life\<close>

definition typed_keys :: "string \<Rightarrow> fetch \<Rightarrow> bool" where
  "typed_keys base net \<longleftrightarrow> (\<forall>ks. ok_json net (auth_get (base @ ''/v1/keys?merchant_id=00000000-0000-0000-0000-000000000001'')) listed_keys
     = Some (Some ks) \<longrightarrow> has_type (TArr KeyRow) ks)"

definition typed_profile :: "string \<Rightarrow> fetch \<Rightarrow> bool" where
  "typed_profile base net \<longleftrightarrow> (\<forall>c v. ok_json net (auth_get (base @ ''/v1/customers/'' @ c @ ''/recovery-profile'')) Inr = Some v
     \<longrightarrow> has_type ProfileT v)"

definition developer_fair :: "string \<Rightarrow> developer_event \<Rightarrow> bool" where
  "developer_fair base e \<longleftrightarrow> (case e of (net, net', now, random, a) \<Rightarrow> typed_keys base net \<and> typed_keys base net' \<and> typed_profile base net)"

lemma developer_sound_other [simp]:
  "developer_sound (p\<lparr>dv_copiedKey := c, dv_timers := n\<rparr>) = developer_sound p"
  "developer_sound (p\<lparr>dv_loadingKeys := b\<rparr>) = developer_sound p" "developer_sound (p\<lparr>dv_activeTab := t\<rparr>) = developer_sound p"
  "developer_sound (p\<lparr>dv_generatedKeySecret := v, dv_newKeyName := s\<rparr>) = developer_sound p"
  "developer_sound (p\<lparr>dv_simResult := r, dv_simulating := b\<rparr>) = developer_sound p"
  "developer_sound (developer_typed k v p) = developer_sound p"
  by (simp_all add: developer_sound_def developer_typed_def)

lemma fetchKeys_sound: "developer_sound p \<Longrightarrow> typed_keys base net \<Longrightarrow> developer_sound (fetchKeys base net p)"
  by (auto simp: fetchKeys_def typed_keys_def split: option.split) (simp add: developer_sound_def)

lemma create_key_sound:
  assumes "developer_sound p" "typed_keys base net'" "handleCreateKey base net net' now random p = Inr q"
  shows "developer_sound q"
proof (cases "ok_json net (auth_post (base @ ''/v1/keys'') (Obj [(''name'', Str (key_name p)), (''mode'', Str (dv_newKeyMode p))]))
    (\<lambda>data. get data ''key'')")
  case None
  have "has_type KeyRow row" if "local_key_row now p = Inr row" for row
    using that by (auto simp: local_key_row_def KeyRow_def)
  then show ?thesis using assms(1,3) None by (auto simp: handleCreateKey_def developer_sound_def dest!: TArrD)
next
  case (Some key)
  then show ?thesis using assms by (auto simp: handleCreateKey_def intro!: fetchKeys_sound)
qed

lemma lookup_sound:
  assumes "developer_sound p" "typed_profile base net"
  shows "developer_sound (unless_thrown (p\<lparr>dv_custProfile := Null\<rparr>) (handleLookupCustomer base net now p))"
proof (cases "ok_json net (auth_get (base @ ''/v1/customers/'' @ dv_searchCustId p @ ''/recovery-profile'')) Inr")
  case None
  have "has_type ProfileT v" if "local_profile now c = Inr v" for v c
    using that by (auto simp: local_profile_def ProfileT_def)
  then show ?thesis using assms(1) None
    by (cases "local_profile now (dv_searchCustId p)") (simp_all add: handleLookupCustomer_def unless_thrown_def developer_sound_def)
next
  case (Some v)
  then have "has_type ProfileT v" using assms(2) by (auto simp: typed_profile_def)
  then show ?thesis using assms(1) Some by (simp add: handleLookupCustomer_def unless_thrown_def developer_sound_def)
qed

lemma developer_do_sound: "developer_sound p \<Longrightarrow> developer_fair base e \<Longrightarrow> developer_sound (developer_do base e p)"
proof (cases "(base, e, p)" rule: developer_do.cases)
  case (3 base' net net' now random p')
  assume s: "developer_sound p" "developer_fair base e"
  then have "typed_keys base net'" using 3 by (simp add: developer_fair_def)
  from create_key_sound [OF s(1) this] show ?thesis using 3 s(1)
    by (auto simp: unless_thrown_def split: sum.split)
next
  case (4 base' net net' now random p')
  assume "developer_sound p"
  then show ?thesis using 4 by (auto simp: unless_thrown_def handleRunSimulation_def split: sum.split option.split)
qed (auto simp: developer_fair_def fetchKeys_sound lookup_sound copyToClipboard_def open_tab_def Let_def split: option.split)

interpretation developer_life: page_life developer_sound "developer_view lc" "developer_do base" "developer_fair base" for lc base
  by unfold_locales (simp_all add: developer_view_renders developer_do_sound)

lemma developer_init_sound: "developer_init now random = Inr p \<Longrightarrow> developer_sound p"
  by (auto simp: developer_init_def developer_sound_def KeyRow_def)

lemma developer_unreachable: "typed_keys base unreachable" "typed_profile base unreachable"
  by (simp_all add: typed_keys_def typed_profile_def ok_json_def unreachable_def)

end
