(* ===== verification/LoginPage.thy ===== *)
theory LoginPage
  imports WebApi
begin

text \<open>
  \<open>apps/web/src/app/login/page.tsx\<close>: signing in. The handler waits for the backend's answer, so the page is a
  state machine: typing and submitting happen at once, an answer settles a submitted request (with the
  credentials it was submitted with, whatever has been typed since), and a timer then opens the console.
\<close>

subsection \<open>State\<close>

record login_page =
  lg_email :: string
  lg_password :: string
  lg_loading :: bool
  lg_error :: "string option"
  lg_success :: bool
  lg_pending :: "(string \<times> string) list"
  lg_timers :: nat
  lg_routes :: "string list"
  lg_store :: storage

definition login_init :: "storage \<Rightarrow> login_page" where
  "login_init st = \<lparr>lg_email = ''admin@reviveos.io'', lg_password = ''admin'', lg_loading = False, lg_error = None,
     lg_success = False, lg_pending = [], lg_timers = 0, lg_routes = [], lg_store = st\<rparr>"

definition store_session :: "storage \<Rightarrow> js \<Rightarrow> js \<Rightarrow> storage \<times> err option" where
  \<comment> \<open>the two \<open>setItem\<close> calls; when the second fails the first has been made\<close>
  "store_session st token user = (case setItem st ''revive_token'' (to_str token) of
     Inl e \<Rightarrow> (st, Some e)
   | Inr st1 \<Rightarrow> (case setItem st1 ''revive_user'' (to_str (json_stringify user)) of
       Inl e \<Rightarrow> (st1, Some e) | Inr st2 \<Rightarrow> (st2, None)))"

definition local_user :: "string \<Rightarrow> js" where
  "local_user email = Obj [(''email'', Str email), (''role'', Str ''ADMIN''), (''name'', Str ''Master Operator'')]"

definition signed_in :: "storage \<Rightarrow> login_page \<Rightarrow> login_page" where
  \<comment> \<open>\<open>setSuccess(true)\<close> and the timer that opens the console\<close>
  "signed_in st p = p\<lparr>lg_store := st, lg_success := True, lg_timers := Suc (lg_timers p)\<rparr>"

definition catch_login :: "string \<Rightarrow> storage \<Rightarrow> login_page \<Rightarrow> login_page" where
  \<comment> \<open>the \<open>catch\<close> block; a storage that fails here too leaves the page without a session\<close>
  "catch_login email st p = (case store_session st (Str ''local_jwt_session'') (local_user email) of
     (st', None) \<Rightarrow> signed_in st' p
   | (st', Some _) \<Rightarrow> p\<lparr>lg_store := st'\<rparr>)"

definition finish_login :: "err + js \<Rightarrow> string \<Rightarrow> login_page \<Rightarrow> login_page" where
  \<comment> \<open>\<open>handleLogin\<close> from the answer of \<open>loginUser\<close> on\<close>
  "finish_login answer email p =
    (let q = (case seqE answer (\<lambda>res. seqE (get res ''token'') (\<lambda>token. Inr (token, member res ''user''))) of
         Inl _ \<Rightarrow> catch_login email (lg_store p) p
       | Inr (token, user) \<Rightarrow> (case store_session (lg_store p) token user of
             (st, None) \<Rightarrow> signed_in st p
           | (st, Some _) \<Rightarrow> catch_login email st p))
     in q\<lparr>lg_loading := False\<rparr>)"

definition credentials :: "string \<times> string \<Rightarrow> creds" where
  "credentials c = Creds (Obj [(''email'', Str (fst c)), (''password'', Str (snd c))])"

subsection \<open>Steps\<close>

datatype login_event = Type_email string | Type_password string | Submit | Settle nat "err + web_response" | Open_console

inductive login_step :: "string \<Rightarrow> login_page \<Rightarrow> login_event \<Rightarrow> login_page \<Rightarrow> bool" for base where
  type_email: "login_step base p (Type_email s) (p\<lparr>lg_email := s\<rparr>)"
| type_password: "login_step base p (Type_password s) (p\<lparr>lg_password := s\<rparr>)"
| submit: "\<lbrakk>\<not> lg_loading p; lg_email p \<noteq> []; lg_password p \<noteq> []\<rbrakk> \<Longrightarrow>
    login_step base p Submit (p\<lparr>lg_loading := True, lg_error := None, lg_pending := lg_pending p @ [(lg_email p, lg_password p)]\<rparr>)"
| settle: "\<lbrakk>i < length (lg_pending p); c = lg_pending p ! i\<rbrakk> \<Longrightarrow>
    login_step base p (Settle i answer) (finish_login (loginUser base (\<lambda>_. answer) (credentials c)) (fst c)
      (p\<lparr>lg_pending := take i (lg_pending p) @ drop (Suc i) (lg_pending p)\<rparr>))"
| open_console: "lg_timers p = Suc n \<Longrightarrow>
    login_step base p Open_console (p\<lparr>lg_timers := n, lg_routes := lg_routes p @ [''/analytics'']\<rparr>)"

inductive login_run :: "string \<Rightarrow> login_page \<Rightarrow> login_page \<Rightarrow> bool" for base p0 where
  start: "login_run base p0 p0"
| step: "\<lbrakk>login_run base p0 p; login_step base p e q\<rbrakk> \<Longrightarrow> login_run base p0 q"

inductive_cases settleE: "login_step base p (Settle i answer) q"
inductive_simps submit_iff: "login_step base p Submit q"

subsection \<open>Lemmas\<close>

definition has_session :: "storage \<Rightarrow> bool" where
  "has_session st \<longleftrightarrow> (\<exists>t u. getItem st ''revive_token'' = Inr (Some t) \<and> getItem st ''revive_user'' = Inr (Some u))"

lemma store_session_None:
  assumes "store_session st token user = (st', None)"
  shows "getItem st' ''revive_token'' = Inr (Some (to_str token)) \<and> getItem st' ''revive_user'' = Inr (Some (to_str (json_stringify user)))"
proof -
  obtain st1 where "setItem st ''revive_token'' (to_str token) = Inr st1" "setItem st1 ''revive_user'' (to_str (json_stringify user)) = Inr st'"
    using assms by (auto simp: store_session_def split: sum.splits)
  from local_storage.stores_both [OF this] show ?thesis by simp
qed

definition login_ok :: "login_page \<Rightarrow> bool" where
  \<comment> \<open>one request at a time; a session before success shows; the console opens only after success\<close>
  "login_ok p \<longleftrightarrow> (lg_loading p \<longleftrightarrow> lg_pending p \<noteq> []) \<and> length (lg_pending p) \<le> 1
     \<and> (lg_success p \<longrightarrow> has_session (lg_store p)) \<and> (0 < lg_timers p \<or> lg_routes p \<noteq> [] \<longrightarrow> lg_success p)"

lemma has_session_setItem:
  assumes "setItem st k v = Inr st'" "has_session st"
  shows "has_session st'"
proof -
  have "\<exists>x. getItem st' k' = Inr (Some x)" if "getItem st k' = Inr (Some y)" for k' y
    using local_storage.lookup_same [OF assms(1)] local_storage.lookup_other [OF assms(1), of k'] that by (cases "k' = k") auto
  with assms(2) show ?thesis unfolding has_session_def by blast
qed

lemma store_session_keeps:
  assumes "store_session st token user = (st', r)" "has_session st \<or> r = None"
  shows "has_session st'"
proof (cases r)
  case None
  with store_session_None [of st token user st'] assms(1) show ?thesis unfolding has_session_def by blast
next
  case (Some e)
  then have "has_session st" using assms(2) by simp
  with assms(1) show ?thesis unfolding store_session_def
    by (auto split: sum.splits dest: has_session_setItem)
qed

definition settled :: "bool \<Rightarrow> storage \<Rightarrow> login_page \<Rightarrow> login_page" where
  "settled ok st p = (if ok then signed_in st p else p\<lparr>lg_store := st\<rparr>)"

lemma catch_login_settled:
  "\<exists>ok st'. catch_login email st p = settled ok st' p \<and> (has_session st \<or> ok \<longrightarrow> has_session st')"
proof (cases "store_session st (Str ''local_jwt_session'') (local_user email)")
  case (Pair st' r)
  have "catch_login email st p = settled (r = None) st' p" by (cases r) (simp_all add: catch_login_def settled_def Pair)
  with store_session_keeps [OF Pair] show ?thesis by blast
qed

lemma finish_login_settled:
  "\<exists>ok st. finish_login answer email p = (settled ok st p)\<lparr>lg_loading := False\<rparr> \<and> (has_session (lg_store p) \<or> ok \<longrightarrow> has_session st)"
proof (cases "seqE answer (\<lambda>res. seqE (get res ''token'') (\<lambda>token. Inr (token, member res ''user'')))")
  case (Inl e)
  then have "finish_login answer email p = (catch_login email (lg_store p) p)\<lparr>lg_loading := False\<rparr>"
    by (simp only: finish_login_def Let_def sum.case)
  then show ?thesis using catch_login_settled [of email "lg_store p" p] by metis
next
  case (Inr tu)
  obtain t u where tu: "tu = (t, u)" by (cases tu)
  obtain st r where s: "store_session (lg_store p) t u = (st, r)" by (cases "store_session (lg_store p) t u")
  show ?thesis
  proof (cases r)
    case None
    then have "finish_login answer email p = (settled True st p)\<lparr>lg_loading := False\<rparr>"
      unfolding finish_login_def Let_def Inr tu by (simp add: s settled_def)
    with store_session_keeps [OF s] None show ?thesis by blast
  next
    case (Some e)
    then have "finish_login answer email p = (catch_login email st p)\<lparr>lg_loading := False\<rparr>"
      unfolding finish_login_def Let_def Inr tu by (simp add: s)
    with catch_login_settled [of email st p] store_session_keeps [OF s] show ?thesis by metis
  qed
qed

lemma login_step_ok: "login_step base p e q \<Longrightarrow> login_ok p \<Longrightarrow> login_ok q"
proof (induction rule: login_step.induct)
  case (settle i p c answer)
  let ?p = "p\<lparr>lg_pending := take i (lg_pending p) @ drop (Suc i) (lg_pending p)\<rparr>"
  have i: "take i (lg_pending p) @ drop (Suc i) (lg_pending p) = []" using settle by (cases i) (auto simp: login_ok_def)
  obtain ok st where "finish_login (loginUser base (\<lambda>_. answer) (credentials c)) (fst c) ?p = (settled ok st ?p)\<lparr>lg_loading := False\<rparr>"
    and "has_session (lg_store ?p) \<or> ok \<longrightarrow> has_session st"
    using finish_login_settled by blast
  then show ?case using settle.prems unfolding i by (cases ok) (simp_all add: login_ok_def settled_def signed_in_def)
qed (auto simp: login_ok_def)

subsection \<open>Properties\<close>

text \<open>
  C14: However typing, submitting, answers and timers interleave, the login page has at most one request under way, shows
  itself loading exactly then, and reports success, starts the timer or opens the console only with a session in the store.
\<close>

theorem login_safe:
  assumes "login_run base (login_init st) p"
  shows "(lg_loading p \<longleftrightarrow> lg_pending p \<noteq> []) \<and> length (lg_pending p) \<le> 1
    \<and> (lg_success p \<or> 0 < lg_timers p \<or> lg_routes p \<noteq> [] \<longrightarrow> has_session (lg_store p))"
proof -
  from assms have "login_ok p"
    by induction (auto simp: login_ok_def login_init_def dest: login_step_ok [unfolded login_ok_def])
  then show ?thesis by (auto simp: login_ok_def)
qed

text \<open>
  C20: A refusal signs the visitor in: when the backend's answer to the credentials is not ok, the page reports success, and the store afterwards holds the local session token and the record of an administrator under the submitted address.
\<close>

theorem refused_login_grants_admin:
  assumes "login_step base p (Settle 0 (Inr res)) q" and "\<not> res_ok res" and "lg_pending p = [(email, password)]"
    and "setItem (lg_store p) ''revive_token'' ''local_jwt_session'' = Inr st1"
    and "setItem st1 ''revive_user'' (json_print (local_user email)) = Inr st2"
  shows "lg_success q \<and> lg_store q = st2 \<and> getItem (lg_store q) ''revive_token'' = Inr (Some ''local_jwt_session'')
    \<and> load_json (lg_store q) ''revive_user'' = Inr (Some (local_user email)) \<and> member (local_user email) ''role'' = Str ''ADMIN''"
proof -
  let ?c = "credentials (email, password)"
  obtain e where e: "loginUser base (\<lambda>_. Inr res) ?c = Inl e"
    using assms(2) by (auto simp: loginUser_def credentials_def fetchJSON_def)
  have s: "store_session (lg_store p) (Str ''local_jwt_session'') (local_user email) = (st2, None)"
    using assms(4,5) by (simp add: store_session_def json_stringify_def local_user_def)
  from assms(1) have "q = finish_login (loginUser base (\<lambda>_. Inr res) ?c) email (p\<lparr>lg_pending := []\<rparr>)"
    using assms(3) by (auto elim!: settleE)
  then have q: "lg_success q" "lg_store q = st2"
    by (simp_all add: e finish_login_def catch_login_def s signed_in_def)
  have "load_json st2 ''revive_user'' = Inr (Some (json_image (local_user email)))"
    by (rule load_stored [OF assms(5)]) (simp_all add: local_user_def)
  then have "load_json st2 ''revive_user'' = Inr (Some (local_user email))" by (simp add: local_user_def)
  with q local_storage.stores_both(1) [OF assms(4,5)] show ?thesis by (simp add: local_user_def)
qed

definition unauthorized :: web_response where
  "unauthorized = \<lparr>rs_status = 401, rs_statusText = ''Unauthorized'', rs_body = Inr []\<rparr>"

definition submitted :: login_page where
  "submitted = (login_init fresh_storage)\<lparr>lg_loading := True, lg_pending := [(''admin@reviveos.io'', ''admin'')]\<rparr>"

lemma submit_init: "login_step base (login_init fresh_storage) Submit submitted"
  using login_step.submit [of "login_init fresh_storage" base] by (simp add: login_init_def submitted_def)

theorem login_safe_witness:
  "login_run ''/api'' (login_init fresh_storage) submitted \<and> lg_loading submitted \<and> length (lg_pending submitted) = 1"
proof -
  have r: "login_run ''/api'' (login_init fresh_storage) submitted"
    by (rule login_run.step [OF login_run.start submit_init])
  from login_safe [OF r] r show ?thesis by (simp add: submitted_def)
qed

theorem refused_login_grants_admin_witness:
  "\<exists>q. login_step ''/api'' submitted (Settle 0 (Inr unauthorized)) q \<and> lg_success q
    \<and> getItem (lg_store q) ''revive_token'' = Inr (Some ''local_jwt_session'')"
proof -
  have "0 < length (lg_pending submitted)" by (simp add: submitted_def)
  from login_step.settle [OF this refl, of "''/api''" "Inr unauthorized"]
  obtain q where q: "login_step ''/api'' submitted (Settle 0 (Inr unauthorized)) q" by blast
  have n: "\<not> res_ok unauthorized" by (simp add: unauthorized_def res_ok_def)
  have p: "lg_pending submitted = [(''admin@reviveos.io'', ''admin'')]" by (simp add: submitted_def)
  obtain st1 where s1: "setItem (lg_store submitted) ''revive_token'' ''local_jwt_session'' = Inr st1"
    by (simp add: submitted_def login_init_def fresh_storage_def setItem_def used_def)
  then have st1: "st1 = fresh_storage\<lparr>entries := [(''revive_token'', ''local_jwt_session'')]\<rparr>"
    by (simp add: submitted_def login_init_def fresh_storage_def setItem_def used_def)
  obtain st2 where s2: "setItem st1 ''revive_user'' (json_print (local_user ''admin@reviveos.io'')) = Inr st2"
    by (simp add: st1 fresh_storage_def setItem_def used_def local_user_def quote_def escape_char_def)
  from refused_login_grants_admin [OF q n p s1 s2] q show ?thesis by blast
qed

end
