(* ===== verification/LoginView.thy ===== *)
theory LoginView
  imports LoginPage Components
begin

text \<open>
  What \<open>apps/web/src/app/login/page.tsx\<close> renders: it never throws, and its controls are the events of the login's state
  machine. The button of the form is disabled while a request is under way; the form itself stays, and submitting
  it then is not a step.
\<close>

datatype login_action = Submit_login | Enter_email js | Enter_password js

fun login_event_of :: "login_action \<Rightarrow> login_event" where
  "login_event_of Submit_login = Submit"
| "login_event_of (Enter_email v) = Type_email (to_str v)"
| "login_event_of (Enter_password v) = Type_password (to_str v)"

subsection \<open>The page\<close>

definition login_form :: "login_page \<Rightarrow> login_action view" where
  "login_form p =
    el ''form'' [] [(''onSubmit'', \<lambda>_. Submit_login)] [
      node ''div'' [
        node ''label'' [say ''Email''],
        node ''div'' [
          icon ''Mail'',
          el ''input'' [
              (''type'', Inr (Str ''email'')),
              (''required'', Inr (Bool True)),
              (''value'', Inr (Str (lg_email p)))] [(''onChange'', Enter_email)] []]],
      node ''div'' [
        node ''label'' [say ''Password''],
        node ''div'' [
          icon ''Lock'',
          el ''input'' [
              (''type'', Inr (Str ''password'')),
              (''required'', Inr (Bool True)),
              (''value'', Inr (Str (lg_password p)))] [(''onChange'', Enter_password)] []]],
      el ''motion.button'' [(''type'', Inr (Str ''submit'')), (''disabled'', Inr (Bool (lg_loading p)))] [] [
        put (Str (if lg_loading p then ''Authenticating...'' else ''Sign In to Console'')),
        icon ''ArrowRight'']]"

definition login_screen :: "login_page \<Rightarrow> login_action view" where
  "login_screen p =
    node ''div'' [
      icon ''PaymentsNetworkBackground'',
      node ''div'' [
        el ''Link'' [(''href'', Inr (Str ''/'')), (''title'', Inr (Str ''Back to Home''))] [] [icon ''Home''],
        icon ''ThemeToggle''],
      node ''motion.div'' [
        node ''div'' [
          node ''div'' [ReviveLogo ''lg'' True ''/''],
          node ''p'' [say ''Sign in to access your autonomous revenue recovery console'']],
        node ''AnimatePresence'' [
          show_if (opt_text (lg_error p)) (
            node ''motion.div'' [icon ''AlertCircle'', node ''span'' [put (opt_text (lg_error p))]])],
        show_when (lg_success p) (
          node ''div'' [
            icon ''CheckCircle2'',
            node ''span'' [say (''Authenticated '' @ [CHR 0xE2, CHR 0x80, CHR 0x94] @ '' launching console...'')]]),
        login_form p,
        node ''div'' [
          icon ''Key'',
          node ''span'' [say (''HMAC-SHA256 Scoped Session '' @ [CHR 0xE2, CHR 0x80, CHR 0xA2] @ '' PCI-DSS Encrypted'')]]]]"

subsection \<open>Lemmas\<close>

lemma login_screen_renders: "renders (login_screen p)"
  unfolding login_screen_def login_form_def by (simp add: view_simps)

lemma login_controls:
  \<comment> \<open>an event value reaches the state machine as it is; there is no control for the answers\<close>
  assumes "a \<in> set (acts x (login_screen p))"
  shows "login_event_of a \<in> {Submit, Type_email (to_str x), Type_password (to_str x)}"
proof -
  have "acts x (login_screen p) = [Submit_login, Enter_email x, Enter_password x]"
    using login_screen_renders [of p] unfolding login_screen_def login_form_def
    by (simp add: acts_node_eq acts_el_eq view_simps)
  with assms show ?thesis by auto
qed

end
