(* ===== verification/ConsoleShell.thy ===== *)
theory ConsoleShell
  imports LoginPage
begin

text \<open>
  What surrounds the pages: \<open>components/layout\<close> (the side bar with the session, the header with the health check,
  which pages stand alone) and \<open>components/ui/ThemeToggle.tsx\<close>.
\<close>

subsection \<open>Layout\<close>

definition isStandalone :: "string \<Rightarrow> bool" where
  "isStandalone pathname \<longleftrightarrow> pathname = ''/'' \<or> pathname = ''/login''"

definition navItems :: "(string \<times> string) list" where
  \<comment> \<open>label and address of each item\<close>
  "navItems = [
     (''Analytics'', ''/analytics''),
     (''Workflows'', ''/workflows''),
     (''B2B Receivables'', ''/receivables''),
     (''Hinglish AI Voice'', ''/voice-recovery''),
     (''PTP Tracker'', ''/ptp-tracker''),
     (''Checkout Recovery'', ''/checkout-recovery''),
     (''Customers & Retries'', ''/merchant''),
     (''Developer & SDK'', ''/developer''),
     (''Documentation'', ''/docs''),
     (''System Health'', ''/system'')]"

definition nav_active :: "string \<Rightarrow> string \<Rightarrow> bool" where
  "nav_active pathname href \<longleftrightarrow> pathname = href \<or> href \<noteq> ''/analytics'' \<and> starts_with pathname href"

subsection \<open>The session in the side bar\<close>

record sidebar =
  sb_currentUser :: js
  sb_store :: storage
  sb_history :: "string list"

definition removeItem :: "storage \<Rightarrow> string \<Rightarrow> err + storage" where
  "removeItem st k = (if denied st then Inl (plain_error ''SecurityError'') else Inr (st\<lparr>entries := AList.delete k (entries st)\<rparr>))"

definition read_user :: "sidebar \<Rightarrow> sidebar" where
  \<comment> \<open>the effect on \<open>pathname\<close>\<close>
  "read_user b = (case load_json (sb_store b) ''revive_user'' of Inr (Some v) \<Rightarrow> b\<lparr>sb_currentUser := v\<rparr> | _ \<Rightarrow> b)"

definition handleLogout :: "sidebar \<Rightarrow> sidebar \<times> err option" where
  "handleLogout b = (case removeItem (sb_store b) ''revive_token'' of
     Inl e \<Rightarrow> (b, Some e)
   | Inr st1 \<Rightarrow> (case removeItem st1 ''revive_user'' of
       Inl e \<Rightarrow> (b\<lparr>sb_store := st1\<rparr>, Some e)
     | Inr st2 \<Rightarrow> (b\<lparr>sb_store := st2, sb_currentUser := Null, sb_history := sb_history b @ [''/login'']\<rparr>, None)))"

definition session_badge :: "sidebar \<Rightarrow> (js \<times> js) option" where
  \<comment> \<open>the address and role shown, or the link to the login page\<close>
  "session_badge b = (if truthy (sb_currentUser b) then Some (member (sb_currentUser b) ''email'', member (sb_currentUser b) ''role'') else None)"

subsection \<open>The header\<close>

record header =
  hd_status :: js
  hd_loading :: bool

definition header_init :: header where
  "header_init = \<lparr>hd_status = Str ''CHECKING'', hd_loading = False\<rparr>"

definition checkHealth :: "string \<Rightarrow> fetch \<Rightarrow> clock \<Rightarrow> header \<Rightarrow> header" where
  "checkHealth base net now h = (case seqE (getSystemHealth base net now) (\<lambda>res. seqE (get res ''overall_status'') (\<lambda>s. Inr (orv s (Str ''HEALTHY'')))) of
     Inr s \<Rightarrow> h\<lparr>hd_status := s, hd_loading := False\<rparr>
   | Inl _ \<Rightarrow> h\<lparr>hd_status := Str ''UNHEALTHY'', hd_loading := False\<rparr>)"

definition statusColor :: "js \<Rightarrow> string" where
  "statusColor s = (if s = Str ''HEALTHY'' then ''var(--color-emerald)'' else if s = Str ''DEGRADED'' then ''var(--color-amber)'' else ''var(--color-red)'')"

subsection \<open>The theme\<close>

record theme_toggle =
  tt_theme :: string
  tt_mounted :: bool
  tt_classes :: "string set"
  tt_store :: storage

definition put_theme :: "string \<Rightarrow> string \<Rightarrow> string set \<Rightarrow> string set" where
  "put_theme out into cs = insert into (cs - {out})"

definition applyTheme :: "bool \<Rightarrow> string \<Rightarrow> string set \<Rightarrow> string set" where
  \<comment> \<open>\<open>systemDark\<close> is what \<open>matchMedia('(prefers-color-scheme: dark)')\<close> says\<close>
  "applyTheme systemDark mode cs =
    (if mode = ''system'' then (if systemDark then put_theme ''light'' ''dark'' cs else put_theme ''dark'' ''light'' cs)
     else if mode = ''light'' then put_theme ''dark'' ''light'' cs
     else put_theme ''light'' ''dark'' cs)"

definition mount_theme :: "bool \<Rightarrow> theme_toggle \<Rightarrow> theme_toggle" where
  "mount_theme systemDark t = (case getItem (tt_store t) ''revive_theme'' of
     Inl _ \<Rightarrow> t\<lparr>tt_mounted := True\<rparr>
   | Inr v \<Rightarrow> (let saved = (case v of Some (c # s) \<Rightarrow> c # s | _ \<Rightarrow> ''dark'')
       in t\<lparr>tt_mounted := True, tt_theme := saved, tt_classes := applyTheme systemDark saved (tt_classes t)\<rparr>))"

definition handleSelect :: "bool \<Rightarrow> string \<Rightarrow> theme_toggle \<Rightarrow> theme_toggle" where
  "handleSelect systemDark mode t = t\<lparr>tt_theme := mode,
     tt_store := (case setItem (tt_store t) ''revive_theme'' mode of Inr st \<Rightarrow> st | Inl _ \<Rightarrow> tt_store t),
     tt_classes := applyTheme systemDark mode (tt_classes t)\<rparr>"

definition currentTheme :: "theme_toggle \<Rightarrow> string" where
  "currentTheme t = (if tt_mounted t then tt_theme t else ''dark'')"

text \<open>The floating button of the landing page keeps a state of its own.\<close>

definition float_mount :: "theme_toggle \<Rightarrow> theme_toggle" where
  \<comment> \<open>the stored theme is shown, but not applied\<close>
  "float_mount t = (case getItem (tt_store t) ''revive_theme'' of
     Inl _ \<Rightarrow> t\<lparr>tt_mounted := True\<rparr>
   | Inr v \<Rightarrow> t\<lparr>tt_mounted := True, tt_theme := (case v of Some (c # s) \<Rightarrow> c # s | _ \<Rightarrow> ''dark'')\<rparr>)"

definition next_theme :: "string \<Rightarrow> string" where
  "next_theme theme = (if theme = ''dark'' then ''light'' else if theme = ''light'' then ''system'' else ''dark'')"

definition float_toggle :: "bool \<Rightarrow> theme_toggle \<Rightarrow> theme_toggle" where
  \<comment> \<open>the classes are set before the storage is tried; \<open>toggle(c, on)\<close> adds or removes\<close>
  "float_toggle systemDark t = (let mode = next_theme (tt_theme t) in t\<lparr>tt_theme := mode,
     tt_store := (case setItem (tt_store t) ''revive_theme'' mode of Inr st \<Rightarrow> st | Inl _ \<Rightarrow> tt_store t),
     tt_classes := applyTheme systemDark mode (tt_classes t)\<rparr>)"

definition refreshed :: "theme_toggle \<Rightarrow> theme_toggle \<Rightarrow> theme_toggle" where
  \<comment> \<open>what the other control has after this one was used: the document changes, its own state does not\<close>
  "refreshed t u = u\<lparr>tt_classes := tt_classes t, tt_store := tt_store t\<rparr>"

subsection \<open>Lemmas\<close>

lemma removeItem_gone:
  assumes "removeItem st k = Inr st'"
  shows "getItem st' k = Inr None" and "k' \<noteq> k \<Longrightarrow> getItem st' k' = getItem st k'"
  using assms by (auto simp: removeItem_def getItem_def delete_conv split: if_splits)

lemma theme_exclusive:
  \<comment> \<open>the document is never light and dark at once\<close>
  "(''light'' \<in> applyTheme systemDark mode cs) \<noteq> (''dark'' \<in> applyTheme systemDark mode cs)"
  by (auto simp: applyTheme_def put_theme_def)

lemma theme_remembered:
  \<comment> \<open>a choice the storage accepted is applied again by the next page that mounts\<close>
  assumes "setItem (tt_store t) ''revive_theme'' (c # m) = Inr st"
  shows "tt_theme (mount_theme sd (u\<lparr>tt_store := tt_store (handleSelect sd (c # m) t)\<rparr>)) = c # m"
  using local_storage.lookup_same [OF assms] assms by (simp add: mount_theme_def handleSelect_def Let_def)

lemma next_theme_cycles: "theme \<in> {''dark'', ''light'', ''system''} \<Longrightarrow> (next_theme ^^ 3) theme = theme"
  by (auto simp: next_theme_def numeral_3_eq_3)

lemma toggles_disagree:
  \<comment> \<open>on the landing page the menu's control still shows the old theme after the floating one was clicked\<close>
  assumes "tt_theme t = tt_theme u" and "tt_theme t \<in> {''dark'', ''light'', ''system''}"
  shows "tt_theme (refreshed (float_toggle sd t) u) \<noteq> tt_theme (float_toggle sd t)"
  using assms by (auto simp: refreshed_def float_toggle_def next_theme_def Let_def)

lemma one_nav_item:
  \<comment> \<open>below a console address exactly its own item is active\<close>
  "filter (\<lambda>(l, h). nav_active ''/workflows/pay_1'' h) navItems = [(''Workflows'', ''/workflows'')]"
  by (simp add: navItems_def nav_active_def starts_with_def)

text \<open>The session's life over both components: signing in, showing the user, signing out.\<close>

lemma logout_clears:
  assumes "handleLogout b = (b', None)"
  shows "\<not> has_session (sb_store b') \<and> sb_currentUser (read_user b') = Null \<and> session_badge (read_user b') = None
    \<and> (\<forall>k. k \<noteq> ''revive_token'' \<and> k \<noteq> ''revive_user'' \<longrightarrow> getItem (sb_store b') k = getItem (sb_store b) k)"
proof -
  obtain st1 st2 where s: "removeItem (sb_store b) ''revive_token'' = Inr st1" "removeItem st1 ''revive_user'' = Inr st2"
    and b': "b' = b\<lparr>sb_store := st2, sb_currentUser := Null, sb_history := sb_history b @ [''/login'']\<rparr>"
    using assms by (auto simp: handleLogout_def split: sum.splits)
  have u: "getItem st2 ''revive_user'' = Inr None" by (rule removeItem_gone(1) [OF s(2)])
  have "read_user b' = b'" by (simp add: read_user_def load_json_def b' u)
  moreover have "\<not> has_session st2" using u by (simp add: has_session_def)
  moreover have "getItem st2 k = getItem (sb_store b) k" if "k \<noteq> ''revive_token''" "k \<noteq> ''revive_user''" for k
    using removeItem_gone(2) [OF s(1) that(1)] removeItem_gone(2) [OF s(2) that(2)] by simp
  ultimately show ?thesis by (simp add: b' session_badge_def)
qed

lemma refused_login_shows_admin:
  assumes "catch_login email st p = q" "store_session st (Str ''local_jwt_session'') (local_user email) = (st', None)"
  shows "session_badge (read_user (b\<lparr>sb_store := lg_store q\<rparr>)) = Some (Str email, Str ''ADMIN'')"
proof -
  obtain st1 where s: "setItem st1 ''revive_user'' (json_print (local_user email)) = Inr st'"
    using assms(2) by (auto simp: store_session_def json_stringify_def local_user_def split: sum.splits)
  have "load_json st' ''revive_user'' = Inr (Some (json_image (local_user email)))"
    by (rule load_stored [OF s]) (simp_all add: local_user_def)
  moreover have "lg_store q = st'" using assms by (auto simp: catch_login_def signed_in_def)
  ultimately show ?thesis by (simp add: read_user_def session_badge_def local_user_def)
qed

end
