(* ===== verification/Console.thy ===== *)
theory Console
  imports WorkflowsView DetailView PtpView CheckoutView ReceivablesView MonitorViews MerchantView VoiceView DeveloperView LoginView
    ConsoleShell
begin

text \<open>
  The console as one program: which page an address opens (the directories under \<open>apps/web/src/app\<close>, the links of the
  side bar), what each page does while it is open, and the one local storage they share. A step relation puts the
  pages' own steps together; a page that is left is gone, an answer that arrives after that is dropped.
\<close>

subsection \<open>State\<close>

datatype screen = On_login login_page | On_dashboard dashboard_page | On_analytics analytics_page | On_system system_page
  | On_merchant merchant_page | On_voice voice_page | On_developer developer_page | On_workflows workflows_page
  | On_detail string detail_page | On_ptp ptp_page | On_checkout checkout_page | On_receivables receivables_page

type_synonym console = "screen \<times> storage"

record site =
  site_base :: string
  site_dataset :: "WorkflowSummary list"
  site_promises :: "js list"
  site_invoices :: "js list"

definition loaded_site :: "string \<Rightarrow> clock \<Rightarrow> clock \<Rightarrow> err + site" where
  \<comment> \<open>what the modules compute once, when the browser loads them\<close>
  "loaded_site base now now' = seqE (generateSyntheticWorkflows 2500) (\<lambda>ds. seqE (DEMO_PTP_PROMISES now) (\<lambda>ps.
     seqE (DEMO_B2B_INVOICES now') (\<lambda>is. Inr \<lparr>site_base = base, site_dataset = ds, site_promises = ps, site_invoices = is\<rparr>)))"

definition mount :: "site \<Rightarrow> clock \<Rightarrow> rng \<Rightarrow> storage \<Rightarrow> string \<Rightarrow> (err + screen) option" where
  \<comment> \<open>the page of an address with its initial state; \<open>None\<close> for the public pages and unknown addresses\<close>
  "mount s now random st path =
    (if path = ''/login'' then Some (Inr (On_login (login_init st)))
     else if path = ''/dashboard'' then Some (Inr (On_dashboard dashboard_init))
     else if path = ''/analytics'' then Some (Inr (On_analytics (analytics_init (site_dataset s))))
     else if path = ''/system'' then Some (Inr (On_system system_init))
     else if path = ''/merchant'' then Some (Inr (On_merchant merchant_init))
     else if path = ''/voice-recovery'' then Some (Inr (On_voice (voice_init (site_dataset s))))
     else if path = ''/developer'' then Some (seqE (developer_init now random) (\<lambda>p. Inr (On_developer p)))
     else if path = ''/workflows'' then Some (seqE (workflows_init (site_dataset s)) (\<lambda>p. Inr (On_workflows p)))
     else if path = ''/ptp-tracker'' then Some (Inr (On_ptp (ptp_init (site_promises s))))
     else if path = ''/checkout-recovery'' then Some (Inr (On_checkout checkout_init))
     else if path = ''/receivables'' then Some (Inr (On_receivables (receivables_init (site_invoices s))))
     else if starts_with path ''/workflows/'' then Some (Inr (On_detail (drop 11 path) detail_init))
     else None)"

subsection \<open>What is shown\<close>

datatype console_action = Act_login login_action | Act_dashboard dashboard_action | Act_none | Act_merchant merchant_action
  | Act_voice voice_action_on | Act_developer developer_action | Act_list list_action | Act_detail detail_action
  | Act_ptp ptp_action | Act_checkout session_action | Act_ledger receivables_action

definition relabel :: "('a \<Rightarrow> 'b) \<Rightarrow> 'a view \<Rightarrow> 'b view" where
  "relabel f = map_sum (\<lambda>e. e) (map_jsx f)"

definition screen_view :: "locale_fns \<Rightarrow> screen \<Rightarrow> console_action view" where
  "screen_view lc s = (case s of
     On_login p \<Rightarrow> relabel Act_login (login_screen p)
   | On_dashboard p \<Rightarrow> relabel Act_dashboard (dashboard_view lc p)
   | On_analytics p \<Rightarrow> relabel (\<lambda>_. Act_none) (analytics_page_view lc p)
   | On_system p \<Rightarrow> relabel (\<lambda>_. Act_none) (system_page_view lc p)
   | On_merchant p \<Rightarrow> relabel Act_merchant (merchant_page_view lc p)
   | On_voice p \<Rightarrow> relabel Act_voice (voice_view lc p)
   | On_developer p \<Rightarrow> relabel Act_developer (developer_view lc p)
   | On_workflows p \<Rightarrow> relabel Act_list (workflows_page_view lc p)
   | On_detail wid p \<Rightarrow> relabel Act_detail (detail_page_view lc p)
   | On_ptp p \<Rightarrow> relabel Act_ptp (ptp_view lc p)
   | On_checkout p \<Rightarrow> relabel Act_checkout (checkout_view lc p)
   | On_receivables p \<Rightarrow> relabel Act_ledger (receivables_view lc p))"

subsection \<open>Steps\<close>

fun from_storage :: "storage \<Rightarrow> ptp_event \<Rightarrow> ptp_event" where
  \<comment> \<open>the page reads the console's storage\<close>
  "from_storage st (Fetch_promises net now _) = Fetch_promises net now st"
| "from_storage st (Promise_click net net' now _ a) = Promise_click net net' now st a"
| "from_storage st Status_over = Status_over"

datatype console_event = Go clock rng string | Log_out | Login_does login_event | Dashboard_does fetch | Analytics_does fetch
  | System_does system_event | Merchant_does merchant_event | Voice_does voice_event | Developer_does developer_event
  | List_does list_event | Detail_does fetch fetch "string option" detail_action | Ptp_does ptp_event
  | Checkout_does checkout_event | Ledger_does ledger_event

definition effects :: "console_action set" where
  \<comment> \<open>what a page also does without a click: the loads of its effects and timers\<close>
  "effects = {Act_list Refresh, Act_detail Reload, Act_merchant Reload_portal, Act_developer Fetch_keys}"

definition offered :: "locale_fns \<Rightarrow> screen \<Rightarrow> console_action \<Rightarrow> bool" where
  \<comment> \<open>an action of the page is an effect or comes from a control that is on the screen and enabled\<close>
  "offered lc sc a \<longleftrightarrow> a \<in> effects \<or> (\<exists>x. a \<in> set (acts x (screen_view lc sc)))"

inductive console_step :: "locale_fns \<Rightarrow> site \<Rightarrow> console \<Rightarrow> console_event \<Rightarrow> console \<Rightarrow> bool" for lc s where
  go: "mount s now random st path = Some (Inr sc) \<Longrightarrow> console_step lc s (sc0, st) (Go now random path) (sc, st)"
| log_out: "handleLogout \<lparr>sb_currentUser = u, sb_store = st, sb_history = []\<rparr> = (b, None) \<Longrightarrow>
    console_step lc s (sc, st) Log_out (On_login (login_init (sb_store b)), sb_store b)"
| login: "\<lbrakk>login_step (site_base s) p e p'; e \<noteq> Open_console\<rbrakk> \<Longrightarrow>
    console_step lc s (On_login p, st) (Login_does e) (On_login p', lg_store p')"
| enter: "login_step (site_base s) p Open_console p' \<Longrightarrow>
    console_step lc s (On_login p, st) (Login_does Open_console) (On_analytics (analytics_init (site_dataset s)), st)"
| dashboard: "console_step lc s (On_dashboard p, st) (Dashboard_does net)
    (On_dashboard (dashboard_do (site_base s) (site_dataset s) net p), st)"
| analytics: "console_step lc s (On_analytics p, st) (Analytics_does net)
    (On_analytics (loadAnalytics (site_base s) net (site_dataset s) p), st)"
| system: "console_step lc s (On_system p, st) (System_does e) (On_system (system_do (site_base s) e p), st)"
| merchant: "offered lc (On_merchant p) (Act_merchant a) \<Longrightarrow>
    console_step lc s (On_merchant p, st) (Merchant_does (net, net', now, a))
      (On_merchant (merchant_do (site_base s) (site_dataset s) (net, net', now, a) p), st)"
| voice: "\<lbrakk>voice_do (site_base s) (site_dataset s) e (p, st) = (p', st');
      \<And>net net' now a. e = Voice_click net net' now a \<Longrightarrow> offered lc (On_voice p) (Act_voice a)\<rbrakk> \<Longrightarrow>
    console_step lc s (On_voice p, st) (Voice_does e) (On_voice p', st')"
| developer: "offered lc (On_developer p) (Act_developer a) \<Longrightarrow>
    console_step lc s (On_developer p, st) (Developer_does (net, net', now, random, a))
      (On_developer (developer_do (site_base s) (net, net', now, random, a) p), st)"
| list: "offered lc (On_workflows p) (Act_list a) \<Longrightarrow>
    console_step lc s (On_workflows p, st) (List_does (net, net', answer, a))
      (On_workflows (list_do (site_base s) (site_dataset s) (net, net', answer, a) p), st)"
| detail: "offered lc (On_detail wid p) (Act_detail a) \<Longrightarrow>
    console_step lc s (On_detail wid p, st) (Detail_does net net' answer a)
      (On_detail wid (detail_step (site_base s) (site_dataset s) wid (net, net', st, answer, a) p), st)"
| ptp: "(\<And>net net' now st0 a. e = Promise_click net net' now st0 a \<Longrightarrow> offered lc (On_ptp p) (Act_ptp a)) \<Longrightarrow>
    console_step lc s (On_ptp p, st) (Ptp_does e) (On_ptp (ptp_do (site_base s) (site_promises s) (from_storage st e) p), st)"
| checkout: "(\<And>net net' token. e = Dispatch net net' token \<Longrightarrow> offered lc (On_checkout p) (Act_checkout (Send_link token))) \<Longrightarrow>
    console_step lc s (On_checkout p, st) (Checkout_does e) (On_checkout (checkout_step (site_base s) p e), st)"
| ledger: "\<lbrakk>receivables_do (site_base s) (site_invoices s) e (p, st) = (p', st');
      \<And>net now random a. e = Ledger_click net now random a \<Longrightarrow> offered lc (On_receivables p) (Act_ledger a)\<rbrakk> \<Longrightarrow>
    console_step lc s (On_receivables p, st) (Ledger_does e) (On_receivables p', st')"

inductive console_run :: "locale_fns \<Rightarrow> site \<Rightarrow> console \<Rightarrow> console_event list \<Rightarrow> console \<Rightarrow> bool" for lc s where
  stay: "console_run lc s c [] c"
| move: "\<lbrakk>console_step lc s c e c'; console_run lc s c' es c''\<rbrakk> \<Longrightarrow> console_run lc s c (e # es) c''"

inductive_cases runE: "console_run lc s c (e # es) c'" and ranE: "console_run lc s c [] c'"

subsection \<open>Views of the whole\<close>

lemma renders_relabel [simp]: "renders (relabel f v) = renders v"
  by (cases v) (simp_all add: relabel_def renders_def)

lemma fires_relabel: "fires x (map_jsx f n) = map f (fires x n)"
  by (induction n) (auto simp: disabled_def map_concat comp_def case_prod_beta cong: map_cong)

lemma acts_relabel [simp]: "acts x (relabel f v) = map f (acts x v)"
  by (cases v) (simp_all add: relabel_def acts_def fires_relabel)

subsection \<open>What arrives is typed\<close>

definition screen_sound :: "site \<Rightarrow> screen \<Rightarrow> bool" where
  "screen_sound s sc = (case sc of
     On_login p \<Rightarrow> True | On_dashboard p \<Rightarrow> dashboard_sound p | On_analytics p \<Rightarrow> analytics_sound p | On_system p \<Rightarrow> system_sound p
   | On_merchant p \<Rightarrow> merchant_sound p | On_voice p \<Rightarrow> voice_sound p | On_developer p \<Rightarrow> developer_sound p
   | On_workflows p \<Rightarrow> typed_list p | On_detail wid p \<Rightarrow> typed_detail p | On_ptp p \<Rightarrow> ptp_sound p
   | On_checkout p \<Rightarrow> checkout_sound p | On_receivables p \<Rightarrow> rows_ok p)"

definition site_sound :: "site \<Rightarrow> bool" where
  "site_sound s \<longleftrightarrow> list_all promise_ok (site_promises s) \<and> list_all (\<lambda>r. \<not> nullish r) (site_invoices s)"

fun event_fair :: "site \<Rightarrow> console_event \<Rightarrow> bool" where
  \<comment> \<open>the answers of the backend have their declared types\<close>
  "event_fair s (Dashboard_does net) = dashboard_fair (site_base s) (site_dataset s) net"
| "event_fair s (Analytics_does net) = analytics_fair (site_base s) (site_dataset s) net"
| "event_fair s (System_does e) = system_fair (site_base s) e"
| "event_fair s (Merchant_does e) = merchant_fair (site_base s) (site_dataset s) e"
| "event_fair s (Voice_does e) = voice_fair (site_base s) (site_dataset s) e"
| "event_fair s (Developer_does e) = developer_fair (site_base s) e"
| "event_fair s (List_does e) = list_fair (site_base s) (site_dataset s) e"
| "event_fair s (Detail_does net net' answer a) = (\<forall>wid. typed_answer (site_base s) (site_dataset s) wid net
     \<and> typed_answer (site_base s) (site_dataset s) wid net')"
| "event_fair s (Ptp_does e) = ptp_fair (site_base s) e"
| "event_fair s (Checkout_does e) = checkout_fair (site_base s) e"
| "event_fair s e = True"

lemma from_storage_fair [simp]: "ptp_fair base (from_storage st e) = ptp_fair base e"
  by (cases e) simp_all

lemma screen_view_renders:
  assumes "screen_sound s sc" "site_sound s"
  shows "renders (screen_view lc sc)"
proof (cases sc)
  case (On_ptp p)
  then show ?thesis using assms ptp_life.progress [of p "site_promises s"] by (simp add: screen_sound_def screen_view_def site_sound_def)
next
  case (On_receivables p)
  then show ?thesis using assms ledger_life.progress [of "(p, fresh_storage)" "site_invoices s"]
    by (simp add: screen_sound_def screen_view_def site_sound_def)
next
  case (On_voice p)
  then show ?thesis using assms voice_life.progress [of "(p, fresh_storage)"] by (simp add: screen_sound_def screen_view_def)
qed (use assms in \<open>simp_all add: screen_sound_def screen_view_def login_screen_renders dashboard_life.progress analytics_life.progress
  system_life.progress merchant_life.progress developer_life.progress workflow_list.progress detail_life.progress checkout_life.progress\<close>)

lemma mount_sound:
  assumes "mount s now random st path = Some (Inr sc)" "site_sound s"
  shows "screen_sound s sc"
proof -
  have "ptp_sound (ptp_init (site_promises s))" using assms(2) by (simp add: site_sound_def ptp_sound_def ptp_init_def figures_ok_def)
  moreover have "rows_ok (receivables_init (site_invoices s))" using assms(2) by (simp add: site_sound_def rows_ok_def receivables_init_def)
  ultimately show ?thesis using assms(1)
    by (auto simp: mount_def screen_sound_def dashboard_init_sound analytics_init_sound system_init_sound merchant_init_sound
      voice_init_sound developer_init_sound workflows_init_typed detail_init_typed checkout_init_sound split: if_splits)
qed

lemma site_sound_loaded: "loaded_site base now now' = Inr s \<Longrightarrow> site_sound s"
  by (auto simp: loaded_site_def site_sound_def dest: demo_promises_ok demo_invoices_ok)

subsection \<open>Every step keeps the screen sound\<close>

lemma audit_confined:
  assumes "rows_ok p" "Audit (Some r) \<in> set (acts x (receivables_view lc p))"
  shows "\<not> nullish r"
proof -
  let ?A = "{a. \<forall>r. a = Audit (Some r) \<longrightarrow> \<not> nullish r}"
  have "confined ?A (invoice_row lc row)" if "\<not> nullish row" for row
    unfolding invoice_row_def using that by (simp add: view_simps)
  moreover have "confined ?A (invoice_form p)" unfolding invoice_form_def by (simp add: view_simps)
  moreover have "confined ?A (case rp_audited p of None \<Rightarrow> put Null | Some a \<Rightarrow> audit_panel lc a)"
    unfolding audit_panel_def by (simp add: view_simps split: option.split)
  ultimately have "confined ?A (receivables_view lc p)" using assms(1) unfolding receivables_view_def rows_ok_def
    by (simp add: view_simps list_all_iff)
  from confinedD [OF this assms(2)] show ?thesis by simp
qed

lemma offered_ledger:
  assumes "offered lc (On_receivables p) (Act_ledger a)" "rows_ok p"
  shows "ledger_fair (Ledger_click net now random a)"
  using assms audit_confined [of p _ _ lc]
  by (cases "(Ledger_click net now random a)" rule: ledger_fair.cases) (auto simp: offered_def effects_def screen_view_def)

lemma ledger_step_ok:
  assumes "receivables_do base demo e (p, st) = (p', st')" "rows_ok p" "list_all (\<lambda>r. \<not> nullish r) demo" "ledger_fair e"
  shows "rows_ok p'"
  using ledger_life.preservation [of "(p, st)" demo e base] assms by simp

lemma voice_step_ok:
  assumes "voice_do base ds e (p, st) = (p', st')" "voice_sound p" "voice_fair base ds e"
  shows "voice_sound p'"
  using voice_life.preservation [of "(p, st)" base ds e] assms by simp

lemma console_step_sound:
  assumes "console_step lc s c e c'" "screen_sound s (fst c)" "site_sound s" "event_fair s e"
  shows "screen_sound s (fst c')"
  using assms
proof (cases rule: console_step.cases)
  case (go now random st path sc sc0)
  then show ?thesis using mount_sound assms(3) by simp
next
  case (ledger e p st p' st')
  then have "ledger_fair e" using offered_ledger assms(2) by (cases e) (auto simp: screen_sound_def)
  with ledger ledger_step_ok assms(2,3) show ?thesis by (auto simp: screen_sound_def site_sound_def)
next
  case (voice e p st p' st')
  with voice_step_ok assms(2,4) show ?thesis by (auto simp: screen_sound_def)
next
  case (detail wid p a st net net' answer)
  with assms(2,4) detail_life.preservation [of p "site_base s" "site_dataset s" wid "(net, net', st, answer, a)"]
  show ?thesis by (simp add: screen_sound_def detail_fair_def)
next
  case (ptp e p st)
  with assms(2,3,4) ptp_life.preservation [of p "site_promises s" "site_base s" "from_storage st e"] show ?thesis
    by (simp add: screen_sound_def site_sound_def)
qed (use assms(2,4) in \<open>auto simp: screen_sound_def analytics_init_sound dashboard_life.preservation analytics_life.preservation
  system_life.preservation merchant_life.preservation developer_life.preservation workflow_list.preservation
  checkout_life.preservation\<close>)

lemma console_run_sound:
  assumes "console_run lc s c es c'" "screen_sound s (fst c)" "site_sound s" "list_all (event_fair s) es"
  shows "screen_sound s (fst c')"
  using assms
proof (induction rule: console_run.induct)
  case (move c e c' es c'')
  then show ?case using console_step_sound by simp
qed simp

subsection \<open>Without the backend\<close>

fun offline_event :: "console_event \<Rightarrow> bool" where
  \<comment> \<open>no request of the step is answered\<close>
  "offline_event (Dashboard_does net) = (net = unreachable)"
| "offline_event (Analytics_does net) = (net = unreachable)"
| "offline_event (System_does (net, _)) = (net = unreachable)"
| "offline_event (Merchant_does (net, net', _)) = (net = unreachable \<and> net' = unreachable)"
| "offline_event (Voice_does (Load_list net)) = (net = unreachable)"
| "offline_event (Voice_does (Load_calls net)) = (net = unreachable)"
| "offline_event (Voice_does (Voice_click net net' _ _)) = (net = unreachable \<and> net' = unreachable)"
| "offline_event (Developer_does (net, net', _)) = (net = unreachable \<and> net' = unreachable)"
| "offline_event (List_does (net, net', _)) = (net = unreachable \<and> net' = unreachable)"
| "offline_event (Detail_does net net' _ _) = (net = unreachable \<and> net' = unreachable)"
| "offline_event (Ptp_does (Fetch_promises net _ _)) = (net = unreachable)"
| "offline_event (Ptp_does (Promise_click net net' _ _ _)) = (net = unreachable \<and> net' = unreachable)"
| "offline_event (Checkout_does (Load net)) = (net = unreachable)"
| "offline_event (Checkout_does (Dispatch net net' _)) = (net = unreachable \<and> net' = unreachable)"
| "offline_event (Ledger_does (Fetch_ledger net)) = (net = unreachable)"
| "offline_event (Ledger_does (Ledger_click net _ _ _)) = (net = unreachable)"
| "offline_event e = True"

lemma offline_fair:
  assumes "generateSyntheticWorkflows n = Inr (site_dataset s)" "offline_event e"
  shows "event_fair s e"
  using assms(2) offline_detail_typed [OF assms(1)]
  by (cases e rule: offline_event.cases)
    (simp_all add: dashboard_unreachable analytics_unreachable system_unreachable merchant_unreachable merchant_fair_def
      voice_unreachable developer_unreachable developer_fair_def offline_rows_typed list_fair_def ptp_unreachable checkout_unreachable
      del: system_fair.simps voice_fair.simps(1))

lemma loaded_dataset: "loaded_site base now now' = Inr s \<Longrightarrow> generateSyntheticWorkflows 2500 = Inr (site_dataset s)"
  by (auto simp: loaded_site_def split: if_splits)

subsection \<open>Who writes what\<close>

lemma lodge_other: "k \<noteq> dispatch_key \<Longrightarrow> getItem (lodge_dispatch t st sid wid i spoken p) k = getItem st k"
  by (auto simp: lodge_dispatch_def local_storage.lookup_other split: sum.split)

lemma trigger_other:
  assumes "k \<noteq> dispatch_key"
  shows "getItem (snd (triggerCallSimulation base net reload now st p)) k = getItem st k"
  unfolding triggerCallSimulation_def Let_def
  by (auto simp: lodge_other [OF assms] split: sum.split prod.split if_splits)

lemma voice_other:
  assumes "voice_do base ds e (p, st) = (p', st')" "k \<noteq> dispatch_key"
  shows "getItem st' k = getItem st k"
  using assms(1) trigger_other [OF assms(2)]
  by (cases "(base, ds, e, p, st)" rule: voice_do.cases) (auto simp: split_def prod_eq_iff)

lemma stored_or_not: "k' \<noteq> k \<Longrightarrow> getItem (case setItem st k v of Inl e \<Rightarrow> st | Inr s \<Rightarrow> s) k' = getItem st k'"
  by (auto simp: local_storage.lookup_other split: sum.split)

lemma ledger_other:
  assumes "receivables_do base demo e (p, st) = (p', st')" "k \<noteq> ledger_key"
  shows "getItem st' k = getItem st k"
proof -
  have "getItem s k = getItem st k" if "handleSaveInvoice now random st p = Inr (q, s)" for now random q s
    using that unfolding handleSaveInvoice_def Let_def
    by (auto intro: stored_or_not [OF assms(2)] simp del: json_print.simps)
  then show ?thesis using assms(1)
    by (cases e) (auto simp: or_keep_def split: receivables_action.splits sum.splits)
qed

fun signs :: "console_event \<Rightarrow> bool" where
  \<comment> \<open>signing in or out\<close>
  "signs (Login_does e) = True"
| "signs Log_out = True"
| "signs e = False"

lemma console_step_storage:
  assumes "console_step lc s c e c'" "\<not> signs e" "k \<noteq> dispatch_key" "k \<noteq> ledger_key"
  shows "getItem (snd c') k = getItem (snd c) k"
  using assms by (cases rule: console_step.cases) (auto dest: voice_other ledger_other)

lemma console_run_storage:
  assumes "console_run lc s c es c'" "list_all (\<lambda>e. \<not> signs e) es" "k \<noteq> dispatch_key" "k \<noteq> ledger_key"
  shows "getItem (snd c') k = getItem (snd c) k"
  using assms
proof (induction rule: console_run.induct)
  case (move c e c' es c'')
  then show ?case using console_step_storage by simp
qed simp

subsection \<open>Navigation\<close>

lemma date_in_range: "\<bar>t + d\<bar> \<le> 8640000000000000 \<Longrightarrow> \<exists>v. to_iso (time_clip (nadd (nint t) (nint d))) = Inr v"
  using nadd_int [of t d] by (simp add: time_clip_def max_time_def to_iso_def)

lemma loaded_at_0: "\<exists>s. loaded_site base (\<lambda>_. 0) (\<lambda>_. 0) = Inr s"
proof -
  obtain ws where w: "generateSyntheticWorkflows 2500 = Inr ws" by (rule generate_eq [of 2500])
  have h: "\<exists>v. hours_from 0 d = Inr v" if "\<bar>d\<bar> \<le> 100" for d
    unfolding hours_from_def by (rule date_in_range) (use that in simp)
  have d: "\<exists>v. days_from 0 d = Inr v" if "\<bar>d\<bar> \<le> 100" for d
    unfolding days_from_def by (rule date_in_range) (use that in simp)
  have "runs (demo_promise 0 k n c a d x y)" if "\<bar>d\<bar> \<le> 100" for k n c a d x y
    using h [OF that] by (auto simp: demo_promise_def)
  then have "runs (DEMO_PTP_PROMISES (\<lambda>_. 0))" by (simp add: DEMO_PTP_PROMISES_def runs_mapE del: mapE.simps)
  moreover have "runs (demo_row (\<lambda>_. 0) i k n c b e a bu ov g tm d1 d2)" if "\<bar>d1\<bar> \<le> 100" "\<bar>d2\<bar> \<le> 100" for i k n c b e a bu ov g tm d1 d2
    using d [of "- d1"] d [of d2] that by (auto simp: demo_row_def)
  then have "runs (DEMO_B2B_INVOICES (\<lambda>_. 0))" by (simp add: DEMO_B2B_INVOICES_def runs_mapE del: mapE.simps)
  ultimately show ?thesis using w by (auto simp: loaded_site_def runs_iff)
qed

lemma developer_init_ok:
  assumes "\<And>i. \<bar>now i\<bar> \<le> 8640000000000000"
  shows "\<exists>p. developer_init now random = Inr p"
proof -
  have "\<exists>v. now_plus (now i) 0 = Inr v" for i
    using date_in_range [of "now i" 0] assms [of i] by (auto simp: now_plus_def)
  then obtain v w where "now_plus (now 0) 0 = Inr v" "now_plus (now 1) 0 = Inr w" by meson
  then show ?thesis by (simp add: developer_init_def)
qed

lemma navigation_open:
  \<comment> \<open>every link of the side bar opens a page of the console or the documentation, while the clock is in the range of dates\<close>
  assumes "(label, href) \<in> set navItems" "\<And>i. \<bar>now i\<bar> \<le> 8640000000000000"
  shows "href = ''/docs'' \<or> (\<exists>sc. mount s now random st href = Some (Inr sc))"
proof -
  obtain p where "developer_init now random = Inr p" using developer_init_ok assms(2) by blast
  moreover obtain q where "workflows_init (site_dataset s) = Inr q" by (simp add: workflows_init_def interventions)
  ultimately show ?thesis using assms(1) by (auto simp: navItems_def mount_def)
qed

end
