(* ===== verification/HttpClient.thy ===== *)
theory HttpClient
  imports SdkTypes
begin

text \<open>
  \<open>packages/sdk/src/client.ts\<close>: the HTTP client with its retry loop. The network is a parameter:
  for each attempt, the events Node's \<open>http\<close> module delivers for the request. A run yields the
  trace of what the client did (sleeps and requests sent) and its outcome; the outcome \<open>None\<close> is a
  promise that is never settled.
\<close>

subsection \<open>Requests and the events of a connection\<close>

record http_request =
  url :: string
  protocol :: string
  verb :: string
  headers :: "(string \<times> js) list"
  payload :: "string option"
  timeout :: int

datatype http_event = Respond "int option" | Chunk string | BodyEnd | TimedOut | Failed err

record http_response =
  statusCode :: int
  rbody :: string

type_synonym network = "nat \<Rightarrow> http_request \<Rightarrow> http_event list"

datatype effect = Sleep number | Send http_request

subsection \<open>The client\<close>

record HttpClientOptions =
  h_apiKey :: "string option"
  h_endpoint :: string
  h_timeoutMs :: "int option"
  h_maxRetries :: "int option"

record ReviveOSHttpClient =
  endpoint :: string
  apiKey :: "string option"
  timeoutMs :: int
  maxRetries :: int

definition new_client :: "HttpClientOptions \<Rightarrow> ReviveOSHttpClient" where
  "new_client options = \<lparr>
     endpoint = strip_slash (h_endpoint options),
     apiKey = h_apiKey options,
     timeoutMs = (case h_timeoutMs options of None \<Rightarrow> 10000 | Some t \<Rightarrow> if t = 0 then 10000 else t),
     maxRetries = (case h_maxRetries options of None \<Rightarrow> 2 | Some n \<Rightarrow> n)\<rparr>"

definition url_scheme :: "string \<Rightarrow> string option" where
  \<comment> \<open>the scheme of an absolute URL, in lower case\<close>
  "url_scheme s = (let p = takeWhile (\<lambda>c. c \<noteq> CHR '':'') s
     in if p \<noteq> [] \<and> length p < length s
          \<and> list_all (\<lambda>c. c \<in> set ''abcdefghijklmnopqrstuvwxyz0123456789+-.'') (to_lower p)
          \<and> hd (to_lower p) \<in> set ''abcdefghijklmnopqrstuvwxyz''
        then Some (to_lower p) else None)"

definition url_host :: "string \<Rightarrow> string" where
  "url_host s = takeWhile (\<lambda>c. c \<notin> set ''/?#'')
     (dropWhile (\<lambda>c. c = CHR ''/'') (drop 1 (dropWhile (\<lambda>c. c \<noteq> CHR '':'') s)))"

definition new_url :: "string \<Rightarrow> err + string" where
  \<comment> \<open>\<open>new URL(s)\<close>: an absolute URL, with a host when the scheme is \<open>http\<close> or \<open>https\<close>;
     returns its scheme\<close>
  "new_url s = (case url_scheme s of
       None \<Rightarrow> Inl (type_error ''Invalid URL'')
     | Some p \<Rightarrow> if p \<in> {''http'', ''https''} \<and> url_host s = [] then Inl (type_error ''Invalid URL'')
                 else Inr p)"

definition backoff :: "rng \<Rightarrow> int \<Rightarrow> number" where
  \<comment> \<open>\<open>Math.min(200 * Math.pow(2, attempt - 1) + Math.random() * 50, 3000)\<close>\<close>
  "backoff random attempt =
     nmin (nadd (nmul (nint 200) (to_number (2 ^ nat (attempt - 1))))
                (nmul (Fin (random (nat attempt))) (nint 50)))
          (nint 3000)"

definition build_request ::
  "ReviveOSHttpClient \<Rightarrow> string \<Rightarrow> string \<Rightarrow> js \<Rightarrow> (string \<times> js) list \<Rightarrow> err + http_request" where
  "build_request cl path method body hdrs =
    (let urlString = endpoint cl @ (if starts_with path ''/'' then path else ''/'' @ path)
     in seqE (new_url urlString) (\<lambda>p.
       let h0 = spread [(''Content-Type'', Str ''application/json''), (''Accept'', Str ''application/json''),
             (''User-Agent'', Str ''@reviveos/razorpay-sdk/1.0.0'')] hdrs;
           h1 = (case apiKey cl of
               Some k \<Rightarrow> if k = [] then h0
                 else put_field (put_field h0 ''Authorization'' (Str (''Bearer '' @ k))) ''X-API-Key'' (Str k)
             | None \<Rightarrow> h0);
           bodyData = (if truthy body then json_stringify body else Undef);
           h2 = (case bodyData of Str d \<Rightarrow> put_field h1 ''Content-Length'' (Str (show_nat (length d)))
             | _ \<Rightarrow> h1)
       in Inr \<lparr>url = urlString, protocol = p, verb = method, headers = h2,
            payload = (case bodyData of Str d \<Rightarrow> Some d | _ \<Rightarrow> None), timeout = timeoutMs cl\<rparr>))"

fun deliver :: "int \<Rightarrow> int option \<Rightarrow> string \<Rightarrow> http_event list \<Rightarrow> (err + http_response) option" where
  \<comment> \<open>the promise of \<open>executeHttpRequest\<close>: the status once headers arrived, the body so far\<close>
  "deliver t st data [] = None"
| "deliver t st data (Respond c # es) =
     deliver t (Some (case c of None \<Rightarrow> 500 | Some n \<Rightarrow> if n = 0 then 500 else n)) [] es"
| "deliver t st data (Chunk d # es) = deliver t st (if st = None then data else data @ d) es"
| "deliver t st data (BodyEnd # es) =
     (case st of None \<Rightarrow> deliver t st data es | Some n \<Rightarrow> Some (Inr \<lparr>statusCode = n, rbody = data\<rparr>))"
| "deliver t st data (TimedOut # es) =
     Some (Inl (plain_error (''ReviveOS request timed out after '' @ show_int t @ ''ms'')))"
| "deliver t st data (Failed e # es) = Some (Inl e)"

definition executeHttpRequest ::
  "ReviveOSHttpClient \<Rightarrow> http_request \<Rightarrow> http_event list \<Rightarrow> (err + http_response) option" where
  "executeHttpRequest cl req events =
    (if protocol req \<noteq> ''https'' \<and> protocol req \<noteq> ''http''
     then Some (Inl (type_error (''Protocol '' @ [CHR 0x22] @ protocol req @ '':'' @ [CHR 0x22]
       @ '' not supported. Expected '' @ [CHR 0x22] @ ''http:'' @ [CHR 0x22])))
     else deliver (timeoutMs cl) None [] events)"

subsection \<open>One attempt\<close>

datatype completion = Return js | Continue err | Throw err

definition success_value :: "http_response \<Rightarrow> js" where
  "success_value r = (if rbody r = [] \<or> trim (rbody r) = [] then Obj []
     else (case json_parse (rbody r) of Inr v \<Rightarrow> v | Inl _ \<Rightarrow> Str (rbody r)))"

definition try_body :: "ReviveOSHttpClient \<Rightarrow> int \<Rightarrow> err + http_response \<Rightarrow> completion" where
  \<comment> \<open>the body of the \<open>try\<close>, from the response on\<close>
  "try_body cl attempt outcome = (case outcome of
     Inl e \<Rightarrow> Throw e
   | Inr r \<Rightarrow>
       if 200 \<le> statusCode r \<and> statusCode r < 300 then Return (success_value r)
       else if statusCode r = 401 \<or> statusCode r = 403 then
         Throw (ReviveOSAuthError (Some (''ReviveOS authentication failed ('' @ show_int (statusCode r)
           @ ''): '' @ rbody r)))
       else if statusCode r = 400 then
         Throw (ReviveOSValidationError (''ReviveOS bad request: '' @ rbody r))
       else if 500 \<le> statusCode r \<and> attempt < maxRetries cl then
         Continue (ReviveOSApiError (rbody r) (statusCode r) Undef)
       else Throw (ReviveOSApiError (rbody r) (statusCode r) Undef))"

definition catch_clause :: "ReviveOSHttpClient \<Rightarrow> int \<Rightarrow> completion \<Rightarrow> completion" where
  \<comment> \<open>the \<open>catch\<close>: a \<open>Continue\<close> carries the new \<open>lastError\<close> into the next attempt\<close>
  "catch_clause cl attempt c = (case c of
     Throw e \<Rightarrow> if instance_of e CAuth \<or> instance_of e CValidation then Throw e
       else if maxRetries cl \<le> attempt then Throw e
       else Continue e
   | _ \<Rightarrow> c)"

subsection \<open>The retry loop\<close>

function request_loop :: "ReviveOSHttpClient \<Rightarrow> network \<Rightarrow> rng \<Rightarrow> http_request \<Rightarrow> int \<Rightarrow> err option
    \<Rightarrow> effect list \<times> (err + js) option" where
  "request_loop cl net random req attempt lastError =
    (if maxRetries cl < attempt
     then ([], Some (Inl (case lastError of Some e \<Rightarrow> e
            | None \<Rightarrow> plain_error ''Request to ReviveOS failed after maximum retries'')))
     else
      let did = (if 0 < attempt then [Sleep (backoff random attempt)] else []) @ [Send req]
      in (case executeHttpRequest cl req (net (nat attempt) req) of
           None \<Rightarrow> (did, None)
         | Some outcome \<Rightarrow> (case catch_clause cl attempt (try_body cl attempt outcome) of
             Return v \<Rightarrow> (did, Some (Inr v))
           | Throw e \<Rightarrow> (did, Some (Inl e))
           | Continue e \<Rightarrow>
               let (rest, result) = request_loop cl net random req (attempt + 1) (Some e)
               in (did @ rest, result))))"
  by pat_completeness auto
termination
  by (relation "measure (\<lambda>(cl, _, _, _, attempt, _). nat (maxRetries cl + 1 - attempt))") auto

declare request_loop.simps [simp del]

definition request ::
  "ReviveOSHttpClient \<Rightarrow> network \<Rightarrow> rng \<Rightarrow> string \<Rightarrow> string \<Rightarrow> js \<Rightarrow> (string \<times> js) list
    \<Rightarrow> effect list \<times> (err + js) option" where
  "request cl net random path method body hdrs = (case build_request cl path method body hdrs of
     Inl e \<Rightarrow> ([], Some (Inl e))
   | Inr req \<Rightarrow> request_loop cl net random req 0 None)"

subsection \<open>What the loop promises\<close>

text \<open>
  The abstract view: an outcome is conclusive when the client stops at it, whatever attempts are
  left, and a run of attempts ends with the first conclusive outcome, else with the last failure.
\<close>

definition conclusive :: "err + http_response \<Rightarrow> (err + js) option" where
  "conclusive outcome = (case outcome of
     Inl e \<Rightarrow> if eclass e = CAuth \<or> eclass e = CValidation then Some (Inl e) else None
   | Inr r \<Rightarrow>
       if statusCode r \<in> {200..299} then Some (Inr (success_value r))
       else if statusCode r \<in> {401, 403} then Some (Inl (ReviveOSAuthError
         (Some (''ReviveOS authentication failed ('' @ show_int (statusCode r) @ ''): '' @ rbody r))))
       else if statusCode r = 400 then Some (Inl (ReviveOSValidationError (''ReviveOS bad request: '' @ rbody r)))
       else None)"

definition failure :: "err + http_response \<Rightarrow> err" where
  "failure outcome = (case outcome of Inl e \<Rightarrow> e | Inr r \<Rightarrow> ReviveOSApiError (rbody r) (statusCode r) Undef)"

definition run_spec :: "(err + http_response) list \<Rightarrow> err + js" where
  "run_spec outs = (case first_some conclusive outs of Some v \<Rightarrow> v | None \<Rightarrow> Inl (failure (last outs)))"

fun run_trace :: "rng \<Rightarrow> http_request \<Rightarrow> nat \<Rightarrow> effect list" where
  \<comment> \<open>the first request, then a sleep before each of \<open>k\<close> retries\<close>
  "run_trace random req 0 = [Send req]"
| "run_trace random req (Suc k) = run_trace random req k @ [Sleep (backoff random (int k + 1)), Send req]"

lemma one_attempt:
  assumes "attempt \<le> maxRetries cl"
  shows "catch_clause cl attempt (try_body cl attempt outcome) = (case conclusive outcome of
      Some (Inr v) \<Rightarrow> Return v | Some (Inl e) \<Rightarrow> Throw e
    | None \<Rightarrow> if attempt < maxRetries cl then Continue (failure outcome) else Throw (failure outcome))"
proof (cases outcome)
  case (Inl e)
  then show ?thesis using assms
    by (auto simp: catch_clause_def try_body_def conclusive_def failure_def instance_of_class)
next
  case (Inr r)
  show ?thesis
  proof (cases "statusCode r \<in> {200..299}")
    case True
    then show ?thesis using Inr by (simp add: catch_clause_def try_body_def conclusive_def)
  next
    case False
    then have "\<not> (200 \<le> statusCode r \<and> statusCode r < 300)" by auto
    with False Inr assms show ?thesis
      by (auto simp: catch_clause_def try_body_def conclusive_def failure_def instance_of_class)
  qed
qed

lemma request_loop_step:
  assumes "attempt \<le> maxRetries cl" "executeHttpRequest cl req (net (nat attempt) req) = Some outcome"
  shows "request_loop cl net random req attempt l = (
    let did = (if 0 < attempt then [Sleep (backoff random attempt)] else []) @ [Send req]
    in case conclusive outcome of
        Some r \<Rightarrow> (did, Some r)
      | None \<Rightarrow> if attempt < maxRetries cl
          then let (rest, result) = request_loop cl net random req (attempt + 1) (Some (failure outcome))
               in (did @ rest, result)
          else (did, Some (Inl (failure outcome))))"
  using assms
  by (subst request_loop.simps)
    (simp add: one_attempt Let_def split: option.split sum.split)

lemma request_loop_pending:
  assumes "attempt \<le> maxRetries cl" "executeHttpRequest cl req (net (nat attempt) req) = None"
  shows "request_loop cl net random req attempt l =
    ((if 0 < attempt then [Sleep (backoff random attempt)] else []) @ [Send req], None)"
  using assms by (subst request_loop.simps) simp

lemma run_spec_Cons:
  "outs \<noteq> [] \<Longrightarrow> run_spec (o1 # outs) = (case conclusive o1 of Some v \<Rightarrow> v | None \<Rightarrow> run_spec outs)"
  by (auto simp: run_spec_def split: option.split)

text \<open>
  C3: The retry loop refines the abstract run: when every attempt's promise settles, the outcome
  is the first conclusive one (a success, an authentication failure or a bad request) among the
  first \<open>maxRetries + 1\<close>, and otherwise the failure of the last attempt.
\<close>

theorem request_loop_refines:
  assumes "maxRetries cl = int n" and "\<forall>i\<le>n. executeHttpRequest cl req (net i req) = Some (outs i)"
  shows "snd (request_loop cl net random req 0 None) = Some (run_spec (map outs [0..<Suc n]))"
proof -
  have "snd (request_loop cl net random req (int i) l) = Some (run_spec (map outs [i..<Suc n]))"
    if "i \<le> n" for i l
    using that
  proof (induction "n - i" arbitrary: i l)
    case 0
    then have "i = n" by simp
    then show ?case
      using assms request_loop_step [of "int n" cl req net "outs n" random l]
      by (cases "conclusive (outs n)") (simp_all add: run_spec_def Let_def)
  next
    case (Suc d)
    have e: "[i..<Suc n] = i # [Suc i..<Suc n]" using Suc.hyps(2) by (subst upt_rec) simp
    have IH: "snd (request_loop cl net random req (int i + 1) l') = Some (run_spec (map outs [Suc i..<Suc n]))" for l'
    proof -
      have "d = n - Suc i" "Suc i \<le> n" using Suc.hyps(2) by simp_all
      from Suc.hyps(1) [OF this, of l'] show ?thesis by (simp only: of_nat_Suc add.commute)
    qed
    have ne: "map outs [Suc i..<Suc n] \<noteq> []" using Suc.hyps(2) by simp
    show ?case
      using assms Suc.hyps(2) Suc.prems request_loop_step [of "int i" cl req net "outs i" random l]
        IH [of "Some (failure (outs i))"]
      by (cases "conclusive (outs i)")
        (auto simp: run_spec_Cons [OF ne] Let_def e split_beta simp del: upt_Suc)
  qed
  from this [of 0] show ?thesis by simp
qed

lemma request_loop_refines_witness:
  "snd (request_loop \<lparr>endpoint = ''http://h'', apiKey = None, timeoutMs = 10000, maxRetries = int 1\<rparr>
      (\<lambda>i r. if i = 0 then [Respond (Some 503), BodyEnd] else [Respond (Some 200), Chunk ''true'', BodyEnd])
      (\<lambda>_. 0) \<lparr>url = ''http://h/'', protocol = ''http'', verb = ''GET'', headers = [], payload = None, timeout = 10000\<rparr>
      0 None)
   = Some (run_spec (map (\<lambda>i. if i = 0 then Inr \<lparr>statusCode = 503, rbody = []\<rparr>
       else Inr \<lparr>statusCode = 200, rbody = ''true''\<rparr>) [0..<Suc 1]))"
  by (rule request_loop_refines) (simp_all add: executeHttpRequest_def)

subsection \<open>The trace\<close>

definition so_far :: "rng \<Rightarrow> http_request \<Rightarrow> nat \<Rightarrow> effect list" where
  "so_far random req i = (case i of 0 \<Rightarrow> [] | Suc j \<Rightarrow> run_trace random req j)"

lemma so_far_step: "so_far random req i @ (if 0 < int i then [Sleep (backoff random (int i))] else []) @ [Send req]
    = so_far random req (Suc i)"
  by (cases i) (simp_all add: so_far_def add.commute)

lemma request_loop_trace:
  assumes "int i \<le> maxRetries cl"
  shows "\<exists>k. so_far random req i @ fst (request_loop cl net random req (int i) l) = run_trace random req k
    \<and> i \<le> k \<and> int k \<le> maxRetries cl"
  using assms
proof (induction "nat (maxRetries cl) - i" arbitrary: i l)
  case 0
  have s: "so_far random req i @ (if 0 < int i then [Sleep (backoff random (int i))] else []) @ [Send req]
      = run_trace random req i"
    using so_far_step by (simp only: so_far_def nat.case)
  have "fst (request_loop cl net random req (int i) l)
      = (if 0 < int i then [Sleep (backoff random (int i))] else []) @ [Send req]"
    using 0 request_loop_step [of "int i" cl req net _ random l] request_loop_pending [of "int i" cl req net random l]
    by (cases "executeHttpRequest cl req (net i req)") (auto simp: Let_def split: option.splits)
  with s 0 show ?case by (metis order_refl)
next
  case (Suc d)
  have s: "so_far random req i @ (if 0 < int i then [Sleep (backoff random (int i))] else []) @ [Send req]
      = run_trace random req i"
    using so_far_step by (simp only: so_far_def nat.case)
  let ?did = "(if 0 < int i then [Sleep (backoff random (int i))] else []) @ [Send req]"
  have "fst (request_loop cl net random req (int i) l) = ?did \<or>
      (\<exists>l'. fst (request_loop cl net random req (int i) l) = ?did @ fst (request_loop cl net random req (int (Suc i)) l'))"
    using Suc.prems request_loop_step [of "int i" cl req net _ random l] request_loop_pending [of "int i" cl req net random l]
    by (cases "executeHttpRequest cl req (net i req)") (auto simp: Let_def split_beta add.commute split: option.splits)
  then show ?case
  proof
    assume "fst (request_loop cl net random req (int i) l) = ?did"
    with s Suc.prems show ?thesis by (metis order_refl)
  next
    assume "\<exists>l'. fst (request_loop cl net random req (int i) l) = ?did @ fst (request_loop cl net random req (int (Suc i)) l')"
    then obtain l' where l': "fst (request_loop cl net random req (int i) l)
        = ?did @ fst (request_loop cl net random req (int (Suc i)) l')" ..
    have "d = nat (maxRetries cl) - Suc i" "int (Suc i) \<le> maxRetries cl" using Suc.hyps(2) by linarith+
    from Suc.hyps(1) [OF this, of l'] obtain k where
      "so_far random req (Suc i) @ fst (request_loop cl net random req (int (Suc i)) l') = run_trace random req k"
      "Suc i \<le> k" "int k \<le> maxRetries cl" by blast
    moreover have "so_far random req (Suc i) = so_far random req i @ ?did" using so_far_step by simp
    ultimately show ?thesis using l' by (metis Suc_leD append.assoc)
  qed
qed

text \<open>
  C30: Every run sends the same request at most \<open>maxRetries + 1\<close> times, sleeping before each retry and
  never before the first request. A negative \<open>maxRetries\<close> sends nothing at all: the call fails with the
  loop's fallback error without having touched the network.
\<close>

theorem request_loop_effects:
  "if maxRetries cl < 0
   then request_loop cl net random req 0 None
      = ([], Some (Inl (plain_error ''Request to ReviveOS failed after maximum retries'')))
   else \<exists>k\<in>{0..nat (maxRetries cl)}. fst (request_loop cl net random req 0 None) = run_trace random req k"
proof (cases "maxRetries cl < 0")
  case True
  then show ?thesis by (subst request_loop.simps) simp
next
  case False
  then show ?thesis using request_loop_trace [of 0 cl random req net None] by (force simp: so_far_def)
qed

lemma request_loop_effects_witness:
  "\<exists>k\<in>{0..nat 3}. fst (request_loop \<lparr>endpoint = ''http://h'', apiKey = None, timeoutMs = 10000, maxRetries = 3\<rparr>
     (\<lambda>_ _. []) (\<lambda>_. 0) \<lparr>url = ''http://h/'', protocol = ''http'', verb = ''GET'', headers = [], payload = None, timeout = 1\<rparr>
     0 None) = run_trace (\<lambda>_. 0) \<lparr>url = ''http://h/'', protocol = ''http'', verb = ''GET'', headers = [], payload = None, timeout = 1\<rparr> k"
  using request_loop_effects [of "\<lparr>endpoint = ''http://h'', apiKey = None, timeoutMs = 10000, maxRetries = 3\<rparr>"
    "\<lambda>_ _. []" "\<lambda>_. 0" "\<lparr>url = ''http://h/'', protocol = ''http'', verb = ''GET'', headers = [], payload = None, timeout = 1\<rparr>"]
  by (simp only: ReviveOSHttpClient.select_convs)

subsection \<open>The backoff\<close>

lemma to_number_ge:
  assumes "of_int d \<le> x" "0 \<le> d" "d \<le> 2 ^ 53"
  shows "to_number x = PosInf \<or> (\<exists>r. to_number x = Fin r \<and> of_int d \<le> r)"
proof -
  have "of_int d \<le> rnd x" using assms by (intro le_rnd is_double_int) auto
  moreover have "- overflow < 0" by (simp add: overflow_def)
  moreover have "(0::rat) \<le> of_int d" using assms(2) by simp
  ultimately show ?thesis by (auto simp: to_number_def Let_def)
qed

text \<open>
  C34: Every sleep before a retry lasts between 200 and 3000 milliseconds, whatever the attempt number
  (the power of two may overflow to infinity) and whatever the jitter in \<open>[0, 1)\<close>.
\<close>

theorem backoff_bounds:
  assumes "unit_rng random" and "1 \<le> attempt"
  shows "\<exists>ms. backoff random attempt = Fin ms \<and> 200 \<le> ms \<and> ms \<le> 3000"
proof -
  let ?j = "random (nat attempt)"
  have j: "0 \<le> ?j" "?j < 1" using assms(1) by (simp_all add: unit_rng_def)
  have "\<bar>?j * 50\<bar> \<le> 2 ^ 53" using j by (simp add: abs_mult)
  then have "to_number (?j * 50) = Fin (rnd (?j * 50))" by (rule to_number_bounded)
  moreover have "0 \<le> rnd (?j * 50)" using j by (intro rnd_nonneg) simp
  ultimately obtain jit where jit: "nmul (Fin ?j) (nint 50) = Fin jit" "0 \<le> jit" by simp
  have p: "to_number (2 ^ nat (attempt - 1)) = PosInf \<or>
      (\<exists>r. to_number (2 ^ nat (attempt - 1)) = Fin r \<and> 1 \<le> r)"
    using to_number_ge [of 1 "2 ^ nat (attempt - 1)"] by simp
  have b: "nmul (nint 200) (to_number (2 ^ nat (attempt - 1))) = PosInf \<or>
      (\<exists>r. nmul (nint 200) (to_number (2 ^ nat (attempt - 1))) = Fin r \<and> 200 \<le> r)"
    using p
  proof (elim disjE exE conjE)
    fix r assume r: "to_number (2 ^ nat (attempt - 1)) = Fin r" "1 \<le> r"
    then show ?thesis using to_number_ge [of 200 "200 * r"] by simp
  qed (simp add: inf_of_sign_def)
  have s: "nadd (nmul (nint 200) (to_number (2 ^ nat (attempt - 1)))) (Fin jit) = PosInf \<or>
      (\<exists>r. nadd (nmul (nint 200) (to_number (2 ^ nat (attempt - 1)))) (Fin jit) = Fin r \<and> 200 \<le> r)"
    using b
  proof (elim disjE exE conjE)
    fix r assume r: "nmul (nint 200) (to_number (2 ^ nat (attempt - 1))) = Fin r" "200 \<le> r"
    then show ?thesis using to_number_ge [of 200 "r + jit"] jit(2) by simp
  qed simp
  then show ?thesis unfolding backoff_def jit(1) by auto
qed

lemma backoff_bounds_witness: "\<exists>ms. backoff (\<lambda>_. 0) 9 = Fin ms \<and> 200 \<le> ms \<and> ms \<le> 3000"
  by (rule backoff_bounds) (simp_all add: unit_rng_def is_double_int [of 0, simplified])

text \<open>
  C33: An answered attempt is repeated exactly when attempts are left and its status is not conclusive. So besides a 5xx status, every other status outside 2xx, 400, 401 and 403
  is retried too, although the client's comment reserves retries for server errors.
\<close>

theorem retried_iff:
  assumes "attempt \<le> maxRetries cl"
  shows "(\<exists>e. catch_clause cl attempt (try_body cl attempt (Inr r)) = Continue e) \<longleftrightarrow>
    attempt < maxRetries cl \<and> statusCode r \<notin> {200..299} \<union> {400, 401, 403}"
  using one_attempt [OF assms, of "Inr r"] by (auto simp: conclusive_def)

lemma retried_iff_witness:
  "\<exists>e. catch_clause \<lparr>endpoint = ''http://h'', apiKey = None, timeoutMs = 10000, maxRetries = 2\<rparr> 0
     (try_body \<lparr>endpoint = ''http://h'', apiKey = None, timeoutMs = 10000, maxRetries = 2\<rparr> 0
       (Inr \<lparr>statusCode = 404, rbody = ''not found''\<rparr>)) = Continue e"
  by (subst retried_iff) simp_all

end
