(* ===== verification/WebhookManager.thy ===== *)
theory WebhookManager
  imports Normalizer
begin

text \<open>
  \<open>packages/sdk/src/webhook.ts\<close>: signature verification of a webhook body and its
  normalization. The keyed hash is a parameter \<open>hmac secret bytes\<close>, the hexadecimal digest
  Node's \<open>crypto\<close> returns or the error it throws. A body is a text or a buffer; both are lists
  of bytes here, so \<open>Buffer.from(s, "utf8")\<close> and \<open>toString("utf8")\<close> are the identity.
\<close>

datatype body = BodyText string | Buffer string

fun body_bytes :: "body \<Rightarrow> string" where
  "body_bytes (BodyText s) = s"
| "body_bytes (Buffer s) = s"

type_synonym hmac = "string \<Rightarrow> string \<Rightarrow> err + string"

record RazorpayWebhookManager =
  webhookSecret :: "string option"

definition timingSafeEqual :: "string \<Rightarrow> string \<Rightarrow> err + bool" where
  "timingSafeEqual a b = (if length a \<noteq> length b
     then Inl (range_error ''Input buffers must have the same byte length'')
     else Inr (list_all (\<lambda>(x, y). x = y) (zip a b)))"

definition verifySignature :: "hmac \<Rightarrow> RazorpayWebhookManager \<Rightarrow> body \<Rightarrow> string \<Rightarrow> bool" where
  "verifySignature hmac m rawBody signature =
    (case webhookSecret m of
       None \<Rightarrow> True
     | Some secret \<Rightarrow>
         if secret = [] then True
         else if signature = [] then False
         else (case seqE (hmac secret (body_bytes rawBody)) (\<lambda>calculatedSignature.
                 let sigBuffer = to_lower signature; calcBuffer = to_lower calculatedSignature
                 in if length sigBuffer \<noteq> length calcBuffer then Inr False
                    else timingSafeEqual sigBuffer calcBuffer) of
               Inr b \<Rightarrow> b | Inl _ \<Rightarrow> False))"

definition verifyAndNormalize ::
  "hmac \<Rightarrow> clock \<Rightarrow> RazorpayWebhookManager \<Rightarrow> body \<Rightarrow> string option \<Rightarrow> js \<Rightarrow> err + js" where
  "verifyAndNormalize hmac now m rawBody signature headers =
    (if has_text (webhookSecret m) \<and> has_text signature
        \<and> \<not> verifySignature hmac m rawBody (the signature)
     then Inl (ReviveOSSignatureError (Some ''Razorpay webhook signature verification failed.''))
     else normalizeRazorpayEvent now (Str (body_bytes rawBody)) headers)"

definition safeVerifyAndNormalize ::
  "hmac \<Rightarrow> clock \<Rightarrow> RazorpayWebhookManager \<Rightarrow> body \<Rightarrow> string option \<Rightarrow> js \<Rightarrow> WebhookVerificationResult" where
  "safeVerifyAndNormalize hmac now m rawBody signature headers =
    (case verifyAndNormalize hmac now m rawBody signature headers of
       Inr e \<Rightarrow> \<lparr>wv_valid = True, wv_event = Some e, wv_error = None\<rparr>
     | Inl err \<Rightarrow> \<lparr>wv_valid = False, wv_event = None,
         wv_error = Some (if emessage err = [] then ''Invalid webhook payload'' else emessage err)\<rparr>)"

subsection \<open>Lemmas\<close>

lemma list_all_zip_eq: "length a = length b \<Longrightarrow> list_all (\<lambda>(x, y). x = y) (zip a b) \<longleftrightarrow> a = b"
  by (induction a b rule: list_induct2) auto

lemma timingSafeEqual_eq: "length a = length b \<Longrightarrow> timingSafeEqual a b = Inr (a = b)"
  by (simp add: timingSafeEqual_def list_all_zip_eq)

lemma verify_cases:
  assumes "webhookSecret m = Some secret" "secret \<noteq> []"
  shows "verifySignature hmac m b sig \<longleftrightarrow> sig \<noteq> []
    \<and> (\<exists>d. hmac secret (body_bytes b) = Inr d \<and> to_lower sig = to_lower d)"
proof (cases "hmac secret (body_bytes b)")
  case Inl
  then show ?thesis using assms by (simp add: verifySignature_def)
next
  case (Inr d)
  then show ?thesis
    using assms timingSafeEqual_eq [of "to_lower sig" "to_lower d"]
    by (cases "length (to_lower sig) = length (to_lower d)") (auto simp: verifySignature_def Let_def)
qed

lemma verify_no_secret: "\<not> has_text (webhookSecret m) \<Longrightarrow> verifySignature hmac m b sig"
  by (auto simp: verifySignature_def)

lemma verifyAndNormalize_checked:
  "has_text (webhookSecret m) \<Longrightarrow> has_text sig \<Longrightarrow>
   verifyAndNormalize hmac now m b sig h = (if verifySignature hmac m b (the sig)
     then normalizeRazorpayEvent now (Str (body_bytes b)) h
     else Inl (ReviveOSSignatureError (Some ''Razorpay webhook signature verification failed.'')))"
  by (auto simp: verifyAndNormalize_def)

lemma verifyAndNormalize_unchecked:
  "\<not> has_text (webhookSecret m) \<or> \<not> has_text sig \<Longrightarrow>
   verifyAndNormalize hmac now m b sig h = normalizeRazorpayEvent now (Str (body_bytes b)) h"
  by (auto simp: verifyAndNormalize_def)

subsection \<open>Properties\<close>

text \<open>
  C1: With a secret configured and a signature supplied, a body is accepted exactly when its digest
  under the secret equals the signature up to case and it normalizes; a mismatch, or a failing hash,
  yields the signature error and no event.
\<close>

theorem signed_event_accepted_iff:
  assumes "webhookSecret m = Some secret" and "secret \<noteq> []" and "sig \<noteq> []"
  shows "verifyAndNormalize hmac now m b (Some sig) h =
    (if \<exists>d. hmac secret (body_bytes b) = Inr d \<and> to_lower sig = to_lower d
     then normalizeRazorpayEvent now (Str (body_bytes b)) h
     else Inl (ReviveOSSignatureError (Some ''Razorpay webhook signature verification failed.'')))"
  using assms by (simp add: verifyAndNormalize_checked verify_cases [OF assms(1,2)])

lemma signed_event_accepted_iff_witness:
  "verifyAndNormalize (\<lambda>s b. Inr ''0a'') (\<lambda>_. 0) \<lparr>webhookSecret = Some ''whsec''\<rparr> (BodyText ''{}'') (Some ''0b'') Undef
     = Inl (ReviveOSSignatureError (Some ''Razorpay webhook signature verification failed.''))"
  using signed_event_accepted_iff [of "\<lparr>webhookSecret = Some ''whsec''\<rparr>" "''whsec''" "''0b''"
      "\<lambda>s b. Inr ''0a''" "\<lambda>_. 0" "BodyText ''{}''" Undef]
  by (simp add: to_lower_def lower_char_def)

text \<open>
  C35: Without a signature nothing is verified, even when a secret is configured: a request that leaves
  the header out (or sends it empty) is normalized exactly as if no secret existed, so any body that normalizes is accepted.
\<close>

theorem missing_signature_not_verified:
  "verifyAndNormalize hmac now \<lparr>webhookSecret = Some secret\<rparr> b None h
     = verifyAndNormalize hmac now \<lparr>webhookSecret = None\<rparr> b (Some sig) h \<and>
   verifyAndNormalize hmac now \<lparr>webhookSecret = Some secret\<rparr> b (Some []) h
     = verifyAndNormalize hmac now \<lparr>webhookSecret = None\<rparr> b (Some sig) h"
  by (simp add: verifyAndNormalize_unchecked)

text \<open>
  The safe variant never throws and loses nothing: it reports an event exactly when the throwing
  variant returns that event, and otherwise a non-empty error message and no event.
\<close>

lemma safe_verify_total:
  "let r = safeVerifyAndNormalize hmac now m b sig h
   in (case verifyAndNormalize hmac now m b sig h of
        Inr ev \<Rightarrow> r = \<lparr>wv_valid = True, wv_event = Some ev, wv_error = None\<rparr>
      | Inl e \<Rightarrow> wv_valid r = False \<and> wv_event r = None \<and> (\<exists>c s. wv_error r = Some (c # s)))"
  by (cases "verifyAndNormalize hmac now m b sig h")
    (auto simp: safeVerifyAndNormalize_def Let_def neq_Nil_conv)

end
