(* ===== verification/ReviveSdk.thy ===== *)
theory ReviveSdk
  imports HttpClient WebhookManager MockEngine
begin

text \<open>
  \<open>packages/sdk/src/index.ts\<close>: the class \<open>ReviveOS\<close>. Its constructor resolves the options against
  the process environment; every operation answers from the mock engine in mock mode and sends
  one request otherwise. An operation yields the client's trace and the outcome of its promise.
\<close>

type_synonym environ = "string \<Rightarrow> string option"

record world =
  w_net :: network
  w_random :: rng
  w_now :: clock

record ReviveOS =
  webhooks :: RazorpayWebhookManager
  http :: ReviveOSHttpClient
  isMockMode :: bool

type_synonym answer = "effect list \<times> (err + js) option"

definition new_ReviveOS :: "environ \<Rightarrow> ReviveOSOptions \<Rightarrow> ReviveOS" where
  "new_ReviveOS env options =
    (let mode = (case o_mode options of Some m \<Rightarrow> mode_str m
           | None \<Rightarrow> the (or_text (env ''REVIVEOS_MODE'') (Some ''live'')));
         endpoint = the (or_text (o_endpoint options)
           (or_text (env ''REVIVEOS_API_URL'') (Some ''http://localhost:8080'')));
         apiKey = or_text (o_apiKey options) (env ''REVIVEOS_API_KEY'');
         webhookSecret = or_text (o_webhookSecret options) (env ''RAZORPAY_WEBHOOK_SECRET'')
     in \<lparr>webhooks = \<lparr>webhookSecret = webhookSecret\<rparr>,
         http = new_client \<lparr>h_apiKey = apiKey, h_endpoint = endpoint,
           h_timeoutMs = o_timeoutMs options, h_maxRetries = o_maxRetries options\<rparr>,
         isMockMode = (mode = ''mock'')\<rparr>)"

definition mock_answer :: "err + js \<Rightarrow> answer" where
  "mock_answer r = ([], Some r)"

definition call :: "ReviveOS \<Rightarrow> world \<Rightarrow> string \<Rightarrow> string \<Rightarrow> js \<Rightarrow> answer" where
  "call r w path method body = request (http r) (w_net w) (w_random w) path method body []"

definition iso_now :: "clock \<Rightarrow> err + string" where
  \<comment> \<open>\<open>new Date().toISOString()\<close>\<close>
  "iso_now now = to_iso (nint (now 0))"

definition events_process :: "ReviveOS \<Rightarrow> world \<Rightarrow> js \<Rightarrow> answer" where
  "events_process r w event =
    (if isMockMode r then mock_answer (
       seqE (get event ''eventId'') (\<lambda>event_id.
       seqE (iso_now (w_now w)) (\<lambda>timestamp. Inr (Obj [
         (''status'', Str ''INGESTED''),
         (''event_id'', event_id),
         (''payment_id'', member event ''paymentId''),
         (''timestamp'', Str timestamp),
         (''message'', Str ''Mock payment event ingested successfully.'')]))))
     else call r w ''/v1/events'' ''POST'' event)"

definition dummy_event :: "js \<Rightarrow> string \<Rightarrow> js" where
  "dummy_event params timestamp = Obj [
     (''provider'', Str ''mock''),
     (''eventType'', Str ''payment.failed''),
     (''eventId'', Str (''evt_mock_'' @ to_str (member params ''paymentId''))),
     (''paymentId'', member params ''paymentId''),
     (''customerId'', member params ''customerId''),
     (''amount'', member params ''amount''),
     (''currency'', orv (member params ''currency'') (Str ''INR'')),
     (''timestamp'', Str timestamp),
     (''failure'', Obj [(''code'', member params ''failureCode''),
                        (''reason'', member params ''failureReason'')])]"

definition payments_analyze :: "ReviveOS \<Rightarrow> world \<Rightarrow> js \<Rightarrow> answer" where
  "payments_analyze r w params =
    (if isMockMode r then mock_answer (
       seqE (get params ''paymentId'') (\<lambda>_.
       seqE (iso_now (w_now w)) (\<lambda>timestamp.
       analyzeMockPayment (\<lambda>i. w_now w (Suc i)) (dummy_event params timestamp))))
     else call r w ''/v1/payments/analyze'' ''POST'' params)"

definition payments_get :: "ReviveOS \<Rightarrow> world \<Rightarrow> string \<Rightarrow> answer" where
  "payments_get r w paymentId =
    (if isMockMode r then mock_answer (Inr (Obj [
       (''id'', Str paymentId), (''status'', Str ''FAILED''), (''amount'', js_int 4999),
       (''currency'', Str ''INR''), (''mock'', Bool True)]))
     else call r w (''/v1/payments/'' @ paymentId) ''GET'' Undef)"

definition recovery_decision :: "ReviveOS \<Rightarrow> world \<Rightarrow> js \<Rightarrow> answer" where
  "recovery_decision r w params =
    (if isMockMode r then mock_answer (
       seqE (iso_now (w_now w)) (\<lambda>timestamp. Inr (Obj [
         (''decision'', Str ''RECOVER''), (''action'', Str ''RETRY''), (''delaySeconds'', js_int 120),
         (''confidence'', dec 94 100),
         (''reason'', Str ''High recovery probability and low fraud risk (Simulated)''),
         (''timestamp'', Str timestamp)])))
     else call r w ''/v1/recovery/decision'' ''POST'' params)"

definition recovery_execute :: "ReviveOS \<Rightarrow> world \<Rightarrow> js \<Rightarrow> answer" where
  "recovery_execute r w params =
    (if isMockMode r then mock_answer (
       seqE (get params ''paymentId'') (\<lambda>paymentId.
       seqE (iso_now (w_now w)) (\<lambda>executedAt. Inr (Obj [
         (''status'', Str ''EXECUTED''), (''paymentId'', paymentId),
         (''action'', member params ''action''), (''resultStatus'', Str ''CAPTURED''),
         (''verified'', Bool True), (''executedAt'', Str executedAt)]))))
     else call r w ''/v1/recovery/execute'' ''POST'' params)"

definition customers_getRecoveryProfile :: "ReviveOS \<Rightarrow> world \<Rightarrow> string \<Rightarrow> answer" where
  "customers_getRecoveryProfile r w customerId =
    (if isMockMode r then mock_answer (getMockCustomerProfile (w_now w) (Str customerId))
     else call r w (''/v1/customers/'' @ customerId @ ''/recovery-profile'') ''GET'' Undef)"

subsection \<open>An operation as data\<close>

text \<open>The six operations of the object, so that what all of them share is stated once.\<close>

datatype operation = Process js | Analyze js | GetPayment string | Decide js | Execute js | Profile string

fun perform :: "ReviveOS \<Rightarrow> world \<Rightarrow> operation \<Rightarrow> answer" where
  "perform r w (Process ev) = events_process r w ev"
| "perform r w (Analyze p) = payments_analyze r w p"
| "perform r w (GetPayment i) = payments_get r w i"
| "perform r w (Decide p) = recovery_decision r w p"
| "perform r w (Execute p) = recovery_execute r w p"
| "perform r w (Profile c) = customers_getRecoveryProfile r w c"

lemmas operations = events_process_def payments_analyze_def payments_get_def recovery_decision_def
  recovery_execute_def customers_getRecoveryProfile_def

subsection \<open>Argument and result types\<close>

definition AnalyzeParams :: ty where
  "AnalyzeParams = TRec [Req ''paymentId'' TText, Opt ''orderId'' TText, Opt ''customerId'' TText,
     Opt ''customerEmail'' TText, Req ''amount'' TNum, Opt ''currency'' TText, Opt ''paymentMethod'' TText,
     Opt ''bank'' TText, Req ''failureCode'' TText, Opt ''failureReason'' TText, Opt ''attemptNumber'' TNum]"

definition ExecuteParams :: ty where
  "ExecuteParams = TRec [Req ''paymentId'' TText, Opt ''amount'' TNum,
     Req ''action'' (TLits [''RETRY'', ''PAYMENT_LINK'', ''ALTERNATIVE_PAYMENT'']), Opt ''idempotencyKey'' TText]"

fun well_typed :: "operation \<Rightarrow> bool" where
  "well_typed (Process ev) = has_type UnifiedPaymentEvent ev"
| "well_typed (Analyze p) = has_type AnalyzeParams p"
| "well_typed (Decide p) = has_type RecoveryDecisionRequest p"
| "well_typed (Execute p) = has_type ExecuteParams p"
| "well_typed _ = True"

fun result_type :: "operation \<Rightarrow> ty" where
  "result_type (Process _) = IngestEventResponse"
| "result_type (Analyze _) = PaymentAnalysisResult"
| "result_type (GetPayment _) = TAny"
| "result_type (Decide _) = RecoveryDecisionResponse"
| "result_type (Execute _) = RecoveryExecutionResult"
| "result_type (Profile _) = CustomerRecoveryProfile"

subsection \<open>Mock mode\<close>

lemma iso_now_ok: "iso_now now = Inr (iso_string (now 0))"
  by (simp add: iso_now_def to_iso_nint del: to_iso_Fin)

lemma dec_type [simp]: "has_type TNum (dec a b)"
  by (simp add: dec_def)

lemma analyze_mock_typed:
  assumes "has_type AnalyzeParams p"
  shows "\<exists>v. analyzeMockPayment now (dummy_event p t) = Inr v \<and> has_type PaymentAnalysisResult v"
proof -
  obtain fs where p: "p = Obj fs" using assms by (auto simp: AnalyzeParams_def dest: TRecD)
  note req = member_req [OF assms [unfolded AnalyzeParams_def]]
  note opt = member_opt [OF assms [unfolded AnalyzeParams_def]]
  have "has_type TText (member p ''paymentId'')" "has_type TNum (member p ''amount'')"
      "has_type TText (member p ''failureCode'')" by (rule req; simp)+
  moreover have "member p ''customerId'' = Undef \<or> has_type TText (member p ''customerId'')"
      "member p ''failureReason'' = Undef \<or> has_type TText (member p ''failureReason'')"
      "has_type TText (orv (member p ''currency'') (Str ''INR''))"
    by (rule opt text_orv [OF opt]; simp)+
  ultimately have "has_type UnifiedPaymentEvent (dummy_event p t)"
    by (simp add: dummy_event_def UnifiedPaymentEvent_def UnifiedFailureDetail_def)
  then show ?thesis using analyze_typed by blast
qed

lemma mock_answer_simps: "fst (mock_answer x) = []" "snd (mock_answer x) = Some x"
  by (simp_all add: mock_answer_def)

text \<open>
  In mock mode every operation answers at once, sends nothing and sleeps never, and on well-typed
  arguments it returns a value of the type its signature declares.
\<close>

theorem mock_mode_offline:
  assumes "isMockMode r" and "well_typed op"
  shows "\<exists>v. perform r w op = ([], Some (Inr v)) \<and> has_type (result_type op) v"
proof (cases op)
  case (Process ev)
  then obtain fs where ev: "ev = Obj fs" using assms(2) by (auto simp: UnifiedPaymentEvent_def dest: TRecD)
  have "has_type TText (member ev ''eventId'')" "has_type TText (member ev ''paymentId'')"
    using assms(2) Process member_req [of _ ev] by (simp_all add: UnifiedPaymentEvent_def)
  then show ?thesis using assms(1) Process
    by (simp add: events_process_def mock_answer_def iso_now_ok IngestEventResponse_def ev)
next
  case (Analyze p)
  then obtain fs where p: "p = Obj fs" using assms(2) by (auto simp: AnalyzeParams_def dest: TRecD)
  from Analyze assms(2) have "has_type AnalyzeParams p" by simp
  from analyze_mock_typed [OF this] show ?thesis using assms(1) Analyze
    by (simp add: payments_analyze_def mock_answer_def iso_now_ok p)
next
  case (Execute p)
  then obtain fs where p: "p = Obj fs" using assms(2) by (auto simp: ExecuteParams_def dest: TRecD)
  have "has_type TText (fld fs ''paymentId'')" "\<exists>a. fld fs ''action'' = Str a"
    using assms(2) Execute p by (auto simp: ExecuteParams_def)
  then show ?thesis using assms(1) Execute
    by (auto simp: recovery_execute_def mock_answer_def iso_now_ok RecoveryExecutionResult_def p)
qed (use assms(1) in \<open>simp_all add: payments_get_def recovery_decision_def customers_getRecoveryProfile_def
  getMockCustomerProfile_def mock_answer_def iso_now_ok RecoveryDecisionResponse_def CustomerRecoveryProfile_def
  to_iso_nint del: to_iso_Fin\<close>)

lemma mock_mode_offline_witness:
  "\<exists>v. perform (new_ReviveOS (\<lambda>_. None) \<lparr>o_apiKey = None, o_webhookSecret = None, o_endpoint = None,
      o_mode = Some Mock, o_features = None, o_timeoutMs = None, o_maxRetries = None\<rparr>)
      \<lparr>w_net = \<lambda>_ _. [], w_random = \<lambda>_. 0, w_now = \<lambda>_. 0\<rparr> (Profile ''cus_1'') = ([], Some (Inr v))
    \<and> has_type (result_type (Profile ''cus_1'')) v"
  by (rule mock_mode_offline) (simp_all add: new_ReviveOS_def Let_def)

subsection \<open>Live mode\<close>

lemma run_trace_sends: "Send q \<in> set (run_trace random req k) \<Longrightarrow> q = req"
  by (induction k) auto

lemma loop_sends:
  assumes "Send q \<in> set (fst (request_loop cl net random req 0 None))" shows "q = req"
proof (cases "maxRetries cl < 0")
  case True
  then show ?thesis using assms by (subst (asm) request_loop.simps) simp
next
  case False
  then have "int 0 \<le> maxRetries cl" by simp
  from request_loop_trace [OF this, of random req net None] obtain k where
    "fst (request_loop cl net random req 0 None) = run_trace random req k" by (auto simp: so_far_def)
  with assms show ?thesis using run_trace_sends by simp
qed

lemma call_sends:
  assumes "Send q \<in> set (fst (call r w path method body))" and "\<exists>t. path = ''/v1/'' @ t"
  shows "starts_with (url q) (endpoint (http r) @ ''/v1/'')" "verb q = method" "timeout q = timeoutMs (http r)"
    "fld (headers q) ''Authorization'' = (case apiKey (http r) of
       Some (c # k) \<Rightarrow> Str (''Bearer '' @ c # k) | _ \<Rightarrow> Undef)"
proof -
  obtain req where "build_request (http r) path method body [] = Inr req"
      "Send q \<in> set (fst (request_loop (http r) (w_net w) (w_random w) req 0 None))"
    using assms(1) by (cases "build_request (http r) path method body []") (auto simp: call_def request_def)
  then have b: "build_request (http r) path method body [] = Inr q" using loop_sends by metis
  obtain t where t: "path = ''/v1/'' @ t" using assms(2) by blast
  show "starts_with (url q) (endpoint (http r) @ ''/v1/'')" "verb q = method" "timeout q = timeoutMs (http r)"
    using b by (auto simp: build_request_def Let_def t starts_with_def)
  show "fld (headers q) ''Authorization'' = (case apiKey (http r) of
       Some (c # k) \<Rightarrow> Str (''Bearer '' @ c # k) | _ \<Rightarrow> Undef)"
    using b by (auto simp: build_request_def Let_def spread_def split: option.splits list.splits js.splits)
qed

lemma perform_live:
  assumes "\<not> isMockMode r"
  obtains path meth body where "perform r w op = call r w path meth body" "\<exists>t. path = ''/v1/'' @ t"
    "meth = (case op of GetPayment _ \<Rightarrow> ''GET'' | Profile _ \<Rightarrow> ''GET'' | _ \<Rightarrow> ''POST'')"
  using assms by (cases op) (auto simp: operations)



end
