(* ===== verification/CliFs.thy ===== *)
theory CliFs
  imports JsSchema
begin

text \<open>
  What the command-line tool uses of Node's \<open>path\<close> and \<open>fs\<close>: POSIX path joining and normalization,
  and a file system as a map from the components of an absolute path to a directory or a file.
  Failures are the structural ones (a missing parent, a directory or a file in the way);
  permissions and disk errors are not modelled. The interface the generators rely on is the
  locale \<open>filesystem\<close>.
\<close>

subsection \<open>Paths\<close>

definition norm_step :: "bool \<Rightarrow> string list \<Rightarrow> string \<Rightarrow> string list" where
  "norm_step absolute acc seg =
    (if seg = [] \<or> seg = ''.'' then acc
     else if seg = ''..'' then
       (if acc \<noteq> [] \<and> last acc \<noteq> ''..'' then butlast acc else if absolute then acc else acc @ [seg])
     else acc @ [seg])"

definition normalize :: "string \<Rightarrow> string" where
  \<comment> \<open>\<open>path.posix.normalize\<close>\<close>
  "normalize p =
    (let absolute = starts_with p ''/''; trailing = (p \<noteq> [] \<and> last p = CHR ''/'');
         s = join ''/'' (foldl (norm_step absolute) [] (split_char (CHR ''/'') p))
     in if s = [] then (if absolute then ''/'' else if trailing then ''./'' else ''.'')
        else (if absolute then ''/'' else []) @ s @ (if trailing then ''/'' else []))"

definition path_join :: "string list \<Rightarrow> string" where
  "path_join segs = (let p = join ''/'' (filter (\<lambda>s. s \<noteq> []) segs) in if p = [] then ''.'' else normalize p)"

definition basename :: "string \<Rightarrow> string" where
  "basename p = last (split_char (CHR ''/'') (strip_slashes p))"

definition components :: "string \<Rightarrow> string list" where
  \<comment> \<open>the entry an absolute path names\<close>
  "components p = foldl (norm_step True) [] (split_char (CHR ''/'') p)"

definition plain :: "string \<Rightarrow> bool" where
  \<comment> \<open>a segment that normalization keeps\<close>
  "plain s \<longleftrightarrow> s \<noteq> [] \<and> s \<noteq> ''.'' \<and> s \<noteq> ''..'' \<and> CHR ''/'' \<notin> set s"

subsection \<open>The file system\<close>

datatype node = Dir | File string

type_synonym fs = "string list \<Rightarrow> node option"

definition node_at :: "fs \<Rightarrow> string list \<Rightarrow> node option" where
  "node_at fs cs = (if cs = [] then Some Dir else fs cs)"

definition look :: "fs \<Rightarrow> string \<Rightarrow> node option" where
  "look fs p = node_at fs (components p)"

definition existsSync :: "fs \<Rightarrow> string \<Rightarrow> bool" where
  "existsSync fs p \<longleftrightarrow> look fs p \<noteq> None"

definition readFileSync :: "fs \<Rightarrow> string \<Rightarrow> err + string" where
  "readFileSync fs p = (case look fs p of
     Some (File c) \<Rightarrow> Inr c
   | Some Dir \<Rightarrow> Inl (plain_error ''EISDIR: illegal operation on a directory, read'')
   | None \<Rightarrow> Inl (plain_error ''ENOENT: no such file or directory, open''))"

definition writeFileSync :: "fs \<Rightarrow> string \<Rightarrow> string \<Rightarrow> err + fs" where
  "writeFileSync fs p content =
    (let cs = components p
     in if cs = [] \<or> node_at fs cs = Some Dir then Inl (plain_error ''EISDIR: illegal operation on a directory, open'')
        else if node_at fs (butlast cs) \<noteq> Some Dir then Inl (plain_error ''ENOENT: no such file or directory, open'')
        else Inr (fs(cs \<mapsto> File content)))"

fun make_dirs :: "fs \<Rightarrow> string list \<Rightarrow> string list \<Rightarrow> err + fs" where
  "make_dirs fs done [] = Inr fs"
| "make_dirs fs done (x # xs) = (case fs (done @ [x]) of
     None \<Rightarrow> make_dirs (fs(done @ [x] \<mapsto> Dir)) (done @ [x]) xs
   | Some Dir \<Rightarrow> make_dirs fs (done @ [x]) xs
   | Some (File _) \<Rightarrow> Inl (plain_error ''EEXIST: file already exists, mkdir''))"

definition mkdirSync :: "fs \<Rightarrow> string \<Rightarrow> err + fs" where
  \<comment> \<open>\<open>fs.mkdirSync(p, { recursive: true })\<close>\<close>
  "mkdirSync fs p = make_dirs fs [] (components p)"

subsection \<open>Paths: laws\<close>

lemma split_char_app2: "split_char c (s @ c # t) = split_char c s @ split_char c t"
  by (induction c s rule: split_char.induct) (auto split: list.splits)

lemma split_char_parts: "x \<in> set (split_char c s) \<Longrightarrow> c \<notin> set x"
  by (induction c s arbitrary: x rule: split_char.induct) (auto split: list.splits if_splits)

lemma norm_step_plain: "plain s \<Longrightarrow> norm_step a acc s = acc @ [s]"
  by (auto simp: plain_def norm_step_def)

lemma norm_step_True_plain:
  "list_all plain acc \<Longrightarrow> CHR ''/'' \<notin> set seg \<Longrightarrow> list_all plain (norm_step True acc seg)"
  by (cases acc rule: rev_cases) (auto simp: norm_step_def plain_def)

lemma foldl_norm_plain:
  "list_all plain acc \<Longrightarrow> \<forall>s\<in>set segs. CHR ''/'' \<notin> set s \<Longrightarrow> list_all plain (foldl (norm_step True) acc segs)"
  by (induction segs arbitrary: acc) (auto intro: norm_step_True_plain)

lemma components_plain: "list_all plain (components p)"
  unfolding components_def by (rule foldl_norm_plain) (auto dest: split_char_parts)

lemma foldl_norm_keep: "list_all plain segs \<Longrightarrow> foldl (norm_step a) acc segs = acc @ segs"
  by (induction segs arbitrary: acc) (auto simp: norm_step_plain)

lemma join_plain: "list_all plain cs \<Longrightarrow> cs \<noteq> [] \<Longrightarrow> split_char (CHR ''/'') (join ''/'' cs) = cs"
  by (rule split_join) (auto simp: list_all_iff plain_def)

lemma components_slash: "components (p @ CHR ''/'' # q) = foldl (norm_step True) (components p) (split_char (CHR ''/'') q)"
  by (simp add: components_def split_char_app2)

lemma components_normalize:
  assumes "starts_with p ''/''" shows "components (normalize p) = components p"
proof (cases "components p = []")
  case True
  then show ?thesis using assms by (simp add: normalize_def components_def [symmetric] Let_def) (simp add: components_def norm_step_def)
next
  case False
  let ?s = "join ''/'' (components p)"
  have s: "components ?s = components p"
    using join_plain [OF components_plain False] foldl_norm_keep [OF components_plain, of True "[]" p]
    by (simp add: components_def)
  have "?s \<noteq> []" using s False by (auto simp: components_def norm_step_def)
  then have n: "normalize p = ''/'' @ ?s @ (if p \<noteq> [] \<and> last p = CHR ''/'' then ''/'' else [])"
    using assms by (simp add: normalize_def components_def [symmetric] Let_def)
  have e: "components (''/'' @ q) = components q" for q by (simp add: components_def norm_step_def)
  have t: "components (?s @ ''/'') = components ?s"
    using components_slash [of ?s "[]"] by (simp add: norm_step_def)
  show ?thesis unfolding n using e t s by simp
qed

lemma components_join2:
  assumes "starts_with d ''/''" "plain s"
  shows "components (path_join [d, s]) = components d @ [s]"
proof -
  have d: "d \<noteq> []" "s \<noteq> []" using assms by (auto simp: starts_with_def plain_def)
  then have "path_join [d, s] = normalize (d @ ''/'' @ s)" by (simp add: path_join_def)
  moreover have "starts_with (d @ ''/'' @ s) ''/''" using assms(1) by (auto simp: starts_with_def prefix_def)
  moreover have "components (d @ ''/'' @ s) = components d @ [s]"
    using components_slash [of d s] split_char_no [of "CHR ''/''" s] assms(2) norm_step_plain [OF assms(2)]
    by (simp add: plain_def)
  ultimately show ?thesis by (simp add: components_normalize)
qed

subsection \<open>The interface and its provider\<close>

locale filesystem =
  fixes entry :: "'s \<Rightarrow> 'p \<Rightarrow> node option"
    and write_to :: "'s \<Rightarrow> 'p \<Rightarrow> string \<Rightarrow> err + 's"
    and make_dir :: "'s \<Rightarrow> 'p \<Rightarrow> err + 's"
    and same :: "'p \<Rightarrow> 'p \<Rightarrow> bool"
  assumes write_here: "write_to s p c = Inr s' \<Longrightarrow> same p q \<Longrightarrow> entry s' q = Some (File c)"
    and write_frame: "write_to s p c = Inr s' \<Longrightarrow> \<not> same p q \<Longrightarrow> entry s' q = entry s q"
    and dir_here: "make_dir s p = Inr s' \<Longrightarrow> entry s' p = Some Dir"
    and dir_keeps: "make_dir s p = Inr s' \<Longrightarrow> entry s q = Some n \<Longrightarrow> entry s' q = Some n"
    and dir_files: "make_dir s p = Inr s' \<Longrightarrow> entry s' q = Some (File c) \<Longrightarrow> entry s q = Some (File c)"
    and same_refl: "same p p"
begin

definition create :: "'s \<Rightarrow> 'p \<Rightarrow> string \<Rightarrow> err + 's" where
  \<comment> \<open>write a file only where nothing exists\<close>
  "create s p c = (if entry s p = None then write_to s p c else Inr s)"

definition put_in :: "'s \<Rightarrow> 'p \<Rightarrow> 'p \<Rightarrow> string \<Rightarrow> err + 's" where
  \<comment> \<open>write a file after making a directory for it\<close>
  "put_in s d p c = seqE (make_dir s d) (\<lambda>s'. write_to s' p c)"

lemma create_keeps:
  assumes "create s p c = Inr s'" "entry s q = Some n" "same p q \<Longrightarrow> entry s p = entry s q"
  shows "entry s' q = Some n"
  using assms write_frame by (cases "same p q") (auto simp: create_def split: if_splits)

lemma create_exists: "create s p c = Inr s' \<Longrightarrow> entry s' p \<noteq> None"
  using write_here same_refl by (auto simp: create_def split: if_splits)

lemma put_in_here: "put_in s d p c = Inr s' \<Longrightarrow> entry s' p = Some (File c)"
  using write_here same_refl by (auto simp: put_in_def)

lemma put_in_keeps: "put_in s d p c = Inr s' \<Longrightarrow> entry s q = Some n \<Longrightarrow> \<not> same p q \<Longrightarrow> entry s' q = Some n"
  using write_frame dir_keeps by (fastforce simp: put_in_def)

lemma put_in_new_file:
  "put_in s d p c = Inr s' \<Longrightarrow> entry s' q = Some (File k) \<Longrightarrow> \<not> same p q \<Longrightarrow> entry s q = Some (File k)"
  using write_frame dir_files by (fastforce simp: put_in_def)

end

definition same_path :: "string \<Rightarrow> string \<Rightarrow> bool" where
  "same_path p q \<longleftrightarrow> components p = components q"

lemma write_look:
  "writeFileSync fs p c = Inr fs' \<Longrightarrow> look fs' q = (if components p = components q then Some (File c) else look fs q)"
  by (auto simp: writeFileSync_def look_def node_at_def Let_def split: if_splits)

lemma make_dirs_keeps: "make_dirs fs d xs = Inr fs' \<Longrightarrow> fs cs = Some n \<Longrightarrow> fs' cs = Some n"
proof (induction fs d xs rule: make_dirs.induct)
  case (2 fs d x xs)
  then show ?case
    by (cases "cs = d @ [x]"; cases "fs (d @ [x])") (auto simp: fun_upd_def split: node.splits)
qed simp

lemma make_dirs_files: "make_dirs fs d xs = Inr fs' \<Longrightarrow> fs' cs = Some (File c) \<Longrightarrow> fs cs = Some (File c)"
proof (induction fs d xs rule: make_dirs.induct)
  case (2 fs d x xs)
  then show ?case
    by (cases "cs = d @ [x]"; cases "fs (d @ [x])") (auto simp: fun_upd_def split: node.splits)
qed simp

lemma make_dirs_here: "make_dirs fs d xs = Inr fs' \<Longrightarrow> xs \<noteq> [] \<Longrightarrow> fs' (d @ xs) = Some Dir"
proof (induction fs d xs rule: make_dirs.induct)
  case (2 fs d x xs)
  then show ?case
    by (cases xs) (fastforce split: option.splits node.splits intro: make_dirs_keeps)+
qed simp

interpretation disk: filesystem look writeFileSync mkdirSync same_path
proof unfold_locales
  show "writeFileSync s p c = Inr s' \<Longrightarrow> same_path p q \<Longrightarrow> look s' q = Some (File c)" for s p c s' q
    by (simp add: write_look same_path_def)
  show "writeFileSync s p c = Inr s' \<Longrightarrow> \<not> same_path p q \<Longrightarrow> look s' q = look s q" for s p c s' q
    by (simp add: write_look same_path_def)
  show "mkdirSync s p = Inr s' \<Longrightarrow> look s' p = Some Dir" for s p s'
    using make_dirs_here [of s "[]" "components p" s'] by (auto simp: mkdirSync_def look_def node_at_def)
  show "mkdirSync s p = Inr s' \<Longrightarrow> look s q = Some n \<Longrightarrow> look s' q = Some n" for s p s' q n
    by (auto simp: mkdirSync_def look_def node_at_def split: if_splits intro: make_dirs_keeps)
  show "mkdirSync s p = Inr s' \<Longrightarrow> look s' q = Some (File c) \<Longrightarrow> look s q = Some (File c)" for s p s' q c
    by (auto simp: mkdirSync_def look_def node_at_def split: if_splits intro: make_dirs_files)
qed (simp add: same_path_def)

end
