(* ===== verification/CliUi.thy ===== *)
theory CliUi
  imports CliFs
begin

text \<open>
  \<open>packages/cli/src/ui.ts\<close>: the terminal output. Each function gives the texts it hands to
  \<open>console.log\<close>, one per call; texts are UTF-8 bytes, so colours and box characters are spelled out.
\<close>

definition printBanner :: "string list" where
  "printBanner = [
     [CHR 0x0A, CHR 0x1B] @ ''[36m'' @ [CHR 0xE2, CHR 0x95, CHR 0xAD, CHR 0xE2, CHR 0x94, CHR 0x80, CHR 0xE2, CHR 0x94, CHR 0x80, CHR 0xE2, CHR 0x94, CHR 0x80, CHR 0xE2, CHR 0x94, CHR 0x80, CHR 0xE2, CHR 0x94, CHR 0x80, CHR 0xE2, CHR 0x94, CHR 0x80, CHR 0xE2, CHR 0x94, CHR 0x80, CHR 0xE2, CHR 0x94, CHR 0x80, CHR 0xE2, CHR 0x94, CHR 0x80, CHR 0xE2, CHR 0x94, CHR 0x80, CHR 0xE2, CHR 0x94, CHR 0x80, CHR 0xE2, CHR 0x94, CHR 0x80, CHR 0xE2, CHR 0x94, CHR 0x80, CHR 0xE2, CHR 0x94, CHR 0x80, CHR 0xE2, CHR 0x94, CHR 0x80, CHR 0xE2, CHR 0x94, CHR 0x80, CHR 0xE2, CHR 0x94, CHR 0x80, CHR 0xE2, CHR 0x94, CHR 0x80, CHR 0xE2, CHR 0x94, CHR 0x80, CHR 0xE2, CHR 0x94, CHR 0x80, CHR 0xE2, CHR 0x94, CHR 0x80, CHR 0xE2, CHR 0x94, CHR 0x80, CHR 0xE2, CHR 0x94, CHR 0x80, CHR 0xE2, CHR 0x94, CHR 0x80, CHR 0xE2, CHR 0x94, CHR 0x80, CHR 0xE2, CHR 0x94, CHR 0x80, CHR 0xE2, CHR 0x94, CHR 0x80, CHR 0xE2, CHR 0x94, CHR 0x80, CHR 0xE2, CHR 0x94, CHR 0x80, CHR 0xE2, CHR 0x94, CHR 0x80, CHR 0xE2, CHR 0x94, CHR 0x80, CHR 0xE2, CHR 0x94, CHR 0x80, CHR 0xE2, CHR 0x94, CHR 0x80, CHR 0xE2, CHR 0x94, CHR 0x80, CHR 0xE2, CHR 0x94, CHR 0x80, CHR 0xE2, CHR 0x94, CHR 0x80, CHR 0xE2, CHR 0x94, CHR 0x80, CHR 0xE2, CHR 0x94, CHR 0x80, CHR 0xE2, CHR 0x94, CHR 0x80, CHR 0xE2, CHR 0x94, CHR 0x80, CHR 0xE2, CHR 0x94, CHR 0x80, CHR 0xE2, CHR 0x94, CHR 0x80, CHR 0xE2, CHR 0x94, CHR 0x80, CHR 0xE2, CHR 0x94, CHR 0x80, CHR 0xE2, CHR 0x94, CHR 0x80, CHR 0xE2, CHR 0x94, CHR 0x80, CHR 0xE2, CHR 0x94, CHR 0x80, CHR 0xE2, CHR 0x94, CHR 0x80, CHR 0xE2, CHR 0x94, CHR 0x80, CHR 0xE2, CHR 0x94, CHR 0x80, CHR 0xE2, CHR 0x95, CHR 0xAE],
     [CHR 0xE2, CHR 0x94, CHR 0x82] @ ''                  '' @ [CHR 0x1B] @ ''[1m'' @ [CHR 0x1B] @ ''[37mREVIVEOS AI'' @ [CHR 0x1B] @ ''[0m'' @ [CHR 0x1B] @ ''[36m                     '' @ [CHR 0xE2, CHR 0x94, CHR 0x82],
     [CHR 0xE2, CHR 0x94, CHR 0x82] @ ''       '' @ [CHR 0x1B] @ ''[33mAI Payment Recovery & Revenue Layer'' @ [CHR 0x1B] @ ''[0m'' @ [CHR 0x1B] @ ''[36m        '' @ [CHR 0xE2, CHR 0x94, CHR 0x82],
     [CHR 0xE2, CHR 0x95, CHR 0xB0, CHR 0xE2, CHR 0x94, CHR 0x80, CHR 0xE2, CHR 0x94, CHR 0x80, CHR 0xE2, CHR 0x94, CHR 0x80, CHR 0xE2, CHR 0x94, CHR 0x80, CHR 0xE2, CHR 0x94, CHR 0x80, CHR 0xE2, CHR 0x94, CHR 0x80, CHR 0xE2, CHR 0x94, CHR 0x80, CHR 0xE2, CHR 0x94, CHR 0x80, CHR 0xE2, CHR 0x94, CHR 0x80, CHR 0xE2, CHR 0x94, CHR 0x80, CHR 0xE2, CHR 0x94, CHR 0x80, CHR 0xE2, CHR 0x94, CHR 0x80, CHR 0xE2, CHR 0x94, CHR 0x80, CHR 0xE2, CHR 0x94, CHR 0x80, CHR 0xE2, CHR 0x94, CHR 0x80, CHR 0xE2, CHR 0x94, CHR 0x80, CHR 0xE2, CHR 0x94, CHR 0x80, CHR 0xE2, CHR 0x94, CHR 0x80, CHR 0xE2, CHR 0x94, CHR 0x80, CHR 0xE2, CHR 0x94, CHR 0x80, CHR 0xE2, CHR 0x94, CHR 0x80, CHR 0xE2, CHR 0x94, CHR 0x80, CHR 0xE2, CHR 0x94, CHR 0x80, CHR 0xE2, CHR 0x94, CHR 0x80, CHR 0xE2, CHR 0x94, CHR 0x80, CHR 0xE2, CHR 0x94, CHR 0x80, CHR 0xE2, CHR 0x94, CHR 0x80, CHR 0xE2, CHR 0x94, CHR 0x80, CHR 0xE2, CHR 0x94, CHR 0x80, CHR 0xE2, CHR 0x94, CHR 0x80, CHR 0xE2, CHR 0x94, CHR 0x80, CHR 0xE2, CHR 0x94, CHR 0x80, CHR 0xE2, CHR 0x94, CHR 0x80, CHR 0xE2, CHR 0x94, CHR 0x80, CHR 0xE2, CHR 0x94, CHR 0x80, CHR 0xE2, CHR 0x94, CHR 0x80, CHR 0xE2, CHR 0x94, CHR 0x80, CHR 0xE2, CHR 0x94, CHR 0x80, CHR 0xE2, CHR 0x94, CHR 0x80, CHR 0xE2, CHR 0x94, CHR 0x80, CHR 0xE2, CHR 0x94, CHR 0x80, CHR 0xE2, CHR 0x94, CHR 0x80, CHR 0xE2, CHR 0x94, CHR 0x80, CHR 0xE2, CHR 0x94, CHR 0x80, CHR 0xE2, CHR 0x94, CHR 0x80, CHR 0xE2, CHR 0x94, CHR 0x80, CHR 0xE2, CHR 0x94, CHR 0x80, CHR 0xE2, CHR 0x94, CHR 0x80, CHR 0xE2, CHR 0x94, CHR 0x80, CHR 0xE2, CHR 0x94, CHR 0x80, CHR 0xE2, CHR 0x95, CHR 0xAF, CHR 0x1B] @ ''[0m'' @ [CHR 0x0A]]"

definition ui_success :: "string \<Rightarrow> string" where
  "ui_success message = [CHR 0x1B] @ ''[32m'' @ [CHR 0xE2, CHR 0x9C, CHR 0x93, CHR 0x1B] @ ''[0m '' @ message"

definition ui_info :: "string \<Rightarrow> string" where
  "ui_info message = [CHR 0x1B] @ ''[34m'' @ [CHR 0xE2, CHR 0x84, CHR 0xB9, CHR 0x1B] @ ''[0m '' @ message"

definition ui_warn :: "string \<Rightarrow> string" where
  "ui_warn message = [CHR 0x1B] @ ''[33m'' @ [CHR 0xE2, CHR 0x9A, CHR 0xA0, CHR 0x1B] @ ''[0m '' @ message"

definition ui_error :: "string \<Rightarrow> string" where
  "ui_error message = [CHR 0x1B] @ ''[31m'' @ [CHR 0xE2, CHR 0x9C, CHR 0x97, CHR 0x1B] @ ''[0m '' @ message"

definition ui_section :: "string \<Rightarrow> string" where
  "ui_section title = [CHR 0x0A, CHR 0x1B] @ ''[1m'' @ title @ [CHR 0x1B] @ ''[0m''"

definition readyBanner :: string where
  "readyBanner = [CHR 0x0A, CHR 0x1B] @ ''[32m'' @ [CHR 0x1B] @ ''[1mREVIVEOS IS READY '' @ [CHR 0xE2, CHR 0x9C, CHR 0x93, CHR 0x1B] @ ''[0m'' @ [CHR 0x0A]"

end
