(* ===== verification/CliScanner.thy ===== *)
theory CliScanner
  imports CliFs
begin

text \<open>
  \<open>packages/cli/src/scanner.ts\<close>: what the tool finds out about the project in a directory, from its
  \<open>package.json\<close> and the presence of a few files. A \<open>package.json\<close> that is not JSON counts as empty.
\<close>

datatype framework = NextjsApp | NextjsPages | Express | Fastify | PlainNode

record ProjectScanResult =
  isNodeProject :: bool
  packageJsonPath :: "string option"
  projectName :: js
  hasRazorpay :: bool
  hasTypeScript :: bool
  framework :: framework
  appRoot :: string

definition read_package :: "fs \<Rightarrow> string \<Rightarrow> js" where
  "read_package fs p = (case seqE (readFileSync fs p) json_parse of Inr pkg \<Rightarrow> pkg | Inl _ \<Rightarrow> Obj [])"

definition all_deps :: "js \<Rightarrow> err + js" where
  "all_deps pkg =
    seqE (get pkg ''dependencies'') (\<lambda>d. seqE (get pkg ''devDependencies'') (\<lambda>dd.
      Inr (Obj (spread (spread [] (fields_of (orv d (Obj [])))) (fields_of (orv dd (Obj [])))))))"

definition detect_framework :: "fs \<Rightarrow> string \<Rightarrow> js \<Rightarrow> framework" where
  "detect_framework fs cwd allDeps =
    (if truthy (member allDeps ''next'') \<or> existsSync fs (path_join [cwd, ''next.config.js''])
        \<or> existsSync fs (path_join [cwd, ''next.config.mjs''])
     then (if existsSync fs (path_join [cwd, ''app'']) \<or> existsSync fs (path_join [cwd, ''src'', ''app''])
           then NextjsApp else NextjsPages)
     else if truthy (member allDeps ''express'') then Express
     else if truthy (member allDeps ''fastify'') then Fastify
     else PlainNode)"

definition scanProject :: "fs \<Rightarrow> string \<Rightarrow> err + ProjectScanResult" where
  "scanProject fs cwd =
    (let packageJson = path_join [cwd, ''package.json'']
     in if \<not> existsSync fs packageJson
        then Inr \<lparr>isNodeProject = False, packageJsonPath = None, projectName = Undef, hasRazorpay = False,
               hasTypeScript = False, framework = PlainNode, appRoot = cwd\<rparr>
        else let pkg = read_package fs packageJson
          in seqE (all_deps pkg) (\<lambda>allDeps. Inr \<lparr>
               isNodeProject = True,
               packageJsonPath = Some packageJson,
               projectName = orv (member pkg ''name'') (Str (basename cwd)),
               hasRazorpay = truthy (member allDeps ''razorpay'') \<or> truthy (member allDeps ''@types/razorpay''),
               hasTypeScript = truthy (member allDeps ''typescript'')
                 \<or> existsSync fs (path_join [cwd, ''tsconfig.json'']),
               framework = detect_framework fs cwd allDeps,
               appRoot = cwd\<rparr>))"

subsection \<open>Lemmas\<close>

lemma all_deps_ok: "\<not> nullish pkg \<Longrightarrow> \<exists>d. all_deps pkg = Inr d"
  by (simp add: all_deps_def get_member)

lemma fld_spread: "fld (spread a b) k = (if fld (rev b) k = Undef \<and> k \<notin> fst ` set b then fld a k else fld (spread a b) k)"
proof -
  have "k \<notin> fst ` set b \<Longrightarrow> fld (spread a b) k = fld a k"
    by (induction b arbitrary: a) (auto simp: spread_def)
  then show ?thesis by simp
qed

lemma fld_spread_distinct:
  "distinct (map fst b) \<Longrightarrow> fld (spread a b) k = (if k \<in> fst ` set b then fld b k else fld a k)"
proof (induction b arbitrary: a)
  case Nil
  show ?case by (simp add: spread_def)
next
  case (Cons x b)
  obtain k' v where x: "x = (k', v)" by (cases x)
  have "spread a (x # b) = spread (put_field a k' v) b" by (simp add: spread_def x)
  with Cons show ?case by (auto simp: x)
qed

lemma read_package_nullish:
  "nullish (read_package fs p) \<longleftrightarrow> (\<exists>c v. look fs p = Some (File c) \<and> json_parse c = Inr v \<and> nullish v)"
  by (auto simp: read_package_def readFileSync_def nullish_def split: option.splits node.splits sum.splits)

subsection \<open>Properties\<close>

text \<open>
  The scan throws exactly when \<open>package.json\<close> is a file holding the JSON value \<open>null\<close> (a file that is
  not JSON at all, or a directory of that name, counts as an empty package); in every other case it
  reports the directory it was given, a Node project exactly when \<open>package.json\<close> exists.
\<close>

lemma scan_total:
  "case scanProject fs cwd of
     Inl e \<Rightarrow> (\<exists>c v. look fs (path_join [cwd, ''package.json'']) = Some (File c) \<and> json_parse c = Inr v
                 \<and> v \<in> {Undef, Null}) \<and> eclass e = CTypeError
   | Inr r \<Rightarrow> appRoot r = cwd \<and> isNodeProject r = existsSync fs (path_join [cwd, ''package.json''])
       \<and> read_package fs (path_join [cwd, ''package.json'']) \<notin> {Undef, Null}"
proof (cases "existsSync fs (path_join [cwd, ''package.json''])")
  case False
  then show ?thesis
    by (simp add: scanProject_def Let_def read_package_def readFileSync_def existsSync_def)
next
  case True
  define p where "p = path_join [cwd, ''package.json'']"
  show ?thesis
  proof (cases "nullish (read_package fs p)")
    case n: True
    then have "\<exists>c v. look fs p = Some (File c) \<and> json_parse c = Inr v \<and> v \<in> {Undef, Null}"
      unfolding read_package_nullish by (auto simp: nullish_def)
    moreover have "\<exists>e. scanProject fs cwd = Inl e \<and> eclass e = CTypeError"
      using True n by (auto simp: scanProject_def Let_def p_def all_deps_def nullish_def type_error_def builtin_err_def)
    ultimately show ?thesis by (auto simp: p_def)
  next
    case n: False
    then obtain d where "all_deps (read_package fs p) = Inr d" using all_deps_ok by blast
    with True n show ?thesis by (simp add: scanProject_def Let_def p_def nullish_def)
  qed
qed

end
