(* ===== verification/CliGenerator.thy ===== *)
theory CliGenerator
  imports CliScanner
begin

text \<open>
  \<open>packages/cli/src/generator.ts\<close>: the files the tool writes into a project. An operation takes the
  file system and returns it changed, with the path it reports; a failed write keeps nothing of
  the result, so callers that continue from the partial state name it (see \<open>runInit\<close>).
\<close>

subsection \<open>The texts written\<close>

definition envContent :: string where
  "envContent = unlines [
     ''# ================================================================='',
     ''# ReviveOS AI Payment Recovery Configuration'',
     ''# Generated automatically by '' @ [CHR 0x27] @ ''npx reviveos init'' @ [CHR 0x27],
     ''# ================================================================='',
     [],
     ''# Your ReviveOS Merchant API Key (obtained from ReviveOS Dashboard)'',
     ''REVIVEOS_API_KEY=rvo_test_acme_secret_key_12345'',
     [],
     ''# ReviveOS Core API URL (Defaults to https://api.reviveos.io in production)'',
     ''REVIVEOS_API_URL=http://localhost:8080'',
     [],
     ''# Razorpay Webhook Secret (configured in Razorpay Dashboard > Settings > Webhooks)'',
     ''RAZORPAY_WEBHOOK_SECRET=whsec_your_razorpay_webhook_secret'',
     [],
     ''# ReviveOS Execution Mode: '' @ [CHR 0x27] @ ''live'' @ [CHR 0x27] @ '', '' @ [CHR 0x27] @ ''test'' @ [CHR 0x27] @ '', or '' @ [CHR 0x27] @ ''mock'' @ [CHR 0x27] @ '' (for local sandbox testing)'',
     ''REVIVEOS_MODE=live'']"

definition nextjs_app_handler :: string where
  "nextjs_app_handler = unlines [
     ''import { NextResponse } from '' @ [CHR 0x22] @ ''next/server'' @ [CHR 0x22] @ '';'',
     ''import { ReviveOS } from '' @ [CHR 0x22] @ ''@reviveos/razorpay'' @ [CHR 0x22] @ '';'',
     [],
     ''// Initialize ReviveOS Recovery Engine'',
     ''const revive = new ReviveOS({'',
     ''  apiKey: process.env.REVIVEOS_API_KEY,'',
     ''  webhookSecret: process.env.RAZORPAY_WEBHOOK_SECRET,'',
     ''  endpoint: process.env.REVIVEOS_API_URL,'',
     ''});'',
     [],
     ''export async function POST(req: Request) {'',
     ''  try {'',
     ''    const rawBody = await req.text();'',
     ''    const signature = req.headers.get('' @ [CHR 0x22] @ ''x-razorpay-signature'' @ [CHR 0x22] @ '') || '' @ [CHR 0x22, CHR 0x22] @ '';'',
     [],
     ''    // 1. Cryptographically verify signature and normalize payload'',
     ''    const event = revive.webhooks.verifyAndNormalize(rawBody, signature);'',
     [],
     ''    // 2. Ingest into ReviveOS AI Recovery Engine'',
     ''    const result = await revive.events.process(event);'',
     [],
     ''    return NextResponse.json(result, { status: 200 });'',
     ''  } catch (error: any) {'',
     ''    console.error('' @ [CHR 0x22] @ ''[ReviveOS Webhook Error]:'' @ [CHR 0x22] @ '', error.message);'',
     ''    return NextResponse.json('',
     ''      { error: error.message || '' @ [CHR 0x22] @ ''Failed to process payment event'' @ [CHR 0x22] @ '' },'',
     ''      { status: error.name === '' @ [CHR 0x22] @ ''ReviveOSSignatureError'' @ [CHR 0x22] @ '' ? 401 : 400 }'',
     ''    );'',
     ''  }'',
     ''}'']"

definition nextjs_pages_handler :: string where
  "nextjs_pages_handler = unlines [
     ''import type { NextApiRequest, NextApiResponse } from '' @ [CHR 0x22] @ ''next'' @ [CHR 0x22] @ '';'',
     ''import { ReviveOS } from '' @ [CHR 0x22] @ ''@reviveos/razorpay'' @ [CHR 0x22] @ '';'',
     [],
     ''// Disable Next.js default body parser to get raw text for cryptographic HMAC verification'',
     ''export const config = {'',
     ''  api: {'',
     ''    bodyParser: false,'',
     ''  },'',
     ''};'',
     [],
     ''async function getRawBody(req: NextApiRequest): Promise<string> {'',
     ''  const chunks: Buffer[] = [];'',
     ''  for await (const chunk of req) {'',
     ''    chunks.push(typeof chunk === '' @ [CHR 0x22] @ ''string'' @ [CHR 0x22] @ '' ? Buffer.from(chunk) : chunk);'',
     ''  }'',
     ''  return Buffer.concat(chunks).toString('' @ [CHR 0x22] @ ''utf8'' @ [CHR 0x22] @ '');'',
     ''}'',
     [],
     ''const revive = new ReviveOS();'',
     [],
     ''export default async function handler(req: NextApiRequest, res: NextApiResponse) {'',
     ''  if (req.method !== '' @ [CHR 0x22] @ ''POST'' @ [CHR 0x22] @ '') {'',
     ''    return res.status(405).json({ error: '' @ [CHR 0x22] @ ''Method not allowed'' @ [CHR 0x22] @ '' });'',
     ''  }'',
     [],
     ''  try {'',
     ''    const rawBody = await getRawBody(req);'',
     ''    const signature = (req.headers['' @ [CHR 0x22] @ ''x-razorpay-signature'' @ [CHR 0x22] @ ''] as string) || '' @ [CHR 0x22, CHR 0x22] @ '';'',
     [],
     ''    const event = revive.webhooks.verifyAndNormalize(rawBody, signature);'',
     ''    const result = await revive.events.process(event);'',
     [],
     ''    return res.status(200).json(result);'',
     ''  } catch (error: any) {'',
     ''    return res.status(400).json({ error: error.message });'',
     ''  }'',
     ''}'']"

definition express_handler :: string where
  "express_handler = unlines [
     ''import { Request, Response } from '' @ [CHR 0x22] @ ''express'' @ [CHR 0x22] @ '';'',
     ''import { ReviveOS } from '' @ [CHR 0x22] @ ''@reviveos/razorpay'' @ [CHR 0x22] @ '';'',
     [],
     ''const revive = new ReviveOS({'',
     ''  apiKey: process.env.REVIVEOS_API_KEY,'',
     ''  webhookSecret: process.env.RAZORPAY_WEBHOOK_SECRET,'',
     ''});'',
     [],
     ''/**'',
     '' * Express Route Handler for ReviveOS Razorpay Webhooks.'',
     '' * Ensure app.use('' @ [CHR 0x27] @ ''/api/reviveos/webhook'' @ [CHR 0x27] @ '', express.raw({ type: '' @ [CHR 0x27] @ ''application/json'' @ [CHR 0x27] @ '' })) is used before json body parser.'',
     '' */'',
     ''export async function handleReviveOSWebhook(req: Request, res: Response) {'',
     ''  try {'',
     ''    const rawBody = req.body;'',
     ''    const signature = (req.headers['' @ [CHR 0x22] @ ''x-razorpay-signature'' @ [CHR 0x22] @ ''] as string) || '' @ [CHR 0x22, CHR 0x22] @ '';'',
     [],
     ''    const event = revive.webhooks.verifyAndNormalize(rawBody, signature);'',
     ''    const result = await revive.events.process(event);'',
     [],
     ''    return res.status(200).json(result);'',
     ''  } catch (error: any) {'',
     ''    return res.status(400).json({ error: error.message });'',
     ''  }'',
     ''}'']"

subsection \<open>The operations\<close>

definition generateEnvironmentFile :: "fs \<Rightarrow> string \<Rightarrow> err + (fs \<times> string)" where
  "generateEnvironmentFile fs cwd =
    (let envPath = path_join [cwd, ''.env.reviveos'']
     in seqE (writeFileSync fs envPath envContent) (\<lambda>fs1.
        let mainEnvPath = path_join [cwd, ''.env'']
        in seqE (if \<not> existsSync fs1 mainEnvPath then writeFileSync fs1 mainEnvPath envContent else Inr fs1)
             (\<lambda>fs2. Inr (fs2, envPath))))"

record target =
  targetDir :: string
  targetFile :: string
  fileContent :: string

definition handler_target :: "fs \<Rightarrow> ProjectScanResult \<Rightarrow> target" where
  \<comment> \<open>the directory to make, the file to write and its text, per framework\<close>
  "handler_target fs scan =
    (let ext = (if hasTypeScript scan then ''ts'' else ''js'');
         root = appRoot scan;
         isSrcDir = existsSync fs (path_join [root, ''src'']);
         baseDir = (if isSrcDir then path_join [root, ''src''] else root)
     in case framework scan of
       NextjsApp \<Rightarrow>
         let appDir = (if existsSync fs (path_join [root, ''src'', ''app'']) then path_join [root, ''src'', ''app'']
               else path_join [root, ''app'']);
             dir = path_join [appDir, ''api'', ''reviveos'', ''webhook'']
         in \<lparr>targetDir = dir, targetFile = path_join [dir, ''route.'' @ ext], fileContent = nextjs_app_handler\<rparr>
     | NextjsPages \<Rightarrow>
         let pagesDir = (if existsSync fs (path_join [root, ''src'', ''pages'']) then path_join [root, ''src'', ''pages'']
               else path_join [root, ''pages'']);
             dir = path_join [pagesDir, ''api'', ''reviveos'']
         in \<lparr>targetDir = dir, targetFile = path_join [dir, ''webhook.'' @ ext], fileContent = nextjs_pages_handler\<rparr>
     | _ \<Rightarrow>
         let dir = path_join [baseDir, ''api'']
         in \<lparr>targetDir = dir, targetFile = path_join [dir, ''reviveos-webhook.'' @ ext], fileContent = express_handler\<rparr>)"

definition generateWebhookHandler :: "fs \<Rightarrow> ProjectScanResult \<Rightarrow> err + (fs \<times> string)" where
  "generateWebhookHandler fs scan =
    (let t = handler_target fs scan
     in seqE (mkdirSync fs (targetDir t)) (\<lambda>fs1.
        seqE (writeFileSync fs1 (targetFile t) (fileContent t)) (\<lambda>fs2. Inr (fs2, targetFile t))))"

subsection \<open>Properties\<close>

lemma plain_names: "plain ''.env.reviveos''" "plain ''.env''" "plain ''package.json''"
  by (simp_all add: plain_def)

lemma env_paths:
  assumes "starts_with cwd ''/''"
  shows "components (path_join [cwd, ''.env.reviveos'']) = components cwd @ [''.env.reviveos'']"
    "components (path_join [cwd, ''.env'']) = components cwd @ [''.env'']"
  by (simp_all only: components_join2 [OF assms] plain_names)

lemma env_step:
  "generateEnvironmentFile fs cwd = Inr (fs', p) \<longleftrightarrow> p = path_join [cwd, ''.env.reviveos''] \<and>
     (\<exists>fs1. writeFileSync fs p envContent = Inr fs1 \<and> disk.create fs1 (path_join [cwd, ''.env'']) envContent = Inr fs')"
  by (auto simp: generateEnvironmentFile_def disk.create_def existsSync_def Let_def split: if_splits)

text \<open>
  The environment generator never touches a file of the user's: after it, \<open>.env.reviveos\<close> holds the
  template, \<open>.env\<close> exists, and every file other than \<open>.env.reviveos\<close> that existed before, an existing
  \<open>.env\<close> among them, holds what it held.
\<close>

theorem env_generation_safe:
  assumes "starts_with cwd ''/''" and "generateEnvironmentFile fs cwd = Inr (fs', p)"
  shows "look fs' (path_join [cwd, ''.env.reviveos'']) = Some (File envContent)
    \<and> existsSync fs' (path_join [cwd, ''.env''])
    \<and> {q. \<exists>n. components q \<noteq> components (path_join [cwd, ''.env.reviveos'']) \<and> look fs q = Some n \<and> look fs' q \<noteq> Some n} = {}"
proof -
  obtain fs1 where w: "writeFileSync fs (path_join [cwd, ''.env.reviveos'']) envContent = Inr fs1"
      "disk.create fs1 (path_join [cwd, ''.env'']) envContent = Inr fs'"
    using assms(2) by (auto simp: env_step)
  have here: "look fs1 (path_join [cwd, ''.env.reviveos'']) = Some (File envContent)"
    using disk.write_here [OF w(1) disk.same_refl] .
  have keep: "look fs' q = Some n" if "look fs1 q = Some n" for q n
    using disk.create_keeps [OF w(2) that] by (auto simp: same_path_def look_def)
  have "look fs' q = Some n"
    if "components q \<noteq> components (path_join [cwd, ''.env.reviveos''])" "look fs q = Some n" for q n
    using keep disk.write_frame [OF w(1), of q] that by (auto simp: same_path_def)
  moreover have "existsSync fs' (path_join [cwd, ''.env''])"
    using disk.create_exists [OF w(2)] by (simp add: existsSync_def)
  ultimately show ?thesis using keep [OF here] by blast
qed

lemma env_generation_safe_witness:
  "\<exists>fs'. generateEnvironmentFile [[''p''] \<mapsto> Dir, [''p'', ''.env''] \<mapsto> File ''A=1''] ''/p'' = Inr (fs', ''/p/.env.reviveos'')
    \<and> look fs' ''/p/.env'' = Some (File ''A=1'')"
proof -
  let ?fs = "[[''p''] \<mapsto> Dir, [''p'', ''.env''] \<mapsto> File ''A=1'']"
  have j: "path_join [''/p'', ''.env.reviveos''] = ''/p/.env.reviveos''" "path_join [''/p'', ''.env''] = ''/p/.env''"
    "components ''/p/.env.reviveos'' = [''p'', ''.env.reviveos'']" "components ''/p/.env'' = [''p'', ''.env'']"
    by (simp_all add: path_join_def normalize_def starts_with_def norm_step_def components_def Let_def)
  then have "\<exists>fs'. generateEnvironmentFile ?fs ''/p'' = Inr (fs', ''/p/.env.reviveos'')"
    by (simp add: generateEnvironmentFile_def writeFileSync_def existsSync_def look_def node_at_def)
  then obtain fs' where g: "generateEnvironmentFile ?fs ''/p'' = Inr (fs', ''/p/.env.reviveos'')" ..
  have "starts_with ''/p'' ''/''" by (simp add: starts_with_def)
  from env_generation_safe [OF this g] have
    "{q. \<exists>n. components q \<noteq> components ''/p/.env.reviveos'' \<and> look ?fs q = Some n \<and> look fs' q \<noteq> Some n} = {}"
    by (simp only: j)
  moreover have "look ?fs ''/p/.env'' = Some (File ''A=1'')" "components ''/p/.env'' \<noteq> components ''/p/.env.reviveos''"
    by (simp_all add: look_def node_at_def j)
  ultimately show ?thesis using g by blast
qed

text \<open>
  The handler generator writes the handler of the detected framework at the path it reports, and
  changes nothing else that exists: every directory stays, every other file keeps its text, and no other
  file appears. (A handler already at that path is overwritten.)
\<close>

lemma handler_generation:
  assumes "generateWebhookHandler fs scan = Inr (fs', p)"
  shows "look fs' p = Some (File (fileContent (handler_target fs scan)))
    \<and> {q. \<exists>n. components q \<noteq> components p \<and> look fs q = Some n \<and> look fs' q \<noteq> Some n} = {}
    \<and> {q. \<exists>c. components q \<noteq> components p \<and> look fs' q = Some (File c) \<and> look fs q \<noteq> Some (File c)} = {}"
proof -
  have put: "p = targetFile (handler_target fs scan)"
    "disk.put_in fs (targetDir (handler_target fs scan)) p (fileContent (handler_target fs scan)) = Inr fs'"
    using assms by (auto simp: generateWebhookHandler_def disk.put_in_def Let_def)
  have "look fs' q = Some n" if "components q \<noteq> components p" "look fs q = Some n" for q n
    using disk.put_in_keeps [OF put(2) that(2)] that(1) by (simp add: same_path_def)
  moreover have "look fs q = Some (File c)" if "components q \<noteq> components p" "look fs' q = Some (File c)" for q c
    using disk.put_in_new_file [OF put(2) that(2)] that(1) by (simp add: same_path_def)
  ultimately show ?thesis using disk.put_in_here [OF put(2)] put(1) by blast
qed

lemma handler_generation_witness:
  "\<exists>fs'. generateWebhookHandler [[''p''] \<mapsto> Dir]
      \<lparr>isNodeProject = True, packageJsonPath = None, projectName = Undef, hasRazorpay = False,
        hasTypeScript = True, framework = Express, appRoot = ''/p''\<rparr> = Inr (fs', ''/p/api/reviveos-webhook.ts'')
    \<and> look fs' ''/p/api/reviveos-webhook.ts'' = Some (File express_handler)"
proof -
  let ?scan = "\<lparr>isNodeProject = True, packageJsonPath = None, projectName = Undef, hasRazorpay = False,
        hasTypeScript = True, framework = Express, appRoot = ''/p''\<rparr>"
  let ?fs = "[[''p''] \<mapsto> Dir]"
  have j: "path_join [''/p'', ''src''] = ''/p/src''" "path_join [''/p'', ''api''] = ''/p/api''"
    "path_join [''/p/api'', ''reviveos-webhook.ts''] = ''/p/api/reviveos-webhook.ts''"
    "components ''/p/api'' = [''p'', ''api'']" "components ''/p/src'' = [''p'', ''src'']" "components ''/p'' = [''p'']"
    "components ''/p/api/reviveos-webhook.ts'' = [''p'', ''api'', ''reviveos-webhook.ts'']"
    by (simp_all add: path_join_def normalize_def starts_with_def norm_step_def components_def Let_def)
  then have t: "handler_target ?fs ?scan
      = \<lparr>targetDir = ''/p/api'', targetFile = ''/p/api/reviveos-webhook.ts'', fileContent = express_handler\<rparr>"
    by (simp add: handler_target_def Let_def existsSync_def look_def node_at_def)
  have "\<exists>fs'. generateWebhookHandler ?fs ?scan = Inr (fs', ''/p/api/reviveos-webhook.ts'')"
    by (simp add: generateWebhookHandler_def t mkdirSync_def writeFileSync_def node_at_def j)
  then obtain fs' where g: "generateWebhookHandler ?fs ?scan = Inr (fs', ''/p/api/reviveos-webhook.ts'')" ..
  with handler_generation [OF g] show ?thesis by (auto simp: t)
qed

lemma str_includes_at: "s = a @ t @ b \<Longrightarrow> str_includes s t"
  by (auto simp: includes_sublist)

text \<open>
  The handler's text does not depend on the project's language: the file generated for a JavaScript
  project, named \<open>.js\<close>, contains TypeScript parameter annotations in every framework.
\<close>

lemma handler_text_is_typescript:
  "fileContent (handler_target fs scan) = fileContent (handler_target fs (scan\<lparr>hasTypeScript := \<not> hasTypeScript scan\<rparr>))
   \<and> (str_includes (fileContent (handler_target fs scan)) ''(req: Request''
      \<or> str_includes (fileContent (handler_target fs scan)) ''(req: NextApiRequest'')"
proof -
  have a: "str_includes nextjs_app_handler ''(req: Request''"
    unfolding nextjs_app_handler_def unlines_def by simp
  have b: "str_includes nextjs_pages_handler ''(req: NextApiRequest''"
    unfolding nextjs_pages_handler_def unlines_def by simp
  have c: "str_includes express_handler ''(req: Request''"
    unfolding express_handler_def unlines_def by simp
  show ?thesis
    using a b c by (cases "framework scan") (simp_all add: handler_target_def Let_def)
qed

end
