(* ===== verification/CliMain.thy ===== *)
theory CliMain
  imports CliUi CliGenerator HttpClient
begin

text \<open>
  \<open>packages/cli/src/index.ts\<close> and \<open>doctor.ts\<close>: the commands. A command takes the file system and yields
  it changed, the texts printed so far and, when it rejects, the error: what was printed and
  written before a failure stays.
\<close>

subsection \<open>The doctor\<close>

fun health_events :: "http_event list \<Rightarrow> bool option" where
  \<comment> \<open>the promise of \<open>checkApiConnectivity\<close>: the first event that resolves it\<close>
  "health_events [] = None"
| "health_events (Respond c # es) = Some (case c of None \<Rightarrow> False | Some n \<Rightarrow> n \<noteq> 0 \<and> 200 \<le> n \<and> n < 400)"
| "health_events (TimedOut # es) = Some False"
| "health_events (Failed e # es) = Some False"
| "health_events (_ # es) = health_events es"

definition checkApiConnectivity :: "(string \<Rightarrow> http_event list) \<Rightarrow> string \<Rightarrow> bool option" where
  "checkApiConnectivity net ep =
    (let u = strip_slash ep @ ''/health''
     in case new_url u of
       Inl _ \<Rightarrow> Some False
     | Inr p \<Rightarrow> if p \<noteq> ''https'' \<and> p \<noteq> ''http'' then Some False else health_events (net u))"

definition runDoctor :: "(string \<Rightarrow> string option) \<Rightarrow> (string \<Rightarrow> http_event list) \<Rightarrow> string list \<times> bool" where
  \<comment> \<open>the texts printed and whether the command finishes\<close>
  "runDoctor env net =
    (let start = printBanner @ [ui_section ''Diagnostics & Connectivity Check''];
         ep = the (or_text (env ''REVIVEOS_API_URL'') (Some ''http://localhost:8080''))
     in case checkApiConnectivity net ep of
       None \<Rightarrow> (start, False)
     | Some isReachable \<Rightarrow> (start @ [
         (if isReachable then ui_success (''ReviveOS API reachable at '' @ ep)
          else ui_warn (''ReviveOS API not reachable at '' @ ep @ '' (Using sandbox / mock mode fallback)'')),
         (if has_text (env ''REVIVEOS_API_KEY'') then ui_success ''REVIVEOS_API_KEY is configured in environment''
          else ui_warn ''REVIVEOS_API_KEY is not set (Check .env or .env.reviveos)''),
         (if has_text (env ''RAZORPAY_WEBHOOK_SECRET'') then ui_success ''RAZORPAY_WEBHOOK_SECRET is configured''
          else ui_info ''RAZORPAY_WEBHOOK_SECRET can be set for strict HMAC-SHA256 verification'')], True))"

subsection \<open>Init\<close>

record run =
  disk_after :: fs
  printed :: "string list"
  rejected :: "err option"

definition next_steps :: "string list" where
  "next_steps = [
     ''  1. In Razorpay Dashboard (Settings > Webhooks), set Webhook URL to:'',
     ''     '' @ [CHR 0x1B] @ ''[36mhttps://your-domain.com/api/reviveos/webhook'' @ [CHR 0x1B] @ ''[0m'',
     ''  2. Subscribe to events: '' @ [CHR 0x1B] @ ''[33mpayment.failed, payment.captured, refund.created'' @ [CHR 0x1B] @ ''[0m'',
     ''  3. Set '' @ [CHR 0x1B] @ ''[32mRAZORPAY_WEBHOOK_SECRET'' @ [CHR 0x1B] @ ''[0m in your .env file'',
     ''  4. Start your server and watch ReviveOS automatically recover revenue!'' @ [CHR 0x0A]]"

definition env_partial :: "fs \<Rightarrow> string \<Rightarrow> fs" where
  \<comment> \<open>the file system when \<open>generateEnvironmentFile\<close> has thrown: its first write may have happened\<close>
  "env_partial fs cwd = (case writeFileSync fs (path_join [cwd, ''.env.reviveos'']) envContent of
     Inr fs1 \<Rightarrow> fs1 | Inl _ \<Rightarrow> fs)"

definition handler_partial :: "fs \<Rightarrow> ProjectScanResult \<Rightarrow> fs" where
  \<comment> \<open>the file system when \<open>generateWebhookHandler\<close> has thrown: its directory may have been made\<close>
  "handler_partial fs scan = (case mkdirSync fs (targetDir (handler_target fs scan)) of
     Inr fs1 \<Rightarrow> fs1 | Inl _ \<Rightarrow> fs)"

definition runInit :: "fs \<Rightarrow> string \<Rightarrow> run" where
  "runInit fs cwd = (case scanProject fs cwd of
     Inl e \<Rightarrow> \<lparr>disk_after = fs, printed = printBanner, rejected = Some e\<rparr>
   | Inr scan \<Rightarrow>
       if \<not> isNodeProject scan
       then \<lparr>disk_after = fs, printed = printBanner @ [
              ui_error ''No Node.js project (package.json) detected in the current directory.'',
              ui_info (''Please navigate to your project root and run '' @ [CHR 0x27] @ ''npx reviveos init'' @ [CHR 0x27] @ '' again.'')], rejected = None\<rparr>
       else
         let out1 = printBanner @ [
               ui_success (''Node.js project detected ('' @ to_str (projectName scan) @ '')''),
               (if hasRazorpay scan then ui_success ''Razorpay integration detected in package.json''
                else ui_info ''Configuring Razorpay adapter for project...''),
               ui_section ''Configuring ReviveOS...'']
         in case generateEnvironmentFile fs cwd of
              Inl e \<Rightarrow> \<lparr>disk_after = env_partial fs cwd, printed = out1, rejected = Some e\<rparr>
            | Inr (fs1, envFile) \<Rightarrow>
                let out2 = out1 @ [ui_success ''SDK configured'',
                      ui_success (''Environment template created: '' @ envFile)]
                in case generateWebhookHandler fs1 scan of
                     Inl e \<Rightarrow> \<lparr>disk_after = handler_partial fs1 scan, printed = out2, rejected = Some e\<rparr>
                   | Inr (fs2, webhookPath) \<Rightarrow> \<lparr>disk_after = fs2,
                       printed = out2 @ (if webhookPath \<noteq> [] then [ui_success (''Webhook handler generated: '' @ webhookPath)] else []) @ [
                         ui_success ''Failure events enabled'',
                         ui_success ''Fraud detection enabled'',
                         ui_success ''Recovery engine enabled'',
                         ui_success ''Customer memory enabled'',
                         readyBanner,
                         ui_section ''Next Steps for Integration:''] @ next_steps,
                       rejected = None\<rparr>)"

subsection \<open>The command line\<close>

definition main_cli :: "(string \<Rightarrow> string option) \<Rightarrow> (string \<Rightarrow> http_event list) \<Rightarrow> fs \<Rightarrow> string \<Rightarrow> string list \<Rightarrow> run" where
  \<comment> \<open>\<open>args\<close> is \<open>process.argv.slice(2)\<close>\<close>
  "main_cli env net fs cwd args =
    (let command = (case args of a # _ \<Rightarrow> if a = [] then ''init'' else a | [] \<Rightarrow> ''init'')
     in if command = ''init'' then runInit fs cwd
        else if command = ''doctor'' then \<lparr>disk_after = fs, printed = fst (runDoctor env net), rejected = None\<rparr>
        else if command \<in> {''version'', ''-v'', ''--version''}
        then \<lparr>disk_after = fs, printed = [''ReviveOS CLI v1.0.0''], rejected = None\<rparr>
        else \<lparr>disk_after = fs, printed = [''Unknown command: '' @ command,
               ''Usage: npx reviveos [init | doctor]''], rejected = None\<rparr>)"

subsection \<open>Properties\<close>

lemma handler_partial_keeps: "look fs q = Some n \<Longrightarrow> look (handler_partial fs scan) q = Some n"
  by (auto simp: handler_partial_def split: sum.split intro: disk.dir_keeps)

lemma env_partial_keeps:
  "look fs q = Some n \<Longrightarrow> components q \<noteq> components (path_join [cwd, ''.env.reviveos'']) \<Longrightarrow>
   look (env_partial fs cwd) q = Some n"
  using disk.write_frame [of fs "path_join [cwd, ''.env.reviveos'']" envContent _ q]
  by (auto simp: env_partial_def same_path_def split: sum.split)

lemma env_keeps:
  assumes "generateEnvironmentFile fs cwd = Inr (fs', p)" "look fs q = Some n"
    "components q \<noteq> components (path_join [cwd, ''.env.reviveos''])"
  shows "look fs' q = Some n"
proof -
  obtain fs1 where w: "writeFileSync fs (path_join [cwd, ''.env.reviveos'']) envContent = Inr fs1"
      "disk.create fs1 (path_join [cwd, ''.env'']) envContent = Inr fs'"
    using assms(1) by (auto simp: env_step)
  have "look fs1 q = Some n" using disk.write_frame [OF w(1), of q] assms(2,3) by (simp add: same_path_def)
  then show ?thesis using disk.create_keeps [OF w(2)] by (auto simp: same_path_def look_def)
qed

text \<open>
  C6: No command of the tool destroys a user's file. Whatever the arguments, whether the command succeeds
  or fails half way, everything that existed still exists with the same content, except
  \<open>.env.reviveos\<close> and the framework's webhook handler; and every command but \<open>init\<close> leaves the
  file system as it was.
\<close>

theorem cli_preserves_files:
  assumes "look fs q = Some n" and "components q \<noteq> components (path_join [cwd, ''.env.reviveos''])"
    and "\<And>fs1 scan. scanProject fs cwd = Inr scan \<Longrightarrow> components q \<noteq> components (targetFile (handler_target fs1 scan))"
  shows "look (disk_after (main_cli env net fs cwd args)) q = Some n
    \<and> (args \<noteq> [] \<and> hd args \<noteq> [] \<and> hd args \<noteq> ''init'' \<longrightarrow> disk_after (main_cli env net fs cwd args) = fs)"
proof -
  have "look (disk_after (runInit fs cwd)) q = Some n"
  proof (cases "scanProject fs cwd")
    case (Inr scan)
    show ?thesis
    proof (cases "generateEnvironmentFile fs cwd")
      case (Inl e)
      then show ?thesis using Inr assms(1) env_partial_keeps [OF assms(1,2)]
        by (simp add: runInit_def Let_def)
    next
      case g: (Inr r)
      obtain fs1 p where r: "r = (fs1, p)" by (cases r)
      have k: "look fs1 q = Some n" using env_keeps [OF g [unfolded r] assms(1,2)] .
      show ?thesis
      proof (cases "generateWebhookHandler fs1 scan")
        case (Inl e)
        then show ?thesis using Inr g r assms(1) handler_partial_keeps [OF k] by (simp add: runInit_def Let_def)
      next
        case h: (Inr r2)
        obtain fs2 p2 where r2: "r2 = (fs2, p2)" by (cases r2)
        have put: "p2 = targetFile (handler_target fs1 scan)"
          "disk.put_in fs1 (targetDir (handler_target fs1 scan)) p2 (fileContent (handler_target fs1 scan)) = Inr fs2"
          using h r2 by (auto simp: generateWebhookHandler_def disk.put_in_def Let_def)
        have "\<not> same_path p2 q" using assms(3) [OF Inr, of fs1] put(1) by (simp add: same_path_def)
        then have "look fs2 q = Some n" using disk.put_in_keeps [OF put(2) k] by simp
        then show ?thesis using Inr g r h r2 assms(1) by (simp add: runInit_def Let_def)
      qed
    qed
  qed (simp add: runInit_def assms(1))
  then show ?thesis using assms(1) by (cases args) (simp_all add: main_cli_def Let_def)
qed

lemma cli_preserves_files_witness:
  "look (disk_after (main_cli (\<lambda>_. None) (\<lambda>_. []) [[''p''] \<mapsto> Dir, [''p'', ''a.txt''] \<mapsto> File ''x''] ''/p'' [''init''])) ''/p/a.txt''
     = Some (File ''x'')"
proof (rule cli_preserves_files [THEN conjunct1])
  have j: "path_join [''/p'', ''.env.reviveos''] = ''/p/.env.reviveos''" "path_join [''/p'', ''package.json''] = ''/p/package.json''"
    "components ''/p/.env.reviveos'' = [''p'', ''.env.reviveos'']" "components ''/p/a.txt'' = [''p'', ''a.txt'']"
    "components ''/p/package.json'' = [''p'', ''package.json'']"
    by (simp_all add: path_join_def normalize_def starts_with_def norm_step_def components_def Let_def)
  show "look [[''p''] \<mapsto> Dir, [''p'', ''a.txt''] \<mapsto> File ''x''] ''/p/a.txt'' = Some (File ''x'')"
    by (simp add: look_def node_at_def j)
  show "components ''/p/a.txt'' \<noteq> components (path_join [''/p'', ''.env.reviveos''])" by (simp add: j)
  fix fs1 scan
  assume "scanProject [[''p''] \<mapsto> Dir, [''p'', ''a.txt''] \<mapsto> File ''x''] ''/p'' = Inr scan"
  then have s: "framework scan = PlainNode" "appRoot scan = ''/p''" "\<not> hasTypeScript scan"
    by (auto simp: scanProject_def Let_def j existsSync_def look_def node_at_def)
  have p: "path_join [''/p'', ''src''] = ''/p/src''" "path_join [''/p/src'', ''api''] = ''/p/src/api''" "path_join [''/p'', ''api''] = ''/p/api''"
    "path_join [''/p/src/api'', ''reviveos-webhook.js''] = ''/p/src/api/reviveos-webhook.js''"
    "path_join [''/p/api'', ''reviveos-webhook.js''] = ''/p/api/reviveos-webhook.js''"
    "components ''/p/src/api/reviveos-webhook.js'' = [''p'', ''src'', ''api'', ''reviveos-webhook.js'']"
    "components ''/p/api/reviveos-webhook.js'' = [''p'', ''api'', ''reviveos-webhook.js'']"
    by (simp_all add: path_join_def normalize_def starts_with_def norm_step_def components_def Let_def)
  show "components ''/p/a.txt'' \<noteq> components (targetFile (handler_target fs1 scan))"
    using s by (simp add: handler_target_def Let_def p j)
qed

end
