(* ===== verification/WebRoutes.thy ===== *)
theory WebRoutes
  imports WebApi
begin

text \<open>
  The console's own API routes, \<open>apps/web/src/app/api/**/route.ts\<close>: they serve the synthetic dataset.
  A route takes the request's search parameters and yields the response. The demonstration backend
  \<open>demo_backend\<close> is the network a console sees whose API address points at these routes.
\<close>

definition param :: "(string \<times> string) list \<Rightarrow> string \<Rightarrow> string option" where
  \<comment> \<open>\<open>searchParams.get(k)\<close>\<close>
  "param ps k = map_of ps k"

definition param_or :: "(string \<times> string) list \<Rightarrow> string \<Rightarrow> string \<Rightarrow> string" where
  "param_or ps k d = (case param ps k of Some (c # s) \<Rightarrow> c # s | _ \<Rightarrow> d)"

definition workflows_route :: "WorkflowSummary list \<Rightarrow> (string \<times> string) list \<Rightarrow> js" where
  "workflows_route ds searchParams =
    (let status = param searchParams ''status'';
         limit = parse_int10 (param_or searchParams ''limit'' ''50'');
         offset = parse_int10 (param_or searchParams ''offset'' ''0'');
         filtered = with_status status ds;
         rows = map wf_js (slice_num filtered offset (nadd offset limit))
     in page rows (length filtered) limit offset)"

definition workflow_route :: "WorkflowSummary list \<Rightarrow> string \<Rightarrow> err + js" where
  "workflow_route ds wid = getSyntheticWorkflowDetail ds wid"

definition interventions_route :: "err + js" where
  "interventions_route = seqE getSyntheticInterventions (\<lambda>interventions.
     Inr (Obj [(''data'', Arr interventions), (''total'', js_int (int (length interventions)))]))"

definition overview_route :: "WorkflowSummary list \<Rightarrow> js" where
  "overview_route ds = getSyntheticAnalyticsOverview ds"

definition demo_backend :: "string \<Rightarrow> WorkflowSummary list \<Rightarrow> fetch" where
  \<comment> \<open>the routes behind the address \<open>base\<close>, by the paths of their files; anything else is not found\<close>
  "demo_backend base ds req =
    (let u = drop (length base) (rq_url req); path = takeWhile (\<lambda>c. c \<noteq> CHR ''?'') u;
         query = drop 1 (dropWhile (\<lambda>c. c \<noteq> CHR ''?'') u)
     in if rq_method req = ''GET'' \<and> path = ''/workflows'' then Inr (json_response (workflows_route ds (search_params query)))
        else if rq_method req = ''GET'' \<and> path = ''/analytics/overview'' then Inr (json_response (overview_route ds))
        else if rq_method req = ''GET'' \<and> path = ''/workflows/interventions''
        then seqE interventions_route (\<lambda>v. Inr (json_response v))
        else if rq_method req = ''GET'' \<and> prefix ''/workflows/'' path
        then seqE (workflow_route ds (drop (length ''/workflows/'') path)) (\<lambda>v. Inr (json_response v))
        else Inr \<lparr>rs_status = 404, rs_statusText = ''Not Found'', rs_body = Inr []\<rparr>)"

subsection \<open>Lemmas\<close>

lemma workflows_route_page:
  "workflows_route ds [] = page (map wf_js (take 50 ds)) (length ds) (nint 50) (nint 0)"
  "workflows_route ds [(''status'', s)] = page (map wf_js (take 50 (with_status (Some s) ds))) (length (with_status (Some s) ds)) (nint 50) (nint 0)"
proof -
  have n: "parse_int10 ''50'' = nint (int 50)" "parse_int10 ''0'' = nint (int 0)"
    using to_number_int [of 50] to_number_int [of 0]
    by (simp_all add: parse_int10_def trim_start_def is_ws_def is_digit_def digits_val_def digit_val_def Let_def)
  have a: "nadd (nint (int 0)) (nint (int 50)) = nint (int 50)" using nadd_int [of 0 50] by simp
  have sl: "slice xs 0 50 = take 50 xs" for xs :: "WorkflowSummary list"
    using slice_prefix [of xs 50] by simp
  show "workflows_route ds [] = page (map wf_js (take 50 ds)) (length ds) (nint 50) (nint 0)"
    "workflows_route ds [(''status'', s)] = page (map wf_js (take 50 (with_status (Some s) ds))) (length (with_status (Some s) ds)) (nint 50) (nint 0)"
    unfolding workflows_route_def param_or_def param_def Let_def by (simp_all add: n [simplified] a [simplified] slice_num_def with_status_def wanted_status_def sl)
qed

lemma image_items_map: "image_items xs = map json_image xs"
  by (induction xs) auto

lemma items_ok_all: "items_ok xs = list_all js_ok xs"
  by (induction xs) auto

lemma page_image:
  "list_all js_ok rows \<Longrightarrow> n \<le> 2 ^ 53 \<Longrightarrow> l \<le> 2 ^ 53 \<Longrightarrow> k \<le> 2 ^ 53 \<Longrightarrow>
   js_ok (page rows n (nint (int l)) (nint (int k))) \<and>
   member (json_image (page rows n (nint (int l)) (nint (int k)))) ''data'' = Arr (map json_image rows)"
proof -
  assume "list_all js_ok rows" and b: "n \<le> 2 ^ 53" "l \<le> 2 ^ 53" "k \<le> 2 ^ 53"
  have "prints (of_int (int m))" if "m \<le> 2 ^ 53" for m
    using that by (intro prints_int) (metis abs_of_nat of_nat_le_iff of_nat_numeral of_nat_power)
  with b have "prints (of_int (int n))" "prints (of_int (int l))" "prints (of_int (int k))" by blast+
  with \<open>list_all js_ok rows\<close> show ?thesis by (simp add: page_def items_ok_all image_items_map)
qed

lemma image_ids: "member (json_image (wf_js w)) ''payment_id'' = Str (wf_payment_id w)"
  "\<not> nullish (json_image (wf_js w))"
  by (simp_all add: wf_js_def nullish_def)

lemma backend_list:
  assumes "F = with_status s ds"
  shows "demo_backend base ds (api_request base (workflows_endpoint (no_query\<lparr>q_status := s\<rparr>)) no_init)
    = Inr (json_response (page (map wf_js (take 50 F)) (length F) (nint 50) (nint 0)))"
proof (cases "wanted_status s")
  case None
  then have "F = ds" using assms by (simp add: with_status_def)
  moreover have "query_pairs (no_query\<lparr>q_status := s\<rparr>) = []" using None by (simp add: query_pairs_def no_query_def)
  ultimately show ?thesis
    by (simp add: demo_backend_def api_request_def workflows_endpoint_def query_string_def no_init_def
      starts_with_def search_params_def workflows_route_page)
next
  case (Some t)
  then have s: "s = Some t" by (auto simp: wanted_status_def split: option.splits if_splits)
  have q: "query_pairs (no_query\<lparr>q_status := s\<rparr>) = [(''status'', t)]" using Some by (simp add: query_pairs_def no_query_def)
  have ne: "query_string [(''status'', t)] \<noteq> []" by (simp add: query_string_def)
  have r: "search_params (query_string [(''status'', t)]) = [(''status'', t)]" by (rule query_round_trip)
  have e: "workflows_endpoint (no_query\<lparr>q_status := s\<rparr>) = ''/workflows?'' @ query_string [(''status'', t)]"
    unfolding workflows_endpoint_def q Let_def using ne by simp
  show ?thesis
    unfolding e by (simp add: demo_backend_def api_request_def no_init_def starts_with_def Let_def r workflows_route_page assms s)
qed

lemma unshadowed_rest:
  assumes "distinct (map wf_payment_id ds)" "\<forall>v\<in>set ds. \<forall>w\<in>set ds. wf_payment_id v \<noteq> wf_id w"
    and "\<forall>w\<in>set ds. wf_payment_id w \<noteq> []"
  shows "filter (\<lambda>s. \<forall>r\<in>set (map (\<lambda>w. json_image (wf_js w)) (take n ds)). \<not> shadows r s) (map wf_js ds) = map wf_js (drop n ds)"
proof -
  have sh: "shadows (json_image (wf_js v)) (wf_js w) \<longleftrightarrow> wf_payment_id v = wf_payment_id w" if "v \<in> set ds" "w \<in> set ds" for v w
  proof -
    have "row_id (json_image (wf_js v)) = Str (wf_payment_id v)" using assms(3) that(1) by (simp add: image_ids orv_def)
    then show ?thesis using assms(2) that by (auto simp: shadows_def same_key_def)
  qed
  have "distinct (map wf_payment_id (take n ds @ drop n ds))" using assms(1) by simp
  then have ds: "wf_payment_id v \<noteq> wf_payment_id w" if "v \<in> set (take n ds)" "w \<in> set (drop n ds)" for v w
    using that by (auto simp only: map_append distinct_append set_map)
  have sub: "set (take n ds) \<subseteq> set ds" "set (drop n ds) \<subseteq> set ds" by (simp_all add: set_take_subset set_drop_subset)
  let ?P = "\<lambda>w. \<forall>v\<in>set (take n ds). \<not> shadows (json_image (wf_js v)) (wf_js w)"
  have "filter ?P (take n ds) = []" using sh sub(1) by (auto simp: filter_empty_conv)
  moreover have "filter ?P (drop n ds) = drop n ds" using sh ds sub unfolding filter_id_conv by (metis subsetD)
  ultimately have "filter ?P (take n ds @ drop n ds) = drop n ds" by (simp only: filter_append append_Nil)
  then show ?thesis by (simp add: filter_map comp_def)
qed

subsection \<open>Properties\<close>



end
