(* ===== verification/LandingPage.thy ===== *)
theory LandingPage
  imports WebApi
begin

text \<open>
  \<open>apps/web/src/app/page.tsx\<close>: the public page's simulator and its calculator. A simulation reports a failed
  payment to the backend and then walks through five stages by four timers; timers fire in the order of
  their due times, and choosing another failure in between sets the stage back without stopping them.
\<close>

subsection \<open>State\<close>

record landing_page =
  ld_selectedError :: string
  ld_simAmount :: number
  ld_isSimulating :: bool
  ld_simStage :: nat
  ld_monthlyGMV :: number
  ld_awaiting :: "(string \<times> number) list"
  ld_timers :: "(nat \<times> nat) list"

definition landing_init :: landing_page where
  "landing_init = \<lparr>ld_selectedError = ''INSUFFICIENT_FUNDS'', ld_simAmount = nint 2499, ld_isSimulating = False, ld_simStage = 0,
     ld_monthlyGMV = nint 2500000, ld_awaiting = [], ld_timers = []\<rparr>"

subsection \<open>The request\<close>

definition first_merchant :: "err + js \<Rightarrow> err + js" where
  \<comment> \<open>\<open>merchants[0]?.id\<close>, no merchants when they cannot be loaded\<close>
  "first_merchant merchants = (case merchants of
     Inl _ \<Rightarrow> Inr Undef
   | Inr (Arr (m # _)) \<Rightarrow> Inr (member m ''id'')
   | Inr (Obj fs) \<Rightarrow> Inr (member (fld fs ''0'') ''id'')
   | Inr v \<Rightarrow> if nullish v then Inl (type_error ''Cannot read properties of null (reading '0')'') else Inr Undef)"

definition simulated_failure :: "js \<Rightarrow> string \<times> number \<Rightarrow> js" where
  \<comment> \<open>the failure and the amount chosen when the simulation started\<close>
  "simulated_failure merchantId c = Obj [
     (''merchant_id'', merchantId),
     (''customer_email'', Str ''delivered@resend.dev''),
     (''amount'', Num (snd c)),
     (''trigger_failure_immediately'', Bool True),
     (''failure_code'', Str (fst c)),
     (''description'', Str (''Simulated '' @ fst c @ '' Recovery''))]"

definition report_failure :: "string \<Rightarrow> fetch \<Rightarrow> string \<times> number \<Rightarrow> err + js" where
  \<comment> \<open>the \<open>try\<close> of \<open>runSimulation\<close>; whatever it yields is dropped\<close>
  "report_failure base net c = seqE (first_merchant (getMerchants base net)) (\<lambda>i.
     createSandboxPaymentLink base net (simulated_failure (orv i (Str ''11111111-1111-1111-1111-111111111111'')) c))"

subsection \<open>Steps\<close>

definition stage_timers :: "(nat \<times> nat) list" where
  \<comment> \<open>delay in milliseconds and stage\<close>
  "stage_timers = [(700, 2), (1500, 3), (2300, 4), (3200, 5)]"

definition start_simulation :: "landing_page \<Rightarrow> landing_page" where
  "start_simulation p = p\<lparr>ld_isSimulating := True, ld_simStage := 1, ld_awaiting := ld_awaiting p @ [(ld_selectedError p, ld_simAmount p)]\<rparr>"

definition reported :: "err + js \<Rightarrow> landing_page \<Rightarrow> landing_page" where
  \<comment> \<open>the request has come back, with whatever outcome: the timers start\<close>
  "reported outcome p = p\<lparr>ld_awaiting := tl (ld_awaiting p), ld_timers := ld_timers p @ stage_timers\<rparr>"

definition fire :: "nat \<Rightarrow> landing_page \<Rightarrow> landing_page" where
  \<comment> \<open>a timer's callback\<close>
  "fire stage p = (let q = p\<lparr>ld_simStage := stage\<rparr> in if stage = 5 then q\<lparr>ld_isSimulating := False\<rparr> else q)"

definition choose_error :: "string \<Rightarrow> landing_page \<Rightarrow> landing_page" where
  "choose_error key p = p\<lparr>ld_selectedError := key, ld_simStage := 0\<rparr>"

inductive landing_step :: "string \<Rightarrow> landing_page \<Rightarrow> landing_page \<Rightarrow> bool" for base where
  run: "\<not> ld_isSimulating p \<Longrightarrow> landing_step base p (start_simulation p)"
| report: "ld_awaiting p = c # cs \<Longrightarrow> landing_step base p (reported (report_failure base net c) p)"
| tick: "ld_timers p = (d, s) # ts \<Longrightarrow> landing_step base p (fire s (p\<lparr>ld_timers := ts\<rparr>))"
| choose: "landing_step base p (choose_error key p)"
| amount: "landing_step base p (p\<lparr>ld_simAmount := a\<rparr>)"
| gmv: "landing_step base p (p\<lparr>ld_monthlyGMV := g\<rparr>)"

inductive landing_reach :: "string \<Rightarrow> landing_page \<Rightarrow> bool" for base where
  init: "landing_reach base landing_init"
| step: "\<lbrakk>landing_reach base p; landing_step base p q\<rbrakk> \<Longrightarrow> landing_reach base q"

fun fire_all :: "landing_page \<Rightarrow> (nat \<times> nat) list \<Rightarrow> landing_page" where
  "fire_all p [] = p"
| "fire_all p ((d, s) # ts) = fire_all (fire s (p\<lparr>ld_timers := ts\<rparr>)) ts"

subsection \<open>The calculator\<close>

definition lostRevenue :: "number \<Rightarrow> number" where
  "lostRevenue monthlyGMV = nmul monthlyGMV (lit 9 100)"

definition recoveredMonthly :: "number \<Rightarrow> number" where
  "recoveredMonthly monthlyGMV = nmul (lostRevenue monthlyGMV) (lit 684 1000)"

definition recoveredAnnual :: "number \<Rightarrow> number" where
  "recoveredAnnual monthlyGMV = nmul (recoveredMonthly monthlyGMV) (nint 12)"

subsection \<open>The failure profiles\<close>

record failure_info =
  fi_title :: string
  fi_desc :: string
  fi_action :: string
  fi_prob :: string
  fi_strategy :: string

definition failureProfiles :: "(string \<times> failure_info) list" where
  "failureProfiles = [
     (''INSUFFICIENT_FUNDS'', \<lparr>fi_title = ''Insufficient Funds / Low Balance'', fi_desc = ''Customer balance low at billing cycle time.'',
        fi_action = ''DELAYED_RETRY (Zero-Touch Token)'', fi_prob = ''76.4%'',
        fi_strategy = ''AI schedules smart token retry on next payday / salary window.''\<rparr>),
     (''EXPIRED_CARD'', \<lparr>fi_title = ''Expired Card / Mandate Lapsed'', fi_desc = ''Recurring card or e-mandate has expired.'',
        fi_action = ''PAYMENT_METHOD_UPDATE (Resend Link)'', fi_prob = ''62.1%'',
        fi_strategy = ''Dispatches high-converting payment method update link via Resend email.''\<rparr>),
     (''BANK_DOWNTIME'', \<lparr>fi_title = ''Temporary Bank Downtime / Issuer Offline'', fi_desc = ''Issuer switch timeout or temporary bank network drop.'',
        fi_action = ''EXPONENTIAL_BACKOFF_RETRY'', fi_prob = ''94.2%'',
        fi_strategy = ''Predictive algorithm retries automatically when gateway switch recovers.''\<rparr>),
     (''LIMIT_EXCEEDED'', \<lparr>fi_title = ''Velocity Limit Exceeded'', fi_desc = ''Daily or transaction banking volume limit reached.'',
        fi_action = ''PAYMENT_LINK (Smart Multi-Rail)'', fi_prob = ''81.0%'',
        fi_strategy = ''Sends instant multi-rail smart checkout link with UPI and Netbanking fallbacks.''\<rparr>)]"

subsection \<open>Lemmas\<close>

definition landing_ok :: "landing_page \<Rightarrow> bool" where
  \<comment> \<open>a simulation under way waits for its report or holds the rest of its own timers, the last stage among them\<close>
  "landing_ok p \<longleftrightarrow> (if ld_isSimulating p
     then length (ld_awaiting p) = 1 \<and> ld_timers p = [] \<or> ld_awaiting p = [] \<and> ld_timers p \<noteq> [] \<and> suffix (ld_timers p) stage_timers
     else ld_awaiting p = [] \<and> ld_timers p = [])"

lemma stage_suffixes: "suffix ts stage_timers \<Longrightarrow> ts \<noteq> [] \<Longrightarrow>
  ts \<in> {[(3200, 5)], [(2300, 4), (3200, 5)], [(1500, 3), (2300, 4), (3200, 5)], stage_timers}"
  by (auto simp: stage_timers_def suffix_Cons)

lemma landing_step_ok: "landing_step base p q \<Longrightarrow> landing_ok p \<Longrightarrow> landing_ok q"
proof (induction rule: landing_step.induct)
  case (report p c cs net)
  then show ?case by (auto simp: landing_ok_def reported_def stage_timers_def split: if_splits)
next
  case (tick p d s ts)
  then have "ld_isSimulating p" "ld_awaiting p = []" "suffix ((d, s) # ts) stage_timers" by (auto simp: landing_ok_def split: if_splits)
  moreover from this(3) have "suffix ts stage_timers" by (rule suffix_ConsD)
  moreover have "s = 5 \<longleftrightarrow> ts = []" using stage_suffixes [OF \<open>suffix ((d, s) # ts) stage_timers\<close>] by (auto simp: stage_timers_def)
  ultimately show ?case by (auto simp: landing_ok_def fire_def Let_def)
qed (auto simp: landing_ok_def start_simulation_def choose_error_def split: if_splits)

lemma landing_init_ok: "landing_ok landing_init"
  by (simp add: landing_ok_def landing_init_def)

lemma landing_reach_ok: "landing_reach base p \<Longrightarrow> landing_ok p"
  by (induction rule: landing_reach.induct) (auto intro: landing_init_ok landing_step_ok)

lemma fire_all_ends:
  assumes "suffix ts stage_timers" "ts \<noteq> []" "ld_timers p = ts"
  shows "ld_simStage (fire_all p ts) = 5 \<and> \<not> ld_isSimulating (fire_all p ts) \<and> ld_timers (fire_all p ts) = []"
  using stage_suffixes [OF assms(1,2)] by (auto simp: stage_timers_def fire_def Let_def)

lemma fire_all_steps: "ld_timers p = ts \<Longrightarrow> (landing_step base)\<^sup>*\<^sup>* p (fire_all p ts)"
proof (induction ts arbitrary: p)
  case (Cons t ts)
  obtain d s where t: "t = (d, s)" by (cases t)
  have "landing_step base p (fire s (p\<lparr>ld_timers := ts\<rparr>))" using Cons.prems t by (intro landing_step.tick) simp
  moreover have "ld_timers (fire s (p\<lparr>ld_timers := ts\<rparr>)) = ts" by (simp add: fire_def Let_def)
  ultimately show ?case using Cons.IH unfolding t fire_all.simps by (meson converse_rtranclp_into_rtranclp)
qed simp

subsection \<open>Properties\<close>

text \<open>
  C36: A simulation always comes to its end. Whatever the visitor has clicked on the way and whatever the backend answers,
  once the request has come back at most four timers are left, and when they have fired the page shows the last stage,
  is no longer simulating and can run again, with no timer left over.
\<close>

theorem simulation_finishes:
  assumes "landing_reach base p" and "ld_isSimulating p"
    and "q = (if ld_awaiting p = [] then p else reported outcome p)"
  shows "length (ld_timers q) \<le> 4 \<and> (landing_step base)\<^sup>*\<^sup>* q (fire_all q (ld_timers q))
    \<and> ld_simStage (fire_all q (ld_timers q)) = 5 \<and> \<not> ld_isSimulating (fire_all q (ld_timers q))
    \<and> ld_timers (fire_all q (ld_timers q)) = []"
proof -
  have "landing_ok p" by (rule landing_reach_ok [OF assms(1)])
  then have s: "suffix (ld_timers q) stage_timers" "ld_timers q \<noteq> []"
    using assms(2,3) by (auto simp: landing_ok_def reported_def stage_timers_def split: if_splits)
  moreover have "length (ld_timers q) \<le> 4" using stage_suffixes [OF s] by (auto simp: stage_timers_def)
  ultimately show ?thesis using fire_all_ends [OF s refl] fire_all_steps [OF refl] by blast
qed

definition running :: landing_page where
  "running = start_simulation landing_init"

theorem simulation_finishes_witness:
  "landing_reach ''/api'' running
    \<and> ld_simStage (fire_all (reported (Inr Null) running) (ld_timers (reported (Inr Null) running))) = 5"
proof -
  have r: "landing_reach ''/api'' running"
    unfolding running_def by (rule landing_reach.step [OF landing_reach.init landing_step.run]) (simp add: landing_init_def)
  have s: "ld_isSimulating running" and e: "reported (Inr Null) running = (if ld_awaiting running = [] then running else reported (Inr Null) running)"
    by (simp_all add: running_def start_simulation_def)
  from simulation_finishes [OF r s e] r show ?thesis by blast
qed

lemma choosing_resets_only_the_stage:
  \<comment> \<open>choosing another failure during a simulation shows stage 0 while the timers go on\<close>
  "ld_simStage (choose_error key p) = 0 \<and> ld_isSimulating (choose_error key p) = ld_isSimulating p
    \<and> ld_timers (choose_error key p) = ld_timers p"
  by (simp add: choose_error_def)

end
