(* ===== verification/PipelineDiagram.thy ===== *)
theory PipelineDiagram
  imports Components
begin

text \<open>
  \<open>components/ui/TechnicalPipelineDiagram.tsx\<close>, the dial of the landing page: six stages of which one is shown, a timer that
  goes on to the next one, and a counter for the heading that is advanced by the same timer but not by a click on the dial.
  Cosine and sine, which the language leaves to the engine, are a parameter.
\<close>

subsection \<open>The stages\<close>

record pipe_stage =
  ps_num :: string
  ps_category :: string
  ps_title :: string
  ps_subtitle :: string
  ps_desc :: string
  ps_accent :: string
  ps_metric :: string
  ps_icon :: string

definition pipe_stages :: "pipe_stage list" where
  "pipe_stages = [
     \<lparr>ps_num = ''01'', ps_category = ''CLASSIFICATION'', ps_title = ''Diagnose & Classify'',
       ps_subtitle = ''Deterministic Error Mapping'',
       ps_desc = ''ReviveOS intercepts payment gateway webhook errors across 50+ bank codes. In milliseconds, failures are mapped into high-probability recovery categories.'',
       ps_accent = ''#0ea5e9'', ps_metric = ''50+ Codes Decoded'', ps_icon = ''Activity''\<rparr>,
     \<lparr>ps_num = ''02'', ps_category = ''PREDICTION'', ps_title = ''Predict Recoverability'',
       ps_subtitle = ''Machine Learning Probability Engine'',
       ps_desc = ''Our statistical inference model scores likelihood of successful recapture based on historical issuing bank reliability, past customer habits, and transaction size.'',
       ps_accent = ''#8b5cf6'', ps_metric = ''76.4% Prob Score'', ps_icon = ''TrendingUp''\<rparr>,
     \<lparr>ps_num = ''03'', ps_category = ''AI REASONING'', ps_title = ''Decide Strategy'',
       ps_subtitle = ''DeepSeek-R1 Chain-of-Thought Reasoning'',
       ps_desc = ''Instead of crude static retries, DeepSeek-R1 reasons through the root cause to choose between Zero-Touch Autopay Retries, Payment Method Update Links, or Fallback Channels.'',
       ps_accent = ''#ec4899'', ps_metric = ''Zero-Touch Route'', ps_icon = ''Cpu''\<rparr>,
     \<lparr>ps_num = ''04'', ps_category = ''TIMING OPTIMIZATION'', ps_title = ''Dynamic Timing'',
       ps_subtitle = ''Payday & Gateway Health Alignment'',
       ps_desc = (''Retries are delayed and dynamically fired at the precise optimal window'' @
         [CHR 0xE2, CHR 0x80, CHR 0x94] @
         ''avoiding bank maintenance hours and aligning with salary credit periods.''),
       ps_accent = ''#f59e0b'', ps_metric = ''Optimal Window Sync'', ps_icon = ''Clock''\<rparr>,
     \<lparr>ps_num = ''05'', ps_category = ''EXECUTION'', ps_title = ''Multi-Channel Execution'',
       ps_subtitle = ''Zero-Touch Tokens & Resend Notifications'',
       ps_desc = ''Executes zero-touch token charges or dispatches customized, high-converting payment links via Resend API and Razorpay Auto-Notify without disturbing the user.'',
       ps_accent = ''#10b981'', ps_metric = ''Token + Smart Link'', ps_icon = ''Send''\<rparr>,
     \<lparr>ps_num = ''06'', ps_category = ''VERIFICATION'', ps_title = ''Authoritative Verification'',
       ps_subtitle = ''SHA-256 Cryptographic Audit Ledger'',
       ps_desc = ''Every recovered rupee is validated directly against gateway settlement webhooks and permanently recorded with cryptographic block hashing.'',
       ps_accent = ''#a855f7'', ps_metric = ''100% Hash Audit'', ps_icon = ''Lock''\<rparr>]"

subsection \<open>State\<close>

record pipeline_diagram =
  pd_activeStage :: nat
  pd_evalPass :: nat

definition diagram_init :: pipeline_diagram where
  "diagram_init = \<lparr>pd_activeStage = 0, pd_evalPass = 1\<rparr>"

definition advance :: "pipeline_diagram \<Rightarrow> pipeline_diagram" where
  \<comment> \<open>the timer, every 3200 milliseconds\<close>
  "advance p = \<lparr>pd_activeStage = (pd_activeStage p + 1) mod 6, pd_evalPass = (if pd_evalPass p \<ge> 6 then 1 else pd_evalPass p + 1)\<rparr>"

definition choose_stage :: "nat \<Rightarrow> pipeline_diagram \<Rightarrow> pipeline_diagram" where
  \<comment> \<open>a click on a marker of the dial\<close>
  "choose_stage idx p = p\<lparr>pd_activeStage := idx\<rparr>"

subsection \<open>Markup\<close>

record trig =
  tg_cos :: "number \<Rightarrow> number"
  tg_sin :: "number \<Rightarrow> number"

definition pi_double :: number where
  \<comment> \<open>\<open>Math.PI\<close>\<close>
  "pi_double = Fin (884279719003555 / 281474976710656)"

definition diagram_header :: "pipeline_diagram \<Rightarrow> pipe_stage \<Rightarrow> nat view" where
  "diagram_header p stage =
    node ''div'' [
      node ''div'' [node ''span'' [], node ''span'' [say ''REVIVE-R1 PIPELINE'']],
      node ''div'' [
        node ''div'' [say ''AUTONOMOUS AI RECOVERY PIPELINE''],
        el ''div'' [(''style.color'', Inr (Str (ps_accent stage)))] [] [
          say ''STAGE 0'',
          put (Str (show_nat (pd_evalPass p))),
          say (''/06 '' @ [CHR 0xE2, CHR 0x80, CHR 0xA2] @ '' ''),
          put (Str (ps_category stage))]],
      node ''div'' [say ''MEASURED OUTCOME'']]"

definition failure_streams :: "nat view" where
  "failure_streams =
    node ''div'' [
      node ''div'' [node ''span'' [say [CHR 0xE2, CHR 0x86, CHR 0x91]], node ''span'' [say ''INCOMING_FAILURE_STREAM'']],
      node ''div'' [
        node ''div'' [node ''div'' [say ''00-1''], node ''div'' [say ''Gateway declines'']],
        el ''svg'' [
            (''width'', Inr (Str ''60'')),
            (''height'', Inr (Str ''24'')),
            (''viewBox'', Inr (Str ''0 0 60 24''))] [] [
          el ''line'' [
              (''x1'', Inr (Str ''0'')),
              (''y1'', Inr (Str ''4'')),
              (''x2'', Inr (Str ''48'')),
              (''y2'', Inr (Str ''4'')),
              (''stroke'', Inr (Str ''#0ea5e9''))] [] [],
          el ''line'' [
              (''x1'', Inr (Str ''0'')),
              (''y1'', Inr (Str ''10'')),
              (''x2'', Inr (Str ''38'')),
              (''y2'', Inr (Str ''10'')),
              (''stroke'', Inr (Str ''#0ea5e9''))] [] [],
          el ''line'' [
              (''x1'', Inr (Str ''0'')),
              (''y1'', Inr (Str ''16'')),
              (''x2'', Inr (Str ''52'')),
              (''y2'', Inr (Str ''16'')),
              (''stroke'', Inr (Str ''#0ea5e9''))] [] [],
          el ''circle'' [(''cx'', Inr (Str ''56'')), (''cy'', Inr (Str ''10'')), (''r'', Inr (Str ''2''))] [] []]],
      node ''div'' [
        node ''div'' [node ''div'' [say ''00-2''], node ''div'' [say ''Mandate lapses'']],
        el ''svg'' [
            (''width'', Inr (Str ''60'')),
            (''height'', Inr (Str ''24'')),
            (''viewBox'', Inr (Str ''0 0 60 24''))] [] [
          el ''line'' [
              (''x1'', Inr (Str ''0'')),
              (''y1'', Inr (Str ''6'')),
              (''x2'', Inr (Str ''28'')),
              (''y2'', Inr (Str ''6'')),
              (''stroke'', Inr (Str ''#8b5cf6'')),
              (''strokeDasharray'', Inr (Str ''3 3''))] [] [],
          el ''circle'' [(''cx'', Inr (Str ''34'')), (''cy'', Inr (Str ''6'')), (''r'', Inr (Str ''1.5''))] [] [],
          el ''circle'' [(''cx'', Inr (Str ''42'')), (''cy'', Inr (Str ''6'')), (''r'', Inr (Str ''1''))] [] [],
          el ''line'' [
              (''x1'', Inr (Str ''0'')),
              (''y1'', Inr (Str ''14'')),
              (''x2'', Inr (Str ''36'')),
              (''y2'', Inr (Str ''14'')),
              (''stroke'', Inr (Str ''#8b5cf6'')),
              (''strokeDasharray'', Inr (Str ''4 2''))] [] [],
          el ''circle'' [(''cx'', Inr (Str ''48'')), (''cy'', Inr (Str ''14'')), (''r'', Inr (Str ''1.5''))] [] [],
          el ''circle'' [(''cx'', Inr (Str ''56'')), (''cy'', Inr (Str ''10'')), (''r'', Inr (Str ''2''))] [] []]],
      node ''div'' [
        node ''div'' [node ''div'' [say ''00-3''], node ''div'' [say ''Bank switch drops'']],
        el ''svg'' [
            (''width'', Inr (Str ''60'')),
            (''height'', Inr (Str ''24'')),
            (''viewBox'', Inr (Str ''0 0 60 24''))] [] [
          el ''path'' [
              (''d'', Inr (Str ''M 0 16 L 10 16 L 10 6 L 22 6 L 22 16 L 34 16 L 34 6 L 46 6 L 46 16 L 54 16'')),
              (''stroke'', Inr (Str ''#ec4899''))] [] [],
          el ''circle'' [(''cx'', Inr (Str ''56'')), (''cy'', Inr (Str ''16'')), (''r'', Inr (Str ''2''))] [] []]],
      node ''div'' [
        node ''div'' [node ''div'' [say ''00-4''], node ''div'' [say ''3DS drop-offs'']],
        el ''svg'' [
            (''width'', Inr (Str ''60'')),
            (''height'', Inr (Str ''24'')),
            (''viewBox'', Inr (Str ''0 0 60 24''))] [] [
          el ''path'' [
              (''d'', Inr (Str ''M 0 18 L 12 12 L 24 16 L 36 6 L 48 14 L 54 10'')),
              (''stroke'', Inr (Str ''#10b981''))] [] [],
          el ''circle'' [(''cx'', Inr (Str ''12'')), (''cy'', Inr (Str ''12'')), (''r'', Inr (Str ''1.8''))] [] [],
          el ''circle'' [(''cx'', Inr (Str ''24'')), (''cy'', Inr (Str ''16'')), (''r'', Inr (Str ''1.8''))] [] [],
          el ''circle'' [(''cx'', Inr (Str ''36'')), (''cy'', Inr (Str ''6'')), (''r'', Inr (Str ''1.8''))] [] [],
          el ''circle'' [(''cx'', Inr (Str ''48'')), (''cy'', Inr (Str ''14'')), (''r'', Inr (Str ''1.8''))] [] [],
          el ''circle'' [(''cx'', Inr (Str ''56'')), (''cy'', Inr (Str ''10'')), (''r'', Inr (Str ''2''))] [] []]]]"

definition stage_marker :: "pipe_stage \<Rightarrow> nat \<Rightarrow> number \<Rightarrow> number \<Rightarrow> bool \<Rightarrow> nat view" where
  "stage_marker st idx x y isCurrent =
    el ''g'' [(''key'', Inr (Str (ps_num st)))] [(''onClick'', \<lambda>_. idx)] [
      el ''rect'' [
          (''x'', Inr (Num (nsub x (nint 4)))),
          (''y'', Inr (Num (nsub y (nint 4)))),
          (''width'', Inr (Str ''8'')),
          (''height'', Inr (Str ''8'')),
          (''fill'', Inr (Str (if isCurrent then ''var(--text-primary)'' else ''var(--bg-elevated)''))),
          (''stroke'', Inr (Str (if isCurrent then ''var(--text-primary)'' else ps_accent st))),
          (''transform'', Inr (Str (''rotate(45 '' @ to_str (Num x) @ '' '' @ to_str (Num y) @ '')''))),
          (''style.filter'', Inr (Str (if isCurrent then ''drop-shadow(0 0 8px '' @ ps_accent st @ '')'' else ''none'')))]
        [] []]"

definition dial_drawing :: "trig \<Rightarrow> pipeline_diagram \<Rightarrow> pipe_stage \<Rightarrow> nat view" where
  "dial_drawing tg p stage =
    el ''svg'' [(''viewBox'', Inr (Str ''0 0 540 340''))] [] [
      el ''path'' [
          (''d'', Inr (Str ''M 10 50 C 70 50, 90 160, 140 160'')),
          (''stroke'', Inr (Str ''rgba(14, 165, 233, 0.6)''))] [] [],
      el ''path'' [
          (''d'', Inr (Str ''M 10 110 C 60 110, 90 165, 140 165'')),
          (''stroke'', Inr (Str ''rgba(139, 92, 246, 0.6)''))] [] [],
      el ''path'' [
          (''d'', Inr (Str ''M 10 220 C 60 220, 90 175, 140 175'')),
          (''stroke'', Inr (Str ''rgba(236, 72, 153, 0.6)''))] [] [],
      el ''path'' [
          (''d'', Inr (Str ''M 10 280 C 70 280, 90 180, 140 180'')),
          (''stroke'', Inr (Str ''rgba(16, 185, 129, 0.6)''))] [] [],
      el ''rect'' [
          (''x'', Inr (Str ''140'')),
          (''y'', Inr (Str ''145'')),
          (''width'', Inr (Str ''34'')),
          (''height'', Inr (Str ''50'')),
          (''rx'', Inr (Str ''6'')),
          (''stroke'', Inr (Str ''var(--color-accent)''))] [] [],
      el ''line'' [
          (''x1'', Inr (Str ''147'')),
          (''y1'', Inr (Str ''158'')),
          (''x2'', Inr (Str ''167'')),
          (''y2'', Inr (Str ''158'')),
          (''stroke'', Inr (Str ''var(--color-accent)''))] [] [],
      el ''circle'' [
          (''cx'', Inr (Str ''157'')),
          (''cy'', Inr (Str ''170'')),
          (''r'', Inr (Str ''3.5'')),
          (''stroke'', Inr (Str ''#ec4899''))] [] [],
      el ''line'' [
          (''x1'', Inr (Str ''147'')),
          (''y1'', Inr (Str ''182'')),
          (''x2'', Inr (Str ''167'')),
          (''y2'', Inr (Str ''182'')),
          (''stroke'', Inr (Str ''#8b5cf6''))] [] [],
      el ''line'' [
          (''x1'', Inr (Str ''174'')),
          (''y1'', Inr (Str ''170'')),
          (''x2'', Inr (Str ''225'')),
          (''y2'', Inr (Str ''170'')),
          (''stroke'', Inr (Str ''var(--border-strong)''))] [] [],
      el ''g'' [(''transform'', Inr (Str ''translate(325, 170)''))] [] [
        el ''circle'' [
            (''cx'', Inr (Str ''0'')),
            (''cy'', Inr (Str ''0'')),
            (''r'', Inr (Str ''98'')),
            (''stroke'', Inr (Str ''var(--border-default)'')),
            (''strokeDasharray'', Inr (Str ''2 6''))] [] [],
        el ''circle'' [
            (''cx'', Inr (Str ''0'')),
            (''cy'', Inr (Str ''0'')),
            (''r'', Inr (Str ''78'')),
            (''stroke'', Inr (Str ''var(--border-subtle)''))] [] [],
        el ''circle'' [
            (''cx'', Inr (Str ''0'')),
            (''cy'', Inr (Str ''0'')),
            (''r'', Inr (Str ''58'')),
            (''stroke'', Inr (Str ''var(--border-default)''))] [] [],
        el ''circle'' [
            (''cx'', Inr (Str ''0'')),
            (''cy'', Inr (Str ''0'')),
            (''r'', Inr (Str ''28'')),
            (''stroke'', Inr (Str (ps_accent stage))),
            (''style.filter'', Inr (Str (''drop-shadow(0 0 10px '' @ ps_accent stage @ '')'')))] [] [],
        el ''path'' [(''d'', Inr (Str ''M -2 -8 L 4 -8 L 0 0 L 5 0 L -3 9 L -1 2 L -5 2 Z''))] [] [],
        each_i pipe_stages (\<lambda>idx st. 
          let angle = nsub (nmul (ndiv (nint (int idx)) (nint (int (length pipe_stages)))) (nint 360)) (nint 90) in
            let rad = ndiv (nmul angle pi_double) (nint 180) in
              let x = nmul (tg_cos tg rad) (nint 78) in
                let y = nmul (tg_sin tg rad) (nint 78) in
                  let isCurrent = idx = pd_activeStage p in stage_marker st idx x y isCurrent),
        el ''path'' [(''d'', Inr (Str ''M 70 -50 A 98 98 0 0 1 70 50'')), (''stroke'', Inr (Str ''var(--color-pink)''))] [] []],
      el ''line'' [
          (''x1'', Inr (Str ''423'')),
          (''y1'', Inr (Str ''170'')),
          (''x2'', Inr (Str ''520'')),
          (''y2'', Inr (Str ''170'')),
          (''stroke'', Inr (Str ''var(--border-strong)''))] [] []]"

definition dial :: "trig \<Rightarrow> pipeline_diagram \<Rightarrow> pipe_stage \<Rightarrow> nat view" where
  "dial tg p stage =
    node ''div'' [
      dial_drawing tg p stage,
      el ''div'' [(''style.color'', Inr (Str (if pd_activeStage p = 0 then ''#0ea5e9'' else ''var(--text-muted)'')))] [] [
        say ''01 CLASSIFY''],
      el ''div'' [(''style.color'', Inr (Str (if pd_activeStage p = 1 then ''#8b5cf6'' else ''var(--text-muted)'')))] [] [
        say ''02 PREDICT''],
      el ''div'' [(''style.color'', Inr (Str (if pd_activeStage p = 2 then ''#ec4899'' else ''var(--text-muted)'')))] [] [
        say ''03 AI REASON''],
      el ''div'' [(''style.color'', Inr (Str (if pd_activeStage p = 3 then ''#f59e0b'' else ''var(--text-muted)'')))] [] [
        say ''04 TIMING''],
      node ''div'' [say ''SHIPS ONLY AFTER PROVEN UPLIFT'']]"

definition outcome_box :: "nat view" where
  "outcome_box =
    node ''div'' [
      node ''div'' [
        node ''div'' [],
        node ''div'' [],
        node ''div'' [],
        node ''div'' [],
        node ''div'' [each_i (replicate 6 Undef) (\<lambda>i _.  el ''div'' [(''key'', Inr (Num (nint (int i))))] [] [])],
        node ''div'' [node ''span'' [say ''POST-RECOVERY''], node ''span'' []],
        node ''div'' [node ''div'' [say ''+68.4%''], node ''div'' [say ''CAPTURED REVENUE'']],
        node ''div'' [node ''div'' [say ''BASELINE''], node ''div'' [say ''9.2% INVOLUNTARY CHURN'']]],
      node ''div'' [node ''div'' [say [CHR 0xCE, CHR 0x94]], node ''div'' [say ''MEASURED'', node ''br'' [], say ''UPLIFT'']]]"

definition stage_note :: "pipe_stage \<Rightarrow> nat view" where
  "stage_note stage =
    el ''motion.div'' [
        (''key'', Inr (Str (ps_num stage))),
        (''style.border'', Inr (Str (''1px solid '' @ ps_accent stage)))] [] [
      node ''div'' [
        icon (ps_icon stage),
        node ''span'' [
          say ''STAGE '',
          put (Str (ps_num stage)),
          say ('' '' @ [CHR 0xE2, CHR 0x80, CHR 0x94] @ '' ''),
          put (Str (ps_title stage))],
        el ''span'' [(''style.color'', Inr (Str (ps_accent stage)))] [] [say ''('', put (Str (ps_subtitle stage)), say '')'']],
      node ''div'' [put (Str (ps_desc stage))],
      node ''div'' [put (Str (ps_metric stage))]]"

definition diagram_section :: "trig \<Rightarrow> pipeline_diagram \<Rightarrow> pipe_stage \<Rightarrow> nat view" where
  "diagram_section tg p stage =
    node ''section'' [
      node ''div'' [
        node ''div'' [],
        diagram_header p stage,
        node ''div'' [failure_streams, dial tg p stage, outcome_box],
        el ''AnimatePresence'' [(''mode'', Inr (Str ''wait''))] [] [stage_note stage],
        node ''div'' [
          node ''span'' [
            say (''RECONCILED TRANSACTIONS RETRAIN INFERENCE HEURISTICS '' @ [CHR 0xE2, CHR 0x86, CHR 0x92] @
                '' CONTINUOUS RECOVERY LOOP '' @ [CHR 0xE2, CHR 0x86, CHR 0x92] @ '' ZERO CHURN'')]]]]"

definition pipeline_view :: "trig \<Rightarrow> pipeline_diagram \<Rightarrow> nat view" where
  \<comment> \<open>\<open>current\<close> is undefined outside the array, and reading one of its properties throws\<close>
  "pipeline_view tg p = (if pd_activeStage p < length pipe_stages then diagram_section tg p (pipe_stages ! pd_activeStage p)
     else Inl (type_error ''Cannot read properties of undefined''))"

subsection \<open>Lemmas\<close>

inductive diagram_reach :: "pipeline_diagram \<Rightarrow> bool" where
  start: "diagram_reach diagram_init"
| timer: "diagram_reach p \<Longrightarrow> diagram_reach (advance p)"
| click: "diagram_reach p \<Longrightarrow> idx \<in> set (acts x (pipeline_view tg p)) \<Longrightarrow> diagram_reach (choose_stage idx p)"

definition diagram_ok :: "pipeline_diagram \<Rightarrow> bool" where
  "diagram_ok p \<longleftrightarrow> pd_activeStage p < 6 \<and> pd_evalPass p \<in> {1..6}"

lemma pipe_stages_length [simp]: "length pipe_stages = 6"
  by (simp add: pipe_stages_def)

lemma stage_numbers: "i < 6 \<Longrightarrow> ps_num (pipe_stages ! i) = CHR ''0'' # show_nat (i + 1)"
proof -
  have "list_all (\<lambda>i. ps_num (pipe_stages ! i) = CHR ''0'' # show_nat (i + 1)) [0..<6]" by code_simp
  then show "i < 6 \<Longrightarrow> ps_num (pipe_stages ! i) = CHR ''0'' # show_nat (i + 1)" by (simp add: list_all_iff)
qed

lemma stage_marker_renders [simp]: "renders (stage_marker st idx x y c)"
  unfolding stage_marker_def by (simp add: view_simps)

lemma stage_marker_acts [simp]: "acts v (stage_marker st idx x y c) = [idx]"
  using stage_marker_renders [of st idx x y c] unfolding stage_marker_def by (simp add: acts_el_eq view_simps)

lemma diagram_parts:
  "renders (diagram_header p st)" "renders failure_streams" "renders (dial_drawing tg p st)" "renders outcome_box" "renders (stage_note st)"
  unfolding diagram_header_def failure_streams_def dial_drawing_def outcome_box_def stage_note_def Let_def
  by (simp_all add: view_simps renders_each_i)

lemma diagram_renders: "pd_activeStage p < 6 \<Longrightarrow> renders (pipeline_view tg p)"
  unfolding pipeline_view_def diagram_section_def dial_def by (simp add: view_simps diagram_parts)

lemma dial_acts: "acts x (dial_drawing tg p st) = [0..<6]"
proof -
  let ?f = "\<lambda>idx st. let angle = nsub (nmul (ndiv (nint (int idx)) (nint (int (length pipe_stages)))) (nint 360)) (nint 90) in
      let rad = ndiv (nmul angle pi_double) (nint 180) in let x = nmul (tg_cos tg rad) (nint 78) in
      let y = nmul (tg_sin tg rad) (nint 78) in let isCurrent = idx = pd_activeStage p in stage_marker st idx x y isCurrent"
  have "renders (each_i pipe_stages ?f)" by (simp add: renders_each_i Let_def)
  then have "acts x (each_i pipe_stages ?f) = concat (map (\<lambda>(i, y). [i]) (index_from 0 pipe_stages))"
    by (simp add: acts_each_i Let_def)
  also have "\<dots> = [0..<6]" by (simp add: index_from_eq pipe_stages_def upt_rec)
  finally show ?thesis
    using diagram_parts(3) [of tg p st] unfolding dial_drawing_def by (simp add: acts_el_eq view_simps)
qed

lemma diagram_acts: "pd_activeStage p < 6 \<Longrightarrow> acts x (pipeline_view tg p) = [0..<6]"
proof -
  have q: "acts x failure_streams = []" "acts x outcome_box = []" "acts x (diagram_header p st) = []" "acts x (stage_note st) = []" for st
    by (rule confined_empty, simp add: failure_streams_def outcome_box_def diagram_header_def stage_note_def view_simps)+
  assume "pd_activeStage p < 6"
  with diagram_renders [OF this, of tg] show ?thesis
    unfolding pipeline_view_def diagram_section_def dial_def by (simp add: acts_node_eq acts_el_eq view_simps diagram_parts dial_acts q)
qed

definition heading_matches :: "pipeline_diagram \<Rightarrow> bool" where
  \<comment> \<open>the heading counts the stage whose category stands beside it\<close>
  "heading_matches p \<longleftrightarrow> ps_num (pipe_stages ! pd_activeStage p) = CHR ''0'' # show_nat (pd_evalPass p)"

lemma diagram_reach_ok: "diagram_reach p \<Longrightarrow> diagram_ok p"
proof (induction rule: diagram_reach.induct)
  case (click p idx x tg)
  then have "idx \<in> set [0..<6]" by (metis diagram_acts diagram_ok_def)
  with click show ?case by (simp add: diagram_ok_def choose_stage_def)
qed (auto simp: diagram_ok_def diagram_init_def advance_def)

lemma heading_iff: "diagram_ok p \<Longrightarrow> heading_matches p \<longleftrightarrow> pd_evalPass p = pd_activeStage p + 1"
  by (auto simp: heading_matches_def diagram_ok_def stage_numbers)

lemma advance_ok: "diagram_ok p \<Longrightarrow> diagram_ok (advance p) \<and> heading_matches (advance p) = heading_matches p"
proof -
  assume p: "diagram_ok p"
  then have q: "diagram_ok (advance p)" by (auto simp: diagram_ok_def advance_def)
  have "(pd_evalPass (advance p) = pd_activeStage (advance p) + 1) = (pd_evalPass p = pd_activeStage p + 1)"
    using p by (auto simp: diagram_ok_def advance_def mod_Suc)
  with p q show ?thesis by (simp add: heading_iff)
qed

lemma advances_ok: "diagram_ok p \<Longrightarrow> diagram_ok ((advance ^^ n) p) \<and> heading_matches ((advance ^^ n) p) = heading_matches p"
  by (induction n) (auto simp: advance_ok)

lemma dial_safe_acts: "diagram_reach p \<Longrightarrow> acts x (pipeline_view tg p) = [0..<6]"
  using diagram_reach_ok by (auto simp: diagram_ok_def diagram_acts)

subsection \<open>Properties\<close>

text \<open>
  The dial of the landing page always has a stage to show: however the timer and clicks on its markers alternate, one of the
  six stages is the current one, the section is rendered without an exception, and its controls are the six markers in order.
\<close>

theorem dial_safe:
  assumes "diagram_reach p"
  shows "pd_activeStage p < 6 \<and> pd_evalPass p \<in> {1..6} \<and> renders (pipeline_view tg p) \<and> acts x (pipeline_view tg p) = [0..<6]"
  using diagram_reach_ok [OF assms] by (simp add: diagram_ok_def diagram_renders diagram_acts)

theorem dial_safe_witness:
  "diagram_reach (choose_stage 3 (advance diagram_init))
    \<and> renders (pipeline_view \<lparr>tg_cos = (\<lambda>_. nint 1), tg_sin = (\<lambda>_. nint 0)\<rparr> (choose_stage 3 (advance diagram_init)))"
proof -
  let ?tg = "\<lparr>tg_cos = (\<lambda>_. nint 1), tg_sin = (\<lambda>_. nint 0)\<rparr>"
  have a: "diagram_reach (advance diagram_init)" by (intro diagram_reach.intros)
  moreover have "3 \<in> set (acts Undef (pipeline_view ?tg (advance diagram_init)))"
    by (simp add: diagram_acts advance_def diagram_init_def)
  ultimately have r: "diagram_reach (choose_stage 3 (advance diagram_init))" by (rule diagram_reach.click)
  with dial_safe [OF r, of ?tg] show ?thesis by blast
qed

text \<open>
  A click on the dial lets its heading drift from the stage shown, for good: after a click on a marker the number in the heading
  belongs to the stage beside it, at once and after any number of ticks of the timer, only if the counter happened to be there;
  without a click it always does.
\<close>

theorem dial_heading_drifts:
  assumes "diagram_reach p" and "idx < 6"
  shows "(heading_matches ((advance ^^ n) (choose_stage idx p)) \<longleftrightarrow> idx + 1 = pd_evalPass p)
    \<and> heading_matches ((advance ^^ n) diagram_init)"
proof -
  have p: "diagram_ok (choose_stage idx p)" "diagram_ok diagram_init"
    using diagram_reach_ok [OF assms(1)] assms(2) by (simp_all add: diagram_ok_def choose_stage_def diagram_init_def)
  then have "heading_matches (choose_stage idx p) \<longleftrightarrow> idx + 1 = pd_evalPass p" "heading_matches diagram_init"
    by (auto simp: heading_iff) (simp_all add: choose_stage_def diagram_init_def)
  with p show ?thesis by (simp add: advances_ok)
qed

theorem dial_heading_drifts_witness: "\<not> heading_matches ((advance ^^ 100) (choose_stage 4 diagram_init))"
proof -
  have "(4::nat) < 6" by simp
  from dial_heading_drifts [OF diagram_reach.start this, of 100] show ?thesis by (simp add: diagram_init_def)
qed

end
