(* ===== verification/DocsArticles.thy ===== *)
theory DocsArticles
  imports JsText
begin

text \<open>
  The articles of the documentation, \<open>docArticles\<close> of \<open>apps/web/src/app/docs/page.tsx\<close>, with their complete text,
  and what the page relies on: identifiers that name one article, tables with as many cells in a row as headings.
\<close>

subsection \<open>Types\<close>

datatype note_kind = Tip | Important | Warning

record doc_section =
  ds_title :: string
  ds_body :: string
  ds_code :: "string option"
  ds_language :: "string option"
  ds_note :: "(note_kind \<times> string) option"
  ds_table :: "(string list \<times> string list list) option"

record doc_article =
  da_id :: string
  da_title :: string
  da_category :: string
  da_description :: string
  da_readTime :: string
  da_badge :: "string option"
  da_heading :: string
  da_subheading :: string
  da_sections :: "doc_section list"

definition prose :: "string \<Rightarrow> string \<Rightarrow> doc_section" where
  \<comment> \<open>a section without the optional parts\<close>
  "prose title body = \<lparr>ds_title = title, ds_body = body, ds_code = None, ds_language = None, ds_note = None, ds_table = None\<rparr>"

subsection \<open>The articles\<close>

definition article_overview :: doc_article where
  "article_overview = \<lparr>
     da_id = ''overview'',
     da_title = ''Start building with ReviveOS'',
     da_category = ''WELCOME'',
     da_description = ''Autonomous payment recovery, ML fraud intelligence, and revenue protection '' @ [CHR 0xE2, CHR 0x80, CHR 0x94] @ '' from first install to production.'',
     da_readTime = ''3 min read'',
     da_badge = None,
     da_heading = ''Start building with ReviveOS'',
     da_subheading = ''Autonomous payment recovery, ML fraud intelligence, and revenue protection '' @ [CHR 0xE2, CHR 0x80, CHR 0x94] @ '' from first install to production.'',
     da_sections = [
       (prose ''What is ReviveOS?''
         (text_lines [
           ''ReviveOS is an AI payment recovery and revenue protection layer that plugs into existing payment infrastructure (starting with Razorpay) via a single command without requiring merchants to replace their gateway or proxy normal successful transactions.'',
           [],
           ''Normal payment traffic continues directly through Razorpay. ReviveOS intercepts webhook failure events, executes deterministic classification, scores fraud and return risk, and orchestrates optimal recovery via stored token retries or smart interactive checkout links.'']))
       \<lparr>ds_note := Some (Important, ''ReviveOS does NOT replace Razorpay and does NOT proxy every transaction. Only payment failures and recovery events are processed by the ReviveOS engine.'')\<rparr>,
       prose ''Core Product Architecture''
         (text_lines [
           ''The ReviveOS platform is structured around a 6-stage autonomous lifecycle:'',
           [],
           ''1. Diagnose: Deterministic gateway failure classification across 10+ bank error categories.'',
           ''2. Predict: Statistical machine learning model predicting recovery probability.'',
           ''3. Risk Guard: Multi-model ML fraud detection (Random Forest + Gradient Boosting).'',
           ''4. Decide: DeepSeek-R1 reasoning engine selecting the next-best action.'',
           ''5. Time: Dynamic scheduling aligning retries with salary credit and bank recovery windows.'',
           ''6. Verify: Authoritative gateway confirmation recorded on an immutable SHA-256 ledger.''])]\<rparr>"

definition article_installation :: doc_article where
  "article_installation = \<lparr>
     da_id = ''installation'',
     da_title = ''Installation & SDK Setup'',
     da_category = ''GETTING STARTED'',
     da_description = ''Install the @reviveos/razorpay SDK and TypeScript definitions.'',
     da_readTime = ''2 min read'',
     da_badge = None,
     da_heading = ''SDK Installation'',
     da_subheading = ''Install the lightweight, zero-native-dependency SDK in any Node.js, Next.js, or Express project.'',
     da_sections = [
       (prose ''1. Install Package''
         ''Install the official ReviveOS Razorpay SDK via npm, pnpm, or yarn:'')
       \<lparr>ds_code := Some (text_lines [
           ''npm install @reviveos/razorpay'',
           ''# or'',
           ''pnpm add @reviveos/razorpay'',
           ''# or'',
           ''yarn add @reviveos/razorpay'']),
         ds_language := Some ''bash''\<rparr>,
       (prose ''Package Footprint''
         (''The @reviveos/razorpay package is designed to be ultra-lightweight with zero native C++ binaries or heavy ML packages. All machine learning models and LLM reasoning run on the ReviveOS backend API.''))
       \<lparr>ds_note := Some (Tip, ''The SDK includes complete TypeScript definitions (.d.ts) and source maps out of the box.'')\<rparr>]\<rparr>"

definition article_cli_config :: doc_article where
  "article_cli_config = \<lparr>
     da_id = ''cli-config'',
     da_title = ''API Keys & CLI Configuration'',
     da_category = ''GETTING STARTED'',
     da_description = ''Run npx reviveos init to configure your environment and webhook handlers.'',
     da_readTime = ''3 min read'',
     da_badge = Some ''CLI'',
     da_heading = ''API Keys & CLI Configuration'',
     da_subheading = ''Use the ReviveOS CLI to inspect your project, generate environment files, and scaffold webhook routes automatically.'',
     da_sections = [
       (prose ''1. Run the Auto-Configurator''
         ''In your project root directory, run:'')
       \<lparr>ds_code := Some ''npx reviveos init'',
         ds_language := Some ''bash''\<rparr>,
       prose ''What the CLI Does''
         (text_lines [
           ''The CLI automatically:'',
           [CHR 0xE2, CHR 0x80, CHR 0xA2] @ '' Detects your Node.js project and package.json'',
           [CHR 0xE2, CHR 0x80, CHR 0xA2] @ '' Checks for existing Razorpay dependencies'',
           [CHR 0xE2, CHR 0x80, CHR 0xA2] @ '' Identifies your framework (Next.js App Router, Pages Router, Express, or Fastify)'',
           [CHR 0xE2, CHR 0x80, CHR 0xA2] @ '' Generates `.env.reviveos` with required variables'',
           [CHR 0xE2, CHR 0x80, CHR 0xA2] @ '' Creates a ready-to-run webhook handler tailored to your framework'',
           [CHR 0xE2, CHR 0x80, CHR 0xA2] @ '' Verifies API connectivity and credentials'']),
       (prose ''Environment Variables Template (.env.reviveos)''
         ''Configure the following variables in your `.env` or `.env.local`:'')
       \<lparr>ds_code := Some (text_lines [
           ''# Your ReviveOS Merchant API Key (obtained from ReviveOS Merchant Console)'',
           ''REVIVEOS_API_KEY=rvo_test_acme_secret_key_12345'',
           [],
           ''# ReviveOS Core API URL'',
           ''REVIVEOS_API_URL=https://api.revive-os.me'',
           [],
           ''# Razorpay Webhook Secret for HMAC-SHA256 verification'',
           ''RAZORPAY_WEBHOOK_SECRET=whsec_your_razorpay_webhook_secret'',
           [],
           ''# Mode: 'live', 'test', or 'mock' (for local sandbox testing)'',
           ''REVIVEOS_MODE=live'']),
         ds_language := Some ''env''\<rparr>,
       (prose ''Generating Merchant API Keys''
         (text_lines [
           ''To generate a new API key:'',
           ''1. Navigate to the Developer Platform in the Merchant Console.'',
           ''2. Click '' @ dq ''API Keys & Secrets'' @ ''.'',
           ''3. Choose your mode (Test Sandbox or Production Live) and click '' @ dq ''Create API Key'' @ ''.'',
           ''4. Copy the raw key secret immediately (keys are SHA-256 hashed and never displayed again).'']))
       \<lparr>ds_note := Some (Warning, ''Never commit your REVIVEOS_API_KEY or RAZORPAY_WEBHOOK_SECRET to public version control.'')\<rparr>]\<rparr>"

definition article_quickstart :: doc_article where
  "article_quickstart = \<lparr>
     da_id = ''quickstart'',
     da_title = ''60-Second Quickstart'',
     da_category = ''GETTING STARTED'',
     da_description = ''Complete end-to-end integration tutorial in under 60 seconds.'',
     da_readTime = ''2 min read'',
     da_badge = Some ''Popular'',
     da_heading = ''60-Second Quickstart'',
     da_subheading = ''Add autonomous recovery to your existing Razorpay setup with minimal code changes.'',
     da_sections = [
       (prose ''Step 1: Install & Init''
         ''Run the setup commands in your repository:'')
       \<lparr>ds_code := Some (text_lines [
           ''npm install @reviveos/razorpay'',
           ''npx reviveos init'']),
         ds_language := Some ''bash''\<rparr>,
       (prose ''Step 2: Add Next.js App Router Webhook''
         ''Create `app/api/reviveos/webhook/route.ts`:'')
       \<lparr>ds_code := Some (text_lines [
           ''import { NextResponse } from '' @ dq ''next/server'' @ '';'',
           ''import { ReviveOS } from '' @ dq ''@reviveos/razorpay'' @ '';'',
           [],
           ''const revive = new ReviveOS({'',
           ''  apiKey: process.env.REVIVEOS_API_KEY,'',
           ''  webhookSecret: process.env.RAZORPAY_WEBHOOK_SECRET,'',
           ''});'',
           [],
           ''export async function POST(req: Request) {'',
           ''  const rawBody = await req.text();'',
           ''  const signature = req.headers.get('' @ dq ''x-razorpay-signature'' @ '') || '' @ dq [] @ '';'',
           [],
           ''  // 1. Verify cryptographic HMAC signature & normalize event'',
           ''  const event = revive.webhooks.verifyAndNormalize(rawBody, signature);'',
           [],
           ''  // 2. Ingest into ReviveOS AI recovery pipeline'',
           ''  const result = await revive.events.process(event);'',
           [],
           ''  return NextResponse.json(result);'',
           ''}'']),
         ds_language := Some ''typescript''\<rparr>,
       prose ''Step 3: Point Razorpay Dashboard Webhook''
         (text_lines [
           ''1. Go to Razorpay Dashboard > Settings > Webhooks > Add New Webhook.'',
           ''2. Set Webhook URL to: `https://your-domain.com/api/reviveos/webhook`'',
           ''3. Subscribe to events: `payment.failed`, `payment.captured`, `refund.created`'',
           ''4. Copy the Webhook Secret and set it as `RAZORPAY_WEBHOOK_SECRET` in your environment.''])]\<rparr>"

definition article_webhooks :: doc_article where
  "article_webhooks = \<lparr>
     da_id = ''webhooks'',
     da_title = ''Webhook Verification & Idempotency'',
     da_category = ''GETTING STARTED'',
     da_description = ''Cryptographic signature verification, replay attack prevention, and duplicate event deduplication.'',
     da_readTime = ''4 min read'',
     da_badge = None,
     da_heading = ''Webhook Verification & Idempotency'',
     da_subheading = ''How ReviveOS secures incoming webhooks with constant-time HMAC-SHA256 checks and transactional idempotency.'',
     da_sections = [
       (prose ''Cryptographic Signature Verification''
         ''The ReviveOS Webhook Manager uses Node.js `crypto.timingSafeEqual` to verify the `X-Razorpay-Signature` against your `RAZORPAY_WEBHOOK_SECRET` without opening timing attack vulnerabilities.'')
       \<lparr>ds_code := Some (text_lines [
           ''import { RazorpayWebhookManager } from '' @ dq ''@reviveos/razorpay'' @ '';'',
           [],
           ''const webhook = new RazorpayWebhookManager(process.env.RAZORPAY_WEBHOOK_SECRET);'',
           [],
           ''// Throws ReviveOSSignatureError if invalid'',
           ''const event = webhook.verifyAndNormalize(rawBody, signatureHeader);'']),
         ds_language := Some ''typescript''\<rparr>,
       (prose ''Idempotent Event Deduplication''
         (text_lines [
           ''Webhooks can be delivered multiple times by payment gateways. ReviveOS implements strict database-backed deduplication using `idempotency_key` and `event_id`.'',
           [],
           ''If the same event is received twice, ReviveOS acknowledges the request with status `DUPLICATE_IGNORED` and prevents redundant retry actions.'']))
       \<lparr>ds_table := Some ([''Field'', ''Type'', ''Description''],
           [[''eventId'', ''string'', ''Unique event ID from gateway header (e.g. evt_12345)''],
            [''idempotencyKey'', ''string'', ''Derived from eventId to prevent duplicate execution''],
            [''paymentId'', ''string'', ''Gateway payment ID (e.g. pay_L8k3n2)''],
            [''status'', ''string'', ''INGESTED or DUPLICATE_IGNORED'']])\<rparr>]\<rparr>"

definition article_ml_fraud :: doc_article where
  "article_ml_fraud = \<lparr>
     da_id = ''ml-fraud'',
     da_title = ''Revenue Risk & ML Fraud Guard'',
     da_category = ''CORE CAPABILITIES'',
     da_description = ''Dual-model AI engine evaluating transaction anomaly scores, return risk, and expected financial loss.'',
     da_readTime = ''4 min read'',
     da_badge = Some ''AI Engine'',
     da_heading = ''Revenue Risk & ML Fraud Guard'',
     da_subheading = ''Protect merchant revenue by predicting fraud probability and product return risk before executing retries.'',
     da_sections = [
       prose ''Dual-Model Risk Architecture''
         (text_lines [
           ''ReviveOS integrates two specialized machine learning models:'',
           [],
           ''1. Random Forest Fraud Classifier: Analyzes customer velocity, failure codes, and billing anomalies to compute a fraud probability score (0.0 to 1.0) and risk level (LOW, MEDIUM, HIGH).'',
           [],
           ''2. Gradient Boosting Return Risk Model: Predicts the likelihood of post-recovery customer disputes or return abuse.'',
           [],
           ''3. Expected Loss Calculation: Computes Expected Loss = (Fraud Probability '' @ [CHR 0xC3, CHR 0x97] @ '' Transaction Amount) to evaluate financial risk vs reward.'']),
       (prose ''Synchronous Risk Inspection''
         ''You can query the ML Risk Engine directly via the SDK:'')
       \<lparr>ds_code := Some (text_lines [
           ''const diagnosis = await revive.payments.analyze({'',
           ''  paymentId: '' @ dq ''pay_test_8921'' @ '','',
           ''  amount: 85000, // High-value transaction'',
           ''  currency: '' @ dq ''INR'' @ '','',
           ''  failureCode: '' @ dq ''GATEWAY_TIMEOUT'' @ '','',
           ''  customerId: '' @ dq ''cust_alex_revive'' @ '','',
           ''  paymentMethod: '' @ dq ''card'',
           ''});'',
           [],
           ''console.log(diagnosis.fraudRisk);'',
           ''// Output:'',
           ''// {'',
           ''//   fraudProbability: 0.78,'',
           ''//   riskLevel: '' @ dq ''HIGH'' @ '','',
           ''//   expectedLoss: 66300.0,'',
           ''//   overallRisk: '' @ dq ''HIGH'',
           ''// }'',
           ''console.log(diagnosis.decision); // '' @ dq ''BLOCK'']),
         ds_language := Some ''typescript''\<rparr>]\<rparr>"

definition article_customer_memory :: doc_article where
  "article_customer_memory = \<lparr>
     da_id = ''customer-memory'',
     da_title = ''Customer Recovery Memory'',
     da_category = ''CORE CAPABILITIES'',
     da_description = ''Closed-loop calibration tracking customer habits, preferred payment rails, and recovery latency.'',
     da_readTime = ''3 min read'',
     da_badge = None,
     da_heading = ''Customer Recovery Memory'',
     da_subheading = ''Make personalized recovery decisions using customer-specific historical payment performance.'',
     da_sections = [
       prose ''Customer Behavior Calibration''
         ''Instead of treating all failed payments identically, ReviveOS maintains a dynamic recovery memory profile for every customer. It tracks historical failure frequencies, successful recapture rates, preferred payment rails (e.g. UPI vs Card), and average recovery latency.'',
       (prose ''Querying Customer Recovery Profile''
         ''Retrieve a customer profile using the SDK:'')
       \<lparr>ds_code := Some (text_lines [
           ''const profile = await revive.customers.getRecoveryProfile('' @ dq ''cust_alex_revive'' @ '');'',
           [],
           ''console.log(profile);'',
           ''// Output:'',
           ''// {'',
           ''//   customerId: '' @ dq ''cust_alex_revive'' @ '','',
           ''//   previousFailures: 4,'',
           ''//   previousSuccessfulRecoveries: 3,'',
           ''//   preferredPaymentMethods: ['' @ dq ''card'' @ '', '' @ dq ''upi'' @ ''],'',
           ''//   averageRecoveryTime: 180, // in seconds'',
           ''//   recoveryProbability: 0.81,'',
           ''//   communicationOptOut: false'',
           ''// }'']),
         ds_language := Some ''typescript''\<rparr>]\<rparr>"

definition docArticles :: "doc_article list" where
  \<comment> \<open>\<open>Object.values(docArticles)\<close>; an article's key is its identifier\<close>
  "docArticles = [
     article_overview, article_installation, article_cli_config, article_quickstart, article_webhooks, article_ml_fraud, article_customer_memory]"

subsection \<open>Lemmas\<close>

definition rectangular :: "doc_section \<Rightarrow> bool" where
  "rectangular s = (case ds_table s of None \<Rightarrow> True | Some (headers, rows) \<Rightarrow> list_all (\<lambda>r. length r = length headers) rows)"

lemmas article_defs = article_overview_def article_installation_def article_cli_config_def article_quickstart_def article_webhooks_def article_ml_fraud_def article_customer_memory_def prose_def

lemma article_ids: "map da_id docArticles = [''overview'', ''installation'', ''cli-config'', ''quickstart'', ''webhooks'', ''ml-fraud'',
    ''customer-memory'']"
  by (simp add: docArticles_def article_defs)

lemma tables_rectangular: "list_all (\<lambda>a. list_all rectangular (da_sections a)) docArticles"
  by (simp add: docArticles_def article_defs rectangular_def)

lemma code_has_language: "list_all (\<lambda>a. list_all (\<lambda>s. ds_code s = None \<longleftrightarrow> ds_language s = None) (da_sections a)) docArticles"
  by (simp add: docArticles_def article_defs)

end
