(* ===== verification/DeveloperSection.thy ===== *)
theory DeveloperSection
  imports DocsArticles Components ReviveSdk KeyedMerge
begin

text \<open>
  \<open>components/ui/DeveloperDocsSection.tsx\<close>, the developer section of the landing page: four examples of code behind tabs, two buttons
  that copy, and the steps of an installation. One of the examples states what the SDK answers to a failed payment; the
  last part compares it with the SDK's offline engine.
\<close>

subsection \<open>The examples\<close>

definition snippet_app_router :: string where
  "snippet_app_router = text_lines [
     ''// app/api/reviveos/webhook/route.ts'',
     ''import { NextResponse } from '' @ dq ''next/server'' @ '';'',
     ''import { ReviveOS } from '' @ dq ''@reviveos/razorpay'' @ '';'',
     [],
     ''const revive = new ReviveOS({'',
     ''  apiKey: process.env.REVIVEOS_API_KEY,'',
     ''  webhookSecret: process.env.RAZORPAY_WEBHOOK_SECRET,'',
     ''});'',
     [],
     ''export async function POST(req: Request) {'',
     ''  const rawBody = await req.text();'',
     ''  const signature = req.headers.get('' @ dq ''x-razorpay-signature'' @ '') || '' @ dq [] @ '';'',
     [],
     ''  // 1. Cryptographically verify HMAC-SHA256 signature'',
     ''  const event = revive.webhooks.verifyAndNormalize(rawBody, signature);'',
     [],
     ''  // 2. Autonomous Ingestion: Classify -> Fraud Check -> Recovery Prediction'',
     ''  const result = await revive.events.process(event);'',
     [],
     ''  return NextResponse.json(result);'',
     ''}'']"

definition snippet_pages_router :: string where
  "snippet_pages_router = text_lines [
     ''// pages/api/reviveos/webhook.ts'',
     ''import type { NextApiRequest, NextApiResponse } from '' @ dq ''next'' @ '';'',
     ''import { ReviveOS } from '' @ dq ''@reviveos/razorpay'' @ '';'',
     [],
     ''// Disable Next.js body parser to preserve raw bytes for HMAC verification'',
     ''export const config = { api: { bodyParser: false } };'',
     [],
     ''async function getRawBody(req: NextApiRequest): Promise<string> {'',
     ''  const chunks: Buffer[] = [];'',
     ''  for await (const chunk of req) chunks.push(Buffer.from(chunk));'',
     ''  return Buffer.concat(chunks).toString('' @ dq ''utf8'' @ '');'',
     ''}'',
     [],
     ''const revive = new ReviveOS();'',
     [],
     ''export default async function handler(req: NextApiRequest, res: NextApiResponse) {'',
     ''  if (req.method !== '' @ dq ''POST'' @ '') return res.status(405).end();'',
     ''  '',
     ''  const rawBody = await getRawBody(req);'',
     ''  const signature = req.headers['' @ dq ''x-razorpay-signature'' @ ''] as string;'',
     [],
     ''  const event = revive.webhooks.verifyAndNormalize(rawBody, signature);'',
     ''  const result = await revive.events.process(event);'',
     ''  '',
     ''  return res.status(200).json(result);'',
     ''}'']"

definition snippet_express :: string where
  "snippet_express = text_lines [
     ''// src/routes/reviveos-webhook.ts'',
     ''import express, { Request, Response } from '' @ dq ''express'' @ '';'',
     ''import { ReviveOS } from '' @ dq ''@reviveos/razorpay'' @ '';'',
     [],
     ''const app = express();'',
     ''const revive = new ReviveOS({'',
     ''  apiKey: process.env.REVIVEOS_API_KEY,'',
     ''  webhookSecret: process.env.RAZORPAY_WEBHOOK_SECRET,'',
     ''});'',
     [],
     ''// Use express.raw() to capture unparsed bytes for cryptographic signature verification'',
     ''app.post('',
     ''  '' @ dq ''/api/reviveos/webhook'' @ '','',
     ''  express.raw({ type: '' @ dq ''application/json'' @ '' }),'',
     ''  async (req: Request, res: Response) => {'',
     ''    try {'',
     ''      const signature = req.headers['' @ dq ''x-razorpay-signature'' @ ''] as string;'',
     ''      const event = revive.webhooks.verifyAndNormalize(req.body, signature);'',
     ''      const result = await revive.events.process(event);'',
     ''      return res.status(200).json(result);'',
     ''    } catch (err: any) {'',
     ''      return res.status(400).json({ error: err.message });'',
     ''    }'',
     ''  }'',
     '');'']"

definition snippet_sync_analyze :: string where
  "snippet_sync_analyze = text_lines [
     ''// Synchronous Payment Failure Diagnosis & Recovery Prediction'',
     ''import { ReviveOS } from '' @ dq ''@reviveos/razorpay'' @ '';'',
     [],
     ''const revive = new ReviveOS({ apiKey: process.env.REVIVEOS_API_KEY });'',
     [],
     ''// Execute synchronous AI diagnosis & optimal timing analysis'',
     ''const diagnosis = await revive.payments.analyze({'',
     ''  paymentId: '' @ dq ''pay_L9k3x82n'' @ '','',
     ''  amount: 4999.00,'',
     ''  currency: '' @ dq ''INR'' @ '','',
     ''  failureCode: '' @ dq ''BAD_REQUEST_ERROR'' @ '','',
     ''  failureReason: '' @ dq ''Payment failed due to temporary issuer bank downtime'' @ '','',
     ''  customerId: '' @ dq ''cust_alex_99'' @ '','',
     ''  paymentMethod: '' @ dq ''card'',
     ''});'',
     [],
     ''console.log(diagnosis.failureCategory);      // '' @ dq ''BANK_UNAVAILABLE'',
     ''console.log(diagnosis.recoveryProbability);  // 0.94 (94.0%)'',
     ''console.log(diagnosis.fraudRisk);            // { fraudProbability: 0.04, riskLevel: 'LOW' }'',
     ''console.log(diagnosis.nextBestAction);       // '' @ dq ''RETRY_LATER'',
     ''console.log(diagnosis.delaySeconds);         // 120 (Scheduled in 2 mins)'',
     ''console.log(diagnosis.decision);             // '' @ dq ''RECOVER'']"

definition codeSnippets :: "(string \<times> string) list" where
  "codeSnippets = [(''app-router'', snippet_app_router), (''pages-router'', snippet_pages_router), (''express'', snippet_express), (''sync-analyze'', snippet_sync_analyze)]"

definition code_tabs :: "js list" where
  "code_tabs = [
     Obj [(''id'', Str ''app-router''), (''label'', Str ''Next.js (App Router)'')],
     Obj [(''id'', Str ''pages-router''), (''label'', Str ''Next.js (Pages Router)'')],
     Obj [(''id'', Str ''express''), (''label'', Str ''Express.js / Node'')],
     Obj [(''id'', Str ''sync-analyze''), (''label'', Str ''Synchronous API'')]]"

subsection \<open>State\<close>

record snippets =
  sn_activeCodeTab :: string
  sn_copied :: "string option"
  sn_clipboard :: js

definition snippets_init :: snippets where
  "snippets_init = \<lparr>sn_activeCodeTab = ''app-router'', sn_copied = None, sn_clipboard = Undef\<rparr>"

definition shown_snippet :: "snippets \<Rightarrow> js" where
  \<comment> \<open>undefined for an unknown tab\<close>
  "shown_snippet p = opt_text (map_of codeSnippets (sn_activeCodeTab p))"

definition copyText :: "js \<Rightarrow> string \<Rightarrow> snippets \<Rightarrow> snippets" where
  "copyText words key p = p\<lparr>sn_clipboard := words, sn_copied := Some key\<rparr>"

definition copied_faded :: "snippets \<Rightarrow> snippets" where
  \<comment> \<open>the timer of \<open>copyText\<close>\<close>
  "copied_faded p = p\<lparr>sn_copied := None\<rparr>"

datatype snippet_action = Copy_commands | Copy_snippet | Pick_tab js

fun snippet_do :: "snippet_action \<Rightarrow> snippets \<Rightarrow> snippets" where
  "snippet_do Copy_commands p = copyText (Str ''npm install @reviveos/razorpay && npx reviveos init'') ''step1'' p"
| "snippet_do Copy_snippet p = copyText (shown_snippet p) ''snippet'' p"
| "snippet_do (Pick_tab key) p = p\<lparr>sn_activeCodeTab := to_str key\<rparr>"

subsection \<open>Markup\<close>

definition section_heading :: "snippet_action view" where
  "section_heading =
    node ''div'' [
      node ''div'' [icon ''Terminal'', node ''span'' [say ''DEVELOPER PLATFORM & SDK GUIDE'']],
      node ''h2'' [say ''Integrate ReviveOS in 60 Seconds''],
      node ''p'' [
        say
            ''Add autonomous AI payment recovery and ML fraud protection to your existing Razorpay integration without rebuilding your payment flow.'']]"

definition install_step :: "snippets \<Rightarrow> snippet_action view" where
  "install_step p =
    node ''div'' [
      node ''div'' [
        node ''div'' [node ''div'' [say ''1''], node ''h3'' [say ''Install & Auto-Configure'']],
        node ''p'' [
          say
              ''Install the lightweight SDK and run the smart project scanner to generate your environment template and webhook handler.'']],
      node ''div'' [
        node ''div'' [node ''div'' [say ''$ npm install @reviveos/razorpay''], node ''div'' [say ''$ npx reviveos init'']],
        el ''button'' [(''title'', Inr (Str ''Copy commands''))] [(''onClick'', \<lambda>_. Copy_commands)] [
          if opt_text (sn_copied p) = Str ''step1'' then icon ''Check'' else icon ''Copy'']]]"

definition key_step :: "snippet_action view" where
  "key_step =
    node ''div'' [
      node ''div'' [
        node ''div'' [node ''div'' [say ''2''], node ''h3'' [say ''Generate Merchant API Key'']],
        node ''p'' [
          say
              ''Open your ReviveOS Merchant Console to create a secure, SHA-256 hashed API key (`rvo_test_...` or `rvo_live_...`).'']],
      node ''div'' [
        node ''div'' [
          node ''span'' [say ''REVIVEOS_API_KEY=''],
          node ''span'' [
            say (''rvo_test_'' @ [CHR 0xE2, CHR 0x80, CHR 0xA2, CHR 0xE2, CHR 0x80, CHR 0xA2, CHR 0xE2, CHR 0x80, CHR 0xA2,
                CHR 0xE2, CHR 0x80, CHR 0xA2, CHR 0xE2, CHR 0x80, CHR 0xA2, CHR 0xE2, CHR 0x80, CHR 0xA2, CHR 0xE2, CHR 0x80,
                CHR 0xA2, CHR 0xE2, CHR 0x80, CHR 0xA2, CHR 0xE2, CHR 0x80, CHR 0xA2, CHR 0xE2, CHR 0x80, CHR 0xA2, CHR 0xE2,
                CHR 0x80, CHR 0xA2, CHR 0xE2, CHR 0x80, CHR 0xA2])]],
        el ''Link'' [(''href'', Inr (Str ''/developer''))] [] [node ''span'' [say ''Keys '', icon ''ArrowRight'']]]]"

definition webhook_step :: "snippet_action view" where
  "webhook_step =
    node ''div'' [
      node ''div'' [
        node ''div'' [node ''div'' [say ''3''], node ''h3'' [say ''Point Razorpay Webhook'']],
        node ''p'' [
          say
              ''In Razorpay Dashboard > Settings > Webhooks, add your endpoint URL and subscribe to `payment.failed`, `payment.captured`, and `refund.created`.'']],
      node ''div'' [say ''https://your-domain.com/api/reviveos/webhook'']]"

definition code_tab :: "snippets \<Rightarrow> js \<Rightarrow> snippet_action view" where
  "code_tab p tab =
    el ''button'' [
        (''key'', Inr (member tab ''id'')),
        (''style.background'', Inr (Str (if strict_eq (Str (sn_activeCodeTab p)) (member tab ''id'') then
            ''var(--color-accent-blue)'' else ''transparent''))),
        (''style.color'', Inr (Str (if strict_eq (Str (sn_activeCodeTab p)) (member tab ''id'') then ''#fff'' else
            ''var(--text-secondary)'')))] [(''onClick'', \<lambda>_. Pick_tab (member tab ''id''))] [
      put (member tab ''label'')]"

definition code_header :: "snippets \<Rightarrow> snippet_action view" where
  "code_header p =
    node ''div'' [
      node ''div'' [each code_tabs (\<lambda>tab.  code_tab p tab)],
      el ''button'' [] [(''onClick'', \<lambda>_. Copy_snippet)] [
        if opt_text (sn_copied p) = Str ''snippet'' then icon ''Check'' else icon ''Copy'',
        node ''span'' [put (Str (if opt_text (sn_copied p) = Str ''snippet'' then ''Copied!'' else ''Copy Code''))]]]"

definition code_footer :: "snippet_action view" where
  "code_footer =
    node ''div'' [
      node ''div'' [
        icon ''CheckCircle2'',
        node ''span'' [
          say (''Zero Gateway Proxying '' @ [CHR 0xE2, CHR 0x80, CHR 0xA2] @ '' Cryptographic HMAC-SHA256 '' @ [CHR 0xE2, CHR
              0x80, CHR 0xA2] @ '' Built-in Replay Protection'')]],
      el ''Link'' [(''href'', Inr (Str ''/developer''))] [] [
        node ''button'' [say ''Open Developer Portal '', icon ''ExternalLink'']]]"

definition developer_section :: "snippets \<Rightarrow> snippet_action view" where
  "developer_section p =
    el ''section'' [(''id'', Inr (Str ''docs''))] [] [
      section_heading,
      node ''div'' [install_step p, key_step, webhook_step],
      node ''div'' [code_header p, node ''div'' [node ''pre'' [put (shown_snippet p)]], code_footer]]"

subsection \<open>Lemmas\<close>

lemma code_tab_renders [simp]: "renders (code_tab p tab)"
  unfolding code_tab_def by (simp add: view_simps)

lemma developer_section_renders: "renders (developer_section p)"
  unfolding developer_section_def section_heading_def install_step_def key_step_def webhook_step_def code_header_def code_footer_def
  by (simp add: view_simps list_all_iff)

lemma developer_section_acts:
  "acts x (developer_section p) = [Copy_commands, Pick_tab (Str ''app-router''), Pick_tab (Str ''pages-router''),
     Pick_tab (Str ''express''), Pick_tab (Str ''sync-analyze''), Copy_snippet]"
proof -
  have q: "acts x section_heading = []" "acts x key_step = []" "acts x webhook_step = []" "acts x code_footer = []"
    by (rule confined_empty, simp add: section_heading_def key_step_def webhook_step_def code_footer_def view_simps)+
  have t: "acts x (code_tab p tab) = [Pick_tab (member tab ''id'')]" for tab
    using code_tab_renders [of p tab] unfolding code_tab_def by (simp add: acts_el_eq view_simps)
  have i: "acts x (install_step p) = [Copy_commands]"
    unfolding install_step_def by (simp add: acts_node_eq acts_el_eq view_simps)
  have h: "acts x (code_header p) = map (\<lambda>tab. Pick_tab (member tab ''id'')) code_tabs @ [Copy_snippet]"
    unfolding code_header_def by (simp add: acts_node_eq acts_el_eq acts_each view_simps list_all_iff t comp_def)
  show ?thesis
    using developer_section_renders [of p] unfolding developer_section_def
    by (simp add: acts_node_eq acts_el_eq view_simps q i h) (simp add: code_tabs_def)
qed

subsection \<open>The documented answer\<close>

definition documented_params :: "string \<Rightarrow> string \<Rightarrow> js" where
  \<comment> \<open>the request of \<open>snippet_sync_analyze\<close>, its failure code and reason left open\<close>
  "documented_params failure_code failure_reason = Obj [
     (''paymentId'', Str ''pay_L9k3x82n''), (''amount'', js_int 4999), (''currency'', Str ''INR''),
     (''failureCode'', Str failure_code), (''failureReason'', Str failure_reason),
     (''customerId'', Str ''cust_alex_99''), (''paymentMethod'', Str ''card'')]"

definition documented_values :: "js list" where
  \<comment> \<open>what its comments say is printed\<close>
  "documented_values = [Str ''BANK_UNAVAILABLE'', dec 94 100, dec 4 100, Str ''LOW'', Str ''RETRY_LATER'', js_int 120, Str ''RECOVER'']"

definition printed_values :: "js \<Rightarrow> js list" where
  \<comment> \<open>what the example prints of an answer\<close>
  "printed_values d = [member d ''failureCategory'', member d ''recoveryProbability'', member (member d ''fraudRisk'') ''fraudProbability'',
     member (member d ''fraudRisk'') ''riskLevel'', member d ''nextBestAction'', member d ''delaySeconds'', member d ''decision'']"

lemma outage_by_code: "is_bank_outage (Obj [(''code'', Str c), (''reason'', v)]) = Inr (str_includes c ''BANK'')"
  by (simp add: is_bank_outage_def description_includes_def includes_in_def nullish_def)

lemma mock_prints:
  assumes "isMockMode r"
  shows "\<exists>d. payments_analyze r w (documented_params c why) = mock_answer (Inr d)
    \<and> printed_values d = (if str_includes c ''BANK'' then documented_values
        else [Str ''INSUFFICIENT_FUNDS'', dec 82 100, dec 4 100, Str ''LOW'', Str ''RETRY_NOW'', js_int 0, Str ''RECOVER''])"
  by (rule exI [of _ "projr (the (snd (payments_analyze r w (documented_params c why))))"])
    (simp add: assms payments_analyze_def documented_params_def dummy_event_def iso_now_ok mock_answer_def analyzeMockPayment_def
      outage_by_code to_iso_nint gt_num_def printed_values_def documented_values_def Let_def del: to_iso_Fin)

text \<open>
  C17: The SDK's offline engine reads the failure code, but never the failure's reason: whatever reason is passed, it prints what the
  example of the landing page says exactly if the code contains the word BANK. For the example itself, whose code is BAD_REQUEST_ERROR
  and whose reason names a temporary downtime of the issuing bank, it diagnoses insufficient funds, recommends an immediate retry and
  gives a probability of 0.82, none of which the example says.
\<close>

theorem documented_example_offline:
  assumes "isMockMode r"
  shows "(\<exists>d. payments_analyze r w (documented_params c why) = mock_answer (Inr d)
      \<and> (printed_values d = documented_values \<longleftrightarrow> str_includes c ''BANK''))
    \<and> (\<exists>d. payments_analyze r w (documented_params ''BAD_REQUEST_ERROR'' ''Payment failed due to temporary issuer bank downtime'') = mock_answer (Inr d)
      \<and> printed_values d = [Str ''INSUFFICIENT_FUNDS'', dec 82 100, dec 4 100, Str ''LOW'', Str ''RETRY_NOW'', js_int 0, Str ''RECOVER''])"
proof -
  have "[Str ''INSUFFICIENT_FUNDS'', dec 82 100, dec 4 100, Str ''LOW'', Str ''RETRY_NOW'', js_int 0, Str ''RECOVER''] \<noteq> documented_values"
    by (simp add: documented_values_def)
  moreover have "\<not> str_includes ''BAD_REQUEST_ERROR'' ''BANK''" by code_simp
  ultimately show ?thesis using mock_prints [OF assms, of w c why] mock_prints [OF assms, of w "''BAD_REQUEST_ERROR''"]
    by (auto split: if_splits)
qed

theorem documented_example_offline_witness:
  "\<exists>d. payments_analyze (new_ReviveOS (\<lambda>_. None) \<lparr>o_apiKey = None, o_webhookSecret = None, o_endpoint = None,
      o_mode = Some Mock, o_features = None, o_timeoutMs = None, o_maxRetries = None\<rparr>)
      \<lparr>w_net = \<lambda>_ _. [], w_random = \<lambda>_. 0, w_now = \<lambda>_. 0\<rparr> (documented_params ''BANK_DOWN'' []) = mock_answer (Inr d)
    \<and> printed_values d = documented_values"
proof -
  let ?r = "new_ReviveOS (\<lambda>_. None) \<lparr>o_apiKey = None, o_webhookSecret = None, o_endpoint = None,
      o_mode = Some Mock, o_features = None, o_timeoutMs = None, o_maxRetries = None\<rparr>"
  have m: "isMockMode ?r" by (simp add: new_ReviveOS_def Let_def)
  have "str_includes ''BANK_DOWN'' ''BANK''" by code_simp
  with documented_example_offline [OF m, of "\<lparr>w_net = \<lambda>_ _. [], w_random = \<lambda>_. 0, w_now = \<lambda>_. 0\<rparr>" "''BANK_DOWN''" "[]"] show ?thesis
    by blast
qed

end
