(* ===== verification/Embedding.thy ===== *)
theory Embedding
  imports Components
begin

text \<open>
  A section of a page is a component with a state and controls of its own. \<open>embed\<close> puts its view into the page's, renaming what its
  controls do; \<open>attrs\<close> collects the values an attribute has in a view, for statements about links and their targets.
\<close>

subsection \<open>A view inside another\<close>

definition embed :: "('a \<Rightarrow> 'b) \<Rightarrow> 'a view \<Rightarrow> 'b view" where
  "embed f v = map_sum id (map_jsx f) v"

lemma renders_embed [simp, view_simps]: "renders (embed f v) = renders v"
  by (cases v) (simp_all add: embed_def renders_def)

lemma fires_map: "fires x (map_jsx f n) = map f (fires x n)"
proof (induction n)
  case (El t ps hs cs)
  have "concat (map (fires x) (map (map_jsx f) cs)) = map f (concat (map (fires x) cs))"
    using El.IH by (induction cs) simp_all
  then show ?case by (simp add: split_def comp_def map_prod_def)
next
  case (Several ns)
  then have "concat (map (fires x) (map (map_jsx f) ns)) = map f (concat (map (fires x) ns))"
    by (induction ns) simp_all
  then show ?case by simp
qed simp

lemma acts_embed [simp]: "acts x (embed f v) = map f (acts x v)"
  by (cases v) (simp_all add: embed_def acts_def fires_map)

lemma confined_embed [view_simps]: "(\<And>a. f a \<in> A) \<Longrightarrow> confined A (embed f v)"
  by (auto simp: confined_def)

lemma acts_embed_unit: "confined {} v \<Longrightarrow> acts x (embed f v) = []"
  by (simp add: confined_empty)

subsection \<open>The values of an attribute\<close>

fun attributes :: "string \<Rightarrow> 'a jsx \<Rightarrow> js list" where
  "attributes k (El t ps hs cs) = map snd (filter (\<lambda>p. fst p = k) ps) @ concat (map (attributes k) cs)"
| "attributes k (Val v) = []"
| "attributes k (Several ns) = concat (map (attributes k) ns)"

definition attrs :: "string \<Rightarrow> 'a view \<Rightarrow> js list" where
  "attrs k v = (case v of Inl _ \<Rightarrow> [] | Inr n \<Rightarrow> attributes k n)"

fun given :: "string \<Rightarrow> (string \<times> (err + js)) list \<Rightarrow> js list" where
  "given k [] = []"
| "given k ((k', e) # ps) = (if k' = k then (case e of Inr v \<Rightarrow> [v] | Inl _ \<Rightarrow> []) else []) @ given k ps"

named_theorems attr_simps \<open>the attributes of views\<close>

lemma attrs_el [attr_simps]:
  assumes "renders (el t ps hs cs)"
  shows "attrs k (el t ps hs cs) = given k ps @ concat (map (attrs k) cs)"
proof -
  obtain ps' cs' where p: "mapE (\<lambda>(k, e). seqE e (\<lambda>v. Inr (k, v))) ps = Inr ps'" and c: "mapE (\<lambda>c. c) cs = Inr cs'"
    using assms by (auto simp: renders_def runs_iff el_def)
  from p have "map snd (filter (\<lambda>p. fst p = k) ps') = given k ps"
    by (induction ps arbitrary: ps') auto
  moreover have "map (attributes k) cs' = map (attrs k) cs"
    using mapE_list [OF c] by (induction rule: list_all2_induct) (simp_all add: attrs_def)
  ultimately show ?thesis by (simp add: attrs_def el_def p c)
qed

lemma attrs_node [attr_simps]: "renders (node t cs) \<Longrightarrow> attrs k (node t cs) = concat (map (attrs k) cs)"
  unfolding node_def by (simp add: attrs_el)

lemma attrs_leaves [simp]: "attrs k (icon t) = []" "attrs k (put v) = []" "attrs k (say s) = []"
  by (simp_all add: icon_def put_def say_def attrs_def el_def)

lemma attrs_each [attr_simps]: "renders (each xs f) \<Longrightarrow> attrs k (each xs f) = concat (map (\<lambda>y. attrs k (f y)) xs)"
proof -
  assume "renders (each xs f)"
  then obtain ns where n: "mapE f xs = Inr ns" by (auto simp: each_def renders_seqE)
  have "map (attributes k) ns = map (\<lambda>y. attrs k (f y)) xs"
    using mapE_list [OF n] by (induction rule: list_all2_induct) (simp_all add: attrs_def)
  then show ?thesis by (simp add: each_def n attrs_def)
qed

lemma attrs_each_i [attr_simps]:
  "renders (each_i xs f) \<Longrightarrow> attrs k (each_i xs f) = concat (map (\<lambda>(i, y). attrs k (f i y)) (index_from 0 xs))"
  using attrs_each [of "index_from 0 xs" "\<lambda>(i, y). f i y" k] by (simp add: each_def each_i_def split_def)

lemma attrs_show_when [simp]: "attrs k (show_when b v) = (if b then attrs k v else [])"
  by (simp add: show_when_def)

lemma attributes_map: "attributes k (map_jsx f n) = attributes k n"
proof (induction n)
  case (El t ps hs cs)
  then have "concat (map (attributes k) (map (map_jsx f) cs)) = concat (map (attributes k) cs)" by (induction cs) simp_all
  then show ?case by simp
next
  case (Several ns)
  then have "concat (map (attributes k) (map (map_jsx f) ns)) = concat (map (attributes k) ns)" by (induction ns) simp_all
  then show ?case by simp
qed simp

lemma attrs_embed [simp]: "attrs k (embed f v) = attrs k v"
  by (cases v) (simp_all add: embed_def attrs_def attributes_map)

lemma attrs_eval [simp]: "attrs k (eval e) = []"
  by (cases e) (simp_all add: eval_def put_def attrs_def)

lemma attrs_badge [simp]: "attrs ''href'' (BadgePulse v w) = []" "attrs ''id'' (BadgePulse v w) = []"
  unfolding BadgePulse_def by (auto simp: attr_simps view_simps split: option.split) (simp_all add: attrs_def)

lemma attrs_logo: "s \<in> fst ` set logo_sizes \<Longrightarrow> attrs ''href'' (ReviveLogo s b ''/'') = [Str ''/'']" "s \<in> fst ` set logo_sizes \<Longrightarrow> attrs ''id'' (ReviveLogo s b ''/'') = []"
  unfolding ReviveLogo_def Logo_def linked_def logo_content_def px_def by (auto simp: attr_simps view_simps logo_sizes_def split: option.split)

end
