(* ===== verification/ScrollParts.thy ===== *)
theory ScrollParts
  imports Embedding SyntheticDataset
begin

text \<open>
  \<open>components/ui/MotionScrollComponents.tsx\<close>: the sections of the landing page that depend on scrolling. The value a scroll position
  has under framer-motion's \<open>useTransform\<close> is the parameter \<open>tf\<close>, the spring of the progress bar the parameter \<open>scaleX\<close>. The carousel's
  arrows are a state of its own, kept in step with the position of its track by the scroll events.
\<close>

subsection \<open>Progress, spotlight and ribbons\<close>

type_synonym transform = "number list \<Rightarrow> number list \<Rightarrow> js"

definition ScrollProgressBar :: "js \<Rightarrow> 'a view" where
  "ScrollProgressBar scaleX =
    el ''motion.div'' [(''style.scaleX'', Inr scaleX)] [] []"

definition HeroSpotlight :: "'a view" where
  "HeroSpotlight =
    node ''div'' [
      node ''div'' [],
      node ''div'' [],
      el ''svg'' [(''viewBox'', Inr (Str ''0 0 3787 2842'')), (''xmlns'', Inr (Str ''http://www.w3.org/2000/svg''))] [] [
        el ''g'' [(''filter'', Inr (Str ''url(#spotlightFilter)''))] [] [
          el ''ellipse'' [
              (''cx'', Inr (Str ''1924.71'')),
              (''cy'', Inr (Str ''273.501'')),
              (''rx'', Inr (Str ''1924.71'')),
              (''ry'', Inr (Str ''273.501'')),
              (''transform'', Inr (Str ''matrix(-0.822377 -0.568943 -0.568943 0.822377 3631.88 2291.09)''))] [] []],
        node ''defs'' [
          el ''filter'' [
              (''id'', Inr (Str ''spotlightFilter'')),
              (''x'', Inr (Str ''0'')),
              (''y'', Inr (Str ''0'')),
              (''width'', Inr (Str ''3785'')),
              (''height'', Inr (Str ''2840'')),
              (''filterUnits'', Inr (Str ''userSpaceOnUse''))] [] [
            el ''feGaussianBlur'' [(''stdDeviation'', Inr (Str ''150''))] [] []]]]]"

definition marquee_first :: "js \<Rightarrow> 'a view" where
  "marquee_first k =
    el ''div'' [(''key'', Inr k)] [] [
      node ''span'' [say ''AUTONOMOUS RECOVERY''],
      node ''span'' [say [CHR 0xE2, CHR 0x9C, CHR 0xA6]],
      node ''span'' [say ''ML FRAUD DETECTION''],
      node ''span'' [say [CHR 0xE2, CHR 0x9C, CHR 0xA6]],
      node ''span'' [say ''DEEPSEEK-R1 AI''],
      node ''span'' [say [CHR 0xE2, CHR 0x9C, CHR 0xA6]],
      node ''span'' [say ''ZERO CHURN''],
      node ''span'' [say [CHR 0xE2, CHR 0x9C, CHR 0xA6]]]"

definition marquee_second :: "js \<Rightarrow> 'a view" where
  "marquee_second k =
    el ''div'' [(''key'', Inr k)] [] [
      node ''span'' [say ''68.4% CAPTURED''],
      node ''span'' [say [CHR 0xE2, CHR 0x9C, CHR 0xA6]],
      node ''span'' [say ''RANDOM FOREST RISK GUARD''],
      node ''span'' [say [CHR 0xE2, CHR 0x9C, CHR 0xA6]],
      node ''span'' [say ''ZERO-TOUCH RETRY''],
      node ''span'' [say [CHR 0xE2, CHR 0x9C, CHR 0xA6]],
      node ''span'' [say ''SHA-256 AUDITED''],
      node ''span'' [say [CHR 0xE2, CHR 0x9C, CHR 0xA6]]]"

definition KineticMarquee :: "'a view" where
  "KineticMarquee =
    node ''div'' [
      node ''div'' [each [js_int 1, js_int 2] marquee_first],
      node ''div'' [each [js_int 1, js_int 2] marquee_second]]"

subsection \<open>The stages\<close>

record stage_info =
  si_num :: string
  si_title :: string
  si_subtitle :: string
  si_tag :: string
  si_color :: string
  si_accentGradient :: string
  si_description :: string

definition stage_card :: "stage_info list \<Rightarrow> stage_info \<Rightarrow> nat \<Rightarrow> 'a view" where
  "stage_card stages stage idx =
    el ''motion.div'' [(''key'', Inr (Str (si_num stage)))] [] [
      el ''div'' [
          (''style.background'', Inr (Str (''radial-gradient(circle, '' @ si_color stage @ ''25 0%, transparent 70%)'')))]
        [] [],
      node ''div'' [
        node ''div'' [
          el ''span'' [
              (''style.background'', Inr (Str (si_color stage @ ''18''))),
              (''style.border'', Inr (Str (''1px solid '' @ si_color stage @ ''40''))),
              (''style.color'', Inr (Str (si_color stage)))] [] [
            put (Str (si_tag stage))],
          node ''div'' [
            node ''span'' [put (Str (si_num stage))],
            show_when (nless (nint (int idx)) (nsub (nint (int (length stages))) (nint 1))) (
              el ''div'' [(''style.color'', Inr (Str (si_color stage)))] [] [icon ''ArrowRight''])]],
        node ''h3'' [put (Str (si_title stage))],
        el ''div'' [(''style.background'', Inr (Str (si_accentGradient stage)))] [] [put (Str (si_subtitle stage))],
        node ''p'' [put (Str (si_description stage))]],
      node ''div'' [
        el ''div'' [
            (''style.background'', Inr (Str (si_accentGradient stage))),
            (''style.width'', Inr (Str (to_str (Num (nmul (ndiv (nadd (nint (int idx)) (nint 1)) (nint (int (length
                stages)))) (nint 100))) @ ''%'')))] [] []]]"

definition ScrollOrchestrator :: "stage_info list \<Rightarrow> 'a view" where
  "ScrollOrchestrator stages =
    node ''section'' [
      node ''div'' [
        node ''span'' [say ''6-Stage Orchestration Loop''],
        node ''h2'' [say ''Deterministic AI Recovery Pipeline''],
        node ''p'' [say ''Each stage executes autonomously with continuous cryptographic state reconciliation.'']],
      node ''div'' [each_i stages (\<lambda>idx stage. stage_card stages stage idx)]]"

subsection \<open>The carousel\<close>

record feature_card =
  fc_id :: string
  fc_num :: string
  fc_title :: string
  fc_desc :: string
  fc_gradient :: string
  fc_accent :: string
  fc_icon :: "string option"

record carousel =
  cr_scrollLeft :: rat
  cr_scrollWidth :: rat
  cr_clientWidth :: rat
  cr_canScrollLeft :: bool
  cr_canScrollRight :: bool

datatype carousel_action = Scroll_by int | Check_scroll

definition carousel_init :: "rat \<Rightarrow> rat \<Rightarrow> carousel" where
  "carousel_init scrollWidth clientWidth = \<lparr>cr_scrollLeft = 0, cr_scrollWidth = scrollWidth, cr_clientWidth = clientWidth,
     cr_canScrollLeft = False, cr_canScrollRight = True\<rparr>"

definition checkScroll :: "carousel \<Rightarrow> carousel" where
  \<comment> \<open>lengths in pixels, on which the arithmetic of doubles is exact\<close>
  "checkScroll p = p\<lparr>cr_canScrollLeft := cr_scrollLeft p > 10,
     cr_canScrollRight := cr_scrollLeft p < cr_scrollWidth p - cr_clientWidth p - 10\<rparr>"

definition scrolled_to :: "rat \<Rightarrow> carousel \<Rightarrow> carousel" where
  \<comment> \<open>the browser has moved the track, after \<open>scrollBy\<close> or by hand, and sends the event\<close>
  "scrolled_to position p = checkScroll (p\<lparr>cr_scrollLeft := position\<rparr>)"

definition carousel_controls :: "carousel \<Rightarrow> carousel_action view" where
  "carousel_controls p =
    node ''div'' [
      el ''button'' [
          (''type'', Inr (Str ''button'')),
          (''disabled'', Inr (Bool (\<not> cr_canScrollLeft p))),
          (''title'', Inr (Str ''Previous Cards'')),
          (''style.color'', Inr (Str (if cr_canScrollLeft p then ''var(--text-primary)'' else ''var(--text-muted)''))),
          (''style.cursor'', Inr (Str (if cr_canScrollLeft p then ''pointer'' else ''default''))),
          (''style.opacity'', Inr (Num (if cr_canScrollLeft p then nint 1 else lit 4 10)))]
        [(''onClick'', \<lambda>_. Scroll_by (- 340))] [
        icon ''ChevronLeft''],
      el ''button'' [
          (''type'', Inr (Str ''button'')),
          (''disabled'', Inr (Bool (\<not> cr_canScrollRight p))),
          (''title'', Inr (Str ''Next Cards'')),
          (''style.color'', Inr (Str (if cr_canScrollRight p then ''var(--text-primary)'' else ''var(--text-muted)''))),
          (''style.cursor'', Inr (Str (if cr_canScrollRight p then ''pointer'' else ''default''))),
          (''style.opacity'', Inr (Num (if cr_canScrollRight p then nint 1 else lit 4 10)))]
        [(''onClick'', \<lambda>_. Scroll_by 340)] [
        icon ''ChevronRight'']]"

definition carousel_card :: "feature_card \<Rightarrow> carousel_action view" where
  "carousel_card tile =
    el ''div'' [(''key'', Inr (Str (fc_id tile)))] [] [
      node ''div'' [put (Str (fc_num tile))],
      node ''div'' [
        node ''span'' [put (Str (fc_num tile))],
        case fc_icon tile of None \<Rightarrow> put Undef | Some picture \<Rightarrow> node ''div'' [icon picture]],
      node ''div'' [
        node ''h3'' [put (Str (fc_title tile))],
        node ''p'' [put (Str (fc_desc tile))],
        el ''div'' [(''style.background'', Inr (Str (fc_accent tile)))] [] []]]"

definition HorizontalScrollSection :: "carousel \<Rightarrow> feature_card list \<Rightarrow> string \<Rightarrow> string \<Rightarrow> carousel_action view" where
  "HorizontalScrollSection p cards heading subheading =
    node ''section'' [
      node ''div'' [
        node ''div'' [
          node ''span'' [say ''Capabilities & Architecture''],
          node ''h2'' [put (Str heading)],
          node ''p'' [put (Str subheading)]],
        carousel_controls p],
      el ''div'' [] [(''onScroll'', \<lambda>_. Check_scroll)] [each cards carousel_card]]"

subsection \<open>Words in step with scrolling\<close>

definition scrub_word :: "string \<Rightarrow> nat \<Rightarrow> js \<Rightarrow> 'a view" where
  "scrub_word word idx opacity =
    el ''motion.span'' [
        (''key'', Inr (Num (nint (int idx)))),
        (''style.opacity'', Inr opacity),
        (''style.color'', Inr (Str (if idx mod 4 = 0 then ''var(--color-pink)'' else (if idx mod 3 = 0 then
            ''var(--color-accent-light)'' else ''var(--text-primary)''))))] [] [
      put (Str word)]"

definition scrub_section :: "transform \<Rightarrow> string list \<Rightarrow> 'a view" where
  "scrub_section tf words =
    node ''section'' [
      node ''div'' [
        each_i words (\<lambda>idx word. let since = ndiv (nint (int idx)) (nint (int (length words))) in
            let till = ndiv (nadd (nint (int idx)) (nint 1)) (nint (int (length words))) in
              let opacity = tf [since, till] [lit 18 100, nint 1] in scrub_word word idx opacity)]]"

definition TextScrubReveal :: "transform \<Rightarrow> string \<Rightarrow> 'a view" where
  "TextScrubReveal tf words = scrub_section tf (split_char (CHR '' '') words)"

definition depth_section :: "js \<Rightarrow> js \<Rightarrow> js \<Rightarrow> 'a view" where
  "depth_section layer1Y layer2Y grow =
    node ''section'' [
      node ''div'' [
        el ''motion.div'' [(''style.y'', Inr layer1Y)] [] [node ''div'' [], node ''div'' []],
        el ''motion.div'' [(''style.y'', Inr layer2Y), (''style.scale'', Inr grow)] [] [
          node ''span'' [say ''Cryptographic Guarantee''],
          node ''h3'' [say ''Authoritative Ledger.'', node ''br'' [], node ''span'' [say ''Zero False Positives.'']],
          node ''p'' [
            say
                ''Every recovered transaction is cross-verified directly against gateway settlement webhooks before being permanently logged.'']]]]"

definition DepthParallaxSection :: "transform \<Rightarrow> 'a view" where
  "DepthParallaxSection tf = depth_section (tf [nint 0, nint 1] [nint (- 40), nint 40]) (tf [nint 0, nint 1] [nint 30, nint (- 30)])
     (tf [nint 0, lit 1 2, nint 1] [lit 97 100, lit 101 100, lit 97 100])"

subsection \<open>Rendering\<close>

lemma scroll_parts_render [simp, view_simps]:
  "renders (ScrollProgressBar v)" "renders HeroSpotlight" "renders KineticMarquee" "renders (ScrollOrchestrator stages)"
  "renders (TextScrubReveal tf words)" "renders (DepthParallaxSection tf)"
  unfolding ScrollProgressBar_def HeroSpotlight_def KineticMarquee_def marquee_first_def marquee_second_def ScrollOrchestrator_def
    stage_card_def TextScrubReveal_def scrub_section_def scrub_word_def DepthParallaxSection_def depth_section_def Let_def
  by (simp_all add: view_simps renders_each_i)

lemma scroll_parts_quiet:
  "confined {} (ScrollProgressBar v)" "confined {} HeroSpotlight" "confined {} KineticMarquee" "confined {} (TextScrubReveal tf words)"
  unfolding ScrollProgressBar_def HeroSpotlight_def KineticMarquee_def marquee_first_def marquee_second_def
    TextScrubReveal_def scrub_section_def scrub_word_def Let_def
  by (simp_all add: view_simps)

lemma carousel_renders [simp, view_simps]: "renders (carousel_controls p)" "renders (carousel_card tile)"
  "renders (HorizontalScrollSection p cards heading subheading)"
  unfolding HorizontalScrollSection_def carousel_controls_def carousel_card_def
  by (simp_all add: view_simps list_all_iff split: option.split)

lemma carousel_acts:
  "acts x (HorizontalScrollSection p cards heading subheading) =
    (if cr_canScrollLeft p then [Scroll_by (- 340)] else []) @ (if cr_canScrollRight p then [Scroll_by 340] else []) @ [Check_scroll]"
proof -
  have c: "acts x (carousel_card tile) = []" for tile
    by (rule confined_empty, simp add: carousel_card_def view_simps split: option.split)
  have b: "acts x (carousel_controls p) = (if cr_canScrollLeft p then [Scroll_by (- 340)] else []) @ (if cr_canScrollRight p then [Scroll_by 340] else [])"
    using carousel_renders(1) [of p] unfolding carousel_controls_def by (simp add: acts_node_eq acts_el_eq view_simps)
  show ?thesis
    using carousel_renders(3) [of p cards heading subheading] unfolding HorizontalScrollSection_def
    by (simp add: acts_node_eq acts_el_eq acts_each view_simps list_all_iff b c)
qed

lemma scrub_words: "join '' '' (split_char (CHR '' '') words) = words"
  by simp

subsection \<open>The arrows\<close>

inductive carousel_reach :: "rat \<Rightarrow> rat \<Rightarrow> carousel \<Rightarrow> bool" for scrollWidth clientWidth where
  start: "carousel_reach scrollWidth clientWidth (carousel_init scrollWidth clientWidth)"
| move: "\<lbrakk>carousel_reach scrollWidth clientWidth p; 0 \<le> position; position \<le> scrollWidth - clientWidth\<rbrakk>
    \<Longrightarrow> carousel_reach scrollWidth clientWidth (scrolled_to position p)"

definition track_width :: "nat \<Rightarrow> rat \<Rightarrow> rat" where
  \<comment> \<open>cards of one width with 20 pixels between them\<close>
  "track_width n card_width = of_nat n * card_width + (of_nat n - 1) * 20"

lemma carousel_flags:
  assumes "carousel_reach w c p" and "w - c > 10"
  shows "cr_canScrollLeft p \<longleftrightarrow> cr_scrollLeft p > 10" and "cr_canScrollRight p \<longleftrightarrow> cr_scrollLeft p < w - c - 10"
    and "cr_scrollWidth p = w" and "cr_clientWidth p = c" and "0 \<le> cr_scrollLeft p" and "cr_scrollLeft p \<le> w - c"
  using assms by (induction rule: carousel_reach.induct) (auto simp: carousel_init_def scrolled_to_def checkScroll_def)

text \<open>
  The arrows of the carousel say where it can be moved. With six cards or more, each at least 270 pixels wide, in a section of at most
  1280, wherever the visitor has scrolled, the left arrow is enabled exactly when the track stands more than 10 pixels from its left
  end, the right one exactly when it stands more than 10 pixels from its right end, and at least one of them always is.
\<close>

theorem carousel_arrows:
  assumes "carousel_reach (track_width (length cards) w) c p" and "6 \<le> length cards" and "270 \<le> w" and "c \<le> 1280"
  shows "(Scroll_by (- 340) \<in> set (acts x (HorizontalScrollSection p cards heading subheading)) \<longleftrightarrow> 10 < cr_scrollLeft p)
    \<and> (Scroll_by 340 \<in> set (acts x (HorizontalScrollSection p cards heading subheading))
        \<longleftrightarrow> 10 < track_width (length cards) w - c - cr_scrollLeft p)
    \<and> (10 < cr_scrollLeft p \<or> 10 < track_width (length cards) w - c - cr_scrollLeft p)"
proof -
  have "6 * 270 \<le> of_nat (length cards) * w"
    using assms(2,3) by (intro mult_mono) simp_all
  moreover have "(6::rat) \<le> of_nat (length cards)" using assms(2) by simp
  ultimately have "10 + 10 < track_width (length cards) w - c" using assms(4) by (simp add: track_width_def)
  with carousel_flags [OF assms(1)] show ?thesis by (auto simp: carousel_acts split: if_splits)
qed

definition plain_card :: feature_card where
  "plain_card = \<lparr>fc_id = ''h1'', fc_num = ''01'', fc_title = ''A'', fc_desc = ''B'', fc_gradient = [], fc_accent = ''#fff'', fc_icon = None\<rparr>"

theorem carousel_arrows_witness:
  "Scroll_by 340 \<in> set (acts Undef (HorizontalScrollSection (carousel_init (track_width 6 300) 1200) (replicate 6 plain_card) [] []))"
proof -
  have r: "carousel_reach (track_width (length (replicate 6 plain_card)) 300) 1200 (carousel_init (track_width 6 300) 1200)"
    using carousel_reach.start by simp
  show ?thesis using carousel_arrows [OF r, of Undef "[]" "[]"] by (simp add: carousel_init_def track_width_def)
qed

end
