(* ===== verification/HeroSections.thy ===== *)
theory HeroSections
  imports ScrollParts
begin

text \<open>
  The two sections of the landing page that stand over a drawn background, \<open>components/ui/LightStreakHero.tsx\<close> and
  \<open>ParticleMorphingSection.tsx\<close>: their texts, links and the styles that follow the scroll position.
\<close>

subsection \<open>The first screen\<close>

definition hero_words :: "'a view" where
  "hero_words =
    node ''motion.div'' [
      node ''div'' [
        icon ''Sparkles'',
        node ''span'' [
          say (''AUTONOMOUS AI PAYMENT RECOVERY '' @ [CHR 0xE2, CHR 0x80, CHR 0xA2] @ '' ML FRAUD DETECTION '' @ [CHR 0xE2,
              CHR 0x80, CHR 0xA2] @ '' 68.4% CAPTURE RATE'')]],
      node ''h1'' [say ''Turn Failed Payments into'', node ''br'' [], node ''span'' [say ''Captured Revenue.'']],
      node ''p'' [
        say
            ''ReviveOS eliminates involuntary churn with real-time DeepSeek-R1 intelligence and ML fraud detection. Predict recoverability, block high-risk fraud, score expected loss, and execute zero-touch retries autonomously.''],
      node ''div'' [
        el ''a'' [(''href'', Inr (Str ''#simulator''))] [] [node ''button'' [icon ''Play'', say '' Test Live Simulator'']],
        el ''Link'' [(''href'', Inr (Str ''/login''))] [] [node ''span'' [say ''Explore Portals '', icon ''ArrowRight'']]]]"

definition revenue_card :: "'a view" where
  "revenue_card =
    node ''div'' [
      node ''div'' [
        node ''div'' [icon ''TrendingUp'', node ''span'' [say ''Recovered Revenue'']],
        node ''span'' [say [CHR 0xE2, CHR 0x80, CHR 0xA2, CHR 0xE2, CHR 0x80, CHR 0xA2, CHR 0xE2, CHR 0x80, CHR 0xA2]]],
      node ''div'' [
        node ''span'' [say ([CHR 0xE2, CHR 0x82, CHR 0xB9] @ ''18,62,900'')],
        node ''span'' [say ''Last 30 days'']],
      node ''div'' [node ''div'' [say ''+68.4%''], node ''span'' [say ''Net autonomous capture'']],
      node ''div'' [node ''span'' [say ''Zero-Touch Autopay''], node ''span'' [say ''99.2% Settle'']],
      node ''div'' [
        node ''span'' [icon ''ShieldCheck'', node ''span'' [say ''ML Fraud Guard'']],
        node ''span'' [say (''0.04% Low Risk '' @ [CHR 0xC2, CHR 0xB7] @ '' Protected'')]]]"

definition hero_bar :: "'a view" where
  "hero_bar =
    node ''div'' [
      node ''div'' [node ''span'' [say ''SCROLL''], node ''span'' [say [CHR 0xE2, CHR 0x86, CHR 0x93]]],
      node ''div'' [
        node ''span'' [say ''Trusted by 50+ payment switches & SaaS''],
        node ''div'' [icon ''ShieldCheck'', node ''span'' [say ''PCI-DSS & ML Fraud Guard Ready'']]]]"

definition LightStreakHero :: "'a view" where
  "LightStreakHero =
    node ''section'' [
      node ''canvas'' [],
      node ''div'' [],
      node ''div'' [hero_words, node ''motion.div'' [revenue_card]],
      hero_bar]"

subsection \<open>The particle section\<close>

definition particle_header :: "'a view" where
  "particle_header =
    node ''div'' [
      node ''div'' [node ''div'' [], node ''span'' [say ''CRYPTOGRAPHIC LATTICE: ONLINE'']],
      node ''div'' [
        node ''span'' [say ''COHERENCE: '', put (Str ''99.98%'')],
        node ''span'' [say ''|''],
        node ''span'' [say ''LEAKAGE: 0.00%'']]]"

definition telemetry_chips :: "'a view" where
  "telemetry_chips =
    node ''div'' [
      node ''div'' [icon ''ShieldCheck'', node ''span'' [say ''SHA-256 LEDGER HASHED'']],
      node ''div'' [icon ''Cpu'', node ''span'' [say ''2,800 TOPOLOGY NODES'']],
      node ''div'' [icon ''Activity'', node ''span'' [say ''ZERO INVOLUNTARY CHURN'']]]"

definition particle_words :: "js \<Rightarrow> js \<Rightarrow> 'a view" where
  "particle_words textY textOpacity =
    el ''motion.div'' [(''style.y'', Inr textY), (''style.opacity'', Inr textOpacity)] [] [
      node ''div'' [icon ''Sparkles'', node ''span'' [say ''3D Generative Recovery Topology'']],
      node ''h2'' [say ''Zero Leaked Revenue.'', node ''br'' [], node ''span'' [say ''100% Mathematically Traceable.'']],
      node ''p'' [
        say
            ''Every recovered rupee is sealed inside an immutable SHA-256 block-chained audit ledger. Real-time issuing bank webhook signatures guarantee zero transaction drift.''],
      telemetry_chips]"

definition particle_footer :: "'a view" where
  "particle_footer =
    node ''div'' [
      node ''div'' [
        node ''span'' [say [CHR 0xE2, CHR 0x9C, CHR 0xA6]],
        node ''span'' [say ''DRAG MOUSE TO ROTATE 3D LATTICE TOPOLOGY'']],
      node ''div'' [
        node ''span'' [say ''AUTONOMOUS CONVERGENCE''],
        node ''span'' [say ([CHR 0xE2, CHR 0x97, CHR 0x8F] @ '' 60 FPS GPU PIPELINE'')]]]"

definition particle_section :: "js \<Rightarrow> js \<Rightarrow> js \<Rightarrow> 'a view" where
  "particle_section textY textOpacity scaleProgress =
    node ''section'' [
      el ''motion.div'' [(''style.scale'', Inr scaleProgress)] [] [
        node ''canvas'' [],
        particle_header,
        particle_words textY textOpacity,
        particle_footer]]"

definition ParticleMorphingSection :: "transform \<Rightarrow> 'a view" where
  "ParticleMorphingSection tf = particle_section
     (tf [nint 0, lit 1 2, nint 1] [nint 40, nint 0, nint (- 40)])
     (tf [lit 1 10, lit 45 100, lit 85 100, nint 1] [lit 3 10, nint 1, nint 1, lit 4 10])
     (tf [nint 0, lit 1 2, nint 1] [lit 95 100, lit 102 100, lit 96 100])"

subsection \<open>Lemmas\<close>

lemmas hero_defs = LightStreakHero_def hero_words_def revenue_card_def hero_bar_def ParticleMorphingSection_def particle_section_def
  particle_header_def particle_words_def telemetry_chips_def particle_footer_def

lemma hero_renders [simp, view_simps]: "renders LightStreakHero" "renders (ParticleMorphingSection tf)"
  unfolding hero_defs by (simp_all add: view_simps)

lemma hero_acts [simp]: "acts x LightStreakHero = []" "acts x (ParticleMorphingSection tf) = []"
  by (rule confined_empty, simp add: hero_defs view_simps)+

end
