(* ===== verification/ShellView.thy ===== *)
theory ShellView
  imports ConsoleShell Components
begin

text \<open>
  What \<open>components/layout\<close> and \<open>ThemeToggle.tsx\<close> render around a page: the side bar with its links, the session and the
  button to sign out, the header with the health of the backend, the layout that puts a page between them, and the document around it.
\<close>

datatype shell_action = Sign_out | Sync_health | Pick_theme string

subsection \<open>The theme\<close>

definition theme_button :: "string \<Rightarrow> string \<Rightarrow> string \<Rightarrow> string \<Rightarrow> bool \<Rightarrow> theme_toggle \<Rightarrow> shell_action view" where
  \<comment> \<open>one of the three buttons\<close>
  "theme_button mode title picture label showLabels t =
    el ''button'' [
        (''type'', Inr (Str ''button'')),
        (''title'', Inr (Str title)),
        (''style.padding'', Inr (Str (if showLabels then ''4px 10px'' else ''5px''))),
        (''style.background'', Inr (Str (if currentTheme t = mode then ''linear-gradient(135deg, #8b5cf6, #ec4899)'' else ''transparent''))),
        (''style.color'', Inr (Str (if currentTheme t = mode then ''#ffffff'' else ''var(--text-muted)'')))]
      [(''onClick'', \<lambda>_. Pick_theme mode)] [
      icon picture,
      show_when showLabels (node ''span'' [say label])]"

definition ThemeToggle :: "bool \<Rightarrow> theme_toggle \<Rightarrow> shell_action view" where
  "ThemeToggle showLabels t =
    node ''div'' [
      theme_button ''light'' ''Light Mode'' ''Sun'' ''Light'' showLabels t,
      theme_button ''dark'' ''Dark Mode'' ''Moon'' ''Dark'' showLabels t,
      theme_button ''system'' ''System Auto Mode'' ''Monitor'' ''System'' showLabels t]"

definition FloatingThemeToggle :: "theme_toggle \<Rightarrow> unit view" where
  "FloatingThemeToggle t =
    el ''button'' [
        (''type'', Inr (Str ''button'')),
        (''title'', Inr (Str (''Theme: '' @ to_upper (currentTheme t) @ '' (Click to toggle)'')))]
      [(''onClick'', \<lambda>_. ())] [
      show_when (currentTheme t = ''light'') (icon ''Sun''),
      show_when (currentTheme t = ''dark'') (icon ''Moon''),
      show_when (currentTheme t = ''system'') (icon ''Monitor''),
      node ''span'' [put (Str (currentTheme t)), say '' Mode'']]"

subsection \<open>The side bar\<close>

definition nav_icon :: "string \<Rightarrow> string" where
  "nav_icon href = (case map_of [
     (''/analytics'', ''BarChart3''), (''/workflows'', ''GitBranch''), (''/receivables'', ''Building2''), (''/voice-recovery'', ''Zap''),
     (''/ptp-tracker'', ''ShieldCheck''), (''/checkout-recovery'', ''LayoutDashboard''), (''/merchant'', ''Users''),
     (''/developer'', ''Terminal''), (''/docs'', ''BookOpen''), (''/system'', ''Server'')] href of Some i \<Rightarrow> i | None \<Rightarrow> [])"

definition nav_link :: "string \<Rightarrow> string \<Rightarrow> string \<Rightarrow> shell_action view" where
  "nav_link pathname label href =
    el ''Link'' [
        (''key'', Inr (Str href)),
        (''href'', Inr (Str href)),
        (''className'', Inr (Str (''nav-item '' @ (if nav_active pathname href then ''active'' else []))))] [] [
      icon (nav_icon href),
      node ''span'' [say label]]"

definition session_view :: "js \<Rightarrow> shell_action view" where
  "session_view user =
    node ''div'' [
      if truthy user
      then node ''div'' [
        node ''div'' [
          node ''div'' [icon ''User''],
          node ''div'' [
            node ''div'' [put (member user ''email'')],
            node ''div'' [put (member user ''role'')]]],
        el ''button'' [(''title'', Inr (Str ''Sign Out''))] [(''onClick'', \<lambda>_. Sign_out)] [icon ''LogOut'']]
      else el ''Link'' [(''href'', Inr (Str ''/login''))] [] [
        icon ''LogIn'',
        node ''span'' [say ''Sign In / Switch Role'']]]"

definition Sidebar :: "string \<Rightarrow> sidebar \<Rightarrow> theme_toggle \<Rightarrow> shell_action view" where
  "Sidebar pathname b t =
    node ''aside'' [
      node ''div'' [ReviveLogo ''md'' False ''/analytics''],
      node ''nav'' [
        node ''div'' [say ''MAIN CONSOLE''],
        each navItems (\<lambda>(label, href). nav_link pathname label href)],
      node ''div'' [node ''span'' [say ''THEME''], ThemeToggle False t],
      session_view (sb_currentUser b)]"

subsection \<open>The header and the layout\<close>

definition Header :: "js \<Rightarrow> header \<Rightarrow> theme_toggle \<Rightarrow> shell_action view" where
  "Header title h t =
    node ''header'' [
      node ''div'' [put (orv title (Str ''ReviveOS Operations''))],
      node ''div'' [
        ThemeToggle False t,
        node ''div'' [
          el ''Activity'' [(''color'', Inr (Str (statusColor (hd_status h))))] [] [],
          el ''span'' [(''style.color'', Inr (Str (statusColor (hd_status h))))] [] [put (hd_status h)]],
        el ''button'' [(''title'', Inr (Str ''Refresh system status''))] [(''onClick'', \<lambda>_. Sync_health)] [
          el ''RefreshCw'' [(''className'', Inr (Str (if hd_loading h then ''spinning'' else [])))] [] [],
          say ''Sync'']]]"

definition AppLayout :: "string \<Rightarrow> 'a view \<Rightarrow> 'a view \<Rightarrow> 'a view \<Rightarrow> 'a view" where
  \<comment> \<open>the side bar and the header are those of the current path\<close>
  "AppLayout pathname side bar body =
    (if isStandalone pathname then node ''main'' [body]
     else node ''div'' [side, node ''div'' [bar, node ''main'' [body]]])"

subsection \<open>The document\<close>

definition metadata :: "(string \<times> string) list" where
  \<comment> \<open>the title and the description of every page\<close>
  "metadata = [
     (''title'', ''ReviveOS '' @ [CHR 0xE2, CHR 0x80, CHR 0x94] @ '' Autonomous AI Payment Recovery & Recurring Autopay Engine''),
     (''description'', ''Diagnose, orchestrate, and recover failed recurring payments and checkout declines with DeepSeek-R1 intelligence and zero-touch retry orchestration.'')]"

definition document_classes :: "string set" where
  \<comment> \<open>the classes the document starts with\<close>
  "document_classes = {''dark''}"

definition RootLayout :: "string \<Rightarrow> 'a view \<Rightarrow> 'a view \<Rightarrow> 'a view \<Rightarrow> 'a view" where
  "RootLayout pathname side bar children' =
    el ''html'' [(''lang'', Inr (Str ''en'')), (''className'', Inr (Str ''dark''))] [] [
      node ''head'' [
        el ''link'' [(''rel'', Inr (Str ''preconnect'')), (''href'', Inr (Str ''https://fonts.googleapis.com''))] [] [],
        el ''link'' [(''rel'', Inr (Str ''preconnect'')), (''href'', Inr (Str ''https://fonts.gstatic.com'')),
          (''crossOrigin'', Inr (Str ''anonymous''))] [] []],
      node ''body'' [AppLayout pathname side bar children']]"

subsection \<open>Lemmas\<close>

lemma theme_renders [simp, view_simps]: "renders (ThemeToggle l t)" "renders (FloatingThemeToggle t)"
  unfolding ThemeToggle_def theme_button_def FloatingThemeToggle_def by (simp_all add: view_simps)

lemma sidebar_renders: "renders (Sidebar pathname b t)"
  unfolding Sidebar_def session_view_def nav_link_def by (simp add: view_simps list_all_iff split_def)

lemma header_renders_always: "renders (Header title h t)"
  unfolding Header_def by (simp add: view_simps)

lemma layout_renders: "renders side \<Longrightarrow> renders bar \<Longrightarrow> renders (AppLayout path side bar v) = renders v"
  unfolding AppLayout_def by (simp add: view_simps)

lemma root_renders: "renders side \<Longrightarrow> renders bar \<Longrightarrow> renders (RootLayout path side bar v) = renders v"
  unfolding RootLayout_def by (simp add: view_simps layout_renders)

lemma document_theme:
  \<comment> \<open>from the first page on the document has exactly one of the two themes\<close>
  "(''light'' \<in> document_classes) \<noteq> (''dark'' \<in> document_classes)"
  "(''light'' \<in> applyTheme systemDark mode document_classes) \<noteq> (''dark'' \<in> applyTheme systemDark mode document_classes)"
  by (auto simp: document_classes_def applyTheme_def put_theme_def)

lemma theme_acts: "acts x (ThemeToggle l t) = [Pick_theme ''light'', Pick_theme ''dark'', Pick_theme ''system'']"
  unfolding ThemeToggle_def theme_button_def by (cases l) (simp_all add: acts_node_eq acts_el_eq view_simps)

lemma sign_out_offered:
  \<comment> \<open>the button to sign out is there exactly when somebody is shown as signed in\<close>
  "Sign_out \<in> set (acts x (Sidebar pathname b t)) \<longleftrightarrow> session_badge b \<noteq> None"
proof -
  have n: "acts x (each navItems (\<lambda>(label, href). nav_link pathname label href)) = []"
    unfolding nav_link_def by (simp add: acts_each acts_el_eq acts_node_eq view_simps split_def list_all_iff)
  have s: "acts x (session_view u) = (if truthy u then [Sign_out] else [])" for u
    unfolding session_view_def by (simp add: acts_node_eq acts_el_eq view_simps)
  have "acts x (Sidebar pathname b t) = [Pick_theme ''light'', Pick_theme ''dark'', Pick_theme ''system'']
      @ (if truthy (sb_currentUser b) then [Sign_out] else [])"
    using sidebar_renders [of pathname b t] unfolding Sidebar_def
    by (simp add: acts_node_eq view_simps n s theme_acts)
  then show ?thesis by (simp add: session_badge_def)
qed

end
