(* ===== verification/LandingView.thy ===== *)
theory LandingView
  imports LandingPage PipelineDiagram DeveloperSection HeroSections ShellView
begin

text \<open>
  The whole landing page (\<open>apps/web/src/app/page.tsx\<close>): what it renders around the simulator and the calculator of \<open>LandingPage\<close>, its
  sections with states of their own, and a step relation of clicks on what is on the screen, timers, answers and scrolling. The steps
  of the simulator are those of \<open>LandingPage\<close>, so its properties hold of the page a visitor uses.
\<close>

subsection \<open>Texts\<close>

definition pipelineStages :: "stage_info list" where
  "pipelineStages = [
     \<lparr>si_num = ''01'', si_title = ''Deterministic Gateway Classifier'', si_subtitle = ''Failure Taxonomy Engine'',
       si_tag = ''Classification'', si_color = ''#38bdf8'', si_accentGradient = ''linear-gradient(90deg, #38bdf8, #818cf8)'',
       si_description = ''Instant deterministic taxonomy mapping of raw gateway decline codes into actionable operational categories.''\<rparr>,
     \<lparr>si_num = ''02'', si_title = ''Revenue Risk & ML Fraud Guard'', si_subtitle = ''Random Forest & Gradient Boosting'',
       si_tag = ''Risk Protection'', si_color = ''#f59e0b'', si_accentGradient = ''linear-gradient(90deg, #f59e0b, #ef4444)'',
       si_description = ''Dual-model AI engine evaluates transaction anomaly scores, return risk, and expected financial loss to prevent fraud leakage.''\<rparr>,
     \<lparr>si_num = ''03'', si_title = ''Recovery Probability Model'', si_subtitle = ''Logistic Calibration Engine'',
       si_tag = ''Prediction'', si_color = ''#c084fc'', si_accentGradient = ''linear-gradient(90deg, #c084fc, #ec4899)'',
       si_description = ''Statistical machine learning model calculates exact recoverability probability calibrated against historical outcomes.''\<rparr>,
     \<lparr>si_num = ''04'', si_title = ''Contextual AI Reasoning'', si_subtitle = ''DeepSeek-R1 Strategy Engine'',
       si_tag = ''Strategy'', si_color = ''#ec4899'', si_accentGradient = ''linear-gradient(90deg, #ec4899, #f43f5e)'',
       si_description = ''Context-augmented LLM reasons over empirical recovery distributions to select optimal timing and highest-yield actions.''\<rparr>,
     \<lparr>si_num = ''05'', si_title = ''Policy Safety & Guardrails'', si_subtitle = ''Deterministic Safety Engine'',
       si_tag = ''Governance'', si_color = ''#10b981'', si_accentGradient = ''linear-gradient(90deg, #10b981, #06b6d4)'',
       si_description = ''Hard business rules enforce merchant velocity limits, customer communication opt-outs, and transaction ceilings.''\<rparr>,
     \<lparr>si_num = ''06'', si_title = ''Authoritative Verification'', si_subtitle = ''SHA-256 Cryptographic Audit Ledger'',
       si_tag = ''Verification'', si_color = ''#a855f7'', si_accentGradient = ''linear-gradient(90deg, #a855f7, #6366f1)'',
       si_description = ''Every recovered rupee is validated directly against gateway settlement webhooks and permanently recorded with cryptographic block hashing.''\<rparr>]"

definition horizontalCards :: "feature_card list" where
  "horizontalCards = [
     \<lparr>fc_id = ''h1'', fc_num = ''01'', fc_title = ''1-Command Razorpay Layer'',
       fc_desc = ''Plug AI payment recovery directly into your existing Razorpay setup with `npx reviveos init`. Normal payments never get proxied.'',
       fc_gradient = ''linear-gradient(135deg, #082436 0%, #03101c 100%)'', fc_accent = ''#38bdf8'', fc_icon = Some ''Zap''\<rparr>,
     \<lparr>fc_id = ''h2'', fc_num = ''02'', fc_title = ''ML Fraud & Revenue Risk Guard'',
       fc_desc = ''Random Forest and Gradient Boosting models evaluate fraud probability and return risk to block bad actors before retrying.'',
       fc_gradient = ''linear-gradient(135deg, #361a08 0%, #1a0b02 100%)'', fc_accent = ''#f59e0b'', fc_icon = Some ''ShieldCheck''\<rparr>,
     \<lparr>fc_id = ''h3'', fc_num = ''03'', fc_title = ''Zero-Touch Token Retries'',
       fc_desc = ''Recover failed subscriptions and recurring autopay automatically using stored RBI-compliant tokens on optimal bank switch timings.'',
       fc_gradient = ''linear-gradient(135deg, #1e0836 0%, #0c0418 100%)'', fc_accent = ''#c084fc'', fc_icon = Some ''RefreshCw''\<rparr>,
     \<lparr>fc_id = ''h4'', fc_num = ''04'', fc_title = ''Smart Fallback Links'',
       fc_desc = ''Generate direct 1-click payment links with custom branded checkout pages delivered straight via Resend email and WhatsApp.'',
       fc_gradient = ''linear-gradient(135deg, #36081e 0%, #1c030f 100%)'', fc_accent = ''#ec4899'', fc_icon = Some ''Mail''\<rparr>,
     \<lparr>fc_id = ''h5'', fc_num = ''05'', fc_title = ''Customer Recovery Memory'',
       fc_desc = ''Closed-loop calibration tracks customer-specific payment behavior, preferred methods, and historical recovery latency.'',
       fc_gradient = ''linear-gradient(135deg, #08361e 0%, #031a0e 100%)'', fc_accent = ''#10b981'', fc_icon = Some ''Cpu''\<rparr>,
     \<lparr>fc_id = ''h6'', fc_num = ''06'', fc_title = ''SHA-256 Audit Ledger'',
       fc_desc = ''Immutable cryptographic audit trail for complete financial compliance. Every state transition is hash-chained.'',
       fc_gradient = ''linear-gradient(135deg, #1a0836 0%, #0d031c 100%)'', fc_accent = ''#8b5cf6'', fc_icon = Some ''Lock''\<rparr>]"

definition nav_links :: "js list" where
  "nav_links = [
     Obj [(''label'', Str ''Pipeline''), (''href'', Str ''#pipeline'')],
     Obj [(''label'', Str ''Documentation''), (''href'', Str ''/docs'')],
     Obj [(''label'', Str ''Capabilities''), (''href'', Str ''#features'')],
     Obj [(''label'', Str ''Simulator''), (''href'', Str ''#simulator'')],
     Obj [(''label'', Str ''ROI Estimator''), (''href'', Str ''#calculator'')]]"

definition scrub_text :: string where
  "scrub_text = ''Every failed payment tells a story. The best payment platforms do not just log errors '' @ [CHR 0xE2, CHR 0x80, CHR
        0x94] @
        '' they orchestrate recovery with mathematical precision. Timing creates assurance. AI creates conversion. And the scroll becomes the narrative.''"

subsection \<open>Controls\<close>

datatype landing_action = Run_simulation | Choose_failure string | Set_amount js | Set_gmv js | Pick_stage nat | Snippet snippet_action
  | Carousel carousel_action | Menu_theme shell_action | Float_theme

record landing_site =
  ls_page :: landing_page
  ls_dial :: pipeline_diagram
  ls_snippets :: snippets
  ls_carousel :: carousel
  ls_menu :: theme_toggle
  ls_float :: theme_toggle

fun landing_do :: "bool \<Rightarrow> landing_action \<Rightarrow> landing_site \<Rightarrow> landing_site" where
  "landing_do sd Run_simulation s = s\<lparr>ls_page := start_simulation (ls_page s)\<rparr>"
| "landing_do sd (Choose_failure key) s = s\<lparr>ls_page := choose_error key (ls_page s)\<rparr>"
| "landing_do sd (Set_amount v) s = s\<lparr>ls_page := (ls_page s)\<lparr>ld_simAmount := to_num v\<rparr>\<rparr>"
| "landing_do sd (Set_gmv v) s = s\<lparr>ls_page := (ls_page s)\<lparr>ld_monthlyGMV := to_num v\<rparr>\<rparr>"
| "landing_do sd (Pick_stage idx) s = s\<lparr>ls_dial := choose_stage idx (ls_dial s)\<rparr>"
| "landing_do sd (Snippet a) s = s\<lparr>ls_snippets := snippet_do a (ls_snippets s)\<rparr>"
| "landing_do sd (Carousel (Scroll_by d)) s = s"
| "landing_do sd (Carousel Check_scroll) s = s\<lparr>ls_carousel := checkScroll (ls_carousel s)\<rparr>"
| "landing_do sd (Menu_theme (Pick_theme mode)) s = (let t = handleSelect sd mode (ls_menu s) in s\<lparr>ls_menu := t, ls_float := refreshed t (ls_float s)\<rparr>)"
| "landing_do sd (Menu_theme _) s = s"
| "landing_do sd Float_theme s = (let t = float_toggle sd (ls_float s) in s\<lparr>ls_float := t, ls_menu := refreshed t (ls_menu s)\<rparr>)"

subsection \<open>Markup\<close>

definition profile :: "string \<Rightarrow> err + failure_info" where
  \<comment> \<open>\<open>failureProfiles[key]\<close> when one of its properties is read\<close>
  "profile key = (case map_of failureProfiles key of None \<Rightarrow> Inl (type_error ''Cannot read properties of undefined'') | Some f \<Rightarrow> Inr f)"

definition landing_header :: "theme_toggle \<Rightarrow> landing_action view" where
  "landing_header t =
    node ''header'' [
      node ''div'' [
        ReviveLogo ''md'' False ''/'',
        node ''nav'' [
          each nav_links (\<lambda>item. el ''a'' [(''key'', get item ''href''), (''href'', get item ''href'')] [] [eval (get item ''label'')])],
        node ''div'' [
          embed Menu_theme (ThemeToggle False t),
          el ''Link'' [(''href'', Inr (Str ''/login''))] [] [node ''button'' [say ''Sign In '', icon ''ArrowRight'']]]]]"

definition failure_option :: "string \<Rightarrow> failure_info \<Rightarrow> bool \<Rightarrow> landing_action view" where
  "failure_option key item isSelected =
    el ''div'' [
        (''key'', Inr (Str key)),
        (''style.background'', Inr (Str (if isSelected then ''rgba(139, 92, 246, 0.15)'' else ''var(--bg-input)''))),
        (''style.border'', Inr (Str (''1px solid '' @ (if isSelected then ''#8b5cf6'' else ''var(--border-subtle)''))))]
      [(''onClick'', \<lambda>_. Choose_failure key)] [
      node ''div'' [
        el ''span'' [(''style.color'', Inr (Str (if isSelected then ''#c084fc'' else ''var(--text-primary)'')))] [] [
          put (Str (fi_title item))],
        el ''span'' [(''style.color'', Inr (Str (if isSelected then ''#c084fc'' else ''var(--text-muted)'')))] [] [
          put (Str key)]],
      node ''p'' [put (Str (fi_desc item))]]"

definition simulator_controls :: "locale_fns \<Rightarrow> landing_page \<Rightarrow> landing_action view" where
  "simulator_controls lc p =
    node ''div'' [
      node ''h3'' [icon ''Cpu'', say '' 1. Select Decline Scenario''],
      node ''div'' [
        each failureProfiles (\<lambda>(key, item). let isSelected = ld_selectedError p = key in failure_option key item isSelected)],
      node ''div'' [
        node ''div'' [
          node ''label'' [say ''Transaction Amount''],
          node ''span'' [say [CHR 0xE2, CHR 0x82, CHR 0xB9], put (Str (loc_number lc (ld_simAmount p)))]],
        el ''input'' [
            (''type'', Inr (Str ''range'')),
            (''min'', Inr (Str ''499'')),
            (''max'', Inr (Str ''19999'')),
            (''step'', Inr (Str ''500'')),
            (''value'', Inr (Num (ld_simAmount p)))] [(''onChange'', Set_amount)] []],
      el ''button'' [(''disabled'', Inr (Bool (ld_isSimulating p)))] [(''onClick'', \<lambda>_. Run_simulation)] [
        icon ''Sparkles'',
        put (Str (if ld_isSimulating p then ''Analyzing Transaction...'' else ''Run AI Recovery''))]]"

definition trace_diagnosis :: "landing_page \<Rightarrow> landing_action view" where
  "trace_diagnosis p =
    el ''div'' [(''style.opacity'', Inr (Num (if 1 \<le> ld_simStage p then nint 1 else lit 25 100)))] [] [
      el ''div'' [
          (''style.background'', Inr (Str (if 1 \<le> ld_simStage p then ''#38bdf8'' else ''var(--border-default)'')))] [] [
        say ''1''],
      node ''div'' [
        node ''div'' [say ''Diagnose Failure Taxonomy''],
        node ''div'' [say ''Mapped to: '', node ''span'' [put (Str (ld_selectedError p))]]]]"

definition trace_probability :: "landing_page \<Rightarrow> landing_action view" where
  "trace_probability p =
    el ''div'' [(''style.opacity'', Inr (Num (if 2 \<le> ld_simStage p then nint 1 else lit 25 100)))] [] [
      el ''div'' [
          (''style.background'', Inr (Str (if 2 \<le> ld_simStage p then ''#c084fc'' else ''var(--border-default)'')))] [] [
        say ''2''],
      node ''div'' [
        node ''div'' [say ''Probability Prediction''],
        node ''div'' [
          say ''Chance: '',
          node ''span'' [eval (seqE (profile (ld_selectedError p)) (\<lambda>f. Inr (Str (fi_prob f))))]]]]"

definition trace_decision :: "landing_page \<Rightarrow> landing_action view" where
  "trace_decision p =
    el ''div'' [(''style.opacity'', Inr (Num (if 3 \<le> ld_simStage p then nint 1 else lit 25 100)))] [] [
      el ''div'' [
          (''style.background'', Inr (Str (if 3 \<le> ld_simStage p then ''#ec4899'' else ''var(--border-default)'')))] [] [
        say ''3''],
      node ''div'' [
        node ''div'' [say ''DeepSeek-R1 Decision''],
        node ''div'' [
          say ''Action: '',
          node ''span'' [eval (seqE (profile (ld_selectedError p)) (\<lambda>f. Inr (Str (fi_action f))))]]]]"

definition trace_execution :: "landing_page \<Rightarrow> landing_action view" where
  "trace_execution p =
    el ''div'' [(''style.opacity'', Inr (Num (if 4 \<le> ld_simStage p then nint 1 else lit 25 100)))] [] [
      el ''div'' [
          (''style.background'', Inr (Str (if 4 \<le> ld_simStage p then ''#f59e0b'' else ''var(--border-default)'')))] [] [
        say ''4''],
      node ''div'' [
        node ''div'' [say ''Autonomous Execution''],
        node ''div'' [eval (seqE (profile (ld_selectedError p)) (\<lambda>f. Inr (Str (fi_strategy f))))]]]"

definition trace_verification :: "locale_fns \<Rightarrow> landing_page \<Rightarrow> landing_action view" where
  "trace_verification lc p =
    el ''div'' [(''style.opacity'', Inr (Num (if 5 \<le> ld_simStage p then nint 1 else lit 25 100)))] [] [
      el ''div'' [
          (''style.background'', Inr (Str (if 5 \<le> ld_simStage p then ''var(--color-emerald)'' else
              ''var(--border-default)'')))] [] [
        icon ''Check''],
      node ''div'' [
        el ''div'' [
            (''style.color'', Inr (Str (if 5 \<le> ld_simStage p then ''#10b981'' else ''var(--text-primary)'')))] [] [
          say ''Provider Verification''],
        node ''div'' [
          say ''Status: '',
          node ''span'' [
            say (''CAPTURED ('' @ [CHR 0xE2, CHR 0x82, CHR 0xB9]),
            put (Str (loc_number lc (ld_simAmount p))),
            say '')'']]]]"

definition simulation_trace :: "locale_fns \<Rightarrow> landing_page \<Rightarrow> landing_action view" where
  "simulation_trace lc p =
    node ''div'' [
      node ''div'' [
        node ''div'' [
          node ''span'' [say ''ORCHESTRATION TIMELINE''],
          BadgePulse (Str (if ld_simStage p = 5 then ''RECOVERED'' else if 0 < ld_simStage p then ''PROCESSING'' else ''IDLE''))
                (if ld_simStage p = 5 then ''success'' else if 0 < ld_simStage p then ''warning'' else ''info'')],
        node ''div'' [trace_diagnosis p, trace_probability p, trace_decision p, trace_execution p, trace_verification lc p]],
      show_when (ld_simStage p = 5) (
        node ''div'' [
          icon ''CheckCircle2'',
          node ''span'' [
            say [CHR 0xE2, CHR 0x82, CHR 0xB9],
            put (Str (loc_number lc (ld_simAmount p))),
            say '' recovered without customer friction.'']])]"

definition simulator_section :: "locale_fns \<Rightarrow> landing_page \<Rightarrow> landing_action view" where
  "simulator_section lc p =
    el ''section'' [(''id'', Inr (Str ''simulator''))] [] [
      node ''div'' [
        node ''div'' [
          BadgePulse (Str ''Live Interactive Demo'') ''info''],
        node ''h2'' [say ''Adaptive Recovery Engine''],
        node ''p'' [
          say ''Select a decline scenario and watch ReviveOS diagnose, predict, and execute recovery in real time.'']],
      node ''div'' [node ''div'' [simulator_controls lc p, simulation_trace lc p]]]"

definition calculator_section :: "locale_fns \<Rightarrow> landing_page \<Rightarrow> landing_action view" where
  "calculator_section lc p =
    el ''section'' [(''id'', Inr (Str ''calculator''))] [] [
      node ''div'' [
        node ''div'' [
          BadgePulse (Str ''Financial Yield Estimator'') ''success'',
          node ''h2'' [say ''How Much Revenue is Leaking?''],
          node ''p'' [say ''Calculate recurring revenue recapture with ReviveOS.'']],
        node ''div'' [
          node ''div'' [
            node ''label'' [say ''Monthly Payment Volume (GMV):''],
            node ''div'' [
              say [CHR 0xE2, CHR 0x82, CHR 0xB9],
              put (Str (loc_number lc (ld_monthlyGMV p))),
              say '' '',
              node ''span'' [say ''/ month'']],
            el ''input'' [
                (''type'', Inr (Str ''range'')),
                (''min'', Inr (Str ''500000'')),
                (''max'', Inr (Str ''50000000'')),
                (''step'', Inr (Str ''500000'')),
                (''value'', Inr (Num (ld_monthlyGMV p)))] [(''onChange'', Set_gmv)] [],
            node ''div'' [
              node ''span'' [say ([CHR 0xE2, CHR 0x82, CHR 0xB9] @ ''5 Lakhs'')],
              node ''span'' [say ([CHR 0xE2, CHR 0x82, CHR 0xB9] @ ''2.5 Crores'')],
              node ''span'' [say ([CHR 0xE2, CHR 0x82, CHR 0xB9] @ ''5 Crores'')]]],
          node ''div'' [
            node ''div'' [
              node ''div'' [say ''INVOLUNTARY CHURN (9%)''],
              node ''div'' [
                say (''-'' @ [CHR 0xE2, CHR 0x82, CHR 0xB9]),
                put (Str (loc_number lc (nround (lostRevenue (ld_monthlyGMV p))))),
                say '' '',
                node ''span'' [say ''/mo'']]],
            node ''div'' [
              node ''div'' [say ''RECOVERED BY REVIVEOS (68.4%)''],
              node ''div'' [
                say (''+'' @ [CHR 0xE2, CHR 0x82, CHR 0xB9]),
                put (Str (loc_number lc (nround (recoveredMonthly (ld_monthlyGMV p))))),
                say '' '',
                node ''span'' [say ''/month'']],
              node ''div'' [
                say ([CHR 0xE2, CHR 0x89, CHR 0x88] @ '' ''),
                node ''strong'' [
                  say (''+'' @ [CHR 0xE2, CHR 0x82, CHR 0xB9]),
                  put (Str (loc_number lc (nround (recoveredAnnual (ld_monthlyGMV p)))))],
                say '' in recovered annual revenue.'']]]]]]"

definition call_to_action :: "landing_action view" where
  "call_to_action =
    node ''section'' [
      node ''div'' [
        node ''h2'' [say ''Stop Losing 9% of Your Revenue''],
        node ''p'' [
          say
              ''Launch ReviveOS in less than 5 minutes. Connect your Razorpay or Stripe account and start recovering payments immediately.''],
        node ''div'' [
          el ''Link'' [(''href'', Inr (Str ''/login''))] [] [node ''button'' [say ''Launch ReviveOS '', icon ''ArrowRight'']]]]]"

definition landing_footer :: "landing_action view" where
  "landing_footer =
    node ''footer'' [
      node ''div'' [
        node ''div'' [
          ReviveLogo ''sm'' False ''/'',
          node ''span'' [say ([CHR 0xC2, CHR 0xA9] @ '' 2026 ReviveOS Platform. All rights reserved.'')]],
        node ''div'' [
          el ''Link'' [(''href'', Inr (Str ''/login''))] [] [say ''Merchant Sign In''],
          el ''Link'' [(''href'', Inr (Str ''/login''))] [] [say ''Admin Hub''],
          el ''a'' [
              (''href'', Inr (Str ''https://github.com/JATINCHULETT/ReviveOS'')),
              (''target'', Inr (Str ''_blank'')),
              (''rel'', Inr (Str ''noreferrer''))] [] [
            say ''GitHub '',
            icon ''ExternalLink'']]]]"

definition landing_view :: "locale_fns \<Rightarrow> trig \<Rightarrow> transform \<Rightarrow> js \<Rightarrow> landing_site \<Rightarrow> landing_action view" where
  "landing_view lc tg tf scaleX s =
    node ''div'' [
      ScrollProgressBar scaleX,
      HeroSpotlight,
      landing_header (ls_menu s),
      LightStreakHero,
      TextScrubReveal tf scrub_text,
      el ''div'' [(''id'', Inr (Str ''pipeline''))] [] [embed Pick_stage (pipeline_view tg (ls_dial s))],
      embed Snippet (developer_section (ls_snippets s)),
      KineticMarquee,
      el ''div'' [(''id'', Inr (Str ''features''))] [] [
        embed Carousel (HorizontalScrollSection (ls_carousel s) horizontalCards ''Built for Zero Involuntary Churn''
          ''Explore ReviveOS autonomous payment recovery and ML fraud protection infrastructure.'')],
      ParticleMorphingSection tf,
      simulator_section lc (ls_page s),
      calculator_section lc (ls_page s),
      call_to_action,
      landing_footer,
      embed (\<lambda>_. Float_theme) (FloatingThemeToggle (ls_float s))]"

subsection \<open>Rendering\<close>

lemmas trace_defs = trace_diagnosis_def trace_probability_def trace_decision_def trace_execution_def trace_verification_def simulation_trace_def

lemma profile_runs: "(\<exists>f. profile key = Inr f) \<longleftrightarrow> key \<in> fst ` set failureProfiles"
  using map_of_eq_None_iff [of failureProfiles key] by (auto simp: profile_def split: option.split)

lemma simulator_parts_render [simp, view_simps]: "renders (failure_option key item c)" "renders (simulator_controls lc p)"
  unfolding failure_option_def simulator_controls_def by (simp_all add: view_simps list_all_iff split_def Let_def failure_option_def)

lemma simulator_renders: "renders (simulator_section lc p) \<longleftrightarrow> ld_selectedError p \<in> fst ` set failureProfiles"
  unfolding simulator_section_def trace_defs profile_runs [symmetric]
  by (auto simp: view_simps runs_seqE)

lemma landing_parts_render [simp, view_simps]:
  "renders (landing_header t)" "renders (calculator_section lc p)" "renders call_to_action" "renders landing_footer"
  unfolding landing_header_def calculator_section_def call_to_action_def landing_footer_def
  by (simp_all add: view_simps list_all_iff nav_links_def get_def nullish_def)

definition landing_site_ok :: "landing_site \<Rightarrow> bool" where
  "landing_site_ok s \<longleftrightarrow> ld_selectedError (ls_page s) \<in> fst ` set failureProfiles \<and> pd_activeStage (ls_dial s) < 6"

lemma landing_renders: "landing_site_ok s \<Longrightarrow> renders (landing_view lc tg tf scaleX s)"
  unfolding landing_view_def landing_site_ok_def
  by (simp add: view_simps diagram_renders developer_section_renders simulator_renders)

subsection \<open>What the controls do\<close>

lemma simulator_acts:
  assumes "ld_selectedError p \<in> fst ` set failureProfiles"
  shows "acts x (simulator_section lc p) =
    map (Choose_failure \<circ> fst) failureProfiles @ [Set_amount x] @ (if ld_isSimulating p then [] else [Run_simulation])"
proof -
  have o: "acts x (failure_option key item c) = [Choose_failure key]" for key item c
    using simulator_parts_render(1) [of key item c] unfolding failure_option_def by (simp add: acts_node_eq acts_el_eq view_simps)
  have "renders (each failureProfiles (\<lambda>(key, item). let isSelected = ld_selectedError p = key in failure_option key item isSelected :: landing_action view))"
    by (simp add: view_simps list_all_iff split_def Let_def)
  then have c: "acts x (simulator_controls lc p) = map (Choose_failure \<circ> fst) failureProfiles @ [Set_amount x] @ (if ld_isSimulating p then [] else [Run_simulation])"
    using simulator_parts_render(2) [of lc p] unfolding simulator_controls_def
    by (simp add: acts_node_eq acts_el_eq acts_each view_simps o split_def Let_def comp_def concat_map_singleton)
  have t: "acts x (simulation_trace lc p) = []"
    by (rule confined_empty) (simp add: trace_defs view_simps)
  show ?thesis
    using assms [folded simulator_renders [of lc]] unfolding simulator_section_def
    by (simp add: acts_node_eq acts_el_eq view_simps c t)
qed

lemma landing_header_acts: "acts x (landing_header t) = map Menu_theme [Pick_theme ''light'', Pick_theme ''dark'', Pick_theme ''system'']"
proof -
  have "acts x (each nav_links (\<lambda>item. el ''a'' [(''key'', get item ''href''), (''href'', get item ''href'')] [] [eval (get item ''label'')])) = ([] :: landing_action list)"
    by (rule confined_empty) (simp add: view_simps)
  then show ?thesis
    using landing_parts_render(1) [of t] unfolding landing_header_def by (simp add: acts_node_eq acts_el_eq view_simps theme_acts)
qed

lemma float_acts: "acts x (FloatingThemeToggle t) = [()]"
  using theme_renders(2) [of t] unfolding FloatingThemeToggle_def by (simp add: acts_el_eq acts_node_eq view_simps)

lemma landing_acts:
  assumes "landing_site_ok s"
  shows "acts x (landing_view lc tg tf scaleX s) =
    map Menu_theme [Pick_theme ''light'', Pick_theme ''dark'', Pick_theme ''system''] @ map Pick_stage [0..<6]
    @ map Snippet (acts x (developer_section (ls_snippets s)))
    @ map Carousel (acts x (HorizontalScrollSection (ls_carousel s) horizontalCards ''Built for Zero Involuntary Churn''
        ''Explore ReviveOS autonomous payment recovery and ML fraud protection infrastructure.''))
    @ map (Choose_failure \<circ> fst) failureProfiles @ [Set_amount x] @ (if ld_isSimulating (ls_page s) then [] else [Run_simulation])
    @ [Set_gmv x, Float_theme]"
proof -
  have q: "acts x (ScrollProgressBar scaleX) = ([] :: landing_action list)" "acts x HeroSpotlight = ([] :: landing_action list)"
    "acts x KineticMarquee = ([] :: landing_action list)" "acts x (TextScrubReveal tf scrub_text) = ([] :: landing_action list)"
    by (rule confined_empty, rule scroll_parts_quiet)+
  have e: "acts x call_to_action = []" "acts x landing_footer = []"
    by (rule confined_empty, simp add: call_to_action_def landing_footer_def view_simps)+
  have c: "acts x (calculator_section lc (ls_page s)) = [Set_gmv x]"
    using landing_parts_render(2) [of lc "ls_page s"] unfolding calculator_section_def by (simp add: acts_node_eq acts_el_eq view_simps)
  have o: "ld_selectedError (ls_page s) \<in> fst ` set failureProfiles" "pd_activeStage (ls_dial s) < 6"
    using assms by (simp_all add: landing_site_ok_def)
  show ?thesis
    using landing_renders [OF assms, of lc tg tf scaleX] unfolding landing_view_def
    by (simp add: acts_node_eq acts_el_eq view_simps q e c landing_header_acts diagram_acts [OF o(2)] simulator_acts [OF o(1)]
      float_acts del: upt_rec_numeral)
qed

subsection \<open>Links and their targets\<close>

lemma dial_attrs: "pd_activeStage p < 6 \<Longrightarrow> attrs ''href'' (pipeline_view tg p) = []" "pd_activeStage p < 6 \<Longrightarrow> attrs ''id'' (pipeline_view tg p) = []"
  unfolding pipeline_view_def diagram_section_def diagram_header_def failure_streams_def dial_def dial_drawing_def stage_marker_def
    outcome_box_def stage_note_def Let_def
  by (simp_all add: view_simps attr_simps renders_each_i split_def)

lemma parts_attrs:
  "attrs ''href'' (ScrollProgressBar v) = []" "attrs ''id'' (ScrollProgressBar v) = []"
  "attrs ''href'' HeroSpotlight = []" "attrs ''id'' HeroSpotlight = [Str ''spotlightFilter'']"
  "attrs ''href'' KineticMarquee = []" "attrs ''id'' KineticMarquee = []"
  "attrs ''href'' (TextScrubReveal tf w) = []" "attrs ''id'' (TextScrubReveal tf w) = []"
  unfolding ScrollProgressBar_def HeroSpotlight_def KineticMarquee_def marquee_first_def marquee_second_def
    TextScrubReveal_def scrub_section_def scrub_word_def Let_def
  by (simp_all add: view_simps attr_simps renders_each_i split_def)

lemma hero_attrs:
  "attrs ''href'' LightStreakHero = [Str ''#simulator'', Str ''/login'']" "attrs ''id'' LightStreakHero = []"
  "attrs ''href'' (ParticleMorphingSection tf) = []" "attrs ''id'' (ParticleMorphingSection tf) = []"
  unfolding hero_defs by (simp_all add: view_simps attr_simps)

lemma carousel_attrs:
  "attrs ''href'' (HorizontalScrollSection p cards h s) = []" "attrs ''id'' (HorizontalScrollSection p cards h s) = []"
proof -
  have c: "attrs ''href'' (carousel_card t) = []" "attrs ''id'' (carousel_card t) = []" for t
    unfolding carousel_card_def by (simp_all add: view_simps attr_simps split: option.split)
  show "attrs ''href'' (HorizontalScrollSection p cards h s) = []" "attrs ''id'' (HorizontalScrollSection p cards h s) = []"
    unfolding HorizontalScrollSection_def carousel_controls_def by (simp_all add: view_simps attr_simps list_all_iff c)
qed

lemma section_attrs:
  "attrs ''href'' (developer_section p) = [Str ''/developer'', Str ''/developer'']" "attrs ''id'' (developer_section p) = [Str ''docs'']"
  unfolding developer_section_def section_heading_def install_step_def key_step_def webhook_step_def code_header_def code_tab_def code_footer_def
  by (simp_all add: view_simps attr_simps list_all_iff)

lemma float_attrs: "attrs ''href'' (FloatingThemeToggle t) = []" "attrs ''id'' (FloatingThemeToggle t) = []"
  "attrs ''href'' (ThemeToggle b t) = []" "attrs ''id'' (ThemeToggle b t) = []"
  unfolding FloatingThemeToggle_def ThemeToggle_def theme_button_def by (simp_all add: view_simps attr_simps)

lemma landing_attrs:
  "attrs ''href'' (landing_header t) = map Str [''/'', ''#pipeline'', ''/docs'', ''#features'', ''#simulator'', ''#calculator'', ''/login'']"
  "attrs ''id'' (landing_header t) = []"
  "attrs ''href'' call_to_action = [Str ''/login'']" "attrs ''id'' call_to_action = []"
  "attrs ''href'' landing_footer = map Str [''/'', ''/login'', ''/login'', ''https://github.com/JATINCHULETT/ReviveOS'']" "attrs ''id'' landing_footer = []"
  "attrs ''href'' (calculator_section lc p) = []" "attrs ''id'' (calculator_section lc p) = [Str ''calculator'']"
  unfolding landing_header_def call_to_action_def landing_footer_def calculator_section_def
  by (simp_all add: view_simps attr_simps float_attrs attrs_logo nav_links_def get_def nullish_def)

lemma simulator_attrs:
  assumes "ld_selectedError p \<in> fst ` set failureProfiles"
  shows "attrs ''href'' (simulator_section lc p) = []" "attrs ''id'' (simulator_section lc p) = [Str ''simulator'']"
proof -
  have o: "attrs ''href'' (failure_option key item c) = []" "attrs ''id'' (failure_option key item c) = []" for key item c
    unfolding failure_option_def by (simp_all add: view_simps attr_simps)
  have c: "attrs ''href'' (simulator_controls lc p) = []" "attrs ''id'' (simulator_controls lc p) = []"
    unfolding simulator_controls_def by (simp_all add: view_simps attr_simps list_all_iff split_def Let_def o)
  have r: "runs (profile (ld_selectedError p))" using assms by (simp add: profile_runs [symmetric] runs_iff)
  then have t: "renders (simulation_trace lc p)" unfolding trace_defs by (auto simp: view_simps runs_seqE runs_iff)
  then have t': "attrs ''href'' (simulation_trace lc p) = []" "attrs ''id'' (simulation_trace lc p) = []"
    unfolding trace_defs by (simp_all add: view_simps attr_simps)
  show "attrs ''href'' (simulator_section lc p) = []" "attrs ''id'' (simulator_section lc p) = [Str ''simulator'']"
    unfolding simulator_section_def by (simp_all add: view_simps attr_simps t t' c)
qed


lemma landing_links:
  assumes "landing_site_ok s"
  shows "attrs ''href'' (landing_view lc tg tf scaleX s) = map Str [''/'', ''#pipeline'', ''/docs'', ''#features'', ''#simulator'', ''#calculator'',
      ''/login'', ''#simulator'', ''/login'', ''/developer'', ''/developer'', ''/login'', ''/'', ''/login'', ''/login'', ''https://github.com/JATINCHULETT/ReviveOS'']"
    and "attrs ''id'' (landing_view lc tg tf scaleX s) = map Str [''spotlightFilter'', ''pipeline'', ''docs'', ''features'', ''simulator'', ''calculator'']"
proof -
  have o: "ld_selectedError (ls_page s) \<in> fst ` set failureProfiles" "pd_activeStage (ls_dial s) < 6"
    using assms by (simp_all add: landing_site_ok_def)
  note r = landing_renders [OF assms, of lc tg tf scaleX]
  show "attrs ''href'' (landing_view lc tg tf scaleX s) = map Str [''/'', ''#pipeline'', ''/docs'', ''#features'', ''#simulator'', ''#calculator'',
      ''/login'', ''#simulator'', ''/login'', ''/developer'', ''/developer'', ''/login'', ''/'', ''/login'', ''/login'', ''https://github.com/JATINCHULETT/ReviveOS'']"
    "attrs ''id'' (landing_view lc tg tf scaleX s) = map Str [''spotlightFilter'', ''pipeline'', ''docs'', ''features'', ''simulator'', ''calculator'']"
    using r unfolding landing_view_def
    by (simp_all add: attr_simps view_simps parts_attrs hero_attrs carousel_attrs section_attrs float_attrs landing_attrs
      simulator_attrs [OF o(1)] dial_attrs [OF o(2)])
qed

subsection \<open>The page in use\<close>

definition landing_start :: "carousel \<Rightarrow> theme_toggle \<Rightarrow> theme_toggle \<Rightarrow> landing_site" where
  "landing_start track menu float = \<lparr>ls_page = landing_init, ls_dial = diagram_init, ls_snippets = snippets_init, ls_carousel = track,
     ls_menu = menu, ls_float = float\<rparr>"

inductive landing_site_step :: "string \<Rightarrow> landing_site \<Rightarrow> landing_site \<Rightarrow> bool" for base where
  click: "a \<in> set (acts x (landing_view lc tg tf scaleX s)) \<Longrightarrow> landing_site_step base s (landing_do sd a s)"
| answer: "ld_awaiting (ls_page s) = c # cs \<Longrightarrow> landing_site_step base s (s\<lparr>ls_page := reported (report_failure base net c) (ls_page s)\<rparr>)"
| timer: "ld_timers (ls_page s) = (d, stage) # ts \<Longrightarrow> landing_site_step base s (s\<lparr>ls_page := fire stage ((ls_page s)\<lparr>ld_timers := ts\<rparr>)\<rparr>)"
| turn: "landing_site_step base s (s\<lparr>ls_dial := advance (ls_dial s)\<rparr>)"
| fade: "landing_site_step base s (s\<lparr>ls_snippets := copied_faded (ls_snippets s)\<rparr>)"
| scroll: "landing_site_step base s (s\<lparr>ls_carousel := scrolled_to position (ls_carousel s)\<rparr>)"

inductive landing_site_reach :: "string \<Rightarrow> landing_site \<Rightarrow> bool" for base where
  start: "landing_site_reach base (landing_start track menu float)"
| step: "\<lbrakk>landing_site_reach base s; landing_site_step base s s'\<rbrakk> \<Longrightarrow> landing_site_reach base s'"

definition landing_inv :: "string \<Rightarrow> landing_site \<Rightarrow> bool" where
  "landing_inv base s \<longleftrightarrow> landing_reach base (ls_page s) \<and> diagram_reach (ls_dial s) \<and> ld_selectedError (ls_page s) \<in> fst ` set failureProfiles"

lemma landing_inv_ok: "landing_inv base s \<Longrightarrow> landing_site_ok s"
  using diagram_reach_ok by (auto simp: landing_inv_def landing_site_ok_def diagram_ok_def)

lemma page_inv:
  assumes "landing_inv base s" and "landing_step base (ls_page s) p" and "ld_selectedError p \<in> fst ` set failureProfiles"
  shows "landing_inv base (s\<lparr>ls_page := p\<rparr>)"
  using assms landing_reach.step [of base "ls_page s" p] by (simp add: landing_inv_def)

lemma click_inv:
  assumes "landing_inv base s" and "a \<in> set (acts x (landing_view lc tg tf scaleX s))"
  shows "landing_inv base (landing_do sd a s)"
proof (cases a)
  case Run_simulation
  with assms(2) have "\<not> ld_isSimulating (ls_page s)"
    by (auto simp: landing_acts [OF landing_inv_ok [OF assms(1)]] split: if_splits)
  then show ?thesis using page_inv [OF assms(1) landing_step.run] assms(1) Run_simulation
    by (simp add: landing_inv_def start_simulation_def)
next
  case (Choose_failure key)
  with assms(2) have "key \<in> fst ` set failureProfiles"
    by (auto simp: landing_acts [OF landing_inv_ok [OF assms(1)]] split: if_splits)
  then show ?thesis using page_inv [OF assms(1) landing_step.choose] Choose_failure by (simp add: choose_error_def)
next
  case (Set_amount v)
  then show ?thesis using page_inv [OF assms(1) landing_step.amount] assms(1) by (simp add: landing_inv_def)
next
  case (Set_gmv v)
  then show ?thesis using page_inv [OF assms(1) landing_step.gmv] assms(1) by (simp add: landing_inv_def)
next
  case (Pick_stage idx)
  with assms(2) have "idx < 6"
    by (auto simp: landing_acts [OF landing_inv_ok [OF assms(1)]] split: if_splits)
  moreover have r: "diagram_reach (ls_dial s)" using assms(1) by (simp add: landing_inv_def)
  ultimately have "idx \<in> set (acts x (pipeline_view tg (ls_dial s)))"
    using dial_safe_acts [OF r] by simp
  with r have "diagram_reach (choose_stage idx (ls_dial s))" by (rule diagram_reach.click)
  then show ?thesis using assms(1) Pick_stage by (simp add: landing_inv_def)
next
  case (Carousel c)
  then show ?thesis using assms(1) by (cases c) (simp_all add: landing_inv_def)
next
  case (Menu_theme c)
  then show ?thesis using assms(1) by (cases c) (simp_all add: landing_inv_def Let_def)
qed (use assms(1) in \<open>simp_all add: landing_inv_def Let_def\<close>)

lemma landing_site_inv: "landing_site_reach base s \<Longrightarrow> landing_inv base s"
proof (induction rule: landing_site_reach.induct)
  case (start track menu float)
  then show ?case
    by (auto simp: landing_inv_def landing_start_def landing_init_def [symmetric] intro: landing_reach.init diagram_reach.start)
      (simp add: landing_init_def failureProfiles_def)
next
  case (step s s')
  from step.hyps(2) show ?case
  proof cases
    case (click a x lc tg tf scaleX sd)
    then show ?thesis using click_inv [OF step.IH] by simp
  next
    case (answer c cs net)
    then show ?thesis using page_inv [OF step.IH landing_step.report] step.IH by (simp add: landing_inv_def reported_def)
  next
    case (timer d stage ts)
    then show ?thesis using page_inv [OF step.IH landing_step.tick] step.IH by (simp add: landing_inv_def fire_def Let_def)
  next
    case turn
    then show ?thesis using step.IH by (auto simp: landing_inv_def intro: diagram_reach.timer)
  qed (use step.IH in \<open>simp_all add: landing_inv_def\<close>)
qed

text \<open>
  C9: The landing page in use. However clicks on what is on the screen, timers, answers of the backend and scrolling alternate, the page
  is rendered without an exception; what happens to its simulator and to its dial are steps of their own models, so what is proved of
  them holds of the page; and a simulation can be started exactly when none is running.
\<close>

theorem landing_page_sound:
  assumes "landing_site_reach base s"
  shows "renders (landing_view lc tg tf scaleX s) \<and> landing_reach base (ls_page s) \<and> diagram_reach (ls_dial s)
    \<and> (Run_simulation \<in> set (acts x (landing_view lc tg tf scaleX s)) \<longleftrightarrow> \<not> ld_isSimulating (ls_page s))"
proof -
  have i: "landing_inv base s" by (rule landing_site_inv [OF assms])
  from landing_inv_ok [OF i] have "renders (landing_view lc tg tf scaleX s)"
    "Run_simulation \<in> set (acts x (landing_view lc tg tf scaleX s)) \<longleftrightarrow> \<not> ld_isSimulating (ls_page s)"
    by (auto simp: landing_renders landing_acts split: if_splits)
  with i show ?thesis by (simp add: landing_inv_def)
qed

definition sample_toggle :: theme_toggle where
  "sample_toggle = \<lparr>tt_theme = ''dark'', tt_mounted = True, tt_classes = {''dark''}, tt_store = fresh_storage\<rparr>"

definition sample_site :: landing_site where
  "sample_site = landing_start (carousel_init 2000 1200) sample_toggle sample_toggle"

theorem landing_page_sound_witness:
  "Run_simulation \<notin> set (acts Undef (landing_view plain_locale \<lparr>tg_cos = (\<lambda>_. nint 1), tg_sin = (\<lambda>_. nint 0)\<rparr> (\<lambda>_ _. Undef) Undef
    (landing_do True Run_simulation sample_site)))"
proof -
  let ?v = "landing_view plain_locale \<lparr>tg_cos = (\<lambda>_. nint 1), tg_sin = (\<lambda>_. nint 0)\<rparr> (\<lambda>_ _. Undef) Undef"
  have s: "landing_site_reach ''/api'' sample_site" unfolding sample_site_def by (rule landing_site_reach.start)
  have "landing_site_ok sample_site"
    by (simp add: sample_site_def landing_start_def landing_site_ok_def landing_init_def failureProfiles_def diagram_init_def)
  then have "Run_simulation \<in> set (acts Undef (?v sample_site))"
    by (simp add: landing_acts sample_site_def landing_start_def landing_init_def)
  then have "landing_site_reach ''/api'' (landing_do True Run_simulation sample_site)"
    by (intro landing_site_reach.step [OF s] landing_site_step.click)
  from landing_page_sound [OF this] show ?thesis by (simp add: start_simulation_def)
qed

text \<open>
  C31: No link of the landing page is dead: each leads to the id of an element of the page as it is shown, to the landing page, the
  sign-in, the documentation or the developer page, or to the project's repository.
\<close>

theorem landing_links_resolve:
  assumes "landing_site_reach base s"
  shows "set (attrs ''href'' (landing_view lc tg tf scaleX s)) \<subseteq>
    {Str (CHR ''#'' # target) |target. Str target \<in> set (attrs ''id'' (landing_view lc tg tf scaleX s))}
    \<union> Str ` {''/'', ''/login'', ''/docs'', ''/developer'', ''https://github.com/JATINCHULETT/ReviveOS''}"
  by (simp add: landing_links [OF landing_inv_ok [OF landing_site_inv [OF assms]]])

theorem landing_links_resolve_witness:
  "Str ''#pipeline'' \<in> set (attrs ''href'' (landing_view plain_locale \<lparr>tg_cos = (\<lambda>_. nint 1), tg_sin = (\<lambda>_. nint 0)\<rparr> (\<lambda>_ _. Undef) Undef sample_site))
    \<and> Str ''pipeline'' \<in> set (attrs ''id'' (landing_view plain_locale \<lparr>tg_cos = (\<lambda>_. nint 1), tg_sin = (\<lambda>_. nint 0)\<rparr> (\<lambda>_ _. Undef) Undef sample_site))"
proof -
  let ?v = "landing_view plain_locale \<lparr>tg_cos = (\<lambda>_. nint 1), tg_sin = (\<lambda>_. nint 0)\<rparr> (\<lambda>_ _. Undef) Undef sample_site"
  have s: "landing_site_reach ''/api'' sample_site" unfolding sample_site_def by (rule landing_site_reach.start)
  then have "landing_site_ok sample_site" by (rule landing_inv_ok [OF landing_site_inv])
  then have p: "Str ''#pipeline'' \<in> set (attrs ''href'' ?v)" by (simp add: landing_links)
  with landing_links_resolve [OF s, of plain_locale "\<lparr>tg_cos = (\<lambda>_. nint 1), tg_sin = (\<lambda>_. nint 0)\<rparr>" "\<lambda>_ _. Undef" Undef]
  have "Str ''pipeline'' \<in> set (attrs ''id'' ?v)" by auto
  with p show ?thesis ..
qed

end
