(* ===== verification/DocsPage.thy ===== *)
theory DocsPage
  imports DocsArticles "HOL-Library.Multiset"
begin

text \<open>
  \<open>apps/web/src/app/docs/page.tsx\<close>: the documentation page over the articles of \<open>DocsArticles\<close>. Modelled are the
  grouping by category, the search, the keyboard shortcuts, the ways to an article, the copy button, and the
  assistant, which answers a question by its first matching keyword after a delay and takes one question at a time.
\<close>

subsection \<open>Navigation and search\<close>

fun add_doc :: "(string \<times> doc_article list) list \<Rightarrow> doc_article \<Rightarrow> (string \<times> doc_article list) list" where
  \<comment> \<open>one round of the grouping: a category keeps the place of its first article\<close>
  "add_doc [] d = [(da_category d, [d])]"
| "add_doc ((c, ds) # cs) d = (if c = da_category d then (c, ds @ [d]) # cs else (c, ds) # add_doc cs d)"

definition navCategories :: "doc_article list \<Rightarrow> (string \<times> doc_article list) list" where
  "navCategories docs = foldl add_doc [] docs"

definition searchResults :: "string \<Rightarrow> doc_article list \<Rightarrow> doc_article list" where
  "searchResults searchQuery docs = (if trim searchQuery = [] then []
     else let q = to_lower searchQuery in filter (\<lambda>doc. str_includes (to_lower (da_title doc)) q
       \<or> str_includes (to_lower (da_description doc)) q \<or> str_includes (to_lower (da_category doc)) q) docs)"

definition currentArticle :: "string \<Rightarrow> doc_article" where
  "currentArticle activeArticleId = (case find (\<lambda>d. da_id d = activeArticleId) docArticles of
     Some d \<Rightarrow> d | None \<Rightarrow> hd docArticles)"

subsection \<open>State and shortcuts\<close>

datatype speaker = User | Assistant

record docs_page =
  dc_activeArticleId :: string
  dc_copiedId :: "string option"
  dc_clipboard :: string
  dc_searchQuery :: string
  dc_isSearchOpen :: bool
  dc_isAiOpen :: bool
  dc_aiQuestion :: string
  dc_aiMessages :: "(speaker \<times> string) list"
  dc_aiLoading :: bool
  dc_pending :: "string list"

definition greeting :: string where
  "greeting = ''Hi! I am the ReviveOS AI Documentation Assistant. Ask me anything about integrating @reviveos/razorpay, '' @
     ''CLI configuration, ML fraud protection, or webhook handlers.''"

definition docs_init :: docs_page where
  "docs_init = \<lparr>dc_activeArticleId = ''overview'', dc_copiedId = None, dc_clipboard = [], dc_searchQuery = [], dc_isSearchOpen = False, dc_isAiOpen = False,
     dc_aiQuestion = [], dc_aiMessages = [(Assistant, greeting)], dc_aiLoading = False, dc_pending = []\<rparr>"

definition handleKeyDown :: "bool \<Rightarrow> string \<Rightarrow> docs_page \<Rightarrow> docs_page" where
  \<comment> \<open>\<open>command\<close>: the Meta or Control key is held\<close>
  "handleKeyDown command key p =
    (let p1 = (if command \<and> to_lower key = ''k'' then p\<lparr>dc_isSearchOpen := \<not> dc_isSearchOpen p\<rparr> else p);
         p2 = (if command \<and> to_lower key = ''i'' then p1\<lparr>dc_isAiOpen := \<not> dc_isAiOpen p1\<rparr> else p1)
     in if key = ''Escape'' then p2\<lparr>dc_isSearchOpen := False, dc_isAiOpen := False\<rparr> else p2)"

definition copy_code :: "nat \<Rightarrow> docs_page \<Rightarrow> docs_page" where
  \<comment> \<open>the copy button of a section; the mark vanishes when the timer calls \<open>copied_over\<close>\<close>
  "copy_code idx p = (let sections = da_sections (currentArticle (dc_activeArticleId p)) in
     if idx < length sections then (case ds_code (sections ! idx) of
         Some code \<Rightarrow> p\<lparr>dc_clipboard := code, dc_copiedId := Some (''code-'' @ show_nat idx)\<rparr>
       | None \<Rightarrow> p)
     else p)"

definition copied_over :: "docs_page \<Rightarrow> docs_page" where
  "copied_over p = p\<lparr>dc_copiedId := None\<rparr>"

definition open_article :: "string \<Rightarrow> docs_page \<Rightarrow> docs_page" where
  \<comment> \<open>an entry of the navigation\<close>
  "open_article key p = p\<lparr>dc_activeArticleId := key\<rparr>"

definition open_result :: "string \<Rightarrow> docs_page \<Rightarrow> docs_page" where
  \<comment> \<open>a result of the search\<close>
  "open_result key p = p\<lparr>dc_activeArticleId := key, dc_isSearchOpen := False\<rparr>"

definition popular_cards :: "(string \<times> string \<times> string) list" where
  \<comment> \<open>article, title and text of the cards on the overview\<close>
  "popular_cards = [
     (''quickstart'', ''60s Quickstart'', ''Run your first autonomous recovery workflow in minutes.''),
     (''cli-config'', ''One-Command Init'', ''Configure SDK, env, and webhook routes with npx reviveos init.''),
     (''ml-fraud'', ''ML Fraud Engine'', ''Predict fraud risk and expected loss before triggering retries.'')]"

definition shown_cards :: "docs_page \<Rightarrow> (string \<times> string \<times> string) list" where
  "shown_cards p = (if dc_activeArticleId p = ''overview'' then popular_cards else [])"

subsection \<open>The assistant\<close>

definition answer_to :: "string \<Rightarrow> string" where
  "answer_to userQ = (let q = to_lower userQ in
     if str_includes q ''install'' \<or> str_includes q ''npm''
     then ''To install the SDK, run `npm install @reviveos/razorpay` and then `npx reviveos init` to auto-configure your environment template and webhook handlers.''
     else if str_includes q ''api key'' \<or> str_includes q ''key''
     then ''You can generate API keys (`rvo_test_...` or `rvo_live_...`) in the Merchant Console under '' @ [CHR 0x22] @ ''API Keys & Secrets'' @ [CHR 0x22]
       @ ''. Keys are SHA-256 hashed and displayed only once.''
     else if str_includes q ''fraud'' \<or> str_includes q ''risk''
     then ''ReviveOS uses a dual-model ML engine (Random Forest for fraud anomaly detection and Gradient Boosting for return risk) to score expected loss before retries are triggered.''
     else if str_includes q ''webhook'' \<or> str_includes q ''signature''
     then ''ReviveOS verifies incoming Razorpay webhooks using HMAC-SHA256 with constant-time buffer comparison (`crypto.timingSafeEqual`) to prevent timing and replay attacks.''
     else ''ReviveOS connects to Razorpay via webhook ingestion. You can run `npx reviveos init` in your project root to generate the appropriate route handler and start recovering failed transactions.'')"

definition handleAskAi :: "docs_page \<Rightarrow> docs_page" where
  "handleAskAi p = (if trim (dc_aiQuestion p) = [] \<or> dc_aiLoading p then p
     else let userQ = trim (dc_aiQuestion p) in p\<lparr>dc_aiMessages := dc_aiMessages p @ [(User, userQ)], dc_aiQuestion := [],
       dc_aiLoading := True, dc_pending := dc_pending p @ [userQ]\<rparr>)"

definition ai_reply :: "docs_page \<Rightarrow> docs_page" where
  \<comment> \<open>the timer's callback\<close>
  "ai_reply p = (case dc_pending p of [] \<Rightarrow> p
     | userQ # qs \<Rightarrow> p\<lparr>dc_aiMessages := dc_aiMessages p @ [(Assistant, answer_to userQ)], dc_aiLoading := False, dc_pending := qs\<rparr>)"

subsection \<open>Lemmas\<close>

lemma add_doc_mset: "mset (concat (map snd (add_doc cs d))) = add_mset d (mset (concat (map snd cs)))"
  by (induction cs d rule: add_doc.induct) auto

lemma navCategories_complete:
  \<comment> \<open>the navigation lists every article once\<close>
  "mset (concat (map snd (navCategories docs))) = mset docs"
proof -
  have "mset (concat (map snd (foldl add_doc cs docs))) = mset (concat (map snd cs)) + mset docs" for cs
    by (induction docs arbitrary: cs) (simp_all add: add_doc_mset)
  from this [of "[]"] show ?thesis by (simp add: navCategories_def)
qed

lemma add_doc_names: "map fst (add_doc cs d) = (if da_category d \<in> fst ` set cs then map fst cs else map fst cs @ [da_category d])"
  by (induction cs d rule: add_doc.induct) auto

lemma navCategories_distinct: "distinct (map fst (navCategories docs))"
proof -
  have "distinct (map fst cs) \<Longrightarrow> distinct (map fst (foldl add_doc cs docs))" for cs
    by (induction docs arbitrary: cs) (auto simp: add_doc_names)
  from this [of "[]"] show ?thesis by (simp add: navCategories_def)
qed

lemma navigation:
  "map (\<lambda>(c, ds). (c, map da_id ds)) (navCategories docArticles) =
    [(''WELCOME'', [''overview'']), (''GETTING STARTED'', [''installation'', ''cli-config'', ''quickstart'', ''webhooks'']),
     (''CORE CAPABILITIES'', [''ml-fraud'', ''customer-memory''])]"
  by (simp add: navCategories_def docArticles_def article_defs)

lemma find_by_key: "distinct (map f xs) \<Longrightarrow> x \<in> set xs \<Longrightarrow> find (\<lambda>y. f y = f x) xs = Some x"
  by (induction xs) (auto simp: image_iff)

lemma currentArticle_listed:
  assumes "d \<in> set docArticles"
  shows "currentArticle (da_id d) = d"
proof -
  have "distinct (map da_id docArticles)" by (simp add: article_ids)
  then have "find (\<lambda>e. da_id e = da_id d) docArticles = Some d"
    using assms by (rule find_by_key)
  then show ?thesis by (simp add: currentArticle_def)
qed

lemma every_result_opens:
  \<comment> \<open>an article found by the search, or one of the overview's cards, is the article shown after choosing it\<close>
  "d \<in> set (searchResults q docArticles) \<Longrightarrow> currentArticle (dc_activeArticleId (open_result (da_id d) p)) = d"
  by (rule currentArticle_listed [THEN trans [rotated]]) (auto simp: open_result_def searchResults_def Let_def split: if_splits)

lemma cards_lead_somewhere: "fst ` set popular_cards \<subseteq> da_id ` set docArticles"
  unfolding list.set_map [symmetric] article_ids by (simp add: popular_cards_def)

definition talk_ok :: "docs_page \<Rightarrow> bool" where
  \<comment> \<open>every question but the pending one has been answered right after it was asked\<close>
  "talk_ok p \<longleftrightarrow> (\<exists>qs. dc_aiMessages p = (Assistant, greeting) # concat (map (\<lambda>q. [(User, q), (Assistant, answer_to q)]) qs)
       @ map (\<lambda>q. (User, q)) (dc_pending p))
     \<and> length (dc_pending p) \<le> 1 \<and> (dc_aiLoading p \<longleftrightarrow> dc_pending p \<noteq> [])"

lemma talk_ok_init: "talk_ok docs_init"
  by (auto simp: talk_ok_def docs_init_def intro: exI [of _ "[]"])

lemma talk_ok_ask: "talk_ok p \<Longrightarrow> talk_ok (handleAskAi p)"
  by (auto simp: talk_ok_def handleAskAi_def Let_def)

lemma talk_ok_reply: "talk_ok p \<Longrightarrow> talk_ok (ai_reply p)"
proof (cases "dc_pending p")
  case (Cons q qs)
  assume "talk_ok p"
  then obtain old where m: "dc_aiMessages p = (Assistant, greeting) # concat (map (\<lambda>q. [(User, q), (Assistant, answer_to q)]) old) @ [(User, q)]"
    and "qs = []" using Cons by (auto simp: talk_ok_def)
  have "dc_aiMessages (ai_reply p) = (Assistant, greeting) # concat (map (\<lambda>q. [(User, q), (Assistant, answer_to q)]) (old @ [q]))"
    by (simp add: ai_reply_def Cons m)
  then show ?thesis using \<open>qs = []\<close> Cons unfolding talk_ok_def by (intro conjI exI [of _ "old @ [q]"]) (simp_all add: ai_reply_def)
qed (simp add: ai_reply_def)

lemma talk_ok_key: "talk_ok p \<Longrightarrow> talk_ok (handleKeyDown command key p)"
  by (simp add: talk_ok_def handleKeyDown_def Let_def)

lemma talk_ok_views: "talk_ok p \<Longrightarrow> talk_ok (copy_code idx p) \<and> talk_ok (copied_over p) \<and> talk_ok (open_article key p) \<and> talk_ok (open_result key p)"
  by (auto simp: talk_ok_def copy_code_def copied_over_def open_article_def open_result_def Let_def split: option.splits)

end
