(* ===== verification/DocsView.thy ===== *)
theory DocsView
  imports DocsPage Components
begin

text \<open>
  What \<open>apps/web/src/app/docs/page.tsx\<close> renders, and what its controls do: the topics, the article with its code, notes and
  tables, the search and the assistant. The properties say that no link of the page is dead and that what is copied is
  the code next to the button.
\<close>

subsection \<open>Controls\<close>

datatype docs_action = Open_search | Open_assistant | Open_topic string | Copy_section nat | Close_search | Open_result string
  | Close_assistant | Search_docs js | Ask | Ask_text js | Keep_open

fun docs_do :: "docs_action \<Rightarrow> docs_page \<Rightarrow> docs_page" where
  \<comment> \<open>a click inside a dialogue does not reach the one behind it (\<open>stopPropagation\<close>)\<close>
  "docs_do Open_search p = p\<lparr>dc_isSearchOpen := True\<rparr>"
| "docs_do Open_assistant p = p\<lparr>dc_isAiOpen := True\<rparr>"
| "docs_do (Open_topic key) p = open_article key p"
| "docs_do (Copy_section idx) p = copy_code idx p"
| "docs_do Close_search p = p\<lparr>dc_isSearchOpen := False\<rparr>"
| "docs_do (Open_result key) p = open_result key p"
| "docs_do Close_assistant p = p\<lparr>dc_isAiOpen := False\<rparr>"
| "docs_do (Search_docs v) p = p\<lparr>dc_searchQuery := to_str v\<rparr>"
| "docs_do Ask p = handleAskAi p"
| "docs_do (Ask_text v) p = p\<lparr>dc_aiQuestion := to_str v\<rparr>"
| "docs_do Keep_open p = p"

subsection \<open>The page\<close>

definition docs_banner :: "docs_action view" where
  "docs_banner =
    node ''div'' [
      node ''div'' [
        node ''div'' [
          node ''h1'' [say ''Documentation & Guides''],
          node ''span'' [say (''v1.0 '' @ [CHR 0xC2, CHR 0xB7] @ '' Stable'')]],
        node ''p'' [say ''Integration guides, SDK setup, ML fraud intelligence, and autonomous recovery architecture'']],
      node ''div'' [
        el ''button'' [] [(''onClick'', \<lambda>_. Open_search)] [
          icon ''Search'',
          node ''span'' [say ''Search docs...''],
          node ''kbd'' [say ([CHR 0xE2, CHR 0x8C, CHR 0x98] @ ''K'')]],
        el ''button'' [] [(''onClick'', \<lambda>_. Open_assistant)] [
          icon ''Sparkles'',
          node ''span'' [say ''Ask AI Assistant''],
          node ''kbd'' [say ([CHR 0xE2, CHR 0x8C, CHR 0x98] @ ''I'')]]]]"

definition topic_button :: "docs_page \<Rightarrow> doc_article \<Rightarrow> docs_action view" where
  "topic_button p art = (let isActive = dc_activeArticleId p = da_id art in
    el ''button'' [
        (''key'', Inr (Str (da_id art))),
        (''style.background'', Inr (Str (if isActive then ''var(--color-accent-bg)'' else ''transparent''))),
        (''style.border'', Inr (Str (if isActive then ''1px solid var(--color-accent-border)'' else ''1px solid transparent''))),
        (''style.color'', Inr (Str (if isActive then ''var(--color-accent-light)'' else ''var(--text-secondary)''))),
        (''style.fontWeight'', Inr (Num (nint (if isActive then 700 else 500))))]
      [(''onClick'', \<lambda>_. Open_topic (da_id art))] [
      node ''span'' [say (da_title art)],
      show_if (opt_text (da_badge art)) (
        el ''span'' [
            (''style.background'', Inr (Str (if isActive then ''var(--color-accent)'' else ''var(--bg-elevated)''))),
            (''style.color'', Inr (Str (if isActive then ''#ffffff'' else ''var(--text-muted)'')))] [] [
          put (opt_text (da_badge art))])])"

definition topics_nav :: "docs_page \<Rightarrow> docs_action view" where
  "topics_nav p =
    node ''div'' [
      each (navCategories docArticles) (\<lambda>(category, articles).
        el ''div'' [(''key'', Inr (Str category))] [] [
          node ''div'' [say category],
          node ''div'' [each articles (topic_button p)]])]"

definition popular_card :: "string \<times> string \<times> string \<Rightarrow> string \<Rightarrow> docs_action view" where
  "popular_card entry picture = (case entry of (key, title, desc) \<Rightarrow>
    el ''div'' [(''key'', Inr (Str key))] [(''onClick'', \<lambda>_. Open_topic key)] [
      node ''div'' [icon picture],
      node ''h4'' [say title],
      node ''p'' [say desc]])"

definition overview_cards :: "docs_page \<Rightarrow> docs_action view" where
  "overview_cards p = show_when (dc_activeArticleId p = ''overview'') (
    node ''div'' [
      node ''div'' [say ''POPULAR INTEGRATIONS''],
      node ''div'' [
        each (zip popular_cards [''Zap'', ''Terminal'', ''ShieldCheck'']) (\<lambda>(entry, picture). popular_card entry picture)]])"

definition code_block :: "docs_page \<Rightarrow> nat \<Rightarrow> doc_section \<Rightarrow> string \<Rightarrow> docs_action view" where
  "code_block p idx sec code = (let copied = dc_copiedId p = Some (''code-'' @ show_nat idx) in
    node ''div'' [
      node ''div'' [
        node ''span'' [put (orv (opt_text (ds_language sec)) (Str ''code''))],
        el ''button'' [] [(''onClick'', \<lambda>_. Copy_section idx)] [
          if copied then icon ''Check'' else icon ''Copy'',
          node ''span'' [say (if copied then ''Copied'' else ''Copy'')]]],
      node ''pre'' [say code]])"

definition note_name :: "note_kind \<Rightarrow> string" where
  "note_name k = (case k of Tip \<Rightarrow> ''tip'' | Important \<Rightarrow> ''important'' | Warning \<Rightarrow> ''warning'')"

definition note_colour :: "note_kind \<Rightarrow> string" where
  \<comment> \<open>the colour's variable without its ending\<close>
  "note_colour k = (case k of Warning \<Rightarrow> ''var(--color-amber'' | Important \<Rightarrow> ''var(--color-red'' | Tip \<Rightarrow> ''var(--color-accent'')"

definition note_block :: "note_kind \<Rightarrow> string \<Rightarrow> docs_action view" where
  "note_block k words =
    el ''div'' [
        (''style.background'', Inr (Str (note_colour k @ ''-bg)''))),
        (''style.border'', Inr (Str (''1px solid '' @ note_colour k @ ''-border)''))),
        (''style.color'', Inr (Str (note_colour k @ (if k = Tip then ''-light)'' else '')''))))] [] [
      node ''strong'' [say (to_upper (note_name k)), say '':''],
      say '' '',
      say words]"

definition table_block :: "string list \<Rightarrow> string list list \<Rightarrow> docs_action view" where
  "table_block headers rws =
    node ''div'' [
      node ''table'' [
        node ''thead'' [
          node ''tr'' [each_i headers (\<lambda>i h. el ''th'' [(''key'', Inr (Num (nint (int i))))] [] [say h])]],
        node ''tbody'' [
          each_i rws (\<lambda>i r. el ''tr'' [(''key'', Inr (Num (nint (int i))))] [] [
            each_i r (\<lambda>j c. el ''td'' [
                (''key'', Inr (Num (nint (int j)))),
                (''style.fontFamily'', Inr (Str (if j = 0 \<or> j = 1 then ''var(--font-mono)'' else ''inherit'')))] [] [say c])])]]]"

definition section_view :: "docs_page \<Rightarrow> nat \<Rightarrow> doc_section \<Rightarrow> docs_action view" where
  \<comment> \<open>an empty text of code would not be shown either\<close>
  "section_view p idx sec =
    el ''div'' [(''key'', Inr (Num (nint (int idx))))] [] [
      node ''h3'' [say (ds_title sec)],
      node ''p'' [say (ds_body sec)],
      (case ds_code sec of None \<Rightarrow> put Undef | Some c \<Rightarrow> show_if (Str c) (code_block p idx sec c)),
      (case ds_note sec of None \<Rightarrow> put Undef | Some (k, words) \<Rightarrow> note_block k words),
      (case ds_table sec of None \<Rightarrow> put Undef | Some (headers, rws) \<Rightarrow> table_block headers rws)]"

definition article_view :: "docs_page \<Rightarrow> docs_action view" where
  "article_view p = (let art = currentArticle (dc_activeArticleId p) in
    node ''div'' [
      node ''div'' [
        node ''span'' [say ''Docs''],
        icon ''ChevronRight'',
        node ''span'' [say (da_category art)],
        icon ''ChevronRight'',
        node ''span'' [say (da_title art)]],
      node ''h1'' [say (da_heading art)],
      node ''p'' [say (da_subheading art)],
      overview_cards p,
      node ''div'' [each_i (da_sections art) (section_view p)],
      node ''div'' [
        el ''button'' [] [(''onClick'', \<lambda>_. Open_topic ''overview'')] [
          icon ''ArrowLeft'',
          say '' Back to Overview''],
        el ''Link'' [(''href'', Inr (Str ''/developer''))] [] [
          node ''span'' [say ''Open Developer Simulator''],
          icon ''ArrowRight'']]])"

subsection \<open>The two dialogues\<close>

definition search_result :: "doc_article \<Rightarrow> docs_action view" where
  "search_result res =
    el ''div'' [(''key'', Inr (Str (da_id res)))] [(''onClick'', \<lambda>_. Open_result (da_id res))] [
      node ''div'' [
        node ''div'' [say (da_title res)],
        node ''div'' [say (da_description res)]],
      node ''span'' [say (da_category res)]]"

definition search_modal :: "docs_page \<Rightarrow> docs_action view" where
  "search_modal p = (let results = searchResults (dc_searchQuery p) docArticles in
    el ''div'' [] [(''onClick'', \<lambda>_. Close_search)] [
      el ''div'' [] [(''onClick'', \<lambda>_. Keep_open)] [
        node ''div'' [
          icon ''Search'',
          el ''input'' [
              (''type'', Inr (Str ''text'')),
              (''placeholder'', Inr (Str ''Search documentation, guides, webhook handlers...'')),
              (''value'', Inr (Str (dc_searchQuery p)))] [(''onChange'', Search_docs)] [],
          node ''kbd'' [say ''ESC'']],
        node ''div'' [
          if results \<noteq> [] then each results search_result
          else if dc_searchQuery p \<noteq> []
          then node ''div'' [say (''No results found for '' @ [CHR 0x22]), say (dc_searchQuery p), say [CHR 0x22]]
          else node ''div'' [say ''Suggested: 60s Quickstart, Webhook Verification, ML Fraud Guard, Customer Memory'']]]])"

definition message_view :: "nat \<Rightarrow> speaker \<times> string \<Rightarrow> docs_action view" where
  "message_view idx msg = (case msg of (who, words) \<Rightarrow>
    el ''div'' [
        (''key'', Inr (Num (nint (int idx)))),
        (''style.alignSelf'', Inr (Str (if who = User then ''flex-end'' else ''flex-start''))),
        (''style.background'', Inr (Str (if who = User then ''linear-gradient(135deg, #8b5cf6, #ec4899)'' else ''var(--bg-elevated)''))),
        (''style.color'', Inr (Str (if who = User then ''#ffffff'' else ''var(--text-primary)'')))] [] [
      say words])"

definition assistant_modal :: "docs_page \<Rightarrow> docs_action view" where
  "assistant_modal p =
    el ''div'' [] [(''onClick'', \<lambda>_. Close_assistant)] [
      el ''div'' [] [(''onClick'', \<lambda>_. Keep_open)] [
        node ''div'' [
          node ''div'' [
            icon ''Sparkles'',
            node ''span'' [say ''ReviveOS AI Doc Assistant'']],
          el ''button'' [] [(''onClick'', \<lambda>_. Close_assistant)] [icon ''X'']],
        node ''div'' [
          each_i (dc_aiMessages p) message_view,
          show_when (dc_aiLoading p) (node ''div'' [say ''AI is analyzing documentation...''])],
        el ''form'' [] [(''onSubmit'', \<lambda>_. Ask)] [
          el ''input'' [
              (''type'', Inr (Str ''text'')),
              (''placeholder'', Inr (Str ''Ask about SDK setup, Razorpay webhook verification, ML fraud...'')),
              (''value'', Inr (Str (dc_aiQuestion p)))] [(''onChange'', Ask_text)] [],
          el ''button'' [
              (''type'', Inr (Str ''submit'')),
              (''disabled'', Inr (Bool (dc_aiLoading p)))] [] [
            icon ''Send'',
            node ''span'' [say ''Ask'']]]]]"

definition docs_view :: "docs_page \<Rightarrow> docs_action view" where
  "docs_view p =
    node ''div'' [
      docs_banner,
      node ''div'' [topics_nav p, article_view p],
      show_when (dc_isSearchOpen p) (search_modal p),
      show_when (dc_isAiOpen p) (assistant_modal p)]"

subsection \<open>Lemmas\<close>

lemma docs_parts_render:
  "renders docs_banner" "renders (topics_nav p)" "renders (section_view p i sec)" "renders (article_view p)"
  "renders (search_modal p)" "renders (assistant_modal p)"
proof -
  have t: "renders (topic_button p art)" for art unfolding topic_button_def Let_def by (simp add: view_simps)
  show "renders (topics_nav p)" unfolding topics_nav_def by (simp add: view_simps t list_all_iff split_def)
  have n: "renders (note_block k w)" for k w unfolding note_block_def by (simp add: view_simps)
  have b: "renders (table_block h r)" for h r
    unfolding table_block_def by (simp add: view_simps renders_each_i list_all_iff)
  show s: "renders (section_view p i sec)" for i sec
    unfolding section_view_def code_block_def Let_def by (auto simp: view_simps n b split: option.split)
  have c: "renders (overview_cards p)"
    unfolding overview_cards_def popular_card_def by (simp add: view_simps list_all_iff split_def)
  show "renders (article_view p)"
    unfolding article_view_def Let_def by (simp add: view_simps renders_each_i c s)
  show "renders docs_banner" unfolding docs_banner_def by (simp add: view_simps)
  show "renders (search_modal p)" unfolding search_modal_def search_result_def Let_def by (simp add: view_simps list_all_iff)
  show "renders (assistant_modal p)"
    unfolding assistant_modal_def message_view_def by (simp add: view_simps renders_each_i split_def)
qed

lemma docs_view_renders: "renders (docs_view p)"
  unfolding docs_view_def by (simp add: view_simps docs_parts_render)

subsection \<open>What the controls do\<close>

definition docs_choices :: "docs_page \<Rightarrow> docs_action set" where
  \<comment> \<open>entries name articles, and a button that copies stands beside code\<close>
  "docs_choices p = {a. case a of
     Open_topic key \<Rightarrow> key \<in> da_id ` set docArticles
   | Open_result key \<Rightarrow> key \<in> da_id ` set docArticles
   | Copy_section i \<Rightarrow> i < length (da_sections (currentArticle (dc_activeArticleId p)))
       \<and> ds_code (da_sections (currentArticle (dc_activeArticleId p)) ! i) \<noteq> None
   | _ \<Rightarrow> True}"

lemma navCategories_listed: "(c, ds) \<in> set (navCategories docs) \<Longrightarrow> d \<in> set ds \<Longrightarrow> d \<in> set docs"
  using arg_cong [OF navCategories_complete [of docs], of set_mset] by force

lemma docs_choices_iff [simp]:
  "Open_topic key \<in> docs_choices p \<longleftrightarrow> key \<in> da_id ` set docArticles" "Open_result key \<in> docs_choices p \<longleftrightarrow> key \<in> da_id ` set docArticles"
  "Copy_section i \<in> docs_choices p \<longleftrightarrow> i < length (da_sections (currentArticle (dc_activeArticleId p)))
     \<and> ds_code (da_sections (currentArticle (dc_activeArticleId p)) ! i) \<noteq> None"
  "Open_search \<in> docs_choices p" "Open_assistant \<in> docs_choices p" "Close_search \<in> docs_choices p" "Close_assistant \<in> docs_choices p"
  "Search_docs v \<in> docs_choices p" "Ask \<in> docs_choices p" "Ask_text v \<in> docs_choices p" "Keep_open \<in> docs_choices p"
  by (simp_all add: docs_choices_def)

lemma topics_confined: "confined (docs_choices p) (topics_nav p)"
proof -
  have b: "art \<in> set docArticles \<Longrightarrow> confined (docs_choices p) (topic_button p art)" for art
    unfolding topic_button_def Let_def by (simp add: view_simps)
  have "confined (docs_choices p) (each (navCategories docArticles) (\<lambda>(category, articles).
        el ''div'' [(''key'', Inr (Str category))] [] [node ''div'' [say category], node ''div'' [each articles (topic_button p)]]))"
    by (rule confined_each) (auto simp: view_simps intro!: confined_el confined_node confined_each b navCategories_listed)
  then show ?thesis unfolding topics_nav_def by (simp add: view_simps)
qed

lemma search_confined: "confined (docs_choices p) (search_modal p)"
proof -
  have "confined (docs_choices p) (each (searchResults q docArticles) search_result)" for q
  proof (rule confined_each)
    fix d assume "d \<in> set (searchResults q docArticles)"
    then have "d \<in> set docArticles" by (auto simp: searchResults_def Let_def split: if_splits)
    then show "confined (docs_choices p) (search_result d)" unfolding search_result_def by (simp add: view_simps)
  qed
  then show ?thesis unfolding search_modal_def Let_def by (auto simp: view_simps intro!: confined_el confined_node)
qed

lemma article_confined: "confined (docs_choices p) (article_view p)"
proof -
  have "confined (docs_choices p) (overview_cards p)"
    using cards_lead_somewhere unfolding overview_cards_def popular_card_def
    by (auto simp: view_simps popular_cards_def intro!: confined_node confined_each)
  moreover have "confined (docs_choices p) (each_i (da_sections (currentArticle (dc_activeArticleId p))) (section_view p))"
  proof (rule confined_each_nth)
    fix i assume "i < length (da_sections (currentArticle (dc_activeArticleId p)))"
    moreover have "confined A (note_block k w)" "confined A (table_block h r)" for A k w h r
      unfolding note_block_def table_block_def by (simp_all add: view_simps)
    ultimately show "confined (docs_choices p) (section_view p i (da_sections (currentArticle (dc_activeArticleId p)) ! i))"
      unfolding section_view_def code_block_def Let_def by (auto simp: view_simps split: option.split intro!: confined_el confined_node)
  qed
  moreover have "''overview'' \<in> da_id ` set docArticles" unfolding list.set_map [symmetric] article_ids by simp
  ultimately show ?thesis unfolding article_view_def Let_def by (simp add: view_simps)
qed

lemma docs_confined: "confined (docs_choices p) (docs_view p)"
proof -
  have "confined (docs_choices p) docs_banner" "confined (docs_choices p) (assistant_modal p)"
    unfolding docs_banner_def assistant_modal_def message_view_def by (auto simp: view_simps split: prod.split)
  then show ?thesis
    unfolding docs_view_def by (simp add: view_simps topics_confined article_confined search_confined)
qed

text \<open>
  C23: The documentation has no dead entry, and its copy buttons copy what they stand beside. Whatever the page's state, each topic, card
  and search result on the screen names an article and opens just that article, a result closing the search; and a button that copies
  puts the code of its own section, as it is shown, on the clipboard.
\<close>

theorem docs_entries_alive:
  assumes "a \<in> set (acts x (docs_view p))"
  shows "(a = Open_topic key \<longrightarrow> (\<exists>d\<in>set docArticles. da_id d = key \<and> currentArticle (dc_activeArticleId (docs_do a p)) = d))
    \<and> (a = Open_result key \<longrightarrow> (\<exists>d\<in>set docArticles. da_id d = key \<and> currentArticle (dc_activeArticleId (docs_do a p)) = d)
        \<and> \<not> dc_isSearchOpen (docs_do a p))
    \<and> (a = Copy_section i \<longrightarrow> ds_code (da_sections (currentArticle (dc_activeArticleId p)) ! i) = Some (dc_clipboard (docs_do a p)))"
proof -
  have c: "a \<in> docs_choices p" by (rule confinedD [OF docs_confined assms])
  have "key \<in> da_id ` set docArticles \<Longrightarrow> \<exists>d\<in>set docArticles. da_id d = key \<and> currentArticle key = d"
    by (auto simp: currentArticle_listed)
  with c show ?thesis
    by (auto simp: open_article_def open_result_def copy_code_def Let_def)
qed

theorem docs_entries_alive_witness:
  "Copy_section 0 \<in> set (acts Undef (docs_view (open_article ''installation'' docs_init)))
    \<and> Some (dc_clipboard (docs_do (Copy_section 0) (open_article ''installation'' docs_init))) = ds_code (da_sections article_installation ! 0)"
proof -
  let ?p = "open_article ''installation'' docs_init"
  have n: "currentArticle ''installation'' = article_installation"
    using currentArticle_listed [of article_installation] by (simp add: docArticles_def article_defs)
  then have k: "currentArticle (dc_activeArticleId ?p) = article_installation" by (simp add: open_article_def docs_init_def)
  let ?secs = "da_sections article_installation"
  have e: "renders (each_i ?secs (section_view ?p))" by (simp add: renders_each_i docs_parts_render)
  have z: "0 < length ?secs" and c: "\<exists>code. ds_code (?secs ! 0) = Some code \<and> code \<noteq> []" by (simp_all add: article_defs text_lines_def)
  then have "(0, ?secs ! 0) \<in> set (index_from 0 ?secs)" by (auto simp: index_from_eq set_zip intro: exI [of _ 0])
  moreover have "Copy_section 0 \<in> set (acts Undef (section_view ?p 0 (?secs ! 0)))"
    using c docs_parts_render(3) [of ?p 0 "?secs ! 0"] unfolding section_view_def code_block_def Let_def
    by (auto simp: acts_el_eq acts_node_eq view_simps)
  ultimately have "Copy_section 0 \<in> set (acts Undef (each_i ?secs (section_view ?p)))"
    by (auto simp: acts_each_i [OF e] split_def intro!: bexI [of _ "(0, ?secs ! 0)"])
  then have "Copy_section 0 \<in> set (acts Undef (article_view ?p))"
    using docs_parts_render(4) [of ?p] k unfolding article_view_def Let_def by (simp add: acts_node_eq view_simps)
  then have m: "Copy_section 0 \<in> set (acts Undef (docs_view ?p))"
    using docs_view_renders [of ?p] unfolding docs_view_def by (simp add: acts_node_eq view_simps)
  from docs_entries_alive [OF this, of undefined 0] m show ?thesis by (simp add: k)
qed

end
