(* ===== verification/Animated.thy ===== *)
theory Animated
  imports Embedding SyntheticDataset
begin

text \<open>
  The other exports of \<open>components/ui/AnimatedComponents.tsx\<close>: a card with a light that follows the pointer, a button, a wrapper that
  fades in and a number that counts up. \<open>Math.pow\<close>, whose precision the language leaves open, is a parameter.
\<close>

subsection \<open>The card under the pointer\<close>

record spotlight =
  sl_pos :: "number \<times> number"
  sl_opacity :: number

definition spotlight_init :: spotlight where
  "spotlight_init = \<lparr>sl_pos = (nint 0, nint 0), sl_opacity = nint 0\<rparr>"

datatype 'a spotlight_action = Pointer_moves js | Pointer_enters | Pointer_leaves | Clicked 'a

definition handleMouseMove :: "(number \<times> number) option \<Rightarrow> number \<Rightarrow> number \<Rightarrow> spotlight \<Rightarrow> spotlight" where
  \<comment> \<open>the card's place on the screen, none before it is mounted, and the pointer's\<close>
  "handleMouseMove rect clientX clientY p = (case rect of None \<Rightarrow> p
     | Some (x0, y0) \<Rightarrow> p\<lparr>sl_pos := (nsub clientX x0, nsub clientY y0)\<rparr>)"

definition pointer_enters :: "spotlight \<Rightarrow> spotlight" where
  "pointer_enters p = p\<lparr>sl_opacity := nint 1\<rparr>"

definition pointer_leaves :: "spotlight \<Rightarrow> spotlight" where
  "pointer_leaves p = p\<lparr>sl_opacity := nint 0\<rparr>"

definition SpotlightCard :: "spotlight \<Rightarrow> string \<Rightarrow> (js \<Rightarrow> 'a) option \<Rightarrow> 'a view \<Rightarrow> 'a spotlight_action view" where
  "SpotlightCard p spotlightColor onClick content =
    el ''motion.div'' [(''style.cursor'', Inr (Str (if onClick \<noteq> None then ''pointer'' else ''default'')))]
      ([(''onMouseMove'', Pointer_moves), (''onMouseEnter'', \<lambda>_. Pointer_enters), (''onMouseLeave'', \<lambda>_. Pointer_leaves)]
        @ (case onClick of None \<Rightarrow> [] | Some h \<Rightarrow> [(''onClick'', \<lambda>x. Clicked (h x))])) [
      el ''div'' [
          (''style.opacity'', Inr (Num (sl_opacity p))),
          (''style.background'', Inr (Str (''radial-gradient(400px circle at '' @ to_str (Num (fst (sl_pos p))) @ ''px ''
            @ to_str (Num (snd (sl_pos p))) @ ''px, '' @ spotlightColor @ '', transparent 70%)'')))] [] [],
      node ''div'' [embed Clicked content]]"

subsection \<open>The button\<close>

definition getStyle :: "string \<Rightarrow> (string \<times> js) list" where
  "getStyle variant =
    (if variant = ''primary'' then [(''background'', Str ''var(--color-accent)''), (''color'', Str ''#ffffff''), (''border'', Str ''none'')]
     else if variant = ''gradient'' then [
       (''background'', Str ''linear-gradient(135deg, #8b5cf6 0%, #6366f1 50%, #10b981 100%)''), (''color'', Str ''#ffffff''),
       (''fontWeight'', Num (nint 700)), (''border'', Str ''none'')]
     else if variant = ''outline'' then [
       (''background'', Str ''transparent''), (''color'', Str ''var(--text-primary)''), (''border'', Str ''1px solid var(--border-default)'')]
     else [
       (''background'', Str ''rgba(255, 255, 255, 0.06)''), (''color'', Str ''var(--text-primary)''),
       (''border'', Str ''1px solid var(--border-subtle)'')])"

definition MotionButton :: "string \<Rightarrow> bool \<Rightarrow> string option \<Rightarrow> (js \<Rightarrow> 'a) option \<Rightarrow> 'a view \<Rightarrow> 'a view" where
  \<comment> \<open>the weight 600 of the text stands unless the variant has its own\<close>
  "MotionButton variant off picture onClick content =
    el ''motion.button'' ([
        (''whileHover.scale'', Inr (Num (if off then nint 1 else lit 102 100))),
        (''whileTap.scale'', Inr (Num (if off then nint 1 else lit 97 100))),
        (''disabled'', Inr (Bool off)),
        (''style.cursor'', Inr (Str (if off then ''not-allowed'' else ''pointer''))),
        (''style.opacity'', Inr (Num (if off then lit 5 10 else nint 1)))]
        @ map (\<lambda>(k, v). (''style.'' @ k, Inr v)) (AList.merge [(''fontWeight'', Num (nint 600))] (getStyle variant)))
      (case onClick of None \<Rightarrow> [] | Some h \<Rightarrow> [(''onClick'', h)]) [
      (case picture of None \<Rightarrow> put Undef | Some i \<Rightarrow> node ''span'' [icon i]),
      content]"

subsection \<open>Fading in\<close>

definition directionOffset :: "string \<Rightarrow> (string \<times> js) list" where
  "directionOffset direction = (case map_of [
     (''up'', [(''y'', js_int 24)]), (''down'', [(''y'', js_int (- 24))]), (''left'', [(''x'', js_int 24)]),
     (''right'', [(''x'', js_int (- 24))])] direction of Some o' \<Rightarrow> o' | None \<Rightarrow> [])"

definition FadeIn :: "number \<Rightarrow> string \<Rightarrow> bool \<Rightarrow> 'a view \<Rightarrow> 'a view" where
  \<comment> \<open>what it starts from, what it moves to once it has been in view, and its content\<close>
  "FadeIn delay direction isInView content =
    el ''motion.div'' [
        (''initial'', Inr (Obj ((''opacity'', js_int 0) # directionOffset direction))),
        (''animate'', Inr (Obj (if isInView then [(''opacity'', js_int 1), (''x'', js_int 0), (''y'', js_int 0)] else []))),
        (''transition.delay'', Inr (Num delay))] [] [content]"

subsection \<open>Counting up\<close>

record counter =
  ct_display :: number
  ct_running :: bool

definition counter_init :: counter where
  "counter_init = \<lparr>ct_display = nint 0, ct_running = False\<rparr>"

definition counter_start :: "bool \<Rightarrow> counter \<Rightarrow> counter" where
  \<comment> \<open>the effect: nothing happens before the number is in view\<close>
  "counter_start isInView c = (if isInView then c\<lparr>ct_running := True\<rparr> else c)"

definition tick :: "(number \<Rightarrow> number \<Rightarrow> number) \<Rightarrow> number \<Rightarrow> number \<Rightarrow> counter \<Rightarrow> counter" where
  \<comment> \<open>a frame, so many milliseconds after the start; it asks for the next one unless the end is reached\<close>
  "tick pow value elapsed c = (let progress = nmin (ndiv elapsed (nint 1200)) (nint 1);
       eased = nsub (nint 1) (pow (nsub (nint 1) progress) (nint 3))
     in c\<lparr>ct_display := nround (nadd (nint 0) (nmul (nsub value (nint 0)) eased)), ct_running := nless progress (nint 1)\<rparr>)"

definition AnimatedCounter :: "locale_fns \<Rightarrow> string \<Rightarrow> string \<Rightarrow> counter \<Rightarrow> 'a view" where
  "AnimatedCounter lc before after c =
    node ''span'' [put (Str before), put (Str (loc_number lc (ct_display c))), put (Str after)]"

subsection \<open>Lemmas\<close>

lemma merged_styles_run: "list_all (\<lambda>(k, e). runs e) (map (\<lambda>(k, v). (f k, Inr v)) xs)"
  by (auto simp: list_all_iff)

lemma motion_button_renders: "renders (MotionButton variant off picture onClick content) \<longleftrightarrow> renders content"
  unfolding MotionButton_def by (auto simp: view_simps merged_styles_run split: option.split)

lemma disabled_button_quiet: "confined A content \<Longrightarrow> confined A (MotionButton variant True picture onClick content)"
  unfolding MotionButton_def by (auto simp: view_simps split: option.split intro!: confined_el)

lemma spotlight_renders: "renders (SpotlightCard p c onClick content) \<longleftrightarrow> renders content"
  unfolding SpotlightCard_def by (simp add: view_simps)

lemma fade_in_renders: "renders (FadeIn d direction v content) \<longleftrightarrow> renders content"
  unfolding FadeIn_def by (simp add: view_simps)

lemma counter_ends:
  \<comment> \<open>the number asks for frames during 1200 milliseconds and then shows its value, whatever \<open>Math.pow\<close> did in between\<close>
  assumes "\<bar>v\<bar> \<le> 2 ^ 53" and "0 \<le> e" and "e \<le> 2 ^ 53" and "pow (nint 0) (nint 3) = nint 0"
  shows "ct_running (tick pow (nint v) (nint e) c) \<longleftrightarrow> e < 1200"
    and "1200 \<le> e \<Longrightarrow> ct_display (tick pow (nint v) (nint e) c) = nint v"
proof -
  have q: "ndiv (nint e) (nint 1200) = Fin (rnd (of_int e / 1200))"
    using assms(2,3) by (simp add: to_number_bounded)
  have big: "1 \<le> rnd (of_int e / 1200)" if "1200 \<le> e"
    using that is_double_int [of 1] by (intro le_rnd) simp_all
  have small: "rnd (of_int e / 1200) < 1" if "e < 1200"
  proof -
    have "(of_int e :: rat) \<le> 1199" using that by (simp add: of_int_le_numeral_iff)
    then have "rnd (of_int e / 1200) \<le> rnd (1199 / 1200)" by (intro rnd_mono) simp
    also have "\<dots> < 1" by (simp add: num_eval)
    finally show ?thesis .
  qed
  show "ct_running (tick pow (nint v) (nint e) c) \<longleftrightarrow> e < 1200"
    unfolding tick_def Let_def q using big small by (cases "e < 1200") auto
  assume e: "1200 \<le> e"
  then have p: "nmin (Fin (rnd (of_int e / 1200))) (nint 1) = nint 1" using big [OF e] by auto
  have n: "nsub (nint 1) (nint 1) = nint 0" "nsub (nint 1) (nint 0) = nint 1" "nsub (nint v) (nint 0) = nint v"
    "nmul (nint v) (nint 1) = nint v" "nadd (nint 0) (nint v) = nint v"
    using assms(1) to_number_int [of 0] to_number_int [of 1] by (simp_all add: nsub_def)
  have h: "\<lfloor>1 / 2 :: rat\<rfloor> = 0" by (simp add: floor_eq_iff)
  show "ct_display (tick pow (nint v) (nint e) c) = nint v"
    unfolding tick_def Let_def q p by (simp only: n assms(4)) (simp add: h to_number_int [OF assms(1)])
qed

end
