(* ===== verification/Canvas.thy ===== *)
theory Canvas
  imports SyntheticDataset
begin

text \<open>
  The two-dimensional canvas the animated backgrounds draw on. A drawing is a list of calls; the canvas is its pen (the
  drawing state that \<open>save\<close> and \<open>restore\<close> keep on a stack), the current path and the marks made. As the HTML standard has
  it, a path call with a coordinate that is not finite does nothing, a negative radius throws, \<open>createRadialGradient\<close> throws
  on either, and a property set to a value out of its range keeps the old one. Whether a colour can be parsed is left open.
  \<open>Math.sin\<close> and the others whose precision the language leaves open are the parameter \<open>maths\<close>.
\<close>

subsection \<open>Calls\<close>

datatype paint = Colour string
  | Radial number number number number number number "(number \<times> string) list"

datatype draw =
    Clear_rect number number number number | Fill_rect number number number number
  | Begin_path | Move_to number number | Line_to number number
  | Arc number number number number number
  | Ellipse number number number number number number number
  | Stroke | Fill | Fill_text string number number
  | Save | Restore
  | Translate number number | Rotate number | Set_transform number number number number number number
  | Fill_style paint | Stroke_style paint | Line_width number | Alpha number
  | Shadow_colour string | Shadow_blur number | Font string | Text_align string

subsection \<open>The canvas\<close>

record pen =
  pen_fill :: paint
  pen_stroke :: paint
  pen_width :: number
  pen_alpha :: number
  pen_shadow :: string
  pen_blur :: number
  pen_font :: string
  pen_align :: string
  pen_place :: "draw list"  \<comment> \<open>the calls that moved the coordinate system\<close>

datatype mark = Wiped number number number number | Painted pen number number number number
  | Stroked pen "draw list" | Filled pen "draw list" | Lettered pen string number number

record canvas =
  cv_pen :: pen
  cv_stack :: "pen list"
  cv_path :: "draw list"
  cv_marks :: "mark list"

definition fresh_pen :: pen where
  "fresh_pen = \<lparr>pen_fill = Colour ''#000000'', pen_stroke = Colour ''#000000'', pen_width = nint 1, pen_alpha = nint 1,
     pen_shadow = ''rgba(0, 0, 0, 0)'', pen_blur = nint 0, pen_font = ''10px sans-serif'', pen_align = ''start'', pen_place = []\<rparr>"

definition fresh_canvas :: canvas where
  \<comment> \<open>also what setting the canvas's size leaves\<close>
  "fresh_canvas = \<lparr>cv_pen = fresh_pen, cv_stack = [], cv_path = [], cv_marks = []\<rparr>"

fun finite_number :: "number \<Rightarrow> bool" where
  "finite_number (Fin x) = True"
| "finite_number _ = False"

definition index_size_error :: err where
  "index_size_error = builtin_err CError ''IndexSizeError'' ''radius is negative''"

fun paint_error :: "paint \<Rightarrow> err option" where
  \<comment> \<open>\<open>createRadialGradient\<close> and \<open>addColorStop\<close>\<close>
  "paint_error (Colour c) = None"
| "paint_error (Radial x0 y0 r0 x1 y1 r1 cs) =
    (if \<not> list_all finite_number [x0, y0, r0, x1, y1, r1] then Some (type_error ''The provided double value is non-finite'')
     else if nless r0 (nint 0) \<or> nless r1 (nint 0) then Some index_size_error
     else if \<not> list_all (finite_number \<circ> fst) cs then Some (type_error ''The provided double value is non-finite'')
     else if list_ex (\<lambda>(p, _). nless p (nint 0) \<or> nless (nint 1) p) cs then Some index_size_error
     else None)"

fun draw_error :: "draw \<Rightarrow> err option" where
  "draw_error (Arc x y r a b) =
    (if list_all finite_number [x, y, r, a, b] \<and> nless r (nint 0) then Some index_size_error else None)"
| "draw_error (Ellipse x y rx ry turn a b) =
    (if list_all finite_number [x, y, rx, ry, turn, a, b] \<and> (nless rx (nint 0) \<or> nless ry (nint 0)) then Some index_size_error
     else None)"
| "draw_error (Fill_style p) = paint_error p"
| "draw_error (Stroke_style p) = paint_error p"
| "draw_error _ = None"

definition with_pen :: "(pen \<Rightarrow> pen) \<Rightarrow> canvas \<Rightarrow> canvas" where
  "with_pen f c = c\<lparr>cv_pen := f (cv_pen c)\<rparr>"

definition moved :: "draw \<Rightarrow> number list \<Rightarrow> canvas \<Rightarrow> canvas" where
  "moved d ns c = (if list_all finite_number ns then with_pen (pen_place_update (\<lambda>p. p @ [d])) c else c)"

definition traced :: "draw \<Rightarrow> number list \<Rightarrow> canvas \<Rightarrow> canvas" where
  "traced d ns c = (if list_all finite_number ns then c\<lparr>cv_path := cv_path c @ [d]\<rparr> else c)"

definition marked :: "mark \<Rightarrow> canvas \<Rightarrow> canvas" where
  "marked k c = c\<lparr>cv_marks := cv_marks c @ [k]\<rparr>"

fun drawn :: "draw \<Rightarrow> canvas \<Rightarrow> canvas" where
  \<comment> \<open>the effect of a call that does not throw\<close>
  "drawn (Clear_rect x y w h) c = (if list_all finite_number [x, y, w, h] then marked (Wiped x y w h) c else c)"
| "drawn (Fill_rect x y w h) c = (if list_all finite_number [x, y, w, h] then marked (Painted (cv_pen c) x y w h) c else c)"
| "drawn Begin_path c = c\<lparr>cv_path := []\<rparr>"
| "drawn (Move_to x y) c = traced (Move_to x y) [x, y] c"
| "drawn (Line_to x y) c = traced (Line_to x y) [x, y] c"
| "drawn (Arc x y r a b) c = traced (Arc x y r a b) [x, y, r, a, b] c"
| "drawn (Ellipse x y rx ry turn a b) c = traced (Ellipse x y rx ry turn a b) [x, y, rx, ry, turn, a, b] c"
| "drawn Stroke c = marked (Stroked (cv_pen c) (cv_path c)) c"
| "drawn Fill c = marked (Filled (cv_pen c) (cv_path c)) c"
| "drawn (Fill_text t x y) c = (if list_all finite_number [x, y] then marked (Lettered (cv_pen c) t x y) c else c)"
| "drawn Save c = c\<lparr>cv_stack := cv_pen c # cv_stack c\<rparr>"
| "drawn Restore c = (case cv_stack c of [] \<Rightarrow> c | p # ps \<Rightarrow> c\<lparr>cv_pen := p, cv_stack := ps\<rparr>)"
| "drawn (Translate x y) c = moved (Translate x y) [x, y] c"
| "drawn (Rotate a) c = moved (Rotate a) [a] c"
| "drawn (Set_transform p q r s x y) c =
    (if list_all finite_number [p, q, r, s, x, y] then with_pen (pen_place_update (\<lambda>_. [Set_transform p q r s x y])) c else c)"
| "drawn (Fill_style p) c = with_pen (pen_fill_update (\<lambda>_. p)) c"
| "drawn (Stroke_style p) c = with_pen (pen_stroke_update (\<lambda>_. p)) c"
| "drawn (Line_width w) c = (if finite_number w \<and> nless (nint 0) w then with_pen (pen_width_update (\<lambda>_. w)) c else c)"
| "drawn (Alpha a) c = (if nleq (nint 0) a \<and> nleq a (nint 1) then with_pen (pen_alpha_update (\<lambda>_. a)) c else c)"
| "drawn (Shadow_colour s) c = with_pen (pen_shadow_update (\<lambda>_. s)) c"
| "drawn (Shadow_blur b) c = (if finite_number b \<and> nleq (nint 0) b then with_pen (pen_blur_update (\<lambda>_. b)) c else c)"
| "drawn (Font f) c = with_pen (pen_font_update (\<lambda>_. f)) c"
| "drawn (Text_align a) c = with_pen (pen_align_update (\<lambda>_. a)) c"

fun draws :: "draw list \<Rightarrow> canvas \<Rightarrow> err + canvas" where
  "draws [] c = Inr c"
| "draws (d # ds) c = (case draw_error d of Some e \<Rightarrow> Inl e | None \<Rightarrow> draws ds (drawn d c))"

subsection \<open>Functions of \<open>Math\<close>\<close>

record maths =
  Sin :: "number \<Rightarrow> number"
  Cos :: "number \<Rightarrow> number"
  Acos :: "number \<Rightarrow> number"
  Sqrt :: "number \<Rightarrow> number"
  Cbrt :: "number \<Rightarrow> number"
  Pow :: "number \<Rightarrow> number \<Rightarrow> number"

definition Pi :: number where
  \<comment> \<open>\<open>Math.PI\<close>, the double nearest to it\<close>
  "Pi = lit 884279719003555 281474976710656"

definition full_turn :: number where
  "full_turn = nmul Pi (nint 2)"

subsection \<open>Drawing without exceptions\<close>

named_theorems draw_simps

definition safe_draw :: "draw \<Rightarrow> bool" where
  "safe_draw d \<longleftrightarrow> draw_error d = None"

lemma draws_iff: "(\<exists>c'. draws ds c = Inr c') \<longleftrightarrow> list_all safe_draw ds"
  by (induction ds arbitrary: c) (auto simp: safe_draw_def split: option.split)

lemma safe_draw_simps [simp, draw_simps]:
  "safe_draw (Clear_rect x y w h)" "safe_draw (Fill_rect x y w h)" "safe_draw Begin_path" "safe_draw (Move_to x y)"
  "safe_draw (Line_to x y)" "safe_draw Stroke" "safe_draw Fill" "safe_draw (Fill_text t x y)" "safe_draw Save"
  "safe_draw Restore" "safe_draw (Translate x y)" "safe_draw (Rotate a)" "safe_draw (Set_transform p q r s x y)"
  "safe_draw (Fill_style (Colour k))" "safe_draw (Stroke_style (Colour k))" "safe_draw (Line_width w)" "safe_draw (Alpha a)"
  "safe_draw (Shadow_colour k)" "safe_draw (Shadow_blur b)" "safe_draw (Font f)" "safe_draw (Text_align g)"
  by (simp_all add: safe_draw_def)

lemma nless_max: "nless (nmax a b) (nint 0) \<Longrightarrow> nless b (nint 0) \<and> nless a (nint 0)"
  by (cases a; cases b; auto split: if_splits)

lemma safe_arc: "\<not> nless r (nint 0) \<Longrightarrow> safe_draw (Arc x y r a b)"
  by (simp add: safe_draw_def)

lemma safe_arc_max:
  assumes "0 \<le> q" shows "safe_draw (Arc x y (nmax (Fin q) r) a b)" and "safe_draw (Arc x y (nmax r (Fin q)) a b)"
  using assms nless_max [of "Fin q" r] nless_max [of r "Fin q"] by (auto intro!: safe_arc)

lemma safe_fill_radial:
  "safe_draw (Fill_style (Radial x0 y0 r0 x1 y1 r1 cs)) \<longleftrightarrow> paint_error (Radial x0 y0 r0 x1 y1 r1 cs) = None"
  by (simp add: safe_draw_def)

lemma draws_append: "draws (xs @ ys) c = (case draws xs c of Inl e \<Rightarrow> Inl e | Inr c' \<Rightarrow> draws ys c')"
  by (induction xs arbitrary: c) (auto split: option.split)

subsection \<open>Bounds of computed numbers\<close>

text \<open>\<open>lies a b n\<close>: a finite number between two whole ones. Rounding keeps such bounds.\<close>

definition lies :: "int \<Rightarrow> int \<Rightarrow> number \<Rightarrow> bool" where
  "lies a b n \<longleftrightarrow> (\<exists>x. n = Fin x \<and> of_int a \<le> x \<and> x \<le> of_int b)"

lemma lies_finite: "lies a b n \<Longrightarrow> finite_number n"
  by (auto simp: lies_def)

lemma lies_nonneg: "lies a b n \<Longrightarrow> 0 \<le> a \<Longrightarrow> \<not> nless n (nint 0)"
  by (auto simp: lies_def not_less intro: order_trans [of _ "of_int a"])

lemma lies_weaken: "lies a b n \<Longrightarrow> a' \<le> a \<Longrightarrow> b \<le> b' \<Longrightarrow> lies a' b' n"
proof -
  assume "lies a b n" "a' \<le> a" "b \<le> b'"
  moreover from this(2,3) have "(of_int a' :: rat) \<le> of_int a" "(of_int b :: rat) \<le> of_int b'" by simp_all
  ultimately show ?thesis unfolding lies_def by (blast intro: order_trans)
qed

lemma lies_nint [simp]: "lies a b (nint n) \<longleftrightarrow> a \<le> n \<and> n \<le> b"
  by (auto simp: lies_def)

lemma lies_numeral [simp]:
  "lies a b (Fin 0) \<longleftrightarrow> a \<le> 0 \<and> 0 \<le> b" "lies a b (Fin 1) \<longleftrightarrow> a \<le> 1 \<and> 1 \<le> b"
  "lies a b (Fin (numeral k)) \<longleftrightarrow> a \<le> numeral k \<and> numeral k \<le> b"
  "lies a b (Fin (- numeral k)) \<longleftrightarrow> a \<le> - numeral k \<and> - numeral k \<le> b"
  using lies_nint [of a b 0] lies_nint [of a b 1] lies_nint [of a b "numeral k"] lies_nint [of a b "- numeral k"] by simp_all

lemma lies_to_number:
  assumes "of_int a \<le> x" "x \<le> of_int b" "\<bar>a\<bar> \<le> 2 ^ 53" "\<bar>b\<bar> \<le> 2 ^ 53"
  shows "lies a b (to_number x)"
proof -
  have "of_int a \<le> rnd x" "rnd x \<le> of_int b"
    using assms is_double_int by (auto intro: le_rnd rnd_le)
  moreover have "to_number x = Fin (rnd x)"
  proof (rule to_number_bounded)
    have "- (2 ^ 53) \<le> a" "b \<le> 2 ^ 53" using assms(3,4) by (simp_all add: abs_le_iff)
    then have "(of_int (- (2 ^ 53)) :: rat) \<le> of_int a" "(of_int b :: rat) \<le> of_int (2 ^ 53)" by (simp_all only: of_int_le_iff)
    then show "\<bar>x\<bar> \<le> 2 ^ 53" using assms(1,2) by (simp add: abs_le_iff)
  qed
  ultimately show ?thesis by (auto simp: lies_def)
qed

lemma lies_nadd:
  "lies a b x \<Longrightarrow> lies c d y \<Longrightarrow> \<bar>a + c\<bar> \<le> 2 ^ 53 \<Longrightarrow> \<bar>b + d\<bar> \<le> 2 ^ 53 \<Longrightarrow> lies (a + c) (b + d) (nadd x y)"
  by (auto simp: lies_def [of a] lies_def [of c] intro!: lies_to_number add_mono)

lemma lies_nneg: "lies a b x \<Longrightarrow> lies (- b) (- a) (nneg x)"
  by (auto simp: lies_def)

lemma lies_nsub:
  "lies a b x \<Longrightarrow> lies c d y \<Longrightarrow> \<bar>a - d\<bar> \<le> 2 ^ 53 \<Longrightarrow> \<bar>b - c\<bar> \<le> 2 ^ 53 \<Longrightarrow> lies (a - d) (b - c) (nsub x y)"
  using lies_nadd [OF _ lies_nneg, of a b x c d y] by (simp add: nsub_def)

lemma lies_nmul:
  assumes "lies (- a) a x" "lies (- b) b y" "a * b \<le> 2 ^ 53"
  shows "lies (- (a * b)) (a * b) (nmul x y)"
proof -
  obtain p q where pq: "x = Fin p" "y = Fin q" "\<bar>p\<bar> \<le> of_int a" "\<bar>q\<bar> \<le> of_int b"
    using assms(1,2) by (auto simp: lies_def abs_le_iff)
  then have "0 \<le> (of_int a :: rat)" "0 \<le> (of_int b :: rat)" by linarith+
  then have "\<bar>p * q\<bar> \<le> of_int (a * b)" and "0 \<le> a * b"
    using pq(3,4) by (simp_all add: abs_mult mult_mono)
  then show ?thesis using pq(1,2) assms(3) by (auto simp: abs_le_iff intro!: lies_to_number)
qed

lemma lies_nmul_nonneg:
  assumes "lies 0 a x" "lies 0 b y" "a * b \<le> 2 ^ 53"
  shows "lies 0 (a * b) (nmul x y)"
proof -
  obtain p q where pq: "x = Fin p" "y = Fin q" "0 \<le> p" "p \<le> of_int a" "0 \<le> q" "q \<le> of_int b"
    using assms(1,2) by (auto simp: lies_def)
  then have "0 \<le> (of_int a :: rat)" "0 \<le> (of_int b :: rat)" by linarith+
  then have "p * q \<le> of_int (a * b)" "0 \<le> a * b" using pq by (simp_all add: mult_mono)
  then show ?thesis using pq assms(3) by (auto intro!: lies_to_number)
qed

lemma lies_ndiv:
  assumes "lies 0 (a * w) x" "1 \<le> w" "\<bar>a\<bar> \<le> 2 ^ 53"
  shows "lies 0 a (ndiv x (nint w))"
proof -
  obtain p where "x = Fin p" "0 \<le> p" "p \<le> of_int (a * w)" using assms(1) by (auto simp: lies_def)
  moreover have "0 < (of_int w :: rat)" using assms(2) by simp
  ultimately show ?thesis using assms(2,3) by (auto simp: divide_le_eq intro!: lies_to_number)
qed

lemma lies_lit:
  assumes "a * d \<le> n" "n \<le> b * d" "0 < d" "\<bar>a\<bar> \<le> 2 ^ 53" "\<bar>b\<bar> \<le> 2 ^ 53"
  shows "lies a b (lit n d)"
proof -
  have "(of_int (a * d) :: rat) \<le> of_int n" "(of_int n :: rat) \<le> of_int (b * d)"
    using assms(1,2) by (simp_all only: of_int_le_iff)
  then show ?thesis using assms(3-5)
    unfolding lit_def by (intro lies_to_number) (simp_all add: le_divide_eq divide_le_eq)
qed

lemma nadd_finite:
  assumes "lies (- (2 ^ 53)) (2 ^ 53) x" "lies (- (2 ^ 53)) (2 ^ 53) y"
  shows "finite_number (nadd x y)"
proof -
  obtain p q where pq: "x = Fin p" "y = Fin q" "\<bar>p\<bar> \<le> 2 ^ 53" "\<bar>q\<bar> \<le> 2 ^ 53"
    using assms by (auto simp: lies_def abs_le_iff)
  have d: "is_double (2 ^ 54)"
    unfolding is_double_def by (rule exI [of _ "2 ^ 52"], rule exI [of _ 2]) (simp add: pow2_def)
  have big: "(2 :: rat) ^ 54 < overflow" unfolding overflow_def by (rule power_strict_increasing) simp_all
  have "p + q \<le> 2 ^ 54" "- (p + q) \<le> 2 ^ 54" using pq(3,4) by (simp_all add: abs_le_iff)
  from this [THEN rnd_le, OF d] have "rnd (p + q) \<le> 2 ^ 54" "rnd (- (p + q)) \<le> 2 ^ 54" .
  with big show ?thesis using pq(1,2) by (simp add: to_number_def Let_def del: minus_add_distrib)
qed

definition math_ok :: "maths \<Rightarrow> bool" where
  \<comment> \<open>what the range of sine and of squares promises, however they are approximated\<close>
  "math_ok m \<longleftrightarrow> (\<forall>x. lies (- 1) 1 (Sin m (Fin x))) \<and> (\<forall>x. lies 0 2 (Fin x) \<longrightarrow> lies 0 4 (Pow m (Fin x) (nint 2)))"

definition flat_maths :: maths where
  \<comment> \<open>one choice\<close>
  "flat_maths = \<lparr>Sin = \<lambda>_. nint 0, Cos = \<lambda>_. nint 1, Acos = \<lambda>_. nint 0, Sqrt = \<lambda>_. nint 0, Cbrt = \<lambda>_. nint 0,
     Pow = \<lambda>x _. if x = NaN then NaN else nint 1\<rparr>"

subsection \<open>Brackets\<close>

fun flat :: "draw \<Rightarrow> bool" where
  "flat Save = False"
| "flat Restore = False"
| "flat d = True"

lemma flat_stack: "flat d \<Longrightarrow> cv_stack (drawn d c) = cv_stack c"
  by (cases d) (auto simp: with_pen_def moved_def traced_def marked_def)

lemma draws_flat: "list_all flat ds \<Longrightarrow> draws ds c = Inr c' \<Longrightarrow> cv_stack c' = cv_stack c"
  by (induction ds arbitrary: c) (auto simp: flat_stack split: option.splits)

lemma draws_bracket:
  \<comment> \<open>what stands between \<open>save\<close> and \<open>restore\<close> leaves the pen alone\<close>
  assumes "list_all flat ds" and "draws (Save # ds @ [Restore]) c = Inr c'"
  shows "cv_pen c' = cv_pen c \<and> cv_stack c' = cv_stack c"
proof -
  obtain c1 where c1: "draws ds (drawn Save c) = Inr c1" and c': "c' = drawn Restore c1"
    using assms(2) by (auto simp: draws_append split: sum.splits)
  from draws_flat [OF assms(1) c1] show ?thesis by (simp add: c')
qed

definition bracketed :: "draw list \<Rightarrow> bool" where
  "bracketed ds \<longleftrightarrow> (\<exists>body. ds = Save # body @ [Restore] \<and> list_all flat body)"

lemma draws_brackets:
  "list_all bracketed dss \<Longrightarrow> draws (concat dss) c = Inr c' \<Longrightarrow> cv_pen c' = cv_pen c \<and> cv_stack c' = cv_stack c"
proof (induction dss arbitrary: c)
  case (Cons ds dss)
  obtain c1 where c1: "draws ds c = Inr c1" "draws (concat dss) c1 = Inr c'"
    using Cons.prems(2) by (auto simp: draws_append split: sum.splits)
  obtain body where "ds = Save # body @ [Restore]" "list_all flat body" using Cons.prems(1) by (auto simp: bracketed_def)
  then have "cv_pen c1 = cv_pen c \<and> cv_stack c1 = cv_stack c" using draws_bracket c1(1) by blast
  with Cons.IH [of c1] c1(2) Cons.prems(1) show ?case by simp
qed simp

end
