(* ===== verification/HeroCanvas.thy ===== *)
theory HeroCanvas
  imports Canvas
begin

text \<open>
  What \<open>components/ui/LightStreakHero.tsx\<close> draws: six waving streaks and a flare, anew at every frame, each frame asking for the
  next. The effect's state is the size it took from the window, the frame counter, the frame it has asked for, its listener and the
  canvas. The widths and heights of a window are whole numbers.
\<close>

subsection \<open>Streaks\<close>

record hero_streak =
  hk_yOffset :: number
  hk_speed :: number
  hk_amplitude :: number
  hk_frequency :: number
  hk_phase :: number
  hk_thickness :: number
  hk_color :: string
  hk_glowColor :: string
  hk_blur :: number
  hk_opacity :: number

definition hero_streaks :: "hero_streak list" where
  "hero_streaks = [
    \<lparr>hk_yOffset = lit 42 100, hk_speed = lit 3 1000, hk_amplitude = nint 60, hk_frequency = lit 18 10000, hk_phase = nint 0,
     hk_thickness = lit 35 10, hk_color = ''#ffffff'', hk_glowColor = ''#38bdf8'', hk_blur = nint 16, hk_opacity = lit 95 100\<rparr>,
    \<lparr>hk_yOffset = lit 40 100, hk_speed = lit 25 10000, hk_amplitude = nint 80, hk_frequency = lit 15 10000, hk_phase = lit 12 10,
     hk_thickness = nint 4, hk_color = ''#38bdf8'', hk_glowColor = ''#0ea5e9'', hk_blur = nint 24, hk_opacity = lit 85 100\<rparr>,
    \<lparr>hk_yOffset = lit 45 100, hk_speed = lit 18 10000, hk_amplitude = nint 110, hk_frequency = lit 12 10000, hk_phase = lit 25 10,
     hk_thickness = nint 6, hk_color = ''#818cf8'', hk_glowColor = ''#6366f1'', hk_blur = nint 35, hk_opacity = lit 75 100\<rparr>,
    \<lparr>hk_yOffset = lit 35 100, hk_speed = lit 2 1000, hk_amplitude = nint 95, hk_frequency = lit 14 10000, hk_phase = lit 38 10,
     hk_thickness = nint 5, hk_color = ''#c084fc'', hk_glowColor = ''#a855f7'', hk_blur = nint 30, hk_opacity = lit 7 10\<rparr>,
    \<lparr>hk_yOffset = lit 50 100, hk_speed = lit 15 10000, hk_amplitude = nint 130, hk_frequency = lit 1 1000, hk_phase = lit 49 10,
     hk_thickness = nint 7, hk_color = ''#ec4899'', hk_glowColor = ''#f43f5e'', hk_blur = nint 40, hk_opacity = lit 55 100\<rparr>,
    \<lparr>hk_yOffset = lit 38 100, hk_speed = lit 12 10000, hk_amplitude = nint 150, hk_frequency = lit 8 10000, hk_phase = lit 8 10,
     hk_thickness = nint 12, hk_color = ''#3b82f6'', hk_glowColor = ''#1d4ed8'', hk_blur = nint 60, hk_opacity = lit 4 10\<rparr>]"

function columns :: "int \<Rightarrow> int \<Rightarrow> int list" where
  \<comment> \<open>the loop over \<open>x\<close>\<close>
  "columns x width = (if x \<le> width then x # columns (x + 12) width else [])"
  by auto
termination by (relation "measure (\<lambda>(x, width). nat (width + 12 - x))") auto

declare columns.simps [simp del]

definition crest :: "maths \<Rightarrow> int \<Rightarrow> int \<Rightarrow> number \<Rightarrow> hero_streak \<Rightarrow> int \<Rightarrow> draw" where
  \<comment> \<open>the body of the loop\<close>
  "crest m width height t s x = (let baseY = nmul (nint height) (hk_yOffset s);
       curveX = ndiv (nint x) (nint width);
       arch = nmul (Pow m curveX (nint 2)) (nint (- 120));
       wave = nmul (nmul (Sin m (nadd (nadd (nmul (nint x) (hk_frequency s)) (nmul t (hk_speed s))) (hk_phase s))) (hk_amplitude s))
                (nadd (lit 6 10) (nmul curveX (lit 8 10)))
     in Line_to (nint x) (nadd (nadd baseY arch) wave))"

definition draw_streak :: "maths \<Rightarrow> bool \<Rightarrow> int \<Rightarrow> int \<Rightarrow> number \<Rightarrow> hero_streak \<Rightarrow> draw list" where
  "draw_streak m isLight width height t s =
    [Save, Begin_path,
     Move_to (nint 0) (nadd (nmul (nint height) (hk_yOffset s))
       (nmul (Sin m (nadd (nmul t (hk_speed s)) (hk_phase s))) (hk_amplitude s)))]
    @ map (crest m width height t s) (columns 0 width)
    @ [Stroke_style (Colour (if isLight then (if hk_color s = ''#ffffff'' then ''#6366f1'' else hk_color s) else hk_color s)),
       Line_width (hk_thickness s),
       Shadow_colour (hk_glowColor s),
       Shadow_blur (if isLight then nmul (hk_blur s) (lit 7 10) else hk_blur s),
       Alpha (if isLight then nmul (hk_opacity s) (lit 75 100) else hk_opacity s),
       Stroke]
    @ (if \<not> isLight then
        [Line_width (nmax (nint 1) (nmul (hk_thickness s) (lit 4 10))),
         Stroke_style (Colour ''#ffffff''),
         Alpha (nmul (hk_opacity s) (lit 9 10)),
         Shadow_blur (nmul (hk_blur s) (lit 5 10)),
         Stroke] else [])
    @ [Restore]"

subsection \<open>A frame\<close>

definition hero_background :: "bool \<Rightarrow> int \<Rightarrow> int \<Rightarrow> draw list" where
  "hero_background isLight width height =
    [Clear_rect (nint 0) (nint 0) (nint width) (nint height),
     Fill_style (Radial (nmul (nint width) (lit 75 100)) (nmul (nint height) (lit 4 10)) (nint 50)
       (nmul (nint width) (lit 75 100)) (nmul (nint height) (lit 4 10)) (nmul (nint width) (lit 85 100))
       (if isLight then [(nint 0, ''rgba(219, 234, 254, 0.4)''), (lit 5 10, ''rgba(243, 232, 255, 0.25)''),
          (nint 1, ''rgba(248, 250, 252, 0)'')]
        else [(nint 0, ''rgba(14, 25, 60, 0.45)''), (lit 5 10, ''rgba(6, 12, 32, 0.3)''), (nint 1, ''rgba(3, 7, 18, 0)'')])),
     Fill_rect (nint 0) (nint 0) (nint width) (nint height)]"

definition flare_at :: "maths \<Rightarrow> int \<Rightarrow> int \<Rightarrow> number \<Rightarrow> number \<times> number" where
  "flare_at m width height t = (let flareProgress = ndiv (nadd (Sin m (nmul t (lit 15 10000))) (nint 1)) (nint 2);
       flareX = nmul (nint width) (nadd (lit 15 100) (nmul flareProgress (lit 75 100)));
       flareY = nadd (nsub (nmul (nint height) (lit 42 100)) (nmul (Pow m (ndiv flareX (nint width)) (nint 2)) (nint 120)))
         (nmul (Sin m (nadd (nmul flareX (lit 18 10000)) (nmul t (lit 3 1000)))) (nint 60))
     in (flareX, flareY))"

definition draw_flare :: "bool \<Rightarrow> number \<times> number \<Rightarrow> draw list" where
  "draw_flare isLight p =
    [Save,
     Fill_style (Radial (fst p) (snd p) (nint 0) (fst p) (snd p) (nint 180)
       (if isLight then [(nint 0, ''rgba(147, 197, 253, 0.8)''), (lit 3 10, ''rgba(192, 132, 252, 0.4)''),
          (nint 1, ''rgba(255, 255, 255, 0)'')]
        else [(nint 0, ''rgba(255, 255, 255, 0.95)''), (lit 2 10, ''rgba(56, 189, 248, 0.8)''),
          (lit 5 10, ''rgba(139, 92, 246, 0.35)''), (nint 1, ''rgba(0, 0, 0, 0)'')])),
     Begin_path,
     Arc (fst p) (snd p) (nint 180) (nint 0) full_turn,
     Fill,
     Begin_path,
     Ellipse (fst p) (snd p) (nint 320) (lit 25 10) (nint 0) (nint 0) full_turn,
     Fill_style (Colour (if isLight then ''#6366f1'' else ''#ffffff'')),
     Shadow_colour ''#38bdf8'',
     Shadow_blur (if isLight then nint 15 else nint 30),
     Fill,
     Restore]"

definition hero_drawing :: "maths \<Rightarrow> bool \<Rightarrow> int \<Rightarrow> int \<Rightarrow> number \<Rightarrow> draw list" where
  "hero_drawing m isLight width height t =
    hero_background isLight width height
    @ concat (map (draw_streak m isLight width height t) hero_streaks)
    @ draw_flare isLight (flare_at m width height t)"

record hero_canvas =
  hc_width :: int
  hc_height :: int
  hc_t :: number
  hc_frame :: bool  \<comment> \<open>a frame is asked for\<close>
  hc_listening :: bool
  hc_canvas :: canvas

definition hero_render :: "maths \<Rightarrow> bool \<Rightarrow> hero_canvas \<Rightarrow> err + hero_canvas" where
  "hero_render m isLight s = (case draws (hero_drawing m isLight (hc_width s) (hc_height s) (hc_t s)) (hc_canvas s) of
     Inl e \<Rightarrow> Inl e
   | Inr c \<Rightarrow> Inr (s\<lparr>hc_canvas := c, hc_t := nadd (hc_t s) (nint 1), hc_frame := True\<rparr>))"

definition hero_mount :: "maths \<Rightarrow> bool \<Rightarrow> int \<Rightarrow> int \<Rightarrow> err + hero_canvas" where
  \<comment> \<open>the effect, where the canvas and its context exist\<close>
  "hero_mount m isLight innerWidth innerHeight = hero_render m isLight \<lparr>hc_width = innerWidth, hc_height = innerHeight,
     hc_t = nint 0, hc_frame = False, hc_listening = True, hc_canvas = fresh_canvas\<rparr>"

definition hero_frame :: "maths \<Rightarrow> bool \<Rightarrow> hero_canvas \<Rightarrow> hero_canvas" where
  \<comment> \<open>a frame's callback: an exception in it is reported and nothing more is asked for\<close>
  "hero_frame m isLight s = (case hero_render m isLight s of Inl e \<Rightarrow> s\<lparr>hc_frame := False\<rparr> | Inr s' \<Rightarrow> s')"

definition hero_resize :: "int \<Rightarrow> int \<Rightarrow> hero_canvas \<Rightarrow> hero_canvas" where
  "hero_resize innerWidth innerHeight s = s\<lparr>hc_width := innerWidth, hc_height := innerHeight, hc_canvas := fresh_canvas\<rparr>"

definition hero_unmount :: "hero_canvas \<Rightarrow> hero_canvas" where
  "hero_unmount s = s\<lparr>hc_listening := False, hc_frame := False\<rparr>"

inductive hero_step :: "maths \<Rightarrow> hero_canvas \<Rightarrow> hero_canvas \<Rightarrow> bool" for m where
  step_frame: "hc_frame s \<Longrightarrow> hero_step m s (hero_frame m isLight s)"
| step_resize: "hc_listening s \<Longrightarrow> 0 \<le> w \<Longrightarrow> w < 2 ^ 31 \<Longrightarrow> 0 \<le> h \<Longrightarrow> h < 2 ^ 31 \<Longrightarrow> hero_step m s (hero_resize w h s)"
| step_unmount: "hc_listening s \<Longrightarrow> hero_step m s (hero_unmount s)"

inductive_cases hero_stepE: "hero_step m s s'"

subsection \<open>Frames go on\<close>

definition hero_size :: "int \<Rightarrow> int \<Rightarrow> bool" where
  "hero_size w h \<longleftrightarrow> 0 < w \<and> w < 2 ^ 31 \<and> 0 \<le> h \<and> h < 2 ^ 31"

lemma fraction: "0 \<le> n \<Longrightarrow> n \<le> d \<Longrightarrow> 0 < d \<Longrightarrow> lies 0 1 (lit n d)"
  by (rule lies_lit) simp_all

lemma part_of: "0 \<le> w \<Longrightarrow> w \<le> 2 ^ 53 \<Longrightarrow> lies 0 1 f \<Longrightarrow> lies 0 w (nmul (nint w) f)"
  using lies_nmul_nonneg [of w "nint w" 1 f] by simp

lemma hero_background_safe:
  assumes "hero_size w h" shows "list_all safe_draw (hero_background l w h)"
proof -
  have "lies 0 w (nmul (nint w) (lit 75 100))" "lies 0 h (nmul (nint h) (lit 4 10))" "lies 0 w (nmul (nint w) (lit 85 100))"
    using assms by (auto simp: hero_size_def intro!: part_of fraction)
  moreover have "lies 0 1 (lit 5 10)" by (intro fraction) simp_all
  ultimately show ?thesis
    unfolding hero_background_def by (auto simp: safe_fill_radial lies_def not_less)
qed

lemma hero_streak_safe: "list_all safe_draw (draw_streak m l w h t s)"
  unfolding draw_streak_def by (auto simp: list_all_iff crest_def Let_def)

lemma flare_finite:
  assumes "math_ok m" "hero_size w h" "lies 0 (2 ^ 53) t"
  shows "finite_number (fst (flare_at m w h t)) \<and> finite_number (snd (flare_at m w h t))"
proof -
  define p where "p = ndiv (nadd (Sin m (nmul t (lit 15 10000))) (nint 1)) (nint 2)"
  define x where "x = nmul (nint w) (nadd (lit 15 100) (nmul p (lit 75 100)))"
  have w: "0 < w" "w < 2 ^ 31" "0 \<le> h" "h < 2 ^ 31" using assms(2) by (auto simp: hero_size_def)
  have sin: "lies (- 1) 1 (Sin m n)" if "finite_number n" for n
    using assms(1) that by (cases n) (auto simp: math_ok_def)
  have slow: "lies 0 (2 ^ 53) (nmul t (lit n d))" if "0 \<le> n" "n \<le> d" "0 < d" for n d
    using lies_nmul_nonneg [OF assms(3) fraction [OF that]] by simp
  have "lies 0 (1 * 2) (nadd (Sin m (nmul t (lit 15 10000))) (nint 1))"
    using lies_nadd [OF sin [OF lies_finite [OF slow]], of 15 10000 1 1 "nint 1"] by simp
  then have p: "lies 0 1 p" unfolding p_def by (rule lies_ndiv) simp_all
  have "lies 0 1 (nmul p (lit 75 100))" using lies_nmul_nonneg [OF p fraction, of 75 100] by simp
  then have "lies 0 2 (nadd (lit 15 100) (nmul p (lit 75 100)))"
    using lies_nadd [OF fraction, of 15 100 0 1] by simp
  then have x: "lies 0 (2 * w) x" unfolding x_def using lies_nmul_nonneg [of w "nint w" 2] w by (simp add: mult.commute)
  then have "lies 0 2 (ndiv x (nint w))" using w by (intro lies_ndiv) simp_all
  then have "lies 0 4 (Pow m (ndiv x (nint w)) (nint 2))"
    using assms(1) by (auto simp: math_ok_def lies_def)
  from lies_nmul_nonneg [OF this, of 120 "nint 120"]
  have sq: "lies 0 480 (nmul (Pow m (ndiv x (nint w)) (nint 2)) (nint 120))" by simp
  have y: "lies 0 h (nmul (nint h) (lit 42 100))" using w by (intro part_of fraction) simp_all
  have "lies 0 (2 * w) (nmul x (lit 18 10000))" using lies_nmul_nonneg [OF x fraction, of 18 10000] w by simp
  then have "finite_number (nadd (nmul x (lit 18 10000)) (nmul t (lit 3 1000)))"
    using slow [of 3 1000] w by (intro nadd_finite) (auto elim!: lies_weaken)
  from lies_nmul [of 1 _ 60 "nint 60", OF sin [OF this]]
  have wave: "lies (- 60) 60 (nmul (Sin m (nadd (nmul x (lit 18 10000)) (nmul t (lit 3 1000)))) (nint 60))" by simp
  have "finite_number (nadd (nsub (nmul (nint h) (lit 42 100)) (nmul (Pow m (ndiv x (nint w)) (nint 2)) (nint 120)))
      (nmul (Sin m (nadd (nmul x (lit 18 10000)) (nmul t (lit 3 1000)))) (nint 60)))"
    using lies_nadd [OF lies_nsub [OF y sq] wave] w by (simp add: lies_finite)
  with lies_finite [OF x] show ?thesis
    unfolding flare_at_def Let_def p_def [symmetric] x_def [symmetric] fst_conv snd_conv by blast
qed

lemma flare_safe:
  "list_all safe_draw (draw_flare l p) \<longleftrightarrow> finite_number (fst p) \<and> finite_number (snd p)"
proof -
  have "lies 0 1 (lit 5 10)" "lies 0 1 (lit 3 10)" "lies 0 1 (lit 2 10)" "lies 2 3 (lit 25 10)"
    by (intro fraction lies_lit; simp)+
  then show ?thesis unfolding draw_flare_def by (auto simp: safe_fill_radial safe_arc safe_draw_def lies_def not_less)
qed

lemma hero_frame_goes_on:
  assumes "math_ok m" "hero_size (hc_width s) (hc_height s)" "lies 0 (2 ^ 53) (hc_t s)"
  shows "\<exists>c. hero_render m l s = Inr (s\<lparr>hc_canvas := c, hc_t := nadd (hc_t s) (nint 1), hc_frame := True\<rparr>)"
proof -
  have "list_all safe_draw (hero_drawing m l (hc_width s) (hc_height s) (hc_t s))"
    unfolding hero_drawing_def list_all_append
    using hero_background_safe [OF assms(2)] flare_finite [OF assms]
    by (simp add: flare_safe) (use hero_streak_safe in \<open>auto simp: list_all_iff\<close>)
  then obtain c where "draws (hero_drawing m l (hc_width s) (hc_height s) (hc_t s)) (hc_canvas s) = Inr c"
    using draws_iff by blast
  then have "hero_render m l s = Inr (s\<lparr>hc_canvas := c, hc_t := nadd (hc_t s) (nint 1), hc_frame := True\<rparr>)"
    by (simp add: hero_render_def)
  then show ?thesis ..
qed

lemma count_up: "lies 0 (2 ^ 53) t \<Longrightarrow> lies 0 (2 ^ 53) (nadd t (nint 1))"
  \<comment> \<open>the counter stops at the last whole number that doubles count to\<close>
proof -
  assume "lies 0 (2 ^ 53) t"
  then obtain x where t: "t = Fin x" "0 \<le> x" "x \<le> 2 ^ 53" by (auto simp: lies_def)
  have top: "rnd (2 ^ 53 + 1) = 2 ^ 53" by (simp add: num_eval)
  have "rnd (x + 1) \<le> 2 ^ 53" using rnd_mono [of "x + 1" "2 ^ 53 + 1"] t(3) by (simp only: top)
  moreover have "0 \<le> rnd (x + 1)" using t(2) by (intro rnd_nonneg) simp
  moreover have "(2 :: rat) ^ 53 < overflow" unfolding overflow_def by (rule power_strict_increasing) simp_all
  ultimately show ?thesis by (simp add: t(1) to_number_def Let_def lies_def)
qed

definition hero_alive :: "hero_canvas \<Rightarrow> bool" where
  "hero_alive s \<longleftrightarrow> hc_frame s = hc_listening s \<and> hero_size (hc_width s) (hc_height s) \<and> lies 0 (2 ^ 53) (hc_t s)"

lemma hero_alive_step:
  assumes "math_ok m" "hero_step m s s'" "0 < hc_width s'" "hero_alive s"
  shows "hero_alive s'"
  using assms(2)
proof cases
  case (step_frame isLight)
  with hero_frame_goes_on [OF assms(1), of s isLight] assms(4) count_up [of "hc_t s"]
  show ?thesis by (auto simp: hero_alive_def hero_frame_def)
next
  case (step_resize w h)
  with assms(3,4) show ?thesis by (simp add: hero_alive_def hero_resize_def hero_size_def)
next
  case step_unmount
  with assms(4) show ?thesis by (simp add: hero_alive_def hero_unmount_def)
qed

lemma hero_keeps_drawing:
  \<comment> \<open>while the window has a width, the effect mounts without an exception and every frame asks for the next until the unmount\<close>
  assumes "math_ok m" "hero_size w h"
  shows "\<exists>s. hero_mount m l w h = Inr s \<and>
    (\<forall>s'. (\<lambda>a b. hero_step m a b \<and> 0 < hc_width b)\<^sup>*\<^sup>* s s' \<longrightarrow> hc_frame s' = hc_listening s')"
proof -
  define s0 where "s0 = \<lparr>hc_width = w, hc_height = h, hc_t = nint 0, hc_frame = False, hc_listening = True, hc_canvas = fresh_canvas\<rparr>"
  have "hero_alive (s0\<lparr>hc_frame := True\<rparr>)" using assms(2) by (simp add: s0_def hero_alive_def)
  then have s0: "hero_size (hc_width s0) (hc_height s0)" "lies 0 (2 ^ 53) (hc_t s0)" "hc_listening s0"
    by (simp_all add: hero_alive_def)
  obtain s where s: "hero_render m l s0 = Inr s" "hero_alive s"
    using hero_frame_goes_on [OF assms(1) s0(1,2), of l] count_up [OF s0(2)] s0 by (auto simp: hero_alive_def)
  have "hero_alive s'" if "(\<lambda>a b. hero_step m a b \<and> 0 < hc_width b)\<^sup>*\<^sup>* s s'" for s'
    using that s(2) hero_alive_step [OF assms(1)] by (induction rule: rtranclp_induct) blast+
  then show ?thesis
    unfolding hero_mount_def s0_def [symmetric] hero_alive_def using s(1) by blast
qed

subsection \<open>A window of no width\<close>

lemma flare_lost:
  assumes "\<And>x. Pow m NaN x = NaN"
  shows "\<not> (finite_number (fst (flare_at m 0 h t)) \<and> finite_number (snd (flare_at m 0 h t)))"
proof -
  define f where "f = nadd (lit 15 100) (nmul (ndiv (nadd (Sin m (nmul t (lit 15 10000))) (nint 1)) (nint 2)) (lit 75 100))"
  consider "nmul (nint 0) f = nint 0" | "nmul (nint 0) f = NaN" by (cases f) (auto simp: inf_of_sign_def to_number_int [of 0, simplified])
  then show ?thesis
  proof cases
    case 1
    have "nsub a NaN = NaN" "nadd NaN a = NaN" for a by (cases a; simp add: nsub_def)+
    with 1 assms show ?thesis unfolding flare_at_def Let_def f_def [symmetric] by (simp add: inf_of_sign_def)
  next
    case 2
    then show ?thesis unfolding flare_at_def Let_def f_def [symmetric] by simp
  qed
qed

lemma hero_stops:
  \<comment> \<open>one frame while the window has no width, and the background stands still whatever size the window gets\<close>
  assumes "\<And>x. Pow m NaN x = NaN" and "hc_width s = 0"
    and "(hero_step m)\<^sup>*\<^sup>* (hero_frame m l s) s'"
  shows "\<not> hc_frame s'"
proof -
  have "\<not> list_all safe_draw (hero_drawing m l (hc_width s) (hc_height s) (hc_t s))"
    unfolding hero_drawing_def list_all_append flare_safe using flare_lost [OF assms(1)] assms(2) by metis
  then obtain e where "draws (hero_drawing m l (hc_width s) (hc_height s) (hc_t s)) (hc_canvas s) = Inl e"
    using draws_iff [of _ "hc_canvas s"] by (meson sum.exhaust)
  then have "\<not> hc_frame (hero_frame m l s)" by (simp add: hero_frame_def hero_render_def)
  with assms(3) show ?thesis
    by (induction rule: rtranclp_induct) (auto elim!: hero_stepE simp: hero_resize_def hero_unmount_def)
qed

lemma hero_mount_fails:
  \<comment> \<open>mounted in such a window the effect throws, and with it the page\<close>
  assumes "\<And>x. Pow m NaN x = NaN" shows "\<exists>e. hero_mount m l 0 h = Inl e"
proof -
  have "\<not> list_all safe_draw (hero_drawing m l 0 h (nint 0))"
    unfolding hero_drawing_def list_all_append flare_safe using flare_lost [OF assms] by metis
  then obtain e where "draws (hero_drawing m l 0 h (nint 0)) fresh_canvas = Inl e"
    using draws_iff [of _ fresh_canvas] by (meson sum.exhaust)
  then show ?thesis by (simp add: hero_mount_def hero_render_def)
qed

subsection \<open>Every frame starts alike\<close>

lemma streak_bracketed: "bracketed (draw_streak m l w h t s)"
  unfolding bracketed_def draw_streak_def
  by (rule exI [of _ "butlast (tl (draw_streak m l w h t s))"])
    (auto simp: draw_streak_def butlast_append list_all_iff crest_def Let_def)

lemma flare_bracketed: "bracketed (draw_flare l p)"
  unfolding bracketed_def draw_flare_def by (rule exI [of _ "butlast (tl (draw_flare l p))"]) (simp add: draw_flare_def)

lemma hero_pen:
  \<comment> \<open>a frame leaves the background gradient as the fill and nothing else\<close>
  assumes "draws (hero_drawing m l w h t) c = Inr c'"
  shows "cv_pen c' = (cv_pen c)\<lparr>pen_fill := pen_fill (cv_pen c')\<rparr> \<and> cv_stack c' = cv_stack c"
proof -
  obtain c1 where c1: "draws (hero_background l w h) c = Inr c1"
    and c2: "draws (concat (map (draw_streak m l w h t) hero_streaks @ [draw_flare l (flare_at m w h t)])) c1 = Inr c'"
    using assms by (auto simp: hero_drawing_def draws_append split: sum.splits)
  have "cv_pen c' = cv_pen c1 \<and> cv_stack c' = cv_stack c1"
    by (rule draws_brackets [OF _ c2]) (simp add: list_all_iff streak_bracketed flare_bracketed)
  moreover have "cv_pen c1 = (cv_pen c)\<lparr>pen_fill := pen_fill (cv_pen c1)\<rparr> \<and> cv_stack c1 = cv_stack c"
    using c1 unfolding hero_background_def
    by (auto simp: with_pen_def marked_def split: option.splits if_splits)
  ultimately show ?thesis by simp
qed

subsection \<open>When the animation goes on\<close>

definition hero_bounds :: "hero_canvas \<Rightarrow> bool" where
  "hero_bounds s \<longleftrightarrow> 0 \<le> hc_width s \<and> hc_width s < 2 ^ 31 \<and> 0 \<le> hc_height s \<and> hc_height s < 2 ^ 31 \<and> lies 0 (2 ^ 53) (hc_t s)"

lemma hero_frame_iff:
  assumes "math_ok m" "\<And>x. Pow m NaN x = NaN" "hero_bounds s"
  shows "hc_frame (hero_frame m l s) \<longleftrightarrow> 0 < hc_width s" and "hero_bounds (hero_frame m l s)"
proof -
  have "hero_bounds (hero_frame m l s) \<and> (hc_frame (hero_frame m l s) \<longleftrightarrow> 0 < hc_width s)"
  proof (cases "hc_width s = 0")
    case True
    then have "\<not> hc_frame (hero_frame m l s)" using hero_stops [OF assms(2) True, where l = l] by blast
    then show ?thesis using True assms(3) by (auto simp: hero_frame_def hero_render_def hero_bounds_def split: sum.splits)
  next
    case False
    then have "hero_size (hc_width s) (hc_height s)" "lies 0 (2 ^ 53) (hc_t s)"
      using assms(3) by (auto simp: hero_size_def hero_bounds_def)
    with hero_frame_goes_on [OF assms(1) this, of l] count_up [of "hc_t s"] False assms(3) show ?thesis
      by (auto simp: hero_frame_def hero_bounds_def)
  qed
  then show "hc_frame (hero_frame m l s) \<longleftrightarrow> 0 < hc_width s" "hero_bounds (hero_frame m l s)" by blast+
qed

lemma hero_bounds_step:
  assumes "math_ok m" "\<And>x. Pow m NaN x = NaN" "hero_step m s s'" "hero_bounds s" shows "hero_bounds s'"
  using assms(3,4) hero_frame_iff(2) [OF assms(1,2)]
  by cases (simp_all add: hero_resize_def hero_unmount_def hero_bounds_def)

lemma hero_no_frame: "hero_step m s s' \<Longrightarrow> \<not> hc_frame s \<Longrightarrow> \<not> hc_frame s'"
  by (auto simp: hero_resize_def hero_unmount_def elim!: hero_stepE)



end
