(* ===== verification/ParticleCanvas.thy ===== *)
theory ParticleCanvas
  imports Canvas
begin

text \<open>
  What \<open>components/ui/ParticleMorphingSection.tsx\<close> draws: particles that move between a random field and a lattice on a sphere,
  turned by the pointer and joined where they are close. \<open>Math.random\<close> is the parameter \<open>rand\<close>, the numbers it gives in turn.
\<close>

subsection \<open>The particles\<close>

record particle =
  pt_x :: number
  pt_y :: number
  pt_z :: number
  pt_fx :: number
  pt_fy :: number
  pt_fz :: number
  pt_lx :: number
  pt_ly :: number
  pt_lz :: number
  pt_vx :: number
  pt_vy :: number
  pt_vz :: number
  pt_seed :: number
  pt_size :: number
  pt_color :: string

definition particleCount :: nat where
  "particleCount = 280"

definition particle_colors :: "string list" where
  "particle_colors = [''#38bdf8'', ''#818cf8'', ''#c084fc'', ''#ec4899'', ''#34d399'']"

definition centred :: "number \<Rightarrow> number" where
  \<comment> \<open>\<open>Math.random() - 0.5\<close>\<close>
  "centred r = nsub r (lit 5 10)"

definition new_particle :: "maths \<Rightarrow> (nat \<Rightarrow> number) \<Rightarrow> int \<Rightarrow> int \<Rightarrow> nat \<Rightarrow> particle" where
  \<comment> \<open>the \<open>i\<close>-th one takes eight random numbers\<close>
  "new_particle m rand width height i = (let
       radius = nmul (nmin (nint width) (nint height)) (lit 38 100);
       fx = nmul (nmul (centred (rand (8 * i))) (nint width)) (lit 18 10);
       fy = nmul (nmul (centred (rand (8 * i + 1))) (nint height)) (lit 18 10);
       fz = nmul (centred (rand (8 * i + 2))) (nint 600);
       phi = Acos m (nsub (nint 1) (ndiv (nmul (nint 2) (nadd (nint (int i)) (lit 5 10))) (nint (int particleCount))));
       theta = nmul (nmul Pi (nadd (nint 1) (Sqrt m (nint 5)))) (nint (int i))
     in \<lparr>pt_x = fx, pt_y = fy, pt_z = fz, pt_fx = fx, pt_fy = fy, pt_fz = fz,
         pt_lx = nmul (nmul radius (Sin m phi)) (Cos m theta),
         pt_ly = nmul (nmul radius (Sin m phi)) (Sin m theta),
         pt_lz = nmul radius (Cos m phi),
         pt_vx = nmul (centred (rand (8 * i + 3))) (lit 4 10),
         pt_vy = nmul (centred (rand (8 * i + 4))) (lit 4 10),
         pt_vz = nmul (centred (rand (8 * i + 5))) (lit 4 10),
         pt_seed = nmul (rand (8 * i + 6)) (nint 100),
         pt_size = nadd (nmul (rand (8 * i + 7)) (nint 2)) (lit 12 10),
         pt_color = particle_colors ! (i mod length particle_colors)\<rparr>)"

definition new_particles :: "maths \<Rightarrow> (nat \<Rightarrow> number) \<Rightarrow> int \<Rightarrow> int \<Rightarrow> particle list" where
  "new_particles m rand width height = map (new_particle m rand width height) [0..<particleCount]"

subsection \<open>Motion\<close>

record lattice =
  lt_width :: int
  lt_height :: int
  lt_particles :: "particle list"
  lt_angleX :: number
  lt_angleY :: number
  lt_t :: number
  lt_mouseX :: number
  lt_mouseY :: number
  lt_frame :: bool
  lt_listening :: bool
  lt_canvas :: canvas

definition morph_factor :: "maths \<Rightarrow> number \<Rightarrow> number" where
  \<comment> \<open>of the time alone: the scroll position is read and not used\<close>
  "morph_factor m t = nadd (nmul (Sin m (nmul t (lit 8 1000))) (lit 35 100)) (lit 65 100)"

definition aim :: "number \<Rightarrow> number \<Rightarrow> number \<Rightarrow> number \<Rightarrow> number" where
  \<comment> \<open>a coordinate between field and lattice\<close>
  "aim morph f l noise = nadd (nmul f (nsub (nint 1) morph))
     (nmul (nadd l (nmul noise (nsub (nint 1) (nmul morph (lit 8 10))))) morph)"

definition lerp :: "number \<Rightarrow> number \<Rightarrow> number" where
  "lerp x target = nadd x (nmul (nsub target x) (lit 6 100))"

definition move_particle :: "maths \<Rightarrow> number \<Rightarrow> particle \<Rightarrow> particle" where
  "move_particle m t p = (let morph = morph_factor m t;
       noiseX = nmul (Sin m (nadd (nmul t (lit 15 1000)) (pt_seed p))) (nint 45);
       noiseY = nmul (Cos m (nadd (nmul t (lit 12 1000)) (pt_seed p))) (nint 45);
       noiseZ = nmul (Sin m (nadd (nmul t (lit 18 1000)) (nmul (pt_seed p) (nint 2)))) (nint 40)
     in p\<lparr>pt_x := lerp (pt_x p) (aim morph (pt_fx p) (pt_lx p) noiseX),
          pt_y := lerp (pt_y p) (aim morph (pt_fy p) (pt_ly p) noiseY),
          pt_z := lerp (pt_z p) (aim morph (pt_fz p) (pt_lz p) noiseZ)\<rparr>)"

subsection \<open>Projection\<close>

record spot =
  sp_x :: number
  sp_y :: number
  sp_z :: number
  sp_color :: string
  sp_size :: number
  sp_alpha :: number

definition project_particle :: "maths \<Rightarrow> int \<Rightarrow> int \<Rightarrow> number \<Rightarrow> number \<Rightarrow> particle \<Rightarrow> spot option" where
  \<comment> \<open>nothing for a particle behind the camera\<close>
  "project_particle m width height angleX angleY p = (let
       cosY = Cos m angleY; sinY = Sin m angleY; cosX = Cos m angleX; sinX = Sin m angleX;
       x1 = nadd (nmul (pt_x p) cosY) (nmul (pt_z p) sinY);
       z1 = nadd (nmul (nneg (pt_x p)) sinY) (nmul (pt_z p) cosY);
       y1 = nsub (nmul (pt_y p) cosX) (nmul z1 sinX);
       z2 = nadd (nmul (pt_y p) sinX) (nmul z1 cosX);
       cameraZ = nadd z2 (nint 650)
     in if nleq cameraZ (nint 0) then None
        else (let scale = ndiv (nint 450) cameraZ in Some \<lparr>
          sp_x = nadd (ndiv (nint width) (nint 2)) (nmul x1 scale),
          sp_y = nadd (ndiv (nint height) (nint 2)) (nmul y1 scale),
          sp_z = z2,
          sp_color = pt_color p,
          sp_size = nmul (pt_size p) scale,
          sp_alpha = nmin (nint 1) (nmax (lit 15 100) (nsub (nmul scale (lit 15 10)) (lit 2 10)))\<rparr>))"

subsection \<open>Drawing\<close>

definition spot_distance :: "maths \<Rightarrow> spot \<Rightarrow> spot \<Rightarrow> number" where
  "spot_distance m p1 p2 = (let dx = nsub (sp_x p1) (sp_x p2); dy = nsub (sp_y p1) (sp_y p2)
     in Sqrt m (nadd (nmul dx dx) (nmul dy dy)))"

definition draw_link :: "maths \<Rightarrow> bool \<Rightarrow> spot \<times> spot \<Rightarrow> draw list" where
  \<comment> \<open>a line between two particles less than \<open>maxDistance\<close> apart\<close>
  "draw_link m isLight pp = (case pp of (p1, p2) \<Rightarrow> (let dist = spot_distance m p1 p2 in
     if nless dist (nint 75) then (let
         lineAlpha = nmul (nmul (nsub (nint 1) (ndiv dist (nint 75))) (nmin (sp_alpha p1) (sp_alpha p2))) (lit 55 100)
       in [Begin_path, Move_to (sp_x p1) (sp_y p1), Line_to (sp_x p2) (sp_y p2),
           Stroke_style (Colour (if isLight
             then ''rgba(99, 102, 241, '' @ to_str (Num (nmul lineAlpha (lit 7 10))) @ '')''
             else ''rgba(139, 92, 246, '' @ to_str (Num lineAlpha) @ '')'')),
           Stroke])
     else []))"

fun pairs :: "'a list \<Rightarrow> ('a \<times> 'a) list" where
  \<comment> \<open>the two loops over \<open>i\<close> and \<open>j > i\<close>\<close>
  "pairs [] = []"
| "pairs (x # xs) = map (Pair x) xs @ pairs xs"

definition draw_spot :: "bool \<Rightarrow> spot \<Rightarrow> draw list" where
  "draw_spot isLight p =
    [Begin_path,
     Arc (sp_x p) (sp_y p) (nmax (lit 8 10) (sp_size p)) (nint 0) full_turn,
     Fill_style (Colour (sp_color p)),
     Alpha (sp_alpha p),
     Shadow_colour (sp_color p),
     Shadow_blur (if isLight then nint 4 else nint 10),
     Fill]"

definition lattice_drawing :: "maths \<Rightarrow> bool \<Rightarrow> int \<Rightarrow> int \<Rightarrow> spot list \<Rightarrow> draw list" where
  "lattice_drawing m isLight width height projected =
    [Clear_rect (nint 0) (nint 0) (nint width) (nint height), Line_width (lit 8 10)]
    @ concat (map (draw_link m isLight) (pairs projected))
    @ concat (map (draw_spot isLight) projected)
    @ [Alpha (nint 1), Shadow_blur (nint 0)]"

definition turn :: "lattice \<Rightarrow> lattice" where
  "turn s = s\<lparr>lt_angleY := nadd (lt_angleY s) (nadd (lit 4 1000) (nmul (lt_mouseX s) (lit 2 100))),
              lt_angleX := nadd (lt_angleX s) (nadd (lit 2 1000) (nmul (lt_mouseY s) (lit 2 100)))\<rparr>"

definition projected :: "maths \<Rightarrow> lattice \<Rightarrow> spot list" where
  "projected m s = List.map_filter (project_particle m (lt_width s) (lt_height s) (lt_angleX s) (lt_angleY s)) (lt_particles s)"

definition lattice_render :: "maths \<Rightarrow> bool \<Rightarrow> lattice \<Rightarrow> err + lattice" where
  "lattice_render m isLight s = (let
       s1 = (turn s)\<lparr>lt_particles := map (move_particle m (lt_t s)) (lt_particles s)\<rparr>
     in case draws (lattice_drawing m isLight (lt_width s) (lt_height s) (projected m s1)) (lt_canvas s) of
       Inl e \<Rightarrow> Inl e
     | Inr c \<Rightarrow> Inr (s1\<lparr>lt_canvas := c, lt_t := nadd (lt_t s) (nint 1), lt_frame := True\<rparr>))"

definition lattice_mount :: "maths \<Rightarrow> (nat \<Rightarrow> number) \<Rightarrow> bool \<Rightarrow> int \<Rightarrow> int \<Rightarrow> err + lattice" where
  \<comment> \<open>the effect, where the canvas and its context exist\<close>
  "lattice_mount m rand isLight offsetWidth offsetHeight = lattice_render m isLight
     \<lparr>lt_width = offsetWidth, lt_height = offsetHeight, lt_particles = new_particles m rand offsetWidth offsetHeight,
      lt_angleX = nint 0, lt_angleY = nint 0, lt_t = nint 0, lt_mouseX = nint 0, lt_mouseY = nint 0, lt_frame = False,
      lt_listening = True, lt_canvas = fresh_canvas\<rparr>"

definition lattice_frame :: "maths \<Rightarrow> bool \<Rightarrow> lattice \<Rightarrow> lattice" where
  "lattice_frame m isLight s = (case lattice_render m isLight s of Inl e \<Rightarrow> s\<lparr>lt_frame := False\<rparr> | Inr s' \<Rightarrow> s')"

definition lattice_resize :: "int \<Rightarrow> int \<Rightarrow> lattice \<Rightarrow> lattice" where
  "lattice_resize offsetWidth offsetHeight s = s\<lparr>lt_width := offsetWidth, lt_height := offsetHeight, lt_canvas := fresh_canvas\<rparr>"

definition lattice_mouse :: "number \<times> number \<Rightarrow> number \<times> number \<Rightarrow> lattice \<Rightarrow> lattice" where
  \<comment> \<open>where the pointer is and where the canvas is\<close>
  "lattice_mouse client place s = s\<lparr>
     lt_mouseX := nmul (nsub (ndiv (nsub (fst client) (fst place)) (nint (lt_width s))) (lit 5 10)) (lit 8 10),
     lt_mouseY := nmul (nsub (ndiv (nsub (snd client) (snd place)) (nint (lt_height s))) (lit 5 10)) (lit 8 10)\<rparr>"

definition lattice_unmount :: "lattice \<Rightarrow> lattice" where
  "lattice_unmount s = s\<lparr>lt_listening := False, lt_frame := False\<rparr>"

inductive lattice_step :: "maths \<Rightarrow> lattice \<Rightarrow> lattice \<Rightarrow> bool" for m where
  lattice_frames: "lt_frame s \<Longrightarrow> lattice_step m s (lattice_frame m isLight s)"
| lattice_resizes: "lt_listening s \<Longrightarrow> lattice_step m s (lattice_resize w h s)"
| lattice_moves: "lt_listening s \<Longrightarrow> lattice_step m s (lattice_mouse client place s)"
| lattice_unmounts: "lt_listening s \<Longrightarrow> lattice_step m s (lattice_unmount s)"

inductive_cases lattice_stepE: "lattice_step m s s'"

subsection \<open>Frames go on, in any window\<close>

lemma link_safe: "list_all safe_draw (draw_link m l pp)"
  by (cases pp) (simp add: draw_link_def Let_def)

lemma spot_safe: "list_all safe_draw (draw_spot l p)"
proof -
  have "lies 0 1 (lit 8 10)" by (rule lies_lit) simp_all
  then obtain q where "lit 8 10 = Fin q" "0 \<le> q" by (auto simp: lies_def)
  then show ?thesis by (simp add: draw_spot_def safe_arc_max)
qed

lemma lattice_safe: "list_all safe_draw (lattice_drawing m l w h ps)"
  unfolding lattice_drawing_def list_all_append
  using link_safe spot_safe by (auto simp: list_all_iff)

lemma lattice_renders:
  "\<exists>s'. lattice_render m l s = Inr s' \<and> lt_frame s' \<and> lt_listening s' = lt_listening s \<and> lt_angleX s' = lt_angleX (turn s)
     \<and> lt_angleY s' = lt_angleY (turn s)"
  using lattice_safe [of m l "lt_width s" "lt_height s"] draws_iff
  by (auto simp: lattice_render_def Let_def turn_def split: sum.split) (metis Inl_Inr_False)

lemma lattice_never_stops:
  \<comment> \<open>whatever the window, the pointer and the functions of \<open>Math\<close> do\<close>
  assumes "lattice_mount m rand l w h = r"
  shows "\<exists>s. r = Inr s \<and> (\<forall>s'. (lattice_step m)\<^sup>*\<^sup>* s s' \<longrightarrow> lt_frame s' = lt_listening s')"
proof -
  obtain s where s: "r = Inr s" "lt_frame s" "lt_listening s"
    using assms lattice_renders unfolding lattice_mount_def by (metis lattice.select_convs(10))
  have "lt_frame s' = lt_listening s'" if "(lattice_step m)\<^sup>*\<^sup>* s s'" for s'
    using that
  proof (induction rule: rtranclp_induct)
    case (step s1 s2)
    from step.hyps(2) step.IH show ?case
    proof cases
      case (lattice_frames isLight)
      with lattice_renders [of m isLight s1] step.IH show ?thesis by (auto simp: lattice_frame_def)
    qed (simp_all add: lattice_resize_def lattice_mouse_def lattice_unmount_def)
  qed (simp add: s)
  with s(1) show ?thesis by blast
qed

subsection \<open>A canvas of no size\<close>

lemma nan_absorbs [simp]: "nadd NaN x = NaN" "nadd x NaN = NaN" "nsub NaN x = NaN" "nsub x NaN = NaN" "nmul NaN x = NaN" "nmul x NaN = NaN"
  by (cases x; simp add: nsub_def)+

lemma pointer_spoils:
  \<comment> \<open>the pointer at the left edge of a canvas without a width\<close>
  assumes "lt_width s = 0" and "\<not> nless (nint 0) (nsub (fst client) (fst place))" "\<not> nless (nsub (fst client) (fst place)) (nint 0)"
  shows "lt_mouseX (lattice_mouse client place s) = NaN"
proof -
  have "ndiv (nsub (fst client) (fst place)) (nint 0) = NaN"
    using assms(2,3) by (cases "nsub (fst client) (fst place)") (auto simp: inf_of_sign_def)
  then show ?thesis using assms(1) by (simp add: lattice_mouse_def)
qed

lemma angle_lost:
  \<comment> \<open>once the angle is not a number it never is one again\<close>
  assumes "(lattice_step m)\<^sup>*\<^sup>* s s'" and "lt_angleY s = NaN"
  shows "lt_angleY s' = NaN"
  using assms(1)
proof (induction rule: rtranclp_induct)
  case (step s1 s2)
  from step.hyps(2) step.IH show ?case
  proof cases
    case (lattice_frames isLight)
    with lattice_renders [of m isLight s1] step.IH show ?thesis by (auto simp: lattice_frame_def turn_def)
  qed (simp_all add: lattice_resize_def lattice_mouse_def lattice_unmount_def)
qed (rule assms(2))

lemma spots_lost:
  \<comment> \<open>and no particle has a place on the screen any more\<close>
  assumes "lt_angleY s = NaN" and "Sin m NaN = NaN" "Cos m NaN = NaN" and "p \<in> set (projected m s)"
  shows "sp_x p = NaN"
  using assms by (auto simp: projected_def map_filter_def project_particle_def Let_def split: if_splits)

lemma lattice_lost:
  \<comment> \<open>one frame with the pointer at the left edge of a canvas without a width, and no particle is seen again in any window\<close>
  assumes "lt_width s = 0" "fst client = Fin x" "fst place = Fin x" "Sin m NaN = NaN" "Cos m NaN = NaN"
    and "(lattice_step m)\<^sup>*\<^sup>* (lattice_frame m l (lattice_mouse client place s)) s'"
  shows "\<forall>p \<in> set (projected m s'). sp_x p = NaN"
proof -
  have "nsub (Fin x) (Fin x) = Fin 0" using to_number_int [of 0] by (simp add: nsub_def)
  then have "lt_mouseX (lattice_mouse client place s) = NaN"
    using assms(1-3) by (intro pointer_spoils) simp_all
  then have "lt_angleY (lattice_frame m l (lattice_mouse client place s)) = NaN"
    using lattice_renders [of m l "lattice_mouse client place s"] by (auto simp: lattice_frame_def turn_def)
  from angle_lost [OF assms(6) this] spots_lost [OF _ assms(4,5)] show ?thesis by blast
qed

subsection \<open>What is drawn\<close>

lemma spot_alpha:
  assumes "project_particle m w h ax ay p = Some q"
  shows "sp_alpha q = NaN \<or> nleq (lit 15 100) (sp_alpha q) \<and> nleq (sp_alpha q) (nint 1)"
proof -
  have b: "nmin (nint 1) (nmax (lit 15 100) n) = NaN \<or> nleq (lit 15 100) (nmin (nint 1) (nmax (lit 15 100) n))
    \<and> nleq (nmin (nint 1) (nmax (lit 15 100) n)) (nint 1)" for n
  proof -
    have "lies 0 1 (lit 15 100)" by (rule lies_lit) simp_all
    then obtain q where "lit 15 100 = Fin q" "0 \<le> q" "q \<le> 1" by (auto simp: lies_def)
    then show ?thesis by (cases n) auto
  qed
  have "\<exists>n. sp_alpha q = nmin (nint 1) (nmax (lit 15 100) n)"
    using assms by (auto simp: project_particle_def Let_def split: if_splits)
  then show ?thesis using b by metis
qed

lemma lattice_pen:
  \<comment> \<open>the lines of the next frame are drawn opaque and without the glow of the particles\<close>
  assumes "draws (lattice_drawing m l w h ps) c = Inr c'"
  shows "pen_alpha (cv_pen c') = nint 1 \<and> pen_blur (cv_pen c') = nint 0"
  using assms by (auto simp: lattice_drawing_def draws_append with_pen_def split: sum.splits option.splits if_splits)

lemma length_pairs: "length (pairs xs) = length xs * (length xs - 1) div 2"
proof -
  have "2 * length (pairs xs) = length xs * (length xs - 1)"
  proof (induction xs)
    case (Cons x xs)
    then show ?case by (cases xs) (simp_all add: algebra_simps)
  qed simp
  then show ?thesis by simp
qed

lemma pairs_iff: "(p, q) \<in> set (pairs xs) \<longleftrightarrow> (\<exists>i j. i < j \<and> j < length xs \<and> p = xs ! i \<and> q = xs ! j)"
proof (induction xs)
  case (Cons x xs)
  show ?case
  proof (safe, goal_cases)
    case 1
    then consider "p = x" "q \<in> set xs" | "(p, q) \<in> set (pairs xs)" by auto
    then show ?case
    proof cases
      case 1
      then obtain j where "j < length xs" "q = xs ! j" by (auto simp: in_set_conv_nth)
      with 1 show ?thesis by (intro exI [of _ 0] exI [of _ "Suc j"]) simp
    next
      case 2
      then obtain i j where "i < j" "j < length xs" "p = xs ! i" "q = xs ! j" using Cons.IH by blast
      then show ?thesis by (intro exI [of _ "Suc i"] exI [of _ "Suc j"]) simp
    qed
  next
    case (2 i j)
    then obtain j' where "j = Suc j'" by (cases j) auto
    with 2 Cons.IH show ?case by (cases i) auto
  qed
qed simp

end
