(* ===== verification/NetworkScene.thy ===== *)
theory NetworkScene
  imports Canvas
begin

text \<open>
  The scene behind the login form, the first half of \<open>components/3d/PaymentsNetworkBackground.tsx\<close>: clouds of particles, wire frames
  and stars. The package \<open>d3\<close> is the parameter \<open>d3\<close>: a random source from a seed and what a uniform and a normal sampler draw
  from it; a normal sampler has a state of its own.
\<close>

subsection \<open>Points\<close>

record vec3 =
  v_x :: number
  v_y :: number
  v_z :: number

definition vec :: "number \<Rightarrow> number \<Rightarrow> number \<Rightarrow> vec3" where
  "vec x y z = \<lparr>v_x = x, v_y = y, v_z = z\<rparr>"

record cloud_point = vec3 +
  v_r :: number

definition cloud_point_at :: "number \<Rightarrow> number \<Rightarrow> number \<Rightarrow> number \<Rightarrow> cloud_point" where
  "cloud_point_at x y z r = \<lparr>v_x = x, v_y = y, v_z = z, v_r = r\<rparr>"

record cluster =
  cl_center :: vec3
  cl_color :: string
  cl_points :: "cloud_point list"
  cl_spin :: number

record building =
  bd_label :: string
  bd_origin :: vec3
  bd_edges :: "(vec3 \<times> vec3) list"
  bd_spin :: number
  bd_color :: "string option"

record star = vec3 +
  st_phase :: number
  st_r :: number
  st_color :: "string option"

record ('g, 'n) d3 =
  randomLcg :: "number \<Rightarrow> 'g"
  randomUniform :: "number \<Rightarrow> number \<Rightarrow> 'g \<Rightarrow> number \<times> 'g"
  randomNormal :: "number \<Rightarrow> number \<Rightarrow> 'n"
  normalNext :: "'n \<Rightarrow> 'g \<Rightarrow> number \<times> 'n \<times> 'g"

definition rUniform :: "('g, 'n) d3 \<Rightarrow> number \<Rightarrow> number \<Rightarrow> ('g, number) state" where
  "rUniform d a b = State (randomUniform d a b)"

definition rNormal_once :: "('g, 'n) d3 \<Rightarrow> number \<Rightarrow> number \<Rightarrow> ('g, number) state" where
  \<comment> \<open>a sampler that is used once\<close>
  "rNormal_once d mu sigma = State (\<lambda>g. case normalNext d (randomNormal d mu sigma) g of (x, _, g') \<Rightarrow> (x, g'))"

primrec times :: "nat \<Rightarrow> ('g, 'a) state \<Rightarrow> ('g, 'a list) state" where
  "times 0 f = State_Monad.return []"
| "times (Suc n) f = do { x \<leftarrow> f; xs \<leftarrow> times n f; State_Monad.return (x # xs) }"

subsection \<open>Clouds\<close>

definition sphere_point :: "maths \<Rightarrow> ('g, 'n) d3 \<Rightarrow> ('g, cloud_point) state" where
  "sphere_point m d = do {
     u \<leftarrow> rUniform d (nint 0) (nint 1);
     theta \<leftarrow> rUniform d (nint 0) full_turn;
     w \<leftarrow> rUniform d (nint (- 1)) (nint 1);
     r \<leftarrow> rUniform d (lit 6 10) (lit 18 10);
     let phi = Acos m w; rad = nmul (Cbrt m u) (nint 36) in
     State_Monad.return (cloud_point_at (nmul (nmul rad (Sin m phi)) (Cos m theta)) (nmul (nmul rad (Sin m phi)) (Sin m theta))
       (nmul (nmul rad (Cos m phi)) (lit 85 100)) r) }"

definition prism_point :: "maths \<Rightarrow> ('g, 'n) d3 \<Rightarrow> ('g, cloud_point) state" where
  "prism_point m d = do {
     s \<leftarrow> rUniform d (nint 0) (nint 6);
     t \<leftarrow> rUniform d (nint 0) (nint 1);
     rRatio \<leftarrow> rUniform d (lit 6 10) (nint 1);
     h \<leftarrow> rUniform d (ndiv (nint (- 44)) (nint 2)) (ndiv (nint 44) (nint 2));
     r \<leftarrow> rUniform d (lit 5 10) (lit 17 10);
     let seg = nfloor s; a1 = ndiv (nmul seg Pi) (nint 3); a2 = ndiv (nmul (nadd seg (nint 1)) Pi) (nint 3);
       angle = nadd a1 (nmul (nsub a2 a1) t) in
     State_Monad.return (cloud_point_at (nmul (nmul (nint 34) rRatio) (Cos m angle)) h (nmul (nmul (nint 34) rRatio) (Sin m angle)) r) }"

definition core_point :: "('g, 'n) d3 \<Rightarrow> ('g, cloud_point) state" where
  "core_point d = do {
     x \<leftarrow> rNormal_once d (nint 0) (nint 22);
     y \<leftarrow> rNormal_once d (nint 0) (nint 22);
     z \<leftarrow> rNormal_once d (nint 0) (nint 18);
     r \<leftarrow> rUniform d (lit 5 10) (lit 19 10);
     State_Monad.return (cloud_point_at x y z r) }"

definition torus_point :: "maths \<Rightarrow> ('g, 'n) d3 \<Rightarrow> ('g, cloud_point) state" where
  "torus_point m d = do {
     u \<leftarrow> rUniform d (nint 0) full_turn;
     v \<leftarrow> rUniform d (nint 0) full_turn;
     q \<leftarrow> rUniform d (lit 4 10) (nint 1);
     r \<leftarrow> rUniform d (lit 5 10) (lit 15 10);
     let tubeR = nmul (nint 15) (Sqrt m q);
       ring = nadd (nint 36) (nmul tubeR (Cos m v));
       px = nmul ring (Cos m u);
       py = nadd (nmul (nmul tubeR (Sin m v)) (lit 7 10)) (nmul px (lit 25 100));
       pz = nmul ring (Sin m u) in
     State_Monad.return (cloud_point_at px py pz r) }"

definition outer_point :: "('g, 'n) d3 \<Rightarrow> ('g \<times> 'n \<times> 'n \<times> 'n, cloud_point) state" where
  \<comment> \<open>the three samplers live as long as the cluster is built\<close>
  "outer_point d = State (\<lambda>(g, gx, gy, gz). case normalNext d gx g of (x, gx', g1) \<Rightarrow> case normalNext d gy g1 of (y, gy', g2) \<Rightarrow>
     case normalNext d gz g2 of (z, gz', g3) \<Rightarrow> case randomUniform d (lit 5 10) (lit 16 10) g3 of (r, g4) \<Rightarrow>
       (cloud_point_at x y z r, (g4, gx', gy', gz')))"

definition outer_points :: "('g, 'n) d3 \<Rightarrow> nat \<Rightarrow> number \<Rightarrow> ('g, cloud_point list) state" where
  "outer_points d count spr = State (\<lambda>g.
     case run_state (times count (outer_point d)) (g, randomNormal d (nint 0) spr, randomNormal d (nint 0) spr,
         randomNormal d (nint 0) (nmul spr (lit 8 10))) of (ps, (g', _)) \<Rightarrow> (ps, g'))"

definition outerLayout :: "(vec3 \<times> string \<times> nat \<times> number \<times> number) list" where
  "outerLayout = [
     (vec (nint (- 240)) (nint (- 180)) (nint 80), ''#22d3ee'', 340, nint 55, lit 75 100),
     (vec (nint 260) (nint (- 190)) (nint (- 60)), ''#818cf8'', 360, nint 60, lit 11 10),
     (vec (nint (- 310)) (nint 170) (nint 40), ''#38bdf8'', 320, nint 50, lit 85 100),
     (vec (nint 300) (nint 190) (nint (- 40)), ''#94a3b8'', 380, nint 65, lit 95 100),
     (vec (nint (- 480)) (nint (- 60)) (nint 100), ''#00f5d4'', 280, nint 45, lit 13 10),
     (vec (nint 490) (nint 80) (nint (- 80)), ''#60a5fa'', 310, nint 52, lit 7 10)]"

definition cluster_of :: "vec3 \<Rightarrow> string \<Rightarrow> number \<Rightarrow> cloud_point list \<Rightarrow> cluster" where
  "cluster_of center color spin points = \<lparr>cl_center = center, cl_color = color, cl_points = points, cl_spin = spin\<rparr>"

primrec outer_clusters :: "('g, 'n) d3 \<Rightarrow> (vec3 \<times> string \<times> nat \<times> number \<times> number) list \<Rightarrow> ('g, cluster list) state" where
  "outer_clusters d [] = State_Monad.return []"
| "outer_clusters d (c # cs) = (case c of (center, color, count, spr, spin) \<Rightarrow> do {
     ps \<leftarrow> outer_points d count spr;
     ks \<leftarrow> outer_clusters d cs;
     State_Monad.return (cluster_of center color spin ps # ks) })"

definition geometric_clusters :: "maths \<Rightarrow> ('g, 'n) d3 \<Rightarrow> ('g, cluster list) state" where
  "geometric_clusters m d = do {
     p1 \<leftarrow> times 750 (sphere_point m d);
     p2 \<leftarrow> times 680 (prism_point m d);
     p3 \<leftarrow> times 850 (core_point d);
     p4 \<leftarrow> times 720 (torus_point m d);
     outer \<leftarrow> outer_clusters d outerLayout;
     State_Monad.return ([
       cluster_of (vec (nint (- 95)) (nint (- 25)) (nint 25)) ''#3b82f6'' (lit 11 10) p1,
       cluster_of (vec (nint 75) (nint (- 70)) (nint (- 15))) ''#00f5d4'' (lit 9 10) p2,
       cluster_of (vec (nint (- 25)) (nint 105) (nint (- 20))) ''#ffffff'' (nint 1) p3,
       cluster_of (vec (nint 110) (nint 75) (nint 20)) ''#cbd5e1'' (lit 125 100) p4] @ outer) }"

definition buildGeometricClusters :: "maths \<Rightarrow> ('g, 'n) d3 \<Rightarrow> cluster list" where
  "buildGeometricClusters m d = fst (run_state (geometric_clusters m d) (randomLcg d (lit 417 1000)))"

subsection \<open>Wire frames\<close>

definition dome_angle :: "nat \<Rightarrow> number" where
  "dome_angle i = nmul (nmul (ndiv (nint (int i)) (nint 8)) Pi) (nint 2)"

definition ring1 :: "maths \<Rightarrow> nat \<Rightarrow> vec3" where
  "ring1 m i = vec (nmul (nint 65) (Cos m (dome_angle i))) (ndiv (nint (- 45)) (nint 2)) (nmul (nint 65) (Sin m (dome_angle i)))"

definition ring2 :: "maths \<Rightarrow> nat \<Rightarrow> vec3" where
  "ring2 m i = (let a = nadd (dome_angle i) (ndiv Pi (nint 8)) in
     vec (nmul (nint 45) (Cos m a)) (ndiv (nint 45) (nint 2)) (nmul (nint 45) (Sin m a)))"

definition dome_edges :: "maths \<Rightarrow> (vec3 \<times> vec3) list" where
  "dome_edges m = (let
       topPoint = vec (nint 0) (nsub (ndiv (nint (- 70)) (nint 2)) (nint 25)) (nint 0);
       bottomPoint = vec (nint 0) (nadd (ndiv (nint 70) (nint 2)) (nint 25)) (nint 0)
     in concat (map (\<lambda>i. let next' = (i + 1) mod 8 in
       [(ring1 m i, ring1 m next'), (ring2 m i, ring2 m next'), (ring1 m i, ring2 m i), (ring1 m next', ring2 m i),
        (topPoint, ring1 m i), (bottomPoint, ring2 m i)]) [0..<8]))"

definition buildNetworkDome :: "maths \<Rightarrow> string \<Rightarrow> vec3 \<Rightarrow> number \<Rightarrow> string \<Rightarrow> building" where
  "buildNetworkDome m label origin spin color =
    \<lparr>bd_label = label, bd_origin = origin, bd_edges = dome_edges m, bd_spin = spin, bd_color = Some color\<rparr>"

record box =
  bx_size :: vec3
  bx_offset :: vec3
  bx_rot :: number

definition boxes :: "box list" where
  "boxes = [
     \<lparr>bx_size = vec (nint 80) (nint 100) (nint 70), bx_offset = vec (nint 0) (nint 0) (nint 0), bx_rot = lit 15 100\<rparr>,
     \<lparr>bx_size = vec (nint 55) (nint 70) (nint 55), bx_offset = vec (nint 35) (nint (- 45)) (nint 25), bx_rot = lit 45 100\<rparr>,
     \<lparr>bx_size = vec (nint 45) (nint 60) (nint 45), bx_offset = vec (nint (- 30)) (nint 40) (nint (- 20)), bx_rot = lit (- 35) 100\<rparr>,
     \<lparr>bx_size = vec (nint 35) (nint 40) (nint 35), bx_offset = vec (nint 20) (nint 35) (nint 40), bx_rot = lit 7 10\<rparr>]"

definition corner :: "maths \<Rightarrow> box \<Rightarrow> int \<times> int \<times> int \<Rightarrow> vec3" where
  "corner m b dd = (case dd of (dx, dy, dz) \<Rightarrow> (let
       cosr = Cos m (bx_rot b); sinr = Sin m (bx_rot b);
       px = ndiv (nmul (nint dx) (v_x (bx_size b))) (nint 2);
       pz = ndiv (nmul (nint dz) (v_z (bx_size b))) (nint 2)
     in vec (nadd (nadd (nmul px cosr) (nmul pz sinr)) (v_x (bx_offset b)))
          (nadd (ndiv (nmul (nint dy) (v_y (bx_size b))) (nint 2)) (v_y (bx_offset b)))
          (nadd (nadd (nmul (nneg px) sinr) (nmul pz cosr)) (v_z (bx_offset b)))))"

definition corner_signs :: "(int \<times> int \<times> int) list" where
  \<comment> \<open>the three loops\<close>
  "corner_signs = [(dx, dy, dz). dx \<leftarrow> [- 1, 1], dy \<leftarrow> [- 1, 1], dz \<leftarrow> [- 1, 1]]"

definition corner_pairs :: "(nat \<times> nat) list" where
  "corner_pairs = [(0, 1), (0, 2), (3, 1), (3, 2), (4, 5), (4, 6), (7, 5), (7, 6), (0, 4), (1, 5), (2, 6), (3, 7)]"

definition box_edges :: "maths \<Rightarrow> box \<Rightarrow> (vec3 \<times> vec3) list" where
  "box_edges m b = (let corners = map (corner m b) corner_signs in map (\<lambda>(i, j). (corners ! i, corners ! j)) corner_pairs)"

definition buildComplexBuilding :: "maths \<Rightarrow> string \<Rightarrow> vec3 \<Rightarrow> number \<Rightarrow> string \<Rightarrow> building" where
  "buildComplexBuilding m label origin spin color = \<lparr>bd_label = label, bd_origin = origin,
     bd_edges = concat (map (box_edges m) boxes), bd_spin = spin, bd_color = Some color\<rparr>"

subsection \<open>Stars\<close>

definition star_colors :: "string list" where
  "star_colors = [''#ffffff'', ''#e0f2fe'', ''#bae6fd'', ''#7dd3fc'', ''#a7f3d0'', ''#c7d2fe'']"

definition new_star :: "('g, 'n) d3 \<Rightarrow> number \<Rightarrow> number \<Rightarrow> ('g, star) state" where
  "new_star d spreadX spreadY = do {
     x \<leftarrow> rUniform d (nneg spreadX) spreadX;
     y \<leftarrow> rUniform d (nneg spreadY) spreadY;
     z \<leftarrow> rUniform d (nint (- 300)) (nint 700);
     phase \<leftarrow> rUniform d (nint 0) full_turn;
     r \<leftarrow> rUniform d (lit 4 10) (lit 18 10);
     k \<leftarrow> rUniform d (nint 0) (nint (int (length star_colors)));
     State_Monad.return \<lparr>v_x = x, v_y = y, v_z = z, st_phase = phase, st_r = r,
       st_color = (let i = to_integer (nfloor k) in
         if 0 \<le> i \<and> i < int (length star_colors) then Some (star_colors ! nat i) else None)\<rparr> }"

definition buildStars :: "('g, 'n) d3 \<Rightarrow> nat \<Rightarrow> number \<Rightarrow> number \<Rightarrow> star list" where
  "buildStars d count spreadX spreadY = fst (run_state (times count (new_star d spreadX spreadY)) (randomLcg d (lit 417 1000)))"

subsection \<open>The camera\<close>

definition rotateY :: "maths \<Rightarrow> vec3 \<Rightarrow> number \<Rightarrow> vec3" where
  "rotateY m p angle = (let c = Cos m angle; s = Sin m angle in
     vec (nadd (nmul (v_x p) c) (nmul (v_z p) s)) (v_y p) (nadd (nmul (nneg (v_x p)) s) (nmul (v_z p) c)))"

record projection =
  pj_x :: number
  pj_y :: number
  pj_scale :: number

definition project :: "vec3 \<Rightarrow> number \<Rightarrow> number \<Rightarrow> number \<Rightarrow> number \<Rightarrow> projection" where
  "project p cx cy focal camZ = (let z = nadd (v_z p) camZ; scale = ndiv focal (nmax z (nint 1)) in
     \<lparr>pj_x = nadd cx (nmul (v_x p) scale), pj_y = nadd cy (nmul (v_y p) scale), pj_scale = scale\<rparr>)"

subsection \<open>Lemmas\<close>

lemma corner_edges:
  \<comment> \<open>the pairs are the twelve edges of a cube: the corners that differ in one direction\<close>
  assumes "i < 8" "j < 8"
  shows "((i, j) \<in> set corner_pairs \<or> (j, i) \<in> set corner_pairs)
    \<longleftrightarrow> (case (corner_signs ! i, corner_signs ! j) of ((a, b, c), (a', b', c')) \<Rightarrow>
          of_bool (a \<noteq> a') + of_bool (b \<noteq> b') + of_bool (c \<noteq> c') = (1 :: nat))"
proof -
  have "list_all (\<lambda>i. list_all (\<lambda>j. ((i, j) \<in> set corner_pairs \<or> (j, i) \<in> set corner_pairs)
    \<longleftrightarrow> (case (corner_signs ! i, corner_signs ! j) of ((a, b, c), (a', b', c')) \<Rightarrow>
          of_bool (a \<noteq> a') + of_bool (b \<noteq> b') + of_bool (c \<noteq> c') = (1 :: nat))) [0..<8]) [0..<8]"
    by code_simp
  with assms show ?thesis by (simp add: list_all_iff)
qed

lemma times_length: "run_state (times n f) g = (xs, g') \<Longrightarrow> length xs = n"
  by (induction n arbitrary: g xs) (auto simp: State_Monad.bind_def State_Monad.return_def split: prod.splits)

lemma project_scale:
  \<comment> \<open>nothing behind the camera is turned over: the scale is never negative\<close>
  "\<not> nless (pj_scale (project p cx cy (nint 680) camZ)) (nint 0)"
proof -
  have "\<not> nless (ndiv (nint 680) (nmax z (nint 1))) (nint 0)" for z
  proof (cases z)
    case (Fin x)
    then obtain y where y: "nmax z (nint 1) = Fin y" "1 \<le> y" by (cases "x < 1") auto
    have "0 \<le> (680 :: rat) / y" "(680 :: rat) / y \<le> 680" using y(2) by (simp_all add: divide_le_eq)
    then have "lies 0 680 (to_number (680 / y))" by (intro lies_to_number) simp_all
    then show ?thesis using y by (auto simp: lies_def)
  qed (use to_number_int [of 680] in auto)
  then show ?thesis by (simp only: project_def Let_def projection.select_convs not_False_eq_True)
qed

end
