(* ===== verification/NetworkCanvas.thy ===== *)
theory NetworkCanvas
  imports NetworkScene
begin

text \<open>
  The component of \<open>components/3d/PaymentsNetworkBackground.tsx\<close>: what it draws at every tick, its listeners and the state that
  follows the pointer. The values that \<open>gsap\<close> animates (its clock, the three opacities and the two angles) are read at
  every frame; they are the parameter \<open>gs\<close> of a frame.
\<close>

subsection \<open>State\<close>

record network_streak =
  ns_angle :: number
  ns_radius :: number
  ns_length :: number
  ns_speed :: number
  ns_life :: number
  ns_color :: "string option"

record network =
  nw_width :: int
  nw_height :: int
  nw_dpr :: number
  nw_pointer :: "number \<times> number"
  nw_target :: "number \<times> number"
  nw_clusters :: "cluster list"
  nw_buildings :: "building list"
  nw_stars :: "star list"
  nw_streaks :: "network_streak list"
  nw_ticking :: bool  \<comment> \<open>gsap calls \<open>render\<close>\<close>
  nw_tweens :: bool   \<comment> \<open>gsap changes \<open>intro\<close> and \<open>rotation\<close>\<close>
  nw_listening :: bool
  nw_canvas :: canvas

record gsap =
  gs_time :: number
  gs_rings :: number
  gs_particles :: number
  gs_buildings :: number
  gs_angle :: number
  gs_wobble :: number

definition ringRadii :: "int list" where
  "ringRadii = [80, 145, 220, 310, 420, 545, 690, 850, 1040, 1260]"

definition streakColors :: "string list" where
  "streakColors = [''#00f5d4'', ''#38bdf8'', ''#ffffff'', ''#60a5fa'', ''#a78bfa'', ''#f8fafc'']"

definition new_streak :: "nat \<Rightarrow> number \<Rightarrow> network_streak" where
  "new_streak i life = \<lparr>
     ns_angle = nadd (nmul (nmul (ndiv (nint (int i)) (nint 9)) Pi) (nint 2)) (lit 3 10),
     ns_radius = nadd (nint 120) (nmul (nint (int i)) (nint 75)),
     ns_length = nadd (nint 70) (nmul (nint (int i)) (nint 14)),
     ns_speed = nadd (lit 14 100) (nmul (nint (int i)) (lit 4 100)),
     ns_life = life,
     ns_color = Some (streakColors ! (i mod length streakColors))\<rparr>"

definition new_streaks :: "('g, 'n) d3 \<Rightarrow> network_streak list" where
  "new_streaks d = map (\<lambda>(i, life). new_streak i life)
     (enumerate 0 (fst (run_state (times 9 (rUniform d (nint 0) (nint 1))) (randomLcg d (lit 417 1000)))))"

definition network_buildings :: "maths \<Rightarrow> building list" where
  "network_buildings m = [
     buildNetworkDome m ''NETWORK'' (vec (nint (- 480)) (nint 10) (nint 40)) (lit 6 10) ''#00f5d4'',
     buildComplexBuilding m ''PAYMENT GATEWAY'' (vec (nint 480) (nint (- 140)) (nint (- 30))) (lit 75 100) ''#e2e8f0'',
     buildComplexBuilding m ''ISSUER BANK CORE'' (vec (nint 450) (nint 220) (nint 60)) (lit 85 100) ''#60a5fa'',
     buildComplexBuilding m ''ROUTING SWITCH'' (vec (nint (- 360)) (nint (- 220)) (nint (- 50))) (lit 5 10) ''#94a3b8'']"

subsection \<open>Colours\<close>

definition or_colour :: "string option \<Rightarrow> string \<Rightarrow> string" where
  "or_colour c other = (case c of None \<Rightarrow> other | Some s \<Rightarrow> if s = [] then other else s)"

definition cluster_colour :: "bool \<Rightarrow> string \<Rightarrow> string" where
  "cluster_colour isLight c =
    (if \<not> isLight then c
     else if c = ''#ffffff'' \<or> c = ''#eeece5'' \<or> c = ''#f8fafc'' then ''#0f172a''
     else if c = ''#cbd5e1'' \<or> c = ''#9aa1ab'' \<or> c = ''#94a3b8'' then ''#475569''
     else if c = ''#00f5d4'' \<or> c = ''#63e6c8'' then ''#0d9488''
     else if c = ''#22d3ee'' \<or> c = ''#38bdf8'' then ''#0284c7''
     else if c = ''#818cf8'' \<or> c = ''#7fa8e8'' then ''#4338ca'' else c)"

definition building_colour :: "bool \<Rightarrow> string \<Rightarrow> string" where
  "building_colour isLight c =
    (if \<not> isLight then c
     else if c = ''#00f5d4'' \<or> c = ''#22d3ee'' then ''#0f766e''
     else if c = ''#e2e8f0'' \<or> c = ''#ffffff'' then ''#1e293b''
     else if c = ''#60a5fa'' \<or> c = ''#818cf8'' then ''#1d4ed8''
     else if c = ''#94a3b8'' then ''#475569'' else c)"

subsection \<open>Stars\<close>

definition draw_background :: "bool \<Rightarrow> int \<Rightarrow> int \<Rightarrow> draw list" where
  "draw_background isLight width height = (let cx = ndiv (nint width) (nint 2); cy = ndiv (nint height) (nint 2) in
    [Clear_rect (nint 0) (nint 0) (nint width) (nint height),
     Fill_style (Radial cx cy (nint 60) cx cy (nmul (nmax (nint width) (nint height)) (lit 8 10))
       (if isLight then [(nint 0, ''#f8fafc''), (lit 5 10, ''#f1f5f9''), (nint 1, ''#e2e8f0'')]
        else [(nint 0, ''rgba(4, 12, 28, 0.95)''), (lit 5 10, ''rgba(2, 6, 18, 0.98)''), (nint 1, ''#020408'')])),
     Fill_rect (nint 0) (nint 0) (nint width) (nint height)])"

record view_point =
  vp_light :: bool
  vp_width :: int
  vp_height :: int
  vp_angle :: number  \<comment> \<open>\<open>camAngle\<close>\<close>
  vp_tilt :: number   \<comment> \<open>\<open>camTilt\<close>\<close>

definition vp_project :: "view_point \<Rightarrow> vec3 \<Rightarrow> projection" where
  "vp_project v p = project p (ndiv (nint (vp_width v)) (nint 2)) (ndiv (nint (vp_height v)) (nint 2)) (nint 680) (nint 950)"

definition draw_star :: "maths \<Rightarrow> view_point \<Rightarrow> number \<Rightarrow> star \<Rightarrow> draw list" where
  "draw_star m v t s = (let
       twinkle = nadd (lit 5 10) (nmul (lit 5 10) (Sin m (nadd (nmul t (lit 8 10)) (st_phase s))));
       p = vp_project v (vec (v_x s) (nadd (v_y s) (nmul (vp_tilt v) (lit 25 100))) (v_z s))
     in if nless (pj_x p) (nint (- 40)) \<or> nless (nint (vp_width v + 40)) (pj_x p)
           \<or> nless (pj_y p) (nint (- 40)) \<or> nless (nint (vp_height v + 40)) (pj_y p) then []
        else [
          Alpha (if vp_light v then nadd (lit 2 10) (nmul twinkle (lit 35 100)) else nadd (lit 3 10) (nmul twinkle (lit 6 10))),
          Fill_style (Colour (or_colour (st_color s) (if vp_light v then ''#64748b'' else ''#ffffff''))),
          Begin_path,
          Arc (pj_x p) (pj_y p) (nmax (nmul (nmul (st_r s) (pj_scale p)) (lit 95 100)) (lit 4 10)) (nint 0) full_turn,
          Fill])"

definition draw_stars :: "maths \<Rightarrow> view_point \<Rightarrow> number \<Rightarrow> star list \<Rightarrow> draw list" where
  "draw_stars m v t stars = [Save] @ concat (map (draw_star m v t) stars) @ [Restore]"

subsection \<open>Rings, spokes and streaks\<close>

definition draw_ring :: "bool \<Rightarrow> number \<Rightarrow> nat \<times> int \<Rightarrow> draw list" where
  "draw_ring isLight pointerX ir = (case ir of (i, r) \<Rightarrow> (let
       radius = nmul (nint r) (nadd (nint 1) (nmul pointerX (lit 12 1000)))
     in [Begin_path,
         Ellipse (nint 0) (nint 0) radius (nmul radius (lit 98 100)) (nint 0) (nint 0) full_turn,
         Stroke_style (Colour (if isLight then
             (if i mod 3 = 0 then ''rgba(13, 148, 136, 0.32)'' else if i mod 2 = 0 then ''rgba(79, 70, 229, 0.25)''
              else ''rgba(71, 85, 105, 0.2)'')
           else (if i mod 3 = 0 then ''rgba(0, 245, 212, 0.28)'' else if i mod 2 = 0 then ''rgba(200, 215, 235, 0.22)''
              else ''rgba(96, 165, 250, 0.18)''))),
         Line_width (if i = 2 \<or> i = 4 then (if isLight then lit 16 10 else lit 14 10) else nint 1),
         Stroke]))"

definition draw_spoke :: "maths \<Rightarrow> bool \<Rightarrow> nat \<Rightarrow> draw list" where
  "draw_spoke m isLight i = (let a = nmul (nmul (ndiv (nint (int i)) (nint 24)) Pi) (nint 2) in
    [Begin_path,
     Move_to (nmul (Cos m a) (nint (hd ringRadii))) (nmul (nmul (Sin m a) (nint (hd ringRadii))) (lit 98 100)),
     Line_to (nmul (Cos m a) (nint (last ringRadii))) (nmul (nmul (Sin m a) (nint (last ringRadii))) (lit 98 100)),
     Stroke_style (Colour (if isLight then ''rgba(71, 85, 105, 0.12)'' else ''rgba(148, 163, 184, 0.08)'')),
     Line_width (lit 8 10),
     Stroke])"

fun rem_one :: "number \<Rightarrow> number" where
  \<comment> \<open>\<open>x % 1\<close>, exact and with the sign of \<open>x\<close>\<close>
  "rem_one (Fin x) = Fin (if x < 0 then x - of_int \<lceil>x\<rceil> else x - of_int \<lfloor>x\<rfloor>)"
| "rem_one _ = NaN"

definition drift :: "network_streak \<Rightarrow> network_streak" where
  "drift s = s\<lparr>ns_life := rem_one (nadd (ns_life s) (nmul (nmul (lit 3 1000) (ns_speed s)) (nint 60)))\<rparr>"

definition network_streak_drawing :: "maths \<Rightarrow> bool \<Rightarrow> number \<Rightarrow> network_streak \<Rightarrow> draw list" where
  "network_streak_drawing m isLight camAngle s = (let
       a = nadd (ns_angle s) (nmul camAngle (lit 5 100));
       r0 = nadd (ns_radius s) (nmul (ns_life s) (nint 320));
       r1 = nadd r0 (ns_length s);
       alpha = nmul (Sin m (nmul (ns_life s) Pi)) (if isLight then lit 75 100 else lit 85 100)
     in [Begin_path,
         Move_to (nmul (Cos m a) r0) (nmul (nmul (Sin m a) r0) (lit 98 100)),
         Line_to (nmul (Cos m a) r1) (nmul (nmul (Sin m a) r1) (lit 98 100)),
         Stroke_style (Colour (if isLight then ''rgba(2, 132, 199, '' @ to_str (Num alpha) @ '')''
           else or_colour (ns_color s) (''rgba(0, 245, 212, '' @ to_str (Num alpha) @ '')''))),
         Line_width (if isLight then lit 22 10 else lit 18 10),
         Shadow_colour (if isLight then ''#0284c7'' else or_colour (ns_color s) ''#00f5d4''),
         Shadow_blur (nint 8),
         Stroke,
         Shadow_blur (nint 0)])"

definition draw_orbits :: "maths \<Rightarrow> view_point \<Rightarrow> number \<Rightarrow> number \<Rightarrow> network_streak list \<Rightarrow> draw list" where
  \<comment> \<open>with the streaks as they are after drifting\<close>
  "draw_orbits m v rings pointerX streaks =
    [Save,
     Alpha rings,
     Translate (ndiv (nint (vp_width v)) (nint 2)) (nsub (ndiv (nint (vp_height v)) (nint 2)) (nmul (vp_tilt v) (lit 4 10))),
     Rotate (nmul (vp_angle v) (lit 5 100))]
    @ concat (map (draw_ring (vp_light v) pointerX) (enumerate 0 ringRadii))
    @ concat (map (draw_spoke m (vp_light v)) [0..<24])
    @ concat (map (network_streak_drawing m (vp_light v) (vp_angle v)) streaks)
    @ [Restore]"

subsection \<open>Clouds\<close>

definition depth_alpha :: "number \<Rightarrow> number \<Rightarrow> number" where
  "depth_alpha low z = nmin (nint 1) (nmax low (ndiv (nint 750) (nadd z (nint 950))))"

definition draw_cloud_point :: "maths \<Rightarrow> view_point \<Rightarrow> number \<Rightarrow> string \<Rightarrow> vec3 \<Rightarrow> cloud_point \<Rightarrow> draw list" where
  "draw_cloud_point m v particles color center pt = (let
       world = vec (nadd (v_x center) (v_x pt)) (nadd (nadd (v_y center) (v_y pt)) (nmul (vp_tilt v) (lit 35 100)))
         (nadd (v_z center) (v_z pt));
       rotated = rotateY m world (nmul (vp_angle v) (lit 18 100));
       p = vp_project v rotated
     in [Alpha (nmul particles (depth_alpha (if vp_light v then lit 3 10 else lit 18 100) (v_z rotated))),
         Fill_style (Colour color),
         Begin_path,
         Arc (pj_x p) (pj_y p) (nmax (nmul (nmul (v_r pt) (pj_scale p)) (lit 115 100)) (lit 6 10)) (nint 0) full_turn,
         Fill])"

definition draw_cluster :: "maths \<Rightarrow> view_point \<Rightarrow> number \<Rightarrow> cluster \<Rightarrow> draw list" where
  "draw_cluster m v particles k = (let
       rotatedCenter = rotateY m (cl_center k) (nmul (nmul (vp_angle v) (lit 35 100)) (cl_spin k))
     in concat (map (draw_cloud_point m v particles (cluster_colour (vp_light v) (cl_color k)) rotatedCenter) (cl_points k)))"

definition draw_clusters :: "maths \<Rightarrow> view_point \<Rightarrow> number \<Rightarrow> cluster list \<Rightarrow> draw list" where
  "draw_clusters m v particles ks = [Save, Alpha particles] @ concat (map (draw_cluster m v particles) ks) @ [Restore]"

subsection \<open>Wire frames\<close>

definition edge_dot :: "maths \<Rightarrow> view_point \<Rightarrow> number \<Rightarrow> vec3 \<Rightarrow> vec3 \<times> vec3 \<Rightarrow> nat \<Rightarrow> vec3 \<times> projection" where
  \<comment> \<open>the \<open>i\<close>-th of the sixteen dots of an edge, turned and projected\<close>
  "edge_dot m v sway origin ab i = (case ab of (a, b) \<Rightarrow> (let
       t2 = ndiv (nint (int i)) (nint 15);
       mid = vec (nadd (nadd (v_x a) (nmul (nsub (v_x b) (v_x a)) t2)) (v_x origin))
         (nadd (nadd (v_y a) (nmul (nsub (v_y b) (v_y a)) t2)) (v_y origin))
         (nadd (nadd (v_z a) (nmul (nsub (v_z b) (v_z a)) t2)) (v_z origin));
       rotated = rotateY m mid (nadd (nmul (vp_angle v) (lit 22 100)) sway)
     in (rotated, vp_project v rotated)))"

definition draw_edge_dot :: "view_point \<Rightarrow> number \<Rightarrow> vec3 \<times> projection \<Rightarrow> draw list" where
  "draw_edge_dot v opacity rp = (case rp of (rotated, p) \<Rightarrow>
    [Alpha (nmul (nmul opacity (depth_alpha (if vp_light v then lit 4 10 else lit 25 100) (v_z rotated)))
       (if vp_light v then nint 1 else lit 95 100)),
     Begin_path,
     Arc (pj_x p) (pj_y p) (nmax (nmul (if vp_light v then lit 11 10 else lit 95 100) (pj_scale p)) (lit 6 10)) (nint 0) full_turn,
     Fill])"

definition draw_label :: "view_point \<Rightarrow> number \<Rightarrow> string \<Rightarrow> building \<Rightarrow> projection \<Rightarrow> draw list" where
  "draw_label v opacity color b anchor =
    [Alpha (nmul opacity (if vp_light v then lit 95 100 else lit 85 100)),
     Fill_style (Colour color),
     Font ''700 11px 'JetBrains Mono', monospace'',
     Text_align (if nless (v_x (bd_origin b)) (nint 0) then ''left'' else ''right''),
     Fill_text (bd_label b)
       (if nless (v_x (bd_origin b)) (nint 0) then nsub (pj_x anchor) (nint 70) else nadd (pj_x anchor) (nint 70))
       (nsub (pj_y anchor) (nint 75))]"

definition draw_building :: "maths \<Rightarrow> view_point \<Rightarrow> number \<Rightarrow> number \<Rightarrow> building \<Rightarrow> draw list" where
  "draw_building m v opacity wobble b = (let
       sway = nmul (Sin m (nmul wobble (bd_spin b))) (lit 8 100);
       color = building_colour (vp_light v) (or_colour (bd_color b) ''#22d3ee'');
       dot = edge_dot m v sway (bd_origin b)
     in [Fill_style (Colour color)]
        @ concat (map (\<lambda>ab. concat (map (\<lambda>i. draw_edge_dot v opacity (dot ab i)) [0..<16])) (bd_edges b))
        @ (if bd_edges b = [] then [] else draw_label v opacity color b (snd (dot (last (bd_edges b)) 0))))"

definition draw_buildings :: "maths \<Rightarrow> view_point \<Rightarrow> number \<Rightarrow> number \<Rightarrow> building list \<Rightarrow> draw list" where
  "draw_buildings m v opacity wobble bs = [Save, Alpha opacity] @ concat (map (draw_building m v opacity wobble) bs) @ [Restore]"

subsection \<open>A frame and the life of the component\<close>

definition glide :: "number \<Rightarrow> number \<Rightarrow> number" where
  "glide p target = nadd p (nmul (nsub target p) (lit 4 100))"

definition follow :: "network \<Rightarrow> network" where
  "follow s = s\<lparr>nw_pointer := (glide (fst (nw_pointer s)) (fst (nw_target s)), glide (snd (nw_pointer s)) (snd (nw_target s)))\<rparr>"

definition network_drawing :: "maths \<Rightarrow> gsap \<Rightarrow> bool \<Rightarrow> network \<Rightarrow> draw list" where
  \<comment> \<open>after the pointer has been followed and the streaks have drifted\<close>
  "network_drawing m gs isLight s = (let
       v = \<lparr>vp_light = isLight, vp_width = nw_width s, vp_height = nw_height s,
            vp_angle = nadd (gs_angle gs) (nmul (fst (nw_pointer s)) (lit 18 100)), vp_tilt = nmul (snd (nw_pointer s)) (nint 14)\<rparr>
     in draw_background isLight (nw_width s) (nw_height s)
        @ draw_stars m v (gs_time gs) (nw_stars s)
        @ draw_orbits m v (gs_rings gs) (fst (nw_pointer s)) (nw_streaks s)
        @ draw_clusters m v (gs_particles gs) (nw_clusters s)
        @ draw_buildings m v (gs_buildings gs) (gs_wobble gs) (nw_buildings s))"

definition network_render :: "maths \<Rightarrow> gsap \<Rightarrow> bool \<Rightarrow> network \<Rightarrow> err + network" where
  "network_render m gs isLight s = (let s1 = (follow s)\<lparr>nw_streaks := map drift (nw_streaks s)\<rparr> in
     case draws (network_drawing m gs isLight s1) (nw_canvas s) of
       Inl e \<Rightarrow> Inl e
     | Inr c \<Rightarrow> Inr (s1\<lparr>nw_canvas := c\<rparr>))"

definition network_resize :: "int \<Rightarrow> int \<Rightarrow> network \<Rightarrow> network" where
  "network_resize clientWidth clientHeight s = s\<lparr>nw_width := clientWidth, nw_height := clientHeight,
     nw_canvas := drawn (Set_transform (nw_dpr s) (nint 0) (nint 0) (nw_dpr s) (nint 0) (nint 0)) fresh_canvas\<rparr>"

definition pointer_target :: "number \<Rightarrow> int \<Rightarrow> number" where
  "pointer_target client size' = nsub (nmul (ndiv client (nint size')) (nint 2)) (nint 1)"

definition onPointerMove :: "number \<times> number \<Rightarrow> int \<times> int \<Rightarrow> network \<Rightarrow> network" where
  \<comment> \<open>the pointer's place in the window and the window's size\<close>
  "onPointerMove client window' s = s\<lparr>nw_target :=
     (pointer_target (fst client) (fst window'), pointer_target (snd client) (snd window'))\<rparr>"

definition network_mount :: "maths \<Rightarrow> ('g, 'n) d3 \<Rightarrow> number \<Rightarrow> int \<Rightarrow> int \<Rightarrow> network" where
  \<comment> \<open>the effect, where the canvas and its context exist\<close>
  "network_mount m d devicePixelRatio clientWidth clientHeight = network_resize clientWidth clientHeight \<lparr>nw_width = 0, nw_height = 0,
     nw_dpr = nmin (if ntruthy devicePixelRatio then devicePixelRatio else nint 1) (nint 2),
     nw_pointer = (nint 0, nint 0), nw_target = (nint 0, nint 0),
     nw_clusters = buildGeometricClusters m d, nw_buildings = network_buildings m,
     nw_stars = buildStars d 480 (nint 1400) (nint 900), nw_streaks = new_streaks d,
     nw_ticking = True, nw_tweens = True, nw_listening = True, nw_canvas = fresh_canvas\<rparr>"

definition network_unmount :: "network \<Rightarrow> network" where
  "network_unmount s = s\<lparr>nw_ticking := False, nw_tweens := False, nw_listening := False\<rparr>"

inductive network_step :: "maths \<Rightarrow> network \<Rightarrow> network \<Rightarrow> bool" for m where
  network_ticks: "nw_ticking s \<Longrightarrow> network_render m gs isLight s = Inr s' \<Longrightarrow> network_step m s s'"
| network_resizes: "nw_listening s \<Longrightarrow> 0 \<le> w \<Longrightarrow> w < 2 ^ 31 \<Longrightarrow> 0 \<le> h \<Longrightarrow> h < 2 ^ 31 \<Longrightarrow> network_step m s (network_resize w h s)"
| network_points: "nw_listening s \<Longrightarrow> 0 < w \<Longrightarrow> 0 < h \<Longrightarrow> lies 0 w x \<Longrightarrow> lies 0 h y \<Longrightarrow>
    network_step m s (onPointerMove (x, y) (w, h) s)"
| network_unmounts: "nw_listening s \<Longrightarrow> network_step m s (network_unmount s)"

inductive_cases network_stepE: "network_step m s s'"

subsection \<open>No frame throws\<close>

lemma fixed: "0 \<le> n \<Longrightarrow> n \<le> 2 * d \<Longrightarrow> 0 < d \<Longrightarrow> \<exists>q. lit n d = Fin q \<and> 0 \<le> q"
  using lies_lit [of 0 d n 2] by (auto simp: lies_def)

lemma safe_disc: "0 \<le> n \<Longrightarrow> n \<le> 2 * d \<Longrightarrow> 0 < d \<Longrightarrow> safe_draw (Arc x y (nmax r (lit n d)) a b)"
  using fixed [of n d] safe_arc_max by fastforce

lemma safe_parts:
  "list_all safe_draw (draw_star m v t s)" "list_all safe_draw (draw_spoke m l i)"
  "list_all safe_draw (network_streak_drawing m l c k)" "list_all safe_draw (draw_cloud_point m v o' col ctr pt)"
  "list_all safe_draw (draw_edge_dot v o' rp)" "list_all safe_draw (draw_label v o' col b p)"
  by (simp_all add: draw_star_def draw_spoke_def network_streak_drawing_def draw_cloud_point_def draw_edge_dot_def draw_label_def
      Let_def safe_disc split: prod.split)

lemma safe_concat: "(\<And>x. x \<in> set xs \<Longrightarrow> list_all safe_draw (f x)) \<Longrightarrow> list_all safe_draw (concat (map f xs))"
  by (induction xs) auto

lemma safe_groups:
  "list_all safe_draw (draw_stars m v t ss)" "list_all safe_draw (draw_clusters m v o' ks)"
  "list_all safe_draw (draw_buildings m v o' w bs)"
  by (auto simp: draw_stars_def draw_clusters_def draw_buildings_def draw_cluster_def draw_building_def Let_def
      intro!: safe_concat safe_parts)

lemma ring_safe:
  assumes "lies (- 2) 2 px" "(i, r) \<in> set (enumerate 0 ringRadii)"
  shows "list_all safe_draw (draw_ring l px (i, r))"
proof -
  have r: "0 \<le> r" "r \<le> 1260" using assms(2) by (auto simp: ringRadii_def enumerate_eq_zip)
  obtain x where x: "px = Fin x" "- 2 \<le> x" "x \<le> 2" using assms(1) by (auto simp: lies_def)
  have c: "lit 12 1000 = Fin (rnd (12 / 1000))" unfolding lit_def by (simp add: to_number_bounded)
  have "is_double (1 / 2)" using is_double_scaled [of 1 1] by simp
  then have c1: "0 \<le> rnd (12 / 1000)" "rnd (12 / 1000) \<le> 1 / 2"
    using rnd_nonneg [of "12 / 1000"] rnd_le [of "12 / 1000" "1 / 2"] by linarith+
  have "\<bar>x * rnd (12 / 1000)\<bar> \<le> 2 * (1 / 2)"
    unfolding abs_mult using x c1 by (intro mult_mono) (auto simp: abs_le_iff)
  then have "lies (- 1) 1 (nmul px (lit 12 1000))"
    unfolding x(1) c by (auto simp: abs_le_iff intro!: lies_to_number)
  from lies_nadd [OF _ this, of 1 1 "nint 1"] have one: "lies 0 2 (nadd (nint 1) (nmul px (lit 12 1000)))" by simp
  have radius: "lies 0 (1260 * 2) (nmul (nint r) (nadd (nint 1) (nmul px (lit 12 1000))))"
    using r one by (intro lies_nmul_nonneg) simp_all
  have "lies 0 1 (lit 98 100)" by (rule lies_lit) simp_all
  from lies_nmul_nonneg [OF radius this] have
    "lies 0 2520 (nmul (nmul (nint r) (nadd (nint 1) (nmul px (lit 12 1000)))) (lit 98 100))" by simp
  with radius show ?thesis
    by (auto simp: draw_ring_def Let_def safe_draw_def dest!: lies_nonneg)
qed

lemma orbits_safe:
  assumes "lies (- 2) 2 px" shows "list_all safe_draw (draw_orbits m v o' px ks)"
  using ring_safe [OF assms] safe_parts(2,3)
  by (auto simp: draw_orbits_def intro!: safe_concat split: prod.split)

lemma background_safe:
  assumes "0 \<le> w" "w < 2 ^ 31" "0 \<le> h" "h < 2 ^ 31"
  shows "list_all safe_draw (draw_background l w h)"
proof -
  have half: "lies 0 (2 ^ 31) (ndiv (nint n) (nint 2))" if "0 \<le> n" "n < 2 ^ 31" for n
    using that by (intro lies_ndiv) simp_all
  have "lies 0 (2 ^ 31) (nmax (nint w) (nint h))" using assms by simp
  moreover have "lies 0 1 (lit 8 10)" by (rule lies_lit) simp_all
  ultimately have "lies 0 (2 ^ 31 * 1) (nmul (nmax (nint w) (nint h)) (lit 8 10))" by (rule lies_nmul_nonneg) simp
  moreover have "lies 0 1 (lit 5 10)" by (rule lies_lit) simp_all
  moreover note half [OF assms(1,2)] half [OF assms(3,4)]
  ultimately show ?thesis
    unfolding draw_background_def Let_def
    by (auto simp: safe_fill_radial lies_def not_less simp del: nmax.simps ndiv.simps)
qed

lemma glide_bounds:
  assumes "lies (- 2) 2 p" "lies (- 1) 1 t"
  shows "lies (- 2) 2 (glide p t)"
proof -
  obtain x y where xy: "p = Fin x" "t = Fin y" "- 2 \<le> x" "x \<le> 2" "- 1 \<le> y" "y \<le> 1"
    using assms by (auto simp: lies_def)
  define c where "c = rnd (4 / 100)"
  have c: "lit 4 100 = Fin c" unfolding lit_def c_def by (simp add: to_number_bounded)
  have "is_double (1 / 4)" using is_double_scaled [of 1 2] by simp
  then have c1: "0 \<le> c" "c \<le> 1 / 4"
    unfolding c_def using rnd_nonneg [of "4 / 100"] rnd_le [of "4 / 100" "1 / 4"] by linarith+
  define d where "d = rnd (y - x)"
  have "lies (- 3) 3 (nsub t p)" using lies_nsub [OF assms(2,1)] by simp
  then have d: "nsub t p = Fin d" "\<bar>d\<bar> \<le> 3"
    using xy by (auto simp: nsub_def d_def to_number_bounded lies_def abs_le_iff)
  have "\<bar>d * c\<bar> \<le> 3 * (1 / 4)" unfolding abs_mult using d(2) c1 by (intro mult_mono) auto
  then have e1: "\<bar>d * c\<bar> \<le> 1" by simp
  then have e: "nmul (Fin d) (Fin c) = Fin (rnd (d * c))" by (simp add: to_number_bounded)
  have e2: "\<bar>rnd (d * c)\<bar> \<le> 1"
    using e1 rnd_le [of "d * c" 1] le_rnd [of "- 1" "d * c"] is_double_int [of 1] is_double_int [of "- 1"] by (simp add: abs_le_iff)
  have up: "x + rnd (d * c) \<le> 2"
  proof (cases "x \<le> 1")
    case False
    then have "d \<le> 0" using xy rnd_nonneg [of "x - y"] rnd_minus [of "x - y"] by (simp add: d_def)
    then have "d * c \<le> 0" using c1 by (simp add: mult_nonpos_nonneg)
    then have "rnd (d * c) \<le> 0" using rnd_mono [of "d * c" 0] by simp
    then show ?thesis using xy by simp
  qed (use e2 in \<open>simp add: abs_le_iff\<close>)
  have low: "- 2 \<le> x + rnd (d * c)"
  proof (cases "- 1 \<le> x")
    case False
    then have "0 \<le> d" using xy by (auto simp: d_def intro: rnd_nonneg)
    then have "0 \<le> rnd (d * c)" using c1 by (auto intro: rnd_nonneg)
    then show ?thesis using xy by simp
  qed (use e2 in \<open>simp add: abs_le_iff\<close>)
  show ?thesis unfolding glide_def d(1) c e unfolding xy(1) using up low by (auto intro!: lies_to_number)
qed

lemma target_bounds:
  assumes "0 < w" "lies 0 w x" shows "lies (- 1) 1 (pointer_target x w)"
proof -
  have "lies 0 1 (ndiv x (nint w))" using assms by (intro lies_ndiv) simp_all
  from lies_nmul_nonneg [OF this, of 2 "nint 2"] have "lies 0 2 (nmul (ndiv x (nint w)) (nint 2))" by simp
  from lies_nsub [OF this, of 1 1 "nint 1"] show ?thesis by (simp add: pointer_target_def)
qed

definition network_sound :: "network \<Rightarrow> bool" where
  "network_sound s \<longleftrightarrow> 0 \<le> nw_width s \<and> nw_width s < 2 ^ 31 \<and> 0 \<le> nw_height s \<and> nw_height s < 2 ^ 31
     \<and> lies (- 2) 2 (fst (nw_pointer s)) \<and> lies (- 2) 2 (snd (nw_pointer s))
     \<and> lies (- 1) 1 (fst (nw_target s)) \<and> lies (- 1) 1 (snd (nw_target s))"

lemma network_renders:
  assumes "network_sound s"
  shows "\<exists>s'. network_render m gs l s = Inr s'"
proof -
  define s1 where "s1 = (follow s)\<lparr>nw_streaks := map drift (nw_streaks s)\<rparr>"
  have p: "lies (- 2) 2 (fst (nw_pointer s1))"
    using assms by (simp add: s1_def follow_def network_sound_def glide_bounds)
  have "list_all safe_draw (draw_background l (nw_width s1) (nw_height s1))"
    using assms by (intro background_safe) (simp_all add: s1_def follow_def network_sound_def)
  then have "list_all safe_draw (network_drawing m gs l s1)"
    unfolding network_drawing_def Let_def list_all_append using safe_groups orbits_safe [OF p] by simp
  then obtain c where "draws (network_drawing m gs l s1) (nw_canvas s) = Inr c" using draws_iff by blast
  then show ?thesis by (simp add: network_render_def s1_def [symmetric])
qed

lemma network_sound_step: "network_step m s s' \<Longrightarrow> network_sound s \<Longrightarrow> network_sound s'"
proof (induction rule: network_step.induct)
  case (network_ticks s gs isLight s')
  then show ?case
    by (auto simp: network_render_def Let_def follow_def network_sound_def glide_bounds split: sum.splits)
qed (auto simp: network_sound_def network_resize_def onPointerMove_def network_unmount_def target_bounds)

lemma network_mount_sound: "0 \<le> w \<Longrightarrow> w < 2 ^ 31 \<Longrightarrow> 0 \<le> h \<Longrightarrow> h < 2 ^ 31 \<Longrightarrow> network_sound (network_mount m d r w h)"
  by (simp add: network_mount_def network_resize_def network_sound_def)

lemma network_never_throws:
  \<comment> \<open>whatever the package, the tweens and the functions of \<open>Math\<close> give\<close>
  assumes "0 \<le> w" "w < 2 ^ 31" "0 \<le> h" "h < 2 ^ 31" and "(network_step m)\<^sup>*\<^sup>* (network_mount m d r w h) s"
  shows "\<exists>s'. network_render m gs l s = Inr s'"
proof -
  have "network_sound s"
    using assms(5) network_mount_sound [OF assms(1-4)] network_sound_step
    by (induction rule: rtranclp_induct) blast+
  then show ?thesis by (rule network_renders)
qed

subsection \<open>Streaks\<close>

lemma drift_life:
  "ns_life (drift s) = NaN \<or> nless (nint (- 1)) (ns_life (drift s)) \<and> nless (ns_life (drift s)) (nint 1)"
proof -
  have "rem_one n = NaN \<or> nless (nint (- 1)) (rem_one n) \<and> nless (rem_one n) (nint 1)" for n
  proof (cases n)
    case (Fin x)
    have "0 \<le> x - of_int \<lfloor>x\<rfloor>" "x - of_int \<lfloor>x\<rfloor> < 1" "x - of_int \<lceil>x\<rceil> \<le> 0" "- 1 < x - of_int \<lceil>x\<rceil>" by linarith+
    then have "- 1 < x - of_int \<lfloor>x\<rfloor> \<and> x - of_int \<lfloor>x\<rfloor> < 1 \<and> - 1 < x - of_int \<lceil>x\<rceil> \<and> x - of_int \<lceil>x\<rceil> < 1" by linarith
    then show ?thesis using Fin by simp
  qed simp_all
  then show ?thesis by (simp add: drift_def)
qed

lemma dark_streaks_do_not_fade:
  \<comment> \<open>every streak has a colour, so in the dark theme the opacity that is computed for it is not used\<close>
  "k \<in> set (new_streaks d) \<Longrightarrow> or_colour (ns_color k) faded = the (ns_color k)"
  by (auto simp: new_streaks_def new_streak_def or_colour_def streakColors_def nth_Cons split: nat.splits)

subsection \<open>Every frame starts alike\<close>

lemma flat_concat: "(\<And>x. x \<in> set xs \<Longrightarrow> list_all flat (f x)) \<Longrightarrow> list_all flat (concat (map f xs))"
  by (induction xs) auto

lemma flat_parts:
  "list_all flat (draw_star m v t s)" "list_all flat (draw_spoke m l i)" "list_all flat (draw_ring l px ir)"
  "list_all flat (network_streak_drawing m l c k)" "list_all flat (draw_cloud_point m v o' col ctr pt)"
  "list_all flat (draw_edge_dot v o' rp)" "list_all flat (draw_label v o' col b p)"
  by (simp_all add: draw_star_def draw_spoke_def draw_ring_def network_streak_drawing_def draw_cloud_point_def draw_edge_dot_def
      draw_label_def Let_def split: prod.split)

lemma network_groups_bracketed:
  "bracketed (draw_stars m v t ss)" "bracketed (draw_orbits m v o' px ks)"
  "bracketed (draw_clusters m v o' cs)" "bracketed (draw_buildings m v o' w bs)"
  unfolding bracketed_def draw_stars_def draw_orbits_def draw_clusters_def draw_buildings_def
  by (auto simp: draw_cluster_def draw_building_def Let_def intro!: flat_concat flat_parts
      exI [of _ "concat (map (draw_star m v t) ss)"] exI [of _ "Alpha o' # concat (map (draw_cluster m v o') cs)"]
      exI [of _ "Alpha o' # concat (map (draw_building m v o' w) bs)"]
      exI [of _ "Alpha o' # Translate (ndiv (nint (vp_width v)) (nint 2))
          (nsub (ndiv (nint (vp_height v)) (nint 2)) (nmul (vp_tilt v) (lit 4 10))) # Rotate (nmul (vp_angle v) (lit 5 100))
        # concat (map (draw_ring (vp_light v) px) (enumerate 0 ringRadii)) @ concat (map (draw_spoke m (vp_light v)) [0..<24])
        @ concat (map (network_streak_drawing m (vp_light v) (vp_angle v)) ks)"])

lemma network_pen:
  \<comment> \<open>a frame leaves the background gradient as the fill and nothing else, the coordinate system included\<close>
  assumes "draws (network_drawing m gs l s) c = Inr c'"
  shows "cv_pen c' = (cv_pen c)\<lparr>pen_fill := pen_fill (cv_pen c')\<rparr> \<and> cv_stack c' = cv_stack c"
proof -
  obtain dss where dss: "network_drawing m gs l s = draw_background l (nw_width s) (nw_height s) @ concat dss"
    and br: "list_all bracketed dss"
  proof -
    define v where "v = \<lparr>vp_light = l, vp_width = nw_width s, vp_height = nw_height s,
      vp_angle = nadd (gs_angle gs) (nmul (fst (nw_pointer s)) (lit 18 100)), vp_tilt = nmul (snd (nw_pointer s)) (nint 14)\<rparr>"
    show thesis
      by (rule that [of "[draw_stars m v (gs_time gs) (nw_stars s), draw_orbits m v (gs_rings gs) (fst (nw_pointer s)) (nw_streaks s),
          draw_clusters m v (gs_particles gs) (nw_clusters s), draw_buildings m v (gs_buildings gs) (gs_wobble gs) (nw_buildings s)]"])
        (simp_all add: network_drawing_def Let_def v_def network_groups_bracketed)
  qed
  obtain c1 where c1: "draws (draw_background l (nw_width s) (nw_height s)) c = Inr c1" and c2: "draws (concat dss) c1 = Inr c'"
    using assms unfolding dss draws_append by (auto split: sum.splits)
  have "cv_pen c1 = (cv_pen c)\<lparr>pen_fill := pen_fill (cv_pen c1)\<rparr> \<and> cv_stack c1 = cv_stack c"
    using c1 unfolding draw_background_def Let_def by (auto simp: with_pen_def marked_def split: option.splits if_splits)
  with draws_brackets [OF br c2] show ?thesis by simp
qed

lemma network_released: "network_step m (network_unmount s) s' \<Longrightarrow> False"
  by (auto simp: network_unmount_def elim!: network_stepE)

subsection \<open>The background through its life\<close>

definition placed_pen :: "number \<Rightarrow> pen" where
  \<comment> \<open>the pen a new size leaves\<close>
  "placed_pen dpr = cv_pen (drawn (Set_transform dpr (nint 0) (nint 0) dpr (nint 0) (nint 0)) fresh_canvas)"

definition network_clean :: "network \<Rightarrow> bool" where
  "network_clean s \<longleftrightarrow> cv_stack (nw_canvas s) = []
     \<and> cv_pen (nw_canvas s) = (placed_pen (nw_dpr s))\<lparr>pen_fill := pen_fill (cv_pen (nw_canvas s))\<rparr>"

lemma network_render_clean:
  assumes "network_render m gs l s = Inr s'" and "network_clean s"
  shows "network_clean s'"
proof -
  obtain c s1 where c: "draws (network_drawing m gs l s1) (nw_canvas s) = Inr c" and s': "nw_canvas s' = c" "nw_dpr s' = nw_dpr s"
    using assms(1) unfolding network_render_def Let_def by (auto simp: follow_def split: sum.splits)
  define P where "P = placed_pen (nw_dpr s)"
  define k where "k = pen_fill (cv_pen (nw_canvas s))"
  define f where "f = pen_fill (cv_pen c)"
  have "cv_pen (nw_canvas s) = P\<lparr>pen_fill := k\<rparr>" "cv_stack (nw_canvas s) = []"
    using assms(2) by (simp_all add: network_clean_def P_def k_def)
  with network_pen [OF c, folded f_def] have "cv_pen c = P\<lparr>pen_fill := f\<rparr>" "cv_stack c = []" by simp_all
  then show ?thesis by (simp add: network_clean_def s' P_def f_def)
qed

lemma network_resize_clean: "network_clean (network_resize w h s)"
  by (simp add: network_resize_def network_clean_def placed_pen_def with_pen_def fresh_canvas_def fresh_pen_def)

lemma network_clean_step: "network_step m s s' \<Longrightarrow> network_clean s \<Longrightarrow> network_clean s'"
proof (induction rule: network_step.induct)
  case (network_ticks s gs isLight s')
  then show ?case by (blast intro: network_render_clean)
next
  case (network_resizes s w h)
  show ?case by (rule network_resize_clean)
qed (simp_all add: network_clean_def onPointerMove_def network_unmount_def)

text \<open>
  C39: The background of the sign-in page never fails and never drifts. After any sequence of frames, pointer moves inside the
  window and changes of its size, the next frame is drawn without an exception, whatever the random package, the tweens and
  the mathematical functions give; it leaves no saved drawing state behind, and the pen as setting the size left it except for the
  fill, so every frame starts from the same coordinate system, opacity and glow.
\<close>

theorem network_frames:
  assumes "0 \<le> w" "w < 2 ^ 31" "0 \<le> h" "h < 2 ^ 31" and "(network_step m)\<^sup>*\<^sup>* (network_mount m d r w h) s"
  shows "\<exists>s'. network_render m gs l s = Inr s' \<and> cv_stack (nw_canvas s') = []
    \<and> cv_pen (nw_canvas s') = (placed_pen (nw_dpr s'))\<lparr>pen_fill := pen_fill (cv_pen (nw_canvas s'))\<rparr>"
proof -
  have "network_clean s"
    using assms(5)
  proof (induction rule: rtranclp_induct)
    case base
    show ?case unfolding network_mount_def by (rule network_resize_clean)
  next
    case (step s1 s2)
    then show ?case by (blast intro: network_clean_step)
  qed
  moreover obtain s' where "network_render m gs l s = Inr s'" using network_never_throws [OF assms] by blast
  ultimately show ?thesis using network_render_clean unfolding network_clean_def by blast
qed

definition even_d3 :: "(unit, unit) d3" where
  \<comment> \<open>one choice of the packages\<close>
  "even_d3 = \<lparr>randomLcg = \<lambda>_. (), randomUniform = \<lambda>a b g. (a, g), randomNormal = \<lambda>_ _. (), normalNext = \<lambda>n g. (nint 0, n, g)\<rparr>"

definition shown_gsap :: gsap where
  "shown_gsap = \<lparr>gs_time = nint 2, gs_rings = nint 1, gs_particles = nint 1, gs_buildings = nint 1, gs_angle = nint 0, gs_wobble = nint 0\<rparr>"

lemma network_frames_witness:
  "\<exists>s'. network_render flat_maths shown_gsap True (network_mount flat_maths even_d3 (nint 1) 1280 720) = Inr s'
    \<and> cv_stack (nw_canvas s') = []"
  using network_frames [of 1280 720 flat_maths even_d3 "nint 1" "network_mount flat_maths even_d3 (nint 1) 1280 720" shown_gsap True]
  by auto

end
