(* ===== verification/ThreeScene.thy ===== *)
theory ThreeScene
  imports Canvas Embedding
begin

text \<open>
  \<open>components/3d/ThreeBackground.tsx\<close>, a field of points with two bodies that turn, and \<open>GradientMesh.tsx\<close>, its replacement without a
  canvas. Of the package \<open>three\<close> the code computes with \<open>Color\<close> only: a colour from its notation and the mixture of two are the
  parameters \<open>colour\<close> and \<open>lerp\<close>. The scene is what the code changes of its objects, their constant parameters are left
  out; the objects it has to give back are a list.
\<close>

subsection \<open>The field of points\<close>

definition rnd32 :: "rat \<Rightarrow> rat" where
  "rnd32 x = (let e = max (ilog2 \<bar>x\<bar> - 23) (- 149) in if x = 0 then 0 else of_int (rhe (x / pow2 e)) * pow2 e)"

fun to_float32 :: "number \<Rightarrow> number" where
  \<comment> \<open>a number stored in a \<open>Float32Array\<close>\<close>
  "to_float32 (Fin x) = (let r = rnd32 x in if 2 ^ 128 \<le> r then PosInf else if r \<le> - (2 ^ 128) then NegInf else Fin r)"
| "to_float32 n = n"

type_synonym rgb = "number \<times> number \<times> number"

definition point_position :: "(nat \<Rightarrow> number) \<Rightarrow> nat \<Rightarrow> number list" where
  \<comment> \<open>the \<open>i\<close>-th point takes four random numbers\<close>
  "point_position rand i = map to_float32 [
     nmul (nsub (rand (4 * i)) (lit 5 10)) (nint 300),
     nmul (nsub (rand (4 * i + 1)) (lit 5 10)) (nint 200),
     nmul (nsub (rand (4 * i + 2)) (lit 5 10)) (nint 150)]"

definition point_color :: "(string \<Rightarrow> rgb) \<Rightarrow> (rgb \<Rightarrow> rgb \<Rightarrow> number \<Rightarrow> rgb) \<Rightarrow> (nat \<Rightarrow> number) \<Rightarrow> nat \<Rightarrow> number list" where
  "point_color colour lerp rand i = (let
       cyanColor = colour ''#38bdf8''; indigoColor = colour ''#818cf8''; purpleColor = colour ''#c084fc'';
       r = rand (4 * i + 3);
       mixed = (if nless r (lit 5 10) then lerp cyanColor indigoColor (nmul r (nint 2))
                else lerp indigoColor purpleColor (nmul (nsub r (lit 5 10)) (nint 2)))
     in map to_float32 [fst mixed, fst (snd mixed), snd (snd mixed)])"

subsection \<open>The scene\<close>

datatype resource = Geometry | Material | Ico_geometry | Ico_material | Torus_geometry | Torus_material | Renderer | Dom_element
  | Mouse_listener | Resize_listener | Frame

record three =
  th_positions :: "number list"
  th_colors :: "number list"
  th_mouse :: "number \<times> number"
  th_target :: "number \<times> number"
  th_camera :: "number \<times> number"
  th_aspect :: number
  th_size :: "int \<times> int"
  th_pixelRatio :: number
  th_particles :: "number \<times> number"         \<comment> \<open>\<open>rotation.x\<close> and \<open>rotation.y\<close>\<close>
  th_ico :: "number \<times> number"
  th_torus :: "number \<times> number \<times> number"
  th_held :: "resource list"

definition animate :: "number \<Rightarrow> three \<Rightarrow> three" where
  "animate elapsedTime s = (let
       targetX = nadd (fst (th_target s)) (nmul (nsub (fst (th_mouse s)) (fst (th_target s))) (lit 5 100));
       targetY = nadd (snd (th_target s)) (nmul (nsub (snd (th_mouse s)) (snd (th_target s))) (lit 5 100))
     in s\<lparr>th_target := (targetX, targetY),
          th_camera := (nmul targetX (lit 5 10), nmul (nneg targetY) (lit 5 10)),
          th_particles := (nmul elapsedTime (lit 2 100), nmul elapsedTime (lit 4 100)),
          th_ico := (nmul elapsedTime (lit 8 100), nmul elapsedTime (lit 6 100)),
          th_torus := (fst (th_torus s), nmul elapsedTime (lit 3 100), nmul elapsedTime (lit 5 100)),
          th_held := List.insert Frame (th_held s)\<rparr>)"

definition three_mount :: "(string \<Rightarrow> rgb) \<Rightarrow> (rgb \<Rightarrow> rgb \<Rightarrow> number \<Rightarrow> rgb) \<Rightarrow> (nat \<Rightarrow> number) \<Rightarrow> nat \<Rightarrow> int \<Rightarrow> int \<Rightarrow> number \<Rightarrow> number \<Rightarrow> three" where
  \<comment> \<open>the effect, where the container exists; the last argument is the clock at the first frame\<close>
  "three_mount colour lerp rand particleCount innerWidth innerHeight devicePixelRatio elapsedTime = animate elapsedTime \<lparr>
     th_positions = concat (map (point_position rand) [0..<particleCount]),
     th_colors = concat (map (point_color colour lerp rand) [0..<particleCount]),
     th_mouse = (nint 0, nint 0), th_target = (nint 0, nint 0), th_camera = (nint 0, nint 0),
     th_aspect = ndiv (nint innerWidth) (nint innerHeight), th_size = (innerWidth, innerHeight),
     th_pixelRatio = nmin devicePixelRatio (nint 2),
     th_particles = (nint 0, nint 0), th_ico = (nint 0, nint 0), th_torus = (ndiv Pi (nint 4), nint 0, nint 0),
     th_held = [Renderer, Dom_element, Geometry, Material, Ico_geometry, Ico_material, Torus_geometry, Torus_material,
       Mouse_listener, Resize_listener]\<rparr>"

definition three_mouse :: "bool \<Rightarrow> int \<Rightarrow> int \<Rightarrow> number \<times> number \<Rightarrow> three \<Rightarrow> three" where
  "three_mouse interactive innerWidth innerHeight client s = (if \<not> interactive then s else s\<lparr>th_mouse :=
     (nmul (nsub (fst client) (ndiv (nint innerWidth) (nint 2))) (lit 5 100),
      nmul (nsub (snd client) (ndiv (nint innerHeight) (nint 2))) (lit 5 100))\<rparr>)"

definition three_resize :: "int \<Rightarrow> int \<Rightarrow> three \<Rightarrow> three" where
  "three_resize innerWidth innerHeight s =
     s\<lparr>th_aspect := ndiv (nint innerWidth) (nint innerHeight), th_size := (innerWidth, innerHeight)\<rparr>"

definition three_unmount :: "three \<Rightarrow> three" where
  "three_unmount s = s\<lparr>th_held := fold remove1 [Mouse_listener, Resize_listener, Frame, Dom_element, Geometry, Material, Ico_geometry,
     Ico_material, Torus_geometry, Torus_material, Renderer] (th_held s)\<rparr>"

inductive three_step :: "bool \<Rightarrow> three \<Rightarrow> three \<Rightarrow> bool" for interactive where
  three_frame: "Frame \<in> set (th_held s) \<Longrightarrow> three_step interactive s (animate e s)"
| three_moves: "Mouse_listener \<in> set (th_held s) \<Longrightarrow> three_step interactive s (three_mouse interactive w h c s)"
| three_resizes: "Resize_listener \<in> set (th_held s) \<Longrightarrow> three_step interactive s (three_resize w h s)"

inductive_cases three_stepE: "three_step interactive s s'"

definition ThreeBackground :: "'a view" where
  "ThreeBackground = node ''div'' []"

definition GradientMesh :: "'a view" where
  "GradientMesh = each [
     el ''div'' [(''className'', Inr (Str ''gradient-mesh''))] [] [
       el ''div'' [(''className'', Inr (Str ''gradient-orb gradient-orb-1''))] [] [],
       el ''div'' [(''className'', Inr (Str ''gradient-orb gradient-orb-2''))] [] [],
       el ''div'' [(''className'', Inr (Str ''gradient-orb gradient-orb-3''))] [] []],
     el ''div'' [(''className'', Inr (Str ''grain-overlay''))] [] []] (\<lambda>v. v)"

subsection \<open>Lemmas\<close>

definition held_all :: "resource list" where
  "held_all = [Frame, Renderer, Dom_element, Geometry, Material, Ico_geometry, Ico_material, Torus_geometry, Torus_material,
     Mouse_listener, Resize_listener]"

lemma three_held:
  assumes "(three_step interactive)\<^sup>*\<^sup>* (three_mount colour lerp rand n w h r e) s"
  shows "th_held s = held_all"
  using assms
proof (induction rule: rtranclp_induct)
  case base
  then show ?case by (simp add: three_mount_def animate_def Let_def held_all_def)
next
  case (step s1 s2)
  from step.hyps(2) step.IH show ?case
    by cases (auto simp: animate_def Let_def three_mouse_def three_resize_def held_all_def)
qed

lemma three_gives_back:
  \<comment> \<open>whatever was created on the graphics card, the listeners and the frame are gone after the unmount\<close>
  "(three_step interactive)\<^sup>*\<^sup>* (three_mount colour lerp rand n w h r e) s \<Longrightarrow> th_held (three_unmount s) = []"
  by (drule three_held) (simp add: three_unmount_def held_all_def)

lemma three_still:
  \<comment> \<open>without interaction the camera does not move\<close>
  assumes "(three_step False)\<^sup>*\<^sup>* (three_mount colour lerp rand n w h r e) s"
  shows "th_camera s = (nint 0, nint 0)"
proof -
  have z: "to_number 0 = Fin 0" using to_number_int [of 0] by simp
  have l: "nmul (Fin 0) (lit 5 100) = Fin 0" "nmul (Fin 0) (lit 5 10) = Fin 0"
    by (simp_all add: lit_def to_number_bounded z)
  have "th_camera s = (nint 0, nint 0) \<and> th_target s = (nint 0, nint 0) \<and> th_mouse s = (nint 0, nint 0)"
    using assms
  proof (induction rule: rtranclp_induct)
    case base
    show ?case by (simp add: three_mount_def animate_def Let_def nsub_def z l)
  next
    case (step s1 s2)
    from step.hyps(2) step.IH show ?case
      by cases (simp_all add: animate_def Let_def nsub_def z l three_mouse_def three_resize_def)
  qed
  then show ?thesis ..
qed

lemma three_fields:
  "length (concat (map (point_position rand) [0..<n])) = 3 * n" "length (concat (map (point_color colour lerp rand) [0..<n])) = 3 * n"
  by (induction n) (simp_all add: point_position_def point_color_def Let_def)

lemma mesh_renders [simp]: "renders GradientMesh" "renders ThreeBackground"
  unfolding GradientMesh_def ThreeBackground_def by (simp_all add: view_simps)

end
